(* ===== verification/Prelude.thy ===== *)
theory Prelude
  imports Main
begin

text \<open>
  The shared vocabulary of the development: programs that thread a state and may raise
  (\<open>prog\<close>), the combinators the service code is written with, a small calculus for
  properties every run of a program keeps, and generic lemmas on tables represented as lists
  of rows. Component theories declare their symbolic-execution equations into
  \<open>run_simps\<close> and their preservation rules into \<open>within_intros\<close>.
\<close>

named_theorems run_simps \<open>equations that execute a program symbolically\<close>
named_theorems within_intros \<open>introduction rules for the effect calculus\<close>

section \<open>Programs with state and exceptions\<close>

text \<open>
  An \<open>async def\<close> of the services is a program: it reads and changes the state of the
  process and either returns a value (\<open>Inr\<close>) or raises (\<open>Inl\<close>). A raise keeps the
  state changes made before it, as Python does; what a database session undoes is
  written explicitly where the code closes or rolls back a session.
\<close>

type_synonym ('s, 'e, 'a) prog = "'s \<Rightarrow> ('e + 'a) \<times> 's"

definition ret :: "'a \<Rightarrow> ('s, 'e, 'a) prog" where
  "ret a = (\<lambda>s. (Inr a, s))"

definition raise :: "'e \<Rightarrow> ('s, 'e, 'a) prog" where
  "raise e = (\<lambda>s. (Inl e, s))"

definition bindE :: "('s, 'e, 'a) prog \<Rightarrow> ('a \<Rightarrow> ('s, 'e, 'b) prog) \<Rightarrow> ('s, 'e, 'b) prog" where
  "bindE p f = (\<lambda>s. case p s of (Inl e, s') \<Rightarrow> (Inl e, s') | (Inr a, s') \<Rightarrow> f a s')"

definition thenE :: "('s, 'e, 'a) prog \<Rightarrow> ('s, 'e, 'b) prog \<Rightarrow> ('s, 'e, 'b) prog" where
  "thenE p q = bindE p (\<lambda>_. q)"

definition reads :: "('s \<Rightarrow> 'a) \<Rightarrow> ('s, 'e, 'a) prog" where
  "reads f = (\<lambda>s. (Inr (f s), s))"

definition modify :: "('s \<Rightarrow> 's) \<Rightarrow> ('s, 'e, unit) prog" where
  "modify f = (\<lambda>s. (Inr (), f s))"

definition whenE :: "bool \<Rightarrow> ('s, 'e, unit) prog \<Rightarrow> ('s, 'e, unit) prog" where
  "whenE b p = (if b then p else ret ())"

text \<open>\<open>try: p except ...: h\<close>: the handler sees the exception in the state the raise left.\<close>

definition tryE :: "('s, 'e, 'a) prog \<Rightarrow> ('e \<Rightarrow> ('s, 'e, 'a) prog) \<Rightarrow> ('s, 'e, 'a) prog" where
  "tryE p h = (\<lambda>s. case p s of (Inl e, s') \<Rightarrow> h e s' | (Inr a, s') \<Rightarrow> (Inr a, s'))"

primrec forE :: "'x list \<Rightarrow> ('x \<Rightarrow> ('s, 'e, unit) prog) \<Rightarrow> ('s, 'e, unit) prog" where
  "forE [] f = ret ()"
| "forE (x # xs) f = thenE (f x) (forE xs f)"

lemma run_ret [simp]: "ret a s = (Inr a, s)"
  by (simp add: ret_def)

lemma run_raise [simp]: "raise e s = (Inl e, s)"
  by (simp add: raise_def)

lemma run_reads [simp]: "reads f s = (Inr (f s), s)"
  by (simp add: reads_def)

lemma run_modify [simp]: "modify f s = (Inr (), f s)"
  by (simp add: modify_def)

lemma run_whenE [simp]: "whenE b p s = (if b then p s else (Inr (), s))"
  by (simp add: whenE_def)

lemma run_bindE:
  "bindE p f s = (case p s of (Inl e, s') \<Rightarrow> (Inl e, s') | (Inr a, s') \<Rightarrow> f a s')"
  by (simp add: bindE_def)

lemma run_bindE_Inr [simp]: "p s = (Inr a, s') \<Longrightarrow> bindE p f s = f a s'"
  by (simp add: bindE_def)

lemma run_bindE_Inl [simp]: "p s = (Inl e, s') \<Longrightarrow> bindE p f s = (Inl e, s')"
  by (simp add: bindE_def)

lemma run_thenE_Inr [simp]: "p s = (Inr a, s') \<Longrightarrow> thenE p q s = q s'"
  by (simp add: thenE_def)

lemma run_thenE_Inl [simp]: "p s = (Inl e, s') \<Longrightarrow> thenE p q s = (Inl e, s')"
  by (simp add: thenE_def)

lemma run_tryE_Inr [simp]: "p s = (Inr a, s') \<Longrightarrow> tryE p h s = (Inr a, s')"
  by (simp add: tryE_def)

lemma run_tryE_Inl [simp]: "p s = (Inl e, s') \<Longrightarrow> tryE p h s = h e s'"
  by (simp add: tryE_def)

text \<open>Inversion: how a composed program can have returned or raised.\<close>

lemma bindE_InrE:
  assumes "bindE p f s = (Inr b, t)"
  obtains a s' where "p s = (Inr a, s')" and "f a s' = (Inr b, t)"
  using assms by (auto simp: bindE_def split: prod.splits sum.splits)

lemma thenE_InrE:
  assumes "thenE p q s = (Inr b, t)"
  obtains a s' where "p s = (Inr a, s')" and "q s' = (Inr b, t)"
  using assms by (auto simp: thenE_def elim: bindE_InrE)

lemma bindE_InlE:
  assumes "bindE p f s = (Inl e, t)"
  obtains (left) "p s = (Inl e, t)"
  | (right) a s' where "p s = (Inr a, s')" and "f a s' = (Inl e, t)"
  using assms by (auto simp: bindE_def split: prod.splits sum.splits)

lemma thenE_InlE:
  assumes "thenE p q s = (Inl e, t)"
  obtains (left) "p s = (Inl e, t)"
  | (right) a s' where "p s = (Inr a, s')" and "q s' = (Inl e, t)"
  using assms by (auto simp: thenE_def elim: bindE_InlE)

section \<open>An effect calculus\<close>

text \<open>
  \<open>within R p\<close>: whatever \<open>p\<close> does and however it ends, the states before and after
  are related by \<open>R\<close>. For a reflexive and transitive \<open>R\<close> the property is closed under
  every combinator, so it is proved once per primitive and lifted to whole handlers by
  \<open>within_intros\<close>. Invariants and monotonicity properties are both of this form.
\<close>

definition within :: "('s \<Rightarrow> 's \<Rightarrow> bool) \<Rightarrow> ('s, 'e, 'a) prog \<Rightarrow> bool" where
  "within R p \<longleftrightarrow> (\<forall>s. R s (snd (p s)))"

lemma withinI: "(\<And>s. R s (snd (p s))) \<Longrightarrow> within R p"
  by (simp add: within_def)

lemma withinD: "within R p \<Longrightarrow> R s (snd (p s))"
  by (simp add: within_def)

lemma within_run: "within R p \<Longrightarrow> p s = (r, t) \<Longrightarrow> R s t"
  using withinD [of R p s] by simp

locale effect =
  fixes R :: "'s \<Rightarrow> 's \<Rightarrow> bool"
  assumes refl: "R s s"
    and trans: "R s t \<Longrightarrow> R t u \<Longrightarrow> R s u"
begin

lemma within_ret: "within R (ret a)"
  by (simp add: within_def refl)

lemma within_raise: "within R (raise e)"
  by (simp add: within_def refl)

lemma within_reads: "within R (reads f)"
  by (simp add: within_def refl)

lemma within_modify: "(\<And>s. R s (f s)) \<Longrightarrow> within R (modify f)"
  by (simp add: within_def)

lemma within_bindE:
  assumes "within R p" and "\<And>a. within R (f a)"
  shows "within R (bindE p f)"
proof (rule withinI)
  fix s
  show "R s (snd (bindE p f s))"
  proof (cases "p s")
    case (Pair r s')
    with assms(1) have "R s s'" by (rule within_run)
    with Pair assms(2) show ?thesis
      by (cases r) (auto intro: trans withinD)
  qed
qed

lemma within_thenE: "within R p \<Longrightarrow> within R q \<Longrightarrow> within R (thenE p q)"
  by (simp add: thenE_def within_bindE)

lemma within_whenE: "within R p \<Longrightarrow> within R (whenE b p)"
  by (simp add: whenE_def within_ret)

lemma within_tryE:
  assumes "within R p" and "\<And>e. within R (h e)"
  shows "within R (tryE p h)"
proof (rule withinI)
  fix s
  show "R s (snd (tryE p h s))"
  proof (cases "p s")
    case (Pair r s')
    with assms(1) have "R s s'" by (rule within_run)
    with Pair assms(2) show ?thesis
      by (cases r) (auto intro: trans withinD)
  qed
qed

lemma within_forE: "(\<And>x. within R (f x)) \<Longrightarrow> within R (forE xs f)"
  by (induction xs) (simp_all add: within_ret within_thenE)

lemma within_if: "within R p \<Longrightarrow> within R q \<Longrightarrow> within R (if b then p else q)"
  by simp

lemma within_option:
  "within R p \<Longrightarrow> (\<And>x. within R (f x)) \<Longrightarrow>
   within R (case m of None \<Rightarrow> p | Some x \<Rightarrow> f x)"
  by (simp split: option.split)

lemma within_sum:
  "(\<And>x. within R (f x)) \<Longrightarrow> (\<And>y. within R (g y)) \<Longrightarrow>
   within R (case m of Inl x \<Rightarrow> f x | Inr y \<Rightarrow> g y)"
  by (simp split: sum.split)

lemma within_prod: "(\<And>x y. within R (f x y)) \<Longrightarrow> within R (case m of (x, y) \<Rightarrow> f x y)"
  by (simp split: prod.split)

lemma within_list:
  "within R p \<Longrightarrow> (\<And>x xs. within R (f x xs)) \<Longrightarrow>
   within R (case m of [] \<Rightarrow> p | x # xs \<Rightarrow> f x xs)"
  by (simp split: list.split)

lemma within_let: "(\<And>x. within R (f x)) \<Longrightarrow> within R (let x = m in f x)"
  by simp

lemmas within_rules =
  within_ret within_raise within_reads within_bindE within_thenE within_whenE within_tryE
  within_forE within_if within_option within_sum within_prod within_list within_let

end

section \<open>Tables as lists of rows\<close>

text \<open>
  A table is the list of its rows in insertion order. \<open>update_where P f\<close> is
  \<open>UPDATE ... WHERE P\<close>, \<open>filter\<close> is \<open>SELECT\<close> and \<open>DELETE\<close>.
\<close>

definition update_where :: "('r \<Rightarrow> bool) \<Rightarrow> ('r \<Rightarrow> 'r) \<Rightarrow> 'r list \<Rightarrow> 'r list" where
  "update_where P f rows = map (\<lambda>r. if P r then f r else r) rows"

lemma length_update_where [simp]: "length (update_where P f rows) = length rows"
  by (simp add: update_where_def)

lemma set_update_where: "set (update_where P f rows) = (\<lambda>r. if P r then f r else r) ` set rows"
  by (simp add: update_where_def)

lemma ball_update_where:
  "(\<forall>x \<in> set (update_where P f rows). Q x) \<longleftrightarrow> (\<forall>x \<in> set rows. Q (if P x then f x else x))"
  by (simp only: set_update_where Set.ball_simps)

lemma bex_update_where:
  "(\<exists>x \<in> set (update_where P f rows). Q x) \<longleftrightarrow> (\<exists>x \<in> set rows. Q (if P x then f x else x))"
  by (simp only: set_update_where Set.bex_simps)

lemma update_where_Nil [simp]: "update_where P f [] = []"
  by (simp add: update_where_def)

lemma update_where_Cons [simp]:
  "update_where P f (r # rows) = (if P r then f r else r) # update_where P f rows"
  by (simp add: update_where_def)

lemma update_where_append [simp]:
  "update_where P f (xs @ ys) = update_where P f xs @ update_where P f ys"
  by (simp add: update_where_def)

lemma map_update_where_same:
  "(\<And>r. P r \<Longrightarrow> g (f r) = g r) \<Longrightarrow> map g (update_where P f rows) = map g rows"
  by (induction rows) auto

lemma image_update_where_same:
  "(\<And>r. P r \<Longrightarrow> g (f r) = g r) \<Longrightarrow> g ` set (update_where P f rows) = g ` set rows"
  by (metis list.set_map map_update_where_same)

lemma update_where_None: "(\<And>r. r \<in> set rows \<Longrightarrow> \<not> P r) \<Longrightarrow> update_where P f rows = rows"
  by (induction rows) auto

text \<open>A selection that neither the rows before nor after an update meet does not see it.\<close>

lemma filter_update_where_out:
  "(\<And>x. x \<in> set rows \<Longrightarrow> P x \<Longrightarrow> \<not> Q x \<and> \<not> Q (f x)) \<Longrightarrow>
   filter Q (update_where P f rows) = filter Q rows"
  by (induction rows) auto

text \<open>Lookup by a key that is unique in the table.\<close>

lemma filter_key_distinct:
  assumes "distinct (map key rows)" and "r \<in> set rows"
  shows "filter (\<lambda>x. key x = key r) rows = [r]"
  using assms
proof (induction rows)
  case Nil
  then show ?case by simp
next
  case (Cons x xs)
  show ?case
  proof (cases "r = x")
    case True
    with Cons.prems have "filter (\<lambda>y. key y = key r) xs = []"
      by (auto simp: filter_empty_conv) (metis image_eqI)
    with True show ?thesis by simp
  next
    case False
    with Cons.prems have "r \<in> set xs" and "key x \<noteq> key r" by auto
    with Cons show ?thesis by simp
  qed
qed

lemma distinct_key_eq:
  "distinct (map key rows) \<Longrightarrow> r \<in> set rows \<Longrightarrow> r' \<in> set rows \<Longrightarrow> key r = key r' \<Longrightarrow> r = r'"
  by (metis filter_key_distinct list.inject)

lemma find_SomeD: "find P xs = Some x \<Longrightarrow> P x \<and> x \<in> set xs"
  by (induction xs) (auto split: if_splits)

end
