(* ===== verification/Py_String.thy ===== *)
theory Py_String
  imports Prelude "HOL-Library.Word"
begin

text \<open>
  What the services use of Python's \<open>str\<close>, \<open>int\<close> and \<open>uuid\<close>: case mapping,
  stripping, splitting, prefixes, substring replacement, decimal and hexadecimal text, and
  the textual form of a \<open>UUID\<close> with its parser. Characters are the code points below
  256 (Latin-1), where Python's whitespace and lower-case tables are the ones written here.
  The main result is the round trip \<open>UUID(str(u)) = u\<close>.
\<close>

section \<open>Characters\<close>

abbreviation ordc :: "char \<Rightarrow> nat" where
  "ordc c \<equiv> of_char c"

text \<open>\<open>str.isspace\<close> on code points below 256.\<close>

definition py_isspace :: "char \<Rightarrow> bool" where
  "py_isspace c \<longleftrightarrow>
     (9 \<le> ordc c \<and> ordc c \<le> 13) \<or> (28 \<le> ordc c \<and> ordc c \<le> 32) \<or> ordc c = 133 \<or> ordc c = 160"

definition is_ascii_letter :: "char \<Rightarrow> bool" where
  "is_ascii_letter c \<longleftrightarrow> (65 \<le> ordc c \<and> ordc c \<le> 90) \<or> (97 \<le> ordc c \<and> ordc c \<le> 122)"

definition is_digit :: "char \<Rightarrow> bool" where
  "is_digit c \<longleftrightarrow> 48 \<le> ordc c \<and> ordc c \<le> 57"

definition lower_char :: "char \<Rightarrow> char" where
  "lower_char c =
     (if (65 \<le> ordc c \<and> ordc c \<le> 90) \<or> (192 \<le> ordc c \<and> ordc c \<le> 222 \<and> ordc c \<noteq> 215)
      then char_of (ordc c + 32) else c)"

text \<open>
  The three letters whose upper case lies outside Latin-1 are left alone; the code compares
  upper-cased text with ASCII constants only.
\<close>

definition upper_char :: "char \<Rightarrow> char" where
  "upper_char c =
     (if (97 \<le> ordc c \<and> ordc c \<le> 122) \<or> (224 \<le> ordc c \<and> ordc c \<le> 254 \<and> ordc c \<noteq> 247)
      then char_of (ordc c - 32) else c)"

section \<open>Strings\<close>

definition lower :: "string \<Rightarrow> string" where
  "lower s = map lower_char s"

definition upper :: "string \<Rightarrow> string" where
  "upper s = map upper_char s"

text \<open>The line boundaries of \<open>str.splitlines\<close> below 256.\<close>

definition is_linebreak :: "char \<Rightarrow> bool" where
  "is_linebreak c \<longleftrightarrow> (10 \<le> ordc c \<and> ordc c \<le> 13) \<or> (28 \<le> ordc c \<and> ordc c \<le> 30) \<or> ordc c = 133"

definition lstrip_of :: "(char \<Rightarrow> bool) \<Rightarrow> string \<Rightarrow> string" where
  "lstrip_of P s = dropWhile P s"

definition rstrip_of :: "(char \<Rightarrow> bool) \<Rightarrow> string \<Rightarrow> string" where
  "rstrip_of P s = rev (dropWhile P (rev s))"

definition strip_of :: "(char \<Rightarrow> bool) \<Rightarrow> string \<Rightarrow> string" where
  "strip_of P s = rstrip_of P (lstrip_of P s)"

definition strip :: "string \<Rightarrow> string" where
  "strip s = strip_of py_isspace s"

definition startswith :: "string \<Rightarrow> string \<Rightarrow> bool" where
  "startswith s p \<longleftrightarrow> take (length p) s = p"

definition removeprefix :: "string \<Rightarrow> string \<Rightarrow> string" where
  "removeprefix s p = (if startswith s p then drop (length p) s else s)"

text \<open>\<open>s.split(c, maxsplit=1)[0]\<close> and \<open>s.split(c)\<close> for a one-character separator.\<close>

definition split_first :: "char \<Rightarrow> string \<Rightarrow> string" where
  "split_first c s = takeWhile (\<lambda>x. x \<noteq> c) s"

fun split_on :: "char \<Rightarrow> string \<Rightarrow> string list" where
  "split_on c [] = [[]]"
| "split_on c (x # xs) =
     (if x = c then [] # split_on c xs
      else case split_on c xs of [] \<Rightarrow> [[x]] | w # ws \<Rightarrow> (x # w) # ws)"

fun contains_sub :: "string \<Rightarrow> string \<Rightarrow> bool" where
  "contains_sub p [] = (p = [])"
| "contains_sub p (c # cs) = (startswith (c # cs) p \<or> contains_sub p cs)"

text \<open>\<open>s.replace(p, r)\<close> for a non-empty pattern.\<close>

function replace_sub :: "string \<Rightarrow> string \<Rightarrow> string \<Rightarrow> string" where
  "replace_sub p r s =
     (if p = [] \<or> s = [] then s
      else if startswith s p then r @ replace_sub p r (drop (length p) s)
      else hd s # replace_sub p r (tl s))"
  by pat_completeness auto
termination
  by (relation "measure (\<lambda>(p, r, s). length s)") auto

declare replace_sub.simps [simp del]

lemma replace_sub_absent: "p \<noteq> [] \<Longrightarrow> hd p \<notin> set s \<Longrightarrow> replace_sub p r s = s"
proof (induction s)
  case Nil
  then show ?case by (simp add: replace_sub.simps)
next
  case (Cons c cs)
  then have "\<not> startswith (c # cs) p"
    by (cases p) (auto simp: startswith_def)
  with Cons show ?case
    by (subst replace_sub.simps) simp
qed

lemma lstrip_of_id: "(\<And>c. c \<in> set s \<Longrightarrow> \<not> P c) \<Longrightarrow> lstrip_of P s = s"
  by (cases s) (auto simp: lstrip_of_def)

lemma rstrip_of_id: "(\<And>c. c \<in> set s \<Longrightarrow> \<not> P c) \<Longrightarrow> rstrip_of P s = s"
  using lstrip_of_id [of "rev s" P] by (simp add: rstrip_of_def lstrip_of_def)

lemma strip_of_id: "(\<And>c. c \<in> set s \<Longrightarrow> \<not> P c) \<Longrightarrow> strip_of P s = s"
  by (simp add: strip_of_def lstrip_of_id rstrip_of_id)

lemma strip_of_ends: "v \<noteq> [] \<Longrightarrow> \<not> P (hd v) \<Longrightarrow> \<not> P (last v) \<Longrightarrow> strip_of P v = v"
proof -
  assume v: "v \<noteq> []" "\<not> P (hd v)" "\<not> P (last v)"
  have "dropWhile P v = v" using v by (cases v) simp_all
  moreover have "dropWhile P (rev v) = rev v" using v by (cases v rule: rev_cases) simp_all
  ultimately show ?thesis by (simp add: strip_of_def lstrip_of_def rstrip_of_def)
qed

lemma lstrip_of_idem: "lstrip_of P (lstrip_of P s) = lstrip_of P s"
  by (simp add: lstrip_of_def)

lemma rstrip_of_idem: "rstrip_of P (rstrip_of P s) = rstrip_of P s"
  by (simp add: rstrip_of_def)

lemma lstrip_rstrip: "lstrip_of P s = s \<Longrightarrow> lstrip_of P (rstrip_of P s) = rstrip_of P s"
proof (cases "rstrip_of P s")
  case (Cons c cs)
  assume s: "lstrip_of P s = s"
  have "rev s = takeWhile P (rev s) @ dropWhile P (rev s)" by simp
  then have "s = rstrip_of P s @ rev (takeWhile P (rev s))" unfolding rstrip_of_def by (metis rev_append rev_rev_ident)
  with Cons obtain r where "s = c # r" by auto
  then have "\<not> P c" using s by (auto simp: lstrip_of_def split: if_splits) (metis dropWhile_eq_Cons_conv list.sel(1))
  then show ?thesis using Cons by (simp add: lstrip_of_def)
qed (simp add: lstrip_of_def)

lemma strip_idem [simp]: "strip (strip s) = strip s"
  unfolding strip_def strip_of_def by (simp add: lstrip_rstrip lstrip_of_idem rstrip_of_idem)

lemma set_strip: "set (strip s) \<subseteq> set s"
  by (auto simp: strip_def strip_of_def lstrip_of_def rstrip_of_def dest!: set_dropWhileD)

lemma lower_char_idem: "lower_char (lower_char c) = lower_char c"
proof -
  have "ordc c < 256" by (metis of_char_mod_256 mod_less_divisor zero_less_numeral)
  then show ?thesis
    by (auto simp: lower_char_def of_char_of)
qed

lemma lower_idem [simp]: "lower (lower s) = lower s"
  by (simp add: lower_def lower_char_idem)

section \<open>Numbers as text\<close>

fun str_nat :: "nat \<Rightarrow> string" where
  "str_nat n = (if n < 10 then [char_of (48 + n)] else str_nat (n div 10) @ [char_of (48 + n mod 10)])"

declare str_nat.simps [simp del]

definition str_int :: "int \<Rightarrow> string" where
  "str_int i = (if i < 0 then CHR ''-'' # str_nat (nat (- i)) else str_nat (nat i))"

text \<open>\<open>f"{n:0wd}"\<close> for a number of at most \<open>w\<close> digits.\<close>

primrec dec_fixed :: "nat \<Rightarrow> nat \<Rightarrow> string" where
  "dec_fixed 0 n = []"
| "dec_fixed (Suc w) n = dec_fixed w (n div 10) @ [char_of (48 + n mod 10)]"

lemma length_dec_fixed [simp]: "length (dec_fixed w n) = w"
  by (induction w arbitrary: n) auto

text \<open>\<open>int(s)\<close> on plain decimal text, as the counters of the cache hold it.\<close>

fun dec_val :: "nat \<Rightarrow> string \<Rightarrow> nat option" where
  "dec_val acc [] = Some acc"
| "dec_val acc (c # cs) = (if is_digit c then dec_val (10 * acc + (ordc c - 48)) cs else None)"

lemma dec_val_append:
  "dec_val acc (xs @ ys) = (case dec_val acc xs of None \<Rightarrow> None | Some a \<Rightarrow> dec_val a ys)"
  by (induction xs arbitrary: acc) auto

lemma code_digit: "d < 10 \<Longrightarrow> ordc (char_of (48 + d)) = 48 + d"
  by (simp add: of_char_of)

lemma dec_val_digit: "d < 10 \<Longrightarrow> dec_val acc [char_of (48 + d)] = Some (10 * acc + d)"
  by (simp add: is_digit_def code_digit)

lemma dec_val_str_nat: "dec_val 0 (str_nat n) = Some n"
proof (induction n rule: str_nat.induct)
  case (1 n)
  show ?case
  proof (cases "n < 10")
    case True
    then show ?thesis by (subst str_nat.simps) (simp add: dec_val_digit del: dec_val.simps)
  next
    case False
    with "1.IH" have "dec_val 0 (str_nat (n div 10)) = Some (n div 10)" by simp
    with False show ?thesis
      by (subst str_nat.simps) (simp add: dec_val_append dec_val_digit del: dec_val.simps)
  qed
qed

lemma str_nat_inject [simp]: "str_nat m = str_nat n \<longleftrightarrow> m = n"
  by (metis dec_val_str_nat option.inject)

section \<open>UUIDs and their text\<close>

type_synonym uuid = "128 word"

definition hexdigit :: "nat \<Rightarrow> char" where
  "hexdigit d = (if d < 10 then char_of (48 + d) else char_of (87 + d))"

primrec to_hex :: "nat \<Rightarrow> nat \<Rightarrow> string" where
  "to_hex 0 n = []"
| "to_hex (Suc w) n = to_hex w (n div 16) @ [hexdigit (n mod 16)]"

text \<open>\<open>str(u)\<close>: 32 lower-case hex digits in groups of 8, 4, 4, 4 and 12.\<close>

definition str_uuid :: "uuid \<Rightarrow> string" where
  "str_uuid u =
     (let h = to_hex 32 (unat u)
      in take 8 h @ CHR ''-'' # take 4 (drop 8 h) @ CHR ''-'' # take 4 (drop 12 h) @
         CHR ''-'' # take 4 (drop 16 h) @ CHR ''-'' # drop 20 h)"

definition hexval :: "char \<Rightarrow> nat option" where
  "hexval c =
     (if 48 \<le> ordc c \<and> ordc c \<le> 57 then Some (ordc c - 48)
      else if 97 \<le> ordc c \<and> ordc c \<le> 102 then Some (ordc c - 87)
      else if 65 \<le> ordc c \<and> ordc c \<le> 70 then Some (ordc c - 55)
      else None)"

text \<open>Digits with single underscores between them; the flag is set where no underscore may stand.\<close>

fun hex_run :: "nat \<Rightarrow> bool \<Rightarrow> string \<Rightarrow> nat option" where
  "hex_run acc us [] = (if us then None else Some acc)"
| "hex_run acc us (c # cs) =
     (if c = CHR ''_'' then (if us then None else hex_run acc True cs)
      else case hexval c of None \<Rightarrow> None | Some d \<Rightarrow> hex_run (16 * acc + d) False cs)"

text \<open>\<open>int(s, 16)\<close> for text without a minus sign: blanks, a plus sign and \<open>0x\<close> are accepted.\<close>

definition int16 :: "string \<Rightarrow> nat option" where
  "int16 s =
     (let t = strip s;
          t = (if startswith t ''+'' then drop 1 t else t)
      in if startswith t ''0x'' \<or> startswith t ''0X''
         then (let d = drop 2 t in hex_run 0 True (if startswith d ''_'' then drop 1 d else d))
         else hex_run 0 True t)"

text \<open>\<open>UUID(hex)\<close> of the standard library; \<open>None\<close> is its \<open>ValueError\<close>.\<close>

definition parse_uuid :: "string \<Rightarrow> uuid option" where
  "parse_uuid s =
     (let h = replace_sub ''uuid:'' [] (replace_sub ''urn:'' [] s);
          h = filter (\<lambda>c. c \<noteq> CHR ''-'') (strip_of (\<lambda>c. c = CHR ''{'' \<or> c = CHR ''}'') h)
      in if length h \<noteq> 32 then None
         else case int16 h of None \<Rightarrow> None | Some n \<Rightarrow> Some (of_nat n))"

definition is_lower_hex :: "char \<Rightarrow> bool" where
  "is_lower_hex c \<longleftrightarrow> (48 \<le> ordc c \<and> ordc c \<le> 57) \<or> (97 \<le> ordc c \<and> ordc c \<le> 102)"

lemma hexval_hexdigit: "d < 16 \<Longrightarrow> hexval (hexdigit d) = Some d"
  by (auto simp: hexval_def hexdigit_def of_char_of)

lemma is_lower_hex_hexdigit: "d < 16 \<Longrightarrow> is_lower_hex (hexdigit d)"
  by (auto simp: is_lower_hex_def hexdigit_def of_char_of)

lemma length_to_hex [simp]: "length (to_hex w n) = w"
  by (induction w arbitrary: n) auto

lemma set_to_hex: "c \<in> set (to_hex w n) \<Longrightarrow> is_lower_hex c"
  by (induction w arbitrary: n) (auto simp: is_lower_hex_hexdigit)

lemma lower_hex_not: "is_lower_hex c \<Longrightarrow>
    c \<noteq> CHR ''_'' \<and> c \<noteq> CHR ''-'' \<and> c \<noteq> CHR ''u'' \<and> c \<noteq> CHR ''x'' \<and> c \<noteq> CHR ''X'' \<and>
    c \<noteq> CHR ''+'' \<and> c \<noteq> CHR ''{'' \<and> c \<noteq> CHR ''}'' \<and> \<not> py_isspace c"
  by (auto simp: is_lower_hex_def py_isspace_def)

lemma hex_run_append:
  assumes "\<And>c. c \<in> set xs \<Longrightarrow> is_lower_hex c" and "xs \<noteq> []"
  shows "hex_run acc us (xs @ ys) =
           (case hex_run acc us xs of None \<Rightarrow> None | Some a \<Rightarrow> hex_run a False ys)"
  using assms
proof (induction xs arbitrary: acc us)
  case Nil
  then show ?case by simp
next
  case (Cons c cs)
  then have hx: "is_lower_hex c" by simp
  then obtain d where d: "hexval c = Some d"
    by (auto simp: is_lower_hex_def hexval_def)
  show ?case
  proof (cases "cs = []")
    case True
    with hx d show ?thesis by (simp add: lower_hex_not)
  next
    case False
    with Cons.IH Cons.prems hx d show ?thesis by (simp add: lower_hex_not)
  qed
qed

lemma hex_run_to_hex:
  "0 < w \<Longrightarrow> hex_run 0 True (to_hex w n) = Some (n mod 16 ^ w)"
proof (induction w arbitrary: n)
  case 0
  then show ?case by simp
next
  case (Suc w)
  have hd: "hexdigit (n mod 16) \<noteq> CHR ''_''"
    using lower_hex_not [OF is_lower_hex_hexdigit [of "n mod 16"]] by simp
  show ?case
  proof (cases "w = 0")
    case True
    with hd show ?thesis by (simp add: hexval_hexdigit)
  next
    case False
    then have ne: "to_hex w (n div 16) \<noteq> []"
      by (metis length_to_hex list.size(3))
    have "hex_run 0 True (to_hex (Suc w) n) =
            Some (16 * (n div 16 mod 16 ^ w) + n mod 16)"
      using Suc.IH [of "n div 16"] False hd
      by (simp add: hex_run_append [OF set_to_hex ne] hexval_hexdigit)
    then show ?thesis by (simp add: mod_mult2_eq)
  qed
qed

lemma startswith_subset: "startswith s p \<Longrightarrow> set p \<subseteq> set s"
  by (metis set_take_subset startswith_def)

lemma int16_to_hex:
  assumes "0 < w"
  shows "int16 (to_hex w n) = Some (n mod 16 ^ w)"
proof -
  let ?t = "to_hex w n"
  have st: "strip ?t = ?t"
    unfolding strip_def by (rule strip_of_id) (use lower_hex_not set_to_hex in blast)
  have "CHR ''x'' \<notin> set ?t" "CHR ''X'' \<notin> set ?t" "CHR ''+'' \<notin> set ?t"
    using lower_hex_not set_to_hex by blast+
  then have "\<not> startswith ?t ''+''" "\<not> startswith ?t ''0x''" "\<not> startswith ?t ''0X''"
    by (auto dest: startswith_subset)
  then have "int16 ?t = hex_run 0 True ?t"
    by (simp add: int16_def st Let_def)
  then show ?thesis using hex_run_to_hex [OF assms] by simp
qed

lemma take_drop_chain: "take i xs @ take j (drop i xs) = take (i + j) xs"
  by (simp add: take_add)

lemma filter_str_uuid: "filter (\<lambda>c. c \<noteq> CHR ''-'') (str_uuid u) = to_hex 32 (unat u)"
proof -
  let ?h = "to_hex 32 (unat u)"
  have nd: "set ys \<subseteq> set ?h \<Longrightarrow> filter (\<lambda>c. c \<noteq> CHR ''-'') ys = ys" for ys
    by (rule filter_True) (use lower_hex_not set_to_hex in blast)
  have sub: "set (take k (drop m ?h)) \<subseteq> set ?h" "set (take k ?h) \<subseteq> set ?h"
    "set (drop k ?h) \<subseteq> set ?h" for k m
    by (auto dest: in_set_takeD in_set_dropD)
  have "filter (\<lambda>c. c \<noteq> CHR ''-'') (str_uuid u) =
      take 8 ?h @ take 4 (drop 8 ?h) @ take 4 (drop 12 ?h) @ take 4 (drop 16 ?h) @ drop 20 ?h"
    by (simp add: str_uuid_def Let_def nd sub)
  also have "\<dots> = (((take 8 ?h @ take 4 (drop 8 ?h)) @ take 4 (drop 12 ?h)) @ take 4 (drop 16 ?h)) @ drop 20 ?h"
    by simp
  also have "\<dots> = ?h"
    using take_drop_chain [of 8 ?h 4] take_drop_chain [of 12 ?h 4] take_drop_chain [of 16 ?h 4]
    by simp
  finally show ?thesis .
qed

lemma set_str_uuid: "c \<in> set (str_uuid u) \<Longrightarrow> is_lower_hex c \<or> c = CHR ''-''"
proof (cases "c = CHR ''-''")
  case False
  assume "c \<in> set (str_uuid u)"
  with False have "c \<in> set (filter (\<lambda>c. c \<noteq> CHR ''-'') (str_uuid u))" by simp
  then show ?thesis unfolding filter_str_uuid by (auto dest: set_to_hex)
qed simp

text \<open>The text of a UUID parses back to it, so the text determines the UUID.\<close>

lemma parse_str_uuid [simp]: "parse_uuid (str_uuid u) = Some u"
proof -
  have no: "CHR ''u'' \<notin> set (str_uuid u)"
    using set_str_uuid lower_hex_not by fastforce
  have rep: "replace_sub ''uuid:'' [] (replace_sub ''urn:'' [] (str_uuid u)) = str_uuid u"
    by (simp add: replace_sub_absent no)
  have st: "strip_of (\<lambda>c. c = CHR ''{'' \<or> c = CHR ''}'') (str_uuid u) = str_uuid u"
    by (rule strip_of_id) (use set_str_uuid lower_hex_not in fastforce)
  have "unat u < 16 ^ 32"
    using unsigned_less [of u, where 'a = nat] by simp
  then show ?thesis
    by (simp add: parse_uuid_def rep st filter_str_uuid int16_to_hex)
qed

lemma str_uuid_inject [simp]: "str_uuid u = str_uuid v \<longleftrightarrow> u = v"
  by (metis option.inject parse_str_uuid)

end
