(* ===== verification/Redis_Store.thy ===== *)
theory Redis_Store
  imports Py_String
begin

text \<open>
  Redis, the cache every service talks to, is not part of the repository: its commands are
  a parameter, the record \<open>redis_ops\<close>, whose functions take the server's time and answer
  \<open>None\<close> for a \<open>RedisError\<close>. The locale \<open>redis_store\<close> names what the services rely on,
  through a function \<open>look\<close> that gives the live entry of a key at a time; the locale
  \<open>redis_live\<close> adds that legal commands succeed. \<open>keyspace\<close> is a reference
  implementation of the documented commands; the interpretations at the end show that the
  laws can be met together.
\<close>

record 'r redis_ops =
  r_incr :: "int \<Rightarrow> string \<Rightarrow> 'r \<Rightarrow> (int \<times> 'r) option"
  r_expire :: "int \<Rightarrow> string \<Rightarrow> int \<Rightarrow> 'r \<Rightarrow> 'r option"
  r_set_ex :: "int \<Rightarrow> string \<Rightarrow> string \<Rightarrow> int \<Rightarrow> 'r \<Rightarrow> 'r option"
  r_get :: "int \<Rightarrow> string \<Rightarrow> 'r \<Rightarrow> string option option"
  r_exists :: "int \<Rightarrow> string \<Rightarrow> 'r \<Rightarrow> bool option"
  r_ttl :: "int \<Rightarrow> string \<Rightarrow> 'r \<Rightarrow> int option"
  r_delete :: "int \<Rightarrow> string list \<Rightarrow> 'r \<Rightarrow> 'r option"

type_synonym entry = "string \<times> int option"

text \<open>An entry, seen at a later time: it is gone once its expiry time has come.\<close>

definition aged :: "int \<Rightarrow> entry option \<Rightarrow> entry option" where
  "aged t e = (case e of Some (v, Some x) \<Rightarrow> if x \<le> t then None else e | _ \<Rightarrow> e)"

locale redis_store =
  fixes ops :: "'r redis_ops" and look :: "'r \<Rightarrow> int \<Rightarrow> string \<Rightarrow> entry option"
  assumes look_later: "t \<le> t' \<Longrightarrow> look r t' k = aged t' (look r t k)"
    and get_law: "r_get ops t k r = Some g \<Longrightarrow> g = map_option fst (look r t k)"
    and exists_law: "r_exists ops t k r = Some b \<Longrightarrow> b \<longleftrightarrow> look r t k \<noteq> None"
    and ttl_law: "r_ttl ops t k r = Some n \<Longrightarrow>
          n = (case look r t k of None \<Rightarrow> -2 | Some (v, None) \<Rightarrow> -1 | Some (v, Some x) \<Rightarrow> x - t)"
    and incr_new: "r_incr ops t k r = Some (n, r') \<Longrightarrow> look r t k = None \<Longrightarrow>
          n = 1 \<and> look r' t = (look r t)(k \<mapsto> (str_int 1, None))"
    and incr_old: "r_incr ops t k r = Some (n, r') \<Longrightarrow> look r t k = Some (v, x) \<Longrightarrow>
          v = str_int (n - 1) \<and> look r' t = (look r t)(k \<mapsto> (str_int n, x))"
    and expire_law: "r_expire ops t k s r = Some r' \<Longrightarrow>
          look r' t = (case look r t k of
             None \<Rightarrow> look r t
           | Some (v, x) \<Rightarrow>
               if s \<le> 0 then (look r t)(k := None) else (look r t)(k \<mapsto> (v, Some (t + s))))"
    and set_law: "r_set_ex ops t k v s r = Some r' \<Longrightarrow>
          0 < s \<and> look r' t = (look r t)(k \<mapsto> (v, Some (t + s)))"
    and delete_law: "r_delete ops t ks r = Some r' \<Longrightarrow>
          look r' t = (\<lambda>k. if k \<in> set ks then None else look r t k)"
begin

lemma look_persists:
  "look r t k = Some (v, Some x) \<Longrightarrow> t \<le> t' \<Longrightarrow> t' < x \<Longrightarrow> look r t' k = Some (v, Some x)"
  by (simp add: look_later [of t t'] aged_def)

lemma look_expired:
  "look r t k = Some (v, Some x) \<Longrightarrow> t \<le> t' \<Longrightarrow> x \<le> t' \<Longrightarrow> look r t' k = None"
  by (simp add: look_later [of t t'] aged_def)

end

text \<open>A value \<open>INCR\<close> accepts: the text of a non-negative number below the 64-bit bound.\<close>

definition counter_entry :: "entry option \<Rightarrow> bool" where
  "counter_entry e \<longleftrightarrow>
     (case e of None \<Rightarrow> True | Some (v, x) \<Rightarrow> (\<exists>n. 0 \<le> n \<and> n < 2 ^ 63 - 1 \<and> v = str_int n))"

locale redis_live = redis_store +
  assumes get_ok: "r_get ops t k r \<noteq> None"
    and exists_ok: "r_exists ops t k r \<noteq> None"
    and ttl_ok: "r_ttl ops t k r \<noteq> None"
    and incr_ok: "counter_entry (look r t k) \<Longrightarrow> r_incr ops t k r \<noteq> None"
    and expire_ok: "r_expire ops t k s r \<noteq> None"
    and set_ok: "0 < s \<Longrightarrow> r_set_ex ops t k v s r \<noteq> None"
    and delete_ok: "r_delete ops t ks r \<noteq> None"

section \<open>A reference keyspace\<close>

type_synonym keyspace = "string \<Rightarrow> entry option"

definition ks_look :: "keyspace \<Rightarrow> int \<Rightarrow> string \<Rightarrow> entry option" where
  "ks_look ks t k = aged t (ks k)"

definition int_of_text :: "string \<Rightarrow> int option" where
  "int_of_text v =
     (if startswith v ''-'' then map_option (\<lambda>n. - int n) (dec_val 0 (drop 1 v))
      else map_option int (dec_val 0 v))"

definition ks_incr :: "int \<Rightarrow> string \<Rightarrow> keyspace \<Rightarrow> (int \<times> keyspace) option" where
  "ks_incr t k ks =
     (case ks_look ks t k of
        None \<Rightarrow> Some (1, ks(k \<mapsto> (str_int 1, None)))
      | Some (v, x) \<Rightarrow>
          (case int_of_text v of
             None \<Rightarrow> None
           | Some i \<Rightarrow>
               if str_int i = v \<and> i < 2 ^ 63 - 1 then Some (i + 1, ks(k \<mapsto> (str_int (i + 1), x)))
               else None))"

definition ks_expire :: "int \<Rightarrow> string \<Rightarrow> int \<Rightarrow> keyspace \<Rightarrow> keyspace option" where
  "ks_expire t k s ks =
     (case ks_look ks t k of
        None \<Rightarrow> Some ks
      | Some (v, x) \<Rightarrow> Some (if s \<le> 0 then ks(k := None) else ks(k \<mapsto> (v, Some (t + s)))))"

definition ks_set_ex :: "int \<Rightarrow> string \<Rightarrow> string \<Rightarrow> int \<Rightarrow> keyspace \<Rightarrow> keyspace option" where
  "ks_set_ex t k v s ks = (if s \<le> 0 then None else Some (ks(k \<mapsto> (v, Some (t + s)))))"

definition ks_delete :: "int \<Rightarrow> string list \<Rightarrow> keyspace \<Rightarrow> keyspace option" where
  "ks_delete t ks m = Some (\<lambda>k. if k \<in> set ks then None else m k)"

definition ks_ttl :: "int \<Rightarrow> string \<Rightarrow> keyspace \<Rightarrow> int option" where
  "ks_ttl t k ks =
     Some (case ks_look ks t k of None \<Rightarrow> -2 | Some (v, None) \<Rightarrow> -1 | Some (v, Some x) \<Rightarrow> x - t)"

definition keyspace_ops :: "keyspace redis_ops" where
  "keyspace_ops =
     \<lparr>r_incr = ks_incr, r_expire = ks_expire, r_set_ex = ks_set_ex,
      r_get = (\<lambda>t k ks. Some (map_option fst (ks_look ks t k))),
      r_exists = (\<lambda>t k ks. Some (ks_look ks t k \<noteq> None)),
      r_ttl = ks_ttl, r_delete = ks_delete\<rparr>"

lemmas keyspace_defs =
  keyspace_ops_def ks_incr_def ks_expire_def ks_set_ex_def ks_delete_def ks_ttl_def

lemma aged_aged: "t \<le> t' \<Longrightarrow> aged t' (aged t e) = aged t' e"
  by (auto simp: aged_def split: option.splits prod.splits)

lemma ks_look_upd:
  "ks_look (ks(k := e)) t = (ks_look ks t)(k := aged t e)"
  by (auto simp: ks_look_def)

lemma aged_live [simp]: "aged t (Some (v, None)) = Some (v, None)"
  "t < x \<Longrightarrow> aged t (Some (v, Some x)) = Some (v, Some x)"
  by (simp_all add: aged_def)

lemma ks_look_Some: "ks_look ks t k = Some (v, x) \<Longrightarrow> aged t (Some (w, x)) = Some (w, x)"
  by (auto simp: ks_look_def aged_def split: option.splits if_splits)

lemma str_nat_no_minus: "c \<in> set (str_nat n) \<Longrightarrow> is_digit c"
proof (induction n rule: str_nat.induct)
  case (1 n)
  then show ?case
    by (subst (asm) (2) str_nat.simps) (auto simp: is_digit_def code_digit split: if_splits)
qed

lemma int_of_text_str: "0 \<le> i \<Longrightarrow> int_of_text (str_int i) = Some i"
proof -
  assume "0 \<le> i"
  moreover have "\<not> startswith (str_nat (nat i)) ''-''"
    using str_nat_no_minus [of "CHR ''-''" "nat i"]
    by (auto dest: startswith_subset simp: is_digit_def)
  ultimately show ?thesis
    by (simp add: int_of_text_def str_int_def dec_val_str_nat)
qed

lemma int_of_text_str_int: "int_of_text (str_int i) = Some i"
proof (cases "0 \<le> i")
  case False
  then show ?thesis
    by (simp add: int_of_text_def str_int_def dec_val_str_nat startswith_def)
qed (rule int_of_text_str)

lemma str_int_inject [simp]: "str_int i = str_int j \<longleftrightarrow> i = j"
  by (metis int_of_text_str_int option.inject)

interpretation ks: redis_live keyspace_ops ks_look
proof unfold_locales
  fix t t' :: int and r k
  assume "t \<le> t'"
  then show "ks_look r t' k = aged t' (ks_look r t k)"
    by (simp add: ks_look_def aged_aged)
next
  fix t k r n r' and v :: string and x :: "int option"
  assume "r_incr keyspace_ops t k r = Some (n, r')" and "ks_look r t k = Some (v, x)"
  then show "v = str_int (n - 1) \<and> ks_look r' t = (ks_look r t)(k \<mapsto> (str_int n, x))"
    by (auto simp: keyspace_defs ks_look_upd ks_look_Some split: option.splits if_splits)
next
  fix r t k
  assume "counter_entry (ks_look r t k)"
  then show "r_incr keyspace_ops t k r \<noteq> None"
    by (auto simp: keyspace_defs counter_entry_def int_of_text_str split: option.splits)
next
  fix t k s r r'
  assume "r_expire keyspace_ops t k s r = Some r'"
  then show "ks_look r' t = (case ks_look r t k of
             None \<Rightarrow> ks_look r t
           | Some (v, x) \<Rightarrow>
               if s \<le> 0 then (ks_look r t)(k := None) else (ks_look r t)(k \<mapsto> (v, Some (t + s))))"
    by (auto simp: keyspace_defs ks_look_upd aged_def split: option.splits if_splits)
qed (auto simp: keyspace_defs ks_look_upd aged_def ks_look_def split: option.splits if_splits)

end
