(* ===== verification/Platform.thy ===== *)
theory Platform
  imports Redis_Store
begin

text \<open>
  What the four services share: the exceptions they raise with the HTTP answer each becomes
  (\<open>exceptions/\<close> and the handlers of \<open>main.py\<close>), JSON values, the record \<open>extern\<close> of
  third-party code the services call (every field is a parameter of the model), and the part
  of a process's state every service has: the cache connection, the clock and the position in
  the stream of random draws.
\<close>

section \<open>Exceptions and the responses they become\<close>

text \<open>
  The first group are the \<open>AppException\<close> classes of the services, then FastAPI's own, then
  the exceptions of libraries, which no handler but the last one knows.
\<close>

datatype exn =
    UnauthorizedException string
  | InvalidCredentialsException
  | UserAlreadyExistsException
  | AccountLockedException string
  | AccountLoginBlockedException string
  | PasswordResetFlowBlockedException string
  | TooManyRequestsException string
  | BadRequestException string
  | ServiceUnavailableException string
  | UnknownUserPasswordResetException
  | InvalidTokenException string
  | RevokedTokenException
  | TokenReuseDetectedException "uuid option" "uuid option"
  | TwoFactorRequiredException string
  | InvalidTwoFactorCodeException
  | TwoFactorNotEnabledException
  | TwoFactorAlreadyEnabledException
  | InvalidChallengeException
  | ForbiddenException string
  | NotFoundException string
  | UpstreamServiceException string
  | RouteNotFoundException string
  | HTTPException int string
  | RequestValidationError
  | RuntimeError string
  | ValueError string
  | ZeroDivisionError
  | RedisError
  | IntegrityError
  | DataError
  | MultipleResultsFound
  | SMTPException
  | OSError
  | TypeError
  | AttributeError
  | MissingGreenlet
  | ThirdPartyError

text \<open>Message, error code and status of an \<open>AppException\<close>; \<open>None\<close> for any other.\<close>

fun app_exception :: "exn \<Rightarrow> (string \<times> string \<times> int) option" where
  "app_exception (UnauthorizedException m) = Some (m, ''UNAUTHORIZED'', 401)"
| "app_exception InvalidCredentialsException =
     Some (''Invalid email or password'', ''INVALID_CREDENTIALS'', 401)"
| "app_exception UserAlreadyExistsException =
     Some (''User already exists'', ''USER_ALREADY_EXISTS'', 409)"
| "app_exception (AccountLockedException m) = Some (m, ''ACCOUNT_LOCKED'', 423)"
| "app_exception (AccountLoginBlockedException m) = Some (m, ''ACCOUNT_LOGIN_LOCKED'', 403)"
| "app_exception (PasswordResetFlowBlockedException m) = Some (m, ''RESET_FLOW_BLOCKED'', 403)"
| "app_exception (TooManyRequestsException m) = Some (m, ''TOO_MANY_REQUESTS'', 429)"
| "app_exception (BadRequestException m) = Some (m, ''BAD_REQUEST'', 400)"
| "app_exception (ServiceUnavailableException m) = Some (m, ''SERVICE_UNAVAILABLE'', 503)"
| "app_exception UnknownUserPasswordResetException =
     Some (''No user is registered with this email address.'', ''USER_NOT_FOUND'', 404)"
| "app_exception (InvalidTokenException m) = Some (m, ''INVALID_TOKEN'', 401)"
| "app_exception RevokedTokenException = Some (''Token revoked'', ''TOKEN_REVOKED'', 401)"
| "app_exception (TokenReuseDetectedException sid fid) =
     Some (''Refresh token reuse detected'', ''TOKEN_REUSE_DETECTED'', 401)"
| "app_exception (TwoFactorRequiredException c) =
     Some (''Two-factor authentication required'', ''TWO_FACTOR_REQUIRED'', 202)"
| "app_exception InvalidTwoFactorCodeException =
     Some (''Invalid two-factor code'', ''INVALID_2FA_CODE'', 401)"
| "app_exception TwoFactorNotEnabledException =
     Some (''Two-factor authentication is not enabled'', ''2FA_NOT_ENABLED'', 400)"
| "app_exception TwoFactorAlreadyEnabledException =
     Some (''Two-factor authentication is already enabled'', ''2FA_ALREADY_ENABLED'', 409)"
| "app_exception InvalidChallengeException =
     Some (''Invalid or expired challenge'', ''INVALID_CHALLENGE'', 401)"
| "app_exception (ForbiddenException m) = Some (m, ''FORBIDDEN'', 403)"
| "app_exception (NotFoundException m) = Some (m, ''NOT_FOUND'', 404)"
| "app_exception (UpstreamServiceException m) = Some (m, ''UPSTREAM_ERROR'', 502)"
| "app_exception (RouteNotFoundException m) = Some (m, ''ROUTE_NOT_FOUND'', 404)"
| "app_exception _ = None"

text \<open>\<open>ErrorResponse\<close> with its status.\<close>

record error_response =
  er_status :: int
  er_error_code :: string
  er_message :: string
  er_request_id :: "string option"

text \<open>The four \<open>exception_handler\<close>s of a service's \<open>main.py\<close>, most specific first.\<close>

definition exception_handler :: "string option \<Rightarrow> exn \<Rightarrow> error_response" where
  "exception_handler request_id e =
     (case app_exception e of
        Some (m, code, st) \<Rightarrow> \<lparr>er_status = st, er_error_code = code, er_message = m,
                               er_request_id = request_id\<rparr>
      | None \<Rightarrow>
          (case e of
             RequestValidationError \<Rightarrow>
               \<lparr>er_status = 422, er_error_code = ''VALIDATION_ERROR'',
                er_message = ''Request validation failed'', er_request_id = request_id\<rparr>
           | HTTPException st detail \<Rightarrow>
               \<lparr>er_status = st, er_error_code = ''HTTP_ERROR'', er_message = detail,
                er_request_id = request_id\<rparr>
           | _ \<Rightarrow>
               \<lparr>er_status = 500, er_error_code = ''INTERNAL_SERVER_ERROR'',
                er_message = ''Internal server error'', er_request_id = request_id\<rparr>))"

section \<open>JSON values\<close>

datatype json =
    JNull
  | JBool bool
  | JInt int
  | JStr string
  | JList "json list"
  | JDict "(string \<times> json) list"

type_synonym claims = "(string \<times> json) list"

text \<open>\<open>d.get(k)\<close>: the value under a key, \<open>JNull\<close> where it is absent.\<close>

definition dict_get :: "(string \<times> json) list \<Rightarrow> string \<Rightarrow> json" where
  "dict_get d k = (case map_of d k of None \<Rightarrow> JNull | Some v \<Rightarrow> v)"

text \<open>\<open>bool(v)\<close>.\<close>

definition json_truthy :: "json \<Rightarrow> bool" where
  "json_truthy v =
     (case v of JNull \<Rightarrow> False | JBool b \<Rightarrow> b | JInt i \<Rightarrow> i \<noteq> 0 | JStr s \<Rightarrow> s \<noteq> '''' | JList l \<Rightarrow> l \<noteq> []
      | JDict d \<Rightarrow> d \<noteq> [])"

section \<open>Third-party code as parameters\<close>

datatype verify_outcome = Verified | VerifyMismatch | VerifyFailed

datatype smtp_outcome = SmtpSent | SmtpRaised exn

record email_message =
  em_host :: string
  em_port :: int
  em_username :: "string option"
  em_password :: "string option"
  em_use_tls :: bool
  em_from :: "string option \<times> string"
  em_to :: string
  em_subject :: string
  em_body :: string

text \<open>
  PyJWT, argon2-cffi, cryptography's Fernet, pyotp, qrcode, pydantic (the UUIDs of a path), email-validator, the mail server, Redis, and of the
  standard library HMAC-SHA256, the JSON codec, the IP address parser and the sources of
  randomness. The number a field of the last kind takes is the position in the stream of draws.
\<close>

record 'r extern =
  redis_cmds :: "'r redis_ops"
  hmac_sha256_hex :: "string \<Rightarrow> string \<Rightarrow> string"
  jwt_encode :: "claims \<Rightarrow> string \<Rightarrow> string \<Rightarrow> string"
  jwt_decode :: "string \<Rightarrow> string \<Rightarrow> string list \<Rightarrow> string \<Rightarrow> string \<Rightarrow> string list \<Rightarrow> int \<Rightarrow> claims option"
  argon2_hash :: "nat \<Rightarrow> string \<Rightarrow> string"
  argon2_verify :: "string \<Rightarrow> string \<Rightarrow> verify_outcome"
  fernet_encrypt :: "string \<Rightarrow> nat \<Rightarrow> string \<Rightarrow> string"
  fernet_decrypt :: "string \<Rightarrow> string \<Rightarrow> string option"
  totp_at :: "string \<Rightarrow> int \<Rightarrow> int \<Rightarrow> string"
  totp_strings_equal :: "string \<Rightarrow> string \<Rightarrow> bool"
  totp_provisioning_uri :: "string \<Rightarrow> string \<Rightarrow> string \<Rightarrow> string"
  qr_png_base64 :: "string \<Rightarrow> string"
  random_base32 :: "nat \<Rightarrow> string"
  uuid4 :: "nat \<Rightarrow> uuid"
  randbelow :: "nat \<Rightarrow> nat \<Rightarrow> nat"
  smtp_send :: "email_message \<Rightarrow> nat \<Rightarrow> smtp_outcome"
  json_dumps :: "json \<Rightarrow> string"
  json_loads :: "string \<Rightarrow> json option"
  email_normalize :: "string \<Rightarrow> string option"
  path_uuid :: "string \<Rightarrow> uuid option"
  ip_parse :: "string \<Rightarrow> (nat \<times> nat) option"
  ip_in_network :: "(nat \<times> nat) \<Rightarrow> string \<Rightarrow> bool option"

section \<open>The state of a process\<close>

record 'r node =
  redis :: 'r
  clock :: int
  draws :: nat

definition time_now :: "(('r, 'm) node_scheme, exn, int) prog" where
  "time_now = reads clock"

definition draw :: "(nat \<Rightarrow> 'a) \<Rightarrow> (('r, 'm) node_scheme, exn, 'a) prog" where
  "draw f = (\<lambda>s. (Inr (f (draws s)), s\<lparr>draws := Suc (draws s)\<rparr>))"

definition redis_read ::
  "(int \<Rightarrow> 'r \<Rightarrow> 'a option) \<Rightarrow> (('r, 'm) node_scheme, exn, 'a) prog" where
  "redis_read c = (\<lambda>s. case c (clock s) (redis s) of None \<Rightarrow> (Inl RedisError, s) | Some a \<Rightarrow> (Inr a, s))"

definition redis_write ::
  "(int \<Rightarrow> 'r \<Rightarrow> 'r option) \<Rightarrow> (('r, 'm) node_scheme, exn, unit) prog" where
  "redis_write c = (\<lambda>s. case c (clock s) (redis s) of
     None \<Rightarrow> (Inl RedisError, s) | Some r \<Rightarrow> (Inr (), s\<lparr>redis := r\<rparr>))"

definition redis_incr :: "'r redis_ops \<Rightarrow> string \<Rightarrow> (('r, 'm) node_scheme, exn, int) prog" where
  "redis_incr ops k = (\<lambda>s. case r_incr ops (clock s) k (redis s) of
     None \<Rightarrow> (Inl RedisError, s) | Some (n, r) \<Rightarrow> (Inr n, s\<lparr>redis := r\<rparr>))"

abbreviation redis_expire :: "'r redis_ops \<Rightarrow> string \<Rightarrow> int \<Rightarrow> (('r, 'm) node_scheme, exn, unit) prog" where
  "redis_expire ops k secs \<equiv> redis_write (\<lambda>t. r_expire ops t k secs)"

abbreviation redis_set_ex ::
  "'r redis_ops \<Rightarrow> string \<Rightarrow> string \<Rightarrow> int \<Rightarrow> (('r, 'm) node_scheme, exn, unit) prog" where
  "redis_set_ex ops k v secs \<equiv> redis_write (\<lambda>t. r_set_ex ops t k v secs)"

abbreviation redis_delete :: "'r redis_ops \<Rightarrow> string list \<Rightarrow> (('r, 'm) node_scheme, exn, unit) prog" where
  "redis_delete ops ks \<equiv> redis_write (\<lambda>t. r_delete ops t ks)"

abbreviation redis_get :: "'r redis_ops \<Rightarrow> string \<Rightarrow> (('r, 'm) node_scheme, exn, string option) prog" where
  "redis_get ops k \<equiv> redis_read (\<lambda>t. r_get ops t k)"

abbreviation redis_exists :: "'r redis_ops \<Rightarrow> string \<Rightarrow> (('r, 'm) node_scheme, exn, bool) prog" where
  "redis_exists ops k \<equiv> redis_read (\<lambda>t. r_exists ops t k)"

abbreviation redis_ttl :: "'r redis_ops \<Rightarrow> string \<Rightarrow> (('r, 'm) node_scheme, exn, int) prog" where
  "redis_ttl ops k \<equiv> redis_read (\<lambda>t. r_ttl ops t k)"

lemma run_time_now [simp]: "time_now s = (Inr (clock s), s)"
  by (simp add: time_now_def)

lemma run_draw [simp]: "draw f s = (Inr (f (draws s)), s\<lparr>draws := Suc (draws s)\<rparr>)"
  by (simp add: draw_def)

lemma run_redis_read:
  "redis_read c s = (case c (clock s) (redis s) of None \<Rightarrow> (Inl RedisError, s) | Some a \<Rightarrow> (Inr a, s))"
  by (simp add: redis_read_def)

lemma run_redis_write:
  "redis_write c s = (case c (clock s) (redis s) of
     None \<Rightarrow> (Inl RedisError, s) | Some r \<Rightarrow> (Inr (), s\<lparr>redis := r\<rparr>))"
  by (simp add: redis_write_def)

lemma run_redis_incr:
  "redis_incr ops k s = (case r_incr ops (clock s) k (redis s) of
     None \<Rightarrow> (Inl RedisError, s) | Some (n, r) \<Rightarrow> (Inr n, s\<lparr>redis := r\<rparr>))"
  by (simp add: redis_incr_def)

text \<open>
  Effects of these primitives: a draw moves the draw counter only, a cache command the cache
  only, and reading changes nothing. Any relation that ignores those fields is respected.
\<close>

lemma within_time_now: "(\<And>s. R s s) \<Longrightarrow> within R time_now"
  by (simp add: within_def)

lemma within_draw: "(\<And>s n. R s (s\<lparr>draws := n\<rparr>)) \<Longrightarrow> within R (draw f)"
  by (simp add: within_def)

lemma within_redis_read: "(\<And>s. R s s) \<Longrightarrow> within R (redis_read c)"
  by (simp add: within_def run_redis_read split: option.split)

lemma within_redis_write: "(\<And>s. R s s) \<Longrightarrow> (\<And>s r. R s (s\<lparr>redis := r\<rparr>)) \<Longrightarrow> within R (redis_write c)"
  by (simp add: within_def run_redis_write split: option.split)

lemma within_redis_incr: "(\<And>s. R s s) \<Longrightarrow> (\<And>s r. R s (s\<lparr>redis := r\<rparr>)) \<Longrightarrow> within R (redis_incr ops k)"
  by (simp add: within_def run_redis_incr split: option.split)

end
