(* ===== verification/Settings.thy ===== *)
theory Settings
  imports Platform
begin

text \<open>
  The settings of the services (\<open>core/config.py\<close>): the fields as records, one base record
  for what all of them declare, the field and model validators in the order pydantic runs
  them, and the derived properties. The files the auth-service reads its mail secrets from are
  a parameter (\<open>read_file\<close>), as is the validity test of a Fernet key.
\<close>

section \<open>Fields\<close>

record base_settings =
  service_env :: string
  cors_allowed_origins :: "string list"
  trusted_proxy_ips :: "string list"
  redis_url :: string
  jwt_algorithm :: string
  jwt_issuer :: string
  jwt_audience :: string
  jwt_public_key :: string
  privacy_key_pepper :: string

record auth_settings = base_settings +
  database_url :: string
  jwt_access_ttl_seconds :: int
  jwt_refresh_ttl_seconds :: int
  jwt_private_key :: string
  refresh_token_hash_pepper :: string
  password_reset_token_pepper :: string
  totp_issuer :: string
  totp_encryption_key :: string
  totp_interval_seconds :: int
  login_challenge_ttl_seconds :: int
  password_reset_token_ttl_seconds :: int
  rate_limit_login_per_minute :: int
  rate_limit_2fa_per_minute :: int
  rate_limit_2fa_setup_per_minute :: int
  rate_limit_refresh_per_minute :: int
  rate_limit_revoke_per_minute :: int
  rate_limit_register_per_minute :: int
  rate_limit_password_reset_per_minute :: int
  brute_force_login_max_attempts :: int
  brute_force_login_window_seconds :: int
  brute_force_login_lock_seconds :: int
  brute_force_2fa_max_attempts :: int
  brute_force_2fa_window_seconds :: int
  brute_force_2fa_lock_seconds :: int
  brute_force_password_reset_max_attempts :: int
  brute_force_password_reset_window_seconds :: int
  brute_force_password_reset_lock_seconds :: int
  smtp_host :: "string option"
  smtp_port :: int
  smtp_username :: "string option"
  smtp_password :: "string option"
  smtp_password_file :: "string option"
  smtp_require_delivery :: "bool option"
  smtp_use_tls :: bool
  smtp_from_email :: "string option"
  smtp_from_name :: "string option"
  auth_allow_missing_smtp :: bool
  support_email :: "string option"

record user_settings = base_settings +
  user_database_url :: string
  rate_limit_profile_write_per_minute :: int
  rate_limit_roles_write_per_minute :: int

record gateway_settings = base_settings +
  auth_service_url :: string
  user_service_url :: string
  notification_service_url :: "string option"
  rate_limit_public_auth_per_minute :: int
  rate_limit_protected_per_minute :: int
  refresh_cookie_name :: string
  refresh_cookie_max_age_seconds :: int
  refresh_cookie_secure :: "bool option"

section \<open>Field validators\<close>

datatype csv_value = CsvNone | CsvText string | CsvItems "string list"

fun parse_csv_env :: "csv_value \<Rightarrow> string list" where
  "parse_csv_env CsvNone = []"
| "parse_csv_env (CsvText v) = filter (\<lambda>p. p \<noteq> []) (map strip (split_on (CHR '','') v))"
| "parse_csv_env (CsvItems vs) = vs"

definition ALLOWED_JWT_ALGORITHMS :: "string list" where
  "ALLOWED_JWT_ALGORITHMS =
     [''HS256'', ''HS384'', ''HS512'', ''RS256'', ''RS384'', ''RS512'', ''ES256'', ''ES384'', ''ES512'']"

definition MIN_SECRET_LENGTH :: nat where
  "MIN_SECRET_LENGTH = 32"

definition validate_jwt_algorithm :: "string \<Rightarrow> string + string" where
  "validate_jwt_algorithm value =
     (let normalized = strip (upper value)
      in if normalized \<in> set ALLOWED_JWT_ALGORITHMS then Inr normalized
         else Inl (''Unsupported JWT algorithm: '' @ normalized))"

text \<open>The \<open>Literal\<close> type of \<open>service_env\<close>.\<close>

definition validate_service_env :: "string \<Rightarrow> string + string" where
  "validate_service_env value =
     (if value \<in> set [''development'', ''staging'', ''production''] then Inr value
      else Inl ''Input should be development, staging or production'')"

definition validate_pepper_length :: "string \<Rightarrow> string + string" where
  "validate_pepper_length value =
     (if length value < MIN_SECRET_LENGTH then Inl ''Pepper must be at least 32 characters''
      else Inr value)"

text \<open>The validator of the user-service and of the api-gateway names the one pepper they have.\<close>

definition validate_privacy_pepper_length :: "string \<Rightarrow> string + string" where
  "validate_privacy_pepper_length value =
     (if length value < MIN_SECRET_LENGTH then Inl ''PRIVACY_KEY_PEPPER must be at least 32 characters''
      else Inr value)"

definition validate_totp_key :: "(string \<Rightarrow> bool) \<Rightarrow> string \<Rightarrow> string + string" where
  "validate_totp_key fernet_ok value =
     (if fernet_ok value then Inr value
      else Inl ''TOTP_ENCRYPTION_KEY must be a valid Fernet key'')"

definition blank_smtp_strings_to_none :: "string option \<Rightarrow> string option" where
  "blank_smtp_strings_to_none value =
     (case value of None \<Rightarrow> None | Some v \<Rightarrow> if strip v = [] then None else Some v)"

section \<open>Mail secrets\<close>

definition normalize_smtp_secret :: "string \<Rightarrow> string" where
  "normalize_smtp_secret raw =
     (let s = strip raw in if s = [] then [] else filter (\<lambda>c. \<not> py_isspace c) s)"

definition normalize_smtp_identity_line :: "string \<Rightarrow> string" where
  "normalize_smtp_identity_line raw =
     strip (if strip raw \<noteq> [] then takeWhile (\<lambda>c. \<not> is_linebreak c) (strip raw) else [])"

definition SMTP_PASSWORD_PLACEHOLDERS :: "string list" where
  "SMTP_PASSWORD_PLACEHOLDERS =
     [''PASTE_YOUR_GMAIL_APP_PASSWORD_HERE'', ''REPLACE_WITH_GMAIL_APP_PASSWORD'']"

definition or_empty :: "string option \<Rightarrow> string" where
  "or_empty v = (case v of None \<Rightarrow> [] | Some s \<Rightarrow> s)"

text \<open>The loop over candidate files: skip one already seen, unreadable or empty.\<close>

fun first_secret ::
  "(string \<Rightarrow> string option) \<Rightarrow> (string \<Rightarrow> string) \<Rightarrow> string list \<Rightarrow> string list \<Rightarrow> string option" where
  "first_secret read_file resolve seen [] = None"
| "first_secret read_file resolve seen (path # paths) =
     (let key = resolve path
      in if key \<in> set seen then first_secret read_file resolve seen paths
         else case read_file path of
                None \<Rightarrow> first_secret read_file resolve (key # seen) paths
              | Some text \<Rightarrow>
                  (let raw = normalize_smtp_secret text
                   in if raw \<noteq> [] then Some raw
                      else first_secret read_file resolve (key # seen) paths))"

definition load_smtp_password_from_file ::
  "(string \<Rightarrow> string option) \<Rightarrow> (string \<Rightarrow> string) \<Rightarrow> string \<Rightarrow> auth_settings \<Rightarrow> auth_settings" where
  "load_smtp_password_from_file read_file resolve repo_root st =
     (if (case smtp_password st of None \<Rightarrow> False | Some p \<Rightarrow> normalize_smtp_secret p \<noteq> []) then st
      else
        let explicit = strip (or_empty (smtp_password_file st));
            candidates = (if explicit \<noteq> [] then [explicit] else []) @
              [repo_root @ ''/secrets/smtp_app_password.txt'',
               repo_root @ ''/secrets/smtp_password.txt'']
        in case first_secret read_file resolve [] candidates of
             None \<Rightarrow> st
           | Some raw \<Rightarrow> st\<lparr>smtp_password := Some raw\<rparr>)"

definition falsy :: "string option \<Rightarrow> bool" where
  "falsy v \<longleftrightarrow> or_empty v = []"

definition apply_smtp_ec2_defaults ::
  "(string \<Rightarrow> string option) \<Rightarrow> string \<Rightarrow> auth_settings \<Rightarrow> auth_settings" where
  "apply_smtp_ec2_defaults read_file repo_root st =
     (let id_raw = or_empty (read_file (repo_root @ ''/secrets/smtp_identity_email.txt''));
          ident = normalize_smtp_identity_line id_raw;
          st = (if ident \<noteq> [] \<and> falsy (smtp_username st) \<and> falsy (smtp_from_email st)
                then st\<lparr>smtp_username := Some ident, smtp_from_email := Some ident\<rparr> else st);
          pw = (case smtp_password st of None \<Rightarrow> [] | Some p \<Rightarrow> normalize_smtp_secret p)
      in if pw \<noteq> [] \<and> falsy (smtp_host st) then st\<lparr>smtp_host := Some ''smtp.gmail.com''\<rparr> else st)"

section \<open>Derived properties\<close>

definition password_reset_token_ttl_value :: "auth_settings \<Rightarrow> int" where
  "password_reset_token_ttl_value st = max 60 (password_reset_token_ttl_seconds st)"

definition smtp_from_email_value :: "auth_settings \<Rightarrow> string option" where
  "smtp_from_email_value st =
     (if falsy (smtp_from_email st) then smtp_username st else smtp_from_email st)"

definition smtp_password_value :: "auth_settings \<Rightarrow> string option" where
  "smtp_password_value st =
     (case smtp_password st of
        None \<Rightarrow> None
      | Some p \<Rightarrow>
          (let normalized = normalize_smtp_secret p
           in if normalized = [] then None
              else if upper normalized \<in> set (map upper SMTP_PASSWORD_PLACEHOLDERS) then None
              else Some normalized))"

definition smtp_is_configured :: "auth_settings \<Rightarrow> bool" where
  "smtp_is_configured st \<longleftrightarrow>
     \<not> falsy (smtp_host st) \<and> \<not> falsy (smtp_from_email_value st) \<and> \<not> falsy (smtp_password_value st)"

definition smtp_require_delivery_value :: "auth_settings \<Rightarrow> bool" where
  "smtp_require_delivery_value st =
     (case smtp_require_delivery st of
        Some b \<Rightarrow> b
      | None \<Rightarrow>
          (let smtp_partially_configured =
                 \<not> falsy (smtp_host st) \<or> \<not> falsy (smtp_username st) \<or>
                 \<not> falsy (smtp_password st) \<or> \<not> falsy (smtp_from_email st)
           in service_env st \<noteq> ''development'' \<or> smtp_partially_configured))"

definition support_contact_sentence :: "auth_settings \<Rightarrow> string" where
  "support_contact_sentence st =
     (if \<not> falsy (support_email st)
      then ''If you need assistance, email '' @ or_empty (support_email st) @ ''.''
      else ''If you need assistance, contact your platform administrator.'')"

definition account_login_locked_message :: "auth_settings \<Rightarrow> string" where
  "account_login_locked_message st =
     ''Too many failed sign-in attempts. Password sign-in is blocked for this account. '' @
     ''Use password reset with your email to regain access. '' @ support_contact_sentence st"

definition password_reset_flow_blocked_message :: "auth_settings \<Rightarrow> string" where
  "password_reset_flow_blocked_message st =
     ''Self-service password reset is not available for this account for security reasons. '' @
     support_contact_sentence st"

section \<open>Model validators\<close>

text \<open>What all services check of a deployed (staging or production) configuration.\<close>

definition deployed :: "'a base_settings_scheme \<Rightarrow> bool" where
  "deployed st \<longleftrightarrow> service_env st = ''staging'' \<or> service_env st = ''production''"

definition validate_deployed_jwt :: "'a base_settings_scheme \<Rightarrow> string option" where
  "validate_deployed_jwt st =
     (if startswith (jwt_algorithm st) ''HS''
      then Some ''Staging and production require asymmetric JWT algorithm (RS*/ES*)'' else None)"

definition validate_deployed_cors :: "'a base_settings_scheme \<Rightarrow> string option" where
  "validate_deployed_cors st =
     (if cors_allowed_origins st = []
      then Some ''Staging and production require explicit CORS_ALLOWED_ORIGINS''
      else if \<exists>origin \<in> set (cors_allowed_origins st). origin = ''*''
      then Some ''Wildcard CORS origin is not allowed in staging or production''
      else None)"

text \<open>\<open>Settings._validate_deployed_security\<close> of the auth-service.\<close>

definition validate_deployed_security_auth :: "auth_settings \<Rightarrow> string + auth_settings" where
  "validate_deployed_security_auth st =
     (if \<not> deployed st then Inr st
      else case validate_deployed_jwt st of Some m \<Rightarrow> Inl m
      | None \<Rightarrow> case validate_deployed_cors st of Some m \<Rightarrow> Inl m
      | None \<Rightarrow>
          if \<not> contains_sub ''BEGIN'' (jwt_private_key st) \<or> \<not> contains_sub ''BEGIN'' (jwt_public_key st)
          then Inl ''Deployed asymmetric JWT keys must be PEM-formatted''
          else if \<not> smtp_is_configured st \<and> \<not> auth_allow_missing_smtp st
          then Inl (''Staging and production require configured SMTP delivery '' @
                    ''(set AUTH_ALLOW_MISSING_SMTP=true when outbound email is intentionally disabled)'')
          else Inr st)"

text \<open>The same validator of the user-service and of the api-gateway.\<close>

definition validate_deployed_security_edge ::
  "'a base_settings_scheme \<Rightarrow> string + 'a base_settings_scheme" where
  "validate_deployed_security_edge st =
     (if \<not> deployed st then Inr st
      else case validate_deployed_jwt st of Some m \<Rightarrow> Inl m
      | None \<Rightarrow> case validate_deployed_cors st of Some m \<Rightarrow> Inl m
      | None \<Rightarrow>
          if \<not> contains_sub ''BEGIN'' (jwt_public_key st)
          then Inl ''Deployed asymmetric JWT public key must be PEM-formatted''
          else Inr st)"

definition bind_sum :: "'e + 'a \<Rightarrow> ('a \<Rightarrow> 'e + 'b) \<Rightarrow> 'e + 'b" where
  "bind_sum m f = (case m of Inl e \<Rightarrow> Inl e | Inr a \<Rightarrow> f a)"

text \<open>
  \<open>Settings()\<close> of the auth-service: the field validators, then the model validators in the
  order of the class. The error is the message of the first validator that fails.
\<close>

definition normalize_auth_fields :: "string \<Rightarrow> auth_settings \<Rightarrow> auth_settings" where
  "normalize_auth_fields alg st =
     st\<lparr>jwt_algorithm := alg,
        smtp_host := blank_smtp_strings_to_none (smtp_host st),
        smtp_username := blank_smtp_strings_to_none (smtp_username st),
        smtp_from_email := blank_smtp_strings_to_none (smtp_from_email st),
        smtp_from_name := blank_smtp_strings_to_none (smtp_from_name st),
        support_email := blank_smtp_strings_to_none (support_email st)\<rparr>"

definition load_auth_settings ::
  "(string \<Rightarrow> bool) \<Rightarrow> (string \<Rightarrow> string option) \<Rightarrow> (string \<Rightarrow> string) \<Rightarrow> string \<Rightarrow>
   auth_settings \<Rightarrow> string + auth_settings" where
  "load_auth_settings fernet_ok read_file resolve repo_root st =
     bind_sum (validate_service_env (service_env st)) (\<lambda>_.
     bind_sum (validate_jwt_algorithm (jwt_algorithm st)) (\<lambda>alg.
     bind_sum (validate_pepper_length (refresh_token_hash_pepper st)) (\<lambda>_.
     bind_sum (validate_pepper_length (privacy_key_pepper st)) (\<lambda>_.
     bind_sum (validate_pepper_length (password_reset_token_pepper st)) (\<lambda>_.
     bind_sum (validate_totp_key fernet_ok (totp_encryption_key st)) (\<lambda>_.
       validate_deployed_security_auth
         (apply_smtp_ec2_defaults read_file repo_root
           (load_smtp_password_from_file read_file resolve repo_root
             (normalize_auth_fields alg st)))))))))"

definition load_edge_settings :: "'a base_settings_scheme \<Rightarrow> string + 'a base_settings_scheme" where
  "load_edge_settings st =
     bind_sum (validate_service_env (service_env st)) (\<lambda>_.
     bind_sum (validate_jwt_algorithm (jwt_algorithm st)) (\<lambda>alg.
     bind_sum (validate_privacy_pepper_length (privacy_key_pepper st)) (\<lambda>_.
       validate_deployed_security_edge (st\<lparr>jwt_algorithm := alg\<rparr>))))"

lemma bind_sum_Inr: "bind_sum m f = Inr b \<longleftrightarrow> (\<exists>a. m = Inr a \<and> f a = Inr b)"
  by (auto simp: bind_sum_def split: sum.splits)

lemma validate_deployed_cors_None:
  "validate_deployed_cors st = None \<longleftrightarrow>
     cors_allowed_origins st \<noteq> [] \<and> ''*'' \<notin> set (cors_allowed_origins st)"
  by (auto simp: validate_deployed_cors_def)

lemma validate_deployed_jwt_None:
  "validate_deployed_jwt st = None \<longleftrightarrow> \<not> startswith (jwt_algorithm st) ''HS''"
  by (simp add: validate_deployed_jwt_def)

lemma validate_jwt_algorithm_Inr:
  "validate_jwt_algorithm v = Inr a \<Longrightarrow> a \<in> set ALLOWED_JWT_ALGORITHMS"
  by (auto simp: validate_jwt_algorithm_def Let_def split: if_splits)

lemma validate_pepper_length_Inr:
  "validate_pepper_length v = Inr a \<longleftrightarrow> a = v \<and> MIN_SECRET_LENGTH \<le> length v"
  by (auto simp: validate_pepper_length_def)

lemma validate_deployed_security_auth_Inr:
  "validate_deployed_security_auth st = Inr st' \<longleftrightarrow>
     st' = st \<and>
     (deployed st \<longrightarrow>
        \<not> startswith (jwt_algorithm st) ''HS'' \<and>
        cors_allowed_origins st \<noteq> [] \<and> ''*'' \<notin> set (cors_allowed_origins st) \<and>
        contains_sub ''BEGIN'' (jwt_private_key st) \<and> contains_sub ''BEGIN'' (jwt_public_key st) \<and>
        (smtp_is_configured st \<or> auth_allow_missing_smtp st))"
  by (auto simp: validate_deployed_security_auth_def simp flip: validate_deployed_jwt_None
      split: option.splits if_splits)
     (auto simp: validate_deployed_cors_def split: if_splits)

text \<open>The mail validators touch the mail fields only.\<close>

lemma load_smtp_password_frame [simp]:
  "jwt_algorithm (load_smtp_password_from_file rf rs root st) = jwt_algorithm st"
  "refresh_token_hash_pepper (load_smtp_password_from_file rf rs root st) = refresh_token_hash_pepper st"
  "privacy_key_pepper (load_smtp_password_from_file rf rs root st) = privacy_key_pepper st"
  "password_reset_token_pepper (load_smtp_password_from_file rf rs root st) = password_reset_token_pepper st"
  by (simp_all add: load_smtp_password_from_file_def Let_def split: option.split)

lemma smtp_ec2_defaults_frame [simp]:
  "jwt_algorithm (apply_smtp_ec2_defaults rf root st) = jwt_algorithm st"
  "refresh_token_hash_pepper (apply_smtp_ec2_defaults rf root st) = refresh_token_hash_pepper st"
  "privacy_key_pepper (apply_smtp_ec2_defaults rf root st) = privacy_key_pepper st"
  "password_reset_token_pepper (apply_smtp_ec2_defaults rf root st) = password_reset_token_pepper st"
  by (simp_all add: apply_smtp_ec2_defaults_def Let_def)

lemma normalize_auth_fields_frame [simp]:
  "jwt_algorithm (normalize_auth_fields alg st) = alg"
  "refresh_token_hash_pepper (normalize_auth_fields alg st) = refresh_token_hash_pepper st"
  "privacy_key_pepper (normalize_auth_fields alg st) = privacy_key_pepper st"
  "password_reset_token_pepper (normalize_auth_fields alg st) = password_reset_token_pepper st"
  by (simp_all add: normalize_auth_fields_def)

section \<open>Accepted settings are safe\<close>

definition asymmetric_jwt_algorithms :: "string list" where
  "asymmetric_jwt_algorithms = [''RS256'', ''RS384'', ''RS512'', ''ES256'', ''ES384'', ''ES512'']"

definition secure_auth_settings :: "auth_settings \<Rightarrow> bool" where
  "secure_auth_settings st \<longleftrightarrow>
     jwt_algorithm st \<in> set ALLOWED_JWT_ALGORITHMS \<and>
     (\<forall>pepper \<in> {refresh_token_hash_pepper st, privacy_key_pepper st, password_reset_token_pepper st}.
        MIN_SECRET_LENGTH \<le> length pepper) \<and>
     (deployed st \<longrightarrow>
        jwt_algorithm st \<in> set asymmetric_jwt_algorithms \<and>
        cors_allowed_origins st \<noteq> [] \<and> ''*'' \<notin> set (cors_allowed_origins st) \<and>
        contains_sub ''BEGIN'' (jwt_private_key st) \<and> contains_sub ''BEGIN'' (jwt_public_key st) \<and>
        (smtp_is_configured st \<or> auth_allow_missing_smtp st))"

lemma asymmetric_algorithms:
  "\<forall>a \<in> set ALLOWED_JWT_ALGORITHMS. \<not> startswith a ''HS'' \<longrightarrow> a \<in> set asymmetric_jwt_algorithms"
  by code_simp

lemma load_auth_settings_accepted:
  assumes "load_auth_settings fernet_ok read_file resolve root st = Inr st'"
  shows "secure_auth_settings st'"
proof -
  from assms obtain alg where alg: "validate_jwt_algorithm (jwt_algorithm st) = Inr alg"
    and peppers: "MIN_SECRET_LENGTH \<le> length (refresh_token_hash_pepper st)"
      "MIN_SECRET_LENGTH \<le> length (privacy_key_pepper st)"
      "MIN_SECRET_LENGTH \<le> length (password_reset_token_pepper st)"
    and final: "validate_deployed_security_auth (apply_smtp_ec2_defaults read_file root
        (load_smtp_password_from_file read_file resolve root (normalize_auth_fields alg st))) = Inr st'"
    by (auto simp: load_auth_settings_def bind_sum_Inr validate_pepper_length_Inr)
  from final have st': "st' = apply_smtp_ec2_defaults read_file root
      (load_smtp_password_from_file read_file resolve root (normalize_auth_fields alg st))"
    by (simp add: validate_deployed_security_auth_Inr)
  from alg have "alg \<in> set ALLOWED_JWT_ALGORITHMS" by (rule validate_jwt_algorithm_Inr)
  with final peppers asymmetric_algorithms show ?thesis
    unfolding secure_auth_settings_def validate_deployed_security_auth_Inr
    by (simp add: st')
qed

definition secure_edge_settings :: "'a base_settings_scheme \<Rightarrow> bool" where
  "secure_edge_settings st \<longleftrightarrow>
     jwt_algorithm st \<in> set ALLOWED_JWT_ALGORITHMS \<and> MIN_SECRET_LENGTH \<le> length (privacy_key_pepper st) \<and>
     (deployed st \<longrightarrow>
        jwt_algorithm st \<in> set asymmetric_jwt_algorithms \<and>
        cors_allowed_origins st \<noteq> [] \<and> ''*'' \<notin> set (cors_allowed_origins st) \<and>
        contains_sub ''BEGIN'' (jwt_public_key st))"

lemma validate_deployed_security_edge_Inr:
  "validate_deployed_security_edge st = Inr st' \<longleftrightarrow>
     st' = st \<and>
     (deployed st \<longrightarrow>
        \<not> startswith (jwt_algorithm st) ''HS'' \<and>
        cors_allowed_origins st \<noteq> [] \<and> ''*'' \<notin> set (cors_allowed_origins st) \<and>
        contains_sub ''BEGIN'' (jwt_public_key st))"
  by (auto simp: validate_deployed_security_edge_def simp flip: validate_deployed_jwt_None
      split: option.splits if_splits)
     (auto simp: validate_deployed_cors_def split: if_splits)

lemma load_edge_settings_accepted:
  assumes "load_edge_settings st = Inr st'"
  shows "secure_edge_settings st'"
proof -
  from assms obtain alg where alg: "validate_jwt_algorithm (jwt_algorithm st) = Inr alg"
    and pepper: "MIN_SECRET_LENGTH \<le> length (privacy_key_pepper st)"
    and final: "validate_deployed_security_edge (st\<lparr>jwt_algorithm := alg\<rparr>) = Inr st'"
    by (auto simp: load_edge_settings_def bind_sum_Inr validate_privacy_pepper_length_def split: if_splits)
  from alg have "alg \<in> set ALLOWED_JWT_ALGORITHMS" by (rule validate_jwt_algorithm_Inr)
  with final pepper asymmetric_algorithms show ?thesis
    unfolding secure_edge_settings_def validate_deployed_security_edge_Inr by simp
qed

text \<open>
  C16: no service starts on unsafe settings. Whatever the environment and the secret files
  hold, settings that the auth-service accepts have a known signing algorithm and three peppers of at least 32
  characters, and in staging and production an asymmetric algorithm, explicit origins
  without a wildcard, PEM keys and a mail server (or the explicit waiver); settings the
  user-service or the gateway accepts have the same guarantees for the fields they have.
\<close>

theorem accepted_settings_are_secure:
  "(\<forall>st'. load_auth_settings fernet_ok read_file resolve root st = Inr st' \<longrightarrow> secure_auth_settings st') \<and>
   (\<forall>e'. load_edge_settings e = Inr e' \<longrightarrow> secure_edge_settings e')"
  using load_auth_settings_accepted load_edge_settings_accepted by blast

text \<open>A production configuration: its algorithm is normalised, its mail host defaulted from a secret file.\<close>

definition prod_settings :: auth_settings where
  "prod_settings =
     \<lparr>service_env = ''production'', cors_allowed_origins = [''https://a''], trusted_proxy_ips = [],
      redis_url = '''', jwt_algorithm = '' rs256'', jwt_issuer = ''i'', jwt_audience = ''a'',
      jwt_public_key = ''-BEGIN-'', privacy_key_pepper = replicate 32 CHR ''q'',
      database_url = '''', jwt_access_ttl_seconds = 900, jwt_refresh_ttl_seconds = 2592000,
      jwt_private_key = ''-BEGIN-'', refresh_token_hash_pepper = replicate 32 CHR ''r'',
      password_reset_token_pepper = replicate 32 CHR ''w'',
      totp_issuer = ''b'', totp_encryption_key = ''e'', totp_interval_seconds = 30,
      login_challenge_ttl_seconds = 300, password_reset_token_ttl_seconds = 900,
      rate_limit_login_per_minute = 10, rate_limit_2fa_per_minute = 10,
      rate_limit_2fa_setup_per_minute = 5, rate_limit_refresh_per_minute = 30,
      rate_limit_revoke_per_minute = 30, rate_limit_register_per_minute = 5,
      rate_limit_password_reset_per_minute = 5,
      brute_force_login_max_attempts = 3, brute_force_login_window_seconds = 300,
      brute_force_login_lock_seconds = 900,
      brute_force_2fa_max_attempts = 5, brute_force_2fa_window_seconds = 300,
      brute_force_2fa_lock_seconds = 900,
      brute_force_password_reset_max_attempts = 3, brute_force_password_reset_window_seconds = 300,
      brute_force_password_reset_lock_seconds = 900,
      smtp_host = Some '' '', smtp_port = 587, smtp_username = None,
      smtp_password = None, smtp_password_file = None, smtp_require_delivery = None,
      smtp_use_tls = True, smtp_from_email = Some ''f'', smtp_from_name = None,
      auth_allow_missing_smtp = False, support_email = None\<rparr>"

definition prod_secret_files :: "string \<Rightarrow> string option" where
  "prod_secret_files path = (if path = ''/secrets/smtp_password.txt'' then Some ''abcd efgh'' else None)"

definition prod_loaded :: auth_settings where
  "prod_loaded = prod_settings\<lparr>jwt_algorithm := ''RS256'', smtp_host := Some ''smtp.gmail.com'',
     smtp_password := Some ''abcdefgh''\<rparr>"

definition prod_edge_settings :: "string \<Rightarrow> base_settings" where
  "prod_edge_settings alg =
     \<lparr>service_env = ''staging'', cors_allowed_origins = [''https://a''],
     trusted_proxy_ips = [], redis_url = '''', jwt_algorithm = alg, jwt_issuer = ''i'',
     jwt_audience = ''a'', jwt_public_key = ''-BEGIN-'', privacy_key_pepper = replicate 32 CHR ''q''\<rparr>"

lemma prod_settings_load:
  "load_auth_settings (\<lambda>_. True) prod_secret_files (\<lambda>p. p) '''' prod_settings = Inr prod_loaded"
  by code_simp

lemma prod_edge_load:
  "load_edge_settings (prod_edge_settings ''es256'') = Inr (prod_edge_settings ''ES256'')"
  by code_simp

theorem accepted_settings_are_secure_witness:
  "secure_auth_settings prod_loaded \<and> secure_edge_settings (prod_edge_settings ''ES256'')"
  using accepted_settings_are_secure [of "\<lambda>_. True" prod_secret_files "\<lambda>p. p" "''''" prod_settings
      "prod_edge_settings ''es256''"]
    prod_settings_load prod_edge_load by blast

end
