(* ===== verification/Auth_State.thy ===== *)
theory Auth_State
  imports Settings
begin

text \<open>
  The state of the auth-service: its tables (\<open>models/\<close> with the constraints of
  \<open>migrations/\<close>), the database session (a working copy beside the committed tables), the keys
  it uses in the cache (\<open>integrations/redis/keys.py\<close>), its audit constants and the keyed
  digests of \<open>core/privacy.py\<close>. Bookkeeping columns no code reads (\<open>updated_at\<close>) are left out,
  and so are foreign keys, since no code removes a row another refers to, except the two-factor
  tables, which nothing refers to.
\<close>

section \<open>Tables\<close>

record user =
  u_id :: uuid
  email :: string
  password_hash :: string
  is_active :: bool
  is_superuser :: bool
  two_factor_enabled :: bool
  login_blocked :: bool
  password_reset_blocked :: bool
  u_created_at :: int

record refresh_token =
  rt_id :: uuid
  rt_user_id :: uuid
  jti :: uuid
  family_id :: uuid
  parent_jti :: "uuid option"
  token_hash :: string
  issued_at :: int
  expires_at :: int
  rotated_at :: "int option"
  revoked_at :: "int option"
  replaced_by_jti :: "uuid option"
  revocation_reason :: "string option"
  rt_ip_address :: "string option"
  rt_user_agent :: "string option"

record user_session =
  us_id :: uuid
  us_user_id :: uuid
  refresh_family_id :: uuid
  us_ip_address :: "string option"
  us_user_agent :: "string option"
  us_created_at :: int
  last_seen_at :: int
  us_revoked_at :: "int option"

record two_factor_secret =
  tf_id :: uuid
  tf_user_id :: uuid
  encrypted_secret :: string
  confirmed_at :: "int option"
  last_used_timecode :: "int option"

record backup_code =
  bc_id :: uuid
  bc_user_id :: uuid
  code_hash :: string
  bc_used_at :: "int option"
  bc_created_at :: int

record password_reset_token =
  pr_id :: uuid
  pr_user_id :: uuid
  pr_token_hash :: string
  requested_ip :: "string option"
  requested_user_agent :: "string option"
  pr_created_at :: int
  pr_expires_at :: int
  pr_used_at :: "int option"

record audit_event =
  ae_id :: uuid
  event_type :: string
  outcome :: string
  actor_user_id :: "uuid option"
  target_user_id :: "uuid option"
  ae_ip_address :: "string option"
  ae_user_agent :: "string option"
  payload :: "(string \<times> json) list"
  ae_created_at :: int

record auth_db =
  users :: "user list"
  refresh_tokens :: "refresh_token list"
  user_sessions :: "user_session list"
  two_factor_secrets :: "two_factor_secret list"
  backup_codes :: "backup_code list"
  password_reset_tokens :: "password_reset_token list"
  audit_events :: "audit_event list"

definition empty_auth_db :: auth_db where
  "empty_auth_db =
     \<lparr>users = [], refresh_tokens = [], user_sessions = [], two_factor_secrets = [],
      backup_codes = [], password_reset_tokens = [], audit_events = []\<rparr>"

section \<open>The database session\<close>

text \<open>
  \<open>db\<close> is what the request's session sees, \<open>committed\<close> what other requests will see. An ORM
  object's attribute assignment and a flushed statement change \<open>db\<close>.
\<close>

record 'r auth_node = "'r node" +
  db :: auth_db
  committed :: auth_db

type_synonym ('r, 'a) aprog = "('r auth_node, exn, 'a) prog"

definition select :: "(auth_db \<Rightarrow> 'a) \<Rightarrow> ('r, 'a) aprog" where
  "select f = reads (\<lambda>s. f (db s))"

definition update_db :: "(auth_db \<Rightarrow> auth_db) \<Rightarrow> ('r, unit) aprog" where
  "update_db f = modify (\<lambda>s. s\<lparr>db := f (db s)\<rparr>)"

definition session_commit :: "('r, unit) aprog" where
  "session_commit = modify (\<lambda>s. s\<lparr>committed := db s\<rparr>)"

definition session_rollback :: "('r, unit) aprog" where
  "session_rollback = modify (\<lambda>s. s\<lparr>db := committed s\<rparr>)"

text \<open>\<open>get_session\<close>: a request opens a session on the committed tables and closes it at its end.\<close>

definition with_session :: "('r, 'a) aprog \<Rightarrow> ('r, 'a) aprog" where
  "with_session p = (\<lambda>s.
     let (r, s') = p (s\<lparr>db := committed s\<rparr>) in (r, s'\<lparr>db := committed s'\<rparr>))"

definition scalar_one_or_none :: "'a list \<Rightarrow> ('s, exn, 'a option) prog" where
  "scalar_one_or_none rows =
     (case rows of [] \<Rightarrow> ret None | [x] \<Rightarrow> ret (Some x) | _ \<Rightarrow> raise MultipleResultsFound)"

text \<open>A \<open>VARCHAR(n)\<close> column rejects longer text, a unique column a value it already holds.\<close>

definition fits :: "nat \<Rightarrow> string \<Rightarrow> bool" where
  "fits n s \<longleftrightarrow> length s \<le> n"

definition opt_fits :: "nat \<Rightarrow> string option \<Rightarrow> bool" where
  "opt_fits n v = (case v of None \<Rightarrow> True | Some s \<Rightarrow> fits n s)"

definition client_fits :: "string option \<Rightarrow> string option \<Rightarrow> bool" where
  "client_fits ip ua \<longleftrightarrow> opt_fits 64 ip \<and> opt_fits 512 ua"

definition insert_row :: "bool \<Rightarrow> bool \<Rightarrow> (auth_db \<Rightarrow> auth_db) \<Rightarrow> ('r, unit) aprog" where
  "insert_row width_ok unique_ok f =
     (if \<not> width_ok then raise DataError
      else if \<not> unique_ok then raise IntegrityError
      else update_db f)"

section \<open>Constants\<close>

definition TOKEN_TYPE_ACCESS :: string where "TOKEN_TYPE_ACCESS = ''access''"
definition TOKEN_TYPE_REFRESH :: string where "TOKEN_TYPE_REFRESH = ''refresh''"

definition AUDIT_LOGIN_SUCCESS :: string where "AUDIT_LOGIN_SUCCESS = ''auth.login.success''"
definition AUDIT_LOGIN_FAILED :: string where "AUDIT_LOGIN_FAILED = ''auth.login.failed''"
definition AUDIT_REGISTER_SUCCESS :: string where "AUDIT_REGISTER_SUCCESS = ''auth.register.success''"
definition AUDIT_REFRESH_SUCCESS :: string where "AUDIT_REFRESH_SUCCESS = ''auth.refresh.success''"
definition AUDIT_REFRESH_REVOKED :: string where "AUDIT_REFRESH_REVOKED = ''auth.refresh.revoked''"
definition AUDIT_REFRESH_REUSE_DETECTED :: string where
  "AUDIT_REFRESH_REUSE_DETECTED = ''auth.refresh.reuse_detected''"
definition AUDIT_2FA_ENABLED :: string where "AUDIT_2FA_ENABLED = ''auth.2fa.enabled''"
definition AUDIT_2FA_DISABLED :: string where "AUDIT_2FA_DISABLED = ''auth.2fa.disabled''"
definition AUDIT_2FA_SETUP_INITIATED :: string where
  "AUDIT_2FA_SETUP_INITIATED = ''auth.2fa.setup.initiated''"
definition AUDIT_BACKUP_CODES_REGENERATED :: string where
  "AUDIT_BACKUP_CODES_REGENERATED = ''auth.2fa.backup.regenerated''"
definition AUDIT_PASSWORD_RESET_REQUESTED :: string where
  "AUDIT_PASSWORD_RESET_REQUESTED = ''auth.password_reset.requested''"
definition AUDIT_PASSWORD_RESET_COMPLETED :: string where
  "AUDIT_PASSWORD_RESET_COMPLETED = ''auth.password_reset.completed''"

lemmas audit_constants =
  AUDIT_LOGIN_SUCCESS_def AUDIT_LOGIN_FAILED_def AUDIT_REGISTER_SUCCESS_def
  AUDIT_REFRESH_SUCCESS_def AUDIT_REFRESH_REVOKED_def AUDIT_REFRESH_REUSE_DETECTED_def
  AUDIT_2FA_ENABLED_def AUDIT_2FA_DISABLED_def AUDIT_2FA_SETUP_INITIATED_def
  AUDIT_BACKUP_CODES_REGENERATED_def AUDIT_PASSWORD_RESET_REQUESTED_def
  AUDIT_PASSWORD_RESET_COMPLETED_def

section \<open>Cache keys and digests\<close>

definition rate_limit_key :: "string \<Rightarrow> string \<Rightarrow> int \<Rightarrow> string" where
  "rate_limit_key scope ip bucket = ''rate_limit:'' @ scope @ '':'' @ ip @ '':'' @ str_int bucket"

definition access_session_revoked_key :: "string \<Rightarrow> string" where
  "access_session_revoked_key session_id = ''access_session_revoked:'' @ session_id"

definition brute_force_fail_key :: "string \<Rightarrow> string \<Rightarrow> string" where
  "brute_force_fail_key scope identifier = ''brute_force:'' @ scope @ '':'' @ identifier @ '':fail''"

definition brute_force_lock_key :: "string \<Rightarrow> string \<Rightarrow> string" where
  "brute_force_lock_key scope identifier = ''brute_force:'' @ scope @ '':'' @ identifier @ '':lock''"

definition login_challenge_key :: "string \<Rightarrow> string" where
  "login_challenge_key challenge_id = ''login_challenge:'' @ challenge_id"

definition stable_hmac_digest :: "'r extern \<Rightarrow> string \<Rightarrow> string \<Rightarrow> string" where
  "stable_hmac_digest X value pepper = hmac_sha256_hex X pepper value"

definition normalize_optional :: "string option \<Rightarrow> string" where
  "normalize_optional value =
     (case value of
        None \<Rightarrow> ''<none>''
      | Some v \<Rightarrow> (let normalized = strip v in if normalized = [] then ''<empty>'' else normalized))"

definition or_unknown :: "string option \<Rightarrow> string" where
  "or_unknown ip = (case ip of None \<Rightarrow> ''unknown'' | Some s \<Rightarrow> if s = [] then ''unknown'' else s)"

section \<open>Execution and effects of the session primitives\<close>

text \<open>Updates of the state in a fixed order, so that two descriptions of one state agree.\<close>

lemma auth_node_update_order [simp]:
  fixes s :: "'r auth_node"
  shows "clock_update c (draws_update n s) = draws_update n (clock_update c s)"
    "clock_update c (redis_update r s) = redis_update r (clock_update c s)"
    "clock_update c (db_update d s) = db_update d (clock_update c s)"
    "clock_update c (committed_update e s) = committed_update e (clock_update c s)"
    "draws_update n (redis_update r s) = redis_update r (draws_update n s)"
    "draws_update n (db_update d s) = db_update d (draws_update n s)"
    "draws_update n (committed_update e s) = committed_update e (draws_update n s)"
    "redis_update r (db_update d s) = db_update d (redis_update r s)"
    "redis_update r (committed_update e s) = committed_update e (redis_update r s)"
    "db_update d (committed_update e s) = committed_update e (db_update d s)"
  by (cases s; simp)+

lemma run_select [simp]: "select f s = (Inr (f (db s)), s)"
  by (simp add: select_def)

lemma run_update_db [simp]: "update_db f s = (Inr (), s\<lparr>db := f (db s)\<rparr>)"
  by (simp add: update_db_def)

lemma run_commit [simp]: "session_commit s = (Inr (), s\<lparr>committed := db s\<rparr>)"
  by (simp add: session_commit_def)

lemma run_rollback [simp]: "session_rollback s = (Inr (), s\<lparr>db := committed s\<rparr>)"
  by (simp add: session_rollback_def)

lemma run_insert_row [simp]:
  "insert_row w u f s =
     (if \<not> w then (Inl DataError, s) else if \<not> u then (Inl IntegrityError, s)
      else (Inr (), s\<lparr>db := f (db s)\<rparr>))"
  by (simp add: insert_row_def)

lemma run_scalar_one_or_none:
  "scalar_one_or_none rows s =
     (case rows of [] \<Rightarrow> (Inr None, s) | [x] \<Rightarrow> (Inr (Some x), s) | _ \<Rightarrow> (Inl MultipleResultsFound, s))"
  by (simp add: scalar_one_or_none_def split: list.split)

lemma run_scalar_simps [simp]:
  "scalar_one_or_none [] s = (Inr None, s)"
  "scalar_one_or_none [x] s = (Inr (Some x), s)"
  by (simp_all add: scalar_one_or_none_def)

text \<open>A query answers from the session and leaves it unchanged.\<close>

lemma scalar_Some:
  "scalar_one_or_none (filter P rows) s = (Inr (Some x), t) \<Longrightarrow> t = s \<and> x \<in> set rows \<and> P x"
  by (auto simp: scalar_one_or_none_def split: list.splits dest!: filter_eq_ConsD)

lemma scalar_None:
  "scalar_one_or_none (filter P rows) s = (Inr None, t) \<Longrightarrow> t = s \<and> (\<forall>x \<in> set rows. \<not> P x)"
  by (auto simp: scalar_one_or_none_def filter_empty_conv split: list.splits)

lemma scalar_state: "snd (scalar_one_or_none rows s) = s"
  by (simp add: scalar_one_or_none_def split: list.split)

lemma login_lock_keys_distinct [simp]:
  "brute_force_fail_key sc i \<noteq> brute_force_lock_key sc' i'"
proof
  assume "brute_force_fail_key sc i = brute_force_lock_key sc' i'"
  then have "rev (brute_force_fail_key sc i) = rev (brute_force_lock_key sc' i')" by simp
  then show False by (simp add: brute_force_fail_key_def brute_force_lock_key_def)
qed

lemma lock_fail_keys_distinct [simp]:
  "brute_force_lock_key sc' i' \<noteq> brute_force_fail_key sc i"
  using login_lock_keys_distinct by metis

lemma access_session_revoked_key_inject [simp]:
  "access_session_revoked_key a = access_session_revoked_key b \<longleftrightarrow> a = b"
  by (simp add: access_session_revoked_key_def)

text \<open>The four families of keys never meet: each starts with a word of its own.\<close>

lemma key_families_distinct [simp]:
  "access_session_revoked_key a \<noteq> brute_force_lock_key sc i"
  "access_session_revoked_key a \<noteq> brute_force_fail_key sc i"
  "access_session_revoked_key a \<noteq> login_challenge_key c"
  "brute_force_lock_key sc i \<noteq> access_session_revoked_key a"
  "brute_force_fail_key sc i \<noteq> access_session_revoked_key a"
  "login_challenge_key c \<noteq> access_session_revoked_key a"
  "login_challenge_key c \<noteq> brute_force_lock_key sc i"
  "login_challenge_key c \<noteq> brute_force_fail_key sc i"
  "brute_force_lock_key sc i \<noteq> login_challenge_key c"
  "brute_force_fail_key sc i \<noteq> login_challenge_key c"
  by (simp_all add: access_session_revoked_key_def brute_force_lock_key_def
      brute_force_fail_key_def login_challenge_key_def)

end
