(* ===== verification/Auth_Repositories.thy ===== *)
theory Auth_Repositories
  imports Auth_State
begin

text \<open>
  The repositories of the auth-service (\<open>repositories/\<close>): every query and every statement, as
  programs over the session. An ORM object handed to a service is the row; assigning to its
  attributes changes the row with the object's key in the session's copy of the table.
\<close>

section \<open>UserRepository\<close>

definition get_by_email :: "string \<Rightarrow> ('r, user option) aprog" where
  "get_by_email e =
     bindE (select (\<lambda>d. filter (\<lambda>u. email u = lower e) (users d))) scalar_one_or_none"

definition get_by_id :: "uuid \<Rightarrow> ('r, user option) aprog" where
  "get_by_id uid = bindE (select (\<lambda>d. filter (\<lambda>u. u_id u = uid) (users d))) scalar_one_or_none"

definition user_create :: "'r extern \<Rightarrow> string \<Rightarrow> string \<Rightarrow> ('r, user) aprog" where
  "user_create X e ph =
     bindE (draw (uuid4 X)) (\<lambda>uid.
     bindE time_now (\<lambda>now.
     bindE (select users) (\<lambda>rows.
       let u = \<lparr>u_id = uid, email = lower e, password_hash = ph, is_active = True,
                is_superuser = False, two_factor_enabled = False, login_blocked = False,
                password_reset_blocked = False, u_created_at = now\<rparr>
       in thenE (insert_row (fits 320 (email u) \<and> fits 512 ph)
                   (email u \<notin> email ` set rows \<and> uid \<notin> u_id ` set rows)
                   (\<lambda>d. d\<lparr>users := users d @ [u]\<rparr>))
            (ret u))))"

definition mutate_user :: "user \<Rightarrow> (user \<Rightarrow> user) \<Rightarrow> ('r, user) aprog" where
  "mutate_user u f =
     thenE (update_db (\<lambda>d. d\<lparr>users := update_where (\<lambda>x. u_id x = u_id u) f (users d)\<rparr>))
       (ret (f u))"

definition update_password :: "user \<Rightarrow> string \<Rightarrow> ('r, user) aprog" where
  "update_password u ph =
     (if \<not> fits 512 ph then raise DataError
      else mutate_user u (\<lambda>x. x\<lparr>password_hash := ph, login_blocked := False,
                                password_reset_blocked := False\<rparr>))"

section \<open>RefreshTokenRepository\<close>

definition refresh_token_create ::
  "'r extern \<Rightarrow> uuid \<Rightarrow> uuid \<Rightarrow> uuid \<Rightarrow> uuid option \<Rightarrow> string \<Rightarrow> int \<Rightarrow> string option \<Rightarrow>
   string option \<Rightarrow> ('r, refresh_token) aprog" where
  "refresh_token_create X uid j fam parent h exp ip ua =
     bindE (draw (uuid4 X)) (\<lambda>rid.
     bindE time_now (\<lambda>now.
     bindE (select refresh_tokens) (\<lambda>rows.
       let t = \<lparr>rt_id = rid, rt_user_id = uid, jti = j, family_id = fam, parent_jti = parent,
                token_hash = h, issued_at = now, expires_at = exp, rotated_at = None,
                revoked_at = None, replaced_by_jti = None, revocation_reason = None,
                rt_ip_address = ip, rt_user_agent = ua\<rparr>
       in thenE (insert_row (client_fits ip ua) (j \<notin> jti ` set rows \<and> rid \<notin> rt_id ` set rows)
                   (\<lambda>d. d\<lparr>refresh_tokens := refresh_tokens d @ [t]\<rparr>))
            (ret t))))"

definition get_by_jti_for_update :: "uuid \<Rightarrow> ('r, refresh_token option) aprog" where
  "get_by_jti_for_update j =
     bindE (select (\<lambda>d. filter (\<lambda>t. jti t = j) (refresh_tokens d))) scalar_one_or_none"

definition update_refresh_tokens ::
  "(refresh_token \<Rightarrow> bool) \<Rightarrow> (refresh_token \<Rightarrow> refresh_token) \<Rightarrow> ('r, unit) aprog" where
  "update_refresh_tokens P f =
     update_db (\<lambda>d. d\<lparr>refresh_tokens := update_where P f (refresh_tokens d)\<rparr>)"

definition revoke_token :: "refresh_token \<Rightarrow> string \<Rightarrow> uuid option \<Rightarrow> ('r, unit) aprog" where
  "revoke_token tok reason replaced_by =
     bindE time_now (\<lambda>now.
       update_refresh_tokens (\<lambda>t. jti t = jti tok)
         (\<lambda>t. t\<lparr>revoked_at := Some now, revocation_reason := Some reason,
                replaced_by_jti := replaced_by\<rparr>))"

definition mark_rotated :: "refresh_token \<Rightarrow> uuid \<Rightarrow> ('r, unit) aprog" where
  "mark_rotated tok replaced_by =
     bindE time_now (\<lambda>now.
       update_refresh_tokens (\<lambda>t. jti t = jti tok)
         (\<lambda>t. t\<lparr>rotated_at := Some now, revoked_at := Some now,
                revocation_reason := Some ''rotated'', replaced_by_jti := Some replaced_by\<rparr>))"

definition tokens_revoke_family :: "uuid \<Rightarrow> string \<Rightarrow> ('r, unit) aprog" where
  "tokens_revoke_family fam reason =
     bindE time_now (\<lambda>now.
       update_refresh_tokens (\<lambda>t. family_id t = fam \<and> revoked_at t = None)
         (\<lambda>t. t\<lparr>revoked_at := Some now, revocation_reason := Some reason\<rparr>))"

definition revoke_all_for_user :: "uuid \<Rightarrow> string \<Rightarrow> ('r, unit) aprog" where
  "revoke_all_for_user uid reason =
     bindE time_now (\<lambda>now.
       update_refresh_tokens (\<lambda>t. rt_user_id t = uid \<and> revoked_at t = None)
         (\<lambda>t. t\<lparr>revoked_at := Some now, revocation_reason := Some reason\<rparr>))"

section \<open>SessionRepository\<close>

definition session_create ::
  "'r extern \<Rightarrow> uuid \<Rightarrow> uuid \<Rightarrow> string option \<Rightarrow> string option \<Rightarrow> ('r, user_session) aprog" where
  "session_create X uid fam ip ua =
     bindE (draw (uuid4 X)) (\<lambda>sid.
     bindE time_now (\<lambda>now.
     bindE (select user_sessions) (\<lambda>rows.
       let v = \<lparr>us_id = sid, us_user_id = uid, refresh_family_id = fam, us_ip_address = ip,
                us_user_agent = ua, us_created_at = now, last_seen_at = now,
                us_revoked_at = None\<rparr>
       in thenE (insert_row (client_fits ip ua) (sid \<notin> us_id ` set rows)
                   (\<lambda>d. d\<lparr>user_sessions := user_sessions d @ [v]\<rparr>))
            (ret v))))"

definition update_sessions ::
  "(user_session \<Rightarrow> bool) \<Rightarrow> (user_session \<Rightarrow> user_session) \<Rightarrow> ('r, unit) aprog" where
  "update_sessions P f =
     update_db (\<lambda>d. d\<lparr>user_sessions := update_where P f (user_sessions d)\<rparr>)"

definition sessions_revoke_family :: "uuid \<Rightarrow> ('r, unit) aprog" where
  "sessions_revoke_family fam =
     bindE time_now (\<lambda>now.
       update_sessions (\<lambda>v. refresh_family_id v = fam \<and> us_revoked_at v = None)
         (\<lambda>v. v\<lparr>us_revoked_at := Some now\<rparr>))"

definition touch_family :: "uuid \<Rightarrow> ('r, unit) aprog" where
  "touch_family fam =
     bindE time_now (\<lambda>now.
       update_sessions (\<lambda>v. refresh_family_id v = fam \<and> us_revoked_at v = None)
         (\<lambda>v. v\<lparr>last_seen_at := now\<rparr>))"

definition is_family_active :: "uuid \<Rightarrow> ('r, bool) aprog" where
  "is_family_active fam =
     select (\<lambda>d. 0 < length (filter (\<lambda>v. refresh_family_id v = fam \<and> us_revoked_at v = None)
                               (user_sessions d)))"

definition list_active_session_ids_for_user :: "uuid \<Rightarrow> ('r, uuid list) aprog" where
  "list_active_session_ids_for_user uid =
     select (\<lambda>d. map us_id (filter (\<lambda>v. us_user_id v = uid \<and> us_revoked_at v = None)
                              (user_sessions d)))"

definition revoke_user_sessions :: "uuid \<Rightarrow> ('r, unit) aprog" where
  "revoke_user_sessions uid =
     bindE time_now (\<lambda>now.
       update_sessions (\<lambda>v. us_user_id v = uid \<and> us_revoked_at v = None)
         (\<lambda>v. v\<lparr>us_revoked_at := Some now\<rparr>))"

section \<open>TwoFactorRepository\<close>

definition get_secret :: "uuid \<Rightarrow> ('r, two_factor_secret option) aprog" where
  "get_secret uid =
     bindE (select (\<lambda>d. filter (\<lambda>x. tf_user_id x = uid) (two_factor_secrets d))) scalar_one_or_none"

definition get_secret_for_update :: "uuid \<Rightarrow> ('r, two_factor_secret option) aprog" where
  "get_secret_for_update uid =
     bindE (select (\<lambda>d. filter (\<lambda>x. tf_user_id x = uid) (two_factor_secrets d))) scalar_one_or_none"

definition mutate_secret ::
  "two_factor_secret \<Rightarrow> (two_factor_secret \<Rightarrow> two_factor_secret) \<Rightarrow> ('r, unit) aprog" where
  "mutate_secret rec f =
     update_db (\<lambda>d. d\<lparr>two_factor_secrets :=
       update_where (\<lambda>x. tf_user_id x = tf_user_id rec) f (two_factor_secrets d)\<rparr>)"

definition upsert_secret :: "'r extern \<Rightarrow> uuid \<Rightarrow> string \<Rightarrow> ('r, unit) aprog" where
  "upsert_secret X uid enc =
     bindE (get_secret uid) (\<lambda>found.
       case found of
         None \<Rightarrow>
           bindE (draw (uuid4 X)) (\<lambda>sid.
           bindE (select two_factor_secrets) (\<lambda>rows.
             insert_row True (uid \<notin> tf_user_id ` set rows \<and> sid \<notin> tf_id ` set rows)
               (\<lambda>d. d\<lparr>two_factor_secrets := two_factor_secrets d @
                        [\<lparr>tf_id = sid, tf_user_id = uid, encrypted_secret = enc,
                          confirmed_at = None, last_used_timecode = None\<rparr>]\<rparr>)))
       | Some rec \<Rightarrow>
           mutate_secret rec (\<lambda>x. x\<lparr>encrypted_secret := enc, confirmed_at := None,
                                    last_used_timecode := None\<rparr>))"

definition confirm_secret :: "two_factor_secret \<Rightarrow> int \<Rightarrow> ('r, unit) aprog" where
  "confirm_secret rec tc =
     bindE time_now (\<lambda>now.
       mutate_secret rec (\<lambda>x. x\<lparr>confirmed_at := Some now, last_used_timecode := Some tc\<rparr>))"

definition update_last_used_timecode :: "two_factor_secret \<Rightarrow> int \<Rightarrow> ('r, unit) aprog" where
  "update_last_used_timecode rec tc =
     mutate_secret rec (\<lambda>x. x\<lparr>last_used_timecode := Some tc\<rparr>)"

definition list_backup_codes_for_update :: "uuid \<Rightarrow> ('r, backup_code list) aprog" where
  "list_backup_codes_for_update uid =
     select (\<lambda>d. sort_key bc_created_at (filter (\<lambda>b. bc_user_id b = uid) (backup_codes d)))"

text \<open>\<open>add_all\<close>: one new row per hash, each with a key of its own.\<close>

primrec add_backup_codes :: "'r extern \<Rightarrow> uuid \<Rightarrow> string list \<Rightarrow> ('r, unit) aprog" where
  "add_backup_codes X uid [] = ret ()"
| "add_backup_codes X uid (h # hs) =
     bindE (draw (uuid4 X)) (\<lambda>bid.
     bindE time_now (\<lambda>now.
     bindE (select backup_codes) (\<lambda>rows.
       thenE (insert_row (fits 512 h) (bid \<notin> bc_id ` set rows)
                (\<lambda>d. d\<lparr>backup_codes := backup_codes d @
                         [\<lparr>bc_id = bid, bc_user_id = uid, code_hash = h, bc_used_at = None,
                           bc_created_at = now\<rparr>]\<rparr>))
         (add_backup_codes X uid hs))))"

definition delete_backup_codes :: "uuid \<Rightarrow> ('r, unit) aprog" where
  "delete_backup_codes uid =
     update_db (\<lambda>d. d\<lparr>backup_codes := filter (\<lambda>b. bc_user_id b \<noteq> uid) (backup_codes d)\<rparr>)"

definition replace_backup_codes :: "'r extern \<Rightarrow> uuid \<Rightarrow> string list \<Rightarrow> ('r, unit) aprog" where
  "replace_backup_codes X uid hashes =
     thenE (delete_backup_codes uid) (add_backup_codes X uid hashes)"

definition mark_backup_code_used :: "backup_code \<Rightarrow> ('r, unit) aprog" where
  "mark_backup_code_used b =
     bindE time_now (\<lambda>now.
       update_db (\<lambda>d. d\<lparr>backup_codes :=
         update_where (\<lambda>x. bc_id x = bc_id b) (\<lambda>x. x\<lparr>bc_used_at := Some now\<rparr>) (backup_codes d)\<rparr>))"

definition delete_two_factor_data :: "uuid \<Rightarrow> ('r, unit) aprog" where
  "delete_two_factor_data uid =
     thenE (delete_backup_codes uid)
       (update_db (\<lambda>d. d\<lparr>two_factor_secrets :=
          filter (\<lambda>x. tf_user_id x \<noteq> uid) (two_factor_secrets d)\<rparr>))"

section \<open>PasswordResetRepository\<close>

definition password_reset_create ::
  "'r extern \<Rightarrow> uuid \<Rightarrow> string \<Rightarrow> int \<Rightarrow> string option \<Rightarrow> string option \<Rightarrow> ('r, unit) aprog" where
  "password_reset_create X uid h exp ip ua =
     bindE (draw (uuid4 X)) (\<lambda>pid.
     bindE time_now (\<lambda>now.
     bindE (select password_reset_tokens) (\<lambda>rows.
       insert_row (fits 128 h \<and> client_fits ip ua)
         (h \<notin> pr_token_hash ` set rows \<and> pid \<notin> pr_id ` set rows)
         (\<lambda>d. d\<lparr>password_reset_tokens := password_reset_tokens d @
                  [\<lparr>pr_id = pid, pr_user_id = uid, pr_token_hash = h, requested_ip = ip,
                    requested_user_agent = ua, pr_created_at = now, pr_expires_at = exp,
                    pr_used_at = None\<rparr>]\<rparr>))))"

definition mark_active_for_user_used :: "uuid \<Rightarrow> int \<Rightarrow> ('r, unit) aprog" where
  "mark_active_for_user_used uid used_at =
     update_db (\<lambda>d. d\<lparr>password_reset_tokens :=
       update_where (\<lambda>p. pr_user_id p = uid \<and> pr_used_at p = None)
         (\<lambda>p. p\<lparr>pr_used_at := Some used_at\<rparr>) (password_reset_tokens d)\<rparr>)"

definition get_active_for_user_by_hash ::
  "uuid \<Rightarrow> string \<Rightarrow> ('r, password_reset_token option) aprog" where
  "get_active_for_user_by_hash uid h =
     bindE (select (\<lambda>d. filter (\<lambda>p. pr_token_hash p = h \<and> pr_user_id p = uid \<and> pr_used_at p = None)
                          (password_reset_tokens d))) scalar_one_or_none"

definition mark_used :: "password_reset_token \<Rightarrow> int \<Rightarrow> ('r, unit) aprog" where
  "mark_used p used_at =
     update_db (\<lambda>d. d\<lparr>password_reset_tokens :=
       update_where (\<lambda>x. pr_id x = pr_id p) (\<lambda>x. x\<lparr>pr_used_at := Some used_at\<rparr>)
         (password_reset_tokens d)\<rparr>)"

section \<open>AuditRepository\<close>

definition audit_create ::
  "'r extern \<Rightarrow> string \<Rightarrow> string \<Rightarrow> uuid option \<Rightarrow> uuid option \<Rightarrow> string option \<Rightarrow>
   string option \<Rightarrow> (string \<times> json) list \<Rightarrow> ('r, unit) aprog" where
  "audit_create X ev outc actor target ip ua pl =
     bindE (draw (uuid4 X)) (\<lambda>aid.
     bindE time_now (\<lambda>now.
     bindE (select audit_events) (\<lambda>rows.
       insert_row (fits 128 ev \<and> fits 16 outc \<and> client_fits ip ua) (aid \<notin> ae_id ` set rows)
         (\<lambda>d. d\<lparr>audit_events := audit_events d @
                  [\<lparr>ae_id = aid, event_type = ev, outcome = outc, actor_user_id = actor,
                    target_user_id = target, ae_ip_address = ip, ae_user_agent = ua,
                    payload = pl, ae_created_at = now\<rparr>]\<rparr>))))"

section \<open>Execution\<close>

lemmas query_defs =
  get_by_email_def get_by_id_def get_by_jti_for_update_def get_secret_def
  get_secret_for_update_def get_active_for_user_by_hash_def

lemma run_get_by_email:
  "get_by_email e s = scalar_one_or_none (filter (\<lambda>u. email u = lower e) (users (db s))) s"
  by (simp add: get_by_email_def)

lemma run_get_by_id:
  "get_by_id uid s = scalar_one_or_none (filter (\<lambda>u. u_id u = uid) (users (db s))) s"
  by (simp add: get_by_id_def)

lemma run_get_by_jti:
  "get_by_jti_for_update j s = scalar_one_or_none (filter (\<lambda>t. jti t = j) (refresh_tokens (db s))) s"
  by (simp add: get_by_jti_for_update_def)

lemma run_mutate_user [simp]:
  "mutate_user u f s =
     (Inr (f u), s\<lparr>db := (db s)\<lparr>users := update_where (\<lambda>x. u_id x = u_id u) f (users (db s))\<rparr>\<rparr>)"
  by (simp add: mutate_user_def)

lemma run_update_refresh_tokens [simp]:
  "update_refresh_tokens P f s =
     (Inr (), s\<lparr>db := (db s)\<lparr>refresh_tokens := update_where P f (refresh_tokens (db s))\<rparr>\<rparr>)"
  by (simp add: update_refresh_tokens_def)

lemma run_update_sessions [simp]:
  "update_sessions P f s =
     (Inr (), s\<lparr>db := (db s)\<lparr>user_sessions := update_where P f (user_sessions (db s))\<rparr>\<rparr>)"
  by (simp add: update_sessions_def)

lemma run_is_family_active:
  "is_family_active fam s =
     (Inr (\<exists>v \<in> set (user_sessions (db s)). refresh_family_id v = fam \<and> us_revoked_at v = None), s)"
  by (auto simp: is_family_active_def filter_empty_conv)

lemma run_refresh_token_create:
  "refresh_token_create X uid j fam parent h exp ip ua s =
     (let s1 = s\<lparr>draws := Suc (draws s)\<rparr>; rid = uuid4 X (draws s);
          t = \<lparr>rt_id = rid, rt_user_id = uid, jti = j, family_id = fam, parent_jti = parent,
               token_hash = h, issued_at = clock s, expires_at = exp, rotated_at = None,
               revoked_at = None, replaced_by_jti = None, revocation_reason = None,
               rt_ip_address = ip, rt_user_agent = ua\<rparr>
      in if \<not> client_fits ip ua then (Inl DataError, s1)
         else if j \<in> jti ` set (refresh_tokens (db s)) \<or> rid \<in> rt_id ` set (refresh_tokens (db s))
         then (Inl IntegrityError, s1)
         else (Inr t, s1\<lparr>db := (db s)\<lparr>refresh_tokens := refresh_tokens (db s) @ [t]\<rparr>\<rparr>))"
  by (simp add: refresh_token_create_def Let_def)

lemma run_session_create:
  "session_create X uid fam ip ua s =
     (let s1 = s\<lparr>draws := Suc (draws s)\<rparr>; sid = uuid4 X (draws s);
          v = \<lparr>us_id = sid, us_user_id = uid, refresh_family_id = fam, us_ip_address = ip,
               us_user_agent = ua, us_created_at = clock s, last_seen_at = clock s,
               us_revoked_at = None\<rparr>
      in if \<not> client_fits ip ua then (Inl DataError, s1)
         else if sid \<in> us_id ` set (user_sessions (db s)) then (Inl IntegrityError, s1)
         else (Inr v, s1\<lparr>db := (db s)\<lparr>user_sessions := user_sessions (db s) @ [v]\<rparr>\<rparr>))"
  by (simp add: session_create_def Let_def)

end
