(* ===== verification/Codec.thy ===== *)
theory Codec
  imports Platform
begin

text \<open>
  Two interfaces to code outside the repository. \<open>json_codec\<close> is what the services rely on
  of \<open>json.dumps\<close> and \<open>json.loads\<close>; \<open>pyjwt\<close> what they rely on of \<open>jwt.encode\<close> and
  \<open>jwt.decode\<close>: a token signed with the private half of a key pair and read with the public
  half gives back its claims exactly while it is valid; a token that is accepted names the expected
  issuer and audience, has every required claim and is inside its time window; and whether a
  signature is good does not depend on the time. A tagged text format implements both, so the laws can be met together.
\<close>

section \<open>Claims a token is checked for\<close>

definition flat_json :: "json \<Rightarrow> bool" where
  "flat_json v = (case v of JStr _ \<Rightarrow> True | JInt _ \<Rightarrow> True | JBool _ \<Rightarrow> True | _ \<Rightarrow> False)"

definition flat_claims :: "claims \<Rightarrow> bool" where
  "flat_claims c = list_all (\<lambda>(k, v). flat_json v) c"

text \<open>\<open>_validate_claims\<close> of PyJWT for a single issuer and audience, without leeway.\<close>

definition claims_valid :: "string \<Rightarrow> string \<Rightarrow> string list \<Rightarrow> int \<Rightarrow> claims \<Rightarrow> bool" where
  "claims_valid audience issuer required now c \<longleftrightarrow>
     list_all (\<lambda>k. dict_get c k \<noteq> JNull) required \<and>
     dict_get c ''iss'' = JStr issuer \<and>
     (case dict_get c ''aud'' of JStr a \<Rightarrow> a = audience | JList l \<Rightarrow> JStr audience \<in> set l | _ \<Rightarrow> False) \<and>
     (case dict_get c ''exp'' of JInt e \<Rightarrow> now < e | JNull \<Rightarrow> True | _ \<Rightarrow> False) \<and>
     (case dict_get c ''nbf'' of JInt n \<Rightarrow> n \<le> now | JNull \<Rightarrow> True | _ \<Rightarrow> False) \<and>
     (case dict_get c ''iat'' of JInt i \<Rightarrow> i \<le> now | JNull \<Rightarrow> True | _ \<Rightarrow> False)"

text \<open>
  \<open>paired alg sk vk\<close>: the verification key belongs to the signing key. For the HMAC algorithms the two are
  the same secret.
\<close>

locale pyjwt =
  fixes encode :: "claims \<Rightarrow> string \<Rightarrow> string \<Rightarrow> string"
    and decode :: "string \<Rightarrow> string \<Rightarrow> string list \<Rightarrow> string \<Rightarrow> string \<Rightarrow> string list \<Rightarrow> int \<Rightarrow> claims option"
    and paired :: "string \<Rightarrow> string \<Rightarrow> string \<Rightarrow> bool"
  assumes decode_encode:
      "paired alg sk vk \<Longrightarrow> flat_claims c \<Longrightarrow>
       decode (encode c sk alg) vk [alg] aud iss req now =
         (if claims_valid aud iss req now c then Some c else None)"
    and decode_valid:
      "decode tok vk [alg] aud iss req now = Some c \<Longrightarrow> claims_valid aud iss req now c"
    and decode_later:
      "decode tok vk [alg] aud iss req now = Some c \<Longrightarrow> claims_valid aud iss req later c \<Longrightarrow>
       decode tok vk [alg] aud iss req later = Some c"

locale json_codec =
  fixes dumps :: "json \<Rightarrow> string" and loads :: "string \<Rightarrow> json option"
  assumes loads_dumps: "flat_claims d \<Longrightarrow> loads (dumps (JDict d)) = Some (JDict d)"
    and dumps_text: "d \<noteq> [] \<Longrightarrow> dumps (JDict d) \<noteq> ''''"

section \<open>A tagged text format\<close>

text \<open>A text is written with a mark before each character and another at its end.\<close>

primrec put_text :: "string \<Rightarrow> string" where
  "put_text [] = ''.''"
| "put_text (c # cs) = CHR '':'' # c # put_text cs"

fun get_text :: "string \<Rightarrow> (string \<times> string) option" where
  "get_text (m # c # rest) =
     (if m = CHR ''.'' then Some ([], c # rest)
      else map_option (\<lambda>(t, r). (c # t, r)) (get_text rest))"
| "get_text [m] = (if m = CHR ''.'' then Some ([], []) else None)"
| "get_text [] = None"

definition put_value :: "json \<Rightarrow> string" where
  "put_value v =
     (case v of
        JStr s \<Rightarrow> CHR ''s'' # put_text s
      | JInt i \<Rightarrow> (if i < 0 then CHR ''-'' else CHR ''i'') # put_text (str_nat (nat \<bar>i\<bar>))
      | JBool b \<Rightarrow> CHR ''b'' # put_text (if b then ''1'' else '''')
      | _ \<Rightarrow> CHR ''n'' # put_text [])"

definition get_value :: "string \<Rightarrow> (json \<times> string) option" where
  "get_value s =
     (case s of
        [] \<Rightarrow> None
      | tag # rest \<Rightarrow>
          (case get_text rest of
             None \<Rightarrow> None
           | Some (t, r) \<Rightarrow>
               if tag = CHR ''s'' then Some (JStr t, r)
               else if tag = CHR ''b'' then Some (JBool (t \<noteq> ''''), r)
               else if tag = CHR ''i'' then map_option (\<lambda>n. (JInt (int n), r)) (dec_val 0 t)
               else if tag = CHR ''-'' then map_option (\<lambda>n. (JInt (- int n), r)) (dec_val 0 t)
               else Some (JNull, r)))"

primrec put_claims :: "claims \<Rightarrow> string" where
  "put_claims [] = ''''"
| "put_claims (kv # c) = put_text (fst kv) @ put_value (snd kv) @ put_claims c"

fun get_claims :: "nat \<Rightarrow> string \<Rightarrow> claims option" where
  "get_claims n [] = Some []"
| "get_claims 0 (x # xs) = None"
| "get_claims (Suc n) (x # xs) =
     (case get_text (x # xs) of
        None \<Rightarrow> None
      | Some (k, r) \<Rightarrow>
          (case get_value r of
             None \<Rightarrow> None
           | Some (v, r') \<Rightarrow> map_option (Cons (k, v)) (get_claims n r')))"

lemma get_put_text [simp]: "get_text (put_text t @ r) = Some (t, r)"
  by (induction t) (cases r; simp)+

lemma get_put_value [simp]: "flat_json v \<Longrightarrow> get_value (put_value v @ r) = Some (v, r)"
  by (cases v) (auto simp: flat_json_def get_value_def put_value_def dec_val_str_nat)

lemma put_text_Cons: "\<exists>x xs. put_text t @ r = x # xs"
  by (cases t) auto

lemma get_put_claims: "flat_claims c \<Longrightarrow> length c \<le> n \<Longrightarrow> get_claims n (put_claims c) = Some c"
proof (induction c arbitrary: n)
  case (Cons kv c)
  obtain k v where kv: "kv = (k, v)" by fastforce
  obtain m where n: "n = Suc m" using Cons.prems by (cases n) auto
  obtain x xs where x: "put_text k @ put_value v @ put_claims c = x # xs"
    using put_text_Cons by blast
  have v: "flat_json v" and c: "flat_claims c" "length c \<le> m"
    using Cons.prems kv n by (auto simp: flat_claims_def)
  have "get_claims n (put_claims (kv # c)) = get_claims (Suc m) (x # xs)"
    by (simp add: kv n x)
  also have "\<dots> = (case get_text (put_text k @ put_value v @ put_claims c) of None \<Rightarrow> None
      | Some (k, r) \<Rightarrow> (case get_value r of None \<Rightarrow> None
           | Some (v, r') \<Rightarrow> map_option (Cons (k, v)) (get_claims m r')))"
    by (simp only: x get_claims.simps)
  also have "\<dots> = Some (kv # c)"
    using v Cons.IH c by (simp add: kv)
  finally show ?case .
qed simp

lemma length_put_claims: "length c \<le> length (put_claims c)"
proof (induction c)
  case (Cons kv c)
  have "0 < length (put_text (fst kv))" by (cases "fst kv") simp_all
  with Cons show ?case by (simp only: put_claims.simps length_append list.size)
qed simp

section \<open>The reference codecs\<close>

definition ref_jwt_encode :: "claims \<Rightarrow> string \<Rightarrow> string \<Rightarrow> string" where
  "ref_jwt_encode c sk alg = put_text alg @ put_text sk @ put_claims c"

definition ref_jwt_decode ::
  "string \<Rightarrow> string \<Rightarrow> string list \<Rightarrow> string \<Rightarrow> string \<Rightarrow> string list \<Rightarrow> int \<Rightarrow> claims option" where
  "ref_jwt_decode tok vk algs aud iss req now =
     (case get_text tok of
        None \<Rightarrow> None
      | Some (alg, r) \<Rightarrow>
          (case get_text r of
             None \<Rightarrow> None
           | Some (sk, body) \<Rightarrow>
               (case get_claims (length body) body of
                  None \<Rightarrow> None
                | Some c \<Rightarrow>
                    if alg \<in> set algs \<and> sk = vk \<and> claims_valid aud iss req now c \<and>
                       tok = ref_jwt_encode c sk alg
                    then Some c else None)))"

definition ref_json_dumps :: "json \<Rightarrow> string" where
  "ref_json_dumps v = (case v of JDict d \<Rightarrow> put_claims d | _ \<Rightarrow> ''?'')"

definition ref_json_loads :: "string \<Rightarrow> json option" where
  "ref_json_loads s = map_option JDict (get_claims (length s) s)"

lemmas ref_codec_defs =
  ref_jwt_encode_def ref_jwt_decode_def ref_json_dumps_def ref_json_loads_def

interpretation ref_jwt: pyjwt ref_jwt_encode ref_jwt_decode "\<lambda>alg sk vk. sk = vk"
  by unfold_locales
    (auto simp: ref_codec_defs get_put_claims length_put_claims split: option.splits if_splits)

interpretation ref_json: json_codec ref_json_dumps ref_json_loads
proof unfold_locales
  fix d :: claims
  assume "d \<noteq> []"
  then show "ref_json_dumps (JDict d) \<noteq> ''''"
    using length_put_claims [of d] by (auto simp: ref_codec_defs)
qed (simp add: ref_codec_defs get_put_claims length_put_claims)

end
