(* ===== verification/Reference_World.thy ===== *)
theory Reference_World
  imports Auth_State Codec
begin

text \<open>
  A concrete environment for the auth-service, on which the properties are instantiated:
  Redis is the reference keyspace, PyJWT and the JSON codec the tagged text format, and the
  remaining libraries simple functions with the behaviour their documentation promises (a hash
  verifies the value it was made from and no other, decryption inverts encryption, draws differ).
\<close>

definition ref_extern :: "keyspace extern" where
  "ref_extern =
     \<lparr>redis_cmds = keyspace_ops,
      hmac_sha256_hex = (\<lambda>key msg. CHR ''h'' # key @ ''/'' @ msg),
      jwt_encode = ref_jwt_encode,
      jwt_decode = ref_jwt_decode,
      argon2_hash = (\<lambda>n p. CHR ''a'' # p),
      argon2_verify = (\<lambda>h p. if h = CHR ''a'' # p then Verified else VerifyMismatch),
      fernet_encrypt = (\<lambda>key n m. CHR ''f'' # m),
      fernet_decrypt = (\<lambda>key c. if startswith c ''f'' then Some (drop 1 c) else None),
      totp_at = (\<lambda>secret interval t. str_int t),
      totp_strings_equal = (=),
      totp_provisioning_uri = (\<lambda>secret name issuer. ''otpauth://totp/'' @ name @ ''?secret='' @ secret),
      qr_png_base64 = (\<lambda>uri. uri),
      random_base32 = (\<lambda>n. str_nat n),
      uuid4 = of_nat,
      randbelow = (\<lambda>n k. n mod k),
      smtp_send = (\<lambda>m n. SmtpSent),
      json_dumps = ref_json_dumps,
      json_loads = ref_json_loads,
      email_normalize = (\<lambda>s. if CHR ''@'' \<in> set s then Some s else None),
      path_uuid = parse_uuid,
      ip_parse = (\<lambda>s. map_option (\<lambda>n. (4, n)) (dec_val 0 s)),
      ip_in_network = (\<lambda>ip net. None)\<rparr>"

definition ref_cfg :: auth_settings where
  "ref_cfg =
     \<lparr>service_env = ''development'', cors_allowed_origins = [], trusted_proxy_ips = [''10''],
      redis_url = '''', jwt_algorithm = ''HS256'', jwt_issuer = ''i'', jwt_audience = ''a'',
      jwt_public_key = ''p'', privacy_key_pepper = ''q'',
      database_url = '''', jwt_access_ttl_seconds = 900, jwt_refresh_ttl_seconds = 2592000,
      jwt_private_key = ''k'', refresh_token_hash_pepper = ''r'', password_reset_token_pepper = ''w'',
      totp_issuer = ''b'', totp_encryption_key = ''e'', totp_interval_seconds = 30,
      login_challenge_ttl_seconds = 300, password_reset_token_ttl_seconds = 600,
      rate_limit_login_per_minute = 10, rate_limit_2fa_per_minute = 10,
      rate_limit_2fa_setup_per_minute = 10, rate_limit_refresh_per_minute = 20,
      rate_limit_revoke_per_minute = 20, rate_limit_register_per_minute = 5,
      rate_limit_password_reset_per_minute = 5,
      brute_force_login_max_attempts = 3, brute_force_login_window_seconds = 300,
      brute_force_login_lock_seconds = 900,
      brute_force_2fa_max_attempts = 3, brute_force_2fa_window_seconds = 300,
      brute_force_2fa_lock_seconds = 900,
      brute_force_password_reset_max_attempts = 3, brute_force_password_reset_window_seconds = 300,
      brute_force_password_reset_lock_seconds = 900,
      smtp_host = Some ''m'', smtp_port = 587, smtp_username = Some ''u'',
      smtp_password = Some ''s'', smtp_password_file = None, smtp_require_delivery = None,
      smtp_use_tls = True, smtp_from_email = Some ''f'', smtp_from_name = None,
      auth_allow_missing_smtp = False, support_email = None\<rparr>"

text \<open>A fresh process at time 1000: empty cache, empty tables, past the draw of the start-up.\<close>

definition ref_node :: "keyspace auth_node" where
  "ref_node =
     \<lparr>redis = (\<lambda>_. None), clock = 1000, draws = 1, db = empty_auth_db, committed = empty_auth_db\<rparr>"

lemma ref_extern_simps [simp]:
  "redis_cmds ref_extern = keyspace_ops" "jwt_encode ref_extern = ref_jwt_encode"
  "jwt_decode ref_extern = ref_jwt_decode" "json_dumps ref_extern = ref_json_dumps"
  "json_loads ref_extern = ref_json_loads" "uuid4 ref_extern = of_nat"
  "argon2_hash ref_extern = (\<lambda>n p. CHR ''a'' # p)"
  "argon2_verify ref_extern = (\<lambda>h p. if h = CHR ''a'' # p then Verified else VerifyMismatch)"
  "hmac_sha256_hex ref_extern = (\<lambda>key msg. CHR ''h'' # key @ ''/'' @ msg)"
  by (simp_all add: ref_extern_def)

lemma ref_node_simps [simp]:
  "redis ref_node = (\<lambda>_. None)" "clock ref_node = 1000" "draws ref_node = 1"
  "db ref_node = empty_auth_db" "committed ref_node = empty_auth_db"
  by (simp_all add: ref_node_def)

lemma empty_auth_db_simps [simp]:
  "users empty_auth_db = []" "refresh_tokens empty_auth_db = []" "user_sessions empty_auth_db = []"
  "two_factor_secrets empty_auth_db = []" "backup_codes empty_auth_db = []"
  "password_reset_tokens empty_auth_db = []" "audit_events empty_auth_db = []"
  by (simp_all add: empty_auth_db_def)

end
