(* ===== verification/Audit_Service.thy ===== *)
theory Audit_Service
  imports Auth_Repositories Reference_World
begin

text \<open>
  \<open>services/audit_service.py\<close> of the auth-service: the recursive removal of sensitive fields
  from a payload and the recording of an event. The lemmas show that no sensitive key
  survives at any depth, that nothing else is lost (every path through a JSON value that names no sensitive key leads to
  the same content), and that recording an event touches the audit table only.
\<close>

definition SENSITIVE_FIELDS :: "string list" where
  "SENSITIVE_FIELDS =
     [''password'', ''password_hash'', ''access_token'', ''refresh_token'', ''authorization'',
      ''totp_code'', ''backup_code'', ''backup_codes'', ''secret'', ''encrypted_secret'',
      ''private_key'', ''token'']"

definition is_sensitive :: "string \<Rightarrow> bool" where
  "is_sensitive k \<longleftrightarrow> lower k \<in> set SENSITIVE_FIELDS"

text \<open>\<open>_sanitize_value\<close> and the loop over a mapping it shares with \<open>_sanitize_payload\<close>.\<close>

fun sanitize_value :: "json \<Rightarrow> json"
  and sanitize_items :: "(string \<times> json) list \<Rightarrow> (string \<times> json) list" where
  "sanitize_value (JDict kvs) = JDict (sanitize_items kvs)"
| "sanitize_value (JList vs) = JList (map sanitize_value vs)"
| "sanitize_value JNull = JNull"
| "sanitize_value (JBool b) = JBool b"
| "sanitize_value (JInt i) = JInt i"
| "sanitize_value (JStr s) = JStr s"
| "sanitize_items [] = []"
| "sanitize_items ((k, v) # kvs) =
     (if is_sensitive k then sanitize_items kvs
      else (k, sanitize_value v) # sanitize_items kvs)"

definition sanitize_payload :: "(string \<times> json) list option \<Rightarrow> (string \<times> json) list" where
  "sanitize_payload p = (case p of None \<Rightarrow> [] | Some kvs \<Rightarrow> sanitize_items kvs)"

definition log_event ::
  "'r extern \<Rightarrow> string \<Rightarrow> string \<Rightarrow> uuid option \<Rightarrow> uuid option \<Rightarrow> string option \<Rightarrow>
   string option \<Rightarrow> (string \<times> json) list option \<Rightarrow> ('r, unit) aprog" where
  "log_event X ev outc actor target ip ua pl =
     audit_create X ev outc actor target ip ua (sanitize_payload pl)"

section \<open>Sanitisation\<close>

text \<open>A value with no sensitive key anywhere inside.\<close>

fun clean_value :: "json \<Rightarrow> bool"
  and clean_items :: "(string \<times> json) list \<Rightarrow> bool" where
  "clean_value (JDict kvs) = clean_items kvs"
| "clean_value (JList vs) = (\<forall>v \<in> set vs. clean_value v)"
| "clean_value JNull = True"
| "clean_value (JBool b) = True"
| "clean_value (JInt i) = True"
| "clean_value (JStr s) = True"
| "clean_items [] = True"
| "clean_items ((k, v) # kvs) = (\<not> is_sensitive k \<and> clean_value v \<and> clean_items kvs)"

lemma sanitize_clean: "clean_value (sanitize_value v)" "clean_items (sanitize_items kvs)"
  by (induction v and kvs rule: sanitize_value_sanitize_items.induct) auto

lemma sanitize_id:
  "clean_value v \<Longrightarrow> sanitize_value v = v"
  "clean_items kvs \<Longrightarrow> sanitize_items kvs = kvs"
  by (induction v and kvs rule: sanitize_value_sanitize_items.induct) (auto intro: map_idI)

lemma sanitize_payload_clean: "clean_items (sanitize_payload p)"
  by (simp add: sanitize_payload_def sanitize_clean split: option.split)

section \<open>Recording an event\<close>

lemma run_audit_create:
  "audit_create X ev outc actor target ip ua pl s =
     (let aid = uuid4 X (draws s); s1 = s\<lparr>draws := Suc (draws s)\<rparr>
      in if \<not> (fits 128 ev \<and> fits 16 outc \<and> client_fits ip ua) then (Inl DataError, s1)
         else if aid \<in> ae_id ` set (audit_events (db s)) then (Inl IntegrityError, s1)
         else (Inr (), s1\<lparr>db := (db s)\<lparr>audit_events := audit_events (db s) @
                [\<lparr>ae_id = aid, event_type = ev, outcome = outc, actor_user_id = actor,
                  target_user_id = target, ae_ip_address = ip, ae_user_agent = ua,
                  payload = pl, ae_created_at = clock s\<rparr>]\<rparr>\<rparr>))"
  by (simp add: audit_create_def Let_def)

section \<open>What is stored\<close>

text \<open>Paths into a JSON value, and what is found there: a leaf, the length of a list, or that it is a dictionary.\<close>

datatype json_step = JKey string | JIndex nat

fun json_at :: "json \<Rightarrow> json_step list \<Rightarrow> json option" where
  "json_at v [] = Some v"
| "json_at (JDict kvs) (JKey k # p) = (case map_of kvs k of None \<Rightarrow> None | Some v \<Rightarrow> json_at v p)"
| "json_at (JList vs) (JIndex i # p) = (if i < length vs then json_at (vs ! i) p else None)"
| "json_at v (x # p) = None"

fun json_node :: "json \<Rightarrow> json" where
  "json_node (JDict kvs) = JDict []"
| "json_node (JList vs) = JList (replicate (length vs) JNull)"
| "json_node v = v"

lemma map_of_sanitize_items:
  "map_of (sanitize_items kvs) k =
     (if is_sensitive k then None else map_option sanitize_value (map_of kvs k))"
  by (induction kvs rule: list.induct) auto

lemma json_node_sanitize: "json_node (sanitize_value v) = json_node v"
  by (cases v) simp_all

lemma json_at_sanitize:
  "json_at (sanitize_value v) p =
     (if \<exists>k. JKey k \<in> set p \<and> is_sensitive k then None else map_option sanitize_value (json_at v p))"
proof (induction p arbitrary: v)
  case (Cons x p)
  show ?case
  proof (cases x)
    case (JKey k)
    then show ?thesis by (cases v) (auto simp: map_of_sanitize_items Cons.IH split: option.split)
  next
    case (JIndex i)
    then show ?thesis by (cases v) (auto simp: Cons.IH)
  qed
qed simp

lemma sanitized_paths:
  "json_at (JDict (sanitize_payload pl)) p =
     (if \<exists>k. JKey k \<in> set p \<and> is_sensitive k then None
      else map_option sanitize_value (json_at (JDict (case pl of None \<Rightarrow> [] | Some kvs \<Rightarrow> kvs)) p))"
proof -
  have "JDict (sanitize_payload pl) = sanitize_value (JDict (case pl of None \<Rightarrow> [] | Some kvs \<Rightarrow> kvs))"
    by (simp add: sanitize_payload_def split: option.split)
  then show ?thesis by (simp only: json_at_sanitize)
qed

lemma sensitive_keys:
  "is_sensitive k \<longleftrightarrow> lower k \<in> {''password'', ''password_hash'', ''access_token'', ''refresh_token'', ''authorization'',
     ''totp_code'', ''backup_code'', ''backup_codes'', ''secret'', ''encrypted_secret'', ''private_key'', ''token''}"
  by (simp only: is_sensitive_def SENSITIVE_FIELDS_def list.set)

text \<open>
  C15: what the audit log stores. Recording an event appends exactly one row, with the event and the people of the
  call, and changes nothing else in the database. In the stored payload no path, through nested dictionaries
  and lists, names a key that is one of the twelve sensitive ones in any letter case; every other path leads to the same content as
  in the payload that was handed over: the same leaf, a list of the same length, a dictionary, or nothing.
\<close>

theorem audit_payload_sanitized:
  assumes "log_event X ev outc actor target ip ua pl s = (Inr (), t)"
    and "sensitive = {''password'', ''password_hash'', ''access_token'', ''refresh_token'', ''authorization'', ''totp_code'',
      ''backup_code'', ''backup_codes'', ''secret'', ''encrypted_secret'', ''private_key'', ''token''}"
  shows "\<exists>row. db t = (db s)\<lparr>audit_events := audit_events (db s) @ [row]\<rparr> \<and> committed t = committed s \<and>
    event_type row = ev \<and> outcome row = outc \<and> actor_user_id row = actor \<and> target_user_id row = target \<and>
    ae_ip_address row = ip \<and> ae_user_agent row = ua \<and> ae_created_at row = clock s \<and>
    (\<forall>p. if \<exists>k. JKey k \<in> set p \<and> lower k \<in> sensitive
         then json_at (JDict (payload row)) p = None
         else map_option json_node (json_at (JDict (payload row)) p) =
              map_option json_node (json_at (JDict (case pl of None \<Rightarrow> [] | Some kvs \<Rightarrow> kvs)) p))"
proof -
  obtain row where row: "db t = (db s)\<lparr>audit_events := audit_events (db s) @ [row]\<rparr>" "committed t = committed s"
    "event_type row = ev" "outcome row = outc" "actor_user_id row = actor" "target_user_id row = target"
    "ae_ip_address row = ip" "ae_user_agent row = ua" "ae_created_at row = clock s" "payload row = sanitize_payload pl"
    using assms(1) by (auto simp: log_event_def run_audit_create Let_def split: if_splits)
  have "if \<exists>k. JKey k \<in> set p \<and> lower k \<in> sensitive then json_at (JDict (payload row)) p = None
      else map_option json_node (json_at (JDict (payload row)) p) =
           map_option json_node (json_at (JDict (case pl of None \<Rightarrow> [] | Some kvs \<Rightarrow> kvs)) p)" for p
    unfolding row(10) sanitized_paths assms(2) sensitive_keys [symmetric]
    by (auto simp: option.map_comp comp_def json_node_sanitize)
  then show ?thesis using row by blast
qed

theorem audit_payload_sanitized_witness:
  "\<exists>t row. log_event ref_extern ''auth.test'' ''success'' None None None None
       (Some [(''a'', JList [JDict [(''Token'', JStr ''x''), (''n'', JInt 1)]])]) ref_node = (Inr (), t) \<and>
     audit_events (db t) = [row] \<and>
     json_at (JDict (payload row)) [JKey ''a'', JIndex 0, JKey ''Token''] = None \<and>
     json_at (JDict (payload row)) [JKey ''a'', JIndex 0, JKey ''n''] = Some (JInt 1)"
proof -
  let ?pl = "Some [(''a'', JList [JDict [(''Token'', JStr ''x''), (''n'', JInt 1)]])]"
  obtain t where run: "log_event ref_extern ''auth.test'' ''success'' None None None None ?pl ref_node = (Inr (), t)"
    by (simp add: log_event_def run_audit_create Let_def fits_def client_fits_def opt_fits_def ref_node_def empty_auth_db_def)
  have low: "lower ''Token'' = ''token''" "lower ''a'' = ''a''" "lower ''n'' = ''n''" by code_simp+
  define S where "S = {''password'', ''password_hash'', ''access_token'', ''refresh_token'', ''authorization'', ''totp_code'',
      ''backup_code'', ''backup_codes'', ''secret'', ''encrypted_secret'', ''private_key'', ''token''}"
  from audit_payload_sanitized [OF run S_def] obtain row where
    rows: "audit_events (db t) = [row]"
    and paths: "\<And>p. if \<exists>k. JKey k \<in> set p \<and> lower k \<in> S then json_at (JDict (payload row)) p = None
      else map_option json_node (json_at (JDict (payload row)) p) =
           map_option json_node (json_at (JDict (case ?pl of None \<Rightarrow> [] | Some kvs \<Rightarrow> kvs)) p)"
    by (auto simp: ref_node_def empty_auth_db_def)
  have "\<exists>k. JKey k \<in> set [JKey ''a'', JIndex 0, JKey ''Token''] \<and> lower k \<in> S"
    by (rule exI [of _ "''Token''"]) (simp add: low S_def)
  with paths [of "[JKey ''a'', JIndex 0, JKey ''Token'']"]
  have secret: "json_at (JDict (payload row)) [JKey ''a'', JIndex 0, JKey ''Token''] = None" by (simp only: if_True)
  have "\<not> (\<exists>k. JKey k \<in> set [JKey ''a'', JIndex 0, JKey ''n''] \<and> lower k \<in> S)"
    by (auto simp: low S_def)
  moreover have "json_at (JDict (case ?pl of None \<Rightarrow> [] | Some kvs \<Rightarrow> kvs)) [JKey ''a'', JIndex 0, JKey ''n''] = Some (JInt 1)"
    by simp
  ultimately have "map_option json_node (json_at (JDict (payload row)) [JKey ''a'', JIndex 0, JKey ''n'']) = Some (JInt 1)"
    using paths [of "[JKey ''a'', JIndex 0, JKey ''n'']"] by (simp only: if_False option.map json_node.simps)
  then have "json_at (JDict (payload row)) [JKey ''a'', JIndex 0, JKey ''n''] = Some (JInt 1)"
    by (auto simp del: json_at.simps elim!: json_node.elims)
  then show ?thesis using run rows secret by blast
qed

end
