(* ===== verification/Jwt_Service.thy ===== *)
theory Jwt_Service
  imports Auth_State Codec
begin

text \<open>
  \<open>services/jwt_service.py\<close> and \<open>core/jwt.py\<close> of the auth-service: what a token carries and
  what is checked when one comes back. Datetimes in a payload are the second counts PyJWT writes.
\<close>

record token_claims =
  tc_sub :: string
  tc_jti :: string
  token_type :: string
  tc_session_id :: "string option"
  tc_family_id :: "string option"

definition signing_key :: "auth_settings \<Rightarrow> string" where
  "signing_key cfg = jwt_private_key cfg"

definition verification_key :: "auth_settings \<Rightarrow> string" where
  "verification_key cfg =
     (if startswith (jwt_algorithm cfg) ''HS'' then jwt_private_key cfg else jwt_public_key cfg)"

definition generate_jti :: "'r extern \<Rightarrow> ('r, uuid) aprog" where
  "generate_jti X = draw (uuid4 X)"

definition access_payload :: "auth_settings \<Rightarrow> int \<Rightarrow> uuid \<Rightarrow> uuid \<Rightarrow> uuid \<Rightarrow> claims" where
  "access_payload cfg now subject j session_id =
     [(''sub'', JStr (str_uuid subject)), (''jti'', JStr (str_uuid j)),
      (''iss'', JStr (jwt_issuer cfg)), (''aud'', JStr (jwt_audience cfg)),
      (''iat'', JInt now), (''nbf'', JInt now),
      (''exp'', JInt (now + jwt_access_ttl_seconds cfg)),
      (''type'', JStr TOKEN_TYPE_ACCESS), (''sid'', JStr (str_uuid session_id))]"

definition issue_access_token ::
  "'r extern \<Rightarrow> auth_settings \<Rightarrow> uuid \<Rightarrow> uuid \<Rightarrow> ('r, string \<times> int) aprog" where
  "issue_access_token X cfg subject session_id =
     bindE time_now (\<lambda>now.
     bindE (generate_jti X) (\<lambda>j.
       ret (jwt_encode X (access_payload cfg now subject j session_id) (signing_key cfg)
              (jwt_algorithm cfg),
            jwt_access_ttl_seconds cfg)))"

definition refresh_payload ::
  "auth_settings \<Rightarrow> int \<Rightarrow> uuid \<Rightarrow> uuid \<Rightarrow> uuid \<Rightarrow> uuid \<Rightarrow> claims" where
  "refresh_payload cfg now subject session_id fam j =
     [(''sub'', JStr (str_uuid subject)), (''jti'', JStr (str_uuid j)),
      (''iss'', JStr (jwt_issuer cfg)), (''aud'', JStr (jwt_audience cfg)),
      (''iat'', JInt now), (''nbf'', JInt now),
      (''exp'', JInt (now + jwt_refresh_ttl_seconds cfg)),
      (''type'', JStr TOKEN_TYPE_REFRESH), (''sid'', JStr (str_uuid session_id)),
      (''family_id'', JStr (str_uuid fam))]"

definition issue_refresh_token ::
  "'r extern \<Rightarrow> auth_settings \<Rightarrow> uuid \<Rightarrow> uuid \<Rightarrow> uuid \<Rightarrow> uuid \<Rightarrow> ('r, string \<times> int) aprog" where
  "issue_refresh_token X cfg subject session_id fam j =
     bindE time_now (\<lambda>now.
       ret (jwt_encode X (refresh_payload cfg now subject session_id fam j) (signing_key cfg)
              (jwt_algorithm cfg),
            now + jwt_refresh_ttl_seconds cfg))"

definition required_claims :: "string list" where
  "required_claims = [''sub'', ''jti'', ''iss'', ''aud'', ''iat'', ''nbf'', ''exp'', ''type'']"

text \<open>\<open>isinstance(v, str)\<close> for a claim that may be absent: \<open>None\<close> where it is neither.\<close>

definition optional_str :: "json \<Rightarrow> string option option" where
  "optional_str v = (case v of JNull \<Rightarrow> Some None | JStr s \<Rightarrow> Some (Some s) | _ \<Rightarrow> None)"

definition claims_of_payload :: "claims \<Rightarrow> string \<Rightarrow> exn + token_claims" where
  "claims_of_payload pl expected_type =
     (let session_id = dict_get pl ''sid''; fam = dict_get pl ''family_id'' in
      if dict_get pl ''type'' \<noteq> JStr expected_type then
        Inl (InvalidTokenException ''Unexpected token type'')
      else
        (case (dict_get pl ''sub'', dict_get pl ''jti'') of
           (JStr sub, JStr j) \<Rightarrow>
             if expected_type = TOKEN_TYPE_ACCESS \<and> session_id = JNull then
               Inl (InvalidTokenException ''Missing access token sid claim'')
             else if expected_type = TOKEN_TYPE_REFRESH \<and> (session_id = JNull \<or> fam = JNull) then
               Inl (InvalidTokenException ''Missing required refresh token claims'')
             else
               (case optional_str session_id of
                  None \<Rightarrow> Inl (InvalidTokenException ''Malformed sid claim'')
                | Some sid \<Rightarrow>
                    (case optional_str fam of
                       None \<Rightarrow> Inl (InvalidTokenException ''Malformed family_id claim'')
                     | Some fid \<Rightarrow>
                         Inr \<lparr>tc_sub = sub, tc_jti = j, token_type = expected_type,
                              tc_session_id = sid, tc_family_id = fid\<rparr>))
         | _ \<Rightarrow> Inl (InvalidTokenException ''Malformed token claims'')))"

definition decode_and_validate ::
  "'r extern \<Rightarrow> auth_settings \<Rightarrow> string \<Rightarrow> string \<Rightarrow> ('r, token_claims) aprog" where
  "decode_and_validate X cfg tok expected_type =
     bindE time_now (\<lambda>now.
       case jwt_decode X tok (verification_key cfg) [jwt_algorithm cfg] (jwt_audience cfg)
              (jwt_issuer cfg) required_claims now of
         None \<Rightarrow> raise (InvalidTokenException ''Invalid token'')
       | Some pl \<Rightarrow>
           (case claims_of_payload pl expected_type of
              Inl e \<Rightarrow> raise e
            | Inr c \<Rightarrow> ret c))"

section \<open>Execution\<close>

lemma run_issue_refresh_token [simp]:
  "issue_refresh_token X cfg u sid fam j s =
     (Inr (jwt_encode X (refresh_payload cfg (clock s) u sid fam j) (signing_key cfg)
             (jwt_algorithm cfg), clock s + jwt_refresh_ttl_seconds cfg), s)"
  by (simp add: issue_refresh_token_def)

lemma run_issue_access_token [simp]:
  "issue_access_token X cfg u sid s =
     (Inr (jwt_encode X (access_payload cfg (clock s) u (uuid4 X (draws s)) sid) (signing_key cfg)
             (jwt_algorithm cfg), jwt_access_ttl_seconds cfg), s\<lparr>draws := Suc (draws s)\<rparr>)"
  by (simp add: issue_access_token_def generate_jti_def)

lemma snd_decode_and_validate [simp]: "snd (decode_and_validate X cfg tok ty s) = s"
  by (simp add: decode_and_validate_def split: option.split sum.split)

lemma decode_and_validate_state: "decode_and_validate X cfg tok ty s = (r, t) \<Longrightarrow> t = s"
  using snd_decode_and_validate [of X cfg tok ty s] by simp

text \<open>Reading a token fails only with \<open>InvalidTokenException\<close>.\<close>

lemma claims_of_payload_Inl: "claims_of_payload p ty = Inl e \<Longrightarrow> \<exists>m. e = InvalidTokenException m"
  by (auto simp: claims_of_payload_def Let_def split: if_splits json.splits option.splits)

lemma decode_and_validate_Inl:
  "decode_and_validate X cfg tok ty s = (Inl e, t) \<Longrightarrow> t = s \<and> (\<exists>m. e = InvalidTokenException m)"
  by (auto simp: decode_and_validate_def split: option.splits sum.splits dest: claims_of_payload_Inl)

text \<open>What an accepted token carried.\<close>

lemma claims_of_payload_Inr:
  assumes "claims_of_payload p ty = Inr c"
  shows "dict_get p ''type'' = JStr ty" "dict_get p ''sub'' = JStr (tc_sub c)"
    "dict_get p ''jti'' = JStr (tc_jti c)" "token_type c = ty"
    "ty = TOKEN_TYPE_ACCESS \<Longrightarrow> \<exists>sid. tc_session_id c = Some sid \<and> dict_get p ''sid'' = JStr sid"
    "ty = TOKEN_TYPE_REFRESH \<Longrightarrow> \<exists>sid fid. tc_session_id c = Some sid \<and> tc_family_id c = Some fid \<and>
       dict_get p ''sid'' = JStr sid \<and> dict_get p ''family_id'' = JStr fid"
  using assms
  by (auto simp: claims_of_payload_def Let_def optional_str_def split: if_splits json.splits option.splits)

lemma decode_and_validate_Inr:
  assumes "decode_and_validate X cfg tok ty s = (Inr c, t)"
  obtains p where "t = s"
    and "jwt_decode X tok (verification_key cfg) [jwt_algorithm cfg] (jwt_audience cfg)
           (jwt_issuer cfg) required_claims (clock s) = Some p"
    and "claims_of_payload p ty = Inr c"
  using assms by (auto simp: decode_and_validate_def split: option.splits sum.splits)

section \<open>Tokens the service issues\<close>

lemma token_types_distinct [simp]: "TOKEN_TYPE_ACCESS \<noteq> TOKEN_TYPE_REFRESH" "TOKEN_TYPE_REFRESH \<noteq> TOKEN_TYPE_ACCESS"
  by (simp_all add: TOKEN_TYPE_ACCESS_def TOKEN_TYPE_REFRESH_def)

lemma payload_flat: "flat_claims (refresh_payload cfg now u sid fam j)" "flat_claims (access_payload cfg now u j sid)"
  by (simp_all add: flat_claims_def refresh_payload_def access_payload_def flat_json_def)

lemma refresh_payload_valid:
  "claims_valid (jwt_audience cfg) (jwt_issuer cfg) required_claims now
     (refresh_payload cfg tb u sid fam j) \<longleftrightarrow> tb \<le> now \<and> now < tb + jwt_refresh_ttl_seconds cfg"
  by (auto simp: claims_valid_def refresh_payload_def dict_get_def required_claims_def)

lemma access_payload_valid:
  "claims_valid (jwt_audience cfg) (jwt_issuer cfg) required_claims now
     (access_payload cfg tb u j sid) \<longleftrightarrow> tb \<le> now \<and> now < tb + jwt_access_ttl_seconds cfg"
  by (auto simp: claims_valid_def access_payload_def dict_get_def required_claims_def)

lemma claims_of_refresh_payload:
  "claims_of_payload (refresh_payload cfg now u sid fam j) TOKEN_TYPE_REFRESH =
     Inr \<lparr>tc_sub = str_uuid u, tc_jti = str_uuid j, token_type = TOKEN_TYPE_REFRESH,
          tc_session_id = Some (str_uuid sid), tc_family_id = Some (str_uuid fam)\<rparr>"
  by (simp add: claims_of_payload_def refresh_payload_def dict_get_def optional_str_def)

lemma claims_of_access_payload:
  "claims_of_payload (access_payload cfg now u j sid) TOKEN_TYPE_ACCESS =
     Inr \<lparr>tc_sub = str_uuid u, tc_jti = str_uuid j, token_type = TOKEN_TYPE_ACCESS,
          tc_session_id = Some (str_uuid sid), tc_family_id = None\<rparr>"
  by (simp add: claims_of_payload_def access_payload_def dict_get_def optional_str_def)

lemma claims_of_payload_wrong_type:
  "ty \<noteq> TOKEN_TYPE_REFRESH \<Longrightarrow> claims_of_payload (refresh_payload cfg now u sid fam j) ty =
     Inl (InvalidTokenException ''Unexpected token type'')"
  "ty \<noteq> TOKEN_TYPE_ACCESS \<Longrightarrow> claims_of_payload (access_payload cfg now u j sid) ty =
     Inl (InvalidTokenException ''Unexpected token type'')"
  by (simp_all add: claims_of_payload_def refresh_payload_def access_payload_def dict_get_def)

text \<open>
  The service with its keys: PyJWT behaves as documented, and the verification key of the settings
  belongs to the signing key.
\<close>

definition jwt_ready :: "'r extern \<Rightarrow> auth_settings \<Rightarrow> (string \<Rightarrow> string \<Rightarrow> string \<Rightarrow> bool) \<Rightarrow> bool" where
  "jwt_ready X cfg paired \<longleftrightarrow>
     pyjwt (jwt_encode X) (jwt_decode X) paired \<and>
     paired (jwt_algorithm cfg) (signing_key cfg) (verification_key cfg)"

lemma decode_issued:
  assumes "jwt_ready X cfg paired" "flat_claims c"
  shows "jwt_decode X (jwt_encode X c (signing_key cfg) (jwt_algorithm cfg)) (verification_key cfg)
           [jwt_algorithm cfg] (jwt_audience cfg) (jwt_issuer cfg) req now =
         (if claims_valid (jwt_audience cfg) (jwt_issuer cfg) req now c then Some c else None)"
  using assms pyjwt.decode_encode unfolding jwt_ready_def by metis

text \<open>What the service makes of its own tokens: the claims while valid, an exception otherwise.\<close>

lemma validate_issued_refresh:
  assumes "jwt_ready X cfg paired"
  shows "decode_and_validate X cfg
           (jwt_encode X (refresh_payload cfg tb u sid fam j) (signing_key cfg) (jwt_algorithm cfg))
           TOKEN_TYPE_REFRESH s =
         (if tb \<le> clock s \<and> clock s < tb + jwt_refresh_ttl_seconds cfg
          then Inr \<lparr>tc_sub = str_uuid u, tc_jti = str_uuid j, token_type = TOKEN_TYPE_REFRESH,
                    tc_session_id = Some (str_uuid sid), tc_family_id = Some (str_uuid fam)\<rparr>
          else Inl (InvalidTokenException ''Invalid token''), s)"
  by (simp add: decode_and_validate_def decode_issued [OF assms payload_flat(1)] refresh_payload_valid
      claims_of_refresh_payload)

lemma validate_issued_access:
  assumes "jwt_ready X cfg paired"
  shows "decode_and_validate X cfg
           (jwt_encode X (access_payload cfg tb u j sid) (signing_key cfg) (jwt_algorithm cfg))
           TOKEN_TYPE_ACCESS s =
         (if tb \<le> clock s \<and> clock s < tb + jwt_access_ttl_seconds cfg
          then Inr \<lparr>tc_sub = str_uuid u, tc_jti = str_uuid j, token_type = TOKEN_TYPE_ACCESS,
                    tc_session_id = Some (str_uuid sid), tc_family_id = None\<rparr>
          else Inl (InvalidTokenException ''Invalid token''), s)"
  by (simp add: decode_and_validate_def decode_issued [OF assms payload_flat(2)] access_payload_valid
      claims_of_access_payload)

lemma validate_issued_wrong_type:
  assumes "jwt_ready X cfg paired"
  shows "\<exists>m. decode_and_validate X cfg
           (jwt_encode X (access_payload cfg tb u j sid) (signing_key cfg) (jwt_algorithm cfg))
           TOKEN_TYPE_REFRESH s = (Inl (InvalidTokenException m), s)"
    "\<exists>m. decode_and_validate X cfg
           (jwt_encode X (refresh_payload cfg tb u sid fam j) (signing_key cfg) (jwt_algorithm cfg))
           TOKEN_TYPE_ACCESS s = (Inl (InvalidTokenException m), s)"
  by (simp_all add: decode_and_validate_def decode_issued [OF assms payload_flat(1)]
      decode_issued [OF assms payload_flat(2)] claims_of_payload_wrong_type)

end
