(* ===== verification/Http_Security.thy ===== *)
theory Http_Security
  imports Reference_World Jwt_Service
begin

text \<open>
  \<open>core/security.py\<close> and \<open>core/rate_limit.py\<close>, which the auth-service, the user-service and the
  api-gateway each have a copy of: the client address behind trusted proxies, the bearer token,
  the check of revoked access sessions, the access tokens the two edge services accept, and the
  per-minute rate limits. The programs here work on any service's state.
\<close>

record http_request =
  rq_method :: string
  rq_path :: string
  rq_scheme :: string
  rq_client :: "string option"
  rq_headers :: "(string \<times> string) list"
  rq_cookies :: "(string \<times> string) list"
  rq_query :: "(string \<times> string) list"
  rq_body :: string

text \<open>\<open>request.headers.get(name)\<close>; header names arrive in lower case.\<close>

definition header_get :: "http_request \<Rightarrow> string \<Rightarrow> string option" where
  "header_get rq name = map_of (rq_headers rq) name"

section \<open>The client's address\<close>

definition proxy_matches :: "'r extern \<Rightarrow> string \<Rightarrow> string \<Rightarrow> bool" where
  "proxy_matches X client_host trusted =
     (let candidate = strip trusted in
      if candidate = '''' then False
      else if candidate = client_host then True
      else
        (case ip_parse X client_host of
           None \<Rightarrow> False
         | Some client_ip \<Rightarrow>
             if contains_sub ''/'' candidate then ip_in_network X client_ip candidate = Some True
             else ip_parse X candidate = Some client_ip))"

definition is_trusted_proxy :: "'r extern \<Rightarrow> string option \<Rightarrow> string list \<Rightarrow> bool" where
  "is_trusted_proxy X client_host trusted_ips =
     (case client_host of
        None \<Rightarrow> False
      | Some h \<Rightarrow> h \<noteq> '''' \<and> list_ex (proxy_matches X h) trusted_ips)"

definition client_host_of :: "http_request \<Rightarrow> string option" where
  "client_host_of rq =
     (case rq_client rq of None \<Rightarrow> None | Some h \<Rightarrow> if h = '''' then None else Some h)"

definition get_client_ip :: "'r extern \<Rightarrow> http_request \<Rightarrow> string list \<Rightarrow> string" where
  "get_client_ip X rq trusted_ips =
     (let client_host = client_host_of rq;
          fallback = (case client_host of None \<Rightarrow> ''unknown'' | Some h \<Rightarrow> h) in
      case header_get rq ''x-forwarded-for'' of
        None \<Rightarrow> fallback
      | Some xff \<Rightarrow>
          if xff \<noteq> '''' \<and> is_trusted_proxy X client_host trusted_ips then
            (let first = strip (split_first CHR '','' xff) in
             if first \<noteq> '''' then first else fallback)
          else fallback)"

section \<open>Bearer tokens and revoked sessions\<close>

definition extract_bearer_token :: "http_request \<Rightarrow> (('r, 'm) node_scheme, exn, string) prog" where
  "extract_bearer_token rq =
     (let authorization = (case header_get rq ''authorization'' of None \<Rightarrow> '''' | Some v \<Rightarrow> v) in
      if \<not> startswith authorization ''Bearer '' then
        raise (UnauthorizedException ''Missing or invalid authorization header'')
      else
        (let tok = strip (removeprefix authorization ''Bearer '') in
         if tok = '''' then raise (UnauthorizedException ''Missing bearer token'') else ret tok))"

definition ensure_access_session_active ::
  "'r extern \<Rightarrow> uuid \<Rightarrow> (('r, 'm) node_scheme, exn, unit) prog" where
  "ensure_access_session_active X session_id =
     bindE (redis_exists (redis_cmds X) (access_session_revoked_key (str_uuid session_id))) (\<lambda>revoked.
       if revoked then raise (UnauthorizedException ''Access session revoked'') else ret ())"

text \<open>\<open>AccessTokenService\<close> of the user-service and of the api-gateway, which are the same.\<close>

record access_token_claims =
  at_sub :: uuid
  at_jti :: uuid
  at_sid :: uuid

definition edge_required_claims :: "string list" where
  "edge_required_claims =
     [''sub'', ''jti'', ''sid'', ''type'', ''iss'', ''aud'', ''iat'', ''nbf'', ''exp'']"

text \<open>\<open>UUID(str(v))\<close>; the text of a list or a dictionary is never that of a UUID.\<close>

definition uuid_of_json :: "json \<Rightarrow> uuid option" where
  "uuid_of_json v = (case v of JStr s \<Rightarrow> parse_uuid s | JInt i \<Rightarrow> parse_uuid (str_int i) | _ \<Rightarrow> None)"

definition decode_access_token ::
  "'r extern \<Rightarrow> ('c) base_settings_scheme \<Rightarrow> string \<Rightarrow> (('r, 'm) node_scheme, exn, access_token_claims) prog" where
  "decode_access_token X cfg raw_token =
     bindE time_now (\<lambda>now.
       case jwt_decode X raw_token (jwt_public_key cfg) [jwt_algorithm cfg] (jwt_audience cfg)
              (jwt_issuer cfg) edge_required_claims now of
         None \<Rightarrow> raise (UnauthorizedException ''Invalid access token'')
       | Some pl \<Rightarrow>
           if dict_get pl ''type'' \<noteq> JStr TOKEN_TYPE_ACCESS then
             raise (UnauthorizedException ''Unexpected token type'')
           else
             (case (uuid_of_json (dict_get pl ''sub''), uuid_of_json (dict_get pl ''jti''),
                    uuid_of_json (dict_get pl ''sid'')) of
                (Some sub, Some j, Some sid) \<Rightarrow> ret \<lparr>at_sub = sub, at_jti = j, at_sid = sid\<rparr>
              | _ \<Rightarrow> raise (UnauthorizedException ''Malformed token claims'')))"

section \<open>Rate limits\<close>

definition apply_rate_limit ::
  "'r extern \<Rightarrow> string \<Rightarrow> int \<Rightarrow> int \<Rightarrow> (('r, 'm) node_scheme, exn, unit) prog" where
  "apply_rate_limit X key limit window =
     bindE
       (tryE
         (bindE (redis_incr (redis_cmds X) key) (\<lambda>current.
          thenE (whenE (current = 1) (redis_expire (redis_cmds X) key window)) (ret current)))
         (\<lambda>e. if e = RedisError then raise (ServiceUnavailableException ''Rate limiter unavailable'')
              else raise e))
       (\<lambda>current. if current > limit then raise (TooManyRequestsException ''Rate limit exceeded'')
                  else ret ())"

definition rate_limit_dependency ::
  "'r extern \<Rightarrow> ('c) base_settings_scheme \<Rightarrow> string \<Rightarrow> int \<Rightarrow> http_request \<Rightarrow>
   (('r, 'm) node_scheme, exn, unit) prog" where
  "rate_limit_dependency X cfg scope limit_per_minute rq =
     (let ip = get_client_ip X rq (trusted_proxy_ips cfg);
          client_hash = stable_hmac_digest X ip (privacy_key_pepper cfg) in
      bindE time_now (\<lambda>now.
        apply_rate_limit X (rate_limit_key scope client_hash (now div 60)) limit_per_minute 61))"

text \<open>\<open>RateLimiter.check\<close> of the api-gateway.\<close>

definition rate_limiter_check ::
  "'r extern \<Rightarrow> ('c) base_settings_scheme \<Rightarrow> http_request \<Rightarrow> string \<Rightarrow> int \<Rightarrow>
   (('r, 'm) node_scheme, exn, unit) prog" where
  "rate_limiter_check X cfg rq scope limit_per_minute =
     (let ip = get_client_ip X rq (trusted_proxy_ips cfg);
          client_hash = stable_hmac_digest X ip (privacy_key_pepper cfg) in
      bindE time_now (\<lambda>now.
        let key = rate_limit_key scope client_hash (now div 60) in
        bindE
          (tryE
            (bindE (redis_incr (redis_cmds X) key) (\<lambda>current.
             thenE (whenE (current = 1) (redis_expire (redis_cmds X) key 61)) (ret current)))
            (\<lambda>e. if e = RedisError then raise (ServiceUnavailableException ''Rate limiter unavailable'')
                 else raise e))
          (\<lambda>current. if current > limit_per_minute then
                       raise (TooManyRequestsException ''Rate limit exceeded'')
                     else ret ())))"

section \<open>What the guards do\<close>

lemma extract_bearer_token_state: "extract_bearer_token rq s = (r, t) \<Longrightarrow> t = s"
  by (auto simp: extract_bearer_token_def Let_def split: if_splits)

lemma ensure_active_cases:
  assumes "redis_store (redis_cmds X) look"
  shows "(\<exists>e. ensure_access_session_active X sid s = (Inl e, s)) \<or>
    ensure_access_session_active X sid s = (Inr (), s) \<and>
      look (redis s) (clock s) (access_session_revoked_key (str_uuid sid)) = None"
proof (cases "r_exists (redis_cmds X) (clock s) (access_session_revoked_key (str_uuid sid)) (redis s)")
  case (Some b)
  then show ?thesis
    using redis_store.exists_law [OF assms Some]
    by (auto simp: ensure_access_session_active_def run_redis_read)
qed (simp add: ensure_access_session_active_def run_redis_read bindE_def)

lemma bearer_cases:
  "(\<exists>e. extract_bearer_token rq s = (Inl e, s)) \<or> (\<exists>raw. extract_bearer_token rq s = (Inr raw, s))"
  by (metis extract_bearer_token_state old.prod.exhaust sum.exhaust)

lemma run_decode_access_token: "\<exists>r. decode_access_token X cfg tok s = (r, s)"
  by (simp add: decode_access_token_def split: option.split)

section \<open>The client's address cannot be forged\<close>

text \<open>
  The address the services use for limits, locks, challenges and audit. When the
  connecting peer is not a configured proxy the answer is the peer's own address, whatever
  headers it sends; when it is, the answer is the first entry of \<open>X-Forwarded-For\<close> if that
  is not blank.
\<close>

theorem client_ip_not_spoofable:
  "get_client_ip X rq ips =
     (let peer = (case client_host_of rq of None \<Rightarrow> ''unknown'' | Some h \<Rightarrow> h);
          first = (case header_get rq ''x-forwarded-for'' of
                     None \<Rightarrow> '''' | Some xff \<Rightarrow> strip (split_first CHR '','' xff))
      in if is_trusted_proxy X (client_host_of rq) ips \<and> first \<noteq> '''' then first else peer)"
  by (auto simp: get_client_ip_def Let_def split_first_def strip_of_def strip_def lstrip_of_def
      rstrip_of_def split: option.splits)

section \<open>Rate limits are exact\<close>

text \<open>The two limiters do the same.\<close>

lemma rate_limiter_check_eq:
  "rate_limiter_check X cfg rq scope limit = rate_limit_dependency X cfg scope limit rq"
  by (simp add: rate_limiter_check_def rate_limit_dependency_def apply_rate_limit_def Let_def)

text \<open>The answers to a series of requests at the given times.\<close>

primrec answers_at ::
  "int list \<Rightarrow> (('r, 'm) node_scheme, exn, unit) prog \<Rightarrow> ('r, 'm) node_scheme \<Rightarrow> (exn + unit) list" where
  "answers_at [] p s = []"
| "answers_at (t # ts) p s = (let (r, s') = p (s\<lparr>clock := t\<rparr>) in r # answers_at ts p s')"

text \<open>A counter with its expiry; zero is no entry.\<close>

definition counter_until :: "int \<Rightarrow> int \<Rightarrow> entry option" where
  "counter_until n x = (if n = 0 then None else Some (str_int n, Some x))"

definition rate_answer :: "int \<Rightarrow> int \<Rightarrow> exn + unit" where
  "rate_answer limit n =
     (if n > limit then Inl (TooManyRequestsException ''Rate limit exceeded'') else Inr ())"

context redis_live
begin

lemma apply_rate_limit_run:
  assumes ops: "redis_cmds X = ops" and w: "0 < w"
    and n: "look (redis s) (clock s) key = counter_until n x" "0 \<le> n" "n < 2 ^ 63 - 1"
  shows "\<exists>s'. apply_rate_limit X key limit w s = (rate_answer limit (n + 1), s') \<and>
         clock s' = clock s \<and>
         look (redis s') (clock s) key = counter_until (n + 1) (if n = 0 then clock s + w else x)"
proof -
  have "counter_entry (look (redis s) (clock s) key)"
    using n by (auto simp: counter_entry_def counter_until_def)
  then obtain a r1 where i1: "r_incr ops (clock s) key (redis s) = Some (a, r1)"
    using incr_ok by (metis not_Some_eq surj_pair)
  have a: "a = n + 1 \<and> look r1 (clock s) key = Some (str_int (n + 1), if n = 0 then None else Some x)"
    using i1 n incr_new [OF i1] incr_old [OF i1, of "str_int n" "Some x"]
    by (auto simp: counter_until_def split: if_splits)
  obtain r2 where e: "r_expire ops (clock s) key w r1 = Some r2"
    using expire_ok by (metis not_Some_eq)
  show ?thesis
    using a n(2) expire_law [OF e] w
    by (auto simp: apply_rate_limit_def bindE_def tryE_def thenE_def run_redis_incr run_redis_write
        ops i1 e counter_until_def rate_answer_def)
qed

lemma answers_at_rate_limit:
  assumes ops: "redis_cmds X = ops" and w: "0 < w"
    and "look (redis s) tb key = counter_until n x" "0 \<le> n" "n + int (length ts) < 2 ^ 63"
    and "sorted (tb # ts)" "n = 0 \<Longrightarrow> ts \<noteq> [] \<Longrightarrow> x = hd ts + w" "\<forall>t \<in> set ts. t < x"
  shows "answers_at ts (apply_rate_limit X key limit w) s =
         map (\<lambda>k. rate_answer limit (n + 1 + int k)) [0..<length ts]"
  using assms(3-)
proof (induction ts arbitrary: s tb n)
  case (Cons t ts)
  let ?s = "s\<lparr>clock := t\<rparr>"
  have e: "look (redis ?s) (clock ?s) key = counter_until n x"
    using Cons.prems by (simp add: look_later [of tb t] counter_until_def aged_def)
  have b: "n < 2 ^ 63 - 1" using Cons.prems(3) by simp
  obtain s' where run: "apply_rate_limit X key limit w ?s = (rate_answer limit (n + 1), s')"
    and l: "look (redis s') t key = counter_until (n + 1) (if n = 0 then t + w else x)"
    using apply_rate_limit_run [OF ops w e Cons.prems(2) b, of limit] by auto
  have x: "(if n = 0 then t + w else x) = x" using Cons.prems(5) by simp
  have "answers_at ts (apply_rate_limit X key limit w) s' =
      map (\<lambda>k. rate_answer limit (n + 1 + 1 + int k)) [0..<length ts]"
    by (rule Cons.IH) (use Cons.prems l x in auto)
  moreover have "[0..<length (t # ts)] = 0 # map Suc [0..<length ts]"
    by (simp add: upt_conv_Cons map_Suc_upt del: upt_Suc)
  moreover have "n + 1 + 1 + int k = n + 1 + int (Suc k)" for k by simp
  ultimately show ?case by (simp only: answers_at.simps run) (simp add: comp_def)
qed simp

end

lemma answers_at_cong:
  "(\<And>t s. t \<in> set ts \<Longrightarrow> p (s\<lparr>clock := t\<rparr>) = q (s\<lparr>clock := t\<rparr>)) \<Longrightarrow> answers_at ts p s = answers_at ts q s"
  by (induction ts arbitrary: s) (auto split: prod.split)

text \<open>
  C8: the rate limits are exact. Of the requests one client sends in one scope and one
  minute, at any times, precisely the first \<open>limit_per_minute\<close> pass and every later one is answered
  \<open>TooManyRequestsException\<close>; the counter's lifetime of 61 seconds never ends inside the minute.
  It holds for the dependency of the auth- and user-service and for the gateway's limiter.
\<close>

theorem rate_limit_exact:
  assumes "redis_live (redis_cmds X) look"
    and "look (redis s) (hd ts) (rate_limit_key scope
           (stable_hmac_digest X (get_client_ip X rq (trusted_proxy_ips cfg)) (privacy_key_pepper cfg))
           (hd ts div 60)) = None"
    and "sorted ts" "\<forall>t \<in> set ts. t div 60 = hd ts div 60" "int (length ts) < 2 ^ 63"
  shows "answers_at ts (rate_limit_dependency X cfg scope limit rq) s =
           map (\<lambda>k. rate_answer limit (int k + 1)) [0..<length ts] \<and>
         answers_at ts (rate_limiter_check X cfg rq scope limit) s =
           map (\<lambda>k. rate_answer limit (int k + 1)) [0..<length ts]"
proof -
  let ?d = "stable_hmac_digest X (get_client_ip X rq (trusted_proxy_ips cfg)) (privacy_key_pepper cfg)"
  let ?key = "rate_limit_key scope ?d (hd ts div 60)"
  have "answers_at ts (rate_limit_dependency X cfg scope limit rq) s =
        answers_at ts (apply_rate_limit X ?key limit 61) s"
    by (rule answers_at_cong) (use assms(4) in \<open>simp add: rate_limit_dependency_def\<close>)
  also have "\<dots> = map (\<lambda>k. rate_answer limit (0 + 1 + int k)) [0..<length ts]"
  proof (rule redis_live.answers_at_rate_limit [OF assms(1) refl])
    show "look (redis s) (hd ts) ?key = counter_until 0 (hd ts + 61)"
      using assms(2) by (simp add: counter_until_def)
    show "sorted (hd ts # ts)" using assms(3) by (cases ts) auto
    show "\<forall>t \<in> set ts. t < hd ts + 61"
    proof
      fix t assume "t \<in> set ts"
      then have "t div 60 = hd ts div 60" using assms(4) by blast
      then show "t < hd ts + 61" by presburger
    qed
  qed (use assms(5) in simp_all)
  finally show ?thesis by (simp add: rate_limiter_check_eq add.commute)
qed

definition ref_request :: http_request where
  "ref_request = \<lparr>rq_method = ''POST'', rq_path = ''/v1/auth/login'', rq_scheme = ''http'',
     rq_client = Some ''7'', rq_headers = [], rq_cookies = [], rq_query = [], rq_body = ''''\<rparr>"

theorem rate_limit_exact_witness:
  "answers_at [1020, 1030, 1079] (rate_limit_dependency ref_extern ref_cfg ''login'' 2 ref_request) ref_node =
     [Inr (), Inr (), Inl (TooManyRequestsException ''Rate limit exceeded'')]"
proof -
  have live: "redis_live (redis_cmds ref_extern) ks_look"
    using ks.redis_live_axioms by simp
  show ?thesis
    using rate_limit_exact [OF live, where s = ref_node and ts = "[1020, 1030, 1079]" and rq = ref_request
        and cfg = ref_cfg and scope = "''login''" and limit = 2]
    by (simp add: ks_look_def aged_def rate_answer_def upt_rec)
qed

section \<open>Tokens are accepted for what they are\<close>

text \<open>
  An edge service configured for the tokens of an auth-service: the same algorithm, issuer and
  audience, and the public half of the signing key.
\<close>

definition edge_of ::
  "(string \<Rightarrow> string \<Rightarrow> string \<Rightarrow> bool) \<Rightarrow> auth_settings \<Rightarrow> 'c base_settings_scheme \<Rightarrow> bool" where
  "edge_of paired cfg ecfg \<longleftrightarrow>
     jwt_algorithm ecfg = jwt_algorithm cfg \<and> jwt_issuer ecfg = jwt_issuer cfg \<and>
     jwt_audience ecfg = jwt_audience cfg \<and>
     paired (jwt_algorithm cfg) (signing_key cfg) (jwt_public_key ecfg)"

lemma decode_at_edge:
  assumes "jwt_ready X cfg paired" "edge_of paired cfg ecfg" "flat_claims c"
  shows "jwt_decode X (jwt_encode X c (signing_key cfg) (jwt_algorithm cfg)) (jwt_public_key ecfg)
           [jwt_algorithm ecfg] (jwt_audience ecfg) (jwt_issuer ecfg) req now =
         (if claims_valid (jwt_audience cfg) (jwt_issuer cfg) req now c then Some c else None)"
  using assms pyjwt.decode_encode [of "jwt_encode X" "jwt_decode X" paired "jwt_algorithm cfg" "signing_key cfg"]
  by (simp add: jwt_ready_def edge_of_def)

lemma edge_payload_valid:
  "claims_valid (jwt_audience cfg) (jwt_issuer cfg) edge_required_claims now (access_payload cfg tb u j sid) \<longleftrightarrow>
     tb \<le> now \<and> now < tb + jwt_access_ttl_seconds cfg"
  by (auto simp: claims_valid_def access_payload_def dict_get_def edge_required_claims_def)

lemma uuid_of_json_str [simp]: "uuid_of_json (JStr (str_uuid u)) = Some u"
  by (simp add: uuid_of_json_def)

lemma edge_access_token:
  assumes "jwt_ready X cfg paired" "edge_of paired cfg ecfg"
  shows "decode_access_token X ecfg
           (jwt_encode X (access_payload cfg tb u j sid) (signing_key cfg) (jwt_algorithm cfg)) s =
         (if tb \<le> clock s \<and> clock s < tb + jwt_access_ttl_seconds cfg
          then Inr \<lparr>at_sub = u, at_jti = j, at_sid = sid\<rparr>
          else Inl (UnauthorizedException ''Invalid access token''), s)"
proof -
  have "dict_get (access_payload cfg tb u j sid) ''type'' = JStr TOKEN_TYPE_ACCESS"
    "dict_get (access_payload cfg tb u j sid) ''sub'' = JStr (str_uuid u)"
    "dict_get (access_payload cfg tb u j sid) ''jti'' = JStr (str_uuid j)"
    "dict_get (access_payload cfg tb u j sid) ''sid'' = JStr (str_uuid sid)"
    by (simp_all add: access_payload_def dict_get_def)
  then show ?thesis
    by (simp add: decode_access_token_def decode_at_edge [OF assms payload_flat(2)] edge_payload_valid)
qed

lemma edge_refresh_token:
  assumes "jwt_ready X cfg paired" "edge_of paired cfg ecfg"
  shows "\<exists>m. decode_access_token X ecfg
           (jwt_encode X (refresh_payload cfg tb u sid fam j) (signing_key cfg) (jwt_algorithm cfg)) s =
         (Inl (UnauthorizedException m), s)"
proof -
  have "dict_get (refresh_payload cfg tb u sid fam j) ''type'' = JStr TOKEN_TYPE_REFRESH"
    by (simp add: refresh_payload_def dict_get_def)
  then show ?thesis
    by (simp add: decode_access_token_def decode_at_edge [OF assms payload_flat(1)])
qed

text \<open>
  C9: a token is accepted only as what it was issued as. An access token of the auth-service is
  accepted by the user-service and the gateway with the user, id and session it was issued for,
  from its issue until its lifetime ends and at no other time, and never by the refresh
  endpoints; a refresh token is never accepted as an access token, neither at the edge nor by the
  auth-service.
\<close>

theorem token_type_separation:
  assumes "jwt_ready X cfg paired" "edge_of paired cfg ecfg"
  shows "decode_access_token X ecfg
           (jwt_encode X (access_payload cfg tb u j sid) (signing_key cfg) (jwt_algorithm cfg)) s =
         (if tb \<le> clock s \<and> clock s < tb + jwt_access_ttl_seconds cfg
          then Inr \<lparr>at_sub = u, at_jti = j, at_sid = sid\<rparr>
          else Inl (UnauthorizedException ''Invalid access token''), s) \<and>
         (\<exists>m. decode_and_validate X cfg
           (jwt_encode X (access_payload cfg tb u j sid) (signing_key cfg) (jwt_algorithm cfg))
           TOKEN_TYPE_REFRESH a = (Inl (InvalidTokenException m), a)) \<and>
         (\<exists>m. decode_access_token X ecfg
           (jwt_encode X (refresh_payload cfg tb u sid fam j) (signing_key cfg) (jwt_algorithm cfg)) s =
         (Inl (UnauthorizedException m), s)) \<and>
         (\<exists>m. decode_and_validate X cfg
           (jwt_encode X (refresh_payload cfg tb u sid fam j) (signing_key cfg) (jwt_algorithm cfg))
           TOKEN_TYPE_ACCESS a = (Inl (InvalidTokenException m), a))"
  by (intro conjI edge_access_token [OF assms] edge_refresh_token [OF assms]
      validate_issued_wrong_type [OF assms(1)])

definition ref_edge_cfg :: user_settings where
  "ref_edge_cfg =
     \<lparr>service_env = ''local'', cors_allowed_origins = [], trusted_proxy_ips = [''10''],
      redis_url = '''', jwt_algorithm = ''HS256'', jwt_issuer = ''i'', jwt_audience = ''a'',
      jwt_public_key = ''k'', privacy_key_pepper = ''q'', user_database_url = '''',
      rate_limit_profile_write_per_minute = 10, rate_limit_roles_write_per_minute = 10\<rparr>"

lemma ref_jwt_ready: "jwt_ready ref_extern ref_cfg (\<lambda>alg sk vk. sk = vk)"
  using ref_jwt.pyjwt_axioms
  by (simp add: jwt_ready_def signing_key_def verification_key_def ref_cfg_def startswith_def)

lemma ref_edge_of: "edge_of (\<lambda>alg sk vk. sk = vk) ref_cfg ref_edge_cfg"
  by (simp add: edge_of_def ref_edge_cfg_def ref_cfg_def signing_key_def)

theorem token_type_separation_witness:
  "decode_access_token ref_extern ref_edge_cfg
     (ref_jwt_encode (access_payload ref_cfg 500 3 4 5) (signing_key ref_cfg) (jwt_algorithm ref_cfg)) ref_node =
   (Inr \<lparr>at_sub = 3, at_jti = 4, at_sid = 5\<rparr>, ref_node)"
  using token_type_separation [OF ref_jwt_ready ref_edge_of, of 500 3 4 5 ref_node]
  by (simp add: ref_cfg_def)

end
