(* ===== verification/Refresh_Service.thy ===== *)
theory Refresh_Service
  imports Auth_Repositories Http_Security
begin

text \<open>
  \<open>services/refresh_token_service.py\<close> with \<open>services/session_service.py\<close>, whose methods are the
  session repository's: issuing a token pair, rotation with reuse detection, revocation. The
  lemmas after the definitions say what each operation did when it returned and when it raised.
\<close>

record token_pair =
  tp_access_token :: string
  tp_refresh_token :: string
  tp_access_expires_in :: int
  tp_family_id :: uuid
  tp_session_id :: uuid

definition hash_refresh_token :: "'r extern \<Rightarrow> auth_settings \<Rightarrow> string \<Rightarrow> string" where
  "hash_refresh_token X cfg raw = hmac_sha256_hex X (refresh_token_hash_pepper cfg) raw"

definition issue_for_user ::
  "'r extern \<Rightarrow> auth_settings \<Rightarrow> uuid \<Rightarrow> string option \<Rightarrow> string option \<Rightarrow> ('r, token_pair) aprog" where
  "issue_for_user X cfg uid ip ua =
     bindE (draw (uuid4 X)) (\<lambda>fam.
     bindE (session_create X uid fam ip ua) (\<lambda>v.
     bindE (generate_jti X) (\<lambda>refresh_jti.
     bindE (issue_refresh_token X cfg uid (us_id v) fam refresh_jti) (\<lambda>(refresh_token, refresh_exp).
     thenE (refresh_token_create X uid refresh_jti fam None (hash_refresh_token X cfg refresh_token)
              refresh_exp ip ua)
    (bindE (issue_access_token X cfg uid (us_id v)) (\<lambda>(access_token, access_expires_in).
       ret \<lparr>tp_access_token = access_token, tp_refresh_token = refresh_token,
            tp_access_expires_in = access_expires_in, tp_family_id = fam,
            tp_session_id = us_id v\<rparr>))))))"

text \<open>The claims of a refresh token as UUIDs: token id, family, session, user.\<close>

definition refresh_claims ::
  "'r extern \<Rightarrow> auth_settings \<Rightarrow> string \<Rightarrow> ('r, uuid \<times> uuid \<times> uuid \<times> uuid) aprog" where
  "refresh_claims X cfg raw =
     bindE (decode_and_validate X cfg raw TOKEN_TYPE_REFRESH) (\<lambda>claims.
       case (tc_family_id claims, tc_session_id claims) of
         (Some fam, Some sid) \<Rightarrow>
           (case (parse_uuid (tc_jti claims), parse_uuid fam, parse_uuid sid, parse_uuid (tc_sub claims)) of
              (Some j, Some f, Some v, Some u) \<Rightarrow> ret (j, f, v, u)
            | _ \<Rightarrow> raise (InvalidTokenException ''Malformed UUID claim in token''))
       | _ \<Rightarrow> raise (InvalidTokenException ''Missing required refresh token claims''))"

text \<open>The last part of \<open>rotate\<close>: replacing a token that passed every check.\<close>

definition rotate_fresh ::
  "'r extern \<Rightarrow> auth_settings \<Rightarrow> refresh_token \<Rightarrow> uuid \<Rightarrow> uuid \<Rightarrow> uuid \<Rightarrow> string option \<Rightarrow>
   string option \<Rightarrow> ('r, token_pair) aprog" where
  "rotate_fresh X cfg token_record uid fam sid ip ua =
     bindE (draw (uuid4 X)) (\<lambda>new_jti.
     bindE (issue_refresh_token X cfg uid sid fam new_jti) (\<lambda>(new_refresh_token, new_exp).
     thenE (mark_rotated token_record new_jti)
    (thenE (refresh_token_create X uid new_jti fam (Some (jti token_record))
              (hash_refresh_token X cfg new_refresh_token) new_exp ip ua)
    (thenE (touch_family fam)
    (bindE (issue_access_token X cfg uid sid) (\<lambda>(access_token, access_expires_in).
       ret \<lparr>tp_access_token = access_token, tp_refresh_token = new_refresh_token,
            tp_access_expires_in = access_expires_in, tp_family_id = fam,
            tp_session_id = sid\<rparr>))))))"

definition rotate_refresh ::
  "'r extern \<Rightarrow> auth_settings \<Rightarrow> string \<Rightarrow> string option \<Rightarrow> string option \<Rightarrow> ('r, token_pair) aprog" where
  "rotate_refresh X cfg raw ip ua =
     bindE (refresh_claims X cfg raw) (\<lambda>(token_jti, fam, sid, uid).
     bindE (get_by_jti_for_update token_jti) (\<lambda>found.
       case found of
         None \<Rightarrow> raise (InvalidTokenException ''Invalid token'')
       | Some token_record \<Rightarrow>
           if rt_user_id token_record \<noteq> uid \<or> family_id token_record \<noteq> fam then
             raise (InvalidTokenException ''Refresh token claims do not match persisted token'')
           else if token_hash token_record \<noteq> hash_refresh_token X cfg raw then
             raise (InvalidTokenException ''Invalid token'')
           else
             bindE (is_family_active fam) (\<lambda>family_active.
               if \<not> family_active then raise (InvalidTokenException ''Session is revoked'')
               else
                 bindE time_now (\<lambda>now.
                   if expires_at token_record < now then
                     raise (InvalidTokenException ''Refresh token expired'')
                   else if revoked_at token_record \<noteq> None \<or> rotated_at token_record \<noteq> None then
                     thenE (tokens_revoke_family fam ''reuse_detected'')
                    (thenE (sessions_revoke_family fam)
                       (raise (TokenReuseDetectedException (Some sid) (Some fam))))
                   else
                     rotate_fresh X cfg token_record uid fam sid ip ua))))"

definition revoke ::
  "'r extern \<Rightarrow> auth_settings \<Rightarrow> string \<Rightarrow> bool \<Rightarrow> string \<Rightarrow> ('r, (uuid \<times> uuid) option) aprog" where
  "revoke X cfg raw whole_family reason =
     bindE (refresh_claims X cfg raw) (\<lambda>(token_jti, fam, sid, uid).
     bindE (get_by_jti_for_update token_jti) (\<lambda>found.
       case found of
         None \<Rightarrow> ret None
       | Some token_record \<Rightarrow>
           if token_hash token_record \<noteq> hash_refresh_token X cfg raw then
             raise (InvalidTokenException ''Invalid token'')
           else if family_id token_record \<noteq> fam then
             raise (InvalidTokenException ''Refresh token family mismatch'')
           else if rt_user_id token_record \<noteq> uid then
             raise (InvalidTokenException ''Refresh token subject mismatch'')
           else if whole_family then
             thenE (tokens_revoke_family fam reason)
            (thenE (sessions_revoke_family fam)
               (ret (Some (fam, sid))))
           else
             thenE (revoke_token token_record reason None)
               (ret (Some (fam, sid)))))"

section \<open>The claims of a token\<close>

lemma refresh_claims_state: "refresh_claims X cfg raw s = (r, t) \<Longrightarrow> t = s"
  by (auto simp: refresh_claims_def bindE_def split: prod.splits sum.splits option.splits
      dest: decode_and_validate_state)

lemma refresh_claims_Inl:
  "refresh_claims X cfg raw s = (Inl e, t) \<Longrightarrow> \<exists>m. e = InvalidTokenException m"
  by (auto simp: refresh_claims_def elim!: bindE_InlE dest: decode_and_validate_Inl split: option.splits)

lemma refresh_claims_issued:
  assumes "jwt_ready X cfg paired" "tb \<le> clock s" "clock s < tb + jwt_refresh_ttl_seconds cfg"
  shows "refresh_claims X cfg
           (jwt_encode X (refresh_payload cfg tb u sid fam j) (signing_key cfg) (jwt_algorithm cfg)) s =
         (Inr (j, fam, sid, u), s)"
  using assms by (simp add: refresh_claims_def validate_issued_refresh)

text \<open>
  \<open>presents X cfg raw s tok sid\<close>: the text \<open>raw\<close> is, in this state, a genuine refresh token for the
  stored row \<open>tok\<close> and the session \<open>sid\<close>: it decodes to the row's id, family and user, the row is the
  only one with that id, and its stored digest is the text's.
\<close>

definition presents ::
  "'r extern \<Rightarrow> auth_settings \<Rightarrow> string \<Rightarrow> 'r auth_node \<Rightarrow> refresh_token \<Rightarrow> uuid \<Rightarrow> bool" where
  "presents X cfg raw s tok sid \<longleftrightarrow>
     refresh_claims X cfg raw s = (Inr (jti tok, family_id tok, sid, rt_user_id tok), s) \<and>
     filter (\<lambda>t. jti t = jti tok) (refresh_tokens (db s)) = [tok] \<and>
     token_hash tok = hash_refresh_token X cfg raw"

definition family_live :: "auth_db \<Rightarrow> uuid \<Rightarrow> bool" where
  "family_live d fam \<longleftrightarrow> (\<exists>v \<in> set (user_sessions d). refresh_family_id v = fam \<and> us_revoked_at v = None)"

definition consumed :: "refresh_token \<Rightarrow> bool" where
  "consumed tok \<longleftrightarrow> revoked_at tok \<noteq> None \<or> rotated_at tok \<noteq> None"

lemma presents_mem: "presents X cfg raw s tok sid \<Longrightarrow> tok \<in> set (refresh_tokens (db s))"
  by (auto simp: presents_def dest!: filter_eq_ConsD)

section \<open>Rotation\<close>

definition kill_family :: "int \<Rightarrow> string \<Rightarrow> uuid \<Rightarrow> auth_db \<Rightarrow> auth_db" where
  "kill_family now reason fam d =
     d\<lparr>refresh_tokens := update_where (\<lambda>t. family_id t = fam \<and> revoked_at t = None)
         (\<lambda>t. t\<lparr>revoked_at := Some now, revocation_reason := Some reason\<rparr>) (refresh_tokens d),
       user_sessions := update_where (\<lambda>v. refresh_family_id v = fam \<and> us_revoked_at v = None)
         (\<lambda>v. v\<lparr>us_revoked_at := Some now\<rparr>) (user_sessions d)\<rparr>"

text \<open>The row that replaces a rotated token, and the tables after the rotation.\<close>

definition successor ::
  "'r extern \<Rightarrow> auth_settings \<Rightarrow> refresh_token \<Rightarrow> uuid \<Rightarrow> string option \<Rightarrow> string option \<Rightarrow>
   'r auth_node \<Rightarrow> refresh_token" where
  "successor X cfg tok sid ip ua s =
     \<lparr>rt_id = uuid4 X (Suc (draws s)), rt_user_id = rt_user_id tok, jti = uuid4 X (draws s),
      family_id = family_id tok, parent_jti = Some (jti tok),
      token_hash = hash_refresh_token X cfg (jwt_encode X
        (refresh_payload cfg (clock s) (rt_user_id tok) sid (family_id tok) (uuid4 X (draws s)))
        (signing_key cfg) (jwt_algorithm cfg)),
      issued_at = clock s, expires_at = clock s + jwt_refresh_ttl_seconds cfg,
      rotated_at = None, revoked_at = None, replaced_by_jti = None, revocation_reason = None,
      rt_ip_address = ip, rt_user_agent = ua\<rparr>"

definition mark_row :: "int \<Rightarrow> uuid \<Rightarrow> refresh_token \<Rightarrow> refresh_token" where
  "mark_row now j t =
     t\<lparr>rotated_at := Some now, revoked_at := Some now, revocation_reason := Some ''rotated'',
       replaced_by_jti := Some j\<rparr>"

definition rotated_db :: "int \<Rightarrow> refresh_token \<Rightarrow> refresh_token \<Rightarrow> auth_db \<Rightarrow> auth_db" where
  "rotated_db now tok new d =
     d\<lparr>refresh_tokens := update_where (\<lambda>t. jti t = jti tok) (mark_row now (jti new)) (refresh_tokens d) @ [new],
       user_sessions := update_where (\<lambda>v. refresh_family_id v = family_id tok \<and> us_revoked_at v = None)
         (\<lambda>v. v\<lparr>last_seen_at := now\<rparr>) (user_sessions d)\<rparr>"

definition rotated_pair ::
  "'r extern \<Rightarrow> auth_settings \<Rightarrow> refresh_token \<Rightarrow> uuid \<Rightarrow> 'r auth_node \<Rightarrow> token_pair" where
  "rotated_pair X cfg tok sid s =
     \<lparr>tp_access_token = jwt_encode X
        (access_payload cfg (clock s) (rt_user_id tok) (uuid4 X (Suc (Suc (draws s)))) sid)
        (signing_key cfg) (jwt_algorithm cfg),
      tp_refresh_token = jwt_encode X
        (refresh_payload cfg (clock s) (rt_user_id tok) sid (family_id tok) (uuid4 X (draws s)))
        (signing_key cfg) (jwt_algorithm cfg),
      tp_access_expires_in = jwt_access_ttl_seconds cfg, tp_family_id = family_id tok,
      tp_session_id = sid\<rparr>"

definition fresh_ids :: "'r extern \<Rightarrow> auth_db \<Rightarrow> uuid \<Rightarrow> uuid \<Rightarrow> bool" where
  "fresh_ids X d j rid \<longleftrightarrow> j \<notin> jti ` set (refresh_tokens d) \<and> rid \<notin> rt_id ` set (refresh_tokens d)"

lemma mark_row_keys [simp]: "jti (mark_row now j t) = jti t" "rt_id (mark_row now j t) = rt_id t"
  "family_id (mark_row now j t) = family_id t" "rt_user_id (mark_row now j t) = rt_user_id t"
  by (simp_all add: mark_row_def)

lemma rotate_fresh_run:
  assumes "client_fits ip ua" "fresh_ids X (db s) (uuid4 X (draws s)) (uuid4 X (Suc (draws s)))"
  shows "rotate_fresh X cfg tok (rt_user_id tok) (family_id tok) sid ip ua s =
    (Inr (rotated_pair X cfg tok sid s),
     s\<lparr>draws := draws s + 3, db := rotated_db (clock s) tok (successor X cfg tok sid ip ua s) (db s)\<rparr>)"
  using assms
  by (simp add: rotate_fresh_def mark_rotated_def run_refresh_token_create touch_family_def Let_def
      fresh_ids_def rotated_pair_def rotated_db_def successor_def mark_row_def [abs_def]
      image_update_where_same eval_nat_numeral)

lemma rotate_fresh_Inr:
  assumes "rotate_fresh X cfg tok (rt_user_id tok) (family_id tok) sid ip ua s = (Inr p, t)"
  shows "client_fits ip ua \<and> fresh_ids X (db s) (uuid4 X (draws s)) (uuid4 X (Suc (draws s)))"
  using assms
  by (auto simp: rotate_fresh_def mark_rotated_def run_refresh_token_create touch_family_def Let_def
      fresh_ids_def image_update_where_same bindE_def thenE_def split: if_splits)

lemma rotate_fresh_Inl:
  assumes "rotate_fresh X cfg tok (rt_user_id tok) (family_id tok) sid ip ua s = (Inl e, t)"
  shows "e = DataError \<or> e = IntegrityError"
  using assms
  by (auto simp: rotate_fresh_def mark_rotated_def run_refresh_token_create touch_family_def Let_def
      bindE_def thenE_def split: if_splits)

lemma run_is_family_live: "is_family_active fam s = (Inr (family_live (db s) fam), s)"
  by (simp add: run_is_family_active family_live_def)

lemma kill_family_run:
  "thenE (tokens_revoke_family fam reason) (thenE (sessions_revoke_family fam) p) s =
   p (s\<lparr>db := kill_family (clock s) reason fam (db s)\<rparr>)"
  by (simp add: tokens_revoke_family_def sessions_revoke_family_def kill_family_def)

text \<open>Rotation of a genuine token, branch by branch.\<close>

lemma rotate_presented:
  assumes "presents X cfg raw s tok sid"
  shows "rotate_refresh X cfg raw ip ua s =
    (if \<not> family_live (db s) (family_id tok) then
       (Inl (InvalidTokenException ''Session is revoked''), s)
     else if expires_at tok < clock s then
       (Inl (InvalidTokenException ''Refresh token expired''), s)
     else if consumed tok then
       (Inl (TokenReuseDetectedException (Some sid) (Some (family_id tok))),
        s\<lparr>db := kill_family (clock s) ''reuse_detected'' (family_id tok) (db s)\<rparr>)
     else rotate_fresh X cfg tok (rt_user_id tok) (family_id tok) sid ip ua s)"
  using assms unfolding presents_def rotate_refresh_def
  by (simp add: run_get_by_jti run_is_family_live kill_family_run consumed_def)

text \<open>A token that is not genuine is refused without a trace.\<close>

lemma rotate_not_presented:
  assumes "\<And>tok sid. \<not> presents X cfg raw s tok sid"
  shows "\<exists>e. rotate_refresh X cfg raw ip ua s = (Inl e, s) \<and>
           (e = MultipleResultsFound \<or> (\<exists>m. e = InvalidTokenException m))"
proof -
  obtain r t where rc: "refresh_claims X cfg raw s = (r, t)" by fastforce
  then have t: "t = s" by (rule refresh_claims_state)
  show ?thesis
  proof (cases r)
    case (Inl e)
    then show ?thesis using rc t refresh_claims_Inl [of X cfg raw s e t] by (simp add: rotate_refresh_def)
  next
    case (Inr c)
    obtain j fam sid uid where c: "c = (j, fam, sid, uid)" by (cases c) auto
    let ?rows = "filter (\<lambda>x. jti x = j) (refresh_tokens (db s))"
    have run: "rotate_refresh X cfg raw ip ua s = bindE (get_by_jti_for_update j) (\<lambda>found. case found of
        None \<Rightarrow> raise (InvalidTokenException ''Invalid token'')
      | Some tok \<Rightarrow> if rt_user_id tok \<noteq> uid \<or> family_id tok \<noteq> fam
          then raise (InvalidTokenException ''Refresh token claims do not match persisted token'')
          else if token_hash tok \<noteq> hash_refresh_token X cfg raw
          then raise (InvalidTokenException ''Invalid token'') else undefined) s"
      if "\<And>tok. ?rows = [tok] \<Longrightarrow> rt_user_id tok \<noteq> uid \<or> family_id tok \<noteq> fam \<or>
            token_hash tok \<noteq> hash_refresh_token X cfg raw"
      using rc t Inr c that
      by (auto simp: rotate_refresh_def bindE_def run_get_by_jti run_scalar_one_or_none split: list.splits)
    have "rt_user_id tok \<noteq> uid \<or> family_id tok \<noteq> fam \<or> token_hash tok \<noteq> hash_refresh_token X cfg raw"
      if "?rows = [tok]" for tok
    proof -
      have "jti tok = j" using that by (auto dest!: filter_eq_ConsD)
      then show ?thesis using assms [of tok sid] rc t Inr c that by (auto simp: presents_def)
    qed
    note this run [OF this]
    then show ?thesis
      by (auto simp: bindE_def run_get_by_jti run_scalar_one_or_none split: list.splits)
  qed
qed

lemma rotate_Inr:
  assumes "rotate_refresh X cfg raw ip ua s = (Inr p, t)"
  obtains tok sid where "presents X cfg raw s tok sid" "family_live (db s) (family_id tok)"
    "clock s \<le> expires_at tok" "\<not> consumed tok" "client_fits ip ua"
    "fresh_ids X (db s) (uuid4 X (draws s)) (uuid4 X (Suc (draws s)))"
    "p = rotated_pair X cfg tok sid s"
    "t = s\<lparr>draws := draws s + 3,
           db := rotated_db (clock s) tok (successor X cfg tok sid ip ua s) (db s)\<rparr>"
proof -
  have "\<exists>tok sid. presents X cfg raw s tok sid"
    using rotate_not_presented [of X cfg raw s ip ua] assms by fastforce
  then obtain tok sid where pr: "presents X cfg raw s tok sid" by blast
  note run = rotate_presented [OF pr, of ip ua]
  from assms run have ok: "family_live (db s) (family_id tok)" "clock s \<le> expires_at tok" "\<not> consumed tok"
    by (auto split: if_splits)
  with assms run have fr: "rotate_fresh X cfg tok (rt_user_id tok) (family_id tok) sid ip ua s = (Inr p, t)"
    by simp
  note f = rotate_fresh_Inr [OF fr]
  with fr rotate_fresh_run [of ip ua X s cfg tok sid] show thesis
    using that [OF pr ok] by simp
qed

lemma rotate_reuse:
  assumes "rotate_refresh X cfg raw ip ua s = (Inl (TokenReuseDetectedException sv fv), t)"
  obtains tok sid where "presents X cfg raw s tok sid" "family_live (db s) (family_id tok)"
    "consumed tok" "sv = Some sid" "fv = Some (family_id tok)" "clock s \<le> expires_at tok"
    "t = s\<lparr>db := kill_family (clock s) ''reuse_detected'' (family_id tok) (db s)\<rparr>"
proof -
  have "\<exists>tok sid. presents X cfg raw s tok sid"
    using rotate_not_presented [of X cfg raw s ip ua] assms by fastforce
  then obtain tok sid where pr: "presents X cfg raw s tok sid" by blast
  note run = rotate_presented [OF pr, of ip ua]
  show thesis
    using that [OF pr] assms run rotate_fresh_Inl [of X cfg tok sid ip ua s]
    by (fastforce split: if_splits)
qed

lemma rotate_invalid:
  assumes "rotate_refresh X cfg raw ip ua s = (Inl (InvalidTokenException m), t)"
  shows "t = s"
proof (cases "\<exists>tok sid. presents X cfg raw s tok sid")
  case True
  then obtain tok sid where pr: "presents X cfg raw s tok sid" by blast
  show ?thesis
    using assms rotate_presented [OF pr, of ip ua] rotate_fresh_Inl [of X cfg tok sid ip ua s]
    by (fastforce split: if_splits)
next
  case False
  then show ?thesis using rotate_not_presented [of X cfg raw s ip ua] assms by fastforce
qed

section \<open>Revocation\<close>

definition revoke_row :: "int \<Rightarrow> string \<Rightarrow> refresh_token \<Rightarrow> refresh_token" where
  "revoke_row now reason t =
     t\<lparr>revoked_at := Some now, revocation_reason := Some reason, replaced_by_jti := None\<rparr>"

lemma revoke_presented:
  assumes "presents X cfg raw s tok sid"
  shows "revoke X cfg raw whole reason s =
    (Inr (Some (family_id tok, sid)),
     s\<lparr>db := (if whole then kill_family (clock s) reason (family_id tok) (db s)
              else (db s)\<lparr>refresh_tokens := update_where (\<lambda>t. jti t = jti tok)
                     (revoke_row (clock s) reason) (refresh_tokens (db s))\<rparr>)\<rparr>)"
  using assms unfolding presents_def revoke_def
  by (simp add: run_get_by_jti kill_family_run revoke_token_def revoke_row_def [abs_def])

lemma revoke_Some:
  assumes "revoke X cfg raw whole reason s = (Inr (Some (fam, sid)), t)"
  shows "\<exists>tok. presents X cfg raw s tok sid \<and> fam = family_id tok"
proof -
  from assms obtain j f v u s1 where rc: "refresh_claims X cfg raw s = (Inr (j, f, v, u), s1)"
    by (fastforce simp: revoke_def elim!: bindE_InrE)
  then have s1: "s1 = s" by (rule refresh_claims_state)
  from assms rc s1 obtain tok where tok: "filter (\<lambda>x. jti x = j) (refresh_tokens (db s)) = [tok]"
    and h: "token_hash tok = hash_refresh_token X cfg raw" "family_id tok = f" "rt_user_id tok = u"
    and r: "fam = f" "sid = v"
    by (auto simp: revoke_def bindE_def thenE_def run_get_by_jti run_scalar_one_or_none
        tokens_revoke_family_def sessions_revoke_family_def revoke_token_def
        split: list.splits if_splits prod.splits sum.splits)
  from tok have "jti tok = j" by (auto dest!: filter_eq_ConsD)
  with tok h r rc s1 show ?thesis by (auto simp: presents_def)
qed

lemma revoke_other:
  assumes "revoke X cfg raw whole reason s = (r, t)" "\<And>p. r \<noteq> Inr (Some p)"
  shows "t = s"
  using assms
  by (auto simp: revoke_def bindE_def thenE_def run_get_by_jti run_scalar_one_or_none
      tokens_revoke_family_def sessions_revoke_family_def revoke_token_def
      split: list.splits if_splits prod.splits sum.splits dest: refresh_claims_state)

section \<open>Issuing\<close>

definition issued_session :: "'r extern \<Rightarrow> uuid \<Rightarrow> string option \<Rightarrow> string option \<Rightarrow> 'r auth_node \<Rightarrow> user_session" where
  "issued_session X uid ip ua s =
     \<lparr>us_id = uuid4 X (draws s + 1), us_user_id = uid, refresh_family_id = uuid4 X (draws s),
      us_ip_address = ip, us_user_agent = ua, us_created_at = clock s, last_seen_at = clock s,
      us_revoked_at = None\<rparr>"

definition issued_text :: "'r extern \<Rightarrow> auth_settings \<Rightarrow> uuid \<Rightarrow> 'r auth_node \<Rightarrow> string" where
  "issued_text X cfg uid s =
     jwt_encode X (refresh_payload cfg (clock s) uid (uuid4 X (draws s + 1)) (uuid4 X (draws s))
       (uuid4 X (draws s + 2))) (signing_key cfg) (jwt_algorithm cfg)"

definition issued_token ::
  "'r extern \<Rightarrow> auth_settings \<Rightarrow> uuid \<Rightarrow> string option \<Rightarrow> string option \<Rightarrow> 'r auth_node \<Rightarrow> refresh_token" where
  "issued_token X cfg uid ip ua s =
     \<lparr>rt_id = uuid4 X (draws s + 3), rt_user_id = uid, jti = uuid4 X (draws s + 2),
      family_id = uuid4 X (draws s), parent_jti = None,
      token_hash = hash_refresh_token X cfg (issued_text X cfg uid s),
      issued_at = clock s, expires_at = clock s + jwt_refresh_ttl_seconds cfg, rotated_at = None,
      revoked_at = None, replaced_by_jti = None, revocation_reason = None,
      rt_ip_address = ip, rt_user_agent = ua\<rparr>"

definition issued_pair :: "'r extern \<Rightarrow> auth_settings \<Rightarrow> uuid \<Rightarrow> 'r auth_node \<Rightarrow> token_pair" where
  "issued_pair X cfg uid s =
     \<lparr>tp_access_token = jwt_encode X (access_payload cfg (clock s) uid (uuid4 X (draws s + 4))
        (uuid4 X (draws s + 1))) (signing_key cfg) (jwt_algorithm cfg),
      tp_refresh_token = issued_text X cfg uid s,
      tp_access_expires_in = jwt_access_ttl_seconds cfg, tp_family_id = uuid4 X (draws s),
      tp_session_id = uuid4 X (draws s + 1)\<rparr>"

definition issue_ok :: "'r extern \<Rightarrow> string option \<Rightarrow> string option \<Rightarrow> 'r auth_node \<Rightarrow> bool" where
  "issue_ok X ip ua s \<longleftrightarrow>
     client_fits ip ua \<and> uuid4 X (draws s + 1) \<notin> us_id ` set (user_sessions (db s)) \<and>
     fresh_ids X (db s) (uuid4 X (draws s + 2)) (uuid4 X (draws s + 3))"

lemma issue_for_user_run:
  "issue_ok X ip ua s \<Longrightarrow>
   issue_for_user X cfg uid ip ua s =
     (Inr (issued_pair X cfg uid s),
      s\<lparr>draws := draws s + 5,
        db := (db s)\<lparr>user_sessions := user_sessions (db s) @ [issued_session X uid ip ua s],
                     refresh_tokens := refresh_tokens (db s) @ [issued_token X cfg uid ip ua s]\<rparr>\<rparr>)"
  by (simp add: issue_for_user_def run_session_create run_refresh_token_create generate_jti_def Let_def
      issue_ok_def fresh_ids_def issued_pair_def issued_session_def issued_token_def issued_text_def
      eval_nat_numeral)

lemma issue_for_user_Inr: "issue_for_user X cfg uid ip ua s = (Inr p, t) \<Longrightarrow> issue_ok X ip ua s"
  by (auto simp: issue_for_user_def run_session_create run_refresh_token_create generate_jti_def Let_def
      bindE_def thenE_def issue_ok_def fresh_ids_def eval_nat_numeral split: if_splits)

end
