(* ===== verification/Password_Service.thy ===== *)
theory Password_Service
  imports Auth_State
begin

text \<open>
  \<open>services/password_service.py\<close>: the password policy and the hashing of passwords and backup
  codes with argon2, which draws a salt for each hash and raises something other than
  \<open>VerifyMismatchError\<close> on a hash it cannot read.
\<close>

definition validate_password_policy :: "string \<Rightarrow> ('r, unit) aprog" where
  "validate_password_policy password =
     (if length password < 8 then
        raise (BadRequestException ''Password must be at least 8 characters long'')
      else if \<not> (\<exists>c \<in> set password. is_ascii_letter c) then
        raise (BadRequestException ''Password must include at least one letter'')
      else if \<not> (\<exists>c \<in> set password. is_digit c) then
        raise (BadRequestException ''Password must include at least one digit'')
      else ret ())"

definition hash_password :: "'r extern \<Rightarrow> string \<Rightarrow> ('r, string) aprog" where
  "hash_password X password =
     thenE (validate_password_policy password) (draw (\<lambda>n. argon2_hash X n password))"

definition verify_password :: "'r extern \<Rightarrow> string \<Rightarrow> string \<Rightarrow> ('r, bool) aprog" where
  "verify_password X password hashed =
     (case argon2_verify X hashed password of
        Verified \<Rightarrow> ret True
      | VerifyMismatch \<Rightarrow> ret False
      | VerifyFailed \<Rightarrow> raise ThirdPartyError)"

text \<open>The sentinel is hashed when the service is constructed, before any request's draws.\<close>

definition verify_against_dummy_hash :: "'r extern \<Rightarrow> string \<Rightarrow> ('r, unit) aprog" where
  "verify_against_dummy_hash X password =
     (case argon2_verify X (argon2_hash X 0 ''TimingMitigationPassword!123'') password of
        Verified \<Rightarrow> ret ()
      | VerifyMismatch \<Rightarrow> ret ()
      | VerifyFailed \<Rightarrow> raise ThirdPartyError)"

definition hash_backup_code :: "'r extern \<Rightarrow> string \<Rightarrow> ('r, string) aprog" where
  "hash_backup_code X code = draw (\<lambda>n. argon2_hash X n code)"

definition verify_backup_code :: "'r extern \<Rightarrow> string \<Rightarrow> string \<Rightarrow> ('r, bool) aprog" where
  "verify_backup_code X code hashed =
     (case argon2_verify X hashed code of
        Verified \<Rightarrow> ret True
      | VerifyMismatch \<Rightarrow> ret False
      | VerifyFailed \<Rightarrow> raise ThirdPartyError)"

section \<open>Execution\<close>

definition good_password :: "string \<Rightarrow> bool" where
  "good_password p \<longleftrightarrow> 8 \<le> length p \<and> (\<exists>c \<in> set p. is_ascii_letter c) \<and> (\<exists>c \<in> set p. is_digit c)"

lemma run_validate_good [simp]: "good_password p \<Longrightarrow> validate_password_policy p s = (Inr (), s)"
  by (simp add: validate_password_policy_def good_password_def)

lemma run_validate_bad:
  "\<not> good_password p \<Longrightarrow> \<exists>m. validate_password_policy p s = (Inl (BadRequestException m), s)"
  by (auto simp: validate_password_policy_def good_password_def)

lemma hash_password_Inr:
  assumes "hash_password X p s = (Inr h, t)"
  shows "good_password p \<and> h = argon2_hash X (draws s) p \<and> t = s\<lparr>draws := Suc (draws s)\<rparr>"
  using assms run_validate_bad [of p s]
  by (cases "good_password p") (auto simp: hash_password_def thenE_def bindE_def)

lemma hash_password_bad:
  "\<not> good_password p \<Longrightarrow> \<exists>m. hash_password X p s = (Inl (BadRequestException m), s)"
  using run_validate_bad [of p s] by (auto simp: hash_password_def)

lemma verify_password_result:
  "verify_password X p h s = (Inr b, t) \<longleftrightarrow>
     t = s \<and> (b \<and> argon2_verify X h p = Verified \<or> \<not> b \<and> argon2_verify X h p = VerifyMismatch)"
  by (auto simp: verify_password_def split: verify_outcome.splits)

lemma snd_verify_password [simp]: "snd (verify_password X p h s) = s"
  by (simp add: verify_password_def split: verify_outcome.split)

lemma snd_verify_backup_code [simp]: "snd (verify_backup_code X p h s) = s"
  by (simp add: verify_backup_code_def split: verify_outcome.split)

lemma snd_verify_against_dummy_hash [simp]: "snd (verify_against_dummy_hash X p s) = s"
  by (simp add: verify_against_dummy_hash_def split: verify_outcome.split)

lemma snd_validate_password_policy [simp]: "snd (validate_password_policy p s) = s"
  by (simp add: validate_password_policy_def)

end
