(* ===== verification/Two_Factor.thy ===== *)
theory Two_Factor
  imports Auth_Repositories Password_Service Reference_World
begin

text \<open>
  \<open>services/two_factor_service.py\<close> with \<open>integrations/totp/\<close>: enrolment, activation,
  verification by one-time password or backup code, removal. A TOTP code is accepted for the current time
  step and its two neighbours, and only for a step later than the last one used.
\<close>

section \<open>Time-based codes\<close>

definition generate_secret :: "'r extern \<Rightarrow> ('r, string) aprog" where
  "generate_secret X = draw (random_base32 X)"

definition verify_totp_code ::
  "'r extern \<Rightarrow> string \<Rightarrow> string \<Rightarrow> int \<Rightarrow> int \<Rightarrow> ('r, bool \<times> int) aprog" where
  "verify_totp_code X secret code interval valid_window =
     bindE time_now (\<lambda>now.
       if interval = 0 then raise ZeroDivisionError
       else
         (let current_timecode = now div interval in
          case find (\<lambda>candidate. 0 \<le> candidate \<and>
                       totp_strings_equal X code (totp_at X secret interval (candidate * interval)))
                 (map (\<lambda>offset. current_timecode + offset) [- valid_window..valid_window]) of
            Some candidate \<Rightarrow> ret (True, candidate)
          | None \<Rightarrow> ret (False, current_timecode)))"

section \<open>TwoFactorService\<close>

record two_factor_setup_data =
  sd_secret :: string
  sd_provisioning_uri :: string
  sd_qr_png_base64 :: string
  sd_backup_codes :: "string list"

definition encrypt_secret :: "'r extern \<Rightarrow> auth_settings \<Rightarrow> string \<Rightarrow> ('r, string) aprog" where
  "encrypt_secret X cfg secret = draw (\<lambda>n. fernet_encrypt X (totp_encryption_key cfg) n secret)"

definition decrypt_secret :: "'r extern \<Rightarrow> auth_settings \<Rightarrow> string \<Rightarrow> ('r, string) aprog" where
  "decrypt_secret X cfg enc =
     (case fernet_decrypt X (totp_encryption_key cfg) enc of
        None \<Rightarrow> raise ThirdPartyError | Some secret \<Rightarrow> ret secret)"

definition backup_alphabet :: string where
  "backup_alphabet = ''ABCDEFGHJKLMNPQRSTUVWXYZ23456789''"

primrec choose_chars :: "'r extern \<Rightarrow> nat \<Rightarrow> ('r, string) aprog" where
  "choose_chars X 0 = ret ''''"
| "choose_chars X (Suc n) =
     bindE (draw (\<lambda>k. backup_alphabet ! randbelow X k (length backup_alphabet))) (\<lambda>c.
     bindE (choose_chars X n) (\<lambda>cs. ret (c # cs)))"

primrec generate_plain_backup_codes :: "'r extern \<Rightarrow> nat \<Rightarrow> ('r, string list) aprog" where
  "generate_plain_backup_codes X 0 = ret []"
| "generate_plain_backup_codes X (Suc n) =
     bindE (choose_chars X 4) (\<lambda>a.
     bindE (choose_chars X 4) (\<lambda>b.
     bindE (generate_plain_backup_codes X n) (\<lambda>codes.
       ret ((a @ ''-'' @ b) # codes))))"

primrec hash_backup_codes :: "'r extern \<Rightarrow> string list \<Rightarrow> ('r, string list) aprog" where
  "hash_backup_codes X [] = ret []"
| "hash_backup_codes X (code # codes) =
     bindE (hash_backup_code X code) (\<lambda>h.
     bindE (hash_backup_codes X codes) (\<lambda>hs. ret (h # hs)))"

definition create_setup ::
  "'r extern \<Rightarrow> auth_settings \<Rightarrow> user \<Rightarrow> ('r, two_factor_setup_data) aprog" where
  "create_setup X cfg u =
     (if two_factor_enabled u then raise TwoFactorAlreadyEnabledException
      else
        bindE (generate_secret X) (\<lambda>secret.
        bindE (encrypt_secret X cfg secret) (\<lambda>enc.
        thenE (upsert_secret X (u_id u) enc)
       (let uri = totp_provisioning_uri X secret (email u) (totp_issuer cfg);
            qr = qr_png_base64 X uri in
        bindE (generate_plain_backup_codes X 10) (\<lambda>plain_codes.
        bindE (hash_backup_codes X plain_codes) (\<lambda>hashed_codes.
        thenE (replace_backup_codes X (u_id u) hashed_codes)
       (ret \<lparr>sd_secret = secret, sd_provisioning_uri = uri, sd_qr_png_base64 = qr,
             sd_backup_codes = plain_codes\<rparr>)))))))"

definition enable :: "'r extern \<Rightarrow> auth_settings \<Rightarrow> user \<Rightarrow> string \<Rightarrow> ('r, string list) aprog" where
  "enable X cfg u totp_code =
     (if two_factor_enabled u then raise TwoFactorAlreadyEnabledException
      else
        bindE (get_secret_for_update (u_id u)) (\<lambda>found.
          case found of
            None \<Rightarrow> raise (BadRequestException ''2FA setup has not been initialized'')
          | Some secret_record \<Rightarrow>
              bindE (decrypt_secret X cfg (encrypted_secret secret_record)) (\<lambda>secret.
              bindE (verify_totp_code X secret totp_code (totp_interval_seconds cfg) 1) (\<lambda>(is_valid, timecode).
                if \<not> is_valid then raise InvalidTwoFactorCodeException
                else
                  thenE (confirm_secret secret_record timecode)
                 (thenE (mutate_user u (\<lambda>x. x\<lparr>two_factor_enabled := True\<rparr>))
                    (ret []))))))"

definition verify_totp :: "'r extern \<Rightarrow> auth_settings \<Rightarrow> user \<Rightarrow> string \<Rightarrow> ('r, unit) aprog" where
  "verify_totp X cfg u totp_code =
     bindE (get_secret (u_id u)) (\<lambda>found.
       case found of
         None \<Rightarrow> raise TwoFactorNotEnabledException
       | Some secret_record \<Rightarrow>
           if confirmed_at secret_record = None then raise TwoFactorNotEnabledException
           else
             bindE (decrypt_secret X cfg (encrypted_secret secret_record)) (\<lambda>secret.
             bindE (verify_totp_code X secret totp_code (totp_interval_seconds cfg) 1) (\<lambda>(is_valid, timecode).
               if \<not> is_valid then raise InvalidTwoFactorCodeException
               else if (case last_used_timecode secret_record of None \<Rightarrow> False | Some l \<Rightarrow> timecode \<le> l)
               then raise InvalidTwoFactorCodeException
               else update_last_used_timecode secret_record timecode)))"

primrec try_backup_codes :: "'r extern \<Rightarrow> string \<Rightarrow> backup_code list \<Rightarrow> ('r, unit) aprog" where
  "try_backup_codes X code [] = raise InvalidTwoFactorCodeException"
| "try_backup_codes X code (candidate # codes) =
     (if bc_used_at candidate \<noteq> None then try_backup_codes X code codes
      else
        bindE (verify_backup_code X code (code_hash candidate)) (\<lambda>matches.
          if matches then mark_backup_code_used candidate else try_backup_codes X code codes))"

definition verify_user_backup_code :: "'r extern \<Rightarrow> user \<Rightarrow> string \<Rightarrow> ('r, unit) aprog" where
  "verify_user_backup_code X u code =
     bindE (list_backup_codes_for_update (u_id u)) (\<lambda>codes. try_backup_codes X code codes)"

definition verify_for_login ::
  "'r extern \<Rightarrow> auth_settings \<Rightarrow> user \<Rightarrow> string option \<Rightarrow> string option \<Rightarrow> ('r, unit) aprog" where
  "verify_for_login X cfg u totp_code backup =
     (if \<not> two_factor_enabled u then raise TwoFactorNotEnabledException
      else if falsy totp_code = falsy backup then
        raise (BadRequestException ''Provide either totp_code or backup_code'')
      else if \<not> falsy totp_code then verify_totp X cfg u (the totp_code)
      else verify_user_backup_code X u (or_empty backup))"

definition disable ::
  "'r extern \<Rightarrow> auth_settings \<Rightarrow> user \<Rightarrow> string option \<Rightarrow> string option \<Rightarrow> ('r, unit) aprog" where
  "disable X cfg u totp_code backup =
     thenE (verify_for_login X cfg u totp_code backup)
    (thenE (delete_two_factor_data (u_id u))
    (thenE (mutate_user u (\<lambda>x. x\<lparr>two_factor_enabled := False\<rparr>)) (ret ())))"

definition regenerate_backup_codes ::
  "'r extern \<Rightarrow> auth_settings \<Rightarrow> user \<Rightarrow> string option \<Rightarrow> string option \<Rightarrow> ('r, string list) aprog" where
  "regenerate_backup_codes X cfg u totp_code backup =
     thenE (verify_for_login X cfg u totp_code backup)
    (bindE (generate_plain_backup_codes X 10) (\<lambda>plain_codes.
     bindE (hash_backup_codes X plain_codes) (\<lambda>hashed_codes.
     thenE (replace_backup_codes X (u_id u) hashed_codes)
       (ret plain_codes))))"

section \<open>One-time passwords\<close>

lemma run_get_secret:
  "get_secret uid s = scalar_one_or_none (filter (\<lambda>x. tf_user_id x = uid) (two_factor_secrets (db s))) s"
  "get_secret_for_update uid s =
     scalar_one_or_none (filter (\<lambda>x. tf_user_id x = uid) (two_factor_secrets (db s))) s"
  by (simp_all add: get_secret_def get_secret_for_update_def)

lemma snd_verify_totp_code [simp]: "snd (verify_totp_code X secret c i w s) = s"
  by (simp add: verify_totp_code_def Let_def split: option.split)

lemma verify_totp_code_Inr:
  assumes "verify_totp_code X secret c i w s = (Inr (ok, k), t)"
  shows "t = s \<and> i \<noteq> 0 \<and>
    (ok \<longrightarrow> 0 \<le> k \<and> \<bar>k - clock s div i\<bar> \<le> w \<and> totp_strings_equal X c (totp_at X secret i (k * i)))"
proof -
  let ?P = "\<lambda>k. 0 \<le> k \<and> totp_strings_equal X c (totp_at X secret i (k * i))"
  let ?ks = "map (\<lambda>x. clock s div i + x) [- w..w]"
  have i: "i \<noteq> 0" using assms by (auto simp: verify_totp_code_def)
  show ?thesis
  proof (cases "find ?P ?ks")
    case None
    then show ?thesis using assms i by (simp add: verify_totp_code_def Let_def)
  next
    case (Some k')
    then have "?P k'" "k' \<in> set ?ks" using find_SomeD by fast+
    then have "\<bar>k' - clock s div i\<bar> \<le> w" by auto
    moreover have "k' = k" "t = s" using assms i Some by (simp_all add: verify_totp_code_def Let_def)
    ultimately show ?thesis using i \<open>?P k'\<close> by simp
  qed
qed

text \<open>
  \<open>accepts_step X cfg d u c now k\<close>: in the tables \<open>d\<close> the text \<open>c\<close> is, at time \<open>now\<close>, an acceptable code
  of user \<open>u\<close> for the time step \<open>k\<close>.
\<close>

definition accepts_step ::
  "'r extern \<Rightarrow> auth_settings \<Rightarrow> auth_db \<Rightarrow> user \<Rightarrow> string \<Rightarrow> int \<Rightarrow> int \<Rightarrow> bool" where
  "accepts_step X cfg d u c now k \<longleftrightarrow>
     (\<exists>rec secret. filter (\<lambda>x. tf_user_id x = u_id u) (two_factor_secrets d) = [rec] \<and>
        confirmed_at rec \<noteq> None \<and>
        fernet_decrypt X (totp_encryption_key cfg) (encrypted_secret rec) = Some secret \<and>
        0 \<le> k \<and> \<bar>k - now div totp_interval_seconds cfg\<bar> \<le> 1 \<and>
        totp_strings_equal X c (totp_at X secret (totp_interval_seconds cfg) (k * totp_interval_seconds cfg)) \<and>
        (\<forall>l. last_used_timecode rec = Some l \<longrightarrow> l < k))"

definition used_step_db :: "user \<Rightarrow> int \<Rightarrow> auth_db \<Rightarrow> auth_db" where
  "used_step_db u k d =
     d\<lparr>two_factor_secrets := update_where (\<lambda>x. tf_user_id x = u_id u)
         (\<lambda>x. x\<lparr>last_used_timecode := Some k\<rparr>) (two_factor_secrets d)\<rparr>"

lemma verify_totp_Inr:
  assumes "verify_totp X cfg u c s = (Inr a, t)"
  shows "\<exists>k. accepts_step X cfg (db s) u c (clock s) k \<and> t = s\<lparr>db := used_step_db u k (db s)\<rparr>"
proof -
  from assms obtain rec where rec: "filter (\<lambda>x. tf_user_id x = u_id u) (two_factor_secrets (db s)) = [rec]"
    and conf: "confirmed_at rec \<noteq> None"
    by (auto simp: verify_totp_def bindE_def run_get_secret run_scalar_one_or_none split: list.splits if_splits)
  then have uid: "tf_user_id rec = u_id u" by (auto dest!: filter_eq_ConsD)
  from assms rec conf obtain secret ok k s1 where
      dec: "fernet_decrypt X (totp_encryption_key cfg) (encrypted_secret rec) = Some secret"
    and tot: "verify_totp_code X secret c (totp_interval_seconds cfg) 1 s = (Inr (ok, k), s1)"
    by (auto simp: verify_totp_def bindE_def run_get_secret decrypt_secret_def
        split: option.splits prod.splits sum.splits)
  have s1: "s1 = s" using verify_totp_code_Inr [OF tot] by simp
  from assms rec conf dec tot s1 have ok: "ok" "\<forall>l. last_used_timecode rec = Some l \<longrightarrow> l < k"
    and t: "t = s\<lparr>db := used_step_db u k (db s)\<rparr>"
    by (auto simp: verify_totp_def bindE_def run_get_secret decrypt_secret_def mutate_secret_def
        update_last_used_timecode_def used_step_db_def uid split: if_splits option.splits)
  then show ?thesis
    using verify_totp_code_Inr [OF tot] rec conf dec by (auto simp: accepts_step_def)
qed

lemma verify_totp_code_state: "verify_totp_code X secret c i w s = (r, t) \<Longrightarrow> t = s"
  using snd_verify_totp_code [of X secret c i w s] by simp

lemma decrypt_secret_state: "decrypt_secret X cfg e s = (r, t) \<Longrightarrow> t = s"
  by (auto simp: decrypt_secret_def split: option.splits)

lemma verify_totp_Inl_state:
  assumes "verify_totp X cfg u c s = (Inl e, t)"
  shows "t = s"
  using assms unfolding verify_totp_def
  by (auto elim!: bindE_InlE split: option.splits if_splits
      simp: run_get_secret update_last_used_timecode_def mutate_secret_def
      dest!: verify_totp_code_state decrypt_secret_state)
     (metis scalar_state snd_conv)+

lemma filter_update_same_key:
  "(\<And>x. g (f x) = g x) \<Longrightarrow> filter (\<lambda>x. g x = k) (update_where (\<lambda>x. g x = k) f rows) =
     map f (filter (\<lambda>x. g x = k) rows)"
  by (induction rows) auto

text \<open>A verification changes nothing or records an accepted step.\<close>

lemma verify_totp_run:
  assumes "verify_totp X cfg u c s = (r, t)"
  shows "t = s \<or> (\<exists>k. accepts_step X cfg (db s) u c (clock s) k \<and> t = s\<lparr>db := used_step_db u k (db s)\<rparr>)"
proof (cases r)
  case (Inl e)
  then show ?thesis using verify_totp_Inl_state assms by blast
next
  case (Inr a)
  then show ?thesis using verify_totp_Inr assms by blast
qed

definition ref_user :: user where
  "ref_user =
     \<lparr>u_id = 7, email = ''u'', password_hash = ''apw'', is_active = True, is_superuser = False,
      two_factor_enabled = True, login_blocked = False, password_reset_blocked = False,
      u_created_at = 0\<rparr>"

definition ref_2fa_db :: auth_db where
  "ref_2fa_db = empty_auth_db\<lparr>users := [ref_user],
     two_factor_secrets := [\<lparr>tf_id = 8, tf_user_id = 7, encrypted_secret = ''fS'',
        confirmed_at = Some 900, last_used_timecode = None\<rparr>],
     backup_codes := [\<lparr>bc_id = 9, bc_user_id = 7, code_hash = ''aB'', bc_used_at = None, bc_created_at = 1\<rparr>,
                      \<lparr>bc_id = 10, bc_user_id = 7, code_hash = ''aC'', bc_used_at = None, bc_created_at = 1\<rparr>]\<rparr>"

definition ref_2fa_node :: "keyspace auth_node" where
  "ref_2fa_node = ref_node\<lparr>db := ref_2fa_db, committed := ref_2fa_db\<rparr>"

lemma ref_totp_simps [simp]:
  "totp_at ref_extern = (\<lambda>secret interval t. str_int t)" "totp_strings_equal ref_extern = (=)"
  "fernet_decrypt ref_extern = (\<lambda>key c. if startswith c ''f'' then Some (drop 1 c) else None)"
  by (simp_all add: ref_extern_def)

lemma ref_verify_totp:
  "verify_totp ref_extern ref_cfg ref_user (str_int 990) ref_2fa_node =
     (Inr (), ref_2fa_node\<lparr>db := used_step_db ref_user 33 ref_2fa_db\<rparr>)"
  "verify_totp ref_extern ref_cfg ref_user (str_int 1020)
     (ref_2fa_node\<lparr>db := used_step_db ref_user 33 ref_2fa_db, clock := 1030\<rparr>) =
     (Inr (), ref_2fa_node\<lparr>db := used_step_db ref_user 34 ref_2fa_db, clock := 1030\<rparr>)"
  by (simp_all add: verify_totp_def run_get_secret ref_2fa_node_def ref_2fa_db_def ref_user_def
      decrypt_secret_def verify_totp_code_def ref_cfg_def upto_rec1 upto_empty startswith_def
      update_last_used_timecode_def mutate_secret_def used_step_db_def bindE_def Let_def)

section \<open>Backup codes\<close>

definition use_code_db :: "int \<Rightarrow> backup_code \<Rightarrow> auth_db \<Rightarrow> auth_db" where
  "use_code_db now b d =
     d\<lparr>backup_codes := update_where (\<lambda>x. bc_id x = bc_id b) (\<lambda>x. x\<lparr>bc_used_at := Some now\<rparr>) (backup_codes d)\<rparr>"

lemma try_backup_codes_Inr:
  assumes "try_backup_codes X c codes s = (Inr a, t)"
  shows "\<exists>b \<in> set codes. bc_used_at b = None \<and> argon2_verify X (code_hash b) c = Verified \<and>
           t = s\<lparr>db := use_code_db (clock s) b (db s)\<rparr>"
  using assms
proof (induction codes)
  case (Cons b codes)
  then show ?case
    by (auto simp: bindE_def verify_backup_code_def mark_backup_code_used_def use_code_db_def
        split: if_splits verify_outcome.splits)
qed simp

lemma try_backup_codes_Inl_state: "try_backup_codes X c codes s = (Inl e, t) \<Longrightarrow> t = s"
  by (induction codes)
    (auto simp: bindE_def verify_backup_code_def mark_backup_code_used_def
      split: if_splits verify_outcome.splits)

lemma try_backup_codes_none:
  assumes "\<And>b. b \<in> set codes \<Longrightarrow> bc_used_at b = None \<Longrightarrow> argon2_verify X (code_hash b) c = VerifyMismatch"
  shows "try_backup_codes X c codes s = (Inl InvalidTwoFactorCodeException, s)"
  using assms by (induction codes) (auto simp: bindE_def verify_backup_code_def)

lemma run_verify_user_backup_code:
  "verify_user_backup_code X u c s =
     try_backup_codes X c (sort_key bc_created_at (filter (\<lambda>b. bc_user_id b = u_id u) (backup_codes (db s)))) s"
  by (simp add: verify_user_backup_code_def list_backup_codes_for_update_def)

lemma verify_user_backup_code_Inr:
  assumes "verify_user_backup_code X u c s = (Inr a, t)"
  shows "\<exists>b \<in> set (backup_codes (db s)). bc_user_id b = u_id u \<and> bc_used_at b = None \<and>
           argon2_verify X (code_hash b) c = Verified \<and> t = s\<lparr>db := use_code_db (clock s) b (db s)\<rparr>"
  using try_backup_codes_Inr [OF assms [unfolded run_verify_user_backup_code]] by auto

text \<open>The codes a user can still use.\<close>

definition unused_codes :: "auth_db \<Rightarrow> user \<Rightarrow> backup_code list" where
  "unused_codes d u = filter (\<lambda>b. bc_user_id b = u_id u \<and> bc_used_at b = None) (backup_codes d)"

lemma unused_after_use:
  assumes "distinct (map bc_id (backup_codes d))" "b \<in> set (backup_codes d)"
  shows "unused_codes (use_code_db now b d) u = filter (\<lambda>x. x \<noteq> b) (unused_codes d u)"
proof -
  have eq: "x = b" if "x \<in> set (backup_codes d)" "bc_id x = bc_id b" for x
    using that assms distinct_key_eq by metis
  have "filter (\<lambda>b. bc_user_id b = u_id u \<and> bc_used_at b = None)
      (update_where (\<lambda>x. bc_id x = bc_id b) (\<lambda>x. x\<lparr>bc_used_at := Some now\<rparr>) rows) =
    filter (\<lambda>x. x \<noteq> b) (filter (\<lambda>b. bc_user_id b = u_id u \<and> bc_used_at b = None) rows)"
    if "\<And>x. x \<in> set rows \<Longrightarrow> bc_id x = bc_id b \<Longrightarrow> x = b" for rows
    using that by (induction rows) auto
  from this [OF eq] show ?thesis by (simp add: unused_codes_def use_code_db_def)
qed

text \<open>
  C11: a backup code works once. A verification that succeeds consumed exactly one
  unused code of that user, which matched, and every other code of every user is as it was. After
  it, unless the same text also matches another unused code of the user, the same text is
  rejected with \<open>InvalidTwoFactorCodeException\<close> in every state with the same codes.
\<close>

theorem backup_code_single_use:
  assumes "distinct (map bc_id (backup_codes (db s)))"
    and "verify_user_backup_code X u c s = (Inr a, t)"
  shows "\<exists>b \<in> set (unused_codes (db s) u).
           argon2_verify X (code_hash b) c = Verified \<and>
           t = s\<lparr>db := use_code_db (clock s) b (db s)\<rparr> \<and>
           unused_codes (db t) u = filter (\<lambda>x. x \<noteq> b) (unused_codes (db s) u) \<and>
           ((\<forall>x \<in> set (unused_codes (db s) u). x \<noteq> b \<longrightarrow> argon2_verify X (code_hash x) c = VerifyMismatch) \<longrightarrow>
            (\<forall>s'. backup_codes (db s') = backup_codes (db t) \<longrightarrow>
                  verify_user_backup_code X u c s' = (Inl InvalidTwoFactorCodeException, s')))"
proof -
  obtain b where b: "b \<in> set (backup_codes (db s))" "bc_user_id b = u_id u" "bc_used_at b = None"
      "argon2_verify X (code_hash b) c = Verified" and t: "t = s\<lparr>db := use_code_db (clock s) b (db s)\<rparr>"
    using verify_user_backup_code_Inr [OF assms(2)] by blast
  have left: "unused_codes (db t) u = filter (\<lambda>x. x \<noteq> b) (unused_codes (db s) u)"
    using unused_after_use [OF assms(1) b(1)] t by simp
  have "verify_user_backup_code X u c s' = (Inl InvalidTwoFactorCodeException, s')"
    if same: "backup_codes (db s') = backup_codes (db t)"
      and others: "\<forall>x \<in> set (unused_codes (db s) u). x \<noteq> b \<longrightarrow> argon2_verify X (code_hash x) c = VerifyMismatch"
    for s'
    unfolding run_verify_user_backup_code
  proof (rule try_backup_codes_none)
    fix x assume "x \<in> set (sort_key bc_created_at (filter (\<lambda>b. bc_user_id b = u_id u) (backup_codes (db s'))))"
      and "bc_used_at x = None"
    then have "x \<in> set (unused_codes (db t) u)" using same by (simp add: unused_codes_def)
    then show "argon2_verify X (code_hash x) c = VerifyMismatch" using left others by simp
  qed
  moreover have "b \<in> set (unused_codes (db s) u)" using b by (simp add: unused_codes_def)
  ultimately show ?thesis using b(4) t left by blast
qed

theorem backup_code_single_use_witness:
  "\<exists>b \<in> set (unused_codes ref_2fa_db ref_user). argon2_verify ref_extern (code_hash b) ''B'' = Verified"
proof -
  have "distinct (map bc_id (backup_codes (db ref_2fa_node)))"
    by (simp add: ref_2fa_node_def ref_2fa_db_def)
  moreover have "verify_user_backup_code ref_extern ref_user ''B'' ref_2fa_node =
      (Inr (), snd (verify_user_backup_code ref_extern ref_user ''B'' ref_2fa_node))"
    by (simp add: run_verify_user_backup_code ref_2fa_node_def ref_2fa_db_def ref_user_def
        verify_backup_code_def mark_backup_code_used_def bindE_def)
  ultimately show ?thesis
    using backup_code_single_use [of ref_2fa_node ref_extern ref_user "''B''"]
    by (fastforce simp: ref_2fa_node_def)
qed

section \<open>Enrolment\<close>

text \<open>\<open>secrets.randbelow\<close> stays below its bound.\<close>

definition random_in_range :: "'r extern \<Rightarrow> bool" where
  "random_in_range X \<longleftrightarrow> (\<forall>n k. 0 < k \<longrightarrow> randbelow X n k < k)"

definition backup_code_format :: "string \<Rightarrow> bool" where
  "backup_code_format c \<longleftrightarrow>
     length c = 9 \<and> c ! 4 = CHR ''-'' \<and> (\<forall>i < 9. i \<noteq> 4 \<longrightarrow> c ! i \<in> set backup_alphabet)"

lemma choose_chars_run:
  "\<exists>cs. choose_chars X n s = (Inr cs, s\<lparr>draws := draws s + n\<rparr>) \<and> length cs = n \<and>
        (random_in_range X \<longrightarrow> set cs \<subseteq> set backup_alphabet)"
proof (induction n arbitrary: s)
  case (Suc n)
  let ?c = "backup_alphabet ! randbelow X (draws s) (length backup_alphabet)"
  have c: "random_in_range X \<longrightarrow> ?c \<in> set backup_alphabet"
  proof
    assume "random_in_range X"
    moreover have "backup_alphabet \<noteq> []" by (simp add: backup_alphabet_def)
    ultimately show "?c \<in> set backup_alphabet" by (simp add: random_in_range_def)
  qed
  obtain cs where "choose_chars X n (s\<lparr>draws := Suc (draws s)\<rparr>) = (Inr cs, s\<lparr>draws := draws s + Suc n\<rparr>)"
      "length cs = n" "random_in_range X \<longrightarrow> set cs \<subseteq> set backup_alphabet"
    using Suc.IH [of "s\<lparr>draws := Suc (draws s)\<rparr>"] by auto
  with c show ?case by (intro exI [of _ "?c # cs"]) simp
qed simp

lemma backup_code_format_join:
  assumes "length a = 4" "length b = 4" "set a \<subseteq> set backup_alphabet" "set b \<subseteq> set backup_alphabet"
  shows "backup_code_format (a @ ''-'' @ b)"
proof -
  have "(a @ ''-'' @ b) ! i \<in> set backup_alphabet" if "i < 9" "i \<noteq> 4" for i
  proof (cases "i < 4")
    case True
    then have "a ! i \<in> set a" using assms(1) by simp
    then show ?thesis using True assms by (auto simp: nth_append)
  next
    case False
    then have "b ! (i - 5) \<in> set b" using assms(2) that by simp
    moreover have "(a @ ''-'' @ b) ! i = b ! (i - 5)"
      using False that assms(1) by (auto simp: nth_append nth_Cons' )
    ultimately show ?thesis using assms(4) by auto
  qed
  then show ?thesis using assms(1,2) by (simp add: backup_code_format_def nth_append)
qed

lemma plain_codes_run:
  "\<exists>codes. generate_plain_backup_codes X n s = (Inr codes, s\<lparr>draws := draws s + 8 * n\<rparr>) \<and>
        length codes = n \<and> (random_in_range X \<longrightarrow> (\<forall>c \<in> set codes. backup_code_format c))"
proof (induction n arbitrary: s)
  case (Suc n)
  obtain a where a: "choose_chars X 4 s = (Inr a, s\<lparr>draws := draws s + 4\<rparr>)" "length a = 4"
      "random_in_range X \<longrightarrow> set a \<subseteq> set backup_alphabet"
    using choose_chars_run by blast
  obtain b where b: "choose_chars X 4 (s\<lparr>draws := draws s + 4\<rparr>) = (Inr b, s\<lparr>draws := draws s + 8\<rparr>)"
      "length b = 4" "random_in_range X \<longrightarrow> set b \<subseteq> set backup_alphabet"
    using choose_chars_run [of X 4 "s\<lparr>draws := draws s + 4\<rparr>"] by auto
  obtain codes where "generate_plain_backup_codes X n (s\<lparr>draws := draws s + 8\<rparr>) =
      (Inr codes, s\<lparr>draws := draws s + 8 * Suc n\<rparr>)" "length codes = n"
      "random_in_range X \<longrightarrow> (\<forall>c \<in> set codes. backup_code_format c)"
    using Suc.IH [of "s\<lparr>draws := draws s + 8\<rparr>"] by (auto simp: add.assoc)
  with a b show ?case
    by (intro exI [of _ "(a @ ''-'' @ b) # codes"]) (simp add: backup_code_format_join del: append_Cons)
qed simp

lemma hash_codes_run:
  "hash_backup_codes X codes s =
     (Inr (map2 (argon2_hash X) [draws s..<draws s + length codes] codes),
      s\<lparr>draws := draws s + length codes\<rparr>)"
  by (induction codes arbitrary: s) (simp_all add: hash_backup_code_def upt_conv_Cons del: upt_Suc)

lemma add_backup_codes_Inr:
  assumes "add_backup_codes X uid hs s = (Inr a, t)"
  shows "\<exists>rows n. t = s\<lparr>draws := n, db := (db s)\<lparr>backup_codes := backup_codes (db s) @ rows\<rparr>\<rparr> \<and>
           map code_hash rows = hs \<and> (\<forall>b \<in> set rows. bc_user_id b = uid \<and> bc_used_at b = None)"
  using assms
proof (induction hs arbitrary: s)
  case Nil
  then show ?case by (intro exI [of _ "[]"] exI [of _ "draws s"]) simp
next
  case (Cons h hs)
  let ?b = "\<lparr>bc_id = uuid4 X (draws s), bc_user_id = uid, code_hash = h, bc_used_at = None, bc_created_at = clock s\<rparr>"
  let ?s = "s\<lparr>draws := Suc (draws s), db := (db s)\<lparr>backup_codes := backup_codes (db s) @ [?b]\<rparr>\<rparr>"
  have "add_backup_codes X uid hs ?s = (Inr a, t)"
    using Cons.prems by (auto simp: thenE_def bindE_def split: if_splits)
  then obtain rows n where "t = ?s\<lparr>draws := n, db := (db ?s)\<lparr>backup_codes := backup_codes (db ?s) @ rows\<rparr>\<rparr>"
      "map code_hash rows = hs" "\<forall>b \<in> set rows. bc_user_id b = uid \<and> bc_used_at b = None"
    using Cons.IH by blast
  then show ?case by (intro exI [of _ "?b # rows"] exI [of _ n]) simp
qed

lemma upsert_secret_Inr:
  assumes "upsert_secret X uid enc s = (Inr a, t)"
  shows "\<exists>n rows rec. t = s\<lparr>draws := n, db := (db s)\<lparr>two_factor_secrets := rows\<rparr>\<rparr> \<and>
     filter (\<lambda>x. tf_user_id x = uid) rows = [rec] \<and>
     filter (\<lambda>x. tf_user_id x \<noteq> uid) rows = filter (\<lambda>x. tf_user_id x \<noteq> uid) (two_factor_secrets (db s)) \<and>
     encrypted_secret rec = enc \<and> confirmed_at rec = None \<and> last_used_timecode rec = None"
proof -
  let ?old = "filter (\<lambda>x. tf_user_id x = uid) (two_factor_secrets (db s))"
  have keep: "filter (\<lambda>x. tf_user_id x \<noteq> uid) (update_where (\<lambda>x. tf_user_id x = uid) f rows) =
      filter (\<lambda>x. tf_user_id x \<noteq> uid) rows" if "\<And>x. tf_user_id (f x) = tf_user_id x"
    for f :: "two_factor_secret \<Rightarrow> two_factor_secret" and rows
    using that by (induction rows) auto
  consider "?old = []" | rec where "?old = [rec]"
    using assms by (auto simp: upsert_secret_def bindE_def run_get_secret run_scalar_one_or_none split: list.splits)
  then show ?thesis
  proof cases
    case 1
    let ?rec = "\<lparr>tf_id = uuid4 X (draws s), tf_user_id = uid, encrypted_secret = enc,
        confirmed_at = None, last_used_timecode = None\<rparr>"
    from 1 show ?thesis
      using assms
      by (intro exI [of _ "Suc (draws s)"] exI [of _ "two_factor_secrets (db s) @ [?rec]"] exI [of _ ?rec])
        (auto simp: upsert_secret_def bindE_def run_get_secret split: if_splits)
  next
    case 2
    then have "tf_user_id rec = uid" by (auto dest!: filter_eq_ConsD)
    let ?f = "\<lambda>x. x\<lparr>encrypted_secret := enc, confirmed_at := None, last_used_timecode := None\<rparr>"
    from 2 \<open>tf_user_id rec = uid\<close> show ?thesis
      using assms
      by (intro exI [of _ "draws s"]
          exI [of _ "update_where (\<lambda>x. tf_user_id x = uid) ?f (two_factor_secrets (db s))"] exI [of _ "?f rec"])
        (auto simp: upsert_secret_def bindE_def run_get_secret mutate_secret_def
          filter_update_same_key keep)
  qed
qed

lemma create_setup_Inr:
  assumes "create_setup X cfg u s = (Inr sd, t)"
  obtains rows rec codes brows n m where
    "\<not> two_factor_enabled u" "sd_backup_codes sd = codes" "sd_secret sd = random_base32 X (draws s)"
    "length codes = 10" "random_in_range X \<longrightarrow> (\<forall>c \<in> set codes. backup_code_format c)"
    "filter (\<lambda>x. tf_user_id x = u_id u) rows = [rec]"
    "filter (\<lambda>x. tf_user_id x \<noteq> u_id u) rows = filter (\<lambda>x. tf_user_id x \<noteq> u_id u) (two_factor_secrets (db s))"
    "encrypted_secret rec = fernet_encrypt X (totp_encryption_key cfg) (Suc (draws s)) (sd_secret sd)"
    "confirmed_at rec = None"
    "map code_hash brows = map2 (argon2_hash X) [m..<m + 10] codes"
    "\<forall>b \<in> set brows. bc_user_id b = u_id u \<and> bc_used_at b = None"
    "t = s\<lparr>draws := n, db := (db s)\<lparr>two_factor_secrets := rows,
       backup_codes := filter (\<lambda>b. bc_user_id b \<noteq> u_id u) (backup_codes (db s)) @ brows\<rparr>\<rparr>"
proof -
  let ?secret = "random_base32 X (draws s)"
  let ?enc = "fernet_encrypt X (totp_encryption_key cfg) (Suc (draws s)) ?secret"
  have off: "\<not> two_factor_enabled u" using assms by (auto simp: create_setup_def)
  obtain s1 where up: "upsert_secret X (u_id u) ?enc (s\<lparr>draws := Suc (Suc (draws s))\<rparr>) = (Inr (), s1)"
    using assms off
    by (auto simp: create_setup_def generate_secret_def encrypt_secret_def elim!: thenE_InrE)
  obtain k rows rec where s1: "s1 = s\<lparr>draws := k, db := (db s)\<lparr>two_factor_secrets := rows\<rparr>\<rparr>"
    and rec: "filter (\<lambda>x. tf_user_id x = u_id u) rows = [rec]"
      "filter (\<lambda>x. tf_user_id x \<noteq> u_id u) rows = filter (\<lambda>x. tf_user_id x \<noteq> u_id u) (two_factor_secrets (db s))"
      "encrypted_secret rec = ?enc" "confirmed_at rec = None"
    using upsert_secret_Inr [OF up] by auto
  obtain codes where pl: "generate_plain_backup_codes X 10 s1 = (Inr codes, s1\<lparr>draws := draws s1 + 8 * 10\<rparr>)"
    and len: "length codes = 10" "random_in_range X \<longrightarrow> (\<forall>c \<in> set codes. backup_code_format c)"
    using plain_codes_run [of X 10 s1] by auto
  let ?s2 = "s1\<lparr>draws := draws s1 + 80 + 10\<rparr>"
  let ?hs = "map2 (argon2_hash X) [draws s1 + 80..<draws s1 + 80 + 10] codes"
  let ?del = "?s2\<lparr>db := (db ?s2)\<lparr>backup_codes := filter (\<lambda>b. bc_user_id b \<noteq> u_id u) (backup_codes (db ?s2))\<rparr>\<rparr>"
  have add: "add_backup_codes X (u_id u) ?hs ?del = (Inr (), t) \<and> sd_backup_codes sd = codes \<and> sd_secret sd = ?secret"
    using assms off up pl len
    by (auto simp: create_setup_def generate_secret_def encrypt_secret_def hash_codes_run Let_def
        replace_backup_codes_def delete_backup_codes_def elim!: thenE_InrE)
  then obtain brows m where "t = ?del\<lparr>draws := m, db := (db ?del)\<lparr>backup_codes := backup_codes (db ?del) @ brows\<rparr>\<rparr>"
    and "map code_hash brows = ?hs" "\<forall>b \<in> set brows. bc_user_id b = u_id u \<and> bc_used_at b = None"
    using add_backup_codes_Inr by blast
  then show thesis
    using that [OF off _ _ len rec(1,2) _ rec(4), where m = "draws s1 + 80" and n = m and brows = brows]
      add rec(3) by (simp add: s1)
qed

text \<open>
  Enrolment. \<open>create_setup\<close> succeeds only for a user without two-factor authentication; it
  returns ten codes of the form \<open>XXXX-XXXX\<close> over the alphabet without look-alikes. Afterwards the user
  has one secret, unconfirmed, the encryption of the returned one, and exactly ten backup
  codes, all unused, the hashes of the returned codes; the secrets and codes of other users, the
  users (so the flag too) and everything else in the session are unchanged.
\<close>

theorem two_factor_setup:
  assumes "random_in_range X" and "create_setup X cfg u s = (Inr sd, t)"
  shows "\<not> two_factor_enabled u \<and> length (sd_backup_codes sd) = 10 \<and>
    (\<forall>c \<in> set (sd_backup_codes sd). backup_code_format c) \<and>
    (\<exists>rec n. filter (\<lambda>x. tf_user_id x = u_id u) (two_factor_secrets (db t)) = [rec] \<and>
       encrypted_secret rec = fernet_encrypt X (totp_encryption_key cfg) n (sd_secret sd) \<and>
       confirmed_at rec = None) \<and>
    (\<exists>salts. map code_hash (filter (\<lambda>b. bc_user_id b = u_id u) (backup_codes (db t))) =
       map2 (argon2_hash X) salts (sd_backup_codes sd) \<and> length salts = 10) \<and>
    (\<forall>b \<in> set (backup_codes (db t)). bc_user_id b = u_id u \<longrightarrow> bc_used_at b = None) \<and>
    filter (\<lambda>b. bc_user_id b \<noteq> u_id u) (backup_codes (db t)) =
      filter (\<lambda>b. bc_user_id b \<noteq> u_id u) (backup_codes (db s)) \<and>
    filter (\<lambda>x. tf_user_id x \<noteq> u_id u) (two_factor_secrets (db t)) =
      filter (\<lambda>x. tf_user_id x \<noteq> u_id u) (two_factor_secrets (db s)) \<and>
    users (db t) = users (db s) \<and> committed t = committed s"
proof -
  obtain rows rec codes brows n m where d: "\<not> two_factor_enabled u" "sd_backup_codes sd = codes"
    "length codes = 10" "random_in_range X \<longrightarrow> (\<forall>c \<in> set codes. backup_code_format c)"
    "filter (\<lambda>x. tf_user_id x = u_id u) rows = [rec]"
    "filter (\<lambda>x. tf_user_id x \<noteq> u_id u) rows = filter (\<lambda>x. tf_user_id x \<noteq> u_id u) (two_factor_secrets (db s))"
    "encrypted_secret rec = fernet_encrypt X (totp_encryption_key cfg) (Suc (draws s)) (sd_secret sd)"
    "confirmed_at rec = None"
    and h: "map code_hash brows = map2 (argon2_hash X) [m..<m + 10] codes"
    and b: "\<forall>b \<in> set brows. bc_user_id b = u_id u \<and> bc_used_at b = None"
    and t: "t = s\<lparr>draws := n, db := (db s)\<lparr>two_factor_secrets := rows,
       backup_codes := filter (\<lambda>b. bc_user_id b \<noteq> u_id u) (backup_codes (db s)) @ brows\<rparr>\<rparr>"
    by (rule create_setup_Inr [OF assms(2)]) blast
  have own: "filter (\<lambda>b. bc_user_id b = u_id u) (backup_codes (db t)) = brows"
    "filter (\<lambda>b. bc_user_id b \<noteq> u_id u) (backup_codes (db t)) =
      filter (\<lambda>b. bc_user_id b \<noteq> u_id u) (backup_codes (db s))"
    using b by (auto simp: t filter_empty_conv)
  have "\<forall>b \<in> set (backup_codes (db t)). bc_user_id b = u_id u \<longrightarrow> bc_used_at b = None"
    using b by (auto simp: t)
  moreover have "\<exists>salts. map code_hash brows = map2 (argon2_hash X) salts codes \<and> length salts = 10"
    using h by (intro exI [of _ "[m..<m + 10]"]) simp
  ultimately show ?thesis
    using assms(1) d own by (auto simp: t)
qed

lemma add_backup_codes_ok:
  assumes "\<forall>h \<in> set hs. fits 512 h" "inj_on (uuid4 X) {draws s..<draws s + length hs}"
    and "\<forall>i \<in> {draws s..<draws s + length hs}. uuid4 X i \<notin> bc_id ` set (backup_codes (db s))"
  shows "\<exists>t. add_backup_codes X uid hs s = (Inr (), t)"
  using assms
proof (induction hs arbitrary: s)
  case (Cons h hs)
  let ?b = "\<lparr>bc_id = uuid4 X (draws s), bc_user_id = uid, code_hash = h, bc_used_at = None, bc_created_at = clock s\<rparr>"
  let ?s = "s\<lparr>draws := Suc (draws s), db := (db s)\<lparr>backup_codes := backup_codes (db s) @ [?b]\<rparr>\<rparr>"
  have "uuid4 X i \<noteq> uuid4 X (draws s)" if "Suc (draws s) \<le> i" "i < Suc (draws s) + length hs" for i
    using that inj_onD [OF Cons.prems(2), of i "draws s"] by auto
  then have "\<exists>t. add_backup_codes X uid hs ?s = (Inr (), t)"
    using Cons.prems by (intro Cons.IH) (auto simp: inj_on_def)
  moreover have "add_backup_codes X uid (h # hs) s = add_backup_codes X uid hs ?s"
    using Cons.prems by simp
  ultimately show ?case by simp
qed simp

lemma ref_uuid_inj: "b < 2 ^ 128 \<Longrightarrow> inj_on (uuid4 ref_extern) {a..<b}"
  by (auto simp: inj_on_def of_nat_eq_iff word_of_nat_eq_iff take_bit_nat_eq_self_iff
      take_bit_nat_eq_self)

lemma ref_random_in_range: "random_in_range ref_extern"
  by (simp add: random_in_range_def ref_extern_def)

lemma ref_create_setup:
  "\<exists>sd t. create_setup ref_extern ref_cfg (ref_user\<lparr>two_factor_enabled := False\<rparr>) ref_node = (Inr sd, t)"
proof -
  let ?u = "ref_user\<lparr>two_factor_enabled := False\<rparr>"
  let ?enc = "fernet_encrypt ref_extern (totp_encryption_key ref_cfg) 2 (random_base32 ref_extern 1)"
  let ?rec = "\<lparr>tf_id = 3, tf_user_id = 7, encrypted_secret = ?enc, confirmed_at = None, last_used_timecode = None\<rparr>"
  let ?s = "ref_node\<lparr>draws := 4, db := empty_auth_db\<lparr>two_factor_secrets := [?rec]\<rparr>\<rparr>"
  have up: "upsert_secret ref_extern 7 ?enc (ref_node\<lparr>draws := 3\<rparr>) = (Inr (), ?s)"
    by (simp add: upsert_secret_def run_get_secret)
  obtain codes where pl: "generate_plain_backup_codes ref_extern 10 ?s = (Inr codes, ?s\<lparr>draws := 84\<rparr>)"
    and len: "length codes = 10" "\<forall>c \<in> set codes. backup_code_format c"
    using plain_codes_run [of ref_extern 10 ?s] ref_random_in_range by auto
  let ?hs = "map2 (argon2_hash ref_extern) [84..<94] codes"
  let ?del = "?s\<lparr>draws := 94, db := (db ?s)\<lparr>backup_codes := []\<rparr>\<rparr>"
  have "\<forall>h \<in> set ?hs. fits 512 h"
    using len(2) by (auto simp: fits_def backup_code_format_def dest!: set_zip_rightD)
  then obtain t where "add_backup_codes ref_extern 7 ?hs ?del = (Inr (), t)"
    using add_backup_codes_ok [of ?hs ref_extern ?del 7] ref_uuid_inj [of "94 + length ?hs" 94] len(1)
    by auto
  then show ?thesis
    using up pl len(1)
    by (simp add: create_setup_def generate_secret_def encrypt_secret_def hash_codes_run Let_def ref_user_def
        replace_backup_codes_def delete_backup_codes_def numeral_2_eq_2 numeral_3_eq_3)
qed

theorem two_factor_setup_witness:
  "\<exists>sd t. create_setup ref_extern ref_cfg (ref_user\<lparr>two_factor_enabled := False\<rparr>) ref_node = (Inr sd, t) \<and>
     length (sd_backup_codes sd) = 10 \<and> (\<forall>c \<in> set (sd_backup_codes sd). backup_code_format c)"
  using ref_create_setup two_factor_setup [OF ref_random_in_range] by blast

section \<open>Removal\<close>

definition drop_2fa_db :: "user \<Rightarrow> auth_db \<Rightarrow> auth_db" where
  "drop_2fa_db u d =
     d\<lparr>backup_codes := filter (\<lambda>b. bc_user_id b \<noteq> u_id u) (backup_codes d),
       two_factor_secrets := filter (\<lambda>x. tf_user_id x \<noteq> u_id u) (two_factor_secrets d),
       users := update_where (\<lambda>x. u_id x = u_id u) (\<lambda>x. x\<lparr>two_factor_enabled := False\<rparr>) (users d)\<rparr>"

text \<open>What a successful verification did, by either means.\<close>

lemma verify_for_login_Inr:
  assumes "verify_for_login X cfg u tc bc s = (Inr a, t)"
  shows "two_factor_enabled u \<and>
    ((\<exists>k. \<not> falsy tc \<and> falsy bc \<and> accepts_step X cfg (db s) u (the tc) (clock s) k \<and>
          t = s\<lparr>db := used_step_db u k (db s)\<rparr>) \<or>
     (\<exists>b. falsy tc \<and> \<not> falsy bc \<and> b \<in> set (unused_codes (db s) u) \<and>
          argon2_verify X (code_hash b) (or_empty bc) = Verified \<and>
          t = s\<lparr>db := use_code_db (clock s) b (db s)\<rparr>))"
proof -
  have on: "two_factor_enabled u" "falsy tc \<noteq> falsy bc"
    using assms by (auto simp: verify_for_login_def split: if_splits)
  show ?thesis
  proof (cases "falsy tc")
    case True
    then have "verify_user_backup_code X u (or_empty bc) s = (Inr a, t)"
      using assms on by (simp add: verify_for_login_def)
    from verify_user_backup_code_Inr [OF this] True on show ?thesis by (auto simp: unused_codes_def)
  next
    case False
    then have "verify_totp X cfg u (the tc) s = (Inr a, t)"
      using assms on by (simp add: verify_for_login_def)
    from verify_totp_Inr [OF this] False on show ?thesis by auto
  qed
qed

lemma verify_for_login_Inl_state: "verify_for_login X cfg u tc bc s = (Inl e, t) \<Longrightarrow> t = s"
  by (auto simp: verify_for_login_def run_verify_user_backup_code
      dest: verify_totp_Inl_state try_backup_codes_Inl_state split: if_splits)

lemma drop_after_verify:
  "drop_2fa_db u (used_step_db u k d) = drop_2fa_db u d"
  "distinct (map bc_id (backup_codes d)) \<Longrightarrow> b \<in> set (unused_codes d u) \<Longrightarrow>
   drop_2fa_db u (use_code_db now b d) = drop_2fa_db u d"
proof -
  show "drop_2fa_db u (used_step_db u k d) = drop_2fa_db u d"
    by (simp add: drop_2fa_db_def used_step_db_def filter_update_where_out)
  assume d: "distinct (map bc_id (backup_codes d))" and "b \<in> set (unused_codes d u)"
  then have b: "b \<in> set (backup_codes d)" "bc_user_id b = u_id u" by (simp_all add: unused_codes_def)
  have "x = b" if "x \<in> set (backup_codes d)" "bc_id x = bc_id b" for x
    using that d b(1) distinct_key_eq by metis
  then have "filter (\<lambda>b. bc_user_id b \<noteq> u_id u) (backup_codes (use_code_db now b d)) =
      filter (\<lambda>b. bc_user_id b \<noteq> u_id u) (backup_codes d)"
    unfolding use_code_db_def using b(2) by (simp, intro filter_update_where_out) fastforce
  then show "drop_2fa_db u (use_code_db now b d) = drop_2fa_db u d"
    by (simp add: drop_2fa_db_def use_code_db_def)
qed

text \<open>
  C14: two-factor authentication is switched off only against a second factor. When \<open>disable\<close>
  returns, the user had it enabled and presented either a fresh one-time password or an unused backup
  code, exactly one of the two; the user's secret and codes are gone, the flag is off, and nothing
  of any other user changed. When it raises because of the factor, nothing changed at all.
\<close>

theorem two_factor_disable:
  assumes "distinct (map bc_id (backup_codes (db s)))" "disable X cfg u tc bc s = (r, t)"
  shows "case r of
      Inr _ \<Rightarrow> two_factor_enabled u \<and>
        ((\<exists>k. \<not> falsy tc \<and> falsy bc \<and> accepts_step X cfg (db s) u (the tc) (clock s) k) \<or>
         (\<exists>b \<in> set (unused_codes (db s) u). falsy tc \<and> \<not> falsy bc \<and>
            argon2_verify X (code_hash b) (or_empty bc) = Verified)) \<and>
        t = s\<lparr>db := drop_2fa_db u (db s)\<rparr>
    | Inl e \<Rightarrow> t = s"
proof (cases "verify_for_login X cfg u tc bc s")
  case (Pair v s1)
  show ?thesis
  proof (cases v)
    case (Inl e)
    then show ?thesis
      using Pair assms(2) verify_for_login_Inl_state [of X cfg u tc bc s e s1] by (auto simp: disable_def)
  next
    case (Inr a)
    have t: "r = Inr ()" "t = s1\<lparr>db := drop_2fa_db u (db s1)\<rparr>"
      using Pair Inr assms(2)
      by (auto simp: disable_def delete_two_factor_data_def delete_backup_codes_def drop_2fa_db_def)
    show ?thesis
      using verify_for_login_Inr [OF Pair [unfolded Inr]] drop_after_verify(1)
        drop_after_verify(2) [OF assms(1)] t by auto
  qed
qed

theorem two_factor_disable_witness:
  "\<exists>k. accepts_step ref_extern ref_cfg ref_2fa_db ref_user (str_int 990) 1000 k"
proof -
  have "distinct (map bc_id (backup_codes (db ref_2fa_node)))"
    by (simp add: ref_2fa_node_def ref_2fa_db_def)
  moreover have "verify_for_login ref_extern ref_cfg ref_user (Some (str_int 990)) None ref_2fa_node =
      verify_totp ref_extern ref_cfg ref_user (str_int 990) ref_2fa_node"
    by (simp add: verify_for_login_def ref_user_def falsy_def or_empty_def str_int_def str_nat.simps)
  then have "disable ref_extern ref_cfg ref_user (Some (str_int 990)) None ref_2fa_node =
      (Inr (), snd (disable ref_extern ref_cfg ref_user (Some (str_int 990)) None ref_2fa_node))"
    by (simp add: disable_def ref_verify_totp delete_two_factor_data_def delete_backup_codes_def)
  ultimately show ?thesis
    using two_factor_disable [of ref_2fa_node ref_extern ref_cfg ref_user "Some (str_int 990)" None]
    by (fastforce simp: ref_2fa_node_def falsy_def or_empty_def)
qed

end
