(* ===== verification/Brute_Force.thy ===== *)
theory Brute_Force
  imports Reference_World
begin

text \<open>
  \<open>services/brute_force_protection_service.py\<close>: a counter of failures with a window and a lock
  with a lifetime, both in the cache, per scope and digest of an identifier. The lemmas in the
  context of \<open>redis_store\<close> hold for every cache that keeps its contract; \<open>failures_at\<close> is a
  series of failures at given times.
\<close>

record brute_force_policy =
  max_attempts :: int
  window_seconds :: int
  lock_seconds :: int

definition identifier_digest :: "'r extern \<Rightarrow> auth_settings \<Rightarrow> string \<Rightarrow> string" where
  "identifier_digest X cfg identifier = stable_hmac_digest X identifier (privacy_key_pepper cfg)"

definition policy :: "auth_settings \<Rightarrow> string \<Rightarrow> exn + brute_force_policy" where
  "policy cfg scope =
     (if scope = ''login'' \<or> scope = ''login_account'' then
        Inr \<lparr>max_attempts = brute_force_login_max_attempts cfg,
             window_seconds = brute_force_login_window_seconds cfg,
             lock_seconds = brute_force_login_lock_seconds cfg\<rparr>
      else if scope = ''2fa'' then
        Inr \<lparr>max_attempts = brute_force_2fa_max_attempts cfg,
             window_seconds = brute_force_2fa_window_seconds cfg,
             lock_seconds = brute_force_2fa_lock_seconds cfg\<rparr>
      else if scope = ''password_reset'' \<or> scope = ''password_reset_account'' then
        Inr \<lparr>max_attempts = brute_force_password_reset_max_attempts cfg,
             window_seconds = brute_force_password_reset_window_seconds cfg,
             lock_seconds = brute_force_password_reset_lock_seconds cfg\<rparr>
      else Inl (ValueError (''Unsupported brute-force scope: '' @ scope)))"

definition assert_not_locked ::
  "'r extern \<Rightarrow> auth_settings \<Rightarrow> string \<Rightarrow> string \<Rightarrow> ('r, unit) aprog" where
  "assert_not_locked X cfg scope identifier =
     (let lock_key = brute_force_lock_key scope (identifier_digest X cfg identifier) in
      bindE (redis_exists (redis_cmds X) lock_key) (\<lambda>is_locked.
        if is_locked then
          bindE (redis_ttl (redis_cmds X) lock_key) (\<lambda>ttl.
            raise (AccountLockedException
              (''Too many failed attempts. Retry in '' @ str_int (max ttl 1) @ '' seconds'')))
        else ret ()))"

definition record_failure ::
  "'r extern \<Rightarrow> auth_settings \<Rightarrow> string \<Rightarrow> string \<Rightarrow> ('r, int) aprog" where
  "record_failure X cfg scope identifier =
     (case policy cfg scope of
        Inl e \<Rightarrow> raise e
      | Inr p \<Rightarrow>
          (let key_identifier = identifier_digest X cfg identifier;
               fail_key = brute_force_fail_key scope key_identifier;
               lock_key = brute_force_lock_key scope key_identifier in
           bindE (redis_incr (redis_cmds X) fail_key) (\<lambda>attempts.
           thenE (whenE (attempts = 1) (redis_expire (redis_cmds X) fail_key (window_seconds p)))
          (thenE (whenE (attempts \<ge> max_attempts p)
                   (thenE (redis_set_ex (redis_cmds X) lock_key ''1'' (lock_seconds p))
                          (redis_delete (redis_cmds X) [fail_key])))
                 (ret attempts)))))"

definition clear_failures ::
  "'r extern \<Rightarrow> auth_settings \<Rightarrow> string \<Rightarrow> string \<Rightarrow> ('r, unit) aprog" where
  "clear_failures X cfg scope identifier =
     (let key_identifier = identifier_digest X cfg identifier;
          fail_key = brute_force_fail_key scope key_identifier;
          lock_key = brute_force_lock_key scope key_identifier in
      redis_delete (redis_cmds X) [fail_key, lock_key])"

section \<open>Effects\<close>

text \<open>The guard touches nothing but the cache.\<close>

definition redis_only :: "'r auth_node \<Rightarrow> 'r auth_node \<Rightarrow> bool" where
  "redis_only s t \<longleftrightarrow> t = s\<lparr>redis := redis t\<rparr>"

interpretation redis_effect: effect redis_only
proof unfold_locales
  fix s t u :: "'r auth_node"
  assume "redis_only s t" "redis_only t u"
  then show "redis_only s u"
    unfolding redis_only_def by (metis node.update_convs(1) auth_node.surjective node.surjective
        auth_node.select_convs node.select_convs(1))
qed (simp add: redis_only_def)

lemma redis_only_write [simp]: "redis_only s (s\<lparr>redis := r\<rparr>)"
  by (simp add: redis_only_def)

lemmas redis_within =
  redis_effect.within_rules within_redis_write [OF redis_effect.refl redis_only_write]
  within_redis_incr [OF redis_effect.refl redis_only_write] within_redis_read [OF redis_effect.refl]

lemma within_record_failure: "within redis_only (record_failure X cfg sc i)"
  unfolding record_failure_def Let_def by (auto intro!: redis_within split: sum.split)

lemma within_clear_failures: "within redis_only (clear_failures X cfg sc i)"
  unfolding clear_failures_def Let_def by (auto intro!: redis_within)

lemma assert_not_locked_state: "assert_not_locked X cfg sc i s = (r, t) \<Longrightarrow> t = s"
  by (auto simp: assert_not_locked_def Let_def run_redis_read bindE_def split: option.splits if_splits)

section \<open>One failure\<close>

text \<open>A window with \<open>n\<close> failures in it: no entry for none, otherwise the count and the window's end.\<close>

definition failures_entry :: "int \<Rightarrow> int \<Rightarrow> entry option" where
  "failures_entry n x = (if n = 0 then None else Some (str_int n, Some x))"

text \<open>The cache after one more failure.\<close>

definition failed_once ::
  "brute_force_policy \<Rightarrow> string \<Rightarrow> string \<Rightarrow> int \<Rightarrow> int \<Rightarrow> int \<Rightarrow> (string \<Rightarrow> entry option) \<Rightarrow>
   (string \<Rightarrow> entry option)" where
  "failed_once p fk lk t n x m =
     (if n + 1 \<ge> max_attempts p then (m(lk \<mapsto> (''1'', Some (t + lock_seconds p))))(fk := None)
      else m(fk \<mapsto> (str_int (n + 1), Some (if n = 0 then t + window_seconds p else x))))"

context redis_store
begin

lemma incr_count:
  assumes "r_incr ops t k r = Some (a, r')" "look r t k = failures_entry n x" "0 \<le> n"
  shows "a = n + 1 \<and> look r' t = (look r t)(k \<mapsto> (str_int (n + 1), if n = 0 then None else Some x))"
  using assms incr_new [of t k r a r'] incr_old [of t k r a r' "str_int n" "Some x"]
  by (auto simp: failures_entry_def split: if_splits)

lemma record_failure_effect:
  assumes ops: "redis_cmds X = ops"
    and p: "policy cfg sc = Inr p" "0 < window_seconds p"
    and n: "look (redis s) (clock s) (brute_force_fail_key sc (identifier_digest X cfg i)) = failures_entry n x"
           "0 \<le> n"
    and run: "record_failure X cfg sc i s = (Inr a, s')"
  shows "a = n + 1 \<and> clock s' = clock s \<and>
     look (redis s') (clock s) =
       failed_once p (brute_force_fail_key sc (identifier_digest X cfg i))
         (brute_force_lock_key sc (identifier_digest X cfg i)) (clock s) n x (look (redis s) (clock s))"
proof -
  let ?fk = "brute_force_fail_key sc (identifier_digest X cfg i)"
  let ?t = "clock s"
  obtain a1 r1 where i1: "r_incr ops ?t ?fk (redis s) = Some (a1, r1)"
    using run by (auto simp: record_failure_def p ops Let_def bindE_def run_redis_incr split: option.splits)
  have a1: "a1 = n + 1"
    and l1: "look r1 ?t = (look (redis s) ?t)(?fk \<mapsto> (str_int (n + 1), if n = 0 then None else Some x))"
    using incr_count [OF i1 n] by auto
  note ex = expire_law [of ?t ?fk "window_seconds p"]
  show ?thesis
    using run n(2) p(2)
    by (auto simp: record_failure_def p(1) ops Let_def bindE_def thenE_def run_redis_incr run_redis_write i1 a1 l1
        failed_once_def fun_upd_twist split: option.splits if_splits
        dest!: ex set_law delete_law)
qed

lemma clear_failures_effect:
  assumes "redis_cmds X = ops" and "clear_failures X cfg sc i s = (Inr u, s')"
  shows "look (redis s') (clock s) = (look (redis s) (clock s))
           (brute_force_fail_key sc (identifier_digest X cfg i) := None,
            brute_force_lock_key sc (identifier_digest X cfg i) := None)"
  using assms(2)
  by (auto simp: assms(1) clear_failures_def Let_def run_redis_write fun_eq_iff split: option.splits dest!: delete_law)

lemma assert_not_locked_passes:
  assumes "redis_cmds X = ops" and "assert_not_locked X cfg sc i s = (Inr u, t)"
  shows "t = s \<and> look (redis s) (clock s) (brute_force_lock_key sc (identifier_digest X cfg i)) = None"
  using assms(2)
  by (auto simp: assms(1) assert_not_locked_def Let_def bindE_def run_redis_read split: option.splits if_splits
      dest!: exists_law)

end

section \<open>A series of failures\<close>

text \<open>Failures recorded at the given times, in order.\<close>

primrec failures_at ::
  "'r extern \<Rightarrow> auth_settings \<Rightarrow> string \<Rightarrow> string \<Rightarrow> int list \<Rightarrow> 'r auth_node \<Rightarrow> 'r auth_node" where
  "failures_at X cfg sc i [] s = s"
| "failures_at X cfg sc i (t # ts) s =
     failures_at X cfg sc i ts (snd (record_failure X cfg sc i (s\<lparr>clock := t\<rparr>)))"

definition live_policy :: "brute_force_policy \<Rightarrow> bool" where
  "live_policy p \<longleftrightarrow> 0 < max_attempts p \<and> max_attempts p < 2 ^ 63 \<and> 0 < window_seconds p \<and> 0 < lock_seconds p"

context redis_live
begin

lemma counter_failures: "0 \<le> n \<Longrightarrow> n < 2 ^ 63 - 1 \<Longrightarrow> counter_entry (failures_entry n x)"
  by (auto simp: counter_entry_def failures_entry_def)

lemma record_failure_ok:
  assumes ops: "redis_cmds X = ops" and p: "policy cfg sc = Inr p" "live_policy p"
    and n: "look (redis s) (clock s) (brute_force_fail_key sc (identifier_digest X cfg i)) = failures_entry n x"
      "0 \<le> n" "n < max_attempts p"
  shows "\<exists>s'. record_failure X cfg sc i s = (Inr (n + 1), s')"
proof -
  let ?fk = "brute_force_fail_key sc (identifier_digest X cfg i)"
  have "counter_entry (failures_entry n x)"
    using n p(2) by (intro counter_failures) (auto simp: live_policy_def)
  then obtain a r1 where i1: "r_incr ops (clock s) ?fk (redis s) = Some (a, r1)"
    using incr_ok n(1) by (metis not_Some_eq surj_pair)
  have "a = n + 1" using incr_count [OF i1 n(1,2)] by simp
  then show ?thesis
    using p(2)
    by (auto simp del: not_None_eq simp: record_failure_def p(1) ops Let_def bindE_def thenE_def
        run_redis_incr run_redis_write i1 live_policy_def expire_ok set_ok delete_ok split: option.splits)
qed

lemma failures_at_effect:
  assumes ops: "redis_cmds X = ops" and p: "policy cfg sc = Inr p" "live_policy p"
    and "look (redis s) tb (brute_force_fail_key sc (identifier_digest X cfg i)) = failures_entry n x"
    and "look (redis s) tb (brute_force_lock_key sc (identifier_digest X cfg i)) = None"
    and "0 \<le> n" "n + int (length ts) \<le> max_attempts p"
    and "sorted (tb # ts)" "n = 0 \<Longrightarrow> ts \<noteq> [] \<Longrightarrow> x = hd ts + window_seconds p" "\<forall>t \<in> set ts. t < x"
    and "n < max_attempts p"
  shows "look (redis (failures_at X cfg sc i ts s)) (last (tb # ts))
           (brute_force_lock_key sc (identifier_digest X cfg i)) =
         (if n + int (length ts) = max_attempts p
          then Some (''1'', Some (last (tb # ts) + lock_seconds p)) else None)"
  using assms(4-)
proof (induction ts arbitrary: s tb n)
  case Nil
  then show ?case by simp
next
  case (Cons t ts)
  let ?fk = "brute_force_fail_key sc (identifier_digest X cfg i)"
  let ?lk = "brute_force_lock_key sc (identifier_digest X cfg i)"
  let ?s = "s\<lparr>clock := t\<rparr>"
  have tb: "tb \<le> t" and tx: "t < x" using Cons.prems by auto
  have fe: "look (redis ?s) (clock ?s) ?fk = failures_entry n x"
    using Cons.prems(1) tb tx by (simp add: look_later [of tb t] failures_entry_def aged_def)
  have le: "look (redis s) t ?lk = None"
    using Cons.prems(2) tb by (simp add: look_later [of tb t] aged_def)
  obtain s' where run: "record_failure X cfg sc i ?s = (Inr (n + 1), s')"
    using record_failure_ok [OF ops p fe Cons.prems(3,8)] by blast
  have w: "0 < window_seconds p" using p(2) by (simp add: live_policy_def)
  have eff: "look (redis s') t = failed_once p ?fk ?lk t n x (look (redis s) t)"
    using record_failure_effect [OF ops p(1) w fe Cons.prems(3) run] by simp
  have step: "failures_at X cfg sc i (t # ts) s = failures_at X cfg sc i ts s'"
    by (simp add: run)
  show ?case
  proof (cases "n + 1 = max_attempts p")
    case True
    have "n + 1 + int (length ts) \<le> max_attempts p" using Cons.prems(4) by simp
    with True have "int (length ts) \<le> 0" by linarith
    then have "ts = []" by simp
    then show ?thesis using True eff by (simp add: run failed_once_def)
  next
    case False
    then have m: "n + 1 < max_attempts p" using Cons.prems(8) by simp
    have x: "(if n = 0 then t + window_seconds p else x) = x" using Cons.prems(6) by simp
    have "look (redis (failures_at X cfg sc i ts s')) (last (t # ts)) ?lk =
      (if n + 1 + int (length ts) = max_attempts p
          then Some (''1'', Some (last (t # ts) + lock_seconds p)) else None)"
      by (rule Cons.IH)
        (use Cons.prems m eff x le in \<open>auto simp: failed_once_def failures_entry_def\<close>)
    then show ?thesis by (simp add: run add.assoc add.commute [of 1])
  qed
qed

lemma assert_not_locked_run:
  assumes "redis_cmds X = ops"
  shows "assert_not_locked X cfg sc i s =
    (case look (redis s) (clock s) (brute_force_lock_key sc (identifier_digest X cfg i)) of
       None \<Rightarrow> (Inr (), s)
     | Some (v, x) \<Rightarrow>
         (Inl (AccountLockedException (''Too many failed attempts. Retry in '' @
            str_int (max (case x of None \<Rightarrow> -1 | Some e \<Rightarrow> e - clock s) 1) @ '' seconds'')), s))"
proof -
  let ?lk = "brute_force_lock_key sc (identifier_digest X cfg i)"
  obtain b where b: "r_exists ops (clock s) ?lk (redis s) = Some b"
    using exists_ok by (metis not_Some_eq)
  obtain n where n: "r_ttl ops (clock s) ?lk (redis s) = Some n"
    using ttl_ok by (metis not_Some_eq)
  show ?thesis
    using exists_law [OF b] ttl_law [OF n]
    by (auto simp: assert_not_locked_def Let_def bindE_def run_redis_read assms b n split: option.splits)
qed

end

text \<open>
  C7: failures of one identifier in one window lock it exactly at the configured number. After
  fewer than \<open>max_attempts\<close> failures the guard lets the identifier pass; after \<open>max_attempts\<close> of them it
  answers \<open>AccountLockedException\<close> with the remaining seconds until \<open>lock_seconds\<close> have passed since the
  last failure, and from then on lets it pass again. The cache is any store with the laws of
  \<open>redis_live\<close>, the failures come at any times inside the window.
\<close>

theorem brute_force_locks_exactly_at_max:
  assumes "redis_live (redis_cmds X) look"
    and "policy cfg sc = Inr p" "live_policy p"
    and "look (redis s) (hd ts) (brute_force_fail_key sc (identifier_digest X cfg i)) = None"
    and "look (redis s) (hd ts) (brute_force_lock_key sc (identifier_digest X cfg i)) = None"
    and "ts \<noteq> []" "sorted ts" "\<forall>t \<in> set ts. t < hd ts + window_seconds p"
    and "int (length ts) \<le> max_attempts p" "last ts \<le> now"
  shows "fst (assert_not_locked X cfg sc i ((failures_at X cfg sc i ts s)\<lparr>clock := now\<rparr>)) =
    (if int (length ts) = max_attempts p \<and> now < last ts + lock_seconds p
     then Inl (AccountLockedException (''Too many failed attempts. Retry in '' @
            str_int (last ts + lock_seconds p - now) @ '' seconds''))
     else Inr ())"
proof -
  let ?lk = "brute_force_lock_key sc (identifier_digest X cfg i)"
  have srt: "sorted (hd ts # ts)" and l: "last (hd ts # ts) = last ts"
    using assms(6,7) by (cases ts; simp)+
  have "look (redis (failures_at X cfg sc i ts s)) (last ts) ?lk =
      (if int (length ts) = max_attempts p then Some (''1'', Some (last ts + lock_seconds p)) else None)"
    using redis_live.failures_at_effect [OF assms(1) refl assms(2,3), where n = 0 and tb = "hd ts"
        and x = "hd ts + window_seconds p" and ts = ts and s = s and i = i]
      assms(3-) srt l by (simp add: failures_entry_def live_policy_def)
  moreover have "redis_store (redis_cmds X) look"
    using assms(1) by (rule redis_live.axioms)
  note redis_store.look_later [OF this assms(10), of "redis (failures_at X cfg sc i ts s)" ?lk]
  ultimately have "look (redis (failures_at X cfg sc i ts s)) now ?lk =
      (if int (length ts) = max_attempts p \<and> now < last ts + lock_seconds p
       then Some (''1'', Some (last ts + lock_seconds p)) else None)"
    by (simp add: aged_def)
  then show ?thesis
    by (simp add: redis_live.assert_not_locked_run [OF assms(1) refl])
qed

text \<open>Three failed logins at times 1000, 1010 and 1200 lock the identifier until 2100.\<close>

theorem brute_force_locks_exactly_at_max_witness:
  "fst (assert_not_locked ref_extern ref_cfg ''login'' ''x''
      ((failures_at ref_extern ref_cfg ''login'' ''x'' [1000, 1010, 1200] ref_node)\<lparr>clock := 2099\<rparr>)) =
   Inl (AccountLockedException (''Too many failed attempts. Retry in '' @ str_int 1 @ '' seconds''))"
proof -
  have p: "policy ref_cfg ''login'' = Inr \<lparr>max_attempts = 3, window_seconds = 300, lock_seconds = 900\<rparr>"
    by (simp add: policy_def ref_cfg_def)
  have live: "redis_live (redis_cmds ref_extern) ks_look"
    using ks.redis_live_axioms by simp
  show ?thesis
    using brute_force_locks_exactly_at_max [OF live p, where s = ref_node and ts = "[1000, 1010, 1200]"
        and i = "''x''" and now = 2099]
    by (simp add: live_policy_def ks_look_def aged_def)
qed

end
