(* ===== verification/Auth_Service.thy ===== *)
theory Auth_Service
  imports Audit_Service Refresh_Service Two_Factor Brute_Force
begin

text \<open>
  \<open>services/auth_service.py\<close>: registration, login with its second step, refresh and logout, each
  the whole method with its checks, counters, audit events and commits in the order of the code.
\<close>

section \<open>Helpers\<close>

definition access_revoked_ttl :: "auth_settings \<Rightarrow> int" where
  "access_revoked_ttl cfg = max (jwt_access_ttl_seconds cfg) 60"

definition mark_access_session_revoked ::
  "'r extern \<Rightarrow> auth_settings \<Rightarrow> uuid \<Rightarrow> ('r, unit) aprog" where
  "mark_access_session_revoked X cfg session_id =
     redis_set_ex (redis_cmds X) (access_session_revoked_key (str_uuid session_id)) ''1''
       (access_revoked_ttl cfg)"

definition context_fingerprint :: "'r extern \<Rightarrow> auth_settings \<Rightarrow> string option \<Rightarrow> string" where
  "context_fingerprint X cfg v = stable_hmac_digest X (normalize_optional v) (privacy_key_pepper cfg)"

definition challenge_payload :: "'r extern \<Rightarrow> auth_settings \<Rightarrow> uuid \<Rightarrow> string option \<Rightarrow> claims" where
  "challenge_payload X cfg uid ip =
     [(''user_id'', JStr (str_uuid uid)), (''ip_fingerprint'', JStr (context_fingerprint X cfg ip))]"

definition create_login_challenge ::
  "'r extern \<Rightarrow> auth_settings \<Rightarrow> uuid \<Rightarrow> string option \<Rightarrow> ('r, string) aprog" where
  "create_login_challenge X cfg uid ip =
     bindE (draw (uuid4 X)) (\<lambda>cid.
       let challenge_id = str_uuid cid in
       thenE (redis_set_ex (redis_cmds X) (login_challenge_key challenge_id)
                (json_dumps X (JDict (challenge_payload X cfg uid ip))) (login_challenge_ttl_seconds cfg))
         (ret challenge_id))"

text \<open>The two fields of a challenge; \<open>.get\<close> of something that is not a dictionary raises.\<close>

definition get_login_challenge ::
  "'r extern \<Rightarrow> string \<Rightarrow> ('r, (json \<times> json) option) aprog" where
  "get_login_challenge X challenge_id =
     bindE (redis_get (redis_cmds X) (login_challenge_key challenge_id)) (\<lambda>raw.
       case raw of
         None \<Rightarrow> ret None
       | Some txt \<Rightarrow>
           (case json_loads X txt of
              None \<Rightarrow> ret None
            | Some (JDict d) \<Rightarrow> ret (Some (dict_get d ''user_id'', dict_get d ''ip_fingerprint''))
            | Some _ \<Rightarrow> raise AttributeError))"

definition delete_login_challenge :: "'r extern \<Rightarrow> string \<Rightarrow> ('r, unit) aprog" where
  "delete_login_challenge X challenge_id =
     redis_delete (redis_cmds X) [login_challenge_key challenge_id]"

text \<open>\<open>hmac.compare_digest\<close> of texts accepts ASCII only.\<close>

definition is_ascii :: "string \<Rightarrow> bool" where
  "is_ascii s \<longleftrightarrow> list_all (\<lambda>c. ordc c < (128 :: nat)) s"

definition challenge_context_matches ::
  "'r extern \<Rightarrow> auth_settings \<Rightarrow> json \<Rightarrow> string option \<Rightarrow> ('r, bool) aprog" where
  "challenge_context_matches X cfg expected_ip ip =
     (let actual_ip = context_fingerprint X cfg ip in
      case expected_ip of
        JNull \<Rightarrow> ret False
      | JStr e \<Rightarrow> if is_ascii e \<and> is_ascii actual_ip then ret (e = actual_ip) else raise TypeError
      | _ \<Rightarrow> raise TypeError)"

section \<open>Registration and login\<close>

definition register ::
  "'r extern \<Rightarrow> string \<Rightarrow> string \<Rightarrow> string option \<Rightarrow> string option \<Rightarrow> ('r, unit) aprog" where
  "register X e password ip ua =
     bindE (get_by_email e) (\<lambda>existing.
       case existing of
         Some _ \<Rightarrow> raise UserAlreadyExistsException
       | None \<Rightarrow>
           bindE (hash_password X password) (\<lambda>ph.
           bindE (user_create X e ph) (\<lambda>u.
           thenE (log_event X AUDIT_REGISTER_SUCCESS ''success'' (Some (u_id u)) (Some (u_id u)) ip ua
                    (Some [(''email'', JStr (email u))]))
             session_commit)))"

record login_step_result =
  requires_2fa :: bool
  challenge_id :: "string option"
  tokens :: "token_pair option"

definition login_identifier :: "string \<Rightarrow> string option \<Rightarrow> string" where
  "login_identifier e ip = e @ '':'' @ or_unknown ip"

text \<open>The branch of \<open>login\<close> for a wrong password or an unknown user.\<close>

definition login_failed ::
  "'r extern \<Rightarrow> auth_settings \<Rightarrow> string \<Rightarrow> user option \<Rightarrow> string option \<Rightarrow> string option \<Rightarrow>
   ('r, login_step_result) aprog" where
  "login_failed X cfg e found ip ua =
     thenE (record_failure X cfg ''login'' (login_identifier e ip))
    (bindE
       (case found of
          None \<Rightarrow> ret None
        | Some u \<Rightarrow>
            bindE (record_failure X cfg ''login_account'' e) (\<lambda>acct_attempts.
              if acct_attempts \<ge> brute_force_login_max_attempts cfg
              then bindE (mutate_user u (\<lambda>x. x\<lparr>login_blocked := True\<rparr>)) (\<lambda>u'. ret (Some u'))
              else ret (Some u)))
       (\<lambda>found'.
          thenE (log_event X AUDIT_LOGIN_FAILED ''failure'' (map_option u_id found) (map_option u_id found)
                   ip ua (Some [(''email'', JStr e)]))
         (thenE session_commit
            (case found' of
               Some u \<Rightarrow>
                 if login_blocked u
                 then raise (AccountLoginBlockedException (account_login_locked_message cfg))
                 else raise InvalidCredentialsException
             | None \<Rightarrow> raise InvalidCredentialsException))))"

text \<open>The branch of \<open>login\<close> after the password was right.\<close>

definition login_accepted ::
  "'r extern \<Rightarrow> auth_settings \<Rightarrow> string \<Rightarrow> user \<Rightarrow> string option \<Rightarrow> string option \<Rightarrow>
   ('r, login_step_result) aprog" where
  "login_accepted X cfg e u ip ua =
     (if \<not> is_active u then
        thenE (log_event X AUDIT_LOGIN_FAILED ''failure'' (Some (u_id u)) (Some (u_id u)) ip ua
                 (Some [(''email'', JStr e), (''reason'', JStr ''inactive_account'')]))
       (thenE session_commit (raise InvalidCredentialsException))
      else
        thenE (clear_failures X cfg ''login'' (login_identifier e ip))
       (thenE (clear_failures X cfg ''login_account'' e)
       (if two_factor_enabled u then
          bindE (create_login_challenge X cfg (u_id u) ip) (\<lambda>cid.
            ret \<lparr>requires_2fa = True, challenge_id = Some cid, tokens = None\<rparr>)
        else
          bindE (issue_for_user X cfg (u_id u) ip ua) (\<lambda>pair.
          thenE (log_event X AUDIT_LOGIN_SUCCESS ''success'' (Some (u_id u)) (Some (u_id u)) ip ua None)
         (thenE session_commit
            (ret \<lparr>requires_2fa = False, challenge_id = None, tokens = Some pair\<rparr>))))))"

definition login ::
  "'r extern \<Rightarrow> auth_settings \<Rightarrow> string \<Rightarrow> string \<Rightarrow> string option \<Rightarrow> string option \<Rightarrow>
   ('r, login_step_result) aprog" where
  "login X cfg e password ip ua =
     (let normalized_email = lower e in
      bindE (get_by_email normalized_email) (\<lambda>found.
        if (case found of None \<Rightarrow> False | Some u \<Rightarrow> login_blocked u) then
          raise (AccountLoginBlockedException (account_login_locked_message cfg))
        else
          thenE (assert_not_locked X cfg ''login'' (login_identifier normalized_email ip))
         (thenE (whenE (found \<noteq> None) (assert_not_locked X cfg ''login_account'' normalized_email))
         (bindE
            (case found of
               None \<Rightarrow> thenE (verify_against_dummy_hash X password) (ret False)
             | Some u \<Rightarrow> verify_password X password (password_hash u))
            (\<lambda>password_ok.
               if \<not> password_ok then login_failed X cfg normalized_email found ip ua
               else
                 (case found of
                    None \<Rightarrow> raise (RuntimeError ''Unexpected login state: password verified without a user'')
                  | Some u \<Rightarrow> login_accepted X cfg normalized_email u ip ua))))))"

section \<open>The second step of a login\<close>

text \<open>After the challenge's user was found: the second factor, then the tokens.\<close>

definition challenge_second_factor ::
  "'r extern \<Rightarrow> auth_settings \<Rightarrow> string \<Rightarrow> user \<Rightarrow> string option \<Rightarrow> string option \<Rightarrow> string option \<Rightarrow>
   string option \<Rightarrow> ('r, token_pair) aprog" where
  "challenge_second_factor X cfg cid u totp_code backup ip ua =
     (if \<not> is_active u then
        thenE (delete_login_challenge X cid)
       (thenE (log_event X AUDIT_LOGIN_FAILED ''failure'' (Some (u_id u)) (Some (u_id u)) ip ua
                 (Some [(''reason'', JStr ''inactive_account''), (''via'', JStr ''2fa_challenge'')]))
       (thenE session_commit (raise InvalidCredentialsException)))
      else
        thenE
          (tryE (verify_for_login X cfg u totp_code backup)
            (\<lambda>e. if e = InvalidTwoFactorCodeException then
                   thenE (record_failure X cfg ''2fa'' (login_identifier cid ip))
                  (thenE (log_event X AUDIT_LOGIN_FAILED ''failure'' (Some (u_id u)) (Some (u_id u)) ip ua
                            (Some [(''reason'', JStr ''invalid_2fa'')]))
                  (thenE session_commit (raise e)))
                 else raise e))
       (thenE (clear_failures X cfg ''2fa'' (login_identifier cid ip))
       (thenE (delete_login_challenge X cid)
       (bindE (issue_for_user X cfg (u_id u) ip ua) (\<lambda>pair.
        thenE (log_event X AUDIT_LOGIN_SUCCESS ''success'' (Some (u_id u)) (Some (u_id u)) ip ua
                 (Some [(''via'', JStr ''2fa_challenge'')]))
       (thenE session_commit (ret pair)))))))"

definition verify_login_challenge ::
  "'r extern \<Rightarrow> auth_settings \<Rightarrow> string \<Rightarrow> string option \<Rightarrow> string option \<Rightarrow> string option \<Rightarrow>
   string option \<Rightarrow> ('r, token_pair) aprog" where
  "verify_login_challenge X cfg cid totp_code backup ip ua =
     thenE (assert_not_locked X cfg ''2fa'' (login_identifier cid ip))
    (bindE (get_login_challenge X cid) (\<lambda>challenge.
       case challenge of
         None \<Rightarrow> raise InvalidChallengeException
       | Some (user_id_raw, expected_ip) \<Rightarrow>
           bindE (challenge_context_matches X cfg expected_ip ip) (\<lambda>matches.
             if \<not> matches then
               thenE (record_failure X cfg ''2fa'' (login_identifier cid ip))
              (thenE (delete_login_challenge X cid)
              (thenE (log_event X AUDIT_LOGIN_FAILED ''failure'' None None ip ua
                        (Some [(''reason'', JStr ''challenge_context_mismatch'')]))
              (thenE session_commit (raise InvalidChallengeException))))
             else if \<not> json_truthy user_id_raw then raise InvalidChallengeException
             else
               (case user_id_raw of
                  JStr txt \<Rightarrow>
                    (case parse_uuid txt of
                       None \<Rightarrow> raise InvalidChallengeException
                     | Some uid \<Rightarrow>
                         bindE (get_by_id uid) (\<lambda>found.
                           case found of
                             None \<Rightarrow> raise InvalidChallengeException
                           | Some u \<Rightarrow> challenge_second_factor X cfg cid u totp_code backup ip ua))
                | _ \<Rightarrow> raise AttributeError))))"

section \<open>Refresh and logout\<close>

definition service_refresh_tokens ::
  "'r extern \<Rightarrow> auth_settings \<Rightarrow> string \<Rightarrow> string option \<Rightarrow> string option \<Rightarrow> ('r, token_pair) aprog" where
  "service_refresh_tokens X cfg raw ip ua =
     bindE
       (tryE (rotate_refresh X cfg raw ip ua)
         (\<lambda>e. case e of
                TokenReuseDetectedException sid fam \<Rightarrow>
                  thenE (case sid of None \<Rightarrow> ret () | Some v \<Rightarrow> mark_access_session_revoked X cfg v)
                 (thenE (log_event X AUDIT_REFRESH_REUSE_DETECTED ''failure'' None None ip ua
                           (Some [(''reason'', JStr ''reused_refresh'')]))
                 (thenE session_commit (raise e)))
              | InvalidTokenException m \<Rightarrow>
                  thenE (log_event X AUDIT_REFRESH_REUSE_DETECTED ''failure'' None None ip ua
                           (Some [(''reason'', JStr ''invalid_or_reused_refresh'')]))
                 (thenE session_commit (raise e))
              | _ \<Rightarrow> raise e))
       (\<lambda>pair.
          thenE (log_event X AUDIT_REFRESH_SUCCESS ''success'' None None ip ua None)
         (thenE session_commit (ret pair)))"

definition revoke_refresh_token ::
  "'r extern \<Rightarrow> auth_settings \<Rightarrow> string \<Rightarrow> bool \<Rightarrow> string option \<Rightarrow> string option \<Rightarrow> ('r, unit) aprog" where
  "revoke_refresh_token X cfg raw whole_family ip ua =
     bindE (revoke X cfg raw whole_family ''logout'') (\<lambda>revocation.
     thenE (case revocation of None \<Rightarrow> ret () | Some (fam, sid) \<Rightarrow> mark_access_session_revoked X cfg sid)
    (thenE (log_event X AUDIT_REFRESH_REVOKED ''success'' None None ip ua
              (Some [(''family_id'', case revocation of None \<Rightarrow> JNull
                                     | Some (fam, sid) \<Rightarrow> JStr (str_uuid fam))]))
       session_commit))"

section \<open>Recording and committing\<close>

text \<open>
  Every handler ends by recording an event and committing. Either the recording raises and
  nothing is committed, or the session with the new event is.
\<close>

definition recorded :: "'r auth_node \<Rightarrow> 'r auth_node \<Rightarrow> bool" where
  "recorded s t \<longleftrightarrow>
     (\<exists>e. t = s\<lparr>draws := Suc (draws s), db := (db s)\<lparr>audit_events := audit_events (db s) @ [e]\<rparr>,
                committed := (db s)\<lparr>audit_events := audit_events (db s) @ [e]\<rparr>\<rparr> \<and>
         clean_items (payload e) \<and> ae_created_at e = clock s)"

lemma log_event_cases:
  obtains (raised) e where "log_event X ev oc ac tg ip ua pl s = (Inl e, s\<lparr>draws := Suc (draws s)\<rparr>)"
      "e = DataError \<or> e = IntegrityError"
  | (logged) e where "log_event X ev oc ac tg ip ua pl s = (Inr (), s\<lparr>draws := Suc (draws s),
        db := (db s)\<lparr>audit_events := audit_events (db s) @ [e]\<rparr>\<rparr>)"
      "clean_items (payload e)" "ae_created_at e = clock s"
proof (cases "fits 128 ev \<and> fits 16 oc \<and> client_fits ip ua")
  case wide: False
  then show thesis using raised [of DataError] by (simp add: log_event_def run_audit_create Let_def)
next
  case fits: True
  show thesis
  proof (cases "uuid4 X (draws s) \<in> ae_id ` set (audit_events (db s))")
    case True
    then show thesis using fits raised [of IntegrityError] by (simp add: log_event_def run_audit_create Let_def)
  next
    case False
    show thesis
      by (rule logged [of "\<lparr>ae_id = uuid4 X (draws s), event_type = ev, outcome = oc, actor_user_id = ac,
            target_user_id = tg, ae_ip_address = ip, ae_user_agent = ua,
            payload = sanitize_payload pl, ae_created_at = clock s\<rparr>"])
        (use fits False in \<open>simp_all add: log_event_def run_audit_create Let_def sanitize_payload_clean\<close>)
  qed
qed

lemma log_commit_run:
  assumes "thenE (log_event X ev oc ac tg ip ua pl) (thenE session_commit p) s = (r, t)"
  obtains (raised) e where "r = Inl e" "e = DataError \<or> e = IntegrityError" "t = s\<lparr>draws := Suc (draws s)\<rparr>"
  | (logged) s' where "recorded s s'" "p s' = (r, t)"
proof (rule log_event_cases [of X ev oc ac tg ip ua pl s])
  fix e assume "log_event X ev oc ac tg ip ua pl s = (Inl e, s\<lparr>draws := Suc (draws s)\<rparr>)"
    "e = DataError \<or> e = IntegrityError"
  then show thesis using raised assms by auto
next
  fix e assume run: "log_event X ev oc ac tg ip ua pl s = (Inr (), s\<lparr>draws := Suc (draws s),
        db := (db s)\<lparr>audit_events := audit_events (db s) @ [e]\<rparr>\<rparr>)"
      "clean_items (payload e)" "ae_created_at e = clock s"
  let ?d = "(db s)\<lparr>audit_events := audit_events (db s) @ [e]\<rparr>"
  have "recorded s (s\<lparr>draws := Suc (draws s), db := ?d, committed := ?d\<rparr>)"
    using run(2,3) unfolding recorded_def by blast
  moreover have "p (s\<lparr>draws := Suc (draws s), db := ?d, committed := ?d\<rparr>) = (r, t)"
    using assms run(1) by simp
  ultimately show thesis by (rule logged)
qed

lemma log_commit_ret:
  "thenE (log_event X ev oc ac tg ip ua pl) session_commit =
   thenE (log_event X ev oc ac tg ip ua pl) (thenE session_commit (ret ()))"
  by (simp add: thenE_def bindE_def session_commit_def modify_def ret_def)

lemma recordedD:
  assumes "recorded s t"
  shows "users (db t) = users (db s)" "refresh_tokens (db t) = refresh_tokens (db s)"
    "user_sessions (db t) = user_sessions (db s)" "two_factor_secrets (db t) = two_factor_secrets (db s)"
    "backup_codes (db t) = backup_codes (db s)" "password_reset_tokens (db t) = password_reset_tokens (db s)"
    "committed t = db t" "redis t = redis s" "clock t = clock s"
  using assms by (auto simp: recorded_def)

end
