(* ===== verification/Session_Properties.thy ===== *)
theory Session_Properties
  imports Auth_Service
begin

text \<open>
  What refreshing and logging out do to the committed tables and to the cache: a rotation replaces
  exactly one token, a replayed token kills its family and its access sessions, a logout does the
  same on purpose, and a token the service issued is good for the next rotation.
\<close>

section \<open>Refresh\<close>

lemma service_refresh_Inr:
  assumes "service_refresh_tokens X cfg raw ip ua s = (Inr p, t)"
  obtains s1 where "rotate_refresh X cfg raw ip ua s = (Inr p, s1)" "recorded s1 t"
proof -
  obtain r1 s1 where rot: "rotate_refresh X cfg raw ip ua s = (r1, s1)" by fastforce
  show thesis
  proof (cases r1)
    case (Inl e)
    then show thesis
      using assms rot
      by (cases e) (auto simp: service_refresh_tokens_def elim!: thenE_InrE bindE_InrE)
  next
    case (Inr p1)
    then have "thenE (log_event X AUDIT_REFRESH_SUCCESS ''success'' None None ip ua None)
         (thenE session_commit (ret p1)) s1 = (Inr p, t)"
      using assms rot by (simp add: service_refresh_tokens_def)
    then show thesis
      by (rule log_commit_run) (use Inr rot that in auto)
  qed
qed

text \<open>
  C3: a refresh that succeeds rotates. The text presented is a genuine, unexpired and
  never used refresh token of a session that is not revoked; exactly that token is marked as rotated and
  revoked and names its successor; the successor is new, belongs to the same user and family, is
  usable and is the one whose digest is stored for the returned text; every other token and every
  session's revocation state is unchanged; all this is committed, and the cache is untouched.
\<close>

theorem refresh_rotates:
  assumes "service_refresh_tokens X cfg raw ip ua s = (Inr p, t)"
  shows "\<exists>tok sid. presents X cfg raw s tok sid \<and> family_live (db s) (family_id tok) \<and>
    clock s \<le> expires_at tok \<and> \<not> consumed tok \<and>
    (let new = successor X cfg tok sid ip ua s in
       refresh_tokens (committed t) =
         map (\<lambda>x. if jti x = jti tok then mark_row (clock s) (jti new) x else x) (refresh_tokens (db s)) @ [new] \<and>
       jti new \<notin> jti ` set (refresh_tokens (db s)) \<and> \<not> consumed new \<and>
       token_hash new = hash_refresh_token X cfg (tp_refresh_token p) \<and>
       family_id new = family_id tok \<and> rt_user_id new = rt_user_id tok) \<and>
    map us_revoked_at (user_sessions (committed t)) = map us_revoked_at (user_sessions (db s)) \<and>
    users (committed t) = users (db s) \<and> redis t = redis s \<and> tp_session_id p = sid"
proof -
  obtain s1 where rot: "rotate_refresh X cfg raw ip ua s = (Inr p, s1)" and rec: "recorded s1 t"
    using assms by (rule service_refresh_Inr)
  obtain tok sid where pr: "presents X cfg raw s tok sid" "family_live (db s) (family_id tok)"
      "clock s \<le> expires_at tok" "\<not> consumed tok"
    and fr: "fresh_ids X (db s) (uuid4 X (draws s)) (uuid4 X (Suc (draws s)))"
    and p: "p = rotated_pair X cfg tok sid s"
    and s1: "s1 = s\<lparr>draws := draws s + 3,
           db := rotated_db (clock s) tok (successor X cfg tok sid ip ua s) (db s)\<rparr>"
    using rot by (rule rotate_Inr)
  note r = recordedD [OF rec]
  let ?new = "successor X cfg tok sid ip ua s"
  have "refresh_tokens (committed t) =
      map (\<lambda>x. if jti x = jti tok then mark_row (clock s) (jti ?new) x else x) (refresh_tokens (db s)) @ [?new]"
    using r by (simp add: s1 rotated_db_def update_where_def)
  moreover have "map us_revoked_at (user_sessions (committed t)) = map us_revoked_at (user_sessions (db s))"
    using r by (simp add: s1 rotated_db_def map_update_where_same)
  moreover have "users (committed t) = users (db s)" "redis t = redis s"
    using r by (simp_all add: s1 rotated_db_def)
  ultimately show ?thesis
    using pr fr p
    by (intro exI [of _ tok] exI [of _ sid])
      (simp add: Let_def successor_def rotated_pair_def fresh_ids_def consumed_def)
qed

section \<open>Reuse and logout\<close>

text \<open>No token and no session of the family can be used any more.\<close>

definition family_dead :: "auth_db \<Rightarrow> uuid \<Rightarrow> bool" where
  "family_dead d fam \<longleftrightarrow>
     (\<forall>x \<in> set (refresh_tokens d). family_id x = fam \<longrightarrow> revoked_at x \<noteq> None) \<and> \<not> family_live d fam"

lemma kill_family_dead: "family_dead (kill_family now reason fam d) fam"
  by (simp add: family_dead_def family_live_def kill_family_def ball_update_where bex_update_where)

lemma kill_family_others:
  "filter (\<lambda>x. family_id x \<noteq> fam) (refresh_tokens (kill_family now reason fam d)) =
     filter (\<lambda>x. family_id x \<noteq> fam) (refresh_tokens d)"
  "filter (\<lambda>v. refresh_family_id v \<noteq> fam) (user_sessions (kill_family now reason fam d)) =
     filter (\<lambda>v. refresh_family_id v \<noteq> fam) (user_sessions d)"
  by (auto simp: kill_family_def intro!: filter_update_where_out)

text \<open>The access session is marked revoked in the cache until the given time.\<close>

definition access_revoked_until ::
  "('r \<Rightarrow> int \<Rightarrow> string \<Rightarrow> entry option) \<Rightarrow> 'r \<Rightarrow> int \<Rightarrow> uuid \<Rightarrow> int \<Rightarrow> bool" where
  "access_revoked_until look r now sid x \<longleftrightarrow>
     look r now (access_session_revoked_key (str_uuid sid)) = Some (''1'', Some x)"

lemma access_revoked_untilD:
  assumes "redis_live ops look" "access_revoked_until look r now sid x" "now \<le> later" "later < x"
  shows "look r later (access_session_revoked_key (str_uuid sid)) \<noteq> None"
  using assms(2-) redis_store.look_persists [OF redis_live.axioms(1) [OF assms(1)]]
  unfolding access_revoked_until_def by (metis option.distinct(1))

lemma access_revoked_ttl_pos [simp]: "0 < access_revoked_ttl cfg"
  by (simp add: access_revoked_ttl_def)

lemma mark_access_session_revoked_ok:
  assumes "redis_live (redis_cmds X) look"
  shows "\<exists>r. mark_access_session_revoked X cfg sid s = (Inr (), s\<lparr>redis := r\<rparr>) \<and>
           access_revoked_until look r (clock s) sid (clock s + access_revoked_ttl cfg)"
proof -
  let ?k = "access_session_revoked_key (str_uuid sid)"
  obtain r where r: "r_set_ex (redis_cmds X) (clock s) ?k ''1'' (access_revoked_ttl cfg) (redis s) = Some r"
    using redis_live.set_ok [OF assms access_revoked_ttl_pos] by (metis not_Some_eq)
  note redis_store.set_law [OF redis_live.axioms(1) [OF assms] r]
  then show ?thesis
    using r by (auto simp: mark_access_session_revoked_def run_redis_write access_revoked_until_def)
qed

lemma log_event_ok:
  assumes "fits 128 ev" "fits 16 oc" "client_fits ip ua" "uuid4 X (draws s) \<notin> ae_id ` set (audit_events (db s))"
  shows "\<exists>e. log_event X ev oc ac tg ip ua pl s = (Inr (), s\<lparr>draws := Suc (draws s),
        db := (db s)\<lparr>audit_events := audit_events (db s) @ [e]\<rparr>\<rparr>) \<and> ae_id e = uuid4 X (draws s)"
  by (intro exI [of _ "\<lparr>ae_id = uuid4 X (draws s), event_type = ev, outcome = oc, actor_user_id = ac,
        target_user_id = tg, ae_ip_address = ip, ae_user_agent = ua,
        payload = sanitize_payload pl, ae_created_at = clock s\<rparr>"])
    (simp add: log_event_def run_audit_create Let_def assms)

lemma event_names_fit [simp]:
  "fits 128 AUDIT_REFRESH_REUSE_DETECTED" "fits 128 AUDIT_REFRESH_REVOKED" "fits 128 AUDIT_REFRESH_SUCCESS"
  "fits 16 ''failure''" "fits 16 ''success''"
  by (simp_all add: fits_def audit_constants)

lemma refresh_reuse_run:
  assumes live: "redis_live (redis_cmds X) look"
    and pr: "presents X cfg raw s tok sid" "family_live (db s) (family_id tok)"
      "clock s \<le> expires_at tok" "consumed tok"
    and ok: "client_fits ip ua" "uuid4 X (draws s) \<notin> ae_id ` set (audit_events (db s))"
  obtains t r e where "service_refresh_tokens X cfg raw ip ua s =
      (Inl (TokenReuseDetectedException (Some sid) (Some (family_id tok))), t)"
    "access_revoked_until look r (clock s) sid (clock s + access_revoked_ttl cfg)" "redis t = r"
    "db t = (kill_family (clock s) ''reuse_detected'' (family_id tok) (db s))
        \<lparr>audit_events := audit_events (db s) @ [e]\<rparr>" "committed t = db t"
    "ae_id e = uuid4 X (draws s)" "draws t = Suc (draws s)"
proof -
  let ?d = "kill_family (clock s) ''reuse_detected'' (family_id tok) (db s)"
  let ?s1 = "s\<lparr>db := ?d\<rparr>"
  obtain r where mark: "mark_access_session_revoked X cfg sid ?s1 = (Inr (), ?s1\<lparr>redis := r\<rparr>)"
    and until: "access_revoked_until look r (clock s) sid (clock s + access_revoked_ttl cfg)"
    using mark_access_session_revoked_ok [OF live, of cfg sid ?s1] by auto
  have [simp]: "audit_events ?d = audit_events (db s)" by (simp add: kill_family_def)
  obtain e where log: "log_event X AUDIT_REFRESH_REUSE_DETECTED ''failure'' None None ip ua
       (Some [(''reason'', JStr ''reused_refresh'')]) (?s1\<lparr>redis := r\<rparr>) =
     (Inr (), s\<lparr>draws := Suc (draws s), redis := r, db := ?d\<lparr>audit_events := audit_events (db s) @ [e]\<rparr>\<rparr>)"
    and e: "ae_id e = uuid4 X (draws s)"
    using log_event_ok [of AUDIT_REFRESH_REUSE_DETECTED "''failure''" ip ua X "?s1\<lparr>redis := r\<rparr>"
        None None "Some [(''reason'', JStr ''reused_refresh'')]"] ok by auto
  show thesis
    by (rule that [OF _ until, of "s\<lparr>draws := Suc (draws s), redis := r,
            db := ?d\<lparr>audit_events := audit_events (db s) @ [e]\<rparr>,
            committed := ?d\<lparr>audit_events := audit_events (db s) @ [e]\<rparr>\<rparr>" e])
      (use pr mark log e in \<open>simp_all add: service_refresh_tokens_def rotate_presented [OF pr(1)]\<close>)
qed

text \<open>
  C2: replaying a used token is detected and contained. A genuine token of a live session
  that was already rotated or revoked is answered with \<open>TokenReuseDetectedException\<close>, and by then it is
  committed that no token of the family is usable and no session of it is active, and the
  cache refuses the access session for at least the lifetime of an access token issued now.
  Families other than the token's are unchanged.
\<close>

theorem reuse_is_contained:
  assumes "redis_live (redis_cmds X) look"
    and "presents X cfg raw s tok sid" "family_live (db s) (family_id tok)"
    and "clock s \<le> expires_at tok" "consumed tok"
    and "client_fits ip ua" "uuid4 X (draws s) \<notin> ae_id ` set (audit_events (db s))"
  shows "\<exists>t. service_refresh_tokens X cfg raw ip ua s =
      (Inl (TokenReuseDetectedException (Some sid) (Some (family_id tok))), t) \<and>
    family_dead (committed t) (family_id tok) \<and>
    (\<forall>now. clock s \<le> now \<and> now < clock s + jwt_access_ttl_seconds cfg \<longrightarrow>
       look (redis t) now (access_session_revoked_key (str_uuid sid)) \<noteq> None) \<and>
    filter (\<lambda>x. family_id x \<noteq> family_id tok) (refresh_tokens (committed t)) =
      filter (\<lambda>x. family_id x \<noteq> family_id tok) (refresh_tokens (db s)) \<and>
    filter (\<lambda>v. refresh_family_id v \<noteq> family_id tok) (user_sessions (committed t)) =
      filter (\<lambda>v. refresh_family_id v \<noteq> family_id tok) (user_sessions (db s))"
proof -
  obtain t r e where run: "service_refresh_tokens X cfg raw ip ua s =
      (Inl (TokenReuseDetectedException (Some sid) (Some (family_id tok))), t)"
    and until: "access_revoked_until look r (clock s) sid (clock s + access_revoked_ttl cfg)" "redis t = r"
    and d: "db t = (kill_family (clock s) ''reuse_detected'' (family_id tok) (db s))
        \<lparr>audit_events := audit_events (db s) @ [e]\<rparr>" "committed t = db t"
    by (rule refresh_reuse_run [OF assms])
  have "look (redis t) now (access_session_revoked_key (str_uuid sid)) \<noteq> None"
    if "clock s \<le> now" "now < clock s + jwt_access_ttl_seconds cfg" for now
    using access_revoked_untilD [OF assms(1) until(1) that(1)] that(2) until(2)
    by (simp add: access_revoked_ttl_def)
  moreover have "family_dead (committed t) (family_id tok)"
    using kill_family_dead [of "clock s" "''reuse_detected''" "family_id tok" "db s"]
    by (simp add: d family_dead_def family_live_def)
  ultimately show ?thesis
    using run by (intro exI [of _ t]) (simp add: d kill_family_others)
qed
section \<open>The life of a refresh token\<close>

text \<open>The text the service hands out for a row, issued at time \<open>tb\<close>.\<close>

definition text_of :: "'r extern \<Rightarrow> auth_settings \<Rightarrow> int \<Rightarrow> uuid \<Rightarrow> refresh_token \<Rightarrow> string" where
  "text_of X cfg tb sid tok =
     jwt_encode X (refresh_payload cfg tb (rt_user_id tok) sid (family_id tok) (jti tok))
       (signing_key cfg) (jwt_algorithm cfg)"

lemma presents_text_of:
  assumes "jwt_ready X cfg paired" "tb \<le> clock s" "clock s < tb + jwt_refresh_ttl_seconds cfg"
    and "distinct (map jti (refresh_tokens (db s)))" "tok \<in> set (refresh_tokens (db s))"
    and "token_hash tok = hash_refresh_token X cfg (text_of X cfg tb sid tok)"
  shows "presents X cfg (text_of X cfg tb sid tok) s tok sid"
  using assms refresh_claims_issued [OF assms(1-3)] filter_key_distinct [OF assms(4,5)]
  by (simp add: presents_def text_of_def)

lemma text_of_successor:
  "tp_refresh_token (rotated_pair X cfg tok sid s) = text_of X cfg (clock s) sid (successor X cfg tok sid ip ua s)"
  "token_hash (successor X cfg tok sid ip ua s) =
     hash_refresh_token X cfg (text_of X cfg (clock s) sid (successor X cfg tok sid ip ua s))"
  by (simp_all add: rotated_pair_def text_of_def successor_def)

lemma refresh_success_run:
  assumes pr: "presents X cfg raw s tok sid" "family_live (db s) (family_id tok)"
      "clock s \<le> expires_at tok" "\<not> consumed tok"
    and ok: "client_fits ip ua" "fresh_ids X (db s) (uuid4 X (draws s)) (uuid4 X (Suc (draws s)))"
      "uuid4 X (draws s + 3) \<notin> ae_id ` set (audit_events (db s))"
  obtains e where "ae_id e = uuid4 X (draws s + 3)" "service_refresh_tokens X cfg raw ip ua s =
      (Inr (rotated_pair X cfg tok sid s),
       s\<lparr>draws := draws s + 4,
         db := (rotated_db (clock s) tok (successor X cfg tok sid ip ua s) (db s))
           \<lparr>audit_events := audit_events (db s) @ [e]\<rparr>,
         committed := (rotated_db (clock s) tok (successor X cfg tok sid ip ua s) (db s))
           \<lparr>audit_events := audit_events (db s) @ [e]\<rparr>\<rparr>)"
proof -
  let ?d = "rotated_db (clock s) tok (successor X cfg tok sid ip ua s) (db s)"
  let ?s1 = "s\<lparr>draws := draws s + 3, db := ?d\<rparr>"
  have rot: "rotate_refresh X cfg raw ip ua s = (Inr (rotated_pair X cfg tok sid s), ?s1)"
    using pr rotate_presented [OF pr(1), of ip ua] rotate_fresh_run [OF ok(1,2), of cfg tok sid] by simp
  have a: "audit_events ?d = audit_events (db s)" by (simp add: rotated_db_def)
  obtain e where "log_event X AUDIT_REFRESH_SUCCESS ''success'' None None ip ua None ?s1 =
     (Inr (), ?s1\<lparr>draws := Suc (draws s + 3), db := ?d\<lparr>audit_events := audit_events (db s) @ [e]\<rparr>\<rparr>)"
    and e: "ae_id e = uuid4 X (draws s + 3)"
    using log_event_ok [of AUDIT_REFRESH_SUCCESS "''success''" ip ua X ?s1 None None None] ok a by auto
  then show thesis
    using that [OF e] rot by (simp add: service_refresh_tokens_def add.commute)
qed

text \<open>The next \<open>k\<close> draws from \<open>n\<close> on give identifiers that are new to the tables and to each other.\<close>

definition ids_unused :: "'r extern \<Rightarrow> auth_db \<Rightarrow> nat \<Rightarrow> nat \<Rightarrow> bool" where
  "ids_unused X d n k \<longleftrightarrow>
     inj_on (uuid4 X) {n..<n + k} \<and>
     (\<forall>i \<in> {n..<n + k}. uuid4 X i \<notin> jti ` set (refresh_tokens d) \<and> uuid4 X i \<notin> rt_id ` set (refresh_tokens d) \<and>
        uuid4 X i \<notin> us_id ` set (user_sessions d) \<and> uuid4 X i \<notin> ae_id ` set (audit_events d))"

lemma ids_unusedD:
  assumes "ids_unused X d n k" "i < k"
  shows "uuid4 X (n + i) \<notin> jti ` set (refresh_tokens d)" "uuid4 X (n + i) \<notin> rt_id ` set (refresh_tokens d)"
    "uuid4 X (n + i) \<notin> us_id ` set (user_sessions d)" "uuid4 X (n + i) \<notin> ae_id ` set (audit_events d)"
    "\<And>j. j < k \<Longrightarrow> uuid4 X (n + i) = uuid4 X (n + j) \<longleftrightarrow> i = j"
  using assms inj_on_eq_iff [of "uuid4 X" "{n..<n + k}" "n + i"] by (simp_all add: ids_unused_def)

text \<open>Issuing, then a first refresh.\<close>

lemma issue_then_refresh:
  assumes J: "jwt_ready X cfg paired" and c: "client_fits ip ua"
    and d: "distinct (map jti (refresh_tokens (db s)))" and u: "ids_unused X (db s) (draws s) 11"
    and t: "clock s \<le> now" "now < clock s + jwt_refresh_ttl_seconds cfg"
  obtains s1 e where "ae_id e = uuid4 X (draws s + 8)"
    "issue_for_user X cfg uid ip ua s = (Inr (issued_pair X cfg uid s), s1)"
    "s1 = s\<lparr>draws := draws s + 5,
        db := (db s)\<lparr>user_sessions := user_sessions (db s) @ [issued_session X uid ip ua s],
                     refresh_tokens := refresh_tokens (db s) @ [issued_token X cfg uid ip ua s]\<rparr>\<rparr>"
    "service_refresh_tokens X cfg (issued_text X cfg uid s) ip ua (s1\<lparr>clock := now\<rparr>) =
      (Inr (rotated_pair X cfg (issued_token X cfg uid ip ua s) (uuid4 X (draws s + 1)) (s1\<lparr>clock := now\<rparr>)),
       s1\<lparr>clock := now, draws := draws s + 9,
         db := (rotated_db now (issued_token X cfg uid ip ua s)
            (successor X cfg (issued_token X cfg uid ip ua s) (uuid4 X (draws s + 1)) ip ua (s1\<lparr>clock := now\<rparr>)) (db s1))
           \<lparr>audit_events := audit_events (db s) @ [e]\<rparr>,
         committed := (rotated_db now (issued_token X cfg uid ip ua s)
            (successor X cfg (issued_token X cfg uid ip ua s) (uuid4 X (draws s + 1)) ip ua (s1\<lparr>clock := now\<rparr>)) (db s1))
           \<lparr>audit_events := audit_events (db s) @ [e]\<rparr>\<rparr>)"
proof -
  let ?tok = "issued_token X cfg uid ip ua s" and ?sid = "uuid4 X (draws s + 1)"
  let ?s1 = "s\<lparr>draws := draws s + 5,
        db := (db s)\<lparr>user_sessions := user_sessions (db s) @ [issued_session X uid ip ua s],
                     refresh_tokens := refresh_tokens (db s) @ [?tok]\<rparr>\<rparr>"
  let ?s = "?s1\<lparr>clock := now\<rparr>"
  note f = ids_unusedD [OF u]
  have iss: "issue_for_user X cfg uid ip ua s = (Inr (issued_pair X cfg uid s), ?s1)"
    using c f(1) [of 2] f(2) [of 3] f(3) [of 1]
    by (intro issue_for_user_run) (simp add: issue_ok_def fresh_ids_def)
  have "issued_text X cfg uid s = text_of X cfg (clock s) ?sid ?tok"
    by (simp add: issued_text_def text_of_def issued_token_def)
  moreover have "jti ?tok \<notin> jti ` set (refresh_tokens (db s))"
    using f(1) [of 2] by (simp add: issued_token_def)
  ultimately have pr: "presents X cfg (issued_text X cfg uid s) ?s ?tok ?sid"
    using presents_text_of [OF J, of "clock s" ?s ?tok ?sid] t d by (simp add: issued_token_def)
  have live: "family_live (db ?s) (family_id ?tok)"
    by (auto simp: family_live_def issued_session_def issued_token_def)
  have fresh: "fresh_ids X (db ?s) (uuid4 X (draws ?s)) (uuid4 X (Suc (draws ?s)))"
    using f(1) [of 5] f(2) [of 6] f(5) [of 5 2] f(5) [of 6 3]
    by (simp add: fresh_ids_def issued_token_def eval_nat_numeral)
  have aud: "uuid4 X (draws ?s + 3) \<notin> ae_id ` set (audit_events (db ?s))"
    using f(4) [of 8] by (simp add: add.commute)
  have ok: "clock ?s \<le> expires_at ?tok" "\<not> consumed ?tok"
    using t by (simp_all add: issued_token_def consumed_def)
  show thesis
    by (rule refresh_success_run [OF pr live ok c fresh aud], rule that [OF _ iss refl])
      (simp_all add: add.commute)
qed

text \<open>After that refresh: the first token presented again, and its successor.\<close>

lemma presents_after_rotation:
  assumes J: "jwt_ready X cfg paired"
    and t: "tb \<le> clock s" "clock s < tb + jwt_refresh_ttl_seconds cfg"
    and d: "distinct (map jti rows)" "tok \<in> set rows" "jti new \<notin> jti ` set rows"
    and h: "token_hash tok = hash_refresh_token X cfg (text_of X cfg tb sid tok)"
    and rows: "refresh_tokens (db s) = update_where (\<lambda>x. jti x = jti tok) (mark_row now (jti new)) rows @ [new]"
  shows "presents X cfg (text_of X cfg tb sid tok) s (mark_row now (jti new) tok) sid"
proof -
  have "text_of X cfg tb sid (mark_row now (jti new) tok) = text_of X cfg tb sid tok"
    by (simp add: text_of_def)
  moreover have "distinct (map jti (refresh_tokens (db s)))"
    using d by (simp add: rows map_update_where_same image_update_where_same)
  moreover have "mark_row now (jti new) tok \<in> set (refresh_tokens (db s))"
    using d(2) by (auto simp: rows set_update_where)
  moreover have "token_hash (mark_row now (jti new) tok) = token_hash tok" by (simp add: mark_row_def)
  ultimately show ?thesis
    using presents_text_of [OF J t, of "mark_row now (jti new) tok" sid] h by simp
qed

lemma family_live_rotated: "family_live (rotated_db now tok new d) fam \<longleftrightarrow> family_live d fam"
  unfolding family_live_def rotated_db_def
  by (simp add: bex_update_where) (metis not_None_eq)

lemma refresh_dead_run:
  assumes "presents X cfg raw s tok sid" "\<not> family_live (db s) (family_id tok)"
    and "client_fits ip ua" "uuid4 X (draws s) \<notin> ae_id ` set (audit_events (db s))"
  shows "\<exists>t. service_refresh_tokens X cfg raw ip ua s = (Inl (InvalidTokenException ''Session is revoked''), t)"
proof -
  obtain e where "log_event X AUDIT_REFRESH_REUSE_DETECTED ''failure'' None None ip ua
       (Some [(''reason'', JStr ''invalid_or_reused_refresh'')]) s =
     (Inr (), s\<lparr>draws := Suc (draws s), db := (db s)\<lparr>audit_events := audit_events (db s) @ [e]\<rparr>\<rparr>)"
    using log_event_ok [OF event_names_fit(1) event_names_fit(4) assms(3,4), of None None
        "Some [(''reason'', JStr ''invalid_or_reused_refresh'')]"] by blast
  then show ?thesis
    using rotate_presented [OF assms(1), of ip ua] assms(2) by (simp add: service_refresh_tokens_def)
qed

text \<open>The state after a first refresh, and the replay that follows it.\<close>

lemma replay_after_refresh:
  assumes J: "jwt_ready X cfg paired" and R: "redis_live (redis_cmds X) look" and c: "client_fits ip ua"
    and pr: "distinct (map jti (refresh_tokens d))" "tok \<in> set (refresh_tokens d)"
      "jti new \<notin> jti ` set (refresh_tokens d)" "family_live d (family_id tok)"
      "token_hash tok = hash_refresh_token X cfg (text_of X cfg tb sid tok)"
    and s: "db s = (rotated_db now tok new d)\<lparr>audit_events := evs\<rparr>" "uuid4 X (draws s) \<notin> ae_id ` set evs"
    and t: "tb \<le> clock s" "clock s < tb + jwt_refresh_ttl_seconds cfg" "clock s \<le> expires_at tok"
  obtains t where "service_refresh_tokens X cfg (text_of X cfg tb sid tok) ip ua s =
      (Inl (TokenReuseDetectedException (Some sid) (Some (family_id tok))), t)"
    "family_dead (db t) (family_id tok)" "committed t = db t"
proof -
  let ?tok = "mark_row now (jti new) tok"
  have pr2: "presents X cfg (text_of X cfg tb sid tok) s ?tok sid"
    by (rule presents_after_rotation [OF J t(1,2) pr(1-3) pr(5)]) (simp add: s rotated_db_def)
  have live: "family_live (db s) (family_id ?tok)"
    using pr(4) family_live_rotated [of now tok new d] by (simp add: s family_live_def)
  show thesis
  proof (rule refresh_reuse_run [OF R pr2 live, of ip ua])
    fix u r e assume u: "service_refresh_tokens X cfg (text_of X cfg tb sid tok) ip ua s =
        (Inl (TokenReuseDetectedException (Some sid) (Some (family_id ?tok))), u)"
      and d: "db u = (kill_family (clock s) ''reuse_detected'' (family_id ?tok) (db s))
          \<lparr>audit_events := audit_events (db s) @ [e]\<rparr>" "committed u = db u"
    have "family_dead (db u) (family_id tok)"
      using kill_family_dead [of "clock s" "''reuse_detected''" "family_id tok" "db s"]
      by (simp add: d family_dead_def family_live_def)
    with u d show thesis using that by simp
  qed (use c t s in \<open>simp_all add: consumed_def mark_row_def\<close>)
qed

lemma refresh_life:
  assumes J: "jwt_ready X cfg paired" and R: "redis_live (redis_cmds X) look" and c: "client_fits ip ua"
    and d: "distinct (map jti (refresh_tokens (db s)))" and u: "ids_unused X (db s) (draws s) 11"
    and t: "clock s \<le> now1" "now1 \<le> now2" "now2 < clock s + jwt_refresh_ttl_seconds cfg"
  obtains p1 s1 p2 s2 s3 where
    "issue_for_user X cfg uid ip ua s = (Inr p1, s1)"
    "service_refresh_tokens X cfg (tp_refresh_token p1) ip ua (s1\<lparr>clock := now1\<rparr>) = (Inr p2, s2)"
    "tp_family_id p2 = tp_family_id p1" "tp_session_id p2 = tp_session_id p1"
    "service_refresh_tokens X cfg (tp_refresh_token p1) ip ua (s2\<lparr>clock := now2\<rparr>) =
       (Inl (TokenReuseDetectedException (Some (tp_session_id p1)) (Some (tp_family_id p1))), s3)"
    "family_dead (committed s3) (tp_family_id p1)"
proof -
  let ?tok = "issued_token X cfg uid ip ua s" and ?sid = "uuid4 X (draws s + 1)"
  show thesis
  proof (rule issue_then_refresh [OF J c d u t(1), of uid])
    show "now1 < clock s + jwt_refresh_ttl_seconds cfg" using t by simp
  next
    fix s1 and e :: audit_event assume e: "ae_id e = uuid4 X (draws s + 8)"
      and iss: "issue_for_user X cfg uid ip ua s = (Inr (issued_pair X cfg uid s), s1)"
      and s1: "s1 = s\<lparr>draws := draws s + 5,
        db := (db s)\<lparr>user_sessions := user_sessions (db s) @ [issued_session X uid ip ua s],
                     refresh_tokens := refresh_tokens (db s) @ [?tok]\<rparr>\<rparr>"
    define new where "new = successor X cfg ?tok ?sid ip ua (s1\<lparr>clock := now1\<rparr>)"
    define d2 where "d2 = (rotated_db now1 ?tok new (db s1))\<lparr>audit_events := audit_events (db s) @ [e]\<rparr>"
    define s2 where "s2 = s1\<lparr>clock := now1, draws := draws s + 9, db := d2, committed := d2\<rparr>"
    assume ref: "service_refresh_tokens X cfg (issued_text X cfg uid s) ip ua (s1\<lparr>clock := now1\<rparr>) =
      (Inr (rotated_pair X cfg ?tok ?sid (s1\<lparr>clock := now1\<rparr>)),
       s1\<lparr>clock := now1, draws := draws s + 9,
         db := (rotated_db now1 ?tok (successor X cfg ?tok ?sid ip ua (s1\<lparr>clock := now1\<rparr>)) (db s1))
           \<lparr>audit_events := audit_events (db s) @ [e]\<rparr>,
         committed := (rotated_db now1 ?tok (successor X cfg ?tok ?sid ip ua (s1\<lparr>clock := now1\<rparr>)) (db s1))
           \<lparr>audit_events := audit_events (db s) @ [e]\<rparr>\<rparr>)"
    have ref2: "service_refresh_tokens X cfg (issued_text X cfg uid s) ip ua (s1\<lparr>clock := now1\<rparr>) =
        (Inr (rotated_pair X cfg ?tok ?sid (s1\<lparr>clock := now1\<rparr>)), s2)"
      unfolding s2_def d2_def new_def by (rule ref)
    have p1: "tp_refresh_token (issued_pair X cfg uid s) = issued_text X cfg uid s"
        "tp_family_id (issued_pair X cfg uid s) = family_id ?tok" "tp_session_id (issued_pair X cfg uid s) = ?sid"
      by (simp_all add: issued_pair_def issued_token_def)
    have p2: "tp_family_id (rotated_pair X cfg ?tok ?sid s') = family_id ?tok"
        "tp_session_id (rotated_pair X cfg ?tok ?sid s') = ?sid" for s'
      by (simp_all add: rotated_pair_def)
    note f = ids_unusedD [OF u]
    have tx: "issued_text X cfg uid s = text_of X cfg (clock s) ?sid ?tok"
      by (simp add: issued_text_def text_of_def issued_token_def)
    have jtis: "distinct (map jti (refresh_tokens (db s1)))" "?tok \<in> set (refresh_tokens (db s1))"
        "jti new \<notin> jti ` set (refresh_tokens (db s1))"
      using d f(1) [of 2] f(1) [of 5] f(5) [of 5 2] by (auto simp: s1 issued_token_def new_def successor_def)
    have live: "family_live (db s1) (family_id ?tok)"
      by (simp add: family_live_def s1 issued_token_def issued_session_def)
    show thesis
    proof (rule replay_after_refresh [OF J R c jtis live, where tb = "clock s" and sid = ?sid and now = now1
          and s = "s2\<lparr>clock := now2\<rparr>" and evs = "audit_events (db s) @ [e]"])
      fix s3
      assume "service_refresh_tokens X cfg (text_of X cfg (clock s) ?sid ?tok) ip ua (s2\<lparr>clock := now2\<rparr>) =
          (Inl (TokenReuseDetectedException (Some ?sid) (Some (family_id ?tok))), s3)"
        "family_dead (db s3) (family_id ?tok)" "committed s3 = db s3"
      then show thesis
        using ref2 by (intro that [OF iss, of "rotated_pair X cfg ?tok ?sid (s1\<lparr>clock := now1\<rparr>)" s2 s3])
          (simp_all only: p1 p2 tx)
    qed (use t e f(4) [of 9] f(5) [of 9 8] tx in \<open>simp_all add: s2_def d2_def issued_token_def\<close>)
  qed
qed

text \<open>
  C1: the life of a refresh token. A token pair the service issues can be refreshed during its
  lifetime, which yields a pair of the same session and family; presenting the first refresh token
  again is answered as reuse, and then the whole family is dead: no token of it is usable, the
  successor included, and no session of it is active.
\<close>

theorem refresh_token_life:
  assumes "jwt_ready X cfg paired" "redis_live (redis_cmds X) look" "client_fits ip ua"
    and "distinct (map jti (refresh_tokens (db s)))" "ids_unused X (db s) (draws s) 11"
    and "clock s \<le> now1" "now1 \<le> now2" "now2 < clock s + jwt_refresh_ttl_seconds cfg"
  shows "\<exists>p1 s1 p2 s2 s3. issue_for_user X cfg uid ip ua s = (Inr p1, s1) \<and>
    service_refresh_tokens X cfg (tp_refresh_token p1) ip ua (s1\<lparr>clock := now1\<rparr>) = (Inr p2, s2) \<and>
    tp_family_id p2 = tp_family_id p1 \<and> tp_session_id p2 = tp_session_id p1 \<and>
    service_refresh_tokens X cfg (tp_refresh_token p1) ip ua (s2\<lparr>clock := now2\<rparr>) =
       (Inl (TokenReuseDetectedException (Some (tp_session_id p1)) (Some (tp_family_id p1))), s3) \<and>
    family_dead (committed s3) (tp_family_id p1)"
  by (rule refresh_life [OF assms, of uid]) blast

lemma ref_ids_unused: "ids_unused ref_extern empty_auth_db 1 11"
  using ref_uuid_inj [of 12 1] by (simp add: ids_unused_def)

lemma ref_live: "redis_live (redis_cmds ref_extern) ks_look"
  using ks.redis_live_axioms by simp

lemmas ref_life = refresh_life [OF ref_jwt_ready ref_live, of None None ref_node]

theorem refresh_token_life_witness:
  "\<exists>p1 s1 p2 s2. issue_for_user ref_extern ref_cfg 7 None None ref_node = (Inr p1, s1) \<and>
    service_refresh_tokens ref_extern ref_cfg (tp_refresh_token p1) None None (s1\<lparr>clock := 1100\<rparr>) = (Inr p2, s2)"
  using refresh_token_life [OF ref_jwt_ready ref_live, of None None ref_node 1100 1200 7] ref_ids_unused
  by (fastforce simp: client_fits_def opt_fits_def ref_cfg_def)

theorem refresh_rotates_witness:
  "\<exists>raw s p t tok sid. service_refresh_tokens ref_extern ref_cfg raw None None s = (Inr p, t) \<and>
     presents ref_extern ref_cfg raw s tok sid \<and> \<not> consumed tok"
  by (rule ref_life [of 1100 1200 7])
    (use ref_ids_unused refresh_rotates [of ref_extern ref_cfg _ None None] in
      \<open>fastforce simp: client_fits_def opt_fits_def ref_cfg_def\<close>)+

lemma log_event_Inr_ok:
  "log_event X ev oc ac tg ip ua pl s = (Inr a, t) \<Longrightarrow>
   client_fits ip ua \<and> uuid4 X (draws s) \<notin> ae_id ` set (audit_events (db s))"
  by (auto simp: log_event_def run_audit_create Let_def split: if_splits)

lemma log_commit_raise:
  assumes "thenE (log_event X ev oc ac tg ip ua pl) (thenE session_commit (raise e)) s = (Inl e', t)"
    and "e' \<noteq> DataError" "e' \<noteq> IntegrityError"
  shows "e' = e \<and> client_fits ip ua \<and> uuid4 X (draws s) \<notin> ae_id ` set (audit_events (db s))"
  using assms
  by (auto elim!: thenE_InlE dest: log_event_Inr_ok
      intro: log_event_cases [of X ev oc ac tg ip ua pl s thesis for thesis])

lemma service_refresh_reuse_inv:
  assumes "service_refresh_tokens X cfg raw ip ua s = (Inl (TokenReuseDetectedException sv fv), t)"
  obtains tok sid where "presents X cfg raw s tok sid" "family_live (db s) (family_id tok)"
    "clock s \<le> expires_at tok" "consumed tok" "client_fits ip ua"
    "uuid4 X (draws s) \<notin> ae_id ` set (audit_events (db s))"
proof -
  obtain r1 s1 where rot: "rotate_refresh X cfg raw ip ua s = (r1, s1)" by fastforce
  show thesis
  proof (cases r1)
    case (Inr p)
    then have "thenE (log_event X AUDIT_REFRESH_SUCCESS ''success'' None None ip ua None)
         (thenE session_commit (ret p)) s1 = (Inl (TokenReuseDetectedException sv fv), t)"
      using assms rot by (simp add: service_refresh_tokens_def)
    then show thesis by (rule log_commit_run) auto
  next
    case (Inl e)
    show thesis
    proof (cases "\<exists>a b. e = TokenReuseDetectedException a b")
      case False
      then show thesis
        using assms rot Inl
        by (cases e) (auto simp: service_refresh_tokens_def dest!: log_commit_raise elim!: bindE_InlE thenE_InrE)
    next
      case True
      then obtain sv' fv' where e: "e = TokenReuseDetectedException sv' fv'" by blast
      obtain tok sid where pr: "presents X cfg raw s tok sid" "family_live (db s) (family_id tok)"
          "clock s \<le> expires_at tok" "consumed tok" "sv' = Some sid"
        and s1: "s1 = s\<lparr>db := kill_family (clock s) ''reuse_detected'' (family_id tok) (db s)\<rparr>"
        using rot Inl e by (auto elim: rotate_reuse)
      have "thenE (mark_access_session_revoked X cfg sid)
            (thenE (log_event X AUDIT_REFRESH_REUSE_DETECTED ''failure'' None None ip ua
                     (Some [(''reason'', JStr ''reused_refresh'')])) (thenE session_commit (raise e :: (_, token_pair) aprog))) s1 =
          (Inl (TokenReuseDetectedException sv fv), t)"
        using assms rot Inl e pr(5) by (auto simp: service_refresh_tokens_def elim!: bindE_InlE thenE_InrE)
      then show thesis
      proof (rule thenE_InlE)
        assume "mark_access_session_revoked X cfg sid s1 = (Inl (TokenReuseDetectedException sv fv), t)"
        then show thesis
          by (auto simp: mark_access_session_revoked_def run_redis_write split: option.splits)
      next
        fix a s2
        assume m: "mark_access_session_revoked X cfg sid s1 = (Inr a, s2)"
          and l: "thenE (log_event X AUDIT_REFRESH_REUSE_DETECTED ''failure'' None None ip ua
               (Some [(''reason'', JStr ''reused_refresh'')])) (thenE session_commit (raise e :: (_, token_pair) aprog)) s2 =
             (Inl (TokenReuseDetectedException sv fv), t)"
        have "draws s2 = draws s" "audit_events (db s2) = audit_events (db s)"
          using m by (auto simp: mark_access_session_revoked_def run_redis_write s1 kill_family_def split: option.splits)
        then show thesis using that [OF pr(1-4)] log_commit_raise [OF l] by simp
      qed
    qed
  qed
qed

theorem reuse_is_contained_witness:
  "\<exists>raw s tok sid t. presents ref_extern ref_cfg raw s tok sid \<and> consumed tok \<and>
     service_refresh_tokens ref_extern ref_cfg raw None None s =
       (Inl (TokenReuseDetectedException (Some sid) (Some (family_id tok))), t) \<and>
     family_dead (committed t) (family_id tok)"
proof (rule ref_life [of 1100 1200 7])
  fix p1 s1 p2 s2 s3
  assume "service_refresh_tokens ref_extern ref_cfg (tp_refresh_token p1) None None (s2\<lparr>clock := 1200\<rparr>) =
       (Inl (TokenReuseDetectedException (Some (tp_session_id p1)) (Some (tp_family_id p1))), s3)"
  then obtain tok sid where "presents ref_extern ref_cfg (tp_refresh_token p1) (s2\<lparr>clock := 1200\<rparr>) tok sid"
      "family_live (db (s2\<lparr>clock := 1200\<rparr>)) (family_id tok)"
      "clock (s2\<lparr>clock := 1200\<rparr>) \<le> expires_at tok" "consumed tok" "client_fits None None"
      "uuid4 ref_extern (draws (s2\<lparr>clock := 1200\<rparr>)) \<notin> ae_id ` set (audit_events (db (s2\<lparr>clock := 1200\<rparr>)))"
    by (rule service_refresh_reuse_inv)
  then show ?thesis
    using reuse_is_contained [OF ref_live] by blast
qed (use ref_ids_unused in \<open>simp_all add: client_fits_def opt_fits_def ref_cfg_def\<close>)

section \<open>Logout\<close>

text \<open>
  C12: logout. Revoking a genuine token with its family commits that no token and no
  session of the family is usable and marks the access session as revoked in the cache for the
  lifetime of an access token; revoking the token alone consumes it and leaves the other tokens of the family
  as they were.
\<close>

theorem logout_revokes:
  assumes "redis_live (redis_cmds X) look" "presents X cfg raw s tok sid"
    and "client_fits ip ua" "uuid4 X (draws s) \<notin> ae_id ` set (audit_events (db s))"
  shows "\<exists>t. revoke_refresh_token X cfg raw whole ip ua s = (Inr (), t) \<and>
    (if whole then family_dead (committed t) (family_id tok)
     else refresh_tokens (committed t) =
            update_where (\<lambda>x. jti x = jti tok) (revoke_row (clock s) ''logout'') (refresh_tokens (db s))) \<and>
    filter (\<lambda>x. family_id x \<noteq> family_id tok) (refresh_tokens (committed t)) =
      filter (\<lambda>x. family_id x \<noteq> family_id tok) (refresh_tokens (db s)) \<and>
    (\<forall>now. clock s \<le> now \<and> now < clock s + jwt_access_ttl_seconds cfg \<longrightarrow>
       look (redis t) now (access_session_revoked_key (str_uuid sid)) \<noteq> None)"
proof -
  define d where "d = (if whole then kill_family (clock s) ''logout'' (family_id tok) (db s)
              else (db s)\<lparr>refresh_tokens := update_where (\<lambda>t. jti t = jti tok)
                     (revoke_row (clock s) ''logout'') (refresh_tokens (db s))\<rparr>)"
  let ?s1 = "s\<lparr>db := d\<rparr>"
  have rev: "revoke X cfg raw whole ''logout'' s = (Inr (Some (family_id tok, sid)), ?s1)"
    using revoke_presented [OF assms(2), of whole "''logout''"] by (simp add: d_def)
  obtain r where mark: "mark_access_session_revoked X cfg sid ?s1 = (Inr (), ?s1\<lparr>redis := r\<rparr>)"
    and until: "access_revoked_until look r (clock s) sid (clock s + access_revoked_ttl cfg)"
    using mark_access_session_revoked_ok [OF assms(1), of cfg sid ?s1] by auto
  have a: "audit_events d = audit_events (db s)" by (simp add: d_def kill_family_def)
  obtain e where log: "log_event X AUDIT_REFRESH_REVOKED ''success'' None None ip ua
       (Some [(''family_id'', JStr (str_uuid (family_id tok)))]) (?s1\<lparr>redis := r\<rparr>) =
     (Inr (), s\<lparr>draws := Suc (draws s), redis := r, db := d\<lparr>audit_events := audit_events (db s) @ [e]\<rparr>\<rparr>)"
    using log_event_ok [of AUDIT_REFRESH_REVOKED "''success''" ip ua X "?s1\<lparr>redis := r\<rparr>"
        None None "Some [(''family_id'', JStr (str_uuid (family_id tok)))]"] assms(3,4) a by auto
  let ?t = "s\<lparr>draws := Suc (draws s), redis := r, db := d\<lparr>audit_events := audit_events (db s) @ [e]\<rparr>,
      committed := d\<lparr>audit_events := audit_events (db s) @ [e]\<rparr>\<rparr>"
  have run: "revoke_refresh_token X cfg raw whole ip ua s = (Inr (), ?t)"
    using rev mark log by (simp add: revoke_refresh_token_def)
  have same: "family_id x = family_id tok" if "x \<in> set (refresh_tokens (db s))" "jti x = jti tok" for x
  proof -
    have "x \<in> set (filter (\<lambda>x. jti x = jti tok) (refresh_tokens (db s)))" using that by simp
    moreover have "filter (\<lambda>x. jti x = jti tok) (refresh_tokens (db s)) = [tok]"
      using assms(2) by (simp add: presents_def)
    ultimately show ?thesis by (simp del: set_filter)
  qed
  have "filter (\<lambda>x. family_id x \<noteq> family_id tok) (refresh_tokens d) =
      filter (\<lambda>x. family_id x \<noteq> family_id tok) (refresh_tokens (db s))"
    by (auto simp: d_def kill_family_others revoke_row_def intro!: filter_update_where_out dest: same)
  moreover have "whole \<Longrightarrow> family_dead d (family_id tok)" by (simp add: d_def kill_family_dead)
  ultimately show ?thesis
    using run access_revoked_untilD [OF assms(1) until]
    by (intro exI [of _ ?t]) (auto simp: d_def family_dead_def family_live_def access_revoked_ttl_def)
qed

theorem logout_revokes_witness:
  "\<exists>raw s tok sid t. presents ref_extern ref_cfg raw s tok sid \<and>
     revoke_refresh_token ref_extern ref_cfg raw True None None s = (Inr (), t) \<and>
     family_dead (committed t) (family_id tok)"
proof (rule ref_life [of 1100 1200 7])
  fix p1 s1 p2 s2 s3
  assume "service_refresh_tokens ref_extern ref_cfg (tp_refresh_token p1) None None (s2\<lparr>clock := 1200\<rparr>) =
       (Inl (TokenReuseDetectedException (Some (tp_session_id p1)) (Some (tp_family_id p1))), s3)"
  then obtain tok sid where pr: "presents ref_extern ref_cfg (tp_refresh_token p1) (s2\<lparr>clock := 1200\<rparr>) tok sid"
      "client_fits None None"
      "uuid4 ref_extern (draws (s2\<lparr>clock := 1200\<rparr>)) \<notin> ae_id ` set (audit_events (db (s2\<lparr>clock := 1200\<rparr>)))"
    by (rule service_refresh_reuse_inv)
  show ?thesis
    using logout_revokes [OF ref_live pr, where whole = True] pr(1) by (simp only: if_True) blast
qed (use ref_ids_unused in \<open>simp_all add: client_fits_def opt_fits_def ref_cfg_def\<close>)

end
