(* ===== verification/Login_Properties.thy ===== *)
theory Login_Properties
  imports Session_Properties
begin

text \<open>
  What the login handlers promise: who gets tokens, what a second factor protects, how a
  challenge is used once and from one address, how failures block an account, and what
  registration stores.
\<close>

section \<open>Login\<close>

lemma redis_onlyD:
  assumes "within redis_only p" "p s = (r, t)"
  shows "t = s\<lparr>redis := redis t\<rparr>"
  using within_run [OF assms] by (simp add: redis_only_def)

lemma redis_only_fields:
  assumes "t = s\<lparr>redis := redis t\<rparr>"
  shows "db t = db s" "committed t = committed s" "clock t = clock s" "draws t = draws s"
  by (subst assms, simp)+

lemmas failure_frames =
  redis_only_fields [OF redis_onlyD [OF within_clear_failures]]
  redis_only_fields [OF redis_onlyD [OF within_record_failure]]

text \<open>The password was right: what \<open>login\<close> checked and what it goes on with.\<close>

lemma login_Inr:
  assumes "login X cfg e pw ip ua s = (Inr r, t)"
  obtains u where "u \<in> set (users (db s))" "email u = lower e" "\<not> login_blocked u"
    "argon2_verify X (password_hash u) pw = Verified"
    "assert_not_locked X cfg ''login'' (login_identifier (lower e) ip) s = (Inr (), s)"
    "assert_not_locked X cfg ''login_account'' (lower e) s = (Inr (), s)"
    "login_accepted X cfg (lower e) u ip ua s = (Inr r, t)"
proof -
  have failed: "login_failed X cfg n f ip ua s' \<noteq> (Inr r, t)" for n f s'
    by (auto simp: login_failed_def elim!: thenE_InrE bindE_InrE split: option.splits if_splits)
  obtain found s1 where q: "get_by_email (lower e) s = (Inr found, s1)"
    using assms by (auto simp: login_def Let_def elim!: bindE_InrE)
  then have s1: "s1 = s"
    unfolding run_get_by_email using scalar_state [of _ s] by (metis snd_conv)
  have dummy: "thenE (verify_against_dummy_hash X pw) (ret False) s' \<noteq> (Inr True, t')" for s' t'
    by (auto elim!: thenE_InrE)
  show thesis
  proof (cases found)
    case None
    then show thesis
      using assms q s1 failed dummy
      by (auto simp: login_def Let_def elim!: thenE_InrE bindE_InrE split: if_splits)
  next
    case (Some u)
    then have u: "u \<in> set (users (db s))" "email u = lower e"
      using scalar_Some [of "\<lambda>u. email u = lower (lower e)" "users (db s)" s u s1] q
      by (auto simp: run_get_by_email lower_idem)
    have nb: "\<not> login_blocked u" using assms q Some by (auto simp: login_def Let_def)
    obtain s2 a b s3 ok s4 where
      l1: "assert_not_locked X cfg ''login'' (login_identifier (lower e) ip) s = (Inr a, s2)"
      and l2: "assert_not_locked X cfg ''login_account'' (lower e) s2 = (Inr b, s3)"
      and v: "verify_password X pw (password_hash u) s3 = (Inr ok, s4)"
      and rest: "(if \<not> ok then login_failed X cfg (lower e) (Some u) ip ua
           else login_accepted X cfg (lower e) u ip ua) s4 = (Inr r, t)"
      using assms q s1 Some nb
      by (auto simp: login_def Let_def elim!: thenE_InrE bindE_InrE split: if_splits)
    have st: "s2 = s" "s3 = s" "s4 = s"
      using assert_not_locked_state [OF l1] assert_not_locked_state [OF l2] v
      by (auto simp: verify_password_result)
    show thesis
      using that [OF u nb] l1 l2 v rest failed st by (auto simp: verify_password_result split: if_splits)
  qed
qed
lemma create_login_challenge_Inr:
  assumes "redis_store (redis_cmds X) look" "create_login_challenge X cfg uid ip s = (Inr cid, t)"
  shows "cid = str_uuid (uuid4 X (draws s)) \<and>
    look (redis t) (clock s) (login_challenge_key cid) =
      Some (json_dumps X (JDict (challenge_payload X cfg uid ip)), Some (clock s + login_challenge_ttl_seconds cfg)) \<and>
    db t = db s \<and> committed t = committed s \<and> clock t = clock s"
  using assms(2) redis_store.set_law [OF assms(1)]
  by (auto simp: create_login_challenge_def Let_def run_redis_write thenE_def bindE_def split: option.splits)

text \<open>What a login without second factor adds to the tables.\<close>

definition session_granted ::
  "'r extern \<Rightarrow> auth_settings \<Rightarrow> uuid \<Rightarrow> token_pair \<Rightarrow> auth_db \<Rightarrow> auth_db \<Rightarrow> bool" where
  "session_granted X cfg uid p d d' \<longleftrightarrow>
     (\<exists>v tok. user_sessions d' = user_sessions d @ [v] \<and> refresh_tokens d' = refresh_tokens d @ [tok] \<and>
        us_user_id v = uid \<and> us_id v = tp_session_id p \<and> refresh_family_id v = tp_family_id p \<and>
        us_revoked_at v = None \<and> us_id v \<notin> us_id ` set (user_sessions d) \<and>
        rt_user_id tok = uid \<and> family_id tok = tp_family_id p \<and> \<not> consumed tok \<and>
        jti tok \<notin> jti ` set (refresh_tokens d) \<and>
        token_hash tok = hash_refresh_token X cfg (tp_refresh_token p)) \<and>
     users d' = users d \<and> two_factor_secrets d' = two_factor_secrets d \<and> backup_codes d' = backup_codes d \<and>
     password_reset_tokens d' = password_reset_tokens d"

lemma issue_granted:
  assumes "issue_for_user X cfg uid ip ua s = (Inr p, t)"
  shows "session_granted X cfg uid p (db s) (db t) \<and> committed t = committed s \<and> redis t = redis s \<and> clock t = clock s"
proof -
  have ok: "issue_ok X ip ua s" using assms by (rule issue_for_user_Inr)
  note run = issue_for_user_run [OF ok, of cfg uid]
  show ?thesis
    using assms ok unfolding run session_granted_def
    by (auto simp: issued_session_def issued_token_def issued_pair_def consumed_def issue_ok_def fresh_ids_def
        issued_text_def)
qed

lemma granted_recorded:
  assumes "session_granted X cfg uid p d (db s1)" "recorded s1 t"
  shows "session_granted X cfg uid p d (committed t)"
  using assms recordedD [OF assms(2)] by (simp add: session_granted_def)

lemma login_accepted_Inr:
  assumes R: "redis_store (redis_cmds X) look" and run: "login_accepted X cfg e u ip ua s = (Inr r, t)"
  shows "is_active u \<and>
    (if two_factor_enabled u
     then (\<exists>cid. r = \<lparr>requires_2fa = True, challenge_id = Some cid, tokens = None\<rparr> \<and>
             look (redis t) (clock s) (login_challenge_key cid) =
               Some (json_dumps X (JDict (challenge_payload X cfg (u_id u) ip)),
                     Some (clock s + login_challenge_ttl_seconds cfg))) \<and>
          db t = db s \<and> committed t = committed s
     else (\<exists>p. r = \<lparr>requires_2fa = False, challenge_id = None, tokens = Some p\<rparr> \<and>
             session_granted X cfg (u_id u) p (db s) (committed t)))"
proof -
  have act: "is_active u" using run by (auto simp: login_accepted_def elim!: thenE_InrE split: if_splits)
  obtain a s1 b s2 where c1: "clear_failures X cfg ''login'' (login_identifier e ip) s = (Inr a, s1)"
    and c2: "clear_failures X cfg ''login_account'' e s1 = (Inr b, s2)"
    and rest: "(if two_factor_enabled u then
          bindE (create_login_challenge X cfg (u_id u) ip) (\<lambda>cid.
            ret \<lparr>requires_2fa = True, challenge_id = Some cid, tokens = None\<rparr>)
        else
          bindE (issue_for_user X cfg (u_id u) ip ua) (\<lambda>pair.
          thenE (log_event X AUDIT_LOGIN_SUCCESS ''success'' (Some (u_id u)) (Some (u_id u)) ip ua None)
         (thenE session_commit
            (ret \<lparr>requires_2fa = False, challenge_id = None, tokens = Some pair\<rparr>)))) s2 = (Inr r, t)"
    using run act by (auto simp: login_accepted_def elim!: thenE_InrE)
  note f = failure_frames(1-3) [OF c1] failure_frames(1-3) [OF c2]
  show ?thesis
  proof (cases "two_factor_enabled u")
    case True
    then obtain cid s3 where ch: "create_login_challenge X cfg (u_id u) ip s2 = (Inr cid, s3)"
      and "r = \<lparr>requires_2fa = True, challenge_id = Some cid, tokens = None\<rparr>" "t = s3"
      using rest by (auto elim!: bindE_InrE)
    with create_login_challenge_Inr [OF R ch] True act f show ?thesis by auto
  next
    case False
    then obtain p s3 where i: "issue_for_user X cfg (u_id u) ip ua s2 = (Inr p, s3)"
      and l: "thenE (log_event X AUDIT_LOGIN_SUCCESS ''success'' (Some (u_id u)) (Some (u_id u)) ip ua None)
         (thenE session_commit (ret \<lparr>requires_2fa = False, challenge_id = None, tokens = Some p\<rparr>)) s3 = (Inr r, t)"
      using rest by (auto elim!: bindE_InrE)
    have g: "session_granted X cfg (u_id u) p (db s) (db s3)" using issue_granted [OF i] f by simp
    from l show ?thesis
      by (rule log_commit_run) (use g False act granted_recorded in auto)
  qed
qed

text \<open>
  C6: who gets in. When \<open>login\<close> returns, the e-mail address, compared in lower case, belongs
  to an active user who is not blocked, whose stored hash the password verifies, and neither
  the address-and-client pair nor the account is locked. A user with two-factor
  authentication gets a challenge and nothing else: no token, no session, no change of the tables; the challenge is
  stored with its lifetime, bound to the user and the client's address. Any other user gets
  one new session with one new usable refresh token, committed together.
\<close>

theorem login_grants:
  assumes "redis_store (redis_cmds X) look" "login X cfg e pw ip ua s = (Inr r, t)"
  shows "\<exists>u \<in> set (users (db s)). email u = lower e \<and> is_active u \<and> \<not> login_blocked u \<and>
    argon2_verify X (password_hash u) pw = Verified \<and>
    look (redis s) (clock s) (brute_force_lock_key ''login''
      (identifier_digest X cfg (login_identifier (lower e) ip))) = None \<and>
    look (redis s) (clock s) (brute_force_lock_key ''login_account'' (identifier_digest X cfg (lower e))) = None \<and>
    (if two_factor_enabled u
     then (\<exists>cid. r = \<lparr>requires_2fa = True, challenge_id = Some cid, tokens = None\<rparr> \<and>
             look (redis t) (clock s) (login_challenge_key cid) =
               Some (json_dumps X (JDict (challenge_payload X cfg (u_id u) ip)),
                     Some (clock s + login_challenge_ttl_seconds cfg))) \<and>
          db t = db s \<and> committed t = committed s
     else (\<exists>p. r = \<lparr>requires_2fa = False, challenge_id = None, tokens = Some p\<rparr> \<and>
             session_granted X cfg (u_id u) p (db s) (committed t)))"
proof -
  obtain u where u: "u \<in> set (users (db s))" "email u = lower e" "\<not> login_blocked u"
      "argon2_verify X (password_hash u) pw = Verified"
    and l: "assert_not_locked X cfg ''login'' (login_identifier (lower e) ip) s = (Inr (), s)"
      "assert_not_locked X cfg ''login_account'' (lower e) s = (Inr (), s)"
    and acc: "login_accepted X cfg (lower e) u ip ua s = (Inr r, t)"
    using assms(2) by (rule login_Inr)
  show ?thesis
    using u login_accepted_Inr [OF assms(1) acc] redis_store.assert_not_locked_passes [OF assms(1) refl l(1)]
      redis_store.assert_not_locked_passes [OF assms(1) refl l(2)]
    by blast
qed

lemma clear_failures_ok:
  assumes "redis_live (redis_cmds X) look"
  shows "\<exists>r. clear_failures X cfg sc i s = (Inr (), s\<lparr>redis := r\<rparr>)"
  using redis_live.delete_ok [OF assms]
  by (fastforce simp: clear_failures_def Let_def run_redis_write split: option.splits)

lemma create_login_challenge_ok:
  assumes "redis_live (redis_cmds X) look" "0 < login_challenge_ttl_seconds cfg"
  shows "\<exists>r. create_login_challenge X cfg uid ip s =
           (Inr (str_uuid (uuid4 X (draws s))), s\<lparr>draws := Suc (draws s), redis := r\<rparr>)"
proof -
  let ?k = "login_challenge_key (str_uuid (uuid4 X (draws s)))"
  let ?v = "json_dumps X (JDict (challenge_payload X cfg uid ip))"
  obtain r where "r_set_ex (redis_cmds X) (clock s) ?k ?v (login_challenge_ttl_seconds cfg) (redis s) = Some r"
    using redis_live.set_ok [OF assms] by (metis not_Some_eq)
  then show ?thesis
    by (intro exI [of _ r]) (simp add: create_login_challenge_def Let_def run_redis_write thenE_def bindE_def)
qed

text \<open>The right password of a user with two-factor authentication does lead to a challenge.\<close>

lemma login_challenge_ok:
  assumes live: "redis_live (redis_cmds X) look" and ttl: "0 < login_challenge_ttl_seconds cfg"
    and u: "filter (\<lambda>u. email u = lower e) (users (db s)) = [u]" "\<not> login_blocked u" "is_active u"
      "two_factor_enabled u" "argon2_verify X (password_hash u) pw = Verified"
    and l: "look (redis s) (clock s) (brute_force_lock_key ''login''
        (identifier_digest X cfg (login_identifier (lower e) ip))) = None"
      "look (redis s) (clock s) (brute_force_lock_key ''login_account'' (identifier_digest X cfg (lower e))) = None"
  obtains r where "login X cfg e pw ip ua s =
    (Inr \<lparr>requires_2fa = True, challenge_id = Some (str_uuid (uuid4 X (draws s))), tokens = None\<rparr>,
     s\<lparr>draws := Suc (draws s), redis := r\<rparr>)"
proof -
  note a = redis_live.assert_not_locked_run [OF live refl]
  obtain r1 where c1: "clear_failures X cfg ''login'' (login_identifier (lower e) ip) s = (Inr (), s\<lparr>redis := r1\<rparr>)"
    using clear_failures_ok [OF live] by blast
  obtain r2 where c2: "clear_failures X cfg ''login_account'' (lower e) (s\<lparr>redis := r1\<rparr>) = (Inr (), s\<lparr>redis := r2\<rparr>)"
    using clear_failures_ok [OF live, of cfg "''login_account''" "lower e" "s\<lparr>redis := r1\<rparr>"] by auto
  obtain r where ch: "create_login_challenge X cfg (u_id u) ip (s\<lparr>redis := r2\<rparr>) =
      (Inr (str_uuid (uuid4 X (draws s))), s\<lparr>draws := Suc (draws s), redis := r\<rparr>)"
    using create_login_challenge_ok [OF live ttl, of "u_id u" ip "s\<lparr>redis := r2\<rparr>"] by auto
  show thesis
    using u l c1 c2 ch
    by (intro that [of r]) (simp add: login_def Let_def run_get_by_email lower_idem a verify_password_def login_accepted_def)
qed

lemma ref_login:
  "\<exists>r t. login ref_extern ref_cfg ''U'' ''pw'' None None ref_2fa_node = (Inr r, t)"
proof -
  have l: "lower ''U'' = ''u''" by code_simp
  show ?thesis
  proof (rule login_challenge_ok [OF ref_live, where u = ref_user and s = ref_2fa_node and e = "''U''"
        and pw = "''pw''" and cfg = ref_cfg and ip = None and ua = None])
    fix r assume "login ref_extern ref_cfg ''U'' ''pw'' None None ref_2fa_node =
      (Inr \<lparr>requires_2fa = True, challenge_id = Some (str_uuid (uuid4 ref_extern (draws ref_2fa_node))), tokens = None\<rparr>,
       ref_2fa_node\<lparr>draws := Suc (draws ref_2fa_node), redis := r\<rparr>)"
    then show ?thesis by blast
  qed (simp_all add: l ref_2fa_node_def ref_2fa_db_def ref_user_def ref_cfg_def ks_look_def aged_def)
qed

lemma ref_store: "redis_store (redis_cmds ref_extern) ks_look"
  using ks.redis_store_axioms by simp

theorem login_grants_witness:
  "\<exists>u \<in> set (users (db ref_2fa_node)). is_active u \<and> two_factor_enabled u \<and>
     argon2_verify ref_extern (password_hash u) ''pw'' = Verified"
proof -
  have "\<forall>u \<in> set (users (db ref_2fa_node)). two_factor_enabled u"
    by (simp add: ref_2fa_node_def ref_2fa_db_def ref_user_def)
  then show ?thesis
    using ref_login login_grants [OF ref_store] by blast
qed

text \<open>
  A blocked account stays out. For a user marked \<open>login_blocked\<close> every login is answered with
  \<open>AccountLoginBlockedException\<close>, the right password included, before any counter is read or changed.
\<close>

theorem login_blocked_refused:
  assumes "filter (\<lambda>u. email u = lower e) (users (db s)) = [u]" "login_blocked u"
  shows "login X cfg e pw ip ua s =
     (Inl (AccountLoginBlockedException (account_login_locked_message cfg)), s)"
  using assms by (simp add: login_def Let_def run_get_by_email lower_idem)

theorem login_blocked_refused_witness:
  "login ref_extern ref_cfg ''U'' ''pw'' None None
      (ref_2fa_node\<lparr>db := ref_2fa_db\<lparr>users := [ref_user\<lparr>login_blocked := True\<rparr>]\<rparr>\<rparr>) =
   (Inl (AccountLoginBlockedException (account_login_locked_message ref_cfg)),
    ref_2fa_node\<lparr>db := ref_2fa_db\<lparr>users := [ref_user\<lparr>login_blocked := True\<rparr>]\<rparr>\<rparr>)"
proof -
  have "lower ''U'' = ''u''" by code_simp
  then show ?thesis
    by (intro login_blocked_refused [where u = "ref_user\<lparr>login_blocked := True\<rparr>"])
      (simp_all add: ref_user_def)
qed

section \<open>Registration\<close>

lemma run_user_create:
  "user_create X e ph s =
     (let uid = uuid4 X (draws s); s1 = s\<lparr>draws := Suc (draws s)\<rparr>;
          u = \<lparr>u_id = uid, email = lower e, password_hash = ph, is_active = True, is_superuser = False,
               two_factor_enabled = False, login_blocked = False, password_reset_blocked = False,
               u_created_at = clock s\<rparr>
      in if \<not> (fits 320 (lower e) \<and> fits 512 ph) then (Inl DataError, s1)
         else if lower e \<in> email ` set (users (db s)) \<or> uid \<in> u_id ` set (users (db s))
         then (Inl IntegrityError, s1)
         else (Inr u, s1\<lparr>db := (db s)\<lparr>users := users (db s) @ [u]\<rparr>\<rparr>))"
  by (simp add: user_create_def Let_def)

lemma register_facts:
  "(\<exists>u \<in> set (users (db s)). email u = lower e) \<Longrightarrow> distinct (map email (users (db s))) \<Longrightarrow>
     register X e pw ip ua s = (Inl UserAlreadyExistsException, s)"
  "register X e pw ip ua s = (Inr a, t) \<Longrightarrow>
     (\<exists>u n. users (committed t) = users (db s) @ [u] \<and> email u = lower e \<and>
        lower e \<notin> email ` set (users (db s)) \<and> u_id u \<notin> u_id ` set (users (db s)) \<and>
        good_password pw \<and> password_hash u = argon2_hash X n pw \<and>
        is_active u \<and> \<not> two_factor_enabled u \<and> \<not> login_blocked u \<and> \<not> is_superuser u) \<and>
     refresh_tokens (committed t) = refresh_tokens (db s) \<and> user_sessions (committed t) = user_sessions (db s) \<and>
     redis t = redis s"
proof -
  assume taken: "\<exists>u \<in> set (users (db s)). email u = lower e" and d: "distinct (map email (users (db s)))"
  then obtain u where "u \<in> set (users (db s))" "email u = lower e" by blast
  then have "filter (\<lambda>u. email u = lower e) (users (db s)) = [u]"
    using filter_key_distinct [OF d] by metis
  then show "register X e pw ip ua s = (Inl UserAlreadyExistsException, s)"
    by (simp add: register_def run_get_by_email)
next
  assume run: "register X e pw ip ua s = (Inr a, t)"
  then obtain h s1 u s2 where h: "hash_password X pw s = (Inr h, s1)"
    and c: "user_create X e h s1 = (Inr u, s2)"
    and l: "thenE (log_event X AUDIT_REGISTER_SUCCESS ''success'' (Some (u_id u)) (Some (u_id u)) ip ua
              (Some [(''email'', JStr (email u))])) session_commit s2 = (Inr a, t)"
    unfolding register_def
    by (auto elim!: bindE_InrE split: option.splits dest!: scalar_None simp: run_get_by_email)
  note hp = hash_password_Inr [OF h]
  have rec: "recorded s2 t"
    using l [unfolded log_commit_ret] by (rule log_commit_run) auto
  show "(\<exists>u n. users (committed t) = users (db s) @ [u] \<and> email u = lower e \<and>
        lower e \<notin> email ` set (users (db s)) \<and> u_id u \<notin> u_id ` set (users (db s)) \<and>
        good_password pw \<and> password_hash u = argon2_hash X n pw \<and>
        is_active u \<and> \<not> two_factor_enabled u \<and> \<not> login_blocked u \<and> \<not> is_superuser u) \<and>
     refresh_tokens (committed t) = refresh_tokens (db s) \<and> user_sessions (committed t) = user_sessions (db s) \<and>
     redis t = redis s"
    using c hp recordedD [OF rec]
    by (auto simp: run_user_create Let_def split: if_splits)
qed

text \<open>
  Registration. It is refused without any change when the address, in lower case, is
  taken. When it returns, the address was free, the password meets the policy, and exactly one user was
  added and committed: active, without second factor or block, with the address in lower case
  and an argon2 hash of the password; no session and no token exists for it, and addresses and ids are
  still unique.
\<close>

theorem register_outcome:
  "((\<exists>u \<in> set (users (db s)). email u = lower e) \<and> distinct (map email (users (db s))) \<longrightarrow>
     register X e pw ip ua s = (Inl UserAlreadyExistsException, s)) \<and>
   (\<forall>a t. register X e pw ip ua s = (Inr a, t) \<longrightarrow>
     (\<exists>u n. users (committed t) = users (db s) @ [u] \<and> email u = lower e \<and>
        lower e \<notin> email ` set (users (db s)) \<and> u_id u \<notin> u_id ` set (users (db s)) \<and>
        good_password pw \<and> password_hash u = argon2_hash X n pw \<and>
        is_active u \<and> \<not> two_factor_enabled u \<and> \<not> login_blocked u \<and> \<not> is_superuser u) \<and>
     refresh_tokens (committed t) = refresh_tokens (db s) \<and> user_sessions (committed t) = user_sessions (db s) \<and>
     redis t = redis s)"
  using register_facts by metis

lemma ref_register:
  "\<exists>t. register ref_extern ''U'' ''secret12'' None None ref_node = (Inr (), t)"
proof -
  have g: "good_password ''secret12''" by (simp add: good_password_def is_ascii_letter_def is_digit_def)
  have l: "lower ''U'' = ''u''" by code_simp
  show ?thesis
    by (simp add: register_def run_get_by_email l hash_password_def g run_user_create Let_def fits_def
        log_event_def run_audit_create client_fits_def opt_fits_def audit_constants)
qed

theorem register_outcome_witness:
  "\<exists>t u n. register ref_extern ''U'' ''secret12'' None None ref_node = (Inr (), t) \<and>
     users (committed t) = [u] \<and> email u = lower ''U'' \<and> password_hash u = argon2_hash ref_extern n ''secret12''"
proof -
  obtain t where t: "register ref_extern ''U'' ''secret12'' None None ref_node = (Inr (), t)"
    using ref_register by blast
  then show ?thesis
    using register_outcome [of ref_node "''U''" ref_extern "''secret12''" None None] by fastforce
qed

section \<open>The second step\<close>

text \<open>A stored challenge: its text, user and address, as \<open>_get_login_challenge\<close> reads them.\<close>

definition challenge_for ::
  "'r extern \<Rightarrow> auth_settings \<Rightarrow> string option \<Rightarrow> user \<Rightarrow> string \<Rightarrow> bool" where
  "challenge_for X cfg ip u raw \<longleftrightarrow>
     (\<exists>d w. json_loads X raw = Some (JDict d) \<and> dict_get d ''user_id'' = JStr w \<and> parse_uuid w = Some (u_id u) \<and>
        dict_get d ''ip_fingerprint'' = JStr (context_fingerprint X cfg ip))"

lemma run_get_login_challenge:
  assumes "redis_store (redis_cmds X) look"
  shows "get_login_challenge X cid s = (Inl RedisError, s) \<or>
    get_login_challenge X cid s =
      (case look (redis s) (clock s) (login_challenge_key cid) of
         None \<Rightarrow> (Inr None, s)
       | Some (raw, x) \<Rightarrow>
           (case json_loads X raw of
              None \<Rightarrow> (Inr None, s)
            | Some (JDict d) \<Rightarrow> (Inr (Some (dict_get d ''user_id'', dict_get d ''ip_fingerprint'')), s)
            | Some _ \<Rightarrow> (Inl AttributeError, s)))"
proof (cases "r_get (redis_cmds X) (clock s) (login_challenge_key cid) (redis s)")
  case None
  then show ?thesis by (simp add: get_login_challenge_def run_redis_read)
next
  case (Some g)
  note law = redis_store.get_law [OF assms Some]
  show ?thesis
  proof (cases "look (redis s) (clock s) (login_challenge_key cid)")
    case None
    then show ?thesis using Some law by (simp add: get_login_challenge_def run_redis_read)
  next
    case (Some v)
    then show ?thesis
      using \<open>r_get _ _ _ _ = Some g\<close> law
      by (cases v) (auto simp: get_login_challenge_def run_redis_read split: option.split json.split)
  qed
qed

lemma get_login_challenge_Inr:
  assumes "redis_store (redis_cmds X) look" "get_login_challenge X cid s = (Inr (Some (uid_raw, fp)), t)"
  obtains raw x d where "t = s" "look (redis s) (clock s) (login_challenge_key cid) = Some (raw, x)"
    "json_loads X raw = Some (JDict d)" "uid_raw = dict_get d ''user_id''" "fp = dict_get d ''ip_fingerprint''"
  using run_get_login_challenge [OF assms(1), of cid s] assms(2)
  by (auto split: option.splits prod.splits json.splits)

lemma get_login_challenge_gone:
  assumes "redis_store (redis_cmds X) look" "look (redis s) (clock s) (login_challenge_key cid) = None"
  shows "get_login_challenge X cid s \<in> {(Inr None, s), (Inl RedisError, s)}"
  using run_get_login_challenge [OF assms(1), of cid s] assms(2) by auto

text \<open>From a matching challenge on: a second factor, the challenge deleted, tokens granted.\<close>

lemma challenge_second_factor_Inr:
  assumes R: "redis_store (redis_cmds X) look"
    and run: "challenge_second_factor X cfg cid u tc bc ip ua s = (Inr p, t)"
  shows "is_active u \<and> two_factor_enabled u \<and>
    look (redis t) (clock s) (login_challenge_key cid) = None \<and>
    ((\<exists>k. \<not> falsy tc \<and> falsy bc \<and> accepts_step X cfg (db s) u (the tc) (clock s) k \<and>
        session_granted X cfg (u_id u) p (used_step_db u k (db s)) (committed t)) \<or>
     (\<exists>b. falsy tc \<and> \<not> falsy bc \<and> b \<in> set (unused_codes (db s) u) \<and>
        argon2_verify X (code_hash b) (or_empty bc) = Verified \<and>
        session_granted X cfg (u_id u) p (use_code_db (clock s) b (db s)) (committed t)))"
proof -
  have act: "is_active u"
    using run by (auto simp: challenge_second_factor_def elim!: thenE_InrE split: if_splits)
  have nt: "tryE (verify_for_login X cfg u tc bc)
      (\<lambda>e. if e = InvalidTwoFactorCodeException then
             thenE (record_failure X cfg ''2fa'' (login_identifier cid ip))
            (thenE (log_event X AUDIT_LOGIN_FAILED ''failure'' (Some (u_id u)) (Some (u_id u)) ip ua
                      (Some [(''reason'', JStr ''invalid_2fa'')]))
            (thenE session_commit (raise e)))
           else raise e) s = (Inr a, s') \<Longrightarrow> verify_for_login X cfg u tc bc s = (Inr a, s')" for a s'
    by (auto simp: tryE_def elim!: thenE_InrE split: prod.splits sum.splits if_splits)
  obtain a s1 b s2 c s3 s4 where v: "verify_for_login X cfg u tc bc s = (Inr a, s1)"
    and c1: "clear_failures X cfg ''2fa'' (login_identifier cid ip) s1 = (Inr b, s2)"
    and del: "delete_login_challenge X cid s2 = (Inr c, s3)"
    and i: "issue_for_user X cfg (u_id u) ip ua s3 = (Inr p, s4)"
    and l: "thenE (log_event X AUDIT_LOGIN_SUCCESS ''success'' (Some (u_id u)) (Some (u_id u)) ip ua
                 (Some [(''via'', JStr ''2fa_challenge'')])) (thenE session_commit (ret p)) s4 = (Inr p, t)"
    using run act by (auto simp: challenge_second_factor_def elim!: thenE_InrE bindE_InrE dest!: nt)
  note f = failure_frames(1-3) [OF c1]
  have s1: "clock s1 = clock s" "redis s1 = redis s" using verify_for_login_Inr [OF v] by auto
  obtain r where r: "r_delete (redis_cmds X) (clock s) [login_challenge_key cid] (redis s2) = Some r" "s3 = s2\<lparr>redis := r\<rparr>"
    using del f s1 by (auto simp: delete_login_challenge_def run_redis_write split: option.splits)
  have gone: "look r (clock s) (login_challenge_key cid) = None"
    using redis_store.delete_law [OF R r(1)] by simp
  have g: "session_granted X cfg (u_id u) p (db s1) (db s4)" "redis s4 = r"
    using issue_granted [OF i] r(2) f by auto
  from l have "session_granted X cfg (u_id u) p (db s1) (committed t) \<and> redis t = r"
    by (rule log_commit_run) (use g granted_recorded recordedD(8) in auto)
  then show ?thesis
    using verify_for_login_Inr [OF v] act gone by auto
qed

lemma verify_login_challenge_Inr:
  assumes R: "redis_store (redis_cmds X) look"
    and run: "verify_login_challenge X cfg cid tc bc ip ua s = (Inr p, t)"
  obtains u raw x where "u \<in> set (users (db s))" "challenge_for X cfg ip u raw"
    "look (redis s) (clock s) (login_challenge_key cid) = Some (raw, x)"
    "assert_not_locked X cfg ''2fa'' (login_identifier cid ip) s = (Inr (), s)"
    "challenge_second_factor X cfg cid u tc bc ip ua s = (Inr p, t)"
proof -
  note d = run [unfolded verify_login_challenge_def]
  obtain a s1 ch s2 where l: "assert_not_locked X cfg ''2fa'' (login_identifier cid ip) s = (Inr a, s1)"
    and g: "get_login_challenge X cid s1 = (Inr ch, s2)"
    using d by (auto elim!: thenE_InrE bindE_InrE)
  have s1: "s1 = s" using assert_not_locked_state [OF l] .
  obtain uid_raw fp where ch: "ch = Some (uid_raw, fp)" using d l g s1 by (cases ch) auto
  obtain raw x dd where c: "s2 = s" "look (redis s) (clock s) (login_challenge_key cid) = Some (raw, x)"
    "json_loads X raw = Some (JDict dd)" "uid_raw = dict_get dd ''user_id''" "fp = dict_get dd ''ip_fingerprint''"
    using get_login_challenge_Inr [OF R g [unfolded ch s1]] by blast
  have no: "thenE q (thenE q' (thenE q'' (thenE session_commit (raise e')))) s' \<noteq> (Inr p, t)"
    for q :: "('a, int) aprog" and q' q'' :: "('a, unit) aprog" and e' s' by (auto elim!: thenE_InrE)
  obtain ok s3 where m: "challenge_context_matches X cfg fp ip s = (Inr ok, s3)"
    using d l g s1 ch c(1) by (auto elim!: bindE_InrE)
  have fp: "ok \<Longrightarrow> fp = JStr (context_fingerprint X cfg ip)" "s3 = s"
    using m by (auto simp: challenge_context_matches_def Let_def split: json.splits if_splits)
  have ok: ok using d l g s1 ch c(1) m fp no by (auto split: if_splits)
  obtain w uid where w: "uid_raw = JStr w" "parse_uuid w = Some uid"
    using d l g s1 ch c(1) m ok fp by (auto split: json.splits option.splits if_splits)
  have "w \<noteq> ''''" using d l g s1 ch c(1) m ok fp w by (auto simp: json_truthy_def)
  then have q: "bindE (get_by_id uid) (\<lambda>found. case found of None \<Rightarrow> raise InvalidChallengeException
      | Some u \<Rightarrow> challenge_second_factor X cfg cid u tc bc ip ua) s = (Inr p, t)"
    using d l g s1 ch c(1) m ok fp w by (simp add: json_truthy_def)
  then obtain u s4 where u: "get_by_id uid s = (Inr (Some u), s4)"
    by (auto elim!: bindE_InrE split: option.splits)
  have um: "s4 = s" "u \<in> set (users (db s))" "u_id u = uid"
    using scalar_Some [OF u [unfolded run_get_by_id]] by auto
  have cf: "challenge_for X cfg ip u raw"
    unfolding challenge_for_def using c(3-5) w fp(1) [OF ok] um(3) by metis
  show thesis
    by (rule that [OF um(2) cf c(2)]) (use l s1 q u um in auto)
qed

text \<open>
  C17: the second step of a login. It returns tokens only for a challenge that is stored and alive, was
  made for this user and for the address the request comes from, for an active user with
  two-factor authentication, against a one-time password of a fresh step or an unused
  backup code, exactly one of the two, which is thereby used; then exactly one session with one
  refresh token is granted and committed, and the challenge is gone: a second attempt on it
  never returns, in any later state of the cache in which the challenge is still gone.
\<close>

theorem second_factor_grants:
  assumes "redis_store (redis_cmds X) look" "verify_login_challenge X cfg cid tc bc ip ua s = (Inr p, t)"
  shows "(\<exists>u \<in> set (users (db s)). \<exists>raw x. challenge_for X cfg ip u raw \<and>
      look (redis s) (clock s) (login_challenge_key cid) = Some (raw, x) \<and>
      is_active u \<and> two_factor_enabled u \<and>
      ((\<exists>k. \<not> falsy tc \<and> falsy bc \<and> accepts_step X cfg (db s) u (the tc) (clock s) k \<and>
          session_granted X cfg (u_id u) p (used_step_db u k (db s)) (committed t)) \<or>
       (\<exists>b. falsy tc \<and> \<not> falsy bc \<and> b \<in> set (unused_codes (db s) u) \<and>
          argon2_verify X (code_hash b) (or_empty bc) = Verified \<and>
          session_granted X cfg (u_id u) p (use_code_db (clock s) b (db s)) (committed t)))) \<and>
    look (redis t) (clock s) (login_challenge_key cid) = None \<and>
    (\<forall>s' tc' bc' ip' ua' p' t'. look (redis s') (clock s') (login_challenge_key cid) = None \<longrightarrow>
       verify_login_challenge X cfg cid tc' bc' ip' ua' s' \<noteq> (Inr p', t'))"
proof -
  obtain u raw x where u: "u \<in> set (users (db s))" "challenge_for X cfg ip u raw"
    "look (redis s) (clock s) (login_challenge_key cid) = Some (raw, x)"
    and f: "challenge_second_factor X cfg cid u tc bc ip ua s = (Inr p, t)"
    using assms by (rule verify_login_challenge_Inr)
  have "verify_login_challenge X cfg cid tc' bc' ip' ua' s' \<noteq> (Inr p', t')"
    if "look (redis s') (clock s') (login_challenge_key cid) = None" for s' tc' bc' ip' ua' p' t'
    using verify_login_challenge_Inr [OF assms(1), of cfg cid tc' bc' ip' ua' s' p' t'] that by (metis option.distinct(1))
  then show ?thesis
    using challenge_second_factor_Inr [OF assms(1) f] u by blast
qed

text \<open>The reference user with a stored challenge for a client without address.\<close>

definition ref_challenge_node :: "keyspace auth_node" where
  "ref_challenge_node = ref_2fa_node\<lparr>redis := (\<lambda>_. None)(login_challenge_key ''c'' \<mapsto>
     (ref_json_dumps (JDict (challenge_payload ref_extern ref_cfg 7 None)), Some 1300))\<rparr>"

lemma ref_second_factor:
  "verify_for_login ref_extern ref_cfg ref_user (Some (str_int 990)) None ref_challenge_node =
     (Inr (), ref_challenge_node\<lparr>db := used_step_db ref_user 33 ref_2fa_db\<rparr>)"
proof -
  have "verify_for_login ref_extern ref_cfg ref_user (Some (str_int 990)) None ref_challenge_node =
      verify_totp ref_extern ref_cfg ref_user (str_int 990) ref_challenge_node"
    by (simp add: verify_for_login_def ref_user_def falsy_def or_empty_def str_int_def str_nat.simps)
  then show ?thesis
    by (simp add: ref_challenge_node_def verify_totp_def run_get_secret ref_2fa_node_def ref_2fa_db_def ref_user_def
      decrypt_secret_def verify_totp_code_def ref_cfg_def upto_rec1 upto_empty startswith_def
      update_last_used_timecode_def mutate_secret_def used_step_db_def bindE_def Let_def)
qed

lemma ref_issue_ok: "issue_ok ref_extern None None (ref_challenge_node\<lparr>redis := r, db := used_step_db ref_user 33 ref_2fa_db\<rparr>)"
  by (simp add: issue_ok_def fresh_ids_def ref_challenge_node_def ref_2fa_node_def ref_2fa_db_def used_step_db_def
      client_fits_def opt_fits_def)

lemma ref_verify_challenge:
  "\<exists>p t. verify_login_challenge ref_extern ref_cfg ''c'' (Some (str_int 990)) None None None ref_challenge_node = (Inr p, t)"
proof -
  let ?s = "ref_challenge_node" and ?d = "used_step_db ref_user 33 ref_2fa_db"
  let ?pl = "challenge_payload ref_extern ref_cfg 7 None"
  have a: "assert_not_locked ref_extern ref_cfg ''2fa'' (login_identifier ''c'' None) ?s = (Inr (), ?s)"
    by (simp add: redis_live.assert_not_locked_run [OF ref_live refl] ref_challenge_node_def ks_look_def aged_def)
  have fl: "flat_claims ?pl" by (simp add: flat_claims_def flat_json_def challenge_payload_def)
  have g: "get_login_challenge ref_extern ''c'' ?s =
      (Inr (Some (dict_get ?pl ''user_id'', dict_get ?pl ''ip_fingerprint'')), ?s)"
    using ref_json.loads_dumps [OF fl]
    by (simp add: get_login_challenge_def run_redis_read ref_challenge_node_def keyspace_ops_def ks_look_def aged_def
        ref_2fa_node_def)
  have asc: "is_ascii (context_fingerprint ref_extern ref_cfg None)" by code_simp
  have m: "challenge_context_matches ref_extern ref_cfg (dict_get ?pl ''ip_fingerprint'') None ?s = (Inr True, ?s)"
    using asc by (simp add: challenge_context_matches_def challenge_payload_def dict_get_def)
  have ne: "str_uuid 7 \<noteq> ''''" by code_simp
  have u: "get_by_id 7 ?s = (Inr (Some ref_user), ?s)"
    by (simp add: run_get_by_id ref_challenge_node_def ref_2fa_node_def ref_2fa_db_def ref_user_def)
  obtain r1 where c1: "clear_failures ref_extern ref_cfg ''2fa'' (login_identifier ''c'' None) (?s\<lparr>db := ?d\<rparr>) =
      (Inr (), ?s\<lparr>redis := r1, db := ?d\<rparr>)"
    using clear_failures_ok [OF ref_live, of ref_cfg "''2fa''" "login_identifier ''c'' None" "?s\<lparr>db := ?d\<rparr>"] by auto
  obtain r2 where c2: "delete_login_challenge ref_extern ''c'' (?s\<lparr>redis := r1, db := ?d\<rparr>) = (Inr (), ?s\<lparr>redis := r2, db := ?d\<rparr>)"
    by (simp add: delete_login_challenge_def run_redis_write keyspace_ops_def ks_delete_def)
  have "is_active ref_user" by (simp add: ref_user_def)
  then have f: "\<exists>p t. challenge_second_factor ref_extern ref_cfg ''c'' ref_user (Some (str_int 990)) None None None ?s = (Inr p, t)"
    using ref_second_factor c1 c2 issue_for_user_run [OF ref_issue_ok [of r2], of ref_cfg]
    by (simp add: challenge_second_factor_def log_event_def run_audit_create Let_def audit_constants fits_def client_fits_def
        opt_fits_def used_step_db_def ref_2fa_db_def)
  have j: "dict_get ?pl ''user_id'' = JStr (str_uuid 7)" by (simp add: challenge_payload_def dict_get_def)
  show ?thesis
    using a g m u f ne by (simp add: verify_login_challenge_def j json_truthy_def)
qed

theorem second_factor_grants_witness:
  "\<exists>p t k. verify_login_challenge ref_extern ref_cfg ''c'' (Some (str_int 990)) None None None ref_challenge_node = (Inr p, t) \<and>
     session_granted ref_extern ref_cfg 7 p (used_step_db ref_user k ref_2fa_db) (committed t) \<and>
     ks_look (redis t) 1000 (login_challenge_key ''c'') = None"
proof -
  obtain p t where run: "verify_login_challenge ref_extern ref_cfg ''c'' (Some (str_int 990)) None None None ref_challenge_node = (Inr p, t)"
    using ref_verify_challenge by blast
  have "\<forall>u \<in> set (users (db ref_challenge_node)). u = ref_user" "u_id ref_user = 7" "db ref_challenge_node = ref_2fa_db"
    "clock ref_challenge_node = 1000" "falsy None"
    by (simp_all add: ref_challenge_node_def ref_2fa_node_def ref_2fa_db_def ref_user_def falsy_def or_empty_def)
  with second_factor_grants [OF ref_store run] run show ?thesis by fastforce
qed

end
