(* ===== verification/Password_Reset.thy ===== *)
theory Password_Reset
  imports Login_Properties
begin

text \<open>
  \<open>services/password_reset_service.py\<close> with the mail provider it sends codes through
  (\<open>integrations/email/provider.py\<close>, \<open>get_email_provider\<close> of \<open>api/deps.py\<close>). Composing the MIME
  message and the dialogue with the mail server are the parameter \<open>smtp_send\<close>, which answers a
  message with success or with the exception the library raised. After the definitions: what a
  request for a code commits, what a completed reset commits, and that a genuine code is accepted.
\<close>

section \<open>The mail provider\<close>

record email_provider =
  ep_host :: "string option"
  ep_port :: int
  ep_username :: "string option"
  ep_password :: "string option"
  ep_use_tls :: bool
  ep_from_email :: "string option"
  ep_from_name :: "string option"
  ep_require_delivery :: bool

text \<open>\<open>(value or "").strip() or None\<close>\<close>

definition clean_setting :: "string option \<Rightarrow> string option" where
  "clean_setting v = (let t = strip (or_empty v) in if t = '''' then None else Some t)"

definition make_email_provider ::
  "string option \<Rightarrow> int \<Rightarrow> string option \<Rightarrow> string option \<Rightarrow> bool \<Rightarrow> string option \<Rightarrow> string option \<Rightarrow>
   bool \<Rightarrow> email_provider" where
  "make_email_provider host port username password use_tls from_email from_name require_delivery =
     \<lparr>ep_host = clean_setting host,
      ep_port = port,
      ep_username = (case clean_setting username of Some n \<Rightarrow> Some n | None \<Rightarrow> clean_setting from_email),
      ep_password = clean_setting password,
      ep_use_tls = use_tls,
      ep_from_email = clean_setting from_email,
      ep_from_name = clean_setting from_name,
      ep_require_delivery = require_delivery\<rparr>"

definition get_email_provider :: "auth_settings \<Rightarrow> email_provider" where
  "get_email_provider cfg =
     (let smtp_user = (if falsy (smtp_username cfg) then smtp_from_email_value cfg else smtp_username cfg) in
      make_email_provider (smtp_host cfg) (smtp_port cfg) smtp_user (smtp_password_value cfg)
        (smtp_use_tls cfg) (smtp_from_email_value cfg) (smtp_from_name cfg)
        (smtp_require_delivery_value cfg))"

definition missing_for_delivery :: "email_provider \<Rightarrow> bool" where
  "missing_for_delivery p \<longleftrightarrow> falsy (ep_host p) \<or> falsy (ep_from_email p) \<or> falsy (ep_password p)"

definition mail_message :: "email_provider \<Rightarrow> string \<Rightarrow> string \<Rightarrow> string \<Rightarrow> email_message" where
  "mail_message p to_email subject body =
     \<lparr>em_host = or_empty (ep_host p), em_port = ep_port p, em_username = ep_username p,
      em_password = ep_password p, em_use_tls = ep_use_tls p,
      em_from = (ep_from_name p, or_empty (ep_from_email p)), em_to = to_email,
      em_subject = subject, em_body = body\<rparr>"

text \<open>\<open>True\<close> after a delivery, \<open>None\<close> where it was skipped on purpose.\<close>

definition send ::
  "'r extern \<Rightarrow> email_provider \<Rightarrow> string \<Rightarrow> string \<Rightarrow> string \<Rightarrow> ('r, bool option) aprog" where
  "send X p to_email subject body =
     (if ep_require_delivery p \<and> missing_for_delivery p
      then raise (RuntimeError ''Email delivery is not configured'')
      else if falsy (ep_host p) \<or> falsy (ep_from_email p) then ret None
      else if falsy (ep_password p) then ret None
      else
        bindE (draw (smtp_send X (mail_message p to_email subject body))) (\<lambda>answer.
          case answer of SmtpSent \<Rightarrow> ret (Some True) | SmtpRaised e \<Rightarrow> raise e))"

section \<open>Requesting a code\<close>

definition hash_reset_token :: "'r extern \<Rightarrow> auth_settings \<Rightarrow> string \<Rightarrow> string" where
  "hash_reset_token X cfg raw_token = hmac_sha256_hex X (password_reset_token_pepper cfg) raw_token"

definition zero_pad :: "nat \<Rightarrow> string \<Rightarrow> string" where
  "zero_pad w digits = replicate (w - length digits) CHR ''0'' @ digits"

definition generate_code :: "'r extern \<Rightarrow> ('r, string) aprog" where
  "generate_code X = draw (\<lambda>n. zero_pad 6 (str_nat (randbelow X n 1000000)))"

definition mark_access_sessions_revoked ::
  "'r extern \<Rightarrow> auth_settings \<Rightarrow> uuid list \<Rightarrow> ('r, unit) aprog" where
  "mark_access_sessions_revoked X cfg session_ids =
     forE session_ids (\<lambda>sid.
       redis_set_ex (redis_cmds X) (access_session_revoked_key (str_uuid sid)) ''1''
         (max (jwt_access_ttl_seconds cfg) 60))"

definition unable_to_send :: exn where
  "unable_to_send =
     ServiceUnavailableException
       ''Unable to send password reset email. Check SMTP settings or try again later.''"

text \<open>Line breaks are \<open>char_of 10\<close>.\<close>

definition reset_mail_body :: "string \<Rightarrow> string" where
  "reset_mail_body code = ''Your 6-digit password reset code is: '' @ code @ [char_of (10 :: nat)]"

text \<open>
  The \<open>try\<close> around the mail. A skipped delivery raises \<open>ServiceUnavailableException\<close>, which the last handler catches
  as well. The handlers roll the session back, which expires the user they then log: \<open>str(user.id)\<close> reloads an expired
  attribute of an asynchronous session and raises \<open>MissingGreenlet\<close>, so that the exception prepared for the
  client is not reached.
\<close>

definition send_reset_mail :: "'r extern \<Rightarrow> auth_settings \<Rightarrow> user \<Rightarrow> string \<Rightarrow> ('r, unit) aprog" where
  "send_reset_mail X cfg u code =
     tryE
       (bindE (send X (get_email_provider cfg) (email u) ''Password reset code'' (reset_mail_body code))
         (\<lambda>sent. if sent \<noteq> Some True then thenE session_rollback (raise unable_to_send) else ret ()))
       (\<lambda>e. thenE session_rollback (raise MissingGreenlet))"

definition request_reset ::
  "'r extern \<Rightarrow> auth_settings \<Rightarrow> string \<Rightarrow> string option \<Rightarrow> string option \<Rightarrow> ('r, bool) aprog" where
  "request_reset X cfg e ip ua =
     bindE (get_by_email (lower e)) (\<lambda>found.
       case found of
         None \<Rightarrow> raise UnknownUserPasswordResetException
       | Some u \<Rightarrow>
           if password_reset_blocked u then
             raise (PasswordResetFlowBlockedException (password_reset_flow_blocked_message cfg))
           else if \<not> smtp_is_configured cfg then
             (if auth_allow_missing_smtp cfg then ret False
              else raise (ServiceUnavailableException
                ''Password reset email is not configured. Contact the administrator.''))
           else
             bindE (generate_code X) (\<lambda>code.
             bindE time_now (\<lambda>now.
             thenE (mark_active_for_user_used (u_id u) now)
            (thenE (password_reset_create X (u_id u) (hash_reset_token X cfg code)
                      (now + password_reset_token_ttl_value cfg)
                      (Some (normalize_optional ip)) (Some (normalize_optional ua)))
            (thenE (send_reset_mail X cfg u code)
            (thenE (log_event X AUDIT_PASSWORD_RESET_REQUESTED ''success'' (Some (u_id u)) (Some (u_id u))
                      ip ua (Some [(''email'', JStr (email u))]))
            (thenE session_commit (ret True))))))))"

section \<open>Resetting the password\<close>

definition record_reset_failure ::
  "'r extern \<Rightarrow> auth_settings \<Rightarrow> string \<Rightarrow> string \<Rightarrow> user option \<Rightarrow> ('r, unit) aprog" where
  "record_reset_failure X cfg identifier account_identifier found =
     thenE (record_failure X cfg ''password_reset'' identifier)
    (bindE (record_failure X cfg ''password_reset_account'' account_identifier) (\<lambda>acct_attempts.
       case found of
         None \<Rightarrow> ret ()
       | Some u \<Rightarrow>
           whenE (acct_attempts \<ge> brute_force_password_reset_max_attempts cfg)
             (thenE (mutate_user u (\<lambda>x. x\<lparr>password_reset_blocked := True\<rparr>)) session_commit)))"

definition invalid_reset_code :: exn where
  "invalid_reset_code = BadRequestException ''Invalid or expired reset code''"

text \<open>From the point where the code was found genuine.\<close>

definition reset_accepted ::
  "'r extern \<Rightarrow> auth_settings \<Rightarrow> string \<Rightarrow> string \<Rightarrow> user \<Rightarrow> password_reset_token \<Rightarrow> string \<Rightarrow>
   int \<Rightarrow> string option \<Rightarrow> string option \<Rightarrow> ('r, unit) aprog" where
  "reset_accepted X cfg identifier account_identifier u rec new_password now ip ua =
     bindE (hash_password X new_password) (\<lambda>ph.
     bindE (update_password u ph) (\<lambda>_.
     thenE (mark_used rec now)
    (bindE (list_active_session_ids_for_user (u_id u)) (\<lambda>active_session_ids.
     thenE (revoke_all_for_user (u_id u) ''password_reset'')
    (thenE (revoke_user_sessions (u_id u))
    (thenE (mark_access_sessions_revoked X cfg active_session_ids)
    (thenE (clear_failures X cfg ''password_reset'' identifier)
    (thenE (clear_failures X cfg ''password_reset_account'' account_identifier)
    (thenE (log_event X AUDIT_PASSWORD_RESET_COMPLETED ''success'' (Some (u_id u)) (Some (u_id u)) ip ua None)
       session_commit)))))))))"

definition reset_password ::
  "'r extern \<Rightarrow> auth_settings \<Rightarrow> string \<Rightarrow> string \<Rightarrow> string \<Rightarrow> string option \<Rightarrow> string option \<Rightarrow>
   ('r, unit) aprog" where
  "reset_password X cfg e code new_password ip ua =
     (let normalized_email = lower e;
          identifier = login_identifier normalized_email ip;
          account_identifier = normalized_email in
      thenE (assert_not_locked X cfg ''password_reset'' identifier)
     (thenE (assert_not_locked X cfg ''password_reset_account'' account_identifier)
     (bindE (get_by_email normalized_email) (\<lambda>found.
        case found of
          None \<Rightarrow>
            thenE (record_reset_failure X cfg identifier account_identifier None) (raise invalid_reset_code)
        | Some u \<Rightarrow>
            if password_reset_blocked u then
              raise (PasswordResetFlowBlockedException (password_reset_flow_blocked_message cfg))
            else
              bindE (get_active_for_user_by_hash (u_id u) (hash_reset_token X cfg code)) (\<lambda>row.
                case row of
                  None \<Rightarrow>
                    thenE (record_reset_failure X cfg identifier account_identifier (Some u))
                      (raise invalid_reset_code)
                | Some rec \<Rightarrow>
                    if pr_used_at rec \<noteq> None then
                      thenE (record_reset_failure X cfg identifier account_identifier (Some u))
                        (raise invalid_reset_code)
                    else
                      bindE time_now (\<lambda>now.
                        if pr_expires_at rec < now then
                          thenE (record_reset_failure X cfg identifier account_identifier (Some u))
                            (raise invalid_reset_code)
                        else reset_accepted X cfg identifier account_identifier u rec new_password now ip ua))))))"

section \<open>A completed reset\<close>

text \<open>The tables after a completed reset, but for the audit event.\<close>

definition reset_db :: "int \<Rightarrow> string \<Rightarrow> user \<Rightarrow> password_reset_token \<Rightarrow> auth_db \<Rightarrow> auth_db" where
  "reset_db now ph u rec d =
     d\<lparr>users := update_where (\<lambda>x. u_id x = u_id u)
          (\<lambda>x. x\<lparr>password_hash := ph, login_blocked := False, password_reset_blocked := False\<rparr>) (users d),
       password_reset_tokens := update_where (\<lambda>x. pr_id x = pr_id rec)
          (\<lambda>x. x\<lparr>pr_used_at := Some now\<rparr>) (password_reset_tokens d),
       refresh_tokens := update_where (\<lambda>x. rt_user_id x = u_id u \<and> revoked_at x = None)
          (\<lambda>x. x\<lparr>revoked_at := Some now, revocation_reason := Some ''password_reset''\<rparr>) (refresh_tokens d),
       user_sessions := update_where (\<lambda>x. us_user_id x = u_id u \<and> us_revoked_at x = None)
          (\<lambda>x. x\<lparr>us_revoked_at := Some now\<rparr>) (user_sessions d)\<rparr>"

definition active_sessions :: "auth_db \<Rightarrow> uuid \<Rightarrow> user_session list" where
  "active_sessions d uid = filter (\<lambda>v. us_user_id v = uid \<and> us_revoked_at v = None) (user_sessions d)"

lemma reset_db_fields:
  "audit_events (reset_db now ph u rec d) = audit_events d"
  "\<forall>x \<in> set (refresh_tokens (reset_db now ph u rec d)). rt_user_id x = u_id u \<longrightarrow> revoked_at x \<noteq> None"
  "active_sessions (reset_db now ph u rec d) (u_id u) = []"
  "filter (\<lambda>x. rt_user_id x \<noteq> u_id u) (refresh_tokens (reset_db now ph u rec d)) =
   filter (\<lambda>x. rt_user_id x \<noteq> u_id u) (refresh_tokens d)"
  "filter (\<lambda>x. us_user_id x \<noteq> u_id u) (user_sessions (reset_db now ph u rec d)) =
   filter (\<lambda>x. us_user_id x \<noteq> u_id u) (user_sessions d)"
proof -
  show "audit_events (reset_db now ph u rec d) = audit_events d" by (simp add: reset_db_def)
  show "\<forall>x \<in> set (refresh_tokens (reset_db now ph u rec d)). rt_user_id x = u_id u \<longrightarrow> revoked_at x \<noteq> None"
    by (simp add: reset_db_def ball_update_where)
  show "active_sessions (reset_db now ph u rec d) (u_id u) = []"
    by (simp add: reset_db_def active_sessions_def filter_empty_conv ball_update_where)
  show "filter (\<lambda>x. rt_user_id x \<noteq> u_id u) (refresh_tokens (reset_db now ph u rec d)) =
     filter (\<lambda>x. rt_user_id x \<noteq> u_id u) (refresh_tokens d)"
    unfolding reset_db_def by (simp, rule filter_update_where_out) auto
  show "filter (\<lambda>x. us_user_id x \<noteq> u_id u) (user_sessions (reset_db now ph u rec d)) =
     filter (\<lambda>x. us_user_id x \<noteq> u_id u) (user_sessions d)"
    unfolding reset_db_def by (simp, rule filter_update_where_out) auto
qed

text \<open>Every listed session is refused at the edge from now on; no other key changes.\<close>

lemma mark_access_sessions_revoked_Inr:
  assumes R: "redis_store (redis_cmds X) look"
    and "mark_access_sessions_revoked X cfg sids s = (Inr a, t)"
  shows "t = s\<lparr>redis := redis t\<rparr> \<and>
    (\<forall>sid \<in> set sids. access_revoked_until look (redis t) (clock s) sid (clock s + access_revoked_ttl cfg)) \<and>
    (\<forall>k. (\<forall>sid \<in> set sids. k \<noteq> access_session_revoked_key (str_uuid sid)) \<longrightarrow>
       look (redis t) (clock s) k = look (redis s) (clock s) k)"
  using assms(2)
proof (induction sids arbitrary: s)
  case Nil
  then show ?case by (auto simp: mark_access_sessions_revoked_def)
next
  case (Cons v sids)
  let ?k = "access_session_revoked_key (str_uuid v)"
  obtain r where r: "r_set_ex (redis_cmds X) (clock s) ?k ''1'' (access_revoked_ttl cfg) (redis s) = Some r"
    and rest: "mark_access_sessions_revoked X cfg sids (s\<lparr>redis := r\<rparr>) = (Inr a, t)"
    using Cons.prems
    by (auto simp: mark_access_sessions_revoked_def run_redis_write access_revoked_ttl_def
        elim!: thenE_InrE split: option.splits)
  note law = conjunct2 [OF redis_store.set_law [OF R r]]
  note IH = Cons.IH [OF rest, simplified]
  have "access_revoked_until look (redis t) (clock s) v (clock s + access_revoked_ttl cfg)"
  proof (cases "v \<in> set sids")
    case False
    then have "\<forall>sid \<in> set sids. ?k \<noteq> access_session_revoked_key (str_uuid sid)"
      by (auto simp: str_uuid_inject)
    with IH have "look (redis t) (clock s) ?k = look r (clock s) ?k" by blast
    then show ?thesis by (simp add: access_revoked_until_def law)
  qed (use IH in blast)
  then show ?case using IH law by (auto simp: access_revoked_until_def)
qed

lemma clear_failures_look:
  assumes "redis_store (redis_cmds X) look" "clear_failures X cfg sc i s = (Inr a, t)"
    and "k \<noteq> brute_force_fail_key sc (identifier_digest X cfg i)"
    and "k \<noteq> brute_force_lock_key sc (identifier_digest X cfg i)"
  shows "look (redis t) (clock s) k = look (redis s) (clock s) k"
  using assms(2-) redis_store.delete_law [OF assms(1)]
  by (auto simp: clear_failures_def Let_def run_redis_write split: option.splits)

lemma reset_accepted_Inr:
  assumes R: "redis_store (redis_cmds X) look"
    and run: "reset_accepted X cfg i ai u rec pw (clock s) ip ua s = (Inr a, t)"
  shows "good_password pw \<and>
    (\<exists>e. committed t = (reset_db (clock s) (argon2_hash X (draws s) pw) u rec (db s))
            \<lparr>audit_events := audit_events (db s) @ [e]\<rparr>) \<and> db t = committed t \<and> clock t = clock s \<and>
    (\<forall>v \<in> set (active_sessions (db s) (u_id u)).
       access_revoked_until look (redis t) (clock s) (us_id v) (clock s + access_revoked_ttl cfg))"
proof -
  let ?ph = "argon2_hash X (draws s) pw"
  let ?s1 = "s\<lparr>draws := Suc (draws s)\<rparr>"
  let ?d = "reset_db (clock s) ?ph u rec (db s)"
  let ?ids = "map us_id (active_sessions (db s) (u_id u))"
  obtain ph sh where h: "hash_password X pw s = (Inr ph, sh)"
    using run by (auto simp: reset_accepted_def elim: bindE_InrE)
  note hp = hash_password_Inr [OF h]
  obtain b s2 c s3 f s4 where m: "mark_access_sessions_revoked X cfg ?ids (?s1\<lparr>db := ?d\<rparr>) = (Inr b, s2)"
    and c1: "clear_failures X cfg ''password_reset'' i s2 = (Inr c, s3)"
    and c2: "clear_failures X cfg ''password_reset_account'' ai s3 = (Inr f, s4)"
    and l: "thenE (log_event X AUDIT_PASSWORD_RESET_COMPLETED ''success'' (Some (u_id u)) (Some (u_id u)) ip ua None)
              session_commit s4 = (Inr a, t)"
    using run h hp
    by (auto simp: reset_accepted_def update_password_def mark_used_def list_active_session_ids_for_user_def
        revoke_all_for_user_def revoke_user_sessions_def reset_db_def active_sessions_def
        elim!: thenE_InrE bindE_InrE split: if_splits)
  note M = mark_access_sessions_revoked_Inr [OF R m]
  have s2: "db s2 = ?d" "clock s2 = clock s"
    using redis_only_fields(1,3) [OF conjunct1 [OF M]] by simp_all
  note f = failure_frames(1-3) [OF c1] failure_frames(1-3) [OF c2]
  have keep: "look (redis s4) (clock s) (access_session_revoked_key x) = look (redis s2) (clock s) (access_session_revoked_key x)" for x
    using clear_failures_look [OF R c1, of "access_session_revoked_key x"]
      clear_failures_look [OF R c2, of "access_session_revoked_key x"] f s2 by simp
  have act: "\<forall>v \<in> set (active_sessions (db s) (u_id u)).
       access_revoked_until look (redis s4) (clock s) (us_id v) (clock s + access_revoked_ttl cfg)"
    using M by (simp add: access_revoked_until_def keep)
  from l show ?thesis
    unfolding log_commit_ret
  proof (rule log_commit_run)
    fix s' assume rec: "recorded s4 s'" and "ret () s' = (Inr a, t)"
    then have t: "t = s'" by simp
    from rec obtain e where "committed s' = (db s4)\<lparr>audit_events := audit_events (db s4) @ [e]\<rparr>"
      by (auto simp: recorded_def)
    then have "committed t = ?d\<lparr>audit_events := audit_events (db s) @ [e]\<rparr>"
      using t f(4) f(1) s2 by (simp add: reset_db_fields(1))
    moreover have "db t = committed t" "clock t = clock s" "redis t = redis s4"
      using recordedD(7-9) [OF rec] t f s2 by simp_all
    ultimately show ?thesis using hp act by auto
  qed simp
qed

lemma scalar_run: "scalar_one_or_none rows s = (r, t) \<Longrightarrow> t = s"
  using scalar_state [of rows s] by simp

lemma run_get_active:
  "get_active_for_user_by_hash uid h s =
     scalar_one_or_none (filter (\<lambda>p. pr_token_hash p = h \<and> pr_user_id p = uid \<and> pr_used_at p = None)
       (password_reset_tokens (db s))) s"
  by (simp add: get_active_for_user_by_hash_def)

lemma reset_password_Inr:
  assumes "reset_password X cfg e code pw ip ua s = (Inr a, t)"
  obtains u rec where "u \<in> set (users (db s))" "email u = lower e" "\<not> password_reset_blocked u"
    "rec \<in> set (password_reset_tokens (db s))" "pr_token_hash rec = hash_reset_token X cfg code"
    "pr_user_id rec = u_id u" "pr_used_at rec = None" "clock s \<le> pr_expires_at rec"
    "assert_not_locked X cfg ''password_reset'' (login_identifier (lower e) ip) s = (Inr (), s)"
    "assert_not_locked X cfg ''password_reset_account'' (lower e) s = (Inr (), s)"
    "reset_accepted X cfg (login_identifier (lower e) ip) (lower e) u rec pw (clock s) ip ua s = (Inr a, t)"
proof -
  note d = assms [unfolded reset_password_def Let_def]
  obtain a1 s1 a2 s2 where l1: "assert_not_locked X cfg ''password_reset'' (login_identifier (lower e) ip) s = (Inr a1, s1)"
    and l2: "assert_not_locked X cfg ''password_reset_account'' (lower e) s1 = (Inr a2, s2)"
    using d by (auto elim!: thenE_InrE)
  have st: "s1 = s" "s2 = s" using assert_not_locked_state [OF l1] assert_not_locked_state [OF l2] by auto
  obtain found s3 where q: "get_by_email (lower e) s = (Inr found, s3)"
    using d l1 l2 st by (auto elim!: bindE_InrE)
  have s3: "s3 = s" using q unfolding run_get_by_email by (rule scalar_run)
  have no: "thenE p (raise e') s' \<noteq> (Inr a, t)" for p :: "('a, unit) aprog" and e' s' by (auto elim: thenE_InrE)
  obtain u where u: "found = Some u" using d l1 l2 st q s3 no by (cases found) auto
  have um: "u \<in> set (users (db s))" "email u = lower e"
    using scalar_Some [of "\<lambda>u. email u = lower (lower e)" "users (db s)" s u s3] q u
    by (auto simp: run_get_by_email lower_idem)
  have nb: "\<not> password_reset_blocked u" using d l1 l2 st q s3 u by auto
  obtain row s4 where g: "get_active_for_user_by_hash (u_id u) (hash_reset_token X cfg code) s = (Inr row, s4)"
    using d l1 l2 st q s3 u nb by (auto elim!: bindE_InrE)
  have s4: "s4 = s" using g unfolding run_get_active by (rule scalar_run)
  obtain rec where rec: "row = Some rec" using d l1 l2 st q s3 u nb g s4 no by (cases row) auto
  have rm: "rec \<in> set (password_reset_tokens (db s))" "pr_token_hash rec = hash_reset_token X cfg code"
    "pr_user_id rec = u_id u" "pr_used_at rec = None"
    using g rec s4 by (auto simp: get_active_for_user_by_hash_def dest!: scalar_Some)
  have late: "(if pr_expires_at rec < clock s then
        thenE (record_reset_failure X cfg (login_identifier (lower e) ip) (lower e) (Some u)) (raise invalid_reset_code)
      else reset_accepted X cfg (login_identifier (lower e) ip) (lower e) u rec pw (clock s) ip ua) s = (Inr a, t)"
    using d l1 l2 st q s3 u nb g s4 rec rm(4) by simp
  then have ex: "clock s \<le> pr_expires_at rec" using no by (simp split: if_splits)
  show thesis
    by (rule that [OF um nb rm ex]) (use l1 l2 st late ex in auto)
qed

text \<open>
  C18: what a completed password reset means. It happens only for a known user whose reset flow is not
  blocked, with neither lock set, against a code that was issued to that user, is unused
  and unexpired, and with a password that meets the policy. What it commits: the new
  hash and both block flags cleared for that user and no other; the code used; no refresh token of
  the user usable and no session active, while those of other users are as before. Every session that
  was active is refused by the cache for the lifetime of an access token issued now.
\<close>

theorem password_reset_effects:
  assumes "redis_store (redis_cmds X) look" "reset_password X cfg e code pw ip ua s = (Inr a, t)"
  shows "\<exists>u \<in> set (users (db s)). \<exists>rec \<in> set (password_reset_tokens (db s)). \<exists>n.
    email u = lower e \<and> \<not> password_reset_blocked u \<and> good_password pw \<and>
    pr_user_id rec = u_id u \<and> pr_token_hash rec = hash_reset_token X cfg code \<and>
    pr_used_at rec = None \<and> clock s \<le> pr_expires_at rec \<and>
    look (redis s) (clock s) (brute_force_lock_key ''password_reset''
      (identifier_digest X cfg (login_identifier (lower e) ip))) = None \<and>
    look (redis s) (clock s) (brute_force_lock_key ''password_reset_account''
      (identifier_digest X cfg (lower e))) = None \<and>
    users (committed t) = map (\<lambda>x. if u_id x = u_id u then x\<lparr>password_hash := argon2_hash X n pw,
        login_blocked := False, password_reset_blocked := False\<rparr> else x) (users (db s)) \<and>
    password_reset_tokens (committed t) = map (\<lambda>x. if pr_id x = pr_id rec
        then x\<lparr>pr_used_at := Some (clock s)\<rparr> else x) (password_reset_tokens (db s)) \<and>
    (\<forall>x \<in> set (refresh_tokens (committed t)). rt_user_id x = u_id u \<longrightarrow> revoked_at x \<noteq> None) \<and>
    active_sessions (committed t) (u_id u) = [] \<and>
    filter (\<lambda>x. rt_user_id x \<noteq> u_id u) (refresh_tokens (committed t)) =
      filter (\<lambda>x. rt_user_id x \<noteq> u_id u) (refresh_tokens (db s)) \<and>
    filter (\<lambda>x. us_user_id x \<noteq> u_id u) (user_sessions (committed t)) =
      filter (\<lambda>x. us_user_id x \<noteq> u_id u) (user_sessions (db s)) \<and>
    (\<forall>v \<in> set (active_sessions (db s) (u_id u)). \<forall>now.
       clock s \<le> now \<and> now < clock s + jwt_access_ttl_seconds cfg \<longrightarrow>
       look (redis t) now (access_session_revoked_key (str_uuid (us_id v))) \<noteq> None)"
proof -
  obtain u rec where u: "u \<in> set (users (db s))" "email u = lower e" "\<not> password_reset_blocked u"
    and rec: "rec \<in> set (password_reset_tokens (db s))" "pr_token_hash rec = hash_reset_token X cfg code"
    "pr_user_id rec = u_id u" "pr_used_at rec = None" "clock s \<le> pr_expires_at rec"
    and locks: "assert_not_locked X cfg ''password_reset'' (login_identifier (lower e) ip) s = (Inr (), s)"
    "assert_not_locked X cfg ''password_reset_account'' (lower e) s = (Inr (), s)"
    and run: "reset_accepted X cfg (login_identifier (lower e) ip) (lower e) u rec pw (clock s) ip ua s = (Inr a, t)"
    using assms(2) by (rule reset_password_Inr)
  from reset_accepted_Inr [OF assms(1) run] obtain ev where good: "good_password pw"
    and com: "committed t = (reset_db (clock s) (argon2_hash X (draws s) pw) u rec (db s))
            \<lparr>audit_events := audit_events (db s) @ [ev]\<rparr>"
    and until: "\<forall>v \<in> set (active_sessions (db s) (u_id u)).
       access_revoked_until look (redis t) (clock s) (us_id v) (clock s + access_revoked_ttl cfg)"
    by blast
  have out: "look (redis t) now (access_session_revoked_key (str_uuid (us_id v))) \<noteq> None"
    if "v \<in> set (active_sessions (db s) (u_id u))" "clock s \<le> now" "now < clock s + jwt_access_ttl_seconds cfg" for v now
    using redis_store.look_persists [OF assms(1), of "redis t" "clock s" _ _ _ now] bspec [OF until that(1)] that(2,3)
    by (auto simp: access_revoked_until_def access_revoked_ttl_def)
  note F = reset_db_fields [where now = "clock s" and ph = "argon2_hash X (draws s) pw" and u = u
      and rec = rec and d = "db s"]
  have act: "active_sessions (committed t) (u_id u) = []"
    using F(3) by (simp add: com active_sessions_def)
  have tabs: "users (committed t) = map (\<lambda>x. if u_id x = u_id u then x\<lparr>password_hash := argon2_hash X (draws s) pw,
        login_blocked := False, password_reset_blocked := False\<rparr> else x) (users (db s))"
    "password_reset_tokens (committed t) = map (\<lambda>x. if pr_id x = pr_id rec
        then x\<lparr>pr_used_at := Some (clock s)\<rparr> else x) (password_reset_tokens (db s))"
    by (simp_all add: com reset_db_def update_where_def)
  have toks: "\<forall>x \<in> set (refresh_tokens (committed t)). rt_user_id x = u_id u \<longrightarrow> revoked_at x \<noteq> None"
    "filter (\<lambda>x. rt_user_id x \<noteq> u_id u) (refresh_tokens (committed t)) =
      filter (\<lambda>x. rt_user_id x \<noteq> u_id u) (refresh_tokens (db s))"
    "filter (\<lambda>x. us_user_id x \<noteq> u_id u) (user_sessions (committed t)) =
      filter (\<lambda>x. us_user_id x \<noteq> u_id u) (user_sessions (db s))"
    using F(2,4,5) by (simp_all add: com)
  note free = conjunct2 [OF redis_store.assert_not_locked_passes [OF assms(1) refl locks(1)]]
    conjunct2 [OF redis_store.assert_not_locked_passes [OF assms(1) refl locks(2)]]
  show ?thesis
    by (intro bexI [OF _ u(1)] bexI [OF _ rec(1)] exI [of _ "draws s"] conjI ballI allI impI)
       (fact u rec good free tabs toks act | use toks(1) out in blast)+
qed

section \<open>A requested code\<close>

definition is_reset_code :: "string \<Rightarrow> bool" where
  "is_reset_code c \<longleftrightarrow> length c = 6 \<and> list_all is_digit c"

lemma length_str_nat_le: "n < 10 ^ k \<Longrightarrow> 0 < k \<Longrightarrow> length (str_nat n) \<le> k"
proof (induction k arbitrary: n)
  case (Suc k)
  show ?case
  proof (cases "n < 10")
    case True
    then show ?thesis by (subst str_nat.simps) simp
  next
    case False
    then have "k \<noteq> 0" using Suc.prems by (cases k) auto
    moreover have "n div 10 < 10 ^ k" using Suc.prems by simp
    ultimately have "length (str_nat (n div 10)) \<le> k" using Suc.IH by simp
    then show ?thesis using False by (subst str_nat.simps) simp
  qed
qed simp

lemma zero_pad_code:
  assumes "n < 1000000"
  shows "is_reset_code (zero_pad 6 (str_nat n))"
proof -
  have "length (str_nat n) \<le> 6" using length_str_nat_le [of n 6] assms by simp
  moreover have "list_all is_digit (str_nat n)"
    using str_nat_no_minus by (auto simp: list_all_iff)
  ultimately show ?thesis
    by (auto simp: is_reset_code_def zero_pad_def list_all_iff is_digit_def)
qed

lemma send_Inr_True:
  assumes "send X p to sub body s = (Inr (Some True), t)"
  shows "smtp_send X (mail_message p to sub body) (draws s) = SmtpSent \<and> t = s\<lparr>draws := Suc (draws s)\<rparr>"
  using assms by (auto simp: send_def elim!: bindE_InrE split: if_splits smtp_outcome.splits)

lemma draws_self: "\<exists>n. s = s\<lparr>draws := n\<rparr>"
  by (rule exI [of _ "draws s"]) simp

lemma send_state: "send X p to sub body s = (r, t) \<Longrightarrow> \<exists>n. t = s\<lparr>draws := n\<rparr>"
  by (auto simp: send_def bindE_def draws_self split: if_splits smtp_outcome.splits)

lemma send_reset_mail_cases:
  obtains (sent) "send_reset_mail X cfg u code s = (Inr (), s\<lparr>draws := Suc (draws s)\<rparr>)"
    "smtp_send X (mail_message (get_email_provider cfg) (email u) ''Password reset code'' (reset_mail_body code))
       (draws s) = SmtpSent"
  | (failed) n where "send_reset_mail X cfg u code s = (Inl MissingGreenlet, s\<lparr>draws := n, db := committed s\<rparr>)"
proof -
  let ?p = "get_email_provider cfg"
  let ?send = "send X ?p (email u) ''Password reset code'' (reset_mail_body code)"
  obtain r t where run: "?send s = (r, t)" by force
  then obtain n where t: "t = s\<lparr>draws := n\<rparr>" using send_state by blast
  show thesis
  proof (cases "r = Inr (Some True)")
    case True
    then show thesis
      using sent run send_Inr_True [of X ?p "email u" "''Password reset code''" "reset_mail_body code" s t]
      by (simp add: send_reset_mail_def)
  next
    case False
    then show thesis using failed [of n] run t by (cases r) (simp_all add: send_reset_mail_def)
  qed
qed

text \<open>The rows of one user that could still be used.\<close>

definition open_codes :: "auth_db \<Rightarrow> uuid \<Rightarrow> password_reset_token list" where
  "open_codes d uid = filter (\<lambda>p. pr_user_id p = uid \<and> pr_used_at p = None) (password_reset_tokens d)"

definition code_row :: "'r extern \<Rightarrow> uuid \<Rightarrow> string \<Rightarrow> int \<Rightarrow> string option \<Rightarrow> string option \<Rightarrow> nat \<Rightarrow> int \<Rightarrow>
  password_reset_token" where
  "code_row X uid h exp ip ua n now =
     \<lparr>pr_id = uuid4 X n, pr_user_id = uid, pr_token_hash = h, requested_ip = ip,
      requested_user_agent = ua, pr_created_at = now, pr_expires_at = exp, pr_used_at = None\<rparr>"

lemma password_reset_create_cases:
  obtains (raised) e where "password_reset_create X uid h exp ip ua s = (Inl e, s\<lparr>draws := Suc (draws s)\<rparr>)"
  | (stored) "password_reset_create X uid h exp ip ua s =
      (Inr (), s\<lparr>draws := Suc (draws s), db := (db s)\<lparr>password_reset_tokens :=
         password_reset_tokens (db s) @ [code_row X uid h exp ip ua (draws s) (clock s)]\<rparr>\<rparr>)"
  by (cases "fits 128 h \<and> client_fits ip ua";
      cases "h \<notin> pr_token_hash ` set (password_reset_tokens (db s)) \<and> uuid4 X (draws s) \<notin> pr_id ` set (password_reset_tokens (db s))")
     (auto simp: password_reset_create_def code_row_def)

text \<open>Old codes closed, one new code: the only open one of the user.\<close>

definition new_code_db :: "int \<Rightarrow> uuid \<Rightarrow> password_reset_token \<Rightarrow> auth_db \<Rightarrow> auth_db" where
  "new_code_db now uid row d =
     d\<lparr>password_reset_tokens := update_where (\<lambda>p. pr_user_id p = uid \<and> pr_used_at p = None)
          (\<lambda>p. p\<lparr>pr_used_at := Some now\<rparr>) (password_reset_tokens d) @ [row]\<rparr>"

lemma new_code_db_codes:
  assumes "pr_user_id row = uid" "pr_used_at row = None"
  shows "open_codes (new_code_db now uid row d) uid = [row]"
    "filter (\<lambda>p. pr_user_id p \<noteq> uid) (password_reset_tokens (new_code_db now uid row d)) =
     filter (\<lambda>p. pr_user_id p \<noteq> uid) (password_reset_tokens d)"
proof -
  have "filter (\<lambda>p. pr_user_id p = uid \<and> pr_used_at p = None)
      (update_where (\<lambda>p. pr_user_id p = uid \<and> pr_used_at p = None) (\<lambda>p. p\<lparr>pr_used_at := Some now\<rparr>)
        (password_reset_tokens d)) = []"
    by (simp add: filter_empty_conv ball_update_where)
  then show "open_codes (new_code_db now uid row d) uid = [row]"
    using assms by (simp add: open_codes_def new_code_db_def)
  have "filter (\<lambda>p. pr_user_id p \<noteq> uid)
      (update_where (\<lambda>p. pr_user_id p = uid \<and> pr_used_at p = None) (\<lambda>p. p\<lparr>pr_used_at := Some now\<rparr>)
        (password_reset_tokens d)) = filter (\<lambda>p. pr_user_id p \<noteq> uid) (password_reset_tokens d)"
    by (rule filter_update_where_out) auto
  then show "filter (\<lambda>p. pr_user_id p \<noteq> uid) (password_reset_tokens (new_code_db now uid row d)) =
     filter (\<lambda>p. pr_user_id p \<noteq> uid) (password_reset_tokens d)"
    using assms by (simp add: new_code_db_def)
qed

text \<open>What a run of \<open>request_reset\<close> for a user with mail configured comes to.\<close>

lemma request_reset_configured:
  assumes q: "get_by_email (lower e) s = (Inr (Some u), s)"
    and ok: "\<not> password_reset_blocked u" "smtp_is_configured cfg"
    and run: "request_reset X cfg e ip ua s = (r, t)"
  obtains (raised) er where "r = Inl er" "committed t = committed s" "redis t = redis s"
  | (sent) row ev code n where "r = Inr True" "redis t = redis s"
      "code = zero_pad 6 (str_nat (randbelow X (draws s) 1000000))"
      "row = code_row X (u_id u) (hash_reset_token X cfg code) (clock s + password_reset_token_ttl_value cfg)
         (Some (normalize_optional ip)) (Some (normalize_optional ua)) (Suc (draws s)) (clock s)"
      "smtp_send X (mail_message (get_email_provider cfg) (email u) ''Password reset code'' (reset_mail_body code))
         n = SmtpSent"
      "committed t = (new_code_db (clock s) (u_id u) row (db s))\<lparr>audit_events := audit_events (db s) @ [ev]\<rparr>"
proof -
  define code where "code = zero_pad 6 (str_nat (randbelow X (draws s) 1000000))"
  let ?h = "hash_reset_token X cfg code" and ?exp = "clock s + password_reset_token_ttl_value cfg"
  let ?ip = "Some (normalize_optional ip)" and ?ua = "Some (normalize_optional ua)"
  let ?s1 = "s\<lparr>draws := Suc (draws s), db := (db s)\<lparr>password_reset_tokens :=
      update_where (\<lambda>p. pr_user_id p = u_id u \<and> pr_used_at p = None) (\<lambda>p. p\<lparr>pr_used_at := Some (clock s)\<rparr>)
        (password_reset_tokens (db s))\<rparr>\<rparr>"
  let ?log = "log_event X AUDIT_PASSWORD_RESET_REQUESTED ''success'' (Some (u_id u)) (Some (u_id u))
                      ip ua (Some [(''email'', JStr (email u))])"
  have main: "thenE (password_reset_create X (u_id u) ?h ?exp ?ip ?ua)
      (thenE (send_reset_mail X cfg u code) (thenE ?log (thenE session_commit (ret True)))) ?s1 = (r, t)"
    using run q ok by (simp add: request_reset_def generate_code_def mark_active_for_user_used_def code_def)
  let ?row = "code_row X (u_id u) ?h ?exp ?ip ?ua (Suc (draws s)) (clock s)"
  let ?s2 = "s\<lparr>draws := Suc (Suc (draws s)), db := new_code_db (clock s) (u_id u) ?row (db s)\<rparr>"
  show thesis
  proof (rule password_reset_create_cases [of X "u_id u" ?h ?exp ?ip ?ua ?s1])
    fix er assume "password_reset_create X (u_id u) ?h ?exp ?ip ?ua ?s1 = (Inl er, ?s1\<lparr>draws := Suc (draws ?s1)\<rparr>)"
    then show thesis using main raised by auto
  next
    assume "password_reset_create X (u_id u) ?h ?exp ?ip ?ua ?s1 =
      (Inr (), ?s1\<lparr>draws := Suc (draws ?s1), db := (db ?s1)\<lparr>password_reset_tokens :=
         password_reset_tokens (db ?s1) @ [code_row X (u_id u) ?h ?exp ?ip ?ua (draws ?s1) (clock ?s1)]\<rparr>\<rparr>)"
    then have mail: "thenE (send_reset_mail X cfg u code) (thenE ?log (thenE session_commit (ret True))) ?s2 = (r, t)"
      using main by (simp add: new_code_db_def)
    show thesis
    proof (rule send_reset_mail_cases [of X cfg u code ?s2])
      fix n assume "send_reset_mail X cfg u code ?s2 = (Inl MissingGreenlet, ?s2\<lparr>draws := n, db := committed ?s2\<rparr>)"
      then show thesis using mail raised by auto
    next
      assume ok: "send_reset_mail X cfg u code ?s2 = (Inr (), ?s2\<lparr>draws := Suc (draws ?s2)\<rparr>)"
        and sent': "smtp_send X (mail_message (get_email_provider cfg) (email u) ''Password reset code''
            (reset_mail_body code)) (draws ?s2) = SmtpSent"
      let ?s3 = "?s2\<lparr>draws := Suc (draws ?s2)\<rparr>"
      from mail ok have "thenE ?log (thenE session_commit (ret True)) ?s3 = (r, t)" by simp
      then show thesis
      proof (rule log_commit_run)
        fix er assume "r = Inl er" "t = ?s3\<lparr>draws := Suc (draws ?s3)\<rparr>"
        then show thesis using raised by simp
      next
        fix s' assume rec: "recorded ?s3 s'" and "ret True s' = (r, t)"
        then have rt: "r = Inr True" "t = s'" by simp_all
        from rec obtain ev where "committed s' = (db ?s3)\<lparr>audit_events := audit_events (db ?s3) @ [ev]\<rparr>"
          by (auto simp: recorded_def)
        then have "committed t = (new_code_db (clock s) (u_id u) ?row (db s))
            \<lparr>audit_events := audit_events (db s) @ [ev]\<rparr>"
          using rt by (simp add: new_code_db_def)
        then show thesis using sent [OF rt(1) _ code_def refl sent'] recordedD(8) [OF rec] rt by simp
      qed
    qed
  qed
qed

text \<open>
  Requesting a reset code. When the handler raises, for whatever reason (unknown user, blocked
  flow, no mail server, a colliding code, a mail that could not be sent, a failed audit record),
  nothing is committed. When it reports a mail as sent, the mail server accepted a message to the
  user's address with a code of six digits, and what is committed is that the digest of this code is the
  user's only open code, valid for the configured time but at least a minute; the codes of
  other users and all other tables but the audit log are unchanged. When it reports that none was sent, nothing
  changed. The cache is never touched.
\<close>

theorem reset_request_outcome:
  assumes "random_in_range X" "request_reset X cfg e ip ua s = (r, t)"
  shows "redis t = redis s \<and>
    (case r of
       Inl _ \<Rightarrow> committed t = committed s
     | Inr False \<Rightarrow> t = s
     | Inr True \<Rightarrow>
         (\<exists>u \<in> set (users (db s)). \<exists>code n row. email u = lower e \<and> \<not> password_reset_blocked u \<and>
            is_reset_code code \<and>
            smtp_send X (mail_message (get_email_provider cfg) (email u) ''Password reset code''
              (reset_mail_body code)) n = SmtpSent \<and>
            open_codes (committed t) (u_id u) = [row] \<and> pr_token_hash row = hash_reset_token X cfg code \<and>
            pr_expires_at row = clock s + max 60 (password_reset_token_ttl_seconds cfg) \<and>
            filter (\<lambda>p. pr_user_id p \<noteq> u_id u) (password_reset_tokens (committed t)) =
              filter (\<lambda>p. pr_user_id p \<noteq> u_id u) (password_reset_tokens (db s)) \<and>
            users (committed t) = users (db s) \<and> refresh_tokens (committed t) = refresh_tokens (db s) \<and>
            user_sessions (committed t) = user_sessions (db s)))"
proof -
  obtain res s1 where q: "get_by_email (lower e) s = (res, s1)" by force
  have s1: "s1 = s" using q unfolding run_get_by_email by (rule scalar_run)
  note d = assms(2) [unfolded request_reset_def]
  show ?thesis
  proof (cases "\<exists>u. res = Inr (Some u) \<and> \<not> password_reset_blocked u \<and> smtp_is_configured cfg")
    case False
    then show ?thesis using d q s1 by (cases res) (auto split: option.splits if_splits)
  next
    case True
    then obtain u where u: "get_by_email (lower e) s = (Inr (Some u), s)" "\<not> password_reset_blocked u"
      "smtp_is_configured cfg" using q s1 by auto
    have um: "u \<in> set (users (db s))" "email u = lower e"
      using scalar_Some [of "\<lambda>u. email u = lower (lower e)" "users (db s)" s u s] u(1)
      by (auto simp: run_get_by_email lower_idem)
    from u(1,2,3) assms(2) show ?thesis
    proof (cases rule: request_reset_configured)
      case raised
      then show ?thesis by simp
    next
      case (sent row ev code n)
      note row = sent(4) [unfolded code_row_def]
      have "is_reset_code code"
        using assms(1) by (simp add: sent(3) random_in_range_def zero_pad_code)
      moreover note new_code_db_codes [of row "u_id u" "clock s" "db s"]
      ultimately show ?thesis
        using um u(2) sent(1,2,5,6) row
        by (intro conjI) (auto intro!: bexI [of _ u] exI [of _ code] exI [of _ n] exI [of _ row]
            simp: open_codes_def new_code_db_def password_reset_token_ttl_value_def)
    qed
  qed
qed

section \<open>A genuine code is accepted\<close>

lemma mark_access_sessions_revoked_ok:
  assumes "redis_live (redis_cmds X) look"
  shows "\<exists>r. mark_access_sessions_revoked X cfg sids s = (Inr (), s\<lparr>redis := r\<rparr>)"
proof (induction sids arbitrary: s)
  case Nil
  show ?case by (rule exI [of _ "redis s"]) (simp add: mark_access_sessions_revoked_def)
next
  case (Cons v sids)
  obtain r where r: "r_set_ex (redis_cmds X) (clock s) (access_session_revoked_key (str_uuid v)) ''1''
      (max (jwt_access_ttl_seconds cfg) 60) (redis s) = Some r"
    using redis_live.set_ok [OF assms, of "max (jwt_access_ttl_seconds cfg) 60"] by (fastforce simp: max_def)
  show ?case
    using Cons.IH [of "s\<lparr>redis := r\<rparr>"] r by (auto simp: mark_access_sessions_revoked_def run_redis_write)
qed

text \<open>What has to hold for a reset to go through.\<close>

definition reset_ready ::
  "'r extern \<Rightarrow> ('r \<Rightarrow> int \<Rightarrow> string \<Rightarrow> entry option) \<Rightarrow> auth_settings \<Rightarrow> string \<Rightarrow> string \<Rightarrow> string \<Rightarrow>
   string option \<Rightarrow> string option \<Rightarrow> 'r auth_node \<Rightarrow> bool" where
  "reset_ready X look cfg e code pw ip ua s \<longleftrightarrow>
     (\<exists>u rec. filter (\<lambda>u. email u = lower e) (users (db s)) = [u] \<and> \<not> password_reset_blocked u \<and>
        filter (\<lambda>p. pr_token_hash p = hash_reset_token X cfg code \<and> pr_user_id p = u_id u \<and> pr_used_at p = None)
          (password_reset_tokens (db s)) = [rec] \<and> clock s \<le> pr_expires_at rec) \<and>
     look (redis s) (clock s) (brute_force_lock_key ''password_reset''
       (identifier_digest X cfg (login_identifier (lower e) ip))) = None \<and>
     look (redis s) (clock s) (brute_force_lock_key ''password_reset_account''
       (identifier_digest X cfg (lower e))) = None \<and>
     good_password pw \<and> fits 512 (argon2_hash X (draws s) pw) \<and> client_fits ip ua \<and>
     uuid4 X (Suc (draws s)) \<notin> ae_id ` set (audit_events (db s))"

lemma reset_password_ok:
  assumes "redis_live (redis_cmds X) look" "reset_ready X look cfg e code pw ip ua s"
  shows "\<exists>t. reset_password X cfg e code pw ip ua s = (Inr (), t) \<and>
    (\<forall>x \<in> set (users (committed t)). email x = lower e \<longrightarrow>
       password_hash x = argon2_hash X (draws s) pw \<and> \<not> login_blocked x)"
proof -
  from assms(2) obtain u rec where u: "filter (\<lambda>u. email u = lower e) (users (db s)) = [u]" "\<not> password_reset_blocked u"
    and rec: "filter (\<lambda>p. pr_token_hash p = hash_reset_token X cfg code \<and> pr_user_id p = u_id u \<and> pr_used_at p = None)
          (password_reset_tokens (db s)) = [rec]" "clock s \<le> pr_expires_at rec"
    and free: "look (redis s) (clock s) (brute_force_lock_key ''password_reset''
       (identifier_digest X cfg (login_identifier (lower e) ip))) = None"
      "look (redis s) (clock s) (brute_force_lock_key ''password_reset_account''
       (identifier_digest X cfg (lower e))) = None"
    and pw: "good_password pw" "fits 512 (argon2_hash X (draws s) pw)"
    and ok: "client_fits ip ua" "uuid4 X (Suc (draws s)) \<notin> ae_id ` set (audit_events (db s))"
    unfolding reset_ready_def by blast
  have unused: "pr_used_at rec = None" using rec(1) by (auto dest: filter_eq_ConsD)
  note a = redis_live.assert_not_locked_run [OF assms(1) refl]
  let ?d = "reset_db (clock s) (argon2_hash X (draws s) pw) u rec (db s)"
  let ?s1 = "s\<lparr>draws := Suc (draws s), db := ?d\<rparr>"
  let ?ids = "map us_id (active_sessions (db s) (u_id u))"
  obtain r1 where m: "mark_access_sessions_revoked X cfg ?ids ?s1 = (Inr (), ?s1\<lparr>redis := r1\<rparr>)"
    using mark_access_sessions_revoked_ok [OF assms(1)] by blast
  obtain r2 where c1: "clear_failures X cfg ''password_reset'' (login_identifier (lower e) ip) (?s1\<lparr>redis := r1\<rparr>) =
      (Inr (), ?s1\<lparr>redis := r2\<rparr>)"
    using clear_failures_ok [OF assms(1), of cfg _ _ "?s1\<lparr>redis := r1\<rparr>"] by auto
  obtain r3 where c2: "clear_failures X cfg ''password_reset_account'' (lower e) (?s1\<lparr>redis := r2\<rparr>) =
      (Inr (), ?s1\<lparr>redis := r3\<rparr>)"
    using clear_failures_ok [OF assms(1), of cfg _ _ "?s1\<lparr>redis := r2\<rparr>"] by auto
  obtain ev where log: "log_event X AUDIT_PASSWORD_RESET_COMPLETED ''success'' (Some (u_id u)) (Some (u_id u)) ip ua None
       (?s1\<lparr>redis := r3\<rparr>) = (Inr (), ?s1\<lparr>draws := Suc (Suc (draws s)), redis := r3,
          db := ?d\<lparr>audit_events := audit_events (db s) @ [ev]\<rparr>\<rparr>)"
    using log_event_ok [of AUDIT_PASSWORD_RESET_COMPLETED "''success''" ip ua X "?s1\<lparr>redis := r3\<rparr>"
        "Some (u_id u)" "Some (u_id u)" None] ok
    by (auto simp: reset_db_fields(1) audit_constants fits_def)
  let ?t = "?s1\<lparr>draws := Suc (Suc (draws s)), redis := r3, db := ?d\<lparr>audit_events := audit_events (db s) @ [ev]\<rparr>,
      committed := ?d\<lparr>audit_events := audit_events (db s) @ [ev]\<rparr>\<rparr>"
  have acc: "reset_accepted X cfg (login_identifier (lower e) ip) (lower e) u rec pw (clock s) ip ua s = (Inr (), ?t)"
    using pw m c1 c2 log
    by (simp add: reset_accepted_def hash_password_def update_password_def mark_used_def
        list_active_session_ids_for_user_def revoke_all_for_user_def revoke_user_sessions_def reset_db_def active_sessions_def)
  have run: "reset_password X cfg e code pw ip ua s = (Inr (), ?t)"
    using u rec free unused acc
    by (simp add: reset_password_def Let_def a run_get_by_email lower_idem run_get_active)
  have "password_hash x = argon2_hash X (draws s) pw \<and> \<not> login_blocked x"
    if "x \<in> set (users ?d)" "email x = lower e" for x
  proof -
    obtain y where y: "y \<in> set (users (db s))" "x = (if u_id y = u_id u then y\<lparr>password_hash := argon2_hash X (draws s) pw,
        login_blocked := False, password_reset_blocked := False\<rparr> else y)"
      using \<open>x \<in> set (users ?d)\<close> by (auto simp: reset_db_def set_update_where)
    then have "y \<in> set (filter (\<lambda>u. email u = lower e) (users (db s)))" using \<open>email x = lower e\<close> by (auto split: if_splits)
    then show ?thesis using u(1) y(2) by auto
  qed
  with run show ?thesis by (intro exI [of _ ?t]) simp
qed

text \<open>
  C20: a user with a genuine code gets the new password. When the cache answers, no lock is set, the flow is
  not blocked, the code is the user's, open and unexpired, and the password meets the policy,
  the reset returns, and the user's committed hash is a hash of the new password.
\<close>

theorem reset_password_succeeds:
  assumes "redis_live (redis_cmds X) look" "reset_ready X look cfg e code pw ip ua s"
  shows "\<exists>t. reset_password X cfg e code pw ip ua s = (Inr (), t) \<and>
    (\<forall>x \<in> set (users (committed t)). email x = lower e \<longrightarrow>
       password_hash x = argon2_hash X (draws s) pw \<and> \<not> login_blocked x)"
  using assms by (rule reset_password_ok)

text \<open>A user with an open code and one active session.\<close>

definition ref_reset_db :: auth_db where
  "ref_reset_db = ref_2fa_db\<lparr>
     password_reset_tokens := [\<lparr>pr_id = 20, pr_user_id = 7,
        pr_token_hash = hash_reset_token ref_extern ref_cfg ''000042'', requested_ip = None,
        requested_user_agent = None, pr_created_at = 900, pr_expires_at = 1500, pr_used_at = None\<rparr>],
     user_sessions := [\<lparr>us_id = 21, us_user_id = 7, refresh_family_id = 22, us_ip_address = None,
        us_user_agent = None, us_created_at = 900, last_seen_at = 900, us_revoked_at = None\<rparr>]\<rparr>"

definition ref_reset_node :: "keyspace auth_node" where
  "ref_reset_node = ref_node\<lparr>db := ref_reset_db, committed := ref_reset_db\<rparr>"

lemma ref_lower_U: "lower ''U'' = ''u''" "lower ''u'' = ''u''"
  by code_simp+

lemma ref_good_password: "good_password ''secret12''"
  by (simp add: good_password_def is_ascii_letter_def is_digit_def)

lemma ref_reset_ready:
  "reset_ready ref_extern ks_look ref_cfg ''U'' ''000042'' ''secret12'' None None ref_reset_node"
  by (simp add: reset_ready_def ref_lower_U ref_reset_node_def ref_reset_db_def ref_2fa_db_def ref_user_def
      ref_good_password fits_def client_fits_def opt_fits_def ks_look_def aged_def)

theorem reset_password_succeeds_witness:
  "\<exists>t. reset_password ref_extern ref_cfg ''U'' ''000042'' ''secret12'' None None ref_reset_node = (Inr (), t)"
  using reset_password_succeeds [OF ref_live ref_reset_ready] by blast

lemma ref_reset_run:
  "\<exists>t. reset_password ref_extern ref_cfg ''U'' ''000042'' ''secret12'' None None ref_reset_node = (Inr (), t)"
  using reset_password_ok [OF ref_live ref_reset_ready] by blast

theorem password_reset_effects_witness:
  "\<exists>t. reset_password ref_extern ref_cfg ''U'' ''000042'' ''secret12'' None None ref_reset_node = (Inr (), t) \<and>
     active_sessions (committed t) 7 = [] \<and>
     ks_look (redis t) 1500 (access_session_revoked_key (str_uuid 21)) \<noteq> None"
proof -
  obtain t where t: "reset_password ref_extern ref_cfg ''U'' ''000042'' ''secret12'' None None ref_reset_node = (Inr (), t)"
    using ref_reset_run by blast
  have u: "u \<in> set (users (db ref_reset_node)) \<Longrightarrow> u_id u = 7" for u
    by (simp add: ref_reset_node_def ref_reset_db_def ref_2fa_db_def ref_user_def)
  have v: "\<exists>v \<in> set (active_sessions (db ref_reset_node) 7). us_id v = 21"
    by (simp add: active_sessions_def ref_reset_node_def ref_reset_db_def)
  have c: "clock ref_reset_node \<le> 1500 \<and> 1500 < clock ref_reset_node + jwt_access_ttl_seconds ref_cfg"
    by (simp add: ref_reset_node_def ref_cfg_def)
  show ?thesis
    using password_reset_effects [OF ref_store t] t u v c by fastforce
qed

lemma ref_request_run:
  "\<exists>t. request_reset ref_extern ref_cfg ''U'' None None ref_2fa_node = (Inr True, t)"
proof -
  have c: "smtp_is_configured ref_cfg" by code_simp
  have p: "get_email_provider ref_cfg = \<lparr>ep_host = Some ''m'', ep_port = 587, ep_username = Some ''u'',
      ep_password = Some ''s'', ep_use_tls = True, ep_from_email = Some ''f'', ep_from_name = None,
      ep_require_delivery = True\<rparr>" by code_simp
  have s: "smtp_send ref_extern = (\<lambda>m n. SmtpSent)" by (simp add: ref_extern_def)
  have l: "zero_pad 6 (str_nat (randbelow ref_extern (Suc 0) 1000000)) = ''000001''"
  proof -
    have "randbelow ref_extern (Suc 0) 1000000 = 1" by (simp add: ref_extern_def)
    moreover have "zero_pad 6 (str_nat 1) = ''000001''" by code_simp
    ultimately show ?thesis by simp
  qed
  have n: "normalize_optional None = ''<none>''" by code_simp
  have w: "password_reset_token_pepper ref_cfg = ''w''" by (simp add: ref_cfg_def)
  show ?thesis
    by (simp add: request_reset_def run_get_by_email lower_idem ref_lower_U ref_2fa_node_def ref_2fa_db_def ref_user_def c
        generate_code_def l mark_active_for_user_used_def password_reset_create_def fits_def client_fits_def opt_fits_def n
        hash_reset_token_def send_reset_mail_def send_def p s missing_for_delivery_def falsy_def or_empty_def
        log_event_def run_audit_create audit_constants w)
qed

theorem reset_request_outcome_witness:
  "\<exists>t row. request_reset ref_extern ref_cfg ''U'' None None ref_2fa_node = (Inr True, t) \<and>
     open_codes (committed t) 7 = [row] \<and> pr_expires_at row = 1600"
proof -
  obtain t where t: "request_reset ref_extern ref_cfg ''U'' None None ref_2fa_node = (Inr True, t)"
    using ref_request_run by blast
  have u: "u \<in> set (users (db ref_2fa_node)) \<Longrightarrow> u_id u = 7" for u
    by (simp add: ref_2fa_node_def ref_2fa_db_def ref_user_def)
  have e: "clock ref_2fa_node + max 60 (password_reset_token_ttl_seconds ref_cfg) = 1600"
    by (simp add: ref_2fa_node_def ref_cfg_def)
  from reset_request_outcome [OF ref_random_in_range t] u e t show ?thesis by fastforce
qed

end
