(* ===== verification/Guessing.thy ===== *)
theory Guessing
  imports Password_Reset
begin

text \<open>
  What guessing costs. A wrong password and a wrong reset code count against the client and
  against the account; when the account's count reaches the configured number, the account's
  password login, or its reset flow, is blocked in the committed tables, so that waiting out the
  lock in the cache does not help.
\<close>

section \<open>Scopes do not share keys\<close>

lemma scope_keys_distinct [simp]:
  "brute_force_fail_key ''login'' a \<noteq> brute_force_fail_key ''login_account'' b"
  "brute_force_fail_key ''login_account'' b \<noteq> brute_force_fail_key ''login'' a"
  "brute_force_fail_key ''password_reset'' a \<noteq> brute_force_fail_key ''password_reset_account'' b"
  "brute_force_fail_key ''password_reset_account'' b \<noteq> brute_force_fail_key ''password_reset'' a"
  "brute_force_lock_key ''login'' a \<noteq> brute_force_lock_key ''login_account'' b"
  "brute_force_lock_key ''password_reset'' a \<noteq> brute_force_lock_key ''password_reset_account'' b"
  by (simp_all add: brute_force_fail_key_def brute_force_lock_key_def)

text \<open>
  What one more failure leaves in the cache of a scope: the lock when the count reaches the configured number, the count
  with its window below it.
\<close>

definition counted_or_locked :: "(string \<Rightarrow> entry option) \<Rightarrow> brute_force_policy \<Rightarrow> string \<Rightarrow> string \<Rightarrow> int \<Rightarrow> int \<Rightarrow> int \<Rightarrow> bool" where
  "counted_or_locked m p sc digest now n x \<longleftrightarrow>
     (if n + 1 = max_attempts p
      then m (brute_force_lock_key sc digest) = Some (''1'', Some (now + lock_seconds p))
      else m (brute_force_fail_key sc digest) = Some (str_int (n + 1), Some (if n = 0 then now + window_seconds p else x)))"

lemma failed_once_counted:
  assumes "n < max_attempts p"
  shows "counted_or_locked (failed_once p (brute_force_fail_key sc g) (brute_force_lock_key sc g) now n x m) p sc g now n x"
  using assms by (auto simp: counted_or_locked_def failed_once_def)

lemma failed_once_apart:
  assumes "k \<noteq> fk" "k \<noteq> lk"
  shows "failed_once p fk lk now n x m k = m k"
  using assms by (simp add: failed_once_def)

text \<open>One failure in a client's scope, then one in the account's.\<close>

definition counted :: "('r \<Rightarrow> int \<Rightarrow> string \<Rightarrow> entry option) \<Rightarrow> 'r extern \<Rightarrow> auth_settings \<Rightarrow> string \<Rightarrow> string \<Rightarrow>
  'r auth_node \<Rightarrow> int \<Rightarrow> int \<Rightarrow> bool" where
  "counted look X cfg sc i s n x \<longleftrightarrow>
     look (redis s) (clock s) (brute_force_fail_key sc (identifier_digest X cfg i)) = failures_entry n x \<and> 0 \<le> n"

lemma two_failures:
  assumes live: "redis_live (redis_cmds X) look"
    and p: "policy cfg sc1 = Inr p" "policy cfg sc2 = Inr p" "live_policy p"
    and apart: "brute_force_fail_key sc2 (identifier_digest X cfg j) \<noteq> brute_force_fail_key sc1 (identifier_digest X cfg i)"
      "brute_force_lock_key sc1 (identifier_digest X cfg i) \<noteq> brute_force_lock_key sc2 (identifier_digest X cfg j)"
    and c1: "counted look X cfg sc1 i s m y" "m < max_attempts p"
    and c2: "counted look X cfg sc2 j s n x" "n < max_attempts p"
  obtains s1 r where "record_failure X cfg sc1 i s = (Inr (m + 1), s1)"
    "record_failure X cfg sc2 j s1 = (Inr (n + 1), s\<lparr>redis := r\<rparr>)"
    "counted_or_locked (look r (clock s)) p sc1 (identifier_digest X cfg i) (clock s) m y"
    "counted_or_locked (look r (clock s)) p sc2 (identifier_digest X cfg j) (clock s) n x"
proof -
  note store = redis_live.axioms(1) [OF live]
  have w: "0 < window_seconds p" using p(3) by (simp add: live_policy_def)
  obtain s1 where r1: "record_failure X cfg sc1 i s = (Inr (m + 1), s1)"
    using redis_live.record_failure_ok [OF live refl p(1,3)] c1 unfolding counted_def by blast
  have e1: "s1 = s\<lparr>redis := redis s1\<rparr>" using redis_onlyD [OF within_record_failure r1] .
  have l1: "look (redis s1) (clock s) = failed_once p (brute_force_fail_key sc1 (identifier_digest X cfg i))
         (brute_force_lock_key sc1 (identifier_digest X cfg i)) (clock s) m y (look (redis s) (clock s))"
    using redis_store.record_failure_effect [OF store refl p(1) w _ _ r1] c1 unfolding counted_def by blast
  have c2': "look (redis s1) (clock s1) (brute_force_fail_key sc2 (identifier_digest X cfg j)) = failures_entry n x" "0 \<le> n"
    using c2(1) apart(1) l1 redis_only_fields(3) [OF e1] by (auto simp: counted_def failed_once_def)
  obtain s2 where r2: "record_failure X cfg sc2 j s1 = (Inr (n + 1), s2)"
    using redis_live.record_failure_ok [OF live refl p(2,3) c2' c2(2)] by blast
  have e2: "s2 = s\<lparr>redis := redis s2\<rparr>"
    using redis_onlyD [OF within_record_failure r2] e1 by (metis (no_types, lifting) node.update_convs(1)
        auth_node.surjective node.surjective auth_node.select_convs node.select_convs(1))
  have l2: "look (redis s2) (clock s) = failed_once p (brute_force_fail_key sc2 (identifier_digest X cfg j))
         (brute_force_lock_key sc2 (identifier_digest X cfg j)) (clock s) n x (look (redis s1) (clock s))"
    using redis_store.record_failure_effect [OF store refl p(2) w c2' r2] redis_only_fields(3) [OF e1] by simp
  have r2': "record_failure X cfg sc2 j s1 = (Inr (n + 1), s\<lparr>redis := redis s2\<rparr>)"
    by (subst e2 [symmetric]) (rule r2)
  have "counted_or_locked (look (redis s1) (clock s)) p sc1 (identifier_digest X cfg i) (clock s) m y"
    using failed_once_counted [OF c1(2)] l1 by simp
  then have "counted_or_locked (look (redis s2) (clock s)) p sc1 (identifier_digest X cfg i) (clock s) m y"
    unfolding l2 counted_or_locked_def using apart by (simp add: failed_once_apart)
  moreover have "counted_or_locked (look (redis s2) (clock s)) p sc2 (identifier_digest X cfg j) (clock s) n x"
    using failed_once_counted [OF c2(2)] l2 by simp
  ultimately show thesis by (rule that [OF r1 r2'])
qed

section \<open>Wrong passwords\<close>

definition login_policy :: "auth_settings \<Rightarrow> brute_force_policy" where
  "login_policy cfg = \<lparr>max_attempts = brute_force_login_max_attempts cfg,
     window_seconds = brute_force_login_window_seconds cfg, lock_seconds = brute_force_login_lock_seconds cfg\<rparr>"

definition reset_policy :: "auth_settings \<Rightarrow> brute_force_policy" where
  "reset_policy cfg = \<lparr>max_attempts = brute_force_password_reset_max_attempts cfg,
     window_seconds = brute_force_password_reset_window_seconds cfg,
     lock_seconds = brute_force_password_reset_lock_seconds cfg\<rparr>"

lemma scope_policies:
  "policy cfg ''login'' = Inr (login_policy cfg)" "policy cfg ''login_account'' = Inr (login_policy cfg)"
  "policy cfg ''password_reset'' = Inr (reset_policy cfg)"
  "policy cfg ''password_reset_account'' = Inr (reset_policy cfg)"
  by (simp_all add: policy_def login_policy_def reset_policy_def)

text \<open>Neither the client nor the account is locked in the two scopes.\<close>

definition not_locked :: "('r \<Rightarrow> int \<Rightarrow> string \<Rightarrow> entry option) \<Rightarrow> 'r extern \<Rightarrow> auth_settings \<Rightarrow> string \<Rightarrow> string \<Rightarrow>
  'r auth_node \<Rightarrow> bool" where
  "not_locked look X cfg sc i s \<longleftrightarrow>
     look (redis s) (clock s) (brute_force_lock_key sc (identifier_digest X cfg i)) = None"

text \<open>
  C21: wrong passwords block the account. A wrong password for a known, unblocked and unlocked
  account with \<open>n\<close> failures counted, from an address with \<open>m\<close>, is always answered with an error and grants nothing. One failure
  is counted for the address and one for the account: the cache then holds \<open>m + 1\<close> and \<open>n + 1\<close>, or the lock of the one
  that reached the configured number. While \<open>n + 1\<close> is below that number the answer is
  \<open>InvalidCredentialsException\<close> and the users are unchanged; when it is reached the answer is
  \<open>AccountLoginBlockedException\<close>, and the block of this user and no other is committed.
\<close>

theorem wrong_password_outcome:
  assumes "redis_live (redis_cmds X) look" "live_policy (login_policy cfg)"
    and "filter (\<lambda>u. email u = lower e) (users (db s)) = [u]" "\<not> login_blocked u"
    and "argon2_verify X (password_hash u) pw = VerifyMismatch"
    and "not_locked look X cfg ''login'' (login_identifier (lower e) ip) s"
    and "not_locked look X cfg ''login_account'' (lower e) s"
    and "counted look X cfg ''login'' (login_identifier (lower e) ip) s m y" "m < brute_force_login_max_attempts cfg"
    and "counted look X cfg ''login_account'' (lower e) s n x" "n < brute_force_login_max_attempts cfg"
    and "client_fits ip ua" "uuid4 X (draws s) \<notin> ae_id ` set (audit_events (db s))"
  shows "\<exists>t. login X cfg e pw ip ua s =
      (Inl (if n + 1 = brute_force_login_max_attempts cfg
            then AccountLoginBlockedException (account_login_locked_message cfg)
            else InvalidCredentialsException), t) \<and>
    users (committed t) =
      (if n + 1 = brute_force_login_max_attempts cfg
       then map (\<lambda>x. if u_id x = u_id u then x\<lparr>login_blocked := True\<rparr> else x) (users (db s))
       else users (db s)) \<and>
    refresh_tokens (committed t) = refresh_tokens (db s) \<and> user_sessions (committed t) = user_sessions (db s) \<and>
    (if m + 1 = brute_force_login_max_attempts cfg
     then look (redis t) (clock s) (brute_force_lock_key ''login'' (identifier_digest X cfg (login_identifier (lower e) ip))) =
            Some (''1'', Some (clock s + brute_force_login_lock_seconds cfg))
     else look (redis t) (clock s) (brute_force_fail_key ''login'' (identifier_digest X cfg (login_identifier (lower e) ip))) =
            Some (str_int (m + 1), Some (if m = 0 then clock s + brute_force_login_window_seconds cfg else y))) \<and>
    (if n + 1 = brute_force_login_max_attempts cfg
     then look (redis t) (clock s) (brute_force_lock_key ''login_account'' (identifier_digest X cfg (lower e))) =
            Some (''1'', Some (clock s + brute_force_login_lock_seconds cfg))
     else look (redis t) (clock s) (brute_force_fail_key ''login_account'' (identifier_digest X cfg (lower e))) =
            Some (str_int (n + 1), Some (if n = 0 then clock s + brute_force_login_window_seconds cfg else x)))"
proof -
  let ?p = "login_policy cfg" and ?max = "brute_force_login_max_attempts cfg"
  have mx: "max_attempts ?p = ?max" by (simp add: login_policy_def)
  obtain s1 r where r1: "record_failure X cfg ''login'' (login_identifier (lower e) ip) s = (Inr (m + 1), s1)"
    and r2: "record_failure X cfg ''login_account'' (lower e) s1 = (Inr (n + 1), s\<lparr>redis := r\<rparr>)"
    and client: "counted_or_locked (look r (clock s)) ?p ''login'' (identifier_digest X cfg (login_identifier (lower e) ip)) (clock s) m y"
    and account: "counted_or_locked (look r (clock s)) ?p ''login_account'' (identifier_digest X cfg (lower e)) (clock s) n x"
    using two_failures [OF assms(1) scope_policies(1,2) assms(2) scope_keys_distinct(2,5) assms(8) _ assms(10)]
      assms(9,11) mx by metis
  define d where "d = (if n + 1 = ?max then (db s)\<lparr>users :=
      update_where (\<lambda>x. u_id x = u_id u) (\<lambda>x. x\<lparr>login_blocked := True\<rparr>) (users (db s))\<rparr> else db s)"
  have ae: "audit_events d = audit_events (db s)" by (simp add: d_def)
  let ?s2 = "s\<lparr>redis := r, db := d\<rparr>"
  obtain ev where log: "log_event X AUDIT_LOGIN_FAILED ''failure'' (Some (u_id u)) (Some (u_id u)) ip ua
      (Some [(''email'', JStr (lower e))]) ?s2 =
      (Inr (), ?s2\<lparr>draws := Suc (draws s), db := d\<lparr>audit_events := audit_events (db s) @ [ev]\<rparr>\<rparr>)"
    using log_event_ok [of AUDIT_LOGIN_FAILED "''failure''" ip ua X ?s2 "Some (u_id u)" "Some (u_id u)"
        "Some [(''email'', JStr (lower e))]"] assms(12,13) ae by (auto simp: audit_constants fits_def)
  let ?t = "?s2\<lparr>draws := Suc (draws s), db := d\<lparr>audit_events := audit_events (db s) @ [ev]\<rparr>,
      committed := d\<lparr>audit_events := audit_events (db s) @ [ev]\<rparr>\<rparr>"
  have failed: "login_failed X cfg (lower e) (Some u) ip ua s =
      (Inl (if n + 1 = ?max then AccountLoginBlockedException (account_login_locked_message cfg)
            else InvalidCredentialsException), ?t)"
    using r1 r2 log assms(4,11) by (cases "n + 1 = ?max") (simp_all add: login_failed_def d_def)
  note a = redis_live.assert_not_locked_run [OF assms(1) refl]
  have "login X cfg e pw ip ua s = (Inl (if n + 1 = ?max then AccountLoginBlockedException (account_login_locked_message cfg)
            else InvalidCredentialsException), ?t)"
    using assms(3-7) failed by (simp add: login_def Let_def run_get_by_email lower_idem a not_locked_def verify_password_def)
  then show ?thesis
    using client account
    by (intro exI [of _ ?t]) (simp add: d_def update_where_def login_policy_def counted_or_locked_def)
qed

section \<open>Wrong reset codes\<close>

text \<open>
  Wrong reset codes block the flow. A code that is not one of the user's open and unexpired ones is
  always answered \<open>BadRequestException\<close> and changes no password, token or session. While the
  account has fewer than the configured number of failures nothing is committed; with the failure that
  reaches it, the block of this user's reset flow is committed and the account is locked in the
  cache. From then on every reset of this account is answered \<open>PasswordResetFlowBlockedException\<close> or
  \<open>AccountLockedException\<close>.
\<close>

theorem wrong_reset_code_outcome:
  assumes "redis_live (redis_cmds X) look" "live_policy (reset_policy cfg)"
    and "filter (\<lambda>u. email u = lower e) (users (db s)) = [u]" "\<not> password_reset_blocked u"
    and "distinct (map pr_token_hash (password_reset_tokens (db s))) \<and>
         (\<forall>p \<in> set (open_codes (db s) (u_id u)). pr_token_hash p = hash_reset_token X cfg code \<longrightarrow>
            pr_expires_at p < clock s)"
    and "not_locked look X cfg ''password_reset'' (login_identifier (lower e) ip) s"
    and "not_locked look X cfg ''password_reset_account'' (lower e) s"
    and "counted look X cfg ''password_reset'' (login_identifier (lower e) ip) s m y"
    and "m < brute_force_password_reset_max_attempts cfg"
    and "counted look X cfg ''password_reset_account'' (lower e) s n x"
    and "n < brute_force_password_reset_max_attempts cfg"
  shows "\<exists>t. reset_password X cfg e code pw ip ua s = (Inl (BadRequestException ''Invalid or expired reset code''), t) \<and>
    committed t =
      (if n + 1 = brute_force_password_reset_max_attempts cfg
       then (db s)\<lparr>users := map (\<lambda>x. if u_id x = u_id u then x\<lparr>password_reset_blocked := True\<rparr> else x) (users (db s))\<rparr>
       else committed s) \<and>
    (n + 1 = brute_force_password_reset_max_attempts cfg \<longrightarrow>
       look (redis t) (clock s) (brute_force_lock_key ''password_reset_account'' (identifier_digest X cfg (lower e))) =
         Some (''1'', Some (clock s + brute_force_password_reset_lock_seconds cfg)) \<and>
       (\<forall>s' code' pw' ip' ua'. users (db s') = users (committed t) \<longrightarrow>
          fst (reset_password X cfg e code' pw' ip' ua' s') \<in>
            {Inl (PasswordResetFlowBlockedException (password_reset_flow_blocked_message cfg))} \<union>
            {Inl (AccountLockedException w) | w. True}))"
proof -
  let ?p = "reset_policy cfg" and ?max = "brute_force_password_reset_max_attempts cfg"
  have mx: "max_attempts ?p = ?max" by (simp add: reset_policy_def)
  obtain s1 r where r1: "record_failure X cfg ''password_reset'' (login_identifier (lower e) ip) s = (Inr (m + 1), s1)"
    and r2: "record_failure X cfg ''password_reset_account'' (lower e) s1 = (Inr (n + 1), s\<lparr>redis := r\<rparr>)"
    and lk: "counted_or_locked (look r (clock s)) ?p ''password_reset_account'' (identifier_digest X cfg (lower e)) (clock s) n x"
    using two_failures [OF assms(1) scope_policies(3,4) assms(2) scope_keys_distinct(4,6) assms(8) _ assms(10)]
      assms(9,11) mx by metis
  define d where "d = (db s)\<lparr>users :=
      update_where (\<lambda>x. u_id x = u_id u) (\<lambda>x. x\<lparr>password_reset_blocked := True\<rparr>) (users (db s))\<rparr>"
  let ?t = "if n + 1 = ?max then s\<lparr>redis := r, db := d, committed := d\<rparr> else s\<lparr>redis := r\<rparr>"
  have failed: "record_reset_failure X cfg (login_identifier (lower e) ip) (lower e) (Some u) s = (Inr (), ?t)"
    using r1 r2 assms(11) by (cases "n + 1 = ?max") (simp_all add: record_reset_failure_def d_def)
  note a = redis_live.assert_not_locked_run [OF assms(1) refl]
  let ?open = "filter (\<lambda>p. pr_token_hash p = hash_reset_token X cfg code \<and> pr_user_id p = u_id u \<and> pr_used_at p = None)
      (password_reset_tokens (db s))"
  have stale: "?open = [] \<or> (\<exists>rec. ?open = [rec] \<and> pr_used_at rec = None \<and> pr_expires_at rec < clock s)"
  proof (cases "?open")
    case (Cons rec rest)
    then have rec: "rec \<in> set ?open" by simp
    then have mem: "rec \<in> set (password_reset_tokens (db s))"
      and of_user: "pr_token_hash rec = hash_reset_token X cfg code" "pr_user_id rec = u_id u" "pr_used_at rec = None"
      by auto
    note filter_key_distinct [OF conjunct1 [OF assms(5)] mem]
    then have "filter (\<lambda>p. pr_user_id p = u_id u \<and> pr_used_at p = None)
        (filter (\<lambda>p. pr_token_hash p = hash_reset_token X cfg code) (password_reset_tokens (db s))) = [rec]"
      using rec by simp
    then have "?open = [rec]" by (simp add: conj_commute conj_left_commute)
    then show ?thesis using mem of_user assms(5) by (simp add: open_codes_def)
  qed simp
  have run: "reset_password X cfg e code pw ip ua s = (Inl (BadRequestException ''Invalid or expired reset code''), ?t)"
    using stale assms(3,4,6,7) failed
    by (elim disjE exE conjE)
       (simp_all add: reset_password_def Let_def run_get_by_email lower_idem a not_locked_def run_get_active invalid_reset_code_def)
  have later: "fst (reset_password X cfg e code' pw' ip' ua' s') \<in>
            {Inl (PasswordResetFlowBlockedException (password_reset_flow_blocked_message cfg))} \<union>
            {Inl (AccountLockedException w) | w. True}"
    if "users (db s') = users d" for s' code' pw' ip' ua'
  proof -
    have "filter (\<lambda>u. email u = lower e) (update_where (\<lambda>x. u_id x = u_id u) (\<lambda>x. x\<lparr>password_reset_blocked := True\<rparr>) us) =
        map (\<lambda>x. if u_id x = u_id u then x\<lparr>password_reset_blocked := True\<rparr> else x) (filter (\<lambda>u. email u = lower e) us)" for us :: "user list"
      by (induction us) auto
    then have f: "filter (\<lambda>u. email u = lower e) (users (db s')) = [u\<lparr>password_reset_blocked := True\<rparr>]"
      using that assms(3) by (simp add: d_def)
    then show ?thesis
      by (auto simp: reset_password_def Let_def run_get_by_email lower_idem a thenE_def bindE_def split: option.splits)
  qed
  show ?thesis
    using run lk later by (intro exI [of _ ?t]) (auto simp: d_def update_where_def reset_policy_def counted_or_locked_def)
qed

section \<open>Instances\<close>

definition ref_failures :: "string \<Rightarrow> int \<Rightarrow> keyspace" where
  "ref_failures sc n = (\<lambda>_. None)(brute_force_fail_key sc (identifier_digest ref_extern ref_cfg ''u'') :=
     failures_entry n 1200)"

lemma ref_failures_counted:
  "0 \<le> n \<Longrightarrow> counted ks_look ref_extern ref_cfg sc ''u'' (ref_reset_node\<lparr>redis := ref_failures sc n\<rparr>) n 1200"
  by (simp add: counted_def ref_failures_def ks_look_def aged_def failures_entry_def ref_reset_node_def)

lemma ref_failures_free:
  "not_locked ks_look ref_extern ref_cfg sc' i (ref_reset_node\<lparr>redis := ref_failures sc n\<rparr>)"
  by (simp add: not_locked_def ref_failures_def ks_look_def aged_def failures_entry_def)

lemma ref_failures_other:
  assumes "brute_force_fail_key sc' (identifier_digest ref_extern ref_cfg i) \<noteq>
     brute_force_fail_key sc (identifier_digest ref_extern ref_cfg ''u'')"
  shows "counted ks_look ref_extern ref_cfg sc' i (ref_reset_node\<lparr>redis := ref_failures sc n\<rparr>) 0 0"
  using assms by (simp add: counted_def ref_failures_def ks_look_def aged_def failures_entry_def)

lemma ref_policies: "live_policy (login_policy ref_cfg)" "live_policy (reset_policy ref_cfg)"
  "brute_force_login_max_attempts ref_cfg = 3" "brute_force_password_reset_max_attempts ref_cfg = 3"
  by (simp_all add: live_policy_def login_policy_def reset_policy_def ref_cfg_def)

lemma ref_reset_users: "filter (\<lambda>u. email u = lower ''U'') (users (db ref_reset_node)) = [ref_user]"
  by (simp add: ref_lower_U ref_reset_node_def ref_reset_db_def ref_2fa_db_def ref_user_def)

theorem wrong_password_outcome_witness:
  "\<exists>t. login ref_extern ref_cfg ''U'' ''guess'' None None
        (ref_reset_node\<lparr>redis := ref_failures ''login_account'' 2\<rparr>) =
      (Inl (AccountLoginBlockedException (account_login_locked_message ref_cfg)), t) \<and>
     users (committed t) = [ref_user\<lparr>login_blocked := True\<rparr>]"
proof -
  let ?s = "ref_reset_node\<lparr>redis := ref_failures ''login_account'' 2\<rparr>"
  have us: "users (db ?s) = [ref_user]" by (simp add: ref_reset_node_def ref_reset_db_def ref_2fa_db_def)
  have v: "argon2_verify ref_extern (password_hash ref_user) ''guess'' = VerifyMismatch"
    by (simp add: ref_user_def)
  have id: "uuid4 ref_extern (draws ?s) \<notin> ae_id ` set (audit_events (db ?s))"
    by (simp add: ref_reset_node_def ref_reset_db_def ref_2fa_db_def)
  have c: "counted ks_look ref_extern ref_cfg ''login_account'' (lower ''U'') ?s 2 1200"
    using ref_failures_counted [of 2] by (simp add: ref_lower_U)
  have "\<not> login_blocked ref_user" by (simp add: ref_user_def)
  from wrong_password_outcome [OF ref_live ref_policies(1) _ this v ref_failures_free ref_failures_free
      ref_failures_other [OF scope_keys_distinct(1)] _ c _ _ id, of None None]
  show ?thesis
    using ref_reset_users us by (fastforce simp: ref_policies client_fits_def opt_fits_def)
qed

theorem wrong_reset_code_outcome_witness:
  "\<exists>t. reset_password ref_extern ref_cfg ''U'' ''111111'' ''secret12'' None None
        (ref_reset_node\<lparr>redis := ref_failures ''password_reset_account'' 2\<rparr>) =
      (Inl (BadRequestException ''Invalid or expired reset code''), t) \<and>
     users (committed t) = [ref_user\<lparr>password_reset_blocked := True\<rparr>]"
proof -
  let ?s = "ref_reset_node\<lparr>redis := ref_failures ''password_reset_account'' 2\<rparr>"
  have us: "users (db ?s) = [ref_user]" by (simp add: ref_reset_node_def ref_reset_db_def ref_2fa_db_def)
  have codes: "distinct (map pr_token_hash (password_reset_tokens (db ?s))) \<and>
      (\<forall>p \<in> set (open_codes (db ?s) (u_id ref_user)).
         pr_token_hash p = hash_reset_token ref_extern ref_cfg ''111111'' \<longrightarrow> pr_expires_at p < clock ?s)"
    by (simp add: ref_reset_node_def ref_reset_db_def open_codes_def hash_reset_token_def)
  have c: "counted ks_look ref_extern ref_cfg ''password_reset_account'' (lower ''U'') ?s 2 1200"
    using ref_failures_counted [of 2] by (simp add: ref_lower_U)
  have "\<not> password_reset_blocked ref_user" by (simp add: ref_user_def)
  from wrong_reset_code_outcome [OF ref_live ref_policies(2) _ this codes ref_failures_free ref_failures_free
      ref_failures_other [OF scope_keys_distinct(3)] _ c, where ip = None and pw = "''secret12''" and ua = None]
  show ?thesis
    using ref_reset_users us by (fastforce simp: ref_policies)
qed

end
