(* ===== verification/Http_Shell.thy ===== *)
theory Http_Shell
  imports Http_Security
begin

text \<open>
  The shell every service puts around its handlers: \<open>core/middleware.py\<close> (request ids and security
  headers), \<open>core/validation.py\<close>, and the way \<open>main.py\<close> turns an exception into a response. Starlette
  runs the handler of \<open>Exception\<close> outside the middlewares, so an unexpected exception is
  answered without their headers. The time header is left out, and so is CORS, which only adds
  headers for browsers.
\<close>

record 'b response =
  rs_status :: int
  rs_headers :: "(string \<times> string) list"
  rs_body :: 'b

type_synonym http_response = "json response"

definition json_response :: "int \<Rightarrow> json \<Rightarrow> http_response" where
  "json_response st body = \<lparr>rs_status = st, rs_headers = [], rs_body = body\<rparr>"

text \<open>\<open>response.headers[name] = value\<close>: one header of that name, whatever was there.\<close>

definition put_header :: "string \<Rightarrow> string \<Rightarrow> ('b, 'm) response_scheme \<Rightarrow> ('b, 'm) response_scheme" where
  "put_header name v rs = rs\<lparr>rs_headers := filter (\<lambda>(n, _). n \<noteq> name) (rs_headers rs) @ [(name, v)]\<rparr>"

section \<open>Request ids\<close>

definition MAX_REQUEST_ID_LENGTH :: nat where
  "MAX_REQUEST_ID_LENGTH = 128"

definition request_id_from_header ::
  "'r extern \<Rightarrow> string option \<Rightarrow> (('r, 'm) node_scheme, exn, string) prog" where
  "request_id_from_header X v =
     (let fresh = bindE (draw (uuid4 X)) (\<lambda>u. ret (str_uuid u)) in
      case v of
        None \<Rightarrow> fresh
      | Some s \<Rightarrow>
          (let normalized = strip s in
           if normalized = '''' \<or> length normalized > MAX_REQUEST_ID_LENGTH then fresh else ret normalized))"

section \<open>Security headers\<close>

definition DOC_PATHS :: "string list" where
  "DOC_PATHS = [''/docs'', ''/docs/'', ''/docs/oauth2-redirect'', ''/openapi.json'', ''/redoc'', ''/redoc/'']"

text \<open>The apostrophe of a policy keyword is \<open>CHR 0x27\<close>.\<close>

definition quoted :: "string \<Rightarrow> string" where
  "quoted s = CHR 0x27 # s @ [CHR 0x27]"

definition CSP_DOCS :: string where
  "CSP_DOCS =
     ''default-src '' @ quoted ''self'' @ ''; frame-ancestors '' @ quoted ''none'' @ ''; '' @
     ''script-src '' @ quoted ''self'' @ '' '' @ quoted ''unsafe-inline'' @ '' https://cdn.jsdelivr.net; '' @
     ''style-src '' @ quoted ''self'' @ '' '' @ quoted ''unsafe-inline'' @ '' https://cdn.jsdelivr.net; '' @
     ''img-src '' @ quoted ''self'' @ '' data: https://cdn.jsdelivr.net; '' @
     ''font-src '' @ quoted ''self'' @ '' data: https://cdn.jsdelivr.net; '' @
     ''connect-src '' @ quoted ''self'' @ '';''"

definition CSP_API :: string where
  "CSP_API = ''default-src '' @ quoted ''none'' @ ''; frame-ancestors '' @ quoted ''none'' @ '';''"

definition CSP_UI :: string where
  "CSP_UI =
     ''default-src '' @ quoted ''self'' @ ''; frame-ancestors '' @ quoted ''none'' @ ''; '' @
     ''script-src '' @ quoted ''self'' @ ''; '' @
     ''style-src '' @ quoted ''self'' @ ''; '' @
     ''img-src '' @ quoted ''self'' @ '' data:; '' @
     ''font-src '' @ quoted ''self'' @ ''; '' @
     ''connect-src '' @ quoted ''self'' @ '';''"

text \<open>The policy of the auth-, user- and notification-service, and that of the gateway.\<close>

definition service_csp :: "string \<Rightarrow> string" where
  "service_csp path = (if path \<in> set DOC_PATHS then CSP_DOCS else CSP_API)"

definition gateway_csp :: "string \<Rightarrow> string" where
  "gateway_csp path =
     (if path = ''/ui'' \<or> startswith path ''/ui/'' then CSP_UI
      else if path \<in> set DOC_PATHS then CSP_DOCS else CSP_API)"

definition security_headers ::
  "(string \<Rightarrow> string) \<Rightarrow> string \<Rightarrow> ('b, 'm) response_scheme \<Rightarrow> ('b, 'm) response_scheme" where
  "security_headers csp path rs =
     put_header ''content-security-policy'' (csp path)
    (put_header ''permissions-policy'' ''geolocation=(), camera=(), microphone=()''
    (put_header ''referrer-policy'' ''same-origin''
    (put_header ''x-frame-options'' ''DENY''
    (put_header ''x-content-type-options'' ''nosniff'' rs))))"

section \<open>Errors\<close>

definition sanitize_validation_errors :: "(string \<times> json) list list \<Rightarrow> (string \<times> json) list list" where
  "sanitize_validation_errors errs = map (filter (\<lambda>(k, _). k \<noteq> ''input'')) errs"

definition opt_str :: "string option \<Rightarrow> json" where
  "opt_str v = (case v of None \<Rightarrow> JNull | Some s \<Rightarrow> JStr s)"

definition error_json :: "error_response \<Rightarrow> http_response" where
  "error_json er =
     json_response (er_status er)
       (JDict [(''error_code'', JStr (er_error_code er)), (''message'', JStr (er_message er)),
               (''request_id'', opt_str (er_request_id er))])"

text \<open>An exception only the handler of \<open>Exception\<close> takes.\<close>

definition unexpected :: "exn \<Rightarrow> bool" where
  "unexpected e \<longleftrightarrow>
     app_exception e = None \<and> (case e of RequestValidationError \<Rightarrow> False | HTTPException _ _ \<Rightarrow> False | _ \<Rightarrow> True)"

section \<open>Serving a request\<close>

definition attempt :: "('s, 'e, 'a) prog \<Rightarrow> ('s, 'e, 'e + 'a) prog" where
  "attempt p = (\<lambda>s. let (r, s') = p s in (Inr r, s'))"

definition with_middlewares ::
  "(string \<Rightarrow> string) \<Rightarrow> http_request \<Rightarrow> string \<Rightarrow> ('b, 'm) response_scheme \<Rightarrow> ('b, 'm) response_scheme" where
  "with_middlewares csp rq rid rs = security_headers csp (rq_path rq) (put_header ''x-request-id'' rid rs)"

definition finish ::
  "(string \<Rightarrow> string) \<Rightarrow> http_request \<Rightarrow> string \<Rightarrow> exn + http_response \<Rightarrow> http_response" where
  "finish csp rq rid r =
     (case r of
        Inr rs \<Rightarrow> with_middlewares csp rq rid rs
      | Inl e \<Rightarrow>
          (let rs = error_json (exception_handler (Some rid) e) in
           if unexpected e then rs else with_middlewares csp rq rid rs))"

definition serve ::
  "'r extern \<Rightarrow> (string \<Rightarrow> string) \<Rightarrow> (http_request \<Rightarrow> (('r, 'm) node_scheme, exn, http_response) prog) \<Rightarrow>
   http_request \<Rightarrow> (('r, 'm) node_scheme, exn, http_response) prog" where
  "serve X csp app rq =
     bindE (request_id_from_header X (header_get rq ''x-request-id'')) (\<lambda>rid.
     bindE (attempt (app rq)) (\<lambda>r.
       ret (finish csp rq rid r)))"

section \<open>Every answer\<close>

lemma run_attempt [simp]: "attempt p s = (Inr (fst (p s)), snd (p s))"
  by (simp add: attempt_def split: prod.split)

text \<open>The id a request gets, as a function of its header and the next draw.\<close>

definition chosen_request_id :: "'r extern \<Rightarrow> string option \<Rightarrow> nat \<Rightarrow> string" where
  "chosen_request_id X v n =
     (case v of
        None \<Rightarrow> str_uuid (uuid4 X n)
      | Some h \<Rightarrow> if strip h \<noteq> '''' \<and> length (strip h) \<le> 128 then strip h else str_uuid (uuid4 X n))"

lemma request_id_run:
  "\<exists>n. request_id_from_header X v s = (Inr (chosen_request_id X v (draws s)), s\<lparr>draws := n\<rparr>)"
proof (cases "\<exists>h. v = Some h \<and> strip h \<noteq> '''' \<and> length (strip h) \<le> 128")
  case True
  then show ?thesis
    by (intro exI [of _ "draws s"]) (auto simp: request_id_from_header_def chosen_request_id_def MAX_REQUEST_ID_LENGTH_def)
next
  case False
  then show ?thesis
    by (intro exI [of _ "Suc (draws s)"])
       (auto simp: request_id_from_header_def Let_def chosen_request_id_def MAX_REQUEST_ID_LENGTH_def split: option.split)
qed

lemma put_header_get:
  "map_of (rs_headers (put_header n v rs)) m = (if m = n then Some v else map_of (rs_headers rs) m)"
proof -
  have "map_of (filter (\<lambda>(k, _). k \<noteq> n) hs) m = (if m = n then None else map_of hs m)" for hs :: "(string \<times> string) list"
    by (induction hs) auto
  then show ?thesis by (simp add: put_header_def map_add_def split: option.split)
qed

lemma put_header_fields [simp]: "rs_status (put_header n v rs) = rs_status rs" "rs_body (put_header n v rs) = rs_body rs"
  by (simp_all add: put_header_def)

definition secured :: "(string \<Rightarrow> string) \<Rightarrow> http_request \<Rightarrow> ('b, 'm) response_scheme \<Rightarrow> bool" where
  "secured csp rq rs \<longleftrightarrow>
     map_of (rs_headers rs) ''x-content-type-options'' = Some ''nosniff'' \<and>
     map_of (rs_headers rs) ''x-frame-options'' = Some ''DENY'' \<and>
     map_of (rs_headers rs) ''referrer-policy'' = Some ''same-origin'' \<and>
     map_of (rs_headers rs) ''permissions-policy'' = Some ''geolocation=(), camera=(), microphone=()'' \<and>
     map_of (rs_headers rs) ''content-security-policy'' = Some (csp (rq_path rq))"

lemma with_middlewares_secured:
  "secured csp rq (with_middlewares csp rq rid rs)"
  "map_of (rs_headers (with_middlewares csp rq rid rs)) ''x-request-id'' = Some rid"
  "rs_status (with_middlewares csp rq rid rs) = rs_status rs" "rs_body (with_middlewares csp rq rid rs) = rs_body rs"
  by (simp_all add: secured_def with_middlewares_def security_headers_def put_header_get)

lemma answer_request_id [simp]: "er_request_id (exception_handler v e) = v"
  by (cases e) (simp_all add: exception_handler_def)

lemma error_json_fields:
  "rs_status (error_json er) = er_status er"
  "rs_headers (error_json er) = []"
  "rs_body (error_json er) = JDict [(''error_code'', JStr (er_error_code er)), (''message'', JStr (er_message er)),
     (''request_id'', opt_str (er_request_id er))]"
  by (simp_all add: error_json_def json_response_def)

text \<open>An error document as it leaves the service.\<close>

abbreviation error_document :: "string \<Rightarrow> string \<Rightarrow> string \<Rightarrow> json" where
  "error_document code message rid \<equiv>
     JDict [(''error_code'', JStr code), (''message'', JStr message), (''request_id'', JStr rid)]"

lemma response_eq: "rs = rs' \<longleftrightarrow> rs_status rs = rs_status rs' \<and> rs_headers rs = rs_headers rs' \<and> rs_body rs = rs_body rs'"
  for rs rs' :: "'b response"
  by auto

lemma finish_raised:
  assumes "rs = finish csp rq rid (Inl e)"
  shows "(case app_exception e of
         Some (message, code, status) \<Rightarrow>
           rs_status rs = status \<and> rs_body rs = error_document code message rid \<and>
           secured csp rq rs \<and> map_of (rs_headers rs) ''x-request-id'' = Some rid
       | None \<Rightarrow>
           (case e of
              RequestValidationError \<Rightarrow>
                rs_status rs = 422 \<and>
                rs_body rs = error_document ''VALIDATION_ERROR'' ''Request validation failed'' rid \<and>
                secured csp rq rs \<and> map_of (rs_headers rs) ''x-request-id'' = Some rid
            | HTTPException status detail \<Rightarrow>
                rs_status rs = status \<and> rs_body rs = error_document ''HTTP_ERROR'' detail rid \<and>
                secured csp rq rs \<and> map_of (rs_headers rs) ''x-request-id'' = Some rid
            | _ \<Rightarrow>
                rs = \<lparr>rs_status = 500, rs_headers = [],
                      rs_body = error_document ''INTERNAL_SERVER_ERROR'' ''Internal server error'' rid\<rparr>))"
  unfolding assms
  by (cases e) (simp_all add: finish_def with_middlewares_secured error_json_fields opt_str_def unexpected_def
      exception_handler_def response_eq)

text \<open>
  C22: every request is answered. Whatever the handler does, \<open>serve\<close> returns a response and the handler's
  state. The answer is the handler's own with the security headers, or, when it raised, an error
  document with the request id in it; the id is the client's when that is not blank and not too
  long, a fresh one otherwise. An application error is answered with its own status, code and message, a malformed request with 422
  and fixed texts, an \<open>HTTPException\<close> with its status and detail; these carry the security headers and the id. Every other exception
  becomes status 500 with a fixed code and a fixed message, so nothing of it reaches the client; this answer has no
  further headers.
\<close>

theorem serve_answers:
  "\<exists>rid n rs. serve X csp app rq s = (Inr rs, snd (app rq (s\<lparr>draws := n\<rparr>))) \<and>
     rid = chosen_request_id X (header_get rq ''x-request-id'') (draws s) \<and>
     (case fst (app rq (s\<lparr>draws := n\<rparr>)) of
        Inr out \<Rightarrow> rs_status rs = rs_status out \<and> rs_body rs = rs_body out \<and> secured csp rq rs \<and>
          map_of (rs_headers rs) ''x-request-id'' = Some rid
      | Inl e \<Rightarrow>
          (case app_exception e of
             Some (message, code, status) \<Rightarrow>
               rs_status rs = status \<and> rs_body rs = error_document code message rid \<and>
               secured csp rq rs \<and> map_of (rs_headers rs) ''x-request-id'' = Some rid
           | None \<Rightarrow>
               (case e of
                  RequestValidationError \<Rightarrow>
                    rs_status rs = 422 \<and>
                    rs_body rs = error_document ''VALIDATION_ERROR'' ''Request validation failed'' rid \<and>
                    secured csp rq rs \<and> map_of (rs_headers rs) ''x-request-id'' = Some rid
                | HTTPException status detail \<Rightarrow>
                    rs_status rs = status \<and> rs_body rs = error_document ''HTTP_ERROR'' detail rid \<and>
                    secured csp rq rs \<and> map_of (rs_headers rs) ''x-request-id'' = Some rid
                | _ \<Rightarrow>
                    rs = \<lparr>rs_status = 500, rs_headers = [],
                          rs_body = error_document ''INTERNAL_SERVER_ERROR'' ''Internal server error'' rid\<rparr>)))"
proof -
  define rid where "rid = chosen_request_id X (header_get rq ''x-request-id'') (draws s)"
  obtain n where r: "request_id_from_header X (header_get rq ''x-request-id'') s = (Inr rid, s\<lparr>draws := n\<rparr>)"
    using request_id_run unfolding rid_def by blast
  let ?r = "fst (app rq (s\<lparr>draws := n\<rparr>))"
  have run: "serve X csp app rq s = (Inr (finish csp rq rid ?r), snd (app rq (s\<lparr>draws := n\<rparr>)))"
    by (simp add: serve_def r)
  have returned: "finish csp rq rid (Inr out) = with_middlewares csp rq rid out" for out by (simp add: finish_def)
  show ?thesis
  proof (cases ?r)
    case (Inl e)
    show ?thesis
      by (rule exI [of _ rid], rule exI [of _ n], rule exI [of _ "finish csp rq rid ?r"], intro conjI)
         (rule run, rule rid_def, simp only: Inl sum.case finish_raised [OF refl])
  next
    case (Inr out)
    show ?thesis
      by (rule exI [of _ rid], rule exI [of _ n], rule exI [of _ "finish csp rq rid ?r"], intro conjI)
         (rule run, rule rid_def, simp add: Inr returned with_middlewares_secured)
  qed
qed

end
