(* ===== verification/Http_Schema.thy ===== *)
theory Http_Schema
  imports Http_Shell
begin

text \<open>
  What the endpoints of all services are built from: pydantic's checks of a body, the reading of a
  request, and the choice of a route.
\<close>

section \<open>Schemas\<close>

text \<open>
  pydantic's checks: a model accepts a dictionary with its own fields only (\<open>extra="forbid"\<close>); a text field
  accepts texts only, without surrounding white space where the model says so, between two lengths.
\<close>

definition model_fields :: "string list \<Rightarrow> json \<Rightarrow> (string \<times> json) list option" where
  "model_fields allowed j =
     (case j of JDict d \<Rightarrow> if list_all (\<lambda>(k, _). k \<in> set allowed) d then Some d else None | _ \<Rightarrow> None)"

definition bounded :: "nat \<Rightarrow> nat \<Rightarrow> string \<Rightarrow> string option" where
  "bounded lo hi s = (if lo \<le> length s \<and> length s \<le> hi then Some s else None)"

definition str_field :: "(string \<Rightarrow> string) \<Rightarrow> (string \<times> json) list \<Rightarrow> string \<Rightarrow> string option" where
  "str_field clean d k = (case map_of d k of Some (JStr s) \<Rightarrow> Some (clean s) | _ \<Rightarrow> None)"

text \<open>A field of type \<open>str | None\<close> with default \<open>None\<close> and bounds on a text.\<close>

definition opt_str_field :: "(string \<times> json) list \<Rightarrow> string \<Rightarrow> nat \<Rightarrow> nat \<Rightarrow> string option option" where
  "opt_str_field d k lo hi =
     (case map_of d k of
        None \<Rightarrow> Some None
      | Some JNull \<Rightarrow> Some None
      | Some (JStr s) \<Rightarrow> map_option Some (bounded lo hi (strip s))
      | _ \<Rightarrow> None)"

text \<open>A \<open>bool\<close> field in pydantic's lax mode.\<close>

definition lax_bool :: "json \<Rightarrow> bool option" where
  "lax_bool v =
     (case v of
        JBool b \<Rightarrow> Some b
      | JInt i \<Rightarrow> if i = 0 then Some False else if i = 1 then Some True else None
      | JStr s \<Rightarrow>
          if lower s \<in> set [''0'', ''off'', ''f'', ''false'', ''n'', ''no''] then Some False
          else if lower s \<in> set [''1'', ''on'', ''t'', ''true'', ''y'', ''yes''] then Some True else None
      | _ \<Rightarrow> None)"

section \<open>Reading a request\<close>

definition request_json :: "'r extern \<Rightarrow> http_request \<Rightarrow> (('r, 'm) node_scheme, exn, json) prog" where
  "request_json X rq =
     (if rq_body rq = '''' then ret JNull
      else case json_loads X (rq_body rq) of None \<Rightarrow> raise RequestValidationError | Some j \<Rightarrow> ret j)"

definition validated :: "'a option \<Rightarrow> ('s, exn, 'a) prog" where
  "validated v = (case v of None \<Rightarrow> raise RequestValidationError | Some a \<Rightarrow> ret a)"

definition client_of :: "'r extern \<Rightarrow> ('c) base_settings_scheme \<Rightarrow> http_request \<Rightarrow> string option" where
  "client_of X cfg rq = Some (get_client_ip X rq (trusted_proxy_ips cfg))"

definition agent_of :: "http_request \<Rightarrow> string option" where
  "agent_of rq = header_get rq ''user-agent''"

section \<open>Routes\<close>

text \<open>A path no route has is answered 404, a path of a route of another method 405.\<close>

definition dispatch ::
  "(string \<times> string \<times> (http_request \<Rightarrow> ('s, exn, http_response) prog)) list \<Rightarrow> http_request \<Rightarrow>
   ('s, exn, http_response) prog" where
  "dispatch routes rq =
     (case find (\<lambda>(m, p, _). m = rq_method rq \<and> p = rq_path rq) routes of
        Some (_, _, h) \<Rightarrow> h rq
      | None \<Rightarrow>
          if list_ex (\<lambda>(_, p, _). p = rq_path rq) routes
          then ret (json_response 405 (JDict [(''detail'', JStr ''Method Not Allowed'')]))
          else ret (json_response 404 (JDict [(''detail'', JStr ''Not Found'')])))"

text \<open>
  Routes with a parameter as their last segment: a matcher gives the parameter of a path it accepts. The first
  route whose path and method fit is taken.
\<close>

definition exact_path :: "string \<Rightarrow> string \<Rightarrow> string option" where
  "exact_path p path = (if path = p then Some '''' else None)"

definition path_param :: "string \<Rightarrow> string \<Rightarrow> string option" where
  "path_param pre path =
     (let rest = drop (length pre) path in
      if startswith path pre \<and> rest \<noteq> '''' \<and> CHR ''/'' \<notin> set rest then Some rest else None)"

definition dispatch_param ::
  "(string \<times> (string \<Rightarrow> string option) \<times> (string \<Rightarrow> http_request \<Rightarrow> ('s, exn, http_response) prog)) list \<Rightarrow>
   http_request \<Rightarrow> ('s, exn, http_response) prog" where
  "dispatch_param routes rq =
     (case find (\<lambda>(m, p, _). m = rq_method rq \<and> p (rq_path rq) \<noteq> None) routes of
        Some (_, p, h) \<Rightarrow> h (the (p (rq_path rq))) rq
      | None \<Rightarrow>
          if list_ex (\<lambda>(_, p, _). p (rq_path rq) \<noteq> None) routes
          then ret (json_response 405 (JDict [(''detail'', JStr ''Method Not Allowed'')]))
          else ret (json_response 404 (JDict [(''detail'', JStr ''Not Found'')])))"

end
