(* ===== verification/Auth_Api.thy ===== *)
theory Auth_Api
  imports Guessing Http_Schema
begin

text \<open>
  The HTTP interface of the auth-service: the request schemas (\<open>schemas/\<close>), the endpoints of
  \<open>api/v1/\<close> with their dependencies in the order FastAPI resolves them (the body is read, then the
  dependencies run, then the body is checked against its schema, then the endpoint), the
  authenticated user (\<open>api/deps.py\<close>), and the routes of \<open>main.py\<close>. A handler that takes a session runs in
  one that is closed at its end, so what it did not commit is lost.
\<close>

section \<open>Schemas\<close>

definition email_field :: "'r extern \<Rightarrow> (string \<times> json) list \<Rightarrow> string option" where
  "email_field X d = Option.bind (str_field strip d ''email'') (email_normalize X)"

definition password_field :: "(string \<times> json) list \<Rightarrow> string option" where
  "password_field d =
     Option.bind (Option.bind (str_field strip d ''password'') (bounded 8 256)) (\<lambda>v.
       if \<not> list_ex is_ascii_letter v then None else if \<not> list_ex is_digit v then None else Some v)"

definition parse_register_request :: "'r extern \<Rightarrow> json \<Rightarrow> (string \<times> string) option" where
  "parse_register_request X j =
     Option.bind (model_fields [''email'', ''password''] j) (\<lambda>d.
     Option.bind (email_field X d) (\<lambda>e.
     Option.bind (password_field d) (\<lambda>pw. Some (e, pw))))"

definition parse_login_request :: "'r extern \<Rightarrow> json \<Rightarrow> (string \<times> string) option" where
  "parse_login_request X j =
     Option.bind (model_fields [''email'', ''password''] j) (\<lambda>d.
     Option.bind (email_field X d) (\<lambda>e.
     Option.bind (Option.bind (str_field strip d ''password'') (bounded 1 256)) (\<lambda>pw. Some (e, pw))))"

definition parse_login_2fa_request :: "json \<Rightarrow> (string \<times> string option \<times> string option) option" where
  "parse_login_2fa_request j =
     Option.bind (model_fields [''challenge_id'', ''totp_code'', ''backup_code''] j) (\<lambda>d.
     Option.bind (str_field strip d ''challenge_id'') (\<lambda>cid.
     Option.bind (opt_str_field d ''totp_code'' 6 8) (\<lambda>tc.
     Option.bind (opt_str_field d ''backup_code'' 5 32) (\<lambda>bc. Some (cid, tc, bc)))))"

definition parse_password_reset_request :: "'r extern \<Rightarrow> json \<Rightarrow> string option" where
  "parse_password_reset_request X j = Option.bind (model_fields [''email''] j) (email_field X)"

definition parse_password_reset_confirm :: "'r extern \<Rightarrow> json \<Rightarrow> (string \<times> string \<times> string) option" where
  "parse_password_reset_confirm X j =
     Option.bind (model_fields [''email'', ''code'', ''password''] j) (\<lambda>d.
     Option.bind (email_field X d) (\<lambda>e.
     Option.bind (Option.bind (str_field strip d ''code'') (bounded 6 6)) (\<lambda>c.
     Option.bind (password_field d) (\<lambda>pw. Some (e, c, pw)))))"

definition parse_refresh_request :: "json \<Rightarrow> string option" where
  "parse_refresh_request j =
     Option.bind (model_fields [''refresh_token''] j) (\<lambda>d.
     Option.bind (str_field (\<lambda>s. s) d ''refresh_token'') (\<lambda>raw. if 32 \<le> length raw then Some raw else None))"

definition parse_revoke_request :: "json \<Rightarrow> (string \<times> bool) option" where
  "parse_revoke_request j =
     Option.bind (model_fields [''refresh_token'', ''revoke_family''] j) (\<lambda>d.
     Option.bind (str_field (\<lambda>s. s) d ''refresh_token'') (\<lambda>raw.
       if \<not> 32 \<le> length raw then None
       else Option.bind (case map_of d ''revoke_family'' of None \<Rightarrow> Some True | Some v \<Rightarrow> lax_bool v)
              (\<lambda>whole. Some (raw, whole))))"

definition parse_enable_request :: "json \<Rightarrow> string option" where
  "parse_enable_request j =
     Option.bind (model_fields [''totp_code''] j) (\<lambda>d.
     Option.bind (str_field strip d ''totp_code'') (bounded 6 8))"

definition parse_disable_request :: "json \<Rightarrow> (string \<times> string option \<times> string option) option" where
  "parse_disable_request j =
     Option.bind (model_fields [''password'', ''totp_code'', ''backup_code''] j) (\<lambda>d.
     Option.bind (Option.bind (str_field strip d ''password'') (bounded 1 256)) (\<lambda>pw.
     Option.bind (opt_str_field d ''totp_code'' 6 8) (\<lambda>tc.
     Option.bind (opt_str_field d ''backup_code'' 5 32) (\<lambda>bc. Some (pw, tc, bc)))))"

definition parse_regenerate_request :: "json \<Rightarrow> (string option \<times> string option) option" where
  "parse_regenerate_request j =
     Option.bind (model_fields [''totp_code'', ''backup_code''] j) (\<lambda>d.
     Option.bind (opt_str_field d ''totp_code'' 6 8) (\<lambda>tc.
     Option.bind (opt_str_field d ''backup_code'' 5 32) (\<lambda>bc. Some (tc, bc))))"

section \<open>Responses\<close>

definition token_pair_response :: "token_pair \<Rightarrow> json" where
  "token_pair_response p =
     JDict [(''access_token'', JStr (tp_access_token p)), (''refresh_token'', JStr (tp_refresh_token p)),
            (''token_type'', JStr ''Bearer''), (''expires_in'', JInt (tp_access_expires_in p))]"

definition login_response :: "login_step_result \<Rightarrow> ('r, http_response) aprog" where
  "login_response r =
     (if requires_2fa r then
        ret (json_response 200 (JDict [(''requires_2fa'', JBool True), (''challenge_id'', opt_str (challenge_id r)),
                                       (''tokens'', JNull)]))
      else
        (case tokens r of
           None \<Rightarrow> raise (RuntimeError ''Unexpected login state: token pair is missing without 2FA'')
         | Some p \<Rightarrow>
             ret (json_response 200 (JDict [(''requires_2fa'', JBool False), (''challenge_id'', JNull),
                                            (''tokens'', token_pair_response p)]))))"

definition message_response :: "string \<Rightarrow> http_response" where
  "message_response m = json_response 200 (JDict [(''message'', JStr m)])"

definition backup_codes_response :: "string list \<Rightarrow> http_response" where
  "backup_codes_response codes = json_response 200 (JDict [(''backup_codes'', JList (map JStr codes))])"

section \<open>The authenticated user\<close>

definition get_current_user :: "'r extern \<Rightarrow> auth_settings \<Rightarrow> http_request \<Rightarrow> ('r, user) aprog" where
  "get_current_user X cfg rq =
     bindE (extract_bearer_token rq) (\<lambda>raw.
     bindE (decode_and_validate X cfg raw TOKEN_TYPE_ACCESS) (\<lambda>claims.
       case (parse_uuid (tc_sub claims), Option.bind (tc_session_id claims) parse_uuid) of
         (Some user_id, Some session_id) \<Rightarrow>
           thenE (ensure_access_session_active X session_id)
          (bindE (get_by_id user_id) (\<lambda>found.
             case found of
               None \<Rightarrow> raise (UnauthorizedException ''User not found'')
             | Some u \<Rightarrow> if \<not> is_active u then raise (UnauthorizedException ''User is inactive'') else ret u))
       | _ \<Rightarrow> raise (UnauthorizedException ''Invalid access token claims'')))"

section \<open>Endpoints: auth\<close>

definition register_endpoint :: "'r extern \<Rightarrow> auth_settings \<Rightarrow> http_request \<Rightarrow> ('r, http_response) aprog" where
  "register_endpoint X cfg rq =
     bindE (request_json X rq) (\<lambda>j.
     thenE (rate_limit_dependency X cfg ''register'' (rate_limit_register_per_minute cfg) rq)
    (bindE (validated (parse_register_request X j)) (\<lambda>(e, pw).
     thenE (register X e pw (client_of X cfg rq) (agent_of rq))
       (ret (json_response 201 (JDict [(''status'', JStr ''created'')]))))))"

definition login_endpoint :: "'r extern \<Rightarrow> auth_settings \<Rightarrow> http_request \<Rightarrow> ('r, http_response) aprog" where
  "login_endpoint X cfg rq =
     bindE (request_json X rq) (\<lambda>j.
     thenE (rate_limit_dependency X cfg ''login'' (rate_limit_login_per_minute cfg) rq)
    (bindE (validated (parse_login_request X j)) (\<lambda>(e, pw).
     bindE (login X cfg e pw (client_of X cfg rq) (agent_of rq)) login_response)))"

definition verify_login_2fa_endpoint :: "'r extern \<Rightarrow> auth_settings \<Rightarrow> http_request \<Rightarrow> ('r, http_response) aprog" where
  "verify_login_2fa_endpoint X cfg rq =
     bindE (request_json X rq) (\<lambda>j.
     thenE (rate_limit_dependency X cfg ''2fa'' (rate_limit_2fa_per_minute cfg) rq)
    (bindE (validated (parse_login_2fa_request j)) (\<lambda>(cid, tc, bc).
     bindE (verify_login_challenge X cfg cid tc bc (client_of X cfg rq) (agent_of rq)) (\<lambda>p.
       ret (json_response 200 (token_pair_response p))))))"

definition request_password_reset_endpoint :: "'r extern \<Rightarrow> auth_settings \<Rightarrow> http_request \<Rightarrow> ('r, http_response) aprog" where
  "request_password_reset_endpoint X cfg rq =
     bindE (request_json X rq) (\<lambda>j.
     thenE (rate_limit_dependency X cfg ''password_reset'' (rate_limit_password_reset_per_minute cfg) rq)
    (bindE (validated (parse_password_reset_request X j)) (\<lambda>e.
     bindE (request_reset X cfg e (client_of X cfg rq) (agent_of rq)) (\<lambda>sent.
       ret (json_response 202 (JDict [(''status'', JStr ''ok''), (''email_sent'', JBool sent)]))))))"

definition reset_password_endpoint :: "'r extern \<Rightarrow> auth_settings \<Rightarrow> http_request \<Rightarrow> ('r, http_response) aprog" where
  "reset_password_endpoint X cfg rq =
     bindE (request_json X rq) (\<lambda>j.
     thenE (rate_limit_dependency X cfg ''password_reset_confirm'' (rate_limit_password_reset_per_minute cfg) rq)
    (bindE (validated (parse_password_reset_confirm X j)) (\<lambda>(e, c, pw).
     thenE (reset_password X cfg e c pw (client_of X cfg rq) (agent_of rq))
       (ret (json_response 200 (JDict [(''status'', JStr ''ok''), (''email_sent'', JBool True)]))))))"

section \<open>Endpoints: tokens\<close>

definition refresh_tokens_endpoint :: "'r extern \<Rightarrow> auth_settings \<Rightarrow> http_request \<Rightarrow> ('r, http_response) aprog" where
  "refresh_tokens_endpoint X cfg rq =
     bindE (request_json X rq) (\<lambda>j.
     thenE (rate_limit_dependency X cfg ''refresh'' (rate_limit_refresh_per_minute cfg) rq)
    (bindE (validated (parse_refresh_request j)) (\<lambda>raw.
     bindE (service_refresh_tokens X cfg raw (client_of X cfg rq) (agent_of rq)) (\<lambda>p.
       ret (json_response 200 (token_pair_response p))))))"

definition revoke_token_endpoint :: "'r extern \<Rightarrow> auth_settings \<Rightarrow> http_request \<Rightarrow> ('r, http_response) aprog" where
  "revoke_token_endpoint X cfg rq =
     bindE (request_json X rq) (\<lambda>j.
     thenE (rate_limit_dependency X cfg ''revoke'' (rate_limit_revoke_per_minute cfg) rq)
    (bindE (validated (parse_revoke_request j)) (\<lambda>(raw, whole).
     thenE (revoke_refresh_token X cfg raw whole (client_of X cfg rq) (agent_of rq))
       (ret (message_response ''Refresh token revoked'')))))"

section \<open>Endpoints: two-factor\<close>

definition log_own_event ::
  "'r extern \<Rightarrow> auth_settings \<Rightarrow> string \<Rightarrow> user \<Rightarrow> http_request \<Rightarrow> ('r, unit) aprog" where
  "log_own_event X cfg ev u rq =
     thenE (log_event X ev ''success'' (Some (u_id u)) (Some (u_id u)) (client_of X cfg rq) (agent_of rq) None)
       session_commit"

definition setup_two_factor_endpoint :: "'r extern \<Rightarrow> auth_settings \<Rightarrow> http_request \<Rightarrow> ('r, http_response) aprog" where
  "setup_two_factor_endpoint X cfg rq =
     bindE (get_current_user X cfg rq) (\<lambda>u.
     thenE (rate_limit_dependency X cfg ''2fa_setup'' (rate_limit_2fa_setup_per_minute cfg) rq)
    (bindE (create_setup X cfg u) (\<lambda>sd.
     thenE (log_own_event X cfg AUDIT_2FA_SETUP_INITIATED u rq)
       (ret (json_response 200 (JDict [(''qr_png_base64'', JStr (sd_qr_png_base64 sd)),
                                       (''backup_codes'', JList (map JStr (sd_backup_codes sd)))]))))))"

definition enable_two_factor_endpoint :: "'r extern \<Rightarrow> auth_settings \<Rightarrow> http_request \<Rightarrow> ('r, http_response) aprog" where
  "enable_two_factor_endpoint X cfg rq =
     bindE (request_json X rq) (\<lambda>j.
     bindE (get_current_user X cfg rq) (\<lambda>u.
     thenE (rate_limit_dependency X cfg ''2fa_enable'' (rate_limit_2fa_per_minute cfg) rq)
    (bindE (validated (parse_enable_request j)) (\<lambda>code.
     bindE (enable X cfg u code) (\<lambda>codes.
     thenE (log_own_event X cfg AUDIT_2FA_ENABLED u rq)
       (ret (backup_codes_response codes)))))))"

definition disable_two_factor_endpoint :: "'r extern \<Rightarrow> auth_settings \<Rightarrow> http_request \<Rightarrow> ('r, http_response) aprog" where
  "disable_two_factor_endpoint X cfg rq =
     bindE (request_json X rq) (\<lambda>j.
     bindE (get_current_user X cfg rq) (\<lambda>u.
     thenE (rate_limit_dependency X cfg ''2fa_disable'' (rate_limit_2fa_per_minute cfg) rq)
    (bindE (validated (parse_disable_request j)) (\<lambda>(pw, tc, bc).
     bindE (verify_password X pw (password_hash u)) (\<lambda>ok.
       if \<not> ok then raise InvalidCredentialsException
       else
         thenE (disable X cfg u tc bc)
        (thenE (log_own_event X cfg AUDIT_2FA_DISABLED u rq)
           (ret (message_response ''Two-factor authentication disabled'')))))))) "

definition regenerate_backup_codes_endpoint :: "'r extern \<Rightarrow> auth_settings \<Rightarrow> http_request \<Rightarrow> ('r, http_response) aprog" where
  "regenerate_backup_codes_endpoint X cfg rq =
     bindE (request_json X rq) (\<lambda>j.
     bindE (get_current_user X cfg rq) (\<lambda>u.
     thenE (rate_limit_dependency X cfg ''2fa_regenerate'' (rate_limit_2fa_per_minute cfg) rq)
    (bindE (validated (parse_regenerate_request j)) (\<lambda>(tc, bc).
     bindE (regenerate_backup_codes X cfg u tc bc) (\<lambda>codes.
     thenE (log_own_event X cfg AUDIT_BACKUP_CODES_REGENERATED u rq)
       (ret (backup_codes_response codes)))))))"

section \<open>Endpoints: sessions and health\<close>

definition current_session_info_endpoint :: "'r extern \<Rightarrow> auth_settings \<Rightarrow> http_request \<Rightarrow> ('r, http_response) aprog" where
  "current_session_info_endpoint X cfg rq =
     bindE (get_current_user X cfg rq) (\<lambda>u.
       ret (json_response 200
         (JDict [(''user_id'', JStr (str_uuid (u_id u))), (''email'', JStr (email u)),
                 (''client_ip'', JStr (get_client_ip X rq (trusted_proxy_ips cfg))),
                 (''two_factor_enabled'', JBool (two_factor_enabled u))])))"

definition liveness_endpoint :: "('r, http_response) aprog" where
  "liveness_endpoint = ret (json_response 200 (JDict [(''status'', JStr ''ok'')]))"

section \<open>Routes\<close>

text \<open>The routes of \<open>main.py\<close>; \<open>GET /v1/health/ready\<close>, which only probes its servers, is left out.\<close>

definition auth_routes ::
  "'r extern \<Rightarrow> auth_settings \<Rightarrow> (string \<times> string \<times> (http_request \<Rightarrow> ('r, http_response) aprog)) list" where
  "auth_routes X cfg =
     [(''GET'', ''/v1/health/live'', \<lambda>_. liveness_endpoint),
      (''POST'', ''/v1/auth/register'', register_endpoint X cfg),
      (''POST'', ''/v1/auth/login'', login_endpoint X cfg),
      (''POST'', ''/v1/auth/login/2fa'', verify_login_2fa_endpoint X cfg),
      (''POST'', ''/v1/auth/password/forgot'', request_password_reset_endpoint X cfg),
      (''POST'', ''/v1/auth/password/reset'', reset_password_endpoint X cfg),
      (''POST'', ''/v1/tokens/refresh'', refresh_tokens_endpoint X cfg),
      (''POST'', ''/v1/tokens/revoke'', revoke_token_endpoint X cfg),
      (''POST'', ''/v1/two-factor/setup'', setup_two_factor_endpoint X cfg),
      (''POST'', ''/v1/two-factor/enable'', enable_two_factor_endpoint X cfg),
      (''POST'', ''/v1/two-factor/disable'', disable_two_factor_endpoint X cfg),
      (''POST'', ''/v1/two-factor/backup-codes/regenerate'', regenerate_backup_codes_endpoint X cfg),
      (''GET'', ''/v1/sessions/me'', current_session_info_endpoint X cfg)]"

definition auth_app :: "'r extern \<Rightarrow> auth_settings \<Rightarrow> http_request \<Rightarrow> ('r, http_response) aprog" where
  "auth_app X cfg rq = with_session (dispatch (auth_routes X cfg) rq)"

definition serve_auth :: "'r extern \<Rightarrow> auth_settings \<Rightarrow> http_request \<Rightarrow> ('r, http_response) aprog" where
  "serve_auth X cfg rq = serve X service_csp (auth_app X cfg) rq"

end
