(* ===== verification/Auth_Effects.thy ===== *)
theory Auth_Effects
  imports Auth_Api Login_Properties
begin

text \<open>
  The interface between the statements of the auth-service and its requests. A relation between the states before and after that
  the statements of the repositories respect (the locale \<^verbatim>\<open>auth_effect\<close>) is respected by every service, every
  endpoint and every request. \<^verbatim>\<open>Auth_Invariants\<close> instantiates it with the invariants of the tables,
  \<^verbatim>\<open>Refresh_Refinement\<close> with the simulation of the abstract token families.
\<close>

text \<open>What an update of a user never changes.\<close>

definition user_le :: "user \<Rightarrow> user \<Rightarrow> bool" where
  "user_le a b \<longleftrightarrow> u_id b = u_id a \<and> email b = email a \<and> is_superuser b = is_superuser a \<and> is_active b = is_active a"

locale auth_effect = effect R for R :: "'r auth_node \<Rightarrow> 'r auth_node \<Rightarrow> bool" +
  fixes X :: "'r extern" and cfg :: auth_settings
  assumes same: "db t = db s \<Longrightarrow> committed t = committed s \<Longrightarrow> clock t = clock s \<Longrightarrow> draws s \<le> draws t \<Longrightarrow> R s t"
    and commit: "within R session_commit"
    and rollback: "within R session_rollback"
    and user_created: "within R (user_create X e ph)"
    and user_changed: "(\<And>x. user_le x (g x)) \<Longrightarrow> within R (mutate_user u g)"
    and secret_confirmed: "within R (confirm_secret rec tc)"
    and step_used: "accepts_step X cfg (db s) u c (clock s) k \<Longrightarrow> R s (s\<lparr>db := used_step_db u k (db s)\<rparr>)"
    and secret_stored: "within R (upsert_secret X uid enc)" "within R (replace_backup_codes X uid hs)"
    and secret_removed: "within R (delete_two_factor_data uid)" "within R (mark_backup_code_used b)"
    and reset_codes: "within R (password_reset_create X uid hash until ip ua)" "within R (mark_active_for_user_used uid now)"
      "within R (mark_used p now)"
    and logging: "within R (log_event X ev outc actor target ip ua pl)"
    and issue: "within R (issue_for_user X cfg uid ip ua)"
    and rotation: "within R (rotate_refresh X cfg raw ip ua)"
    and revocation: "within R (revoke_token tok why by)" "within R (tokens_revoke_family fam why)"
      "within R (revoke_all_for_user uid why)" "within R (sessions_revoke_family fam)" "within R (revoke_user_sessions uid)"
begin

text \<open>Programs that leave the tables alone.\<close>

lemma within_same:
  "(\<And>s. db (snd (p s)) = db s \<and> committed (snd (p s)) = committed s \<and> clock (snd (p s)) = clock s \<and> draws s \<le> draws (snd (p s))) \<Longrightarrow> within R p"
  by (rule withinI) (simp add: same)

lemma within_select: "within R (select f)" "within R (scalar_one_or_none rows)"
  by (rule within_same, simp add: scalar_state)+

lemma within_redis_only: "within redis_only p \<Longrightarrow> within R p"
  by (rule within_same) (metis redis_onlyD redis_only_fields(1,2,3,4) prod.collapse order_refl)

lemma fields: "R s (s\<lparr>draws := Suc (draws s)\<rparr>)" "R s (s\<lparr>redis := r\<rparr>)" "R s s"
  by (rule same; simp)+

lemma within_primitives:
  "within R time_now" "within R (draw f)" "within R (redis_read c)" "within R (redis_write w)" "within R (redis_incr ops k)"
  by (simp add: within_def fields, simp add: within_def fields,
      (rule within_redis_read within_redis_write within_redis_incr; simp add: fields)+)

lemmas base_rules = within_rules commit rollback within_select within_primitives

lemma within_queries:
  "within R (get_by_email e)" "within R (get_by_id uid)" "within R (get_by_jti_for_update j)"
  "within R (get_secret uid)" "within R (get_secret_for_update uid)"
  "within R (get_active_for_user_by_hash uid h)" "within R (is_family_active fam)"
  "within R (list_active_session_ids_for_user uid)" "within R (list_backup_codes_for_update uid)"
  unfolding query_defs is_family_active_def list_active_session_ids_for_user_def list_backup_codes_for_update_def
  by (intro base_rules)+

lemma within_single_updates:
  "within R (update_password u ph)" "within R (verify_totp X cfg usr c)"
proof -
  show "within R (update_password u ph)"
    unfolding update_password_def by (intro base_rules user_changed) (simp add: user_le_def)
  show "within R (verify_totp X cfg usr c)"
  proof (rule withinI)
    fix s show "R s (snd (verify_totp X cfg usr c s))"
      using verify_totp_run [of X cfg usr c s] step_used by (metis fields(3) prod.collapse)
  qed
qed

lemmas repository_rules =
  base_rules within_queries within_single_updates user_created secret_confirmed secret_stored secret_removed reset_codes logging revocation

lemma within_failures:
  "within R (record_failure X cfg sc i)" "within R (clear_failures X cfg sc i)"
  "within R (assert_not_locked X cfg sc i)"
  by (rule within_redis_only, rule within_record_failure)
     (rule within_redis_only, rule within_clear_failures, unfold assert_not_locked_def Let_def, intro base_rules)

lemma within_passwords:
  "within R (validate_password_policy pw)" "within R (hash_password X pw)"
  "within R (verify_password X pw h)" "within R (verify_against_dummy_hash X pw)"
  "within R (hash_backup_code X c)" "within R (verify_backup_code X c h)"
proof -
  show pol: "within R (validate_password_policy pw)"
    by (simp add: within_def snd_validate_password_policy fields)
  show "within R (hash_password X pw)" unfolding hash_password_def by (intro base_rules pol)
  show "within R (hash_backup_code X c)" unfolding hash_backup_code_def by (intro base_rules)
qed (simp_all add: within_def snd_verify_password snd_verify_against_dummy_hash snd_verify_backup_code fields)

lemma within_tokens:
  "within R (generate_jti X)" "within R (issue_access_token X cfg uid sid)"
  "within R (issue_refresh_token X cfg uid sid fam j)"
  "within R (decode_and_validate X cfg raw ty)" "within R (refresh_claims X cfg raw)"
proof -
  show "within R (refresh_claims X cfg raw)"
    by (rule within_same) (simp add: refresh_claims_state [OF surjective_pairing])
  show "within R (decode_and_validate X cfg raw ty)"
    by (rule within_same) (simp add: snd_decode_and_validate)
qed (unfold generate_jti_def issue_access_token_def issue_refresh_token_def, (intro base_rules)+)

lemmas services_rules =
  repository_rules within_failures within_passwords within_tokens

lemma within_revoke: "within R (revoke X cfg raw whole why)"
  unfolding revoke_def by (intro services_rules)

lemmas within_refresh_service = issue rotation within_revoke

lemma within_code_generation:
  "within R (choose_chars X n)" "within R (generate_plain_backup_codes X m)" "within R (hash_backup_codes X cs)"
proof -
  show chars: "within R (choose_chars X n)" for n
    by (induction n) (simp_all only: choose_chars.simps, (intro base_rules | assumption)+)
  show "within R (generate_plain_backup_codes X m)"
    by (induction m) (simp_all only: generate_plain_backup_codes.simps, (intro base_rules chars | assumption)+)
  show "within R (hash_backup_codes X cs)"
    by (induction cs) (simp_all only: hash_backup_codes.simps, (intro base_rules within_passwords | assumption)+)
qed

lemma within_second_factor:
  "within R (generate_secret X)" "within R (encrypt_secret X cfg sec)" "within R (decrypt_secret X cfg sec)"
  "within R (verify_totp_code X sec c iv w)"
  "within R (try_backup_codes X c cs)"
proof -
  show "within R (generate_secret X)" unfolding generate_secret_def by (intro base_rules)
  show "within R (encrypt_secret X cfg sec)" unfolding encrypt_secret_def by (intro base_rules)
  show "within R (decrypt_secret X cfg sec)" unfolding decrypt_secret_def by (intro base_rules)
  show "within R (verify_totp_code X sec c iv w)"
    unfolding verify_totp_code_def by (intro base_rules)
  show "within R (try_backup_codes X c cs)"
    by (induction cs) (simp_all only: try_backup_codes.simps, (intro services_rules | assumption)+)
qed

lemma within_verify_for_login: "within R (verify_for_login X cfg u tc bc)"
  unfolding verify_for_login_def verify_user_backup_code_def by (intro services_rules within_second_factor)

lemma within_two_factor_service:
  "within R (create_setup X cfg u)" "within R (enable X cfg u c)" "within R (disable X cfg u tc bc)"
  "within R (regenerate_backup_codes X cfg u tc bc)"
  unfolding create_setup_def enable_def disable_def regenerate_backup_codes_def
  by (intro services_rules within_code_generation within_second_factor within_verify_for_login user_changed;
      simp add: user_le_def)+


lemma within_exn:
  "(\<And>v w. within R (p v w)) \<Longrightarrow> (\<And>m. within R (q m)) \<Longrightarrow> within R r \<Longrightarrow>
   within R (case e of TokenReuseDetectedException v w \<Rightarrow> p v w | InvalidTokenException m \<Rightarrow> q m | _ \<Rightarrow> r)"
  by (cases e) simp_all

lemma within_challenges:
  "within R (mark_access_session_revoked X cfg sid)" "within R (create_login_challenge X cfg uid ip)"
  "within R (get_login_challenge X cid)" "within R (delete_login_challenge X cid)"
  "within R (challenge_context_matches X cfg v ip)"
proof -
  show "within R (get_login_challenge X cid)"
    unfolding get_login_challenge_def by (intro base_rules) (auto split: json.split intro: base_rules)
  show "within R (challenge_context_matches X cfg v ip)"
    unfolding challenge_context_matches_def Let_def by (cases v) (auto simp del: run_ret run_raise intro: base_rules)
qed (unfold mark_access_session_revoked_def create_login_challenge_def delete_login_challenge_def Let_def, (intro base_rules)+)

lemma within_login:
  "within R (register X e pw ip ua)" "within R (login_failed X cfg e found ip ua)"
  "within R (login_accepted X cfg e u ip ua)" "within R (login X cfg e pw ip ua)"
proof -
  show "within R (register X e pw ip ua)"
    unfolding register_def by (intro services_rules)
  show failed: "within R (login_failed X cfg e found ip ua)" for e found
    unfolding login_failed_def by (intro services_rules user_changed) (simp add: user_le_def)
  show accepted: "within R (login_accepted X cfg e u ip ua)" for e u
    unfolding login_accepted_def by (intro services_rules within_challenges within_refresh_service)
  show "within R (login X cfg e pw ip ua)"
    unfolding login_def by (intro services_rules failed accepted)
qed

lemma within_challenge_login:
  "within R (challenge_second_factor X cfg cid u tc bc ip ua)"
  "within R (verify_login_challenge X cfg cid tc bc ip ua)"
proof -
  show second: "within R (challenge_second_factor X cfg cid u tc bc ip ua)" for u
    unfolding challenge_second_factor_def
    by (intro services_rules within_challenges within_refresh_service within_verify_for_login)
  have json_text: "within R (case v of JStr txt \<Rightarrow> f txt | _ \<Rightarrow> raise AttributeError)"
    if "\<And>txt. within R (f txt)" for v :: json and f :: "string \<Rightarrow> ('r, token_pair) aprog"
    using that by (cases v) (simp_all only: json.case within_raise)
  show "within R (verify_login_challenge X cfg cid tc bc ip ua)"
    unfolding verify_login_challenge_def by (intro services_rules within_challenges json_text second)
qed

lemma within_session_services:
  "within R (service_refresh_tokens X cfg raw ip ua)" "within R (revoke_refresh_token X cfg raw whole ip ua)"
  unfolding service_refresh_tokens_def revoke_refresh_token_def
  by (intro services_rules within_challenges within_refresh_service within_exn)+

lemma within_reset_service:
  "within R (request_reset X cfg e ip ua)" "within R (reset_password X cfg e c pw ip ua)"
proof -
  have mail: "within R (send_reset_mail X cfg u c)" for u c
    unfolding send_reset_mail_def send_def
    by (intro base_rules) (case_tac a, simp_all only: smtp_outcome.case within_ret within_raise)
  have revoked: "within R (mark_access_sessions_revoked X cfg sids)" for sids
    unfolding mark_access_sessions_revoked_def by (intro base_rules)
  have failure: "within R (record_reset_failure X cfg i ai found)" for i ai found
    unfolding record_reset_failure_def by (intro services_rules user_changed) (simp add: user_le_def)
  have accepted: "within R (reset_accepted X cfg i ai u rec pw now ip ua)" for i ai u rec now
    unfolding reset_accepted_def by (intro services_rules revoked)
  show "within R (request_reset X cfg e ip ua)"
    unfolding request_reset_def generate_code_def by (intro services_rules mail)
  show "within R (reset_password X cfg e c pw ip ua)"
    unfolding reset_password_def by (intro services_rules failure accepted)
qed


text \<open>Requests.\<close>

lemma within_request_parts:
  "within R (request_json X rq)" "within R (validated v)" "within R (extract_bearer_token rq)"
  "within R (ensure_access_session_active X sid)" "within R (rate_limit_dependency X cfg sc lim rq)"
  "within R (login_response r)" "within R (log_own_event X cfg ev u rq)"
  unfolding request_json_def validated_def extract_bearer_token_def ensure_access_session_active_def
    rate_limit_dependency_def apply_rate_limit_def login_response_def log_own_event_def Let_def
  by (intro services_rules)+

lemma within_get_current_user: "within R (get_current_user X cfg rq)"
  unfolding get_current_user_def by (intro services_rules within_request_parts)

lemmas requests_rules =
  services_rules within_request_parts within_get_current_user within_login within_challenge_login
  within_session_services within_reset_service within_two_factor_service

lemma within_endpoints:
  "within R (register_endpoint X cfg rq)" "within R (login_endpoint X cfg rq)"
  "within R (verify_login_2fa_endpoint X cfg rq)" "within R (request_password_reset_endpoint X cfg rq)"
  "within R (reset_password_endpoint X cfg rq)" "within R (refresh_tokens_endpoint X cfg rq)"
  "within R (revoke_token_endpoint X cfg rq)" "within R (setup_two_factor_endpoint X cfg rq)"
  "within R (enable_two_factor_endpoint X cfg rq)" "within R (disable_two_factor_endpoint X cfg rq)"
  "within R (regenerate_backup_codes_endpoint X cfg rq)" "within R (current_session_info_endpoint X cfg rq)"
  "within R liveness_endpoint"
  unfolding register_endpoint_def login_endpoint_def verify_login_2fa_endpoint_def request_password_reset_endpoint_def
    reset_password_endpoint_def refresh_tokens_endpoint_def revoke_token_endpoint_def setup_two_factor_endpoint_def
    enable_two_factor_endpoint_def disable_two_factor_endpoint_def regenerate_backup_codes_endpoint_def
    current_session_info_endpoint_def liveness_endpoint_def
  by (intro requests_rules)+

lemma within_dispatch:
  assumes "\<And>m p h. (m, p, h) \<in> set routes \<Longrightarrow> within R (h rq)"
  shows "within R (dispatch routes rq)"
proof (cases "find (\<lambda>(m, p, _). m = rq_method rq \<and> p = rq_path rq) routes")
  case None
  then show ?thesis by (simp only: dispatch_def option.case) (intro base_rules)
next
  case (Some r)
  then show ?thesis using assms by (cases r) (auto simp: dispatch_def dest: find_SomeD)
qed

lemma within_auth_routes: "within R (dispatch (auth_routes X cfg) rq)"
  by (rule within_dispatch) (auto simp: auth_routes_def intro: within_endpoints)

text \<open>A request opens its session on the committed tables, and what is not committed at its end is lost.\<close>

lemma close: "R s (s\<lparr>db := committed s\<rparr>)"
  using rollback by (simp add: within_def)

lemma within_auth_app: "within R (auth_app X cfg rq)"
proof (rule withinI)
  fix s :: "'r auth_node"
  obtain r t where run: "dispatch (auth_routes X cfg) rq (s\<lparr>db := committed s\<rparr>) = (r, t)" by fastforce
  then have "R (s\<lparr>db := committed s\<rparr>) t" by (rule within_run [OF within_auth_routes])
  then have "R s (t\<lparr>db := committed t\<rparr>)" using close trans by blast
  then show "R s (snd (auth_app X cfg rq s))" using run by (simp add: auth_app_def with_session_def)
qed

lemma request_id_draws:
  "\<exists>n rid. request_id_from_header X v s = (Inr rid, s\<lparr>draws := n\<rparr>) \<and> draws s \<le> n"
  using request_id_run [of X v s]
  by (auto simp: request_id_from_header_def Let_def split: option.splits intro: exI [of _ "draws s"])

lemma within_serve_auth: "within R (serve_auth X cfg rq)"
proof (rule withinI)
  fix s :: "'r auth_node"
  obtain n rid where q: "request_id_from_header X (header_get rq ''x-request-id'') s = (Inr rid, s\<lparr>draws := n\<rparr>)"
    and n: "draws s \<le> n" using request_id_draws by blast
  have "R s (s\<lparr>draws := n\<rparr>)" by (rule same) (simp_all add: n)
  moreover have "R (s\<lparr>draws := n\<rparr>) (snd (auth_app X cfg rq (s\<lparr>draws := n\<rparr>)))"
    using within_auth_app by (simp add: within_def)
  ultimately show "R s (snd (serve_auth X cfg rq s))"
    using trans by (auto simp: serve_auth_def serve_def q split: prod.splits)
qed

end

end
