(* ===== verification/Auth_Invariants.thy ===== *)
theory Auth_Invariants
  imports Auth_Effects
begin

text \<open>
  What holds of the auth-service's tables in every state it can reach. Two facts are tracked through
  all programs at once: \<open>wf_db\<close>, the well-formedness of the tables, and \<open>db_le\<close>, the ways in which the tables
  only ever grow (an event log that is only appended to, tokens, sessions and reset codes that
  never come back to life). Both are proved for each statement and lifted to
  whole requests by the effect calculus; reachability is then a rule induction.
\<close>

section \<open>Well-formed tables\<close>

definition wf_db :: "auth_db \<Rightarrow> bool" where
  "wf_db d \<longleftrightarrow>
     distinct (map u_id (users d)) \<and> distinct (map email (users d)) \<and>
     (\<forall>u \<in> set (users d). lower (email u) = email u) \<and>
     distinct (map jti (refresh_tokens d)) \<and> distinct (map rt_id (refresh_tokens d)) \<and>
     (\<forall>x \<in> set (refresh_tokens d). rotated_at x \<noteq> None \<longrightarrow> revoked_at x \<noteq> None) \<and>
     distinct (map us_id (user_sessions d)) \<and>
     distinct (map tf_user_id (two_factor_secrets d)) \<and>
     distinct (map bc_id (backup_codes d)) \<and>
     distinct (map pr_id (password_reset_tokens d)) \<and> distinct (map pr_token_hash (password_reset_tokens d)) \<and>
     distinct (map ae_id (audit_events d)) \<and> (\<forall>e \<in> set (audit_events d). clean_items (payload e))"

section \<open>Growing tables\<close>

text \<open>Every row of the first list is, at its place in the second, a later version of itself.\<close>

definition rows_le :: "('a \<Rightarrow> 'a \<Rightarrow> bool) \<Rightarrow> 'a list \<Rightarrow> 'a list \<Rightarrow> bool" where
  "rows_le P xs ys \<longleftrightarrow> length xs \<le> length ys \<and> (\<forall>i < length xs. P (xs ! i) (ys ! i))"

lemma rows_le_refl: "(\<And>x. P x x) \<Longrightarrow> rows_le P xs xs"
  by (simp add: rows_le_def)

lemma rows_le_trans:
  "(\<And>x y z. P x y \<Longrightarrow> P y z \<Longrightarrow> P x z) \<Longrightarrow> rows_le P xs ys \<Longrightarrow> rows_le P ys zs \<Longrightarrow> rows_le P xs zs"
  unfolding rows_le_def by (meson le_trans less_le_trans)

lemma rows_le_append: "(\<And>x. P x x) \<Longrightarrow> rows_le P xs (xs @ ys)"
  by (simp add: rows_le_def nth_append)

lemma rows_le_update: "(\<And>x. P x x) \<Longrightarrow> (\<And>x. Q x \<Longrightarrow> P x (f x)) \<Longrightarrow> rows_le P xs (update_where Q f xs)"
  by (simp add: rows_le_def update_where_def)

lemma rows_leE:
  assumes "rows_le P xs ys" "x \<in> set xs"
  obtains y where "y \<in> set ys" "P x y"
  using assms unfolding rows_le_def in_set_conv_nth by (metis less_le_trans nth_mem)

definition token_le :: "refresh_token \<Rightarrow> refresh_token \<Rightarrow> bool" where
  "token_le a b \<longleftrightarrow>
     jti b = jti a \<and> family_id b = family_id a \<and> rt_user_id b = rt_user_id a \<and> token_hash b = token_hash a \<and>
     expires_at b = expires_at a \<and> (consumed a \<longrightarrow> consumed b) \<and> (revoked_at a \<noteq> None \<longrightarrow> revoked_at b \<noteq> None)"

definition session_le :: "user_session \<Rightarrow> user_session \<Rightarrow> bool" where
  "session_le a b \<longleftrightarrow>
     us_id b = us_id a \<and> us_user_id b = us_user_id a \<and> refresh_family_id b = refresh_family_id a \<and>
     (us_revoked_at a \<noteq> None \<longrightarrow> us_revoked_at b \<noteq> None)"

definition code_le :: "password_reset_token \<Rightarrow> password_reset_token \<Rightarrow> bool" where
  "code_le a b \<longleftrightarrow>
     pr_id b = pr_id a \<and> pr_user_id b = pr_user_id a \<and> pr_token_hash b = pr_token_hash a \<and>
     pr_expires_at b = pr_expires_at a \<and> (pr_used_at a \<noteq> None \<longrightarrow> pr_used_at b \<noteq> None)"

definition db_le :: "auth_db \<Rightarrow> auth_db \<Rightarrow> bool" where
  "db_le d d' \<longleftrightarrow>
     rows_le user_le (users d) (users d') \<and>
     rows_le token_le (refresh_tokens d) (refresh_tokens d') \<and>
     rows_le session_le (user_sessions d) (user_sessions d') \<and>
     rows_le code_le (password_reset_tokens d) (password_reset_tokens d') \<and>
     rows_le (=) (audit_events d) (audit_events d')"

lemma row_orders:
  "token_le a a" "session_le v v" "code_le c c" "user_le u u"
  by (simp_all add: token_le_def session_le_def code_le_def user_le_def)

lemma row_orders_trans:
  "token_le a b \<Longrightarrow> token_le b c \<Longrightarrow> token_le a c"
  "session_le v w \<Longrightarrow> session_le w x \<Longrightarrow> session_le v x"
  "code_le p q \<Longrightarrow> code_le q r \<Longrightarrow> code_le p r"
  "user_le i j \<Longrightarrow> user_le j k \<Longrightarrow> user_le i k"
  by (auto simp: token_le_def session_le_def code_le_def user_le_def)

lemma db_le_refl [simp]: "db_le d d"
  by (simp add: db_le_def rows_le_refl row_orders)

lemma db_le_trans: "db_le a b \<Longrightarrow> db_le b c \<Longrightarrow> db_le a c"
  unfolding db_le_def
  by (elim conjE, intro conjI; rule rows_le_trans) (erule (1) row_orders_trans | assumption | simp)+

section \<open>The effect of a program\<close>

definition keeps :: "'r auth_node \<Rightarrow> 'r auth_node \<Rightarrow> bool" where
  "keeps s t \<longleftrightarrow>
     (wf_db (committed s) \<and> wf_db (db s) \<longrightarrow> wf_db (committed t) \<and> wf_db (db t)) \<and>
     (db_le (committed s) (db s) \<longrightarrow> db_le (committed t) (db t) \<and> db_le (committed s) (committed t))"

interpretation keeping: effect keeps
proof unfold_locales
  fix s t u :: "'r auth_node"
  assume "keeps s t" "keeps t u"
  then show "keeps s u" unfolding keeps_def using db_le_trans by blast
qed (simp add: keeps_def)

lemma keeps_same: "db t = db s \<Longrightarrow> committed t = committed s \<Longrightarrow> keeps s t"
  by (simp add: keeps_def)

lemma keeps_fields [simp]: "keeps s (s\<lparr>draws := n\<rparr>)" "keeps s (s\<lparr>redis := r\<rparr>)" "keeps s (s\<lparr>clock := c\<rparr>)" "keeps s s"
  by (simp_all add: keeps_same)

lemma keeps_change:
  assumes "db t = g (db s)" "committed t = committed s"
    and "wf_db (db s) \<Longrightarrow> wf_db (g (db s))" "db_le (db s) (g (db s))"
  shows "keeps s t"
  using assms db_le_trans unfolding keeps_def by auto

lemma within_update_db:
  "(\<And>d. wf_db d \<Longrightarrow> wf_db (g d)) \<Longrightarrow> (\<And>d. db_le d (g d)) \<Longrightarrow> within keeps (update_db g)"
  by (rule withinI) (rule keeps_change [where g = g], simp_all)

lemma within_commit: "within keeps session_commit"
  by (simp add: within_def keeps_def)

lemma within_rollback: "within keeps session_rollback"
  by (simp add: within_def keeps_def)

lemma within_keeps_select: "within keeps (select f)"
  by (simp add: within_def)

lemma within_scalar: "within keeps (scalar_one_or_none rows)"
  by (simp add: within_def scalar_state)

lemma within_keeps_primitives:
  "within keeps time_now" "within keeps (draw f)" "within keeps (redis_read c)" "within keeps (redis_write w)"
  "within keeps (redis_incr ops k)"
  by (rule within_time_now within_draw within_redis_read within_redis_write within_redis_incr; simp)+

lemmas keeps_rules =
  keeping.within_rules within_commit within_rollback within_keeps_select within_scalar within_keeps_primitives

section \<open>Statements\<close>

text \<open>Updates that change no key and only move rows forward.\<close>

lemma wf_update_users:
  "wf_db d \<Longrightarrow> (\<And>x. Q x \<Longrightarrow> u_id (f x) = u_id x \<and> email (f x) = email x) \<Longrightarrow>
   wf_db (d\<lparr>users := update_where Q f (users d)\<rparr>)"
  by (auto simp: wf_db_def map_update_where_same set_update_where)

lemma wf_update_tokens:
  "wf_db d \<Longrightarrow> (\<And>x. Q x \<Longrightarrow> jti (f x) = jti x \<and> rt_id (f x) = rt_id x \<and> revoked_at (f x) \<noteq> None) \<Longrightarrow>
   wf_db (d\<lparr>refresh_tokens := update_where Q f (refresh_tokens d)\<rparr>)"
  by (simp add: wf_db_def map_update_where_same ball_update_where)

lemma wf_update_sessions:
  "wf_db d \<Longrightarrow> (\<And>x. Q x \<Longrightarrow> us_id (f x) = us_id x) \<Longrightarrow>
   wf_db (d\<lparr>user_sessions := update_where Q f (user_sessions d)\<rparr>)"
  by (simp add: wf_db_def map_update_where_same)

lemma wf_update_secrets:
  "wf_db d \<Longrightarrow> (\<And>x. Q x \<Longrightarrow> tf_user_id (f x) = tf_user_id x) \<Longrightarrow>
   wf_db (d\<lparr>two_factor_secrets := update_where Q f (two_factor_secrets d)\<rparr>)"
  by (simp add: wf_db_def map_update_where_same)

lemma wf_update_codes:
  "wf_db d \<Longrightarrow> (\<And>x. Q x \<Longrightarrow> bc_id (f x) = bc_id x) \<Longrightarrow>
   wf_db (d\<lparr>backup_codes := update_where Q f (backup_codes d)\<rparr>)"
  by (simp add: wf_db_def map_update_where_same)

lemma wf_update_resets:
  "wf_db d \<Longrightarrow> (\<And>x. Q x \<Longrightarrow> pr_id (f x) = pr_id x \<and> pr_token_hash (f x) = pr_token_hash x) \<Longrightarrow>
   wf_db (d\<lparr>password_reset_tokens := update_where Q f (password_reset_tokens d)\<rparr>)"
  by (simp add: wf_db_def map_update_where_same)

lemma wf_filter:
  "wf_db d \<Longrightarrow> wf_db (d\<lparr>backup_codes := filter P (backup_codes d)\<rparr>)"
  "wf_db d \<Longrightarrow> wf_db (d\<lparr>two_factor_secrets := filter R (two_factor_secrets d)\<rparr>)"
  by (simp_all add: wf_db_def distinct_map_filter)

lemmas wf_updates =
  wf_update_users wf_update_tokens wf_update_sessions wf_update_secrets wf_update_codes wf_update_resets wf_filter

lemma db_le_updates:
  "(\<And>x. Q x \<Longrightarrow> user_le x (f x)) \<Longrightarrow> db_le d (d\<lparr>users := update_where Q f (users d)\<rparr>)"
  "(\<And>x. Q' x \<Longrightarrow> token_le x (f' x)) \<Longrightarrow> db_le d (d\<lparr>refresh_tokens := update_where Q' f' (refresh_tokens d)\<rparr>)"
  "(\<And>x. Q2 x \<Longrightarrow> session_le x (f2 x)) \<Longrightarrow> db_le d (d\<lparr>user_sessions := update_where Q2 f2 (user_sessions d)\<rparr>)"
  "(\<And>x. Q3 x \<Longrightarrow> code_le x (f3 x)) \<Longrightarrow>
     db_le d (d\<lparr>password_reset_tokens := update_where Q3 f3 (password_reset_tokens d)\<rparr>)"
  "db_le d (d\<lparr>two_factor_secrets := ss\<rparr>)" "db_le d (d\<lparr>backup_codes := bs\<rparr>)"
  "db_le d (d\<lparr>users := users d @ us\<rparr>)" "db_le d (d\<lparr>refresh_tokens := refresh_tokens d @ ts\<rparr>)"
  "db_le d (d\<lparr>user_sessions := user_sessions d @ vs\<rparr>)"
  "db_le d (d\<lparr>password_reset_tokens := password_reset_tokens d @ ps\<rparr>)"
  "db_le d (d\<lparr>audit_events := audit_events d @ es\<rparr>)"
  by (simp_all add: db_le_def rows_le_refl row_orders rows_le_update rows_le_append)

lemma within_updates:
  "(\<And>x. Q x \<Longrightarrow> token_le x (f x) \<and> rt_id (f x) = rt_id x \<and> revoked_at (f x) \<noteq> None) \<Longrightarrow>
     within keeps (update_refresh_tokens Q f)"
  "(\<And>x. Q' x \<Longrightarrow> session_le x (f' x)) \<Longrightarrow> within keeps (update_sessions Q' f')"
  "(\<And>x. user_le x (g x)) \<Longrightarrow> within keeps (mutate_user u g)"
  "(\<And>x. tf_user_id (h x) = tf_user_id x) \<Longrightarrow> within keeps (mutate_secret rec h)"
  unfolding update_refresh_tokens_def update_sessions_def mutate_user_def mutate_secret_def
  by (intro keeps_rules within_update_db wf_updates db_le_updates;
      simp add: token_le_def session_le_def user_le_def)+

lemma within_repository_updates:
  "within keeps (revoke_token tok why by)" "within keeps (mark_rotated tok j)"
  "within keeps (tokens_revoke_family fam why)" "within keeps (revoke_all_for_user uid why)"
  "within keeps (sessions_revoke_family fam)" "within keeps (touch_family fam)"
  "within keeps (is_family_active fam)" "within keeps (list_active_session_ids_for_user uid)"
  "within keeps (revoke_user_sessions uid)"
  "within keeps (update_password u ph)"
  unfolding revoke_token_def mark_rotated_def tokens_revoke_family_def revoke_all_for_user_def
    sessions_revoke_family_def touch_family_def is_family_active_def list_active_session_ids_for_user_def
    revoke_user_sessions_def update_password_def
  by (intro keeps_rules within_updates; simp add: token_le_def consumed_def session_le_def user_le_def)+

lemma within_secret_updates:
  "within keeps (confirm_secret rec tc)" "within keeps (update_last_used_timecode rec tc)"
  "within keeps (list_backup_codes_for_update uid)" "within keeps (delete_backup_codes uid)"
  "within keeps (mark_backup_code_used b)" "within keeps (delete_two_factor_data uid)"
  "within keeps (mark_active_for_user_used uid now)" "within keeps (mark_used p now)"
  unfolding confirm_secret_def update_last_used_timecode_def list_backup_codes_for_update_def delete_backup_codes_def
    mark_backup_code_used_def delete_two_factor_data_def mark_active_for_user_used_def mark_used_def
  by (intro keeps_rules within_updates within_update_db wf_updates db_le_updates; simp add: code_le_def)+

lemma within_keeps_queries:
  "within keeps (get_by_email e)" "within keeps (get_by_id uid)" "within keeps (get_by_jti_for_update j)"
  "within keeps (get_secret uid)" "within keeps (get_secret_for_update uid)"
  "within keeps (get_active_for_user_by_hash uid h)"
  unfolding query_defs by (intro keeps_rules)+

section \<open>Insertions\<close>

lemma keeps_insert:
  "(wf_db (db s) \<Longrightarrow> wf_db d) \<Longrightarrow> db_le (db s) d \<Longrightarrow> keeps s (s\<lparr>draws := n, db := d\<rparr>)"
  by (rule keeps_change [where g = "\<lambda>_. d"]) simp_all

lemma wf_inserts:
  "wf_db d \<Longrightarrow> u_id u \<notin> u_id ` set (users d) \<Longrightarrow> email u \<notin> email ` set (users d) \<Longrightarrow> lower (email u) = email u \<Longrightarrow>
     wf_db (d\<lparr>users := users d @ [u]\<rparr>)"
  "wf_db d \<Longrightarrow> jti x \<notin> jti ` set (refresh_tokens d) \<Longrightarrow> rt_id x \<notin> rt_id ` set (refresh_tokens d) \<Longrightarrow>
     rotated_at x = None \<Longrightarrow> wf_db (d\<lparr>refresh_tokens := refresh_tokens d @ [x]\<rparr>)"
  "wf_db d \<Longrightarrow> us_id v \<notin> us_id ` set (user_sessions d) \<Longrightarrow> wf_db (d\<lparr>user_sessions := user_sessions d @ [v]\<rparr>)"
  "wf_db d \<Longrightarrow> tf_user_id r \<notin> tf_user_id ` set (two_factor_secrets d) \<Longrightarrow>
     wf_db (d\<lparr>two_factor_secrets := two_factor_secrets d @ [r]\<rparr>)"
  "wf_db d \<Longrightarrow> bc_id b \<notin> bc_id ` set (backup_codes d) \<Longrightarrow> wf_db (d\<lparr>backup_codes := backup_codes d @ [b]\<rparr>)"
  "wf_db d \<Longrightarrow> pr_id p \<notin> pr_id ` set (password_reset_tokens d) \<Longrightarrow>
     pr_token_hash p \<notin> pr_token_hash ` set (password_reset_tokens d) \<Longrightarrow>
     wf_db (d\<lparr>password_reset_tokens := password_reset_tokens d @ [p]\<rparr>)"
  "wf_db d \<Longrightarrow> ae_id e \<notin> ae_id ` set (audit_events d) \<Longrightarrow> clean_items (payload e) \<Longrightarrow>
     wf_db (d\<lparr>audit_events := audit_events d @ [e]\<rparr>)"
  by (auto simp: wf_db_def)

lemma within_inserts:
  "within keeps (user_create X e ph)"
  "within keeps (refresh_token_create X uid j fam parent h exp ip ua)"
  "within keeps (session_create X uid fam ip ua)"
  "within keeps (password_reset_create X uid h exp ip ua)"
  "clean_items pl \<Longrightarrow> within keeps (audit_create X ev outc actor target ip ua pl)"
  unfolding within_def
  by (auto simp: run_user_create run_refresh_token_create run_session_create password_reset_create_def
      run_audit_create Let_def lower_idem intro!: keeps_insert wf_inserts db_le_updates)

lemma within_log_event: "within keeps (log_event X ev outc actor target ip ua pl)"
  by (simp add: log_event_def within_inserts(5) sanitize_payload_clean)

lemma within_add_backup_codes: "within keeps (add_backup_codes X uid hs)"
proof (induction hs)
  case (Cons h hs)
  have "within keeps (bindE (draw (uuid4 X)) (\<lambda>bid. bindE time_now (\<lambda>now. bindE (select backup_codes) (\<lambda>rows.
      insert_row (fits 512 h) (bid \<notin> bc_id ` set rows)
        (\<lambda>d. d\<lparr>backup_codes := backup_codes d @
           [\<lparr>bc_id = bid, bc_user_id = uid, code_hash = h, bc_used_at = None, bc_created_at = now\<rparr>]\<rparr>)))))"
    unfolding within_def by (auto intro!: keeps_insert wf_inserts db_le_updates)
  then have "within keeps (thenE (bindE (draw (uuid4 X)) (\<lambda>bid. bindE time_now (\<lambda>now. bindE (select backup_codes) (\<lambda>rows.
      insert_row (fits 512 h) (bid \<notin> bc_id ` set rows)
        (\<lambda>d. d\<lparr>backup_codes := backup_codes d @
           [\<lparr>bc_id = bid, bc_user_id = uid, code_hash = h, bc_used_at = None, bc_created_at = now\<rparr>]\<rparr>))))) (add_backup_codes X uid hs))"
    by (rule keeping.within_thenE) (rule Cons.IH)
  then show ?case by (simp add: within_def thenE_def bindE_def)
qed (simp only: add_backup_codes.simps keeping.within_ret)

lemma within_secret_inserts:
  "within keeps (upsert_secret X uid enc)" "within keeps (replace_backup_codes X uid hs)"
proof -
  have new: "within keeps (bindE (draw (uuid4 X)) (\<lambda>sid. bindE (select two_factor_secrets) (\<lambda>rows.
      insert_row True (uid \<notin> tf_user_id ` set rows \<and> sid \<notin> tf_id ` set rows)
        (\<lambda>d. d\<lparr>two_factor_secrets := two_factor_secrets d @
           [\<lparr>tf_id = sid, tf_user_id = uid, encrypted_secret = enc, confirmed_at = None, last_used_timecode = None\<rparr>]\<rparr>))))"
    unfolding within_def by (auto intro!: keeps_insert wf_inserts db_le_updates)
  show "within keeps (upsert_secret X uid enc)"
    unfolding upsert_secret_def
    by (intro keeping.within_bindE keeping.within_option new within_keeps_queries within_updates) simp
  show "within keeps (replace_backup_codes X uid hs)"
    unfolding replace_backup_codes_def
    by (intro keeping.within_thenE within_secret_updates within_add_backup_codes)
qed

section \<open>Requests\<close>

lemma within_keeps_tokens:
  "within keeps (generate_jti X)" "within keeps (issue_access_token X cfg uid sid)"
  "within keeps (issue_refresh_token X cfg uid sid fam j)" "within keeps (refresh_claims X cfg raw)"
proof -
  show "within keeps (refresh_claims X cfg raw)"
    by (rule withinI, rule keeps_same) (metis refresh_claims_state prod.collapse)+
qed (unfold generate_jti_def issue_access_token_def issue_refresh_token_def, (intro keeps_rules)+)

lemma within_keeps_issue:
  "within keeps (issue_for_user X cfg uid ip ua)" "within keeps (rotate_refresh X cfg raw ip ua)"
  unfolding issue_for_user_def rotate_refresh_def rotate_fresh_def
  by (intro keeps_rules within_inserts within_repository_updates within_keeps_queries within_keeps_tokens)+

lemma keeps_step: "keeps s (s\<lparr>db := used_step_db u k (db s)\<rparr>)"
  unfolding used_step_db_def
  by (rule keeps_change [where g = "\<lambda>d. d\<lparr>two_factor_secrets :=
      update_where (\<lambda>x. tf_user_id x = u_id u) (\<lambda>x. x\<lparr>last_used_timecode := Some k\<rparr>) (two_factor_secrets d)\<rparr>"])
     (simp_all add: wf_updates db_le_updates)

interpretation kept: auth_effect keeps X cfg for X :: "'r extern" and cfg
  by unfold_locales
    (assumption | rule keeps_same within_commit within_rollback within_inserts within_updates within_secret_inserts
      within_secret_updates within_log_event within_keeps_issue within_repository_updates keeps_step)+

end
