(* ===== verification/Auth_Runs.thy ===== *)
theory Auth_Runs
  imports Auth_Invariants
begin

text \<open>
  Runs of the auth-service: any sequence of HTTP requests, whatever they contain, while time passes and the
  cache, which other processes share and which may evict, changes in any way. The well-formedness of the
  tables and the monotonicity of \<open>Auth_Invariants\<close> hold along every run.
\<close>

section \<open>Steps\<close>

inductive auth_step :: "'r extern \<Rightarrow> auth_settings \<Rightarrow> 'r auth_node \<Rightarrow> 'r auth_node \<Rightarrow> bool"
  for X :: "'r extern" and cfg :: auth_settings where
  request: "serve_auth X cfg rq s = (r, t) \<Longrightarrow> auth_step X cfg s t"
| world: "clock s \<le> now \<Longrightarrow> draws s \<le> n \<Longrightarrow> auth_step X cfg s (s\<lparr>clock := now, draws := n, redis := c\<rparr>)"

inductive_cases auth_stepE: "auth_step X cfg s t"

abbreviation auth_run :: "'r extern \<Rightarrow> auth_settings \<Rightarrow> 'r auth_node \<Rightarrow> 'r auth_node \<Rightarrow> bool" where
  "auth_run X cfg \<equiv> (auth_step X cfg)\<^sup>*\<^sup>*"

text \<open>A relation that the requests respect, and the passing of time, holds along every run.\<close>

context auth_effect
begin

lemma run_effect:
  assumes "auth_run X cfg s t"
    and world: "\<And>s now n c. clock s \<le> now \<Longrightarrow> draws s \<le> n \<Longrightarrow> R s (s\<lparr>clock := now, draws := n, redis := c\<rparr>)"
  shows "R s t"
  using assms(1)
proof (induction rule: rtranclp_induct)
  case base
  show ?case by (rule refl)
next
  case (step u t)
  from step.hyps(2) have "R u t"
  proof cases
    case (request rq r)
    then show ?thesis using within_run [OF within_serve_auth] by blast
  next
    case (world now n c)
    then show ?thesis using assms(2) by blast
  qed
  with step.IH show ?case by (rule trans)
qed

end

text \<open>Between requests no session is open.\<close>

definition idle :: "'r auth_node \<Rightarrow> bool" where
  "idle s \<longleftrightarrow> db s = committed s"

lemma auth_app_run:
  obtains t where "auth_app X cfg rq s = (fst (auth_app X cfg rq s), t\<lparr>db := committed t\<rparr>)" "keeps (s\<lparr>db := committed s\<rparr>) t"
proof -
  obtain r t where run: "dispatch (auth_routes X cfg) rq (s\<lparr>db := committed s\<rparr>) = (r, t)" by fastforce
  then have "auth_app X cfg rq s = (r, t\<lparr>db := committed t\<rparr>)"
    by (simp add: auth_app_def with_session_def)
  then show thesis using that within_run [OF kept.within_auth_routes run] by simp
qed

lemma serve_auth_keeps:
  assumes "serve_auth X cfg rq s = (r, t)"
  shows "idle t \<and> db_le (committed s) (committed t) \<and> (wf_db (committed s) \<longrightarrow> wf_db (committed t))"
proof -
  obtain n rid where q: "request_id_from_header X (header_get rq ''x-request-id'') s = (Inr rid, s\<lparr>draws := n\<rparr>)"
    using request_id_run by blast
  obtain u where u: "auth_app X cfg rq (s\<lparr>draws := n\<rparr>) = (fst (auth_app X cfg rq (s\<lparr>draws := n\<rparr>)), u\<lparr>db := committed u\<rparr>)"
    and k: "keeps (s\<lparr>draws := n, db := committed s\<rparr>) u"
    by (rule auth_app_run [of X cfg rq "s\<lparr>draws := n\<rparr>"]) simp
  have "t = u\<lparr>db := committed u\<rparr>"
    using assms u by (simp add: serve_auth_def serve_def q split: prod.splits) (metis snd_conv)
  then show ?thesis using k by (simp add: idle_def keeps_def)
qed

lemma step_keeps:
  assumes "auth_step X cfg s t" "idle s"
  shows "idle t \<and> db_le (committed s) (committed t) \<and> (wf_db (committed s) \<longrightarrow> wf_db (committed t))"
  using assms by (cases rule: auth_step.cases) (auto dest: serve_auth_keeps simp: idle_def)

lemma run_keeps:
  assumes "auth_run X cfg s t" "idle s"
  shows "idle t \<and> db_le (committed s) (committed t) \<and> (wf_db (committed s) \<longrightarrow> wf_db (committed t))"
  using assms
proof (induction rule: rtranclp_induct)
  case (step u t)
  then show ?case using step_keeps [OF step.hyps(2)] db_le_trans by blast
qed simp

lemma wf_empty: "wf_db empty_auth_db"
  by (simp add: wf_db_def empty_auth_db_def)

section \<open>A run of the reference environment\<close>

text \<open>A registration over HTTP.\<close>

definition ref_register_json :: json where
  "ref_register_json = JDict [(''email'', JStr ''u@''), (''password'', JStr ''secret12'')]"

definition ref_register_request :: http_request where
  "ref_register_request =
     \<lparr>rq_method = ''POST'', rq_path = ''/v1/auth/register'', rq_scheme = ''http'', rq_client = Some ''7'',
      rq_headers = [], rq_cookies = [], rq_query = [], rq_body = ref_json_dumps ref_register_json\<rparr>"

lemma ref_rate_limit:
  assumes "redis s = (\<lambda>_. None)" "1 \<le> lim"
  obtains c where "rate_limit_dependency ref_extern cfg sc lim rq s = (Inr (), s\<lparr>redis := c\<rparr>)"
proof -
  have "\<exists>c. rate_limit_dependency ref_extern cfg sc lim rq s = (Inr (), s\<lparr>redis := c\<rparr>)"
    using assms
    by (auto simp: rate_limit_dependency_def apply_rate_limit_def Let_def run_redis_incr run_redis_write
        keyspace_defs ks_look_def aged_def)
  with that show thesis by blast
qed

lemma ref_register_parsed:
  "request_json ref_extern ref_register_request s = (Inr ref_register_json, s)"
  "parse_register_request ref_extern ref_register_json = Some (''u@'', ''secret12'')"
proof -
  have "ref_json_loads (ref_json_dumps ref_register_json) = Some ref_register_json"
    unfolding ref_register_json_def by (rule ref_json.loads_dumps) (simp add: flat_claims_def flat_json_def)
  moreover have "ref_json_dumps ref_register_json \<noteq> ''''" by code_simp
  ultimately show "request_json ref_extern ref_register_request s = (Inr ref_register_json, s)"
    by (simp add: request_json_def ref_register_request_def)
  show "parse_register_request ref_extern ref_register_json = Some (''u@'', ''secret12'')"
    by code_simp
qed

lemma ref_registered:
  obtains t where "auth_step ref_extern ref_cfg ref_node t" "map email (users (committed t)) = [''u@'']"
proof -
  let ?rq = "ref_register_request"
  let ?s = "ref_node\<lparr>draws := 2\<rparr>"
  let ?u = "ref_node\<lparr>draws := 2, db := empty_auth_db\<rparr>"
  obtain c where rl: "rate_limit_dependency ref_extern ref_cfg ''register'' (rate_limit_register_per_minute ref_cfg) ?rq ?u =
      (Inr (), ?u\<lparr>redis := c\<rparr>)"
    by (rule ref_rate_limit [of ?u "rate_limit_register_per_minute ref_cfg" ref_cfg "''register''" ?rq])
       (simp_all add: ref_cfg_def)
  have g: "good_password ''secret12''" by (simp add: good_password_def is_ascii_letter_def is_digit_def)
  have l: "lower ''u@'' = ''u@''" by code_simp
  have ip: "get_client_ip ref_extern ?rq (trusted_proxy_ips ref_cfg) = ''7''" by code_simp
  have route: "dispatch (auth_routes ref_extern ref_cfg) ?rq = register_endpoint ref_extern ref_cfg ?rq"
    by (simp add: dispatch_def auth_routes_def ref_register_request_def)
  have agent: "agent_of ?rq = None" by code_simp
  have id: "request_id_from_header ref_extern (header_get ?rq ''x-request-id'') ref_node =
      (Inr (str_uuid 1), ?s)"
    by (simp add: request_id_from_header_def header_get_def ref_register_request_def)
  obtain r t where t: "auth_app ref_extern ref_cfg ?rq ?s = (r, t)" by fastforce
  have "map email (users (committed t)) = [''u@'']"
    using t by (auto simp: auth_app_def with_session_def route register_endpoint_def ref_register_parsed rl validated_def
        register_def run_get_by_email l hash_password_def g run_user_create Let_def fits_def client_of_def ip agent
        log_event_def run_audit_create client_fits_def opt_fits_def audit_constants)
  moreover have "auth_step ref_extern ref_cfg ref_node t"
    by (rule auth_step.request [of _ _ ?rq]) (simp add: serve_auth_def serve_def id t)
  ultimately show thesis by (rule that [rotated])
qed


section \<open>Invariants\<close>

text \<open>
  C26: the tables of the auth-service are well-formed at all times. In every state that a fresh deployment
  reaches by any requests, with time passing and the cache changing in any way between them: user ids and
  addresses are unique and addresses in lower case, token ids, session ids, two-factor records, backup codes, reset codes
  and audit events are unique by their keys, every rotated refresh token is also revoked, no stored audit payload
  has a sensitive field, and no uncommitted change is left behind.
\<close>

theorem reachable_tables_wf:
  assumes "committed s = empty_auth_db" "db s = empty_auth_db" "auth_run X cfg s t"
  shows "wf_db (committed t) \<and> db t = committed t"
  using run_keeps [OF assms(3)] assms(1,2) wf_empty by (simp add: idle_def)

theorem reachable_tables_wf_witness:
  "\<exists>t. auth_run ref_extern ref_cfg ref_node t \<and> users (committed t) \<noteq> [] \<and> wf_db (committed t)"
proof -
  obtain t where t: "auth_step ref_extern ref_cfg ref_node t" "map email (users (committed t)) = [''u@'']"
    by (rule ref_registered)
  then have "auth_run ref_extern ref_cfg ref_node t" by simp
  with t reachable_tables_wf [of ref_node ref_extern ref_cfg t] show ?thesis by auto
qed

section \<open>Nothing comes back\<close>

lemma rows_le_prefix:
  assumes "rows_le (=) xs ys"
  shows "\<exists>zs. ys = xs @ zs"
proof -
  have "take (length xs) ys = xs"
    using assms by (intro nth_equalityI) (simp_all add: rows_le_def)
  then have "ys = xs @ drop (length xs) ys" by (metis append_take_drop_id)
  then show ?thesis ..
qed

lemma row_keys:
  "token_le a b \<Longrightarrow> jti b = jti a" "session_le v w \<Longrightarrow> us_id w = us_id v" "code_le p q \<Longrightarrow> pr_token_hash q = pr_token_hash p"
  "user_le i j \<Longrightarrow> u_id j = u_id i"
  by (simp_all add: token_le_def session_le_def code_le_def user_le_def)

lemma row_later:
  assumes "rows_le P xs ys" "x \<in> set xs" "distinct (map key ys)" "\<And>a b. P a b \<Longrightarrow> key b = key a"
    and "y \<in> set ys" "key y = key x"
  shows "P x y"
  using assms distinct_key_eq [OF assms(3)] by (metis rows_leE)

text \<open>The one row of a later table that continues a row.\<close>

lemma row_survives:
  assumes "rows_le P xs ys" "x \<in> set xs" "distinct (map key ys)" "\<And>a b. P a b \<Longrightarrow> key b = key a"
  shows "\<exists>y. filter (\<lambda>z. key z = key x) ys = [y] \<and> P x y"
proof -
  obtain y where y: "y \<in> set ys" "P x y" using assms(1,2) by (rule rows_leE)
  then have "filter (\<lambda>z. key z = key y) ys = [y]" "key y = key x" using filter_key_distinct [OF assms(3)] assms(4) by blast+
  then show ?thesis using y by auto
qed

text \<open>
  C27: the past is never rewritten. Along every run from a well-formed state, the audit log is only appended to; no
  user disappears or changes address or privilege; and no refresh token, session or reset code disappears: in every later state
  there is exactly one row with its key, of the same user (and family), and what was revoked, rotated or used still is.
\<close>

theorem tables_only_grow:
  assumes "wf_db (committed s)" "db s = committed s" "auth_run X cfg s t"
  shows "(\<exists>new. audit_events (committed t) = audit_events (committed s) @ new) \<and>
    (\<forall>u \<in> set (users (committed s)). \<exists>v. filter (\<lambda>z. u_id z = u_id u) (users (committed t)) = [v] \<and>
       email v = email u \<and> is_superuser v = is_superuser u) \<and>
    (\<forall>x \<in> set (refresh_tokens (committed s)). \<exists>y. filter (\<lambda>z. jti z = jti x) (refresh_tokens (committed t)) = [y] \<and>
       rt_user_id y = rt_user_id x \<and> family_id y = family_id x \<and> token_hash y = token_hash x \<and> expires_at y = expires_at x \<and>
       (consumed x \<longrightarrow> consumed y)) \<and>
    (\<forall>x \<in> set (user_sessions (committed s)). \<exists>y. filter (\<lambda>z. us_id z = us_id x) (user_sessions (committed t)) = [y] \<and>
       us_user_id y = us_user_id x \<and> refresh_family_id y = refresh_family_id x \<and>
       (us_revoked_at x \<noteq> None \<longrightarrow> us_revoked_at y \<noteq> None)) \<and>
    (\<forall>x \<in> set (password_reset_tokens (committed s)). \<exists>y.
       filter (\<lambda>z. pr_token_hash z = pr_token_hash x) (password_reset_tokens (committed t)) = [y] \<and>
       pr_user_id y = pr_user_id x \<and> pr_expires_at y = pr_expires_at x \<and> (pr_used_at x \<noteq> None \<longrightarrow> pr_used_at y \<noteq> None))"
proof -
  have "db_le (committed s) (committed t)" "wf_db (committed t)"
    using run_keeps [OF assms(3)] assms(1,2) by (simp_all add: idle_def)
  note rows = this [unfolded db_le_def wf_db_def]
  have "\<exists>v. filter (\<lambda>z. u_id z = u_id u) (users (committed t)) = [v] \<and> user_le u v" if "u \<in> set (users (committed s))" for u
    by (rule row_survives [OF _ that]) (use rows row_keys in blast)+
  moreover have "\<exists>y. filter (\<lambda>z. jti z = jti x) (refresh_tokens (committed t)) = [y] \<and> token_le x y"
    if "x \<in> set (refresh_tokens (committed s))" for x
    by (rule row_survives [OF _ that]) (use rows row_keys in blast)+
  moreover have "\<exists>y. filter (\<lambda>z. us_id z = us_id x) (user_sessions (committed t)) = [y] \<and> session_le x y"
    if "x \<in> set (user_sessions (committed s))" for x
    by (rule row_survives [OF _ that]) (use rows row_keys in blast)+
  moreover have "\<exists>y. filter (\<lambda>z. pr_token_hash z = pr_token_hash x) (password_reset_tokens (committed t)) = [y] \<and> code_le x y"
    if "x \<in> set (password_reset_tokens (committed s))" for x
    by (rule row_survives [OF _ that]) (use rows row_keys in blast)+
  moreover have "\<exists>new. audit_events (committed t) = audit_events (committed s) @ new"
    using rows(1) by (simp add: rows_le_prefix)
  ultimately show ?thesis
    unfolding token_le_def session_le_def code_le_def user_le_def by (intro conjI ballI) blast+
qed

theorem tables_only_grow_witness:
  "\<exists>s t u v. auth_run ref_extern ref_cfg s t \<and> clock s < clock t \<and>
     u \<in> set (users (committed s)) \<and> v \<in> set (users (committed t)) \<and> email u = ''u@'' \<and> email v = email u"
proof -
  obtain s where s: "auth_step ref_extern ref_cfg ref_node s" "map email (users (committed s)) = [''u@'']"
    by (rule ref_registered)
  let ?t = "s\<lparr>clock := clock s + 1, draws := draws s, redis := redis s\<rparr>"
  have run: "auth_run ref_extern ref_cfg s ?t" by (rule r_into_rtranclp, rule auth_step.world) simp_all
  have "wf_db (committed s)" "db s = committed s"
    using step_keeps [OF s(1)] wf_empty by (simp_all add: idle_def)
  note grow = tables_only_grow [OF this run, THEN conjunct2, THEN conjunct1]
  obtain u where u: "u \<in> set (users (committed s))" "email u = ''u@''" using s(2) by (cases "users (committed s)") auto
  obtain v where v: "filter (\<lambda>z. u_id z = u_id u) (users (committed ?t)) = [v]" "email v = email u"
    using bspec [OF grow u(1)] by blast
  then have "v \<in> set (filter (\<lambda>z. u_id z = u_id u) (users (committed ?t)))" by simp
  with v(2) have "v \<in> set (users (committed ?t))" "email v = email u" by simp_all
  moreover have "clock s < clock ?t" by simp
  ultimately show ?thesis using run u by blast
qed

text \<open>
  A refresh token that was rotated or revoked never works again. From a well-formed state in which the
  token with some id is used up, whatever requests are served and however much time passes, presenting any text that carries this
  id is refused: no token pair is returned.
\<close>

theorem dead_tokens_stay_dead:
  assumes "wf_db (committed s)" "db s = committed s" "auth_run X cfg s t"
    and "x \<in> set (refresh_tokens (committed s))" "consumed x"
    and "refresh_claims X cfg raw t = (Inr (jti x, fam, sid, uid), t)"
  shows "\<exists>e t'. service_refresh_tokens X cfg raw ip ua t = (Inl e, t')"
proof (rule ccontr)
  assume "\<not> ?thesis"
  then obtain p t' where "service_refresh_tokens X cfg raw ip ua t = (Inr p, t')"
    by (metis old.prod.exhaust sum.exhaust)
  then obtain s1 where "rotate_refresh X cfg raw ip ua t = (Inr p, s1)" by (rule service_refresh_Inr)
  then obtain tok v where tok: "presents X cfg raw t tok v" "\<not> consumed tok" by (rule rotate_Inr)
  have "idle t" and le: "db_le (committed s) (committed t)" and wf: "wf_db (committed t)"
    using run_keeps [OF assms(3)] assms(1,2) by (simp_all add: idle_def)
  then have mem: "tok \<in> set (refresh_tokens (committed t))" "jti tok = jti x"
    using presents_mem [OF tok(1)] tok(1) assms(6) by (simp_all add: idle_def presents_def)
  have "token_le x tok"
    by (rule row_later [where key = jti, OF _ assms(4) _ _ mem]) (use le wf row_keys in \<open>auto simp: db_le_def wf_db_def\<close>)
  then show False using assms(5) tok(2) by (simp add: token_le_def)
qed

theorem dead_tokens_stay_dead_witness:
  "\<exists>raw s t x e t'. auth_run ref_extern ref_cfg s t \<and> x \<in> set (refresh_tokens (committed s)) \<and> consumed x \<and>
     service_refresh_tokens ref_extern ref_cfg raw None None t = (Inl e, t')"
proof -
  obtain p1 s1 p2 s2 s3 where iss: "issue_for_user ref_extern ref_cfg 7 None None ref_node = (Inr p1, s1)"
    and ref: "service_refresh_tokens ref_extern ref_cfg (tp_refresh_token p1) None None (s1\<lparr>clock := 1100\<rparr>) = (Inr p2, s2)"
    and re: "service_refresh_tokens ref_extern ref_cfg (tp_refresh_token p1) None None (s2\<lparr>clock := 1200\<rparr>) =
       (Inl (TokenReuseDetectedException (Some (tp_session_id p1)) (Some (tp_family_id p1))), s3)"
    by (rule ref_life [of 1100 1200 7]) (use ref_ids_unused in \<open>simp_all add: client_fits_def opt_fits_def ref_cfg_def\<close>)
  let ?t = "s2\<lparr>clock := 1200\<rparr>"
  obtain tok v where tok: "presents ref_extern ref_cfg (tp_refresh_token p1) ?t tok v" "consumed tok"
    using re by (rule service_refresh_reuse_inv)
  obtain u where "rotate_refresh ref_extern ref_cfg (tp_refresh_token p1) None None (s1\<lparr>clock := 1100\<rparr>) = (Inr p2, u)"
      "recorded u s2"
    using ref by (rule service_refresh_Inr)
  note u = this recordedD [OF this(2)]
  have "keeps ref_node s1" "keeps (s1\<lparr>clock := 1100\<rparr>) s2"
    by (rule within_run [OF within_keeps_issue(1) iss], rule within_run [OF kept.within_session_services(1) ref])
  then have wf: "wf_db (committed s2)" using wf_empty by (simp add: keeps_def)
  have c: "clock s2 = 1100" using u by (auto elim!: rotate_Inr)
  have "auth_step ref_extern ref_cfg s2 (s2\<lparr>clock := 1200, draws := draws s2, redis := redis s2\<rparr>)"
    by (rule auth_step.world) (simp_all add: c)
  then have run: "auth_run ref_extern ref_cfg s2 ?t" by simp
  have mem: "tok \<in> set (refresh_tokens (committed s2))" "db s2 = committed s2"
    using presents_mem [OF tok(1)] u by simp_all
  have "refresh_claims ref_extern ref_cfg (tp_refresh_token p1) ?t = (Inr (jti tok, family_id tok, v, rt_user_id tok), ?t)"
    using tok(1) by (simp add: presents_def)
  from dead_tokens_stay_dead [OF wf mem(2) run mem(1) tok(2) this] run mem(1) tok(2) show ?thesis by blast
qed

section \<open>Reset codes\<close>

text \<open>
  C19: a reset code works once. After a completed reset, from well-formed tables, whatever requests are served, among them
  requests for other codes and other resets, and however much time passes: no reset with the same code succeeds, whatever
  address, password and client it comes with.
\<close>

theorem reset_code_single_use:
  assumes "redis_store (redis_cmds X) look" "wf_db (committed s)" "db s = committed s"
    and "reset_password X cfg e code pw ip ua s = (Inr a, t)" "auth_run X cfg t s'"
  shows "\<forall>b t'. reset_password X cfg e' code pw' ip' ua' s' \<noteq> (Inr b, t')"
proof (intro allI notI)
  fix b t' assume again: "reset_password X cfg e' code pw' ip' ua' s' = (Inr b, t')"
  obtain u rec where rec: "rec \<in> set (password_reset_tokens (db s))" "pr_token_hash rec = hash_reset_token X cfg code"
    and run: "reset_accepted X cfg (login_identifier (lower e) ip) (lower e) u rec pw (clock s) ip ua s = (Inr a, t)"
    using assms(4) by (rule reset_password_Inr)
  obtain rec' where rec': "rec' \<in> set (password_reset_tokens (db s'))"
      "pr_token_hash rec' = hash_reset_token X cfg code" "pr_used_at rec' = None"
    using again by (rule reset_password_Inr)
  have t: "password_reset_tokens (committed t) = update_where (\<lambda>x. pr_id x = pr_id rec)
          (\<lambda>x. x\<lparr>pr_used_at := Some (clock s)\<rparr>) (password_reset_tokens (db s))" "idle t"
    using reset_accepted_Inr [OF assms(1) run] by (auto simp: reset_db_def idle_def)
  then have used: "rec\<lparr>pr_used_at := Some (clock s)\<rparr> \<in> set (password_reset_tokens (committed t))"
    using rec(1) by (auto simp: set_update_where)
  have "keeps s t" by (rule within_run [OF kept.within_reset_service(2) assms(4)])
  then have "wf_db (committed t)" using assms(2,3) by (simp add: keeps_def)
  then have later: "rows_le code_le (password_reset_tokens (committed t)) (password_reset_tokens (db s'))"
    "distinct (map pr_token_hash (password_reset_tokens (db s')))"
    using run_keeps [OF assms(5) t(2)] by (simp_all add: idle_def db_le_def wf_db_def)
  have "code_le (rec\<lparr>pr_used_at := Some (clock s)\<rparr>) rec'"
    by (rule row_later [OF later(1) used later(2) row_keys(3) rec'(1)]) (simp_all add: rec'(2) rec(2))
  then show False using rec'(3) by (simp add: code_le_def)
qed

theorem reset_code_single_use_witness:
  "\<exists>t s'. reset_password ref_extern ref_cfg ''U'' ''000042'' ''secret12'' None None ref_reset_node = (Inr (), t) \<and>
     auth_run ref_extern ref_cfg t s' \<and> clock s' = 1200 \<and>
     (\<forall>b t'. reset_password ref_extern ref_cfg ''U'' ''000042'' ''other123'' None None s' \<noteq> (Inr b, t'))"
proof -
  obtain t where t: "reset_password ref_extern ref_cfg ''U'' ''000042'' ''secret12'' None None ref_reset_node = (Inr (), t)"
    using ref_reset_run by blast
  have wf: "wf_db (committed ref_reset_node)" "db ref_reset_node = committed ref_reset_node"
    by (simp_all add: ref_reset_node_def ref_reset_db_def ref_2fa_db_def ref_user_def wf_db_def ref_lower_U)
  obtain u rec where "reset_accepted ref_extern ref_cfg (login_identifier (lower ''U'') None) (lower ''U'') u rec ''secret12''
      (clock ref_reset_node) None None ref_reset_node = (Inr (), t)"
    using t by (rule reset_password_Inr)
  then have c: "clock t = 1000" using reset_accepted_Inr [OF ref_store] by (fastforce simp: ref_reset_node_def)
  let ?s = "t\<lparr>clock := 1200, draws := draws t, redis := redis t\<rparr>"
  have "auth_step ref_extern ref_cfg t ?s" by (rule auth_step.world) (simp_all add: c)
  then have run: "auth_run ref_extern ref_cfg t ?s" by (rule r_into_rtranclp)
  from reset_code_single_use [OF ref_store wf t run, of "''U''" "''other123''" None None] t run show ?thesis
    by (intro exI [of _ t] exI [of _ ?s]) simp
qed

end
