(* ===== verification/Auth_Access.thy ===== *)
theory Auth_Access
  imports Auth_Runs
begin

text \<open>
  Access to the endpoints of the auth-service that act for a user: the two-factor endpoints and the session
  information. Each of them is guarded by \<open>get_current_user\<close> before it does anything.
\<close>

definition protected_paths :: "string list" where
  "protected_paths =
     [''/v1/two-factor/setup'', ''/v1/two-factor/enable'', ''/v1/two-factor/disable'',
      ''/v1/two-factor/backup-codes/regenerate'', ''/v1/sessions/me'']"

text \<open>
  The request carries a bearer token that is, now, a valid access token for an active user, and its session was not
  revoked.
\<close>

definition authorised ::
  "'r extern \<Rightarrow> auth_settings \<Rightarrow> ('r \<Rightarrow> int \<Rightarrow> string \<Rightarrow> entry option) \<Rightarrow> http_request \<Rightarrow> 'r auth_node \<Rightarrow> user \<Rightarrow> bool" where
  "authorised X cfg look rq s u \<longleftrightarrow>
     (\<exists>raw claims sid. extract_bearer_token rq s = (Inr raw, s) \<and>
        decode_and_validate X cfg raw TOKEN_TYPE_ACCESS s = (Inr claims, s) \<and>
        parse_uuid (tc_sub claims) = Some (u_id u) \<and> Option.bind (tc_session_id claims) parse_uuid = Some sid \<and>
        look (redis s) (clock s) (access_session_revoked_key (str_uuid sid)) = None \<and>
        u \<in> set (users (db s)) \<and> is_active u)"

lemma claims_cases:
  "(\<exists>e. decode_and_validate X cfg raw ty s = (Inl e, s)) \<or> (\<exists>c. decode_and_validate X cfg raw ty s = (Inr c, s))"
  by (metis decode_and_validate_state old.prod.exhaust sum.exhaust)

text \<open>The last part of \<open>get_current_user\<close>, for the ids of a decoded token.\<close>

lemma token_user_cases:
  assumes R: "redis_store (redis_cmds X) look"
    and b: "extract_bearer_token rq s = (Inr raw, s)" and d: "decode_and_validate X cfg raw TOKEN_TYPE_ACCESS s = (Inr c, s)"
    and ids: "parse_uuid (tc_sub c) = Some uid" "Option.bind (tc_session_id c) parse_uuid = Some sid"
  shows "(\<exists>e. get_current_user X cfg rq s = (Inl e, s)) \<or>
    (\<exists>u. get_current_user X cfg rq s = (Inr u, s) \<and> authorised X cfg look rq s u)"
proof -
  let ?user = "bindE (get_by_id uid) (\<lambda>found.
      case found of None \<Rightarrow> raise (UnauthorizedException ''User not found'')
      | Some u \<Rightarrow> if \<not> is_active u then raise (UnauthorizedException ''User is inactive'') else ret u)"
  have run: "get_current_user X cfg rq s = thenE (ensure_access_session_active X sid) ?user s"
    using b d ids by (simp add: get_current_user_def)
  consider (no) e where "ensure_access_session_active X sid s = (Inl e, s)"
    | (yes) "ensure_access_session_active X sid s = (Inr (), s)"
        "look (redis s) (clock s) (access_session_revoked_key (str_uuid sid)) = None"
    using ensure_active_cases [OF R, of sid s] by (elim disjE exE conjE)
  then show ?thesis
  proof cases
    case no
    then show ?thesis by (simp add: run)
  next
    case yes
    have auth: "authorised X cfg look rq s u" if "u \<in> set (users (db s))" "u_id u = uid" "is_active u" for u
      unfolding authorised_def using b d ids yes(2) that by blast
    have "get_current_user X cfg rq s = ?user s" using yes(1) by (simp add: run)
    then show ?thesis
      using auth by (auto simp: bindE_def run_get_by_id run_scalar_one_or_none split: list.split dest!: filter_eq_ConsD)
  qed
qed

lemma get_current_user_cases:
  assumes R: "redis_store (redis_cmds X) look"
  shows "(\<exists>e. get_current_user X cfg rq s = (Inl e, s)) \<or>
    (\<exists>u. get_current_user X cfg rq s = (Inr u, s) \<and> authorised X cfg look rq s u)"
proof -
  consider (bearer) e where "extract_bearer_token rq s = (Inl e, s)"
    | (claims) raw e where "extract_bearer_token rq s = (Inr raw, s)"
        "decode_and_validate X cfg raw TOKEN_TYPE_ACCESS s = (Inl e, s)"
    | (ok) raw c where "extract_bearer_token rq s = (Inr raw, s)"
        "decode_and_validate X cfg raw TOKEN_TYPE_ACCESS s = (Inr c, s)"
    using bearer_cases claims_cases by metis
  then show ?thesis
  proof cases
    case ok
    show ?thesis
    proof (cases "parse_uuid (tc_sub c)")
      case None
      with ok show ?thesis by (simp add: get_current_user_def)
    next
      case (Some uid)
      with ok token_user_cases [OF R ok Some] show ?thesis
        by (cases "Option.bind (tc_session_id c) parse_uuid") (simp_all add: get_current_user_def)
    qed
  qed (simp_all add: get_current_user_def)
qed

text \<open>Where the user is refused, so is the request, before anything happened.\<close>

lemma request_json_state: "request_json X rq s = (r, t) \<Longrightarrow> t = s"
  by (auto simp: request_json_def split: if_splits option.splits)

lemma guarded_endpoints:
  assumes "get_current_user X cfg rq s = (Inl e, s)"
  shows "\<exists>e'. setup_two_factor_endpoint X cfg rq s = (Inl e', s)"
    "\<exists>e'. enable_two_factor_endpoint X cfg rq s = (Inl e', s)"
    "\<exists>e'. disable_two_factor_endpoint X cfg rq s = (Inl e', s)"
    "\<exists>e'. regenerate_backup_codes_endpoint X cfg rq s = (Inl e', s)"
    "\<exists>e'. current_session_info_endpoint X cfg rq s = (Inl e', s)"
proof -
  have guard: "\<exists>e'. bindE (request_json X rq) (\<lambda>j. bindE (get_current_user X cfg rq) (f j)) s = (Inl e', s)" for f
    using assms request_json_state [of X rq s]
    by (auto simp: bindE_def split: prod.split sum.split)
  show "\<exists>e'. setup_two_factor_endpoint X cfg rq s = (Inl e', s)"
    "\<exists>e'. current_session_info_endpoint X cfg rq s = (Inl e', s)"
    using assms by (simp_all add: setup_two_factor_endpoint_def current_session_info_endpoint_def)
  show "\<exists>e'. enable_two_factor_endpoint X cfg rq s = (Inl e', s)"
    "\<exists>e'. disable_two_factor_endpoint X cfg rq s = (Inl e', s)"
    "\<exists>e'. regenerate_backup_codes_endpoint X cfg rq s = (Inl e', s)"
    unfolding enable_two_factor_endpoint_def disable_two_factor_endpoint_def regenerate_backup_codes_endpoint_def
    by (rule guard)+
qed

text \<open>What a protected path is dispatched to.\<close>

lemma protected_routes:
  assumes "rq_path rq \<in> set protected_paths"
  shows "dispatch (auth_routes X cfg) rq \<in>
    {setup_two_factor_endpoint X cfg rq, enable_two_factor_endpoint X cfg rq, disable_two_factor_endpoint X cfg rq,
     regenerate_backup_codes_endpoint X cfg rq, current_session_info_endpoint X cfg rq,
     ret (json_response 405 (JDict [(''detail'', JStr ''Method Not Allowed'')]))}"
  using assms unfolding protected_paths_def list.set insert_iff empty_iff
  by (elim disjE FalseE) (simp_all add: dispatch_def auth_routes_def)

lemma protected_dispatch:
  assumes "rq_path rq \<in> set protected_paths" "get_current_user X cfg rq s = (Inl e, s)"
  shows "(\<exists>e'. dispatch (auth_routes X cfg) rq s = (Inl e', s)) \<or>
    dispatch (auth_routes X cfg) rq s = (Inr (json_response 405 (JDict [(''detail'', JStr ''Method Not Allowed'')])), s)"
  using protected_routes [OF assms(1), of X cfg] unfolding insert_iff empty_iff
  by (elim disjE FalseE) (simp_all add: guarded_endpoints [OF assms(2)])

text \<open>
  C25: the endpoints that act for a user need that user's access token. A request to one of them either
  carries a bearer token that is at that moment a valid access token, of a session that was not revoked, for a stored and active user;
  or it is refused: it gets no success answer and changes neither tables nor cache.
\<close>

theorem protected_endpoints_need_access:
  assumes "redis_store (redis_cmds X) look" "rq_path rq \<in> set protected_paths"
  shows "(\<exists>u \<in> set (users (committed s)). authorised X cfg look rq (s\<lparr>db := committed s\<rparr>) u) \<or>
    (\<exists>r t. auth_app X cfg rq s = (r, t) \<and> committed t = committed s \<and> redis t = redis s \<and>
       (\<forall>rs. r = Inr rs \<longrightarrow> rs_status rs = 405))"
proof -
  let ?s = "s\<lparr>db := committed s\<rparr>"
  consider (no) e where "get_current_user X cfg rq ?s = (Inl e, ?s)" | (yes) u where "authorised X cfg look rq ?s u"
    using get_current_user_cases [OF assms(1), of cfg rq ?s] by blast
  then show ?thesis
  proof cases
    case no
    from protected_dispatch [OF assms(2) no] show ?thesis
      by (auto simp: auth_app_def with_session_def json_response_def)
  next
    case yes
    then show ?thesis by (auto simp: authorised_def)
  qed
qed

definition ref_anonymous_request :: http_request where
  "ref_anonymous_request =
     \<lparr>rq_method = ''POST'', rq_path = ''/v1/two-factor/disable'', rq_scheme = ''http'', rq_client = Some ''7'',
      rq_headers = [], rq_cookies = [], rq_query = [], rq_body = ''''\<rparr>"

theorem protected_endpoints_need_access_witness:
  "\<exists>r t. auth_app ref_extern ref_cfg ref_anonymous_request ref_node = (r, t) \<and> committed t = empty_auth_db \<and>
     redis t = redis ref_node"
proof -
  have "rq_path ref_anonymous_request \<in> set protected_paths"
    by (simp add: ref_anonymous_request_def protected_paths_def)
  from protected_endpoints_need_access [OF ref_store this, of ref_node ref_cfg] show ?thesis by auto
qed

end
