(* ===== verification/Totp_Runs.thy ===== *)
theory Totp_Runs
  imports Auth_Runs
begin

text \<open>
  One-time passwords over the life of an enrolment. The locale \<^verbatim>\<open>auth_effect\<close> is instantiated a third time, with the relation
  that the recorded time step of a user's confirmed enrolment never goes back: not by a verification, for the same or another user,
  nor by any other request. An enrolment is told from a later one by the time of its confirmation.
\<close>

section \<open>Recorded steps\<close>

text \<open>
  Every enrolment of the user \<open>uid\<close> in \<open>d'\<close> that was confirmed before \<open>since\<close> has an entry in \<open>d\<close>, and has recorded no
  earlier step than that.
\<close>

definition steps_later :: "int \<Rightarrow> uuid \<Rightarrow> auth_db \<Rightarrow> auth_db \<Rightarrow> bool" where
  "steps_later since uid d d' \<longleftrightarrow>
     (\<forall>x' \<in> set (two_factor_secrets d'). \<forall>c. tf_user_id x' = uid \<and> confirmed_at x' = Some c \<and> c < since \<longrightarrow>
        (\<exists>x \<in> set (two_factor_secrets d). tf_user_id x = uid \<and>
           (\<forall>k. last_used_timecode x = Some k \<longrightarrow> (\<exists>k'. last_used_timecode x' = Some k' \<and> k \<le> k'))))"

definition steps_kept :: "int \<Rightarrow> uuid \<Rightarrow> auth_db \<Rightarrow> 'r auth_node \<Rightarrow> 'r auth_node \<Rightarrow> bool" where
  "steps_kept since uid d s t \<longleftrightarrow>
     (since \<le> clock s \<and> steps_later since uid d (db s) \<and> steps_later since uid d (committed s) \<longrightarrow>
      since \<le> clock t \<and> steps_later since uid d (db t) \<and> steps_later since uid d (committed t))"

interpretation keeping_steps: effect "steps_kept since uid d" for since uid d
  by unfold_locales (auto simp: steps_kept_def)

lemma steps_laterE:
  assumes "steps_later since uid d d'" "x' \<in> set (two_factor_secrets d')" "tf_user_id x' = uid" "confirmed_at x' = Some c" "c < since"
  obtains x where "x \<in> set (two_factor_secrets d)" "tf_user_id x = uid"
    "\<forall>k. last_used_timecode x = Some k \<longrightarrow> (\<exists>k'. last_used_timecode x' = Some k' \<and> k \<le> k')"
  using assms unfolding steps_later_def by blast

lemma accepts_stepE:
  assumes "accepts_step X cfg d u c now k"
  obtains rec l where "filter (\<lambda>x. tf_user_id x = u_id u) (two_factor_secrets d) = [rec]" "rec \<in> set (two_factor_secrets d)"
    "tf_user_id rec = u_id u" "confirmed_at rec = Some l" "\<forall>l. last_used_timecode rec = Some l \<longrightarrow> l < k"
proof -
  obtain rec where rec: "filter (\<lambda>x. tf_user_id x = u_id u) (two_factor_secrets d) = [rec]" "confirmed_at rec \<noteq> None"
    "\<forall>l. last_used_timecode rec = Some l \<longrightarrow> l < k"
    using assms by (auto simp: accepts_step_def)
  have "rec \<in> set (filter (\<lambda>x. tf_user_id x = u_id u) (two_factor_secrets d))" by (simp only: rec(1) list.set_intros)
  then have mem: "rec \<in> set (two_factor_secrets d)" "tf_user_id rec = u_id u" by simp_all
  from rec(2) obtain l where "confirmed_at rec = Some l" by blast
  then show thesis by (rule that [OF rec(1) mem _ rec(3)])
qed

lemma steps_later_rows:
  assumes "steps_later since uid d e" "\<And>x'. x' \<in> set (two_factor_secrets e') \<Longrightarrow>
    x' \<in> set (two_factor_secrets e) \<or> tf_user_id x' \<noteq> uid \<or> (\<forall>c. confirmed_at x' = Some c \<longrightarrow> since \<le> c)"
  shows "steps_later since uid d e'"
  using assms unfolding steps_later_def by (metis not_less)

lemma steps_later_same: "two_factor_secrets e' = two_factor_secrets e \<Longrightarrow> steps_later since uid d e' = steps_later since uid d e"
  by (simp add: steps_later_def)

lemma steps_later_used:
  assumes "steps_later since uid d e" "accepts_step X cfg e u c now k"
  shows "steps_later since uid d (used_step_db u k e)"
  unfolding steps_later_def
proof (intro ballI allI impI)
  fix x' c'
  assume mem: "x' \<in> set (two_factor_secrets (used_step_db u k e))" and old: "tf_user_id x' = uid \<and> confirmed_at x' = Some c' \<and> c' < since"
  obtain x where x: "x \<in> set (two_factor_secrets e)" "x' = (if tf_user_id x = u_id u then x\<lparr>last_used_timecode := Some k\<rparr> else x)"
    using mem by (auto simp: used_step_db_def set_update_where)
  then have "tf_user_id x = uid" "confirmed_at x = Some c'" "c' < since" using old by (simp_all split: if_splits)
  then obtain y where y: "y \<in> set (two_factor_secrets d)" "tf_user_id y = uid"
    "\<forall>l. last_used_timecode y = Some l \<longrightarrow> (\<exists>l'. last_used_timecode x = Some l' \<and> l \<le> l')"
    using assms(1) x(1) by (elim steps_laterE)
  have "l' < k" if "tf_user_id x = u_id u" "last_used_timecode x = Some l'" for l'
  proof -
    obtain rec where rec: "filter (\<lambda>x. tf_user_id x = u_id u) (two_factor_secrets e) = [rec]"
      "\<forall>l. last_used_timecode rec = Some l \<longrightarrow> l < k"
      using assms(2) by (rule accepts_stepE)
    have "x \<in> set (filter (\<lambda>x. tf_user_id x = u_id u) (two_factor_secrets e))" using x(1) that(1) by simp
    then show ?thesis using rec that(2) by simp
  qed
  then show "\<exists>x \<in> set (two_factor_secrets d). tf_user_id x = uid \<and>
      (\<forall>l. last_used_timecode x = Some l \<longrightarrow> (\<exists>l'. last_used_timecode x' = Some l' \<and> l \<le> l'))"
    using y x(2) by (intro bexI [OF _ y(1)]) fastforce
qed

section \<open>Statements\<close>

text \<open>Most statements leave the enrolments alone.\<close>

definition other_tables :: "'r auth_node \<Rightarrow> 'r auth_node \<Rightarrow> bool" where
  "other_tables s t \<longleftrightarrow> two_factor_secrets (db t) = two_factor_secrets (db s) \<and> committed t = committed s \<and> clock t = clock s"

interpretation elsewhere: effect other_tables
  by unfold_locales (auto simp: other_tables_def)

lemma within_other_tables:
  fixes p :: "('r, 'a) aprog"
  assumes "within other_tables p"
  shows "within (steps_kept since uid d) p"
proof -
  have "steps_kept since uid d s t" if "other_tables s t" for s t :: "'r auth_node"
    using that steps_later_same [of "db t" "db s"] by (simp add: other_tables_def steps_kept_def)
  then show ?thesis using assms by (simp add: within_def)
qed

lemma other_primitives:
  "within other_tables time_now" "within other_tables (draw f)" "within other_tables (select q)"
  "within other_tables (scalar_one_or_none rows)"
  by (simp_all add: within_def other_tables_def scalar_state)

lemma other_update:
  assumes "\<And>d. two_factor_secrets (g d) = two_factor_secrets d"
  shows "within other_tables (update_db g)" "within other_tables (insert_row w u g)"
  using assms by (simp_all add: within_def other_tables_def)

lemmas other_rules = elsewhere.within_rules other_primitives other_update

lemma other_updates:
  "within other_tables (update_refresh_tokens P f)" "within other_tables (update_sessions Q g)"
  "within other_tables (mutate_user u h)" "within other_tables (user_create X e ph)"
  "within other_tables (refresh_token_create X uid j fam parent th exp ip ua)"
  "within other_tables (session_create X uid fam ip ua)"
  "within other_tables (password_reset_create X uid hash until ip ua)" "within other_tables (mark_active_for_user_used uid now)"
  "within other_tables (mark_used p now)" "within other_tables (log_event X ev outc actor target ip ua pl)"
  "within other_tables (mark_backup_code_used b)" "within other_tables (delete_backup_codes uid)"
  unfolding update_refresh_tokens_def update_sessions_def mutate_user_def user_create_def refresh_token_create_def
    session_create_def password_reset_create_def mark_active_for_user_used_def mark_used_def log_event_def audit_create_def
    mark_backup_code_used_def delete_backup_codes_def Let_def
  by (intro other_rules; simp)+

lemma other_replace: "within other_tables (replace_backup_codes X uid hs)"
proof -
  have "within other_tables (add_backup_codes X uid hs)"
    by (induction hs) (simp_all only: add_backup_codes.simps, (intro other_rules | assumption | simp)+)
  then show ?thesis unfolding replace_backup_codes_def by (intro other_rules other_updates)
qed

lemma other_tokens:
  "within other_tables (generate_jti X)" "within other_tables (issue_access_token X cfg uid sid)"
  "within other_tables (issue_refresh_token X cfg uid sid fam j)" "within other_tables (refresh_claims X cfg raw)"
  "within other_tables (revoke_token tok why by)" "within other_tables (mark_rotated tok j)"
  "within other_tables (tokens_revoke_family fam why)" "within other_tables (revoke_all_for_user uid why)"
  "within other_tables (sessions_revoke_family fam)" "within other_tables (touch_family fam)"
  "within other_tables (is_family_active fam)" "within other_tables (revoke_user_sessions uid)"
  "within other_tables (get_by_jti_for_update j)" "within other_tables (get_by_id uid)"
proof -
  have "snd (refresh_claims X cfg raw s) = s" for s
    by (metis refresh_claims_state prod.collapse)
  then show "within other_tables (refresh_claims X cfg raw)" by (simp add: within_def other_tables_def)
qed (unfold generate_jti_def issue_access_token_def issue_refresh_token_def revoke_token_def mark_rotated_def
    tokens_revoke_family_def revoke_all_for_user_def sessions_revoke_family_def touch_family_def is_family_active_def
    revoke_user_sessions_def query_defs, (intro other_rules other_updates)+)

lemma other_issue:
  "within other_tables (issue_for_user X cfg uid ip ua)" "within other_tables (rotate_refresh X cfg raw ip ua)"
  unfolding issue_for_user_def rotate_refresh_def rotate_fresh_def
  by (intro other_rules other_updates other_tokens)+

text \<open>The statements on enrolments.\<close>

lemma steps_confirm: "within (steps_kept since uid d) (confirm_secret rec tc)"
proof (rule withinI)
  fix s :: "'a auth_node"
  have "steps_later since uid d (db s) \<Longrightarrow> since \<le> clock s \<Longrightarrow> steps_later since uid d (db (snd (confirm_secret rec tc s)))"
    by (erule steps_later_rows) (auto simp: confirm_secret_def mutate_secret_def set_update_where)
  then show "steps_kept since uid d s (snd (confirm_secret rec tc s))"
    by (simp add: steps_kept_def) (simp add: confirm_secret_def mutate_secret_def)
qed

lemma steps_upsert: "within (steps_kept since uid d) (upsert_secret X v enc)"
proof (rule withinI)
  fix s :: "'a auth_node"
  let ?t = "snd (upsert_secret X v enc s)"
  have "steps_later since uid d (db s) \<Longrightarrow> steps_later since uid d (db ?t)"
    by (erule steps_later_rows)
       (auto simp: upsert_secret_def bindE_def run_get_secret run_scalar_one_or_none mutate_secret_def set_update_where
         split: list.splits if_splits)
  moreover have "clock ?t = clock s" "committed ?t = committed s"
    by (simp_all add: upsert_secret_def bindE_def run_get_secret run_scalar_one_or_none mutate_secret_def split: list.splits)
  ultimately show "steps_kept since uid d s ?t" by (simp add: steps_kept_def)
qed

lemma steps_delete: "within (steps_kept since uid d) (delete_two_factor_data v)"
proof (rule withinI)
  fix s :: "'a auth_node"
  have "steps_later since uid d (db s) \<Longrightarrow> steps_later since uid d (db (snd (delete_two_factor_data v s)))"
    by (erule steps_later_rows) (auto simp: delete_two_factor_data_def delete_backup_codes_def)
  then show "steps_kept since uid d s (snd (delete_two_factor_data v s))"
    by (simp add: steps_kept_def) (simp add: delete_two_factor_data_def delete_backup_codes_def)
qed

interpretation stepped: auth_effect "steps_kept since uid d" X cfg for since uid d and X :: "'r extern" and cfg
  by unfold_locales
    (assumption | rule steps_confirm steps_upsert steps_delete within_other_tables [OF other_updates(3)]
      within_other_tables [OF other_updates(4)] within_other_tables [OF other_updates(7)] within_other_tables [OF other_updates(8)]
      within_other_tables [OF other_updates(9)] within_other_tables [OF other_updates(10)] within_other_tables [OF other_updates(11)]
      within_other_tables [OF other_replace] within_other_tables [OF other_issue(1)] within_other_tables [OF other_issue(2)]
      within_other_tables [OF other_tokens(5)] within_other_tables [OF other_tokens(7)] within_other_tables [OF other_tokens(8)]
      within_other_tables [OF other_tokens(9)] within_other_tables [OF other_tokens(12)]
    | simp add: within_def steps_kept_def steps_later_used)+

lemma run_keeps_steps: "auth_run X cfg s t \<Longrightarrow> steps_kept since uid d s t"
  by (rule stepped.run_effect) (auto simp: steps_kept_def)

section \<open>No replay\<close>

text \<open>
  C10: a one-time password is never accepted twice. A verification that succeeds did so for a step of at most one from the
  current one, with the code of that step, and records this step for this user and for nobody else. When this record is committed, and
  whatever requests are served after it, among them verifications and enrolments of any user, a later
  verification for the user succeeds only for a strictly later step, unless the user has enrolled
  anew since the first one.
\<close>

theorem totp_codes_never_replayed:
  assumes "verify_totp X cfg u c1 s = (Inr a, t)"
    and "filter (\<lambda>x. tf_user_id x = u_id u) (two_factor_secrets (committed r)) =
         filter (\<lambda>x. tf_user_id x = u_id u) (two_factor_secrets (db t))"
    and "db r = committed r" "clock s \<le> clock r" "auth_run X cfg r s'"
    and "\<forall>x \<in> set (two_factor_secrets (db s')). \<forall>c. tf_user_id x = u_id u \<and> confirmed_at x = Some c \<longrightarrow> c < clock s"
    and "verify_totp X cfg u c2 s' = (Inr b, t')"
  shows "\<exists>k1 k2. accepts_step X cfg (db s) u c1 (clock s) k1 \<and>
    t = s\<lparr>db := (db s)\<lparr>two_factor_secrets := map (\<lambda>x. if tf_user_id x = u_id u then x\<lparr>last_used_timecode := Some k1\<rparr> else x)
      (two_factor_secrets (db s))\<rparr>\<rparr> \<and>
    accepts_step X cfg (db s') u c2 (clock s') k2 \<and> k1 < k2"
proof -
  obtain k1 where 1: "accepts_step X cfg (db s) u c1 (clock s) k1" "t = s\<lparr>db := used_step_db u k1 (db s)\<rparr>"
    using verify_totp_Inr [OF assms(1)] by blast
  obtain k2 where 2: "accepts_step X cfg (db s') u c2 (clock s') k2"
    using verify_totp_Inr [OF assms(7)] by blast
  have "steps_later (clock s) (u_id u) (db t) (committed r)"
    unfolding steps_later_def
  proof (intro ballI allI impI)
    fix x c
    assume "x \<in> set (two_factor_secrets (committed r))" "tf_user_id x = u_id u \<and> confirmed_at x = Some c \<and> c < clock s"
    then have "x \<in> set (filter (\<lambda>x. tf_user_id x = u_id u) (two_factor_secrets (committed r)))" by simp
    then show "\<exists>y \<in> set (two_factor_secrets (db t)). tf_user_id y = u_id u \<and>
        (\<forall>k. last_used_timecode y = Some k \<longrightarrow> (\<exists>k'. last_used_timecode x = Some k' \<and> k \<le> k'))"
      unfolding assms(2) by auto
  qed
  then have later: "steps_later (clock s) (u_id u) (db t) (db s')"
    using run_keeps_steps [OF assms(5), of "clock s" "u_id u" "db t"] assms(3,4) by (simp add: steps_kept_def)
  obtain rec l where rec: "rec \<in> set (two_factor_secrets (db s'))" "tf_user_id rec = u_id u" "confirmed_at rec = Some l"
    "\<forall>l. last_used_timecode rec = Some l \<longrightarrow> l < k2"
    using 2 by (rule accepts_stepE)
  then have "l < clock s" using assms(6) by blast
  with later rec obtain y where y: "y \<in> set (two_factor_secrets (db t))" "tf_user_id y = u_id u"
    "\<forall>k. last_used_timecode y = Some k \<longrightarrow> (\<exists>k'. last_used_timecode rec = Some k' \<and> k \<le> k')"
    by (elim steps_laterE)
  then have "last_used_timecode y = Some k1" by (auto simp: 1(2) used_step_db_def set_update_where)
  then have "k1 < k2" using y(3) rec(4) by force
  then show ?thesis using 1 2 by (auto simp: used_step_db_def update_where_def)
qed

theorem totp_codes_never_replayed_witness:
  "\<exists>t s' t' k1 k2. verify_totp ref_extern ref_cfg ref_user (str_int 990) ref_2fa_node = (Inr (), t) \<and>
     auth_run ref_extern ref_cfg (t\<lparr>committed := db t\<rparr>) s' \<and>
     verify_totp ref_extern ref_cfg ref_user (str_int 1020) s' = (Inr (), t') \<and>
     accepts_step ref_extern ref_cfg (db s') ref_user (str_int 1020) 1030 k2 \<and> k1 < k2"
proof -
  let ?t = "ref_2fa_node\<lparr>db := used_step_db ref_user 33 ref_2fa_db\<rparr>"
  let ?r = "?t\<lparr>committed := db ?t\<rparr>"
  let ?s = "?r\<lparr>clock := 1030, draws := draws ?r, redis := redis ?r\<rparr>"
  have "auth_step ref_extern ref_cfg ?r ?s" by (rule auth_step.world) (simp_all add: ref_2fa_node_def)
  then have run: "auth_run ref_extern ref_cfg ?r ?s" by (rule r_into_rtranclp)
  have old: "\<forall>x \<in> set (two_factor_secrets (db ?s)). \<forall>c. tf_user_id x = u_id ref_user \<and> confirmed_at x = Some c \<longrightarrow>
      c < clock ref_2fa_node"
    by (simp add: used_step_db_def ref_2fa_db_def ref_2fa_node_def ref_user_def)
  have again: "verify_totp ref_extern ref_cfg ref_user (str_int 1020) ?s = (Inr (), ?s\<lparr>db := used_step_db ref_user 34 ref_2fa_db\<rparr>)"
    by (simp add: verify_totp_def run_get_secret ref_2fa_node_def ref_2fa_db_def ref_user_def
      decrypt_secret_def verify_totp_code_def ref_cfg_def upto_rec1 upto_empty startswith_def
      update_last_used_timecode_def mutate_secret_def used_step_db_def bindE_def Let_def)
  obtain k1 k2 where "accepts_step ref_extern ref_cfg (db ?s) ref_user (str_int 1020) (clock ?s) k2" "k1 < k2"
    using totp_codes_never_replayed [OF ref_verify_totp(1) _ _ _ run old again] by (auto simp: ref_2fa_node_def)
  then show ?thesis using ref_verify_totp(1) run again by (intro exI conjI) (assumption | simp)+
qed

end
