(* ===== verification/Token_Families.thy ===== *)
theory Token_Families
  imports Py_String
begin

text \<open>
  What refresh-token rotation promises, without tables, clocks or requests: an abstract machine of token families.
  A family is opened once, gets one first token, and from then on a usable token of the open family may be
  exchanged for one new token; tokens become unusable and families are closed, never the other way round.
  \<^verbatim>\<open>Refresh_Refinement\<close> shows that the auth-service implements this machine.
\<close>

text \<open>The tokens ever issued, each with its family and whether it may still be used, and the families ever opened.\<close>

record token_families =
  fam_of :: "uuid \<rightharpoonup> uuid \<times> bool"
  opened_families :: "uuid \<rightharpoonup> bool"

definition family_empty :: "token_families \<Rightarrow> uuid \<Rightarrow> bool" where
  "family_empty a f \<longleftrightarrow> (\<forall>j b. fam_of a j \<noteq> Some (f, b))"

definition retired :: "uuid set \<Rightarrow> (uuid \<rightharpoonup> uuid \<times> bool) \<Rightarrow> uuid \<rightharpoonup> uuid \<times> bool" where
  "retired J m = (\<lambda>j. if j \<in> J then map_option (\<lambda>(f, b). (f, False)) (m j) else m j)"

definition shut :: "uuid set \<Rightarrow> (uuid \<rightharpoonup> bool) \<Rightarrow> uuid \<rightharpoonup> bool" where
  "shut F m = (\<lambda>f. if f \<in> F then map_option (\<lambda>_. False) (m f) else m f)"

inductive family_step :: "token_families \<Rightarrow> token_families \<Rightarrow> bool" where
  start: "opened_families a f = None \<Longrightarrow> family_empty a f \<Longrightarrow>
    family_step a (a\<lparr>opened_families := (opened_families a)(f \<mapsto> True)\<rparr>)"
| grant: "opened_families a f = Some True \<Longrightarrow> family_empty a f \<Longrightarrow> fam_of a j = None \<Longrightarrow>
    family_step a (a\<lparr>fam_of := (fam_of a)(j \<mapsto> (f, True))\<rparr>)"
| rotate: "opened_families a f = Some True \<Longrightarrow> fam_of a j = Some (f, True) \<Longrightarrow> fam_of a k = None \<Longrightarrow>
    family_step a (a\<lparr>fam_of := (fam_of a)(j \<mapsto> (f, False), k \<mapsto> (f, True))\<rparr>)"
| retire: "family_step a (a\<lparr>fam_of := retired J (fam_of a)\<rparr>)"
| close: "family_step a (a\<lparr>opened_families := shut F (opened_families a)\<rparr>)"

inductive_cases family_stepE: "family_step a b"

abbreviation family_steps :: "token_families \<Rightarrow> token_families \<Rightarrow> bool" where
  "family_steps \<equiv> family_step\<^sup>*\<^sup>*"

section \<open>What the machine guarantees\<close>

text \<open>Two usable tokens of one family are the same token.\<close>

definition single_usable :: "token_families \<Rightarrow> bool" where
  "single_usable a \<longleftrightarrow> (\<forall>j k f. fam_of a j = Some (f, True) \<longrightarrow> fam_of a k = Some (f, True) \<longrightarrow> j = k)"

lemma retired_usable: "retired J m j = Some (f, True) \<Longrightarrow> m j = Some (f, True)"
  by (auto simp: retired_def split: if_splits option.splits)

lemma step_single_usable: "family_step a b \<Longrightarrow> single_usable a \<Longrightarrow> single_usable b"
proof (induction rule: family_step.induct)
  case (retire a J)
  then show ?case by (auto simp: single_usable_def dest!: retired_usable)
qed (auto simp: single_usable_def family_empty_def)

lemma steps_single_usable: "family_steps a b \<Longrightarrow> single_usable a \<Longrightarrow> single_usable b"
  by (induction rule: rtranclp_induct) (auto intro: step_single_usable)

text \<open>Tokens stay in their families; a token or a family that is dead stays dead.\<close>

definition families_le :: "token_families \<Rightarrow> token_families \<Rightarrow> bool" where
  "families_le a b \<longleftrightarrow>
     (\<forall>j f u. fam_of a j = Some (f, u) \<longrightarrow> (\<exists>v. fam_of b j = Some (f, v) \<and> (v \<longrightarrow> u))) \<and>
     (\<forall>f u. opened_families a f = Some u \<longrightarrow> (\<exists>v. opened_families b f = Some v \<and> (v \<longrightarrow> u)))"

lemma step_families_le: "family_step a b \<Longrightarrow> families_le a b"
  by (induction rule: family_step.induct) (auto simp: families_le_def retired_def shut_def)

lemma steps_families_le: "family_steps a b \<Longrightarrow> families_le a b"
proof (induction rule: rtranclp_induct)
  case (step b c)
  then show ?case using step_families_le [of b c] unfolding families_le_def by meson
qed (simp add: families_le_def)

text \<open>A usable token of a family that has had tokens comes from a usable token of it: nobody gets a second first token.\<close>

lemma step_usable_origin:
  assumes "family_step a b" "fam_of b k = Some (f, True)" "\<not> family_empty a f"
  shows "\<exists>j. fam_of a j = Some (f, True)"
  using assms
  by (induction rule: family_step.induct) (auto split: if_splits dest!: retired_usable)

lemma steps_usable_origin:
  assumes "family_steps a b" "fam_of b k = Some (f, True)" "\<not> family_empty a f"
  shows "\<exists>j. fam_of a j = Some (f, True)"
  using assms
proof (induction arbitrary: k rule: rtranclp_induct)
  case (step b c)
  then have "\<not> family_empty b f"
    using steps_families_le [of a b] unfolding family_empty_def families_le_def by blast
  then show ?case using step step_usable_origin [of b c] by blast
qed blast

text \<open>Every token belongs to a family that was opened.\<close>

definition families_known :: "token_families \<Rightarrow> bool" where
  "families_known a \<longleftrightarrow> (\<forall>j f u. fam_of a j = Some (f, u) \<longrightarrow> opened_families a f \<noteq> None)"

lemma step_families_known: "family_step a b \<Longrightarrow> families_known a \<Longrightarrow> families_known b"
  by (induction rule: family_step.induct)
     (auto simp: families_known_def retired_def shut_def split: if_splits)

lemma steps_families_known: "family_steps a b \<Longrightarrow> families_known a \<Longrightarrow> families_known b"
  by (induction rule: rtranclp_induct) (auto intro: step_families_known)

text \<open>A family without usable tokens never gets one again.\<close>

definition family_spent :: "token_families \<Rightarrow> uuid \<Rightarrow> bool" where
  "family_spent a f \<longleftrightarrow> \<not> family_empty a f \<and> (\<forall>j. fam_of a j \<noteq> Some (f, True))"

lemma steps_family_spent:
  assumes "family_steps a b" "family_spent a f"
  shows "family_spent b f"
  using assms steps_usable_origin [OF assms(1)] steps_families_le [OF assms(1)]
  unfolding family_spent_def family_empty_def families_le_def by blast

end
