(* ===== verification/Refresh_Refinement.thy ===== *)
theory Refresh_Refinement
  imports Auth_Runs Token_Families
begin

text \<open>
  The auth-service implements the token families of \<^verbatim>\<open>Token_Families\<close>. The abstraction of the tables reads off, for each
  token id, its family and whether the token may still be used, and for each family whether one of its sessions is live.
  Every statement, and with it every request, makes steps of the abstract machine, provided the UUIDs drawn so
  far are distinct: the tables themselves have no unique constraint on families.
\<close>

section \<open>The abstraction\<close>

definition token_entry :: "refresh_token \<Rightarrow> uuid \<times> uuid \<times> bool" where
  "token_entry t = (jti t, family_id t, \<not> consumed t)"

lemma token_entry_parts [simp]: "fst (token_entry t) = jti t" "snd (token_entry t) = (family_id t, \<not> consumed t)"
  by (simp_all add: token_entry_def)

definition families_of :: "auth_db \<Rightarrow> token_families" where
  "families_of d =
     \<lparr>fam_of = map_of (map token_entry (refresh_tokens d)),
      opened_families = (\<lambda>f. if f \<in> refresh_family_id ` set (user_sessions d) then Some (family_live d f) else None)\<rparr>"

lemma family_live_same: "user_sessions e = user_sessions d \<Longrightarrow> family_live e = family_live d"
  by (simp add: family_live_def fun_eq_iff)

lemma families_same:
  "refresh_tokens e = refresh_tokens d \<Longrightarrow> user_sessions e = user_sessions d \<Longrightarrow> families_of e = families_of d"
  using family_live_same [of e d] by (simp add: families_of_def cong: if_cong)

lemma live_opened: "family_live d f \<Longrightarrow> opened_families (families_of d) f = Some True"
  by (auto simp: families_of_def family_live_def)

lemma entry_of_fresh: "j \<notin> jti ` set ts \<Longrightarrow> map_of (map token_entry ts) j = None"
  by (simp add: map_of_eq_None_iff image_image token_entry_def)

lemma entries_append:
  "jti t \<notin> jti ` set ts \<Longrightarrow> map_of (map token_entry (ts @ [t])) = (map_of (map token_entry ts))(jti t \<mapsto> (family_id t, \<not> consumed t))"
  using entry_of_fresh [of "jti t" ts] by (auto simp: fun_eq_iff map_add_def split: option.split)

lemma family_empty_fresh:
  assumes "f \<notin> family_id ` set (refresh_tokens d)"
  shows "family_empty (families_of d) f"
proof -
  have "f \<in> family_id ` set (refresh_tokens d)" if "map_of (map token_entry (refresh_tokens d)) j = Some (f, b)" for j b
    using map_of_SomeD [OF that] by (auto simp: token_entry_def)
  then show ?thesis using assms by (auto simp: family_empty_def families_of_def)
qed

text \<open>Marking rows retires their tokens.\<close>

lemma entries_update:
  assumes "\<And>t. jti (g t) = jti t" "\<And>t. family_id (g t) = family_id t" "\<And>t. P t \<Longrightarrow> consumed (g t)"
  shows "\<exists>J. map_of (map token_entry (update_where P g ts)) = retired J (map_of (map token_entry ts))"
proof (induction ts)
  case (Cons t ts)
  then obtain J where J: "map_of (map token_entry (update_where P g ts)) = retired J (map_of (map token_entry ts))" ..
  show ?case
    by (rule exI [of _ "if P t then insert (jti t) J else J - {jti t}"])
       (use assms [of t] J in \<open>auto simp: retired_def fun_eq_iff\<close>)
qed (simp add: retired_def fun_eq_iff)

lemma tokens_marked:
  assumes "\<And>t. jti (g t) = jti t" "\<And>t. family_id (g t) = family_id t" "\<And>t. P t \<Longrightarrow> consumed (g t)"
    and "user_sessions e = user_sessions d" "refresh_tokens e = update_where P g (refresh_tokens d)"
  shows "family_step (families_of d) (families_of e)"
proof -
  obtain J where "map_of (map token_entry (refresh_tokens e)) = retired J (map_of (map token_entry (refresh_tokens d)))"
    using entries_update [OF assms(1-3)] assms(5) by metis
  then have "families_of e = (families_of d)\<lparr>fam_of := retired J (fam_of (families_of d))\<rparr>"
    using assms(4) family_live_same [OF assms(4)] by (simp add: families_of_def cong: if_cong)
  then show ?thesis by (simp add: family_step.retire)
qed

lemma sessions_marked:
  assumes "\<And>v. refresh_family_id (g v) = refresh_family_id v" "\<And>v. us_revoked_at (g v) = None \<Longrightarrow> us_revoked_at v = None"
    and "refresh_tokens e = refresh_tokens d" "user_sessions e = update_where P g (user_sessions d)"
  shows "family_step (families_of d) (families_of e)"
proof -
  let ?F = "{f. \<not> family_live e f}"
  have fams: "refresh_family_id ` set (user_sessions e) = refresh_family_id ` set (user_sessions d)"
    using assms(1,4) by (simp add: image_update_where_same)
  have "family_live d f" if "family_live e f" for f
    using that assms(1,2) unfolding family_live_def assms(4) by (fastforce simp: set_update_where split: if_splits)
  then have "families_of e = (families_of d)\<lparr>opened_families := shut ?F (opened_families (families_of d))\<rparr>"
    using assms(3) fams by (auto simp: families_of_def shut_def fun_eq_iff)
  then show ?thesis by (metis family_step.close)
qed

section \<open>The simulation\<close>

text \<open>Every family in the tables was drawn in the past.\<close>

definition drawn :: "'r extern \<Rightarrow> nat \<Rightarrow> auth_db \<Rightarrow> bool" where
  "drawn X n d \<longleftrightarrow>
     family_id ` set (refresh_tokens d) \<union> refresh_family_id ` set (user_sessions d) \<subseteq> uuid4 X ` {..<n}"

lemma drawn_mono: "drawn X m d \<Longrightarrow> m \<le> n \<Longrightarrow> drawn X n d"
  unfolding drawn_def by (meson image_mono lessThan_subset_iff order_trans)

text \<open>In the middle of a request the session is ahead of the committed tables by steps of the machine.\<close>

definition in_step :: "'r extern \<Rightarrow> 'r auth_node \<Rightarrow> bool" where
  "in_step X s \<longleftrightarrow> drawn X (draws s) (committed s) \<and> drawn X (draws s) (db s) \<and>
     family_steps (families_of (committed s)) (families_of (db s))"

definition refines :: "'r extern \<Rightarrow> 'r auth_node \<Rightarrow> 'r auth_node \<Rightarrow> bool" where
  "refines X s t \<longleftrightarrow> draws s \<le> draws t \<and>
     (inj_on (uuid4 X) {..<draws t} \<longrightarrow> in_step X s \<longrightarrow>
      in_step X t \<and> family_steps (families_of (committed s)) (families_of (committed t)))"

interpretation refining: effect "refines X" for X :: "'r extern"
proof unfold_locales
  fix s t u :: "'r auth_node"
  assume st: "refines X s t" and tu: "refines X t u"
  then have "inj_on (uuid4 X) {..<draws t}" if "inj_on (uuid4 X) {..<draws u}"
    using that unfolding refines_def by (auto intro: inj_on_subset)
  with st tu show "refines X s u" unfolding refines_def by (meson order_trans rtranclp_trans)
qed (simp add: refines_def)

lemma refines_db:
  assumes "committed t = committed s" "draws s \<le> draws t"
    and "inj_on (uuid4 X) {..<draws t} \<Longrightarrow> drawn X (draws s) (db s) \<Longrightarrow>
      drawn X (draws t) (db t) \<and> family_steps (families_of (db s)) (families_of (db t))"
  shows "refines X s t"
  using assms drawn_mono unfolding refines_def in_step_def by (metis rtranclp.rtrancl_refl rtranclp_trans)

lemma drawn_same:
  "family_id ` set (refresh_tokens e) = family_id ` set (refresh_tokens d) \<Longrightarrow>
   refresh_family_id ` set (user_sessions e) = refresh_family_id ` set (user_sessions d) \<Longrightarrow> drawn X n e = drawn X n d"
  by (simp add: drawn_def)

text \<open>Statements about other tables.\<close>

definition untouched :: "'r auth_node \<Rightarrow> 'r auth_node \<Rightarrow> bool" where
  "untouched s t \<longleftrightarrow> refresh_tokens (db t) = refresh_tokens (db s) \<and> user_sessions (db t) = user_sessions (db s) \<and>
     committed t = committed s \<and> draws s \<le> draws t"

interpretation untouching: effect untouched
  by unfold_locales (auto simp: untouched_def)

lemma refines_untouched:
  assumes "untouched s t"
  shows "refines X s t"
proof (rule refines_db)
  have u: "refresh_tokens (db t) = refresh_tokens (db s)" "user_sessions (db t) = user_sessions (db s)" "draws s \<le> draws t"
    using assms by (simp_all add: untouched_def)
  assume "drawn X (draws s) (db s)"
  then have "drawn X (draws t) (db s)" using u(3) by (rule drawn_mono)
  then show "drawn X (draws t) (db t) \<and> family_steps (families_of (db s)) (families_of (db t))"
    using families_same [OF u(1,2)] u(1,2) by (simp add: drawn_def)
qed (use assms in \<open>simp_all add: untouched_def\<close>)

lemma within_untouched: "within untouched p \<Longrightarrow> within (refines X) p"
  by (simp add: within_def refines_untouched)

lemma untouched_primitives:
  "within untouched time_now" "within untouched (draw f)" "within untouched (select q)"
  "within untouched (scalar_one_or_none rows)"
  by (simp_all add: within_def untouched_def scalar_state)

lemma untouched_update:
  assumes "\<And>d. refresh_tokens (g d) = refresh_tokens d \<and> user_sessions (g d) = user_sessions d"
  shows "within untouched (update_db g)" "within untouched (insert_row w u g)"
  using assms by (simp_all add: within_def untouched_def)

lemmas untouched_rules = untouching.within_rules untouched_primitives untouched_update

lemma untouched_users:
  "within untouched (user_create X e ph)" "within untouched (mutate_user u g)"
  unfolding user_create_def mutate_user_def by (intro untouched_rules; simp)+

lemma untouched_second_factors:
  "within untouched (mutate_secret rec h)" "within untouched (upsert_secret X uid enc)"
  "within untouched (replace_backup_codes X uid hs)" "within untouched (delete_two_factor_data uid)"
  "within untouched (mark_backup_code_used b)"
proof -
  show mut: "within untouched (mutate_secret rec h)" for rec h
    unfolding mutate_secret_def by (intro untouched_rules) simp
  show "within untouched (upsert_secret X uid enc)"
    unfolding upsert_secret_def get_secret_def by (intro untouched_rules mut) simp
  have add: "within untouched (add_backup_codes X uid hs)"
    by (induction hs) (simp_all only: add_backup_codes.simps, (intro untouched_rules | assumption | simp)+)
  show "within untouched (replace_backup_codes X uid hs)"
    unfolding replace_backup_codes_def delete_backup_codes_def by (intro untouched_rules add) simp
  show "within untouched (delete_two_factor_data uid)" "within untouched (mark_backup_code_used b)"
    unfolding delete_two_factor_data_def delete_backup_codes_def mark_backup_code_used_def
    by (intro untouched_rules; simp)+
qed

lemma untouched_resets:
  "within untouched (password_reset_create X uid hash until ip ua)" "within untouched (mark_active_for_user_used uid now)"
  "within untouched (mark_used p now)" "within untouched (log_event X ev outc actor target ip ua pl)"
  unfolding password_reset_create_def mark_active_for_user_used_def mark_used_def log_event_def audit_create_def
  by (intro untouched_rules; simp)+

section \<open>Revocation\<close>

lemma refines_step:
  assumes "committed t = committed s" "draws s \<le> draws t"
    and "family_id ` set (refresh_tokens (db t)) = family_id ` set (refresh_tokens (db s))"
    and "refresh_family_id ` set (user_sessions (db t)) = refresh_family_id ` set (user_sessions (db s))"
    and "family_step (families_of (db s)) (families_of (db t))"
  shows "refines X s t"
proof (rule refines_db [OF assms(1,2)])
  assume "drawn X (draws s) (db s)"
  then have "drawn X (draws t) (db s)" using assms(2) by (rule drawn_mono)
  then show "drawn X (draws t) (db t) \<and> family_steps (families_of (db s)) (families_of (db t))"
    using drawn_same [OF assms(3,4)] assms(5) by blast
qed

lemma refines_marked:
  assumes "\<And>x. jti (g x) = jti x" "\<And>x. family_id (g x) = family_id x" "\<And>x. P x \<Longrightarrow> consumed (g x)"
  shows "within (refines X) (update_refresh_tokens P g)"
proof (rule withinI, rule refines_step)
  fix s :: "'r auth_node"
  show "family_step (families_of (db s)) (families_of (db (snd (update_refresh_tokens P g s))))"
    by (rule tokens_marked [OF assms]) simp_all
qed (simp_all add: image_update_where_same assms(2))

lemma refines_shut:
  assumes "\<And>v. refresh_family_id (g v) = refresh_family_id v" "\<And>v. us_revoked_at (g v) = None \<Longrightarrow> us_revoked_at v = None"
  shows "within (refines X) (update_sessions P g)"
proof (rule withinI, rule refines_step)
  fix s :: "'r auth_node"
  show "family_step (families_of (db s)) (families_of (db (snd (update_sessions P g s))))"
    by (rule sessions_marked [OF assms]) simp_all
qed (simp_all add: image_update_where_same assms(1))

lemma refines_time: "within (refines X) time_now"
  by (simp add: within_def refining.refl)

lemma refines_revocation:
  "within (refines X) (revoke_token tok why by)" "within (refines X) (tokens_revoke_family fam why)"
  "within (refines X) (revoke_all_for_user uid why)" "within (refines X) (sessions_revoke_family fam)"
  "within (refines X) (revoke_user_sessions uid)"
  unfolding revoke_token_def tokens_revoke_family_def revoke_all_for_user_def sessions_revoke_family_def revoke_user_sessions_def
  by (intro refining.within_rules refines_time refines_marked refines_shut; simp add: consumed_def)+

section \<open>Issuing\<close>

lemma issue_for_user_state:
  "snd (issue_for_user X cfg uid ip ua s) =
    (if \<not> client_fits ip ua \<or> uuid4 X (draws s + 1) \<in> us_id ` set (user_sessions (db s)) then s\<lparr>draws := draws s + 2\<rparr>
     else let v = user_sessions (db s) @ [issued_session X uid ip ua s] in
       if \<not> fresh_ids X (db s) (uuid4 X (draws s + 2)) (uuid4 X (draws s + 3))
       then s\<lparr>draws := draws s + 4, db := (db s)\<lparr>user_sessions := v\<rparr>\<rparr>
       else s\<lparr>draws := draws s + 5, db := (db s)\<lparr>user_sessions := v,
         refresh_tokens := refresh_tokens (db s) @ [issued_token X cfg uid ip ua s]\<rparr>\<rparr>)"
  by (cases "client_fits ip ua"; cases "uuid4 X (draws s + 1) \<in> us_id ` set (user_sessions (db s))";
      cases "fresh_ids X (db s) (uuid4 X (draws s + 2)) (uuid4 X (draws s + 3))")
     (simp_all add: issue_for_user_def run_session_create run_refresh_token_create generate_jti_def Let_def
      issued_session_def issued_token_def issued_text_def fresh_ids_def eval_nat_numeral)

lemma session_added:
  assumes "refresh_family_id v \<notin> family_id ` set (refresh_tokens d) \<union> refresh_family_id ` set (user_sessions d)"
    and "us_revoked_at v = None"
  shows "family_step (families_of d) (families_of (d\<lparr>user_sessions := user_sessions d @ [v]\<rparr>))"
proof -
  have "opened_families (families_of d) (refresh_family_id v) = None" "family_empty (families_of d) (refresh_family_id v)"
    using assms(1) family_empty_fresh [of "refresh_family_id v" d] by (simp_all add: families_of_def)
  note family_step.start [OF this]
  moreover have "families_of (d\<lparr>user_sessions := user_sessions d @ [v]\<rparr>) =
      (families_of d)\<lparr>opened_families := (opened_families (families_of d))(refresh_family_id v \<mapsto> True)\<rparr>"
    using assms(2) by (auto simp: families_of_def family_live_def fun_eq_iff)
  ultimately show ?thesis by simp
qed

lemma first_token_added:
  assumes "family_live d (family_id x)" "family_id x \<notin> family_id ` set (refresh_tokens d)"
    and "jti x \<notin> jti ` set (refresh_tokens d)" "\<not> consumed x"
  shows "family_step (families_of d) (families_of (d\<lparr>refresh_tokens := refresh_tokens d @ [x]\<rparr>))"
proof -
  have "opened_families (families_of d) (family_id x) = Some True" "fam_of (families_of d) (jti x) = None"
    using live_opened [OF assms(1)] entry_of_fresh [OF assms(3)] by (simp_all add: families_of_def)
  note family_step.grant [OF this(1) family_empty_fresh [OF assms(2)] this(2)]
  moreover have "families_of (d\<lparr>refresh_tokens := refresh_tokens d @ [x]\<rparr>) =
      (families_of d)\<lparr>fam_of := (fam_of (families_of d))(jti x \<mapsto> (family_id x, True))\<rparr>"
    using entries_append [OF assms(3)] assms(4) by (simp add: families_of_def family_live_def cong: if_cong)
  ultimately show ?thesis by simp
qed

lemma refines_issue:
  fixes X :: "'r extern"
  shows "within (refines X) (issue_for_user X cfg uid ip ua)"
proof (rule withinI, rule refines_db)
  fix s :: "'r auth_node"
  let ?t = "snd (issue_for_user X cfg uid ip ua s)" and ?f = "uuid4 X (draws s)"
  let ?d = "(db s)\<lparr>user_sessions := user_sessions (db s) @ [issued_session X uid ip ua s]\<rparr>"
  let ?e = "?d\<lparr>refresh_tokens := refresh_tokens ?d @ [issued_token X cfg uid ip ua s]\<rparr>"
  show "committed ?t = committed s" "draws s \<le> draws ?t" by (simp_all add: issue_for_user_state Let_def)
  assume inj: "inj_on (uuid4 X) {..<draws ?t}" and dr: "drawn X (draws s) (db s)"
  have more: "draws s < draws ?t" by (simp add: issue_for_user_state Let_def)
  have "?f \<notin> uuid4 X ` {..<draws s}"
  proof
    assume "?f \<in> uuid4 X ` {..<draws s}"
    then obtain i where "i < draws s" "?f = uuid4 X i" by auto
    with inj_onD [OF inj this(2)] more show False by simp
  qed
  then have new: "?f \<notin> family_id ` set (refresh_tokens (db s)) \<union> refresh_family_id ` set (user_sessions (db s))"
    using dr unfolding drawn_def by blast
  have id: "drawn X (draws ?t) (db s)" using dr more by (simp add: drawn_mono)
  have f: "?f \<in> uuid4 X ` {..<draws ?t}" using more by simp
  have first: "family_step (families_of (db s)) (families_of ?d)"
    by (rule session_added) (use new in \<open>simp_all add: issued_session_def\<close>)
  have second: "family_step (families_of ?d) (families_of ?e)"
    if "fresh_ids X (db s) (uuid4 X (draws s + 2)) (uuid4 X (draws s + 3))"
    by (rule first_token_added)
       (use new that in \<open>simp_all add: issued_session_def issued_token_def fresh_ids_def family_live_def consumed_def\<close>)
  show "drawn X (draws ?t) (db ?t) \<and> family_steps (families_of (db s)) (families_of (db ?t))"
  proof (cases "db ?t = db s")
    case True
    then show ?thesis using id by simp
  next
    case False
    then have "db ?t = ?d \<or> db ?t = ?e \<and> fresh_ids X (db s) (uuid4 X (draws s + 2)) (uuid4 X (draws s + 3))"
      by (auto simp: issue_for_user_state Let_def split: if_splits)
    then show ?thesis
    proof
      assume e: "db ?t = ?d"
      then show ?thesis using first id f by (simp add: drawn_def issued_session_def r_into_rtranclp)
    next
      assume e: "db ?t = ?e \<and> fresh_ids X (db s) (uuid4 X (draws s + 2)) (uuid4 X (draws s + 3))"
      then have "family_steps (families_of (db s)) (families_of ?e)" using first second by (meson r_into_rtranclp rtranclp.rtrancl_into_rtrancl)
      then show ?thesis using e id f by (simp add: drawn_def issued_session_def issued_token_def)
    qed
  qed
qed

section \<open>Rotation\<close>

lemma entry_of_only: "filter (\<lambda>t. jti t = k) ts = x # xs \<Longrightarrow> map_of (map token_entry ts) k = Some (family_id x, \<not> consumed x)"
  by (induction ts) (auto split: if_splits)

lemma entries_marked_key:
  "(\<And>t. jti (g t) = jti t \<and> family_id (g t) = family_id t \<and> consumed (g t)) \<Longrightarrow>
   map_of (map token_entry (update_where (\<lambda>t. jti t = k) g ts)) = retired {k} (map_of (map token_entry ts))"
  by (induction ts) (auto simp: retired_def fun_eq_iff)

lemma mark_row_consumed [simp]: "consumed (mark_row now j t)"
  by (simp add: mark_row_def consumed_def)

lemma family_live_rotated_db: "family_live (rotated_db now tok new d) f = family_live d f"
  unfolding family_live_def rotated_db_def by (simp add: bex_update_where, rule bex_cong [OF refl]) auto

lemma rotated_step:
  assumes "filter (\<lambda>t. jti t = jti tok) (refresh_tokens d) = [tok]" "\<not> consumed tok" "family_live d (family_id tok)"
    and "family_id new = family_id tok" "jti new \<notin> jti ` set (refresh_tokens d)" "\<not> consumed new"
  shows "family_step (families_of d) (families_of (rotated_db now tok new d))"
proof -
  let ?m = "fam_of (families_of d)" and ?ts = "update_where (\<lambda>t. jti t = jti tok) (mark_row now (jti new)) (refresh_tokens d)"
  have old: "?m (jti tok) = Some (family_id tok, True)"
    using entry_of_only [OF assms(1)] assms(2) by (simp add: families_of_def)
  have "?m (jti new) = None" using entry_of_fresh [OF assms(5)] by (simp add: families_of_def)
  note family_step.rotate [OF live_opened [OF assms(3)] old this]
  moreover have "families_of (rotated_db now tok new d) =
    (families_of d)\<lparr>fam_of := ?m(jti tok \<mapsto> (family_id tok, False), jti new \<mapsto> (family_id tok, True))\<rparr>"
  proof (rule token_families.equality)
    have "map_of (map token_entry ?ts) = ?m(jti tok \<mapsto> (family_id tok, False))"
      using entries_marked_key [of "mark_row now (jti new)" "jti tok" "refresh_tokens d"] old
      by (auto simp: families_of_def retired_def fun_eq_iff)
    moreover have "jti new \<notin> jti ` set ?ts"
      using assms(5) by (simp add: image_update_where_same)
    ultimately show "fam_of (families_of (rotated_db now tok new d)) = fam_of ((families_of d)\<lparr>fam_of :=
        ?m(jti tok \<mapsto> (family_id tok, False), jti new \<mapsto> (family_id tok, True))\<rparr>)"
      using entries_append [of new ?ts] assms(4,6) by (simp add: families_of_def rotated_db_def del: map_append)
    show "opened_families (families_of (rotated_db now tok new d)) = opened_families ((families_of d)\<lparr>fam_of :=
        ?m(jti tok \<mapsto> (family_id tok, False), jti new \<mapsto> (family_id tok, True))\<rparr>)"
      by (simp add: families_of_def family_live_rotated_db cong: if_cong) (simp add: rotated_db_def image_update_where_same)
  qed simp
  ultimately show ?thesis by simp
qed

lemma rotate_fresh_state:
  "snd (rotate_fresh X cfg tok (rt_user_id tok) (family_id tok) sid ip ua s) =
    (if client_fits ip ua \<and> fresh_ids X (db s) (uuid4 X (draws s)) (uuid4 X (Suc (draws s)))
     then s\<lparr>draws := draws s + 3, db := rotated_db (clock s) tok (successor X cfg tok sid ip ua s) (db s)\<rparr>
     else s\<lparr>draws := draws s + 2, db := (db s)\<lparr>refresh_tokens :=
       update_where (\<lambda>t. jti t = jti tok) (mark_row (clock s) (uuid4 X (draws s))) (refresh_tokens (db s))\<rparr>\<rparr>)"
proof (cases "client_fits ip ua \<and> fresh_ids X (db s) (uuid4 X (draws s)) (uuid4 X (Suc (draws s)))")
  case True
  then show ?thesis by (simp add: rotate_fresh_run)
next
  case False
  then consider "\<not> client_fits ip ua" | "client_fits ip ua" "uuid4 X (draws s) \<in> jti ` set (refresh_tokens (db s))"
    | "client_fits ip ua" "uuid4 X (Suc (draws s)) \<in> rt_id ` set (refresh_tokens (db s))"
    unfolding fresh_ids_def by blast
  then show ?thesis
    by cases (simp_all add: rotate_fresh_def mark_rotated_def run_refresh_token_create Let_def fresh_ids_def
        mark_row_def [abs_def] image_update_where_same eval_nat_numeral)
qed

lemma refines_rotate_fresh:
  assumes "presents X cfg raw s tok sid" "\<not> consumed tok" "family_live (db s) (family_id tok)"
  shows "refines X s (snd (rotate_fresh X cfg tok (rt_user_id tok) (family_id tok) sid ip ua s))"
proof -
  let ?t = "snd (rotate_fresh X cfg tok (rt_user_id tok) (family_id tok) sid ip ua s)" and ?new = "successor X cfg tok sid ip ua s"
  have mem: "tok \<in> set (refresh_tokens (db s))" using assms(1) by (rule presents_mem)
  show ?thesis
  proof (cases "client_fits ip ua \<and> fresh_ids X (db s) (uuid4 X (draws s)) (uuid4 X (Suc (draws s)))")
    case True
    then have "family_step (families_of (db s)) (families_of (rotated_db (clock s) tok ?new (db s)))"
      using assms by (intro rotated_step) (simp_all add: presents_def successor_def fresh_ids_def consumed_def)
    with True show ?thesis
      by (intro refines_step) (auto simp: rotate_fresh_state rotated_db_def image_update_where_same successor_def mem)
  next
    case False
    then show ?thesis
      by (intro refines_step tokens_marked [of "mark_row (clock s) (uuid4 X (draws s))" "\<lambda>t. jti t = jti tok"])
         (auto simp: rotate_fresh_state image_update_where_same)
  qed
qed

lemma refines_rotation: "within (refines X) (rotate_refresh X cfg raw ip ua)"
proof (rule withinI)
  fix s
  show "refines X s (snd (rotate_refresh X cfg raw ip ua s))"
  proof (cases "\<exists>tok sid. presents X cfg raw s tok sid")
    case True
    then obtain tok sid where pr: "presents X cfg raw s tok sid" by blast
    have "refines X s (s\<lparr>db := kill_family (clock s) why f (db s)\<rparr>)" for why f
      using withinD [OF refining.within_thenE [OF refines_revocation(2)
          refining.within_thenE [OF refines_revocation(4) refining.within_ret]], of X s f why f "()"]
      by (simp only: kill_family_run) simp
    then show ?thesis
      using refines_rotate_fresh [OF pr] by (simp add: rotate_presented [OF pr] refining.refl)
  next
    case False
    then obtain e where "rotate_refresh X cfg raw ip ua s = (Inl e, s)" using rotate_not_presented by blast
    then show ?thesis by (simp add: refining.refl)
  qed
qed

section \<open>Requests and runs\<close>

lemma refines_commit: "within (refines X) session_commit"
  by (simp add: within_def refines_def in_step_def)

lemma refines_close: "refines X s (s\<lparr>db := committed s\<rparr>)"
  by (simp add: refines_def in_step_def)

lemma refines_same: "db t = db s \<Longrightarrow> committed t = committed s \<Longrightarrow> draws s \<le> draws t \<Longrightarrow> refines X s t"
  by (rule refines_untouched) (simp add: untouched_def)

lemma refines_totp:
  "within (refines X) (confirm_secret rec tc)" "refines X s (s\<lparr>db := used_step_db u k (db s)\<rparr>)"
proof -
  show "within (refines X) (confirm_secret rec tc)"
    unfolding confirm_secret_def by (rule within_untouched, intro untouched_rules untouched_second_factors)
  show "refines X s (s\<lparr>db := used_step_db u k (db s)\<rparr>)"
    by (rule refines_untouched) (simp add: untouched_def used_step_db_def)
qed

interpretation refined: auth_effect "refines X" X cfg for X :: "'r extern" and cfg
  by unfold_locales
    (assumption | rule refines_same refines_commit within_untouched [OF untouched_users(1)] within_untouched [OF untouched_users(2)]
      refines_totp within_untouched [OF untouched_second_factors(2)]
      within_untouched [OF untouched_second_factors(3)] within_untouched [OF untouched_second_factors(4)]
      within_untouched [OF untouched_second_factors(5)] within_untouched [OF untouched_resets(1)]
      within_untouched [OF untouched_resets(2)] within_untouched [OF untouched_resets(3)]
      within_untouched [OF untouched_resets(4)] refines_issue refines_rotation refines_revocation
    | simp add: within_def refines_close)+

lemma auth_run_refines: "auth_run X cfg s t \<Longrightarrow> refines X s t"
  by (rule refined.run_effect) (auto intro: refines_same)

text \<open>
  C4: the auth-service implements the token families. Whatever requests are served, and however time and cache change
  between them, the committed tables move by steps of the abstract machine only: new families are opened and given one
  first token, a usable token of an open family is exchanged for one new token of it, tokens become
  unusable, families are closed; nothing else happens to tokens and sessions. In particular a family whose tokens are all used up
  never has a usable token again. (UUIDs drawn so far are distinct.)
\<close>

theorem runs_refine_token_families:
  assumes "db s = committed s" "drawn X (draws s) (committed s)" "auth_run X cfg s t" "inj_on (uuid4 X) {..<draws t}"
  shows "family_steps (families_of (committed s)) (families_of (committed t)) \<and>
    (\<forall>f. family_spent (families_of (committed s)) f \<longrightarrow> family_spent (families_of (committed t)) f)"
proof -
  have "in_step X s" using assms(1,2) by (simp add: in_step_def)
  then have "family_steps (families_of (committed s)) (families_of (committed t))"
    using auth_run_refines [OF assms(3)] assms(4) unfolding refines_def by blast
  then show ?thesis using steps_family_spent by blast
qed

text \<open>Tables whose families are in order; empty tables are.\<close>

definition families_in_order :: "auth_db \<Rightarrow> bool" where
  "families_in_order d \<longleftrightarrow> single_usable (families_of d) \<and> families_known (families_of d)"

lemma empty_in_order: "families_in_order empty_auth_db \<and> drawn X n empty_auth_db \<and> wf_db empty_auth_db"
  by (simp add: families_in_order_def single_usable_def families_known_def families_of_def drawn_def wf_empty)

text \<open>
  C5: one usable token per family. In every state the service reaches from empty tables, or from any well-formed tables in
  which this holds, two usable refresh tokens of the same family are the same row, and every token
  belongs to a family that some session of the table has.
\<close>

theorem one_usable_token_per_family:
  assumes "wf_db (committed s)" "db s = committed s" "drawn X (draws s) (committed s)" "families_in_order (committed s)"
    and "auth_run X cfg s t" "inj_on (uuid4 X) {..<draws t}"
  shows "(\<forall>x \<in> set (refresh_tokens (committed t)). \<forall>y \<in> set (refresh_tokens (committed t)).
      family_id x = family_id y \<longrightarrow> \<not> consumed x \<longrightarrow> \<not> consumed y \<longrightarrow> x = y) \<and>
    (\<forall>x \<in> set (refresh_tokens (committed t)). \<exists>v \<in> set (user_sessions (committed t)). refresh_family_id v = family_id x)"
proof -
  let ?a = "families_of (committed t)" and ?ts = "refresh_tokens (committed t)"
  have "in_step X s" using assms(2,3) by (simp add: in_step_def)
  then have steps: "family_steps (families_of (committed s)) ?a"
    using auth_run_refines [OF assms(5)] assms(6) unfolding refines_def by blast
  have "single_usable ?a" "families_known ?a"
    using steps_single_usable [OF steps] steps_families_known [OF steps] assms(4) by (simp_all add: families_in_order_def)
  note a = this [unfolded single_usable_def families_known_def, rule_format]
  have "wf_db (committed t)" using run_keeps [OF assms(5)] assms(1,2) by (simp add: idle_def)
  then have dist: "distinct (map jti ?ts)" by (simp add: wf_db_def)
  then have row: "fam_of ?a (jti x) = Some (family_id x, \<not> consumed x)" if "x \<in> set ?ts" for x
    using that by (auto simp: families_of_def token_entry_def [abs_def] comp_def intro!: map_of_is_SomeI)
  show ?thesis
  proof (intro conjI ballI impI)
    fix x y
    assume xy: "x \<in> set ?ts" "y \<in> set ?ts" "family_id x = family_id y" "\<not> consumed x" "\<not> consumed y"
    then have "jti x = jti y" using a(1) [of "jti x" "family_id x" "jti y"] row by simp
    then show "x = y" using distinct_key_eq [OF dist] xy(1,2) by blast
  next
    fix x
    assume "x \<in> set ?ts"
    then have "opened_families ?a (family_id x) \<noteq> None" using a(2) row by blast
    then show "\<exists>v \<in> set (user_sessions (committed t)). refresh_family_id v = family_id x"
      by (auto simp: families_of_def split: if_splits)
  qed
qed

end
