(* ===== verification/Refresh_Reference.thy ===== *)
theory Refresh_Reference
  imports Refresh_Refinement
begin

text \<open>
  A refresh over HTTP in the reference environment: from a node with one open family, the endpoint exchanges its
  token. The refinement and the invariant of the families are applied to this run.
\<close>

definition ref_issued_db :: auth_db where
  "ref_issued_db = empty_auth_db\<lparr>user_sessions := [issued_session ref_extern 7 (Some ''7'') None ref_node],
     refresh_tokens := [issued_token ref_extern ref_cfg 7 (Some ''7'') None ref_node]\<rparr>"

definition ref_issued_node :: "keyspace auth_node" where
  "ref_issued_node = ref_node\<lparr>draws := draws ref_node + 5, db := ref_issued_db, committed := ref_issued_db\<rparr>"

definition ref_refresh_json :: json where
  "ref_refresh_json = JDict [(''refresh_token'', JStr (issued_text ref_extern ref_cfg 7 ref_node))]"

definition ref_refresh_request :: http_request where
  "ref_refresh_request =
     \<lparr>rq_method = ''POST'', rq_path = ''/v1/tokens/refresh'', rq_scheme = ''http'', rq_client = Some ''7'',
      rq_headers = [(''x-request-id'', ''r'')], rq_cookies = [], rq_query = [], rq_body = ref_json_dumps ref_refresh_json\<rparr>"

lemma length_put_text: "length (put_text t) = Suc (2 * length t)"
  by (induction t) simp_all

lemma ref_text_long: "32 \<le> length (issued_text ref_extern ref_cfg 7 ref_node)"
  by (simp add: issued_text_def refresh_payload_def ref_jwt_encode_def length_put_text)

lemma ref_refresh_parsed:
  "request_json ref_extern ref_refresh_request s = (Inr ref_refresh_json, s)"
  "parse_refresh_request ref_refresh_json = Some (issued_text ref_extern ref_cfg 7 ref_node)"
proof -
  have "ref_json_loads (ref_json_dumps ref_refresh_json) = Some ref_refresh_json"
    unfolding ref_refresh_json_def by (rule ref_json.loads_dumps) (simp add: flat_claims_def flat_json_def)
  moreover have "ref_json_dumps ref_refresh_json \<noteq> ''''" by (simp add: ref_refresh_json_def ref_codec_defs)
  ultimately show "request_json ref_extern ref_refresh_request s = (Inr ref_refresh_json, s)"
    by (simp add: request_json_def ref_refresh_request_def)
  show "parse_refresh_request ref_refresh_json = Some (issued_text ref_extern ref_cfg 7 ref_node)"
    using ref_text_long by (simp add: parse_refresh_request_def ref_refresh_json_def model_fields_def str_field_def)
qed

lemma ref_refreshed:
  obtains t x where "auth_step ref_extern ref_cfg ref_issued_node t" "draws t = 10"
    "x \<in> set (refresh_tokens (committed t))" "\<not> consumed x" "jti x \<noteq> 3"
proof -
  let ?rq = "ref_refresh_request" and ?raw = "issued_text ref_extern ref_cfg 7 ref_node"
  obtain c where rl: "rate_limit_dependency ref_extern ref_cfg ''refresh'' (rate_limit_refresh_per_minute ref_cfg) ?rq
      ref_issued_node = (Inr (), ref_issued_node\<lparr>redis := c\<rparr>)"
    by (rule ref_rate_limit [of ref_issued_node "rate_limit_refresh_per_minute ref_cfg" ref_cfg "''refresh''" ?rq])
       (simp_all add: ref_cfg_def ref_issued_node_def)
  let ?s = "ref_node\<lparr>redis := c, committed := ref_issued_db\<rparr>"
  have same: "issued_text ref_extern ref_cfg 7 ?s = ?raw"
    "issued_session ref_extern 7 (Some ''7'') None ?s = issued_session ref_extern 7 (Some ''7'') None ref_node"
    "issued_token ref_extern ref_cfg 7 (Some ''7'') None ?s = issued_token ref_extern ref_cfg 7 (Some ''7'') None ref_node"
    by (simp_all add: issued_text_def issued_session_def issued_token_def)
  let ?d = "\<lambda>new e. (rotated_db 1000 (issued_token ref_extern ref_cfg 7 (Some ''7'') None ref_node) new ref_issued_db)
      \<lparr>audit_events := [e]\<rparr>"
  obtain new e p where new: "\<not> consumed new" "jti new = 6"
    and run: "service_refresh_tokens ref_extern ref_cfg ?raw (Some ''7'') None (ref_issued_node\<lparr>redis := c\<rparr>) =
      (Inr p, ref_issued_node\<lparr>redis := c, draws := 10, db := ?d new e, committed := ?d new e\<rparr>)"
  proof (rule issue_then_refresh [OF ref_jwt_ready, of "Some ''7''" None ?s 1000 7])
    show "ids_unused ref_extern (db ?s) (draws ?s) 11" using ref_ids_unused by simp
    show "1000 < clock ?s + jwt_refresh_ttl_seconds ref_cfg" by (simp add: ref_cfg_def)
    fix s1 :: "keyspace auth_node" and e :: audit_event
    let ?t = "s1\<lparr>clock := 1000\<rparr>" and ?tok = "issued_token ref_extern ref_cfg 7 (Some ''7'') None ?s"
    let ?new = "successor ref_extern ref_cfg ?tok (uuid4 ref_extern (draws ?s + 1)) (Some ''7'') None ?t"
    assume s1: "s1 = ?s\<lparr>draws := draws ?s + 5,
        db := (db ?s)\<lparr>user_sessions := user_sessions (db ?s) @ [issued_session ref_extern 7 (Some ''7'') None ?s],
          refresh_tokens := refresh_tokens (db ?s) @ [?tok]\<rparr>\<rparr>"
    note s1 = s1 [unfolded same]
    then have d: "db s1 = ref_issued_db" and n: "draws s1 = 6" by (simp_all add: ref_issued_db_def)
    have t: "?t = ref_issued_node\<lparr>redis := c\<rparr>"
      by (rule auth_node.equality) (simp_all add: s1 ref_issued_node_def ref_issued_db_def)
    assume "service_refresh_tokens ref_extern ref_cfg (issued_text ref_extern ref_cfg 7 ?s) (Some ''7'') None ?t =
      (Inr (rotated_pair ref_extern ref_cfg ?tok (uuid4 ref_extern (draws ?s + 1)) ?t),
       s1\<lparr>clock := 1000, draws := draws ?s + 9, db := (rotated_db 1000 ?tok ?new (db s1))\<lparr>audit_events := audit_events (db ?s) @ [e]\<rparr>,
         committed := (rotated_db 1000 ?tok ?new (db s1))\<lparr>audit_events := audit_events (db ?s) @ [e]\<rparr>\<rparr>)"
    then have run: "service_refresh_tokens ref_extern ref_cfg ?raw (Some ''7'') None (ref_issued_node\<lparr>redis := c\<rparr>) =
      (Inr (rotated_pair ref_extern ref_cfg ?tok (uuid4 ref_extern (draws ?s + 1)) ?t),
       ref_issued_node\<lparr>redis := c, draws := 10, db := ?d ?new e, committed := ?d ?new e\<rparr>)"
      unfolding same t [symmetric] d by simp
    show thesis by (rule that [OF _ _ run]) (simp_all add: successor_def consumed_def n)
  qed (simp_all add: client_fits_def opt_fits_def fits_def)
  have id: "request_id_from_header ref_extern (header_get ?rq ''x-request-id'') ref_issued_node = (Inr ''r'', ref_issued_node)"
    by (simp add: request_id_from_header_def header_get_def ref_refresh_request_def Let_def strip_def strip_of_def
        lstrip_of_def rstrip_of_def py_isspace_def MAX_REQUEST_ID_LENGTH_def)
  have ip: "get_client_ip ref_extern ?rq (trusted_proxy_ips ref_cfg) = ''7''"
    by (simp add: get_client_ip_def client_host_of_def header_get_def ref_refresh_request_def Let_def)
  have agent: "agent_of ?rq = None" by (simp add: agent_of_def header_get_def ref_refresh_request_def)
  have route: "dispatch (auth_routes ref_extern ref_cfg) ?rq = refresh_tokens_endpoint ref_extern ref_cfg ?rq"
    by (simp add: dispatch_def auth_routes_def ref_refresh_request_def)
  have idle: "ref_issued_node\<lparr>db := committed ref_issued_node\<rparr> = ref_issued_node" by (simp add: ref_issued_node_def)
  obtain r t where t: "auth_app ref_extern ref_cfg ?rq ref_issued_node = (r, t)" by fastforce
  then have t': "t = ref_issued_node\<lparr>redis := c, draws := 10, db := ?d new e, committed := ?d new e\<rparr>"
    by (simp add: auth_app_def with_session_def route idle refresh_tokens_endpoint_def ref_refresh_parsed rl validated_def
        client_of_def ip agent run split: prod.splits)
  have "auth_step ref_extern ref_cfg ref_issued_node t"
    by (rule auth_step.request [of _ _ ?rq]) (simp add: serve_auth_def serve_def id t)
  then show thesis
    by (rule that [of _ new]) (use new in \<open>simp_all add: t' rotated_db_def\<close>)
qed

text \<open>The whole run, from empty tables: the clock goes on, and the draws so far are distinct.\<close>

lemma ref_issued_drawn: "drawn ref_extern (draws ref_issued_node) (committed ref_issued_node)"
  by (auto simp: drawn_def ref_issued_node_def ref_issued_db_def issued_session_def issued_token_def intro!: image_eqI [of _ _ 1])

lemma dom_families: "dom (fam_of (families_of d)) = jti ` set (refresh_tokens d)"
  by (simp add: families_of_def dom_map_of_conv_image_fst image_image)

theorem runs_refine_token_families_witness:
  "\<exists>t. auth_run ref_extern ref_cfg ref_issued_node t \<and>
     family_steps (families_of ref_issued_db) (families_of (committed t)) \<and> families_of (committed t) \<noteq> families_of ref_issued_db"
proof -
  obtain t x where t: "auth_step ref_extern ref_cfg ref_issued_node t" "draws t = 10"
    and x: "x \<in> set (refresh_tokens (committed t))" "\<not> consumed x" "jti x \<noteq> 3"
    by (rule ref_refreshed)
  then have run: "auth_run ref_extern ref_cfg ref_issued_node t" by simp
  have idle: "db ref_issued_node = committed ref_issued_node" by (simp add: ref_issued_node_def)
  have inj: "inj_on (uuid4 ref_extern) {..<draws t}" using t(2) ref_uuid_inj [of 10 0] by (simp add: atLeast0LessThan)
  have "jti x \<in> dom (fam_of (families_of (committed t)))"
    using x(1) by (simp add: dom_families)
  moreover have "jti x \<notin> dom (fam_of (families_of ref_issued_db))"
    using x(3) by (simp add: dom_families ref_issued_db_def issued_token_def)
  ultimately have "families_of (committed t) \<noteq> families_of ref_issued_db" by metis
  moreover have "committed ref_issued_node = ref_issued_db" by (simp add: ref_issued_node_def)
  ultimately show ?thesis
    using runs_refine_token_families [OF idle ref_issued_drawn run inj] run by auto
qed

lemma ref_issued_in_order: "families_in_order ref_issued_db" "wf_db ref_issued_db"
  by (auto simp: families_in_order_def single_usable_def families_known_def families_of_def ref_issued_db_def
      issued_session_def issued_token_def wf_db_def empty_auth_db_def token_entry_def split: if_splits)

theorem one_usable_token_per_family_witness:
  "\<exists>t x. auth_run ref_extern ref_cfg ref_issued_node t \<and> x \<in> set (refresh_tokens (committed t)) \<and> \<not> consumed x \<and>
     (\<exists>v \<in> set (user_sessions (committed t)). refresh_family_id v = family_id x)"
proof -
  obtain t x where t: "auth_step ref_extern ref_cfg ref_issued_node t" "draws t = 10"
    and x: "x \<in> set (refresh_tokens (committed t))" "\<not> consumed x"
    by (rule ref_refreshed)
  then have run: "auth_run ref_extern ref_cfg ref_issued_node t" by simp
  have start: "wf_db (committed ref_issued_node)" "db ref_issued_node = committed ref_issued_node"
    "families_in_order (committed ref_issued_node)"
    using ref_issued_in_order by (simp_all add: ref_issued_node_def)
  have inj: "inj_on (uuid4 ref_extern) {..<draws t}" using t(2) ref_uuid_inj [of 10 0] by (simp add: atLeast0LessThan)
  show ?thesis
    using one_usable_token_per_family [OF start(1,2) ref_issued_drawn start(3) run inj] run x by blast
qed

end
