(* ===== verification/User_State.thy ===== *)
theory User_State
  imports Auth_State Http_Schema "HOL-Library.Char_ord" "HOL-Library.List_Lexorder"
begin

text \<open>
  The state of the user-service: its tables (\<open>models/\<close> with the constraints of \<open>migrations/\<close>, foreign keys
  included), the database session, and the repositories (\<open>repositories/\<close>) as programs over it. Beside the
  working copy and the committed tables the session has a flag \<open>unflushed\<close>, true
  while \<open>session.new\<close> or \<open>session.dirty\<close> is not empty: the code decides on it whether to commit.
\<close>

section \<open>Tables\<close>

record app_user =
  au_id :: uuid
  external_subject :: string
  au_email :: "string option"
  au_is_active :: bool
  au_created_at :: int

record user_profile =
  up_id :: uuid
  up_user_id :: uuid
  display_name :: "string option"
  up_locale :: string
  up_timezone :: string
  avatar_url :: "string option"

record role =
  ro_id :: uuid
  ro_name :: string
  ro_description :: "string option"

record permission =
  pe_id :: uuid
  pe_name :: string
  pe_description :: "string option"

record role_permission =
  rp_id :: uuid
  rp_role_id :: uuid
  rp_permission_id :: uuid

record user_role =
  ur_id :: uuid
  ur_user_id :: uuid
  ur_role_id :: uuid

record user_db =
  app_users :: "app_user list"
  user_profiles :: "user_profile list"
  roles :: "role list"
  permissions :: "permission list"
  role_permissions :: "role_permission list"
  user_roles :: "user_role list"
  user_audit_events :: "audit_event list"

definition empty_user_db :: user_db where
  "empty_user_db =
     \<lparr>app_users = [], user_profiles = [], roles = [], permissions = [], role_permissions = [],
      user_roles = [], user_audit_events = []\<rparr>"

section \<open>The database session\<close>

record 'r user_node = "'r node" +
  udb :: user_db
  ucommitted :: user_db
  unflushed :: bool

type_synonym ('r, 'a) uprog = "('r user_node, exn, 'a) prog"

definition uselect :: "(user_db \<Rightarrow> 'a) \<Rightarrow> ('r, 'a) uprog" where
  "uselect f = reads (\<lambda>s. f (udb s))"

text \<open>
  \<open>session.add\<close> (or an attribute assignment) and then \<open>flush\<close>: the row is pending until the flush
  writes it, which the database may refuse.
\<close>

definition add_and_flush :: "bool \<Rightarrow> bool \<Rightarrow> (user_db \<Rightarrow> user_db) \<Rightarrow> ('r, unit) uprog" where
  "add_and_flush width_ok keys_ok f =
     thenE (modify (\<lambda>s. s\<lparr>unflushed := True\<rparr>))
       (if \<not> width_ok then raise DataError
        else if \<not> keys_ok then raise IntegrityError
        else modify (\<lambda>s. s\<lparr>udb := f (udb s), unflushed := False\<rparr>))"

definition execute :: "(user_db \<Rightarrow> user_db) \<Rightarrow> ('r, unit) uprog" where
  "execute f = modify (\<lambda>s. s\<lparr>udb := f (udb s)\<rparr>)"

definition ucommit :: "('r, unit) uprog" where
  "ucommit = modify (\<lambda>s. s\<lparr>ucommitted := udb s, unflushed := False\<rparr>)"

definition session_new_or_dirty :: "('r, bool) uprog" where
  "session_new_or_dirty = reads unflushed"

definition with_usession :: "('r, 'a) uprog \<Rightarrow> ('r, 'a) uprog" where
  "with_usession p = (\<lambda>s.
     let (r, s') = p (s\<lparr>udb := ucommitted s, unflushed := False\<rparr>)
     in (r, s'\<lparr>udb := ucommitted s', unflushed := False\<rparr>))"

section \<open>UserRepository and ProfileRepository\<close>

definition app_user_get_by_id :: "uuid \<Rightarrow> ('r, app_user option) uprog" where
  "app_user_get_by_id uid =
     bindE (uselect (\<lambda>d. filter (\<lambda>u. au_id u = uid) (app_users d))) scalar_one_or_none"

definition get_by_subject :: "string \<Rightarrow> ('r, app_user option) uprog" where
  "get_by_subject subject =
     bindE (uselect (\<lambda>d. filter (\<lambda>u. external_subject u = subject) (app_users d))) scalar_one_or_none"

definition app_user_create :: "'r extern \<Rightarrow> uuid \<Rightarrow> string \<Rightarrow> ('r, app_user) uprog" where
  "app_user_create X user_id subject =
     bindE (draw (uuid4 X)) (\<lambda>pid.
     bindE time_now (\<lambda>now.
     bindE (uselect (\<lambda>d. d)) (\<lambda>d0.
       let u = \<lparr>au_id = user_id, external_subject = subject, au_email = None, au_is_active = True,
                au_created_at = now\<rparr>;
           p = \<lparr>up_id = pid, up_user_id = user_id, display_name = None, up_locale = ''en-US'',
                up_timezone = ''UTC'', avatar_url = None\<rparr>
       in thenE (add_and_flush (fits 64 subject)
                   (user_id \<notin> au_id ` set (app_users d0) \<and> subject \<notin> external_subject ` set (app_users d0) \<and>
                    pid \<notin> up_id ` set (user_profiles d0) \<and> user_id \<notin> up_user_id ` set (user_profiles d0))
                   (\<lambda>d. d\<lparr>app_users := app_users d @ [u], user_profiles := user_profiles d @ [p]\<rparr>))
            (ret u))))"

definition get_by_user_id :: "uuid \<Rightarrow> ('r, user_profile option) uprog" where
  "get_by_user_id uid =
     bindE (uselect (\<lambda>d. filter (\<lambda>p. up_user_id p = uid) (user_profiles d))) scalar_one_or_none"

definition set_profile ::
  "string option \<Rightarrow> string \<Rightarrow> string \<Rightarrow> string option \<Rightarrow> user_profile \<Rightarrow> user_profile" where
  "set_profile name loc tz avatar p =
     p\<lparr>display_name := name, up_locale := loc, up_timezone := tz, avatar_url := avatar\<rparr>"

definition profile_update ::
  "user_profile \<Rightarrow> string option \<Rightarrow> string \<Rightarrow> string \<Rightarrow> string option \<Rightarrow> ('r, user_profile) uprog" where
  "profile_update profile name loc tz avatar =
     thenE (add_and_flush (opt_fits 100 name \<and> fits 16 loc \<and> fits 64 tz \<and> opt_fits 512 avatar) True
              (\<lambda>d. d\<lparr>user_profiles :=
                 update_where (\<lambda>p. up_id p = up_id profile) (set_profile name loc tz avatar) (user_profiles d)\<rparr>))
       (ret (set_profile name loc tz avatar profile))"

section \<open>RBACRepository\<close>

definition get_role_by_name :: "string \<Rightarrow> ('r, role option) uprog" where
  "get_role_by_name role_name =
     bindE (uselect (\<lambda>d. filter (\<lambda>r. ro_name r = role_name) (roles d))) scalar_one_or_none"

definition get_permission_by_name :: "string \<Rightarrow> ('r, permission option) uprog" where
  "get_permission_by_name permission_name =
     bindE (uselect (\<lambda>d. filter (\<lambda>p. pe_name p = permission_name) (permissions d))) scalar_one_or_none"

definition create_role :: "'r extern \<Rightarrow> string \<Rightarrow> string option \<Rightarrow> ('r, role) uprog" where
  "create_role X name description =
     bindE (draw (uuid4 X)) (\<lambda>rid.
     bindE (uselect roles) (\<lambda>rows.
       let r = \<lparr>ro_id = rid, ro_name = name, ro_description = description\<rparr>
       in thenE (add_and_flush (fits 64 name \<and> opt_fits 255 description)
                   (rid \<notin> ro_id ` set rows \<and> name \<notin> ro_name ` set rows)
                   (\<lambda>d. d\<lparr>roles := roles d @ [r]\<rparr>))
            (ret r)))"

definition create_permission :: "'r extern \<Rightarrow> string \<Rightarrow> string option \<Rightarrow> ('r, permission) uprog" where
  "create_permission X name description =
     bindE (draw (uuid4 X)) (\<lambda>pid.
     bindE (uselect permissions) (\<lambda>rows.
       let p = \<lparr>pe_id = pid, pe_name = name, pe_description = description\<rparr>
       in thenE (add_and_flush (fits 128 name \<and> opt_fits 255 description)
                   (pid \<notin> pe_id ` set rows \<and> name \<notin> pe_name ` set rows)
                   (\<lambda>d. d\<lparr>permissions := permissions d @ [p]\<rparr>))
            (ret p)))"

definition ensure_role_permission :: "'r extern \<Rightarrow> uuid \<Rightarrow> uuid \<Rightarrow> ('r, unit) uprog" where
  "ensure_role_permission X role_id permission_id =
     bindE (uselect (\<lambda>d. filter (\<lambda>x. rp_role_id x = role_id \<and> rp_permission_id x = permission_id)
                            (role_permissions d))) (\<lambda>rows.
     bindE (scalar_one_or_none rows) (\<lambda>existing.
       if existing \<noteq> None then ret ()
       else
         bindE (draw (uuid4 X)) (\<lambda>xid.
         bindE (uselect (\<lambda>d. d)) (\<lambda>d0.
           add_and_flush True
             (xid \<notin> rp_id ` set (role_permissions d0) \<and> role_id \<in> ro_id ` set (roles d0) \<and>
              permission_id \<in> pe_id ` set (permissions d0))
             (\<lambda>d. d\<lparr>role_permissions := role_permissions d @
                [\<lparr>rp_id = xid, rp_role_id = role_id, rp_permission_id = permission_id\<rparr>]\<rparr>)))))"

definition assign_role_to_user :: "'r extern \<Rightarrow> uuid \<Rightarrow> uuid \<Rightarrow> ('r, unit) uprog" where
  "assign_role_to_user X user_id role_id =
     bindE (uselect (\<lambda>d. filter (\<lambda>x. ur_user_id x = user_id \<and> ur_role_id x = role_id) (user_roles d))) (\<lambda>rows.
     bindE (scalar_one_or_none rows) (\<lambda>existing.
       if existing \<noteq> None then ret ()
       else
         bindE (draw (uuid4 X)) (\<lambda>xid.
         bindE (uselect (\<lambda>d. d)) (\<lambda>d0.
           add_and_flush True
             (xid \<notin> ur_id ` set (user_roles d0) \<and>
              (user_id, role_id) \<notin> (\<lambda>x. (ur_user_id x, ur_role_id x)) ` set (user_roles d0) \<and>
              user_id \<in> au_id ` set (app_users d0) \<and>
              role_id \<in> ro_id ` set (roles d0))
             (\<lambda>d. d\<lparr>user_roles := user_roles d @
                [\<lparr>ur_id = xid, ur_user_id = user_id, ur_role_id = role_id\<rparr>]\<rparr>)))))"

text \<open>
  The joins, in the order of the tables; \<open>ORDER BY\<close> a name is by code points, the order of
  PostgreSQL's C collation.
\<close>

definition roles_of :: "uuid \<Rightarrow> user_db \<Rightarrow> role list" where
  "roles_of uid d =
     concat (map (\<lambda>r. map (\<lambda>_. r) (filter (\<lambda>x. ur_role_id x = ro_id r \<and> ur_user_id x = uid) (user_roles d)))
       (roles d))"

definition list_roles_for_user :: "uuid \<Rightarrow> ('r, role list) uprog" where
  "list_roles_for_user uid = uselect (\<lambda>d. sort_key ro_name (roles_of uid d))"

text \<open>A row of the four-way join: a permission granted to a role that the user has.\<close>

definition grants :: "user_db \<Rightarrow> uuid \<Rightarrow> permission \<Rightarrow> bool" where
  "grants d uid p \<longleftrightarrow>
     list_ex (\<lambda>rp. rp_permission_id rp = pe_id p \<and>
       list_ex (\<lambda>r. ro_id r = rp_role_id rp \<and>
         list_ex (\<lambda>x. ur_role_id x = ro_id r \<and> ur_user_id x = uid) (user_roles d)) (roles d)) (role_permissions d)"

definition permission_names_of :: "uuid \<Rightarrow> user_db \<Rightarrow> string list" where
  "permission_names_of uid d = sort (remdups (map pe_name (filter (grants d uid) (permissions d))))"

definition list_permission_names_for_user :: "uuid \<Rightarrow> ('r, string list) uprog" where
  "list_permission_names_for_user uid = uselect (permission_names_of uid)"

definition clear_user_roles :: "uuid \<Rightarrow> ('r, unit) uprog" where
  "clear_user_roles uid =
     execute (\<lambda>d. d\<lparr>user_roles := filter (\<lambda>x. ur_user_id x \<noteq> uid) (user_roles d)\<rparr>)"

section \<open>AuditRepository\<close>

definition user_audit_create ::
  "'r extern \<Rightarrow> string \<Rightarrow> string \<Rightarrow> uuid option \<Rightarrow> uuid option \<Rightarrow> string option \<Rightarrow> string option \<Rightarrow>
   (string \<times> json) list \<Rightarrow> ('r, unit) uprog" where
  "user_audit_create X ev outc actor target ip ua pl =
     bindE (draw (uuid4 X)) (\<lambda>aid.
     bindE time_now (\<lambda>now.
     bindE (uselect user_audit_events) (\<lambda>rows.
       add_and_flush (fits 128 ev \<and> fits 16 outc \<and> client_fits ip ua) (aid \<notin> ae_id ` set rows)
         (\<lambda>d. d\<lparr>user_audit_events := user_audit_events d @
            [\<lparr>ae_id = aid, event_type = ev, outcome = outc, actor_user_id = actor, target_user_id = target,
              ae_ip_address = ip, ae_user_agent = ua, payload = pl, ae_created_at = now\<rparr>]\<rparr>))))"

section \<open>Execution\<close>

lemma user_node_update_order [simp]:
  fixes s :: "'r user_node"
  shows "clock_update c (draws_update n s) = draws_update n (clock_update c s)"
    "clock_update c (redis_update r s) = redis_update r (clock_update c s)"
    "clock_update c (udb_update d s) = udb_update d (clock_update c s)"
    "clock_update c (ucommitted_update e s) = ucommitted_update e (clock_update c s)"
    "clock_update c (unflushed_update b s) = unflushed_update b (clock_update c s)"
    "draws_update n (redis_update r s) = redis_update r (draws_update n s)"
    "draws_update n (udb_update d s) = udb_update d (draws_update n s)"
    "draws_update n (ucommitted_update e s) = ucommitted_update e (draws_update n s)"
    "draws_update n (unflushed_update b s) = unflushed_update b (draws_update n s)"
    "redis_update r (udb_update d s) = udb_update d (redis_update r s)"
    "redis_update r (ucommitted_update e s) = ucommitted_update e (redis_update r s)"
    "redis_update r (unflushed_update b s) = unflushed_update b (redis_update r s)"
    "udb_update d (ucommitted_update e s) = ucommitted_update e (udb_update d s)"
    "udb_update d (unflushed_update b s) = unflushed_update b (udb_update d s)"
    "ucommitted_update e (unflushed_update b s) = unflushed_update b (ucommitted_update e s)"
  by (cases s; simp)+

lemma run_uselect [simp]: "uselect f s = (Inr (f (udb s)), s)"
  by (simp add: uselect_def)

lemma run_execute [simp]: "execute f s = (Inr (), s\<lparr>udb := f (udb s)\<rparr>)"
  by (simp add: execute_def)

lemma run_add_and_flush:
  "add_and_flush w k f s =
     (if \<not> w then (Inl DataError, s\<lparr>unflushed := True\<rparr>)
      else if \<not> k then (Inl IntegrityError, s\<lparr>unflushed := True\<rparr>)
      else (Inr (), s\<lparr>udb := f (udb s), unflushed := False\<rparr>))"
  by (simp add: add_and_flush_def)

lemma run_ucommit [simp]: "ucommit s = (Inr (), s\<lparr>ucommitted := udb s, unflushed := False\<rparr>)"
  by (simp add: ucommit_def)

lemma run_session_new_or_dirty [simp]: "session_new_or_dirty s = (Inr (unflushed s), s)"
  by (simp add: session_new_or_dirty_def)

lemma set_roles_of: "set (roles_of uid d) = {r \<in> set (roles d). \<exists>x \<in> set (user_roles d). ur_role_id x = ro_id r \<and> ur_user_id x = uid}"
  by (auto simp: roles_of_def)

lemma grants_iff:
  "grants d uid p \<longleftrightarrow> (\<exists>rp \<in> set (role_permissions d). rp_permission_id rp = pe_id p \<and>
     (\<exists>r \<in> set (roles d). ro_id r = rp_role_id rp \<and> (\<exists>x \<in> set (user_roles d). ur_role_id x = ro_id r \<and> ur_user_id x = uid)))"
  by (simp add: grants_def list_ex_iff Bex_def)

lemma set_permission_names_of: "set (permission_names_of uid d) = pe_name ` {p \<in> set (permissions d). grants d uid p}"
  by (auto simp: permission_names_of_def)

end
