(* ===== verification/User_Service.thy ===== *)
theory User_Service
  imports User_State
begin

text \<open>
  The user-service above its repositories: \<open>services/audit_service.py\<close>, \<open>services/rbac_service.py\<close>,
  \<open>services/user_service.py\<close>, the authenticated context of \<open>api/deps.py\<close>, the endpoints of \<open>api/v1/\<close> with
  their schemas, the seeding at start-up (\<open>lifecycle.py\<close>) and the routes.
\<close>

section \<open>Constants\<close>

definition ROLE_USER :: string where "ROLE_USER = ''user''"
definition ROLE_ADMIN :: string where "ROLE_ADMIN = ''admin''"
definition PERMISSION_PROFILE_READ_SELF :: string where "PERMISSION_PROFILE_READ_SELF = ''profile:read:self''"
definition PERMISSION_PROFILE_WRITE_SELF :: string where "PERMISSION_PROFILE_WRITE_SELF = ''profile:write:self''"
definition PERMISSION_USERS_READ :: string where "PERMISSION_USERS_READ = ''users:read''"
definition PERMISSION_USERS_WRITE :: string where "PERMISSION_USERS_WRITE = ''users:write''"
definition PERMISSION_ROLES_ASSIGN :: string where "PERMISSION_ROLES_ASSIGN = ''roles:assign''"
definition AUDIT_PROFILE_UPDATED :: string where "AUDIT_PROFILE_UPDATED = ''user.profile.updated''"
definition AUDIT_ROLE_ASSIGNED :: string where "AUDIT_ROLE_ASSIGNED = ''user.role.assigned''"
definition AUDIT_USER_BOOTSTRAPPED :: string where "AUDIT_USER_BOOTSTRAPPED = ''user.bootstrap''"

lemmas rbac_constants =
  ROLE_USER_def ROLE_ADMIN_def PERMISSION_PROFILE_READ_SELF_def PERMISSION_PROFILE_WRITE_SELF_def
  PERMISSION_USERS_READ_def PERMISSION_USERS_WRITE_def PERMISSION_ROLES_ASSIGN_def

lemmas user_audit_constants = AUDIT_PROFILE_UPDATED_def AUDIT_ROLE_ASSIGNED_def AUDIT_USER_BOOTSTRAPPED_def

section \<open>AuditService\<close>

definition USER_SENSITIVE_FIELDS :: "string list" where
  "USER_SENSITIVE_FIELDS = [''password'', ''token'', ''access_token'', ''refresh_token'', ''secret'']"

definition user_sanitize_payload :: "(string \<times> json) list option \<Rightarrow> (string \<times> json) list" where
  "user_sanitize_payload p =
     filter (\<lambda>(k, _). lower k \<notin> set USER_SENSITIVE_FIELDS) (case p of None \<Rightarrow> [] | Some kvs \<Rightarrow> kvs)"

definition user_log_event ::
  "'r extern \<Rightarrow> string \<Rightarrow> string \<Rightarrow> uuid option \<Rightarrow> uuid option \<Rightarrow> string option \<Rightarrow> string option \<Rightarrow>
   (string \<times> json) list option \<Rightarrow> ('r, unit) uprog" where
  "user_log_event X ev outc actor target ip ua pl =
     user_audit_create X ev outc actor target ip ua (user_sanitize_payload pl)"

section \<open>RBACService\<close>

definition get_or_create_role :: "'r extern \<Rightarrow> string \<Rightarrow> string \<Rightarrow> ('r, role) uprog" where
  "get_or_create_role X role_name description =
     bindE (get_role_by_name role_name) (\<lambda>found.
       case found of Some r \<Rightarrow> ret r | None \<Rightarrow> create_role X role_name (Some description))"

definition get_or_create_permission :: "'r extern \<Rightarrow> string \<Rightarrow> string \<Rightarrow> ('r, permission) uprog" where
  "get_or_create_permission X permission_name description =
     bindE (get_permission_by_name permission_name) (\<lambda>found.
       case found of Some p \<Rightarrow> ret p | None \<Rightarrow> create_permission X permission_name (Some description))"

definition ensure_seed_data :: "'r extern \<Rightarrow> ('r, unit) uprog" where
  "ensure_seed_data X =
     bindE (get_or_create_role X ROLE_USER ''Default user role'') (\<lambda>user_role.
     bindE (get_or_create_role X ROLE_ADMIN ''Administrative role'') (\<lambda>admin_role.
     bindE (get_or_create_permission X PERMISSION_PROFILE_READ_SELF ''Read own profile'') (\<lambda>p_profile_read.
     bindE (get_or_create_permission X PERMISSION_PROFILE_WRITE_SELF ''Update own profile'') (\<lambda>p_profile_write.
     bindE (get_or_create_permission X PERMISSION_USERS_READ ''Read user entities'') (\<lambda>p_users_read.
     bindE (get_or_create_permission X PERMISSION_USERS_WRITE ''Update user entities'') (\<lambda>p_users_write.
     bindE (get_or_create_permission X PERMISSION_ROLES_ASSIGN ''Assign roles to users'') (\<lambda>p_roles_assign.
     thenE (ensure_role_permission X (ro_id user_role) (pe_id p_profile_read))
    (thenE (ensure_role_permission X (ro_id user_role) (pe_id p_profile_write))
       (forE [p_profile_read, p_profile_write, p_users_read, p_users_write, p_roles_assign] (\<lambda>p.
          ensure_role_permission X (ro_id admin_role) (pe_id p)))))))))))"

definition ensure_default_user_role :: "'r extern \<Rightarrow> uuid \<Rightarrow> ('r, unit) uprog" where
  "ensure_default_user_role X user_id =
     bindE (get_role_by_name ROLE_USER) (\<lambda>found.
       case found of
         None \<Rightarrow> raise (RuntimeError ''RBAC seed is not initialized'')
       | Some r \<Rightarrow> assign_role_to_user X user_id (ro_id r))"

definition assign_role_by_name :: "'r extern \<Rightarrow> uuid \<Rightarrow> string \<Rightarrow> ('r, unit) uprog" where
  "assign_role_by_name X user_id role_name =
     bindE (get_role_by_name role_name) (\<lambda>found.
       case found of
         None \<Rightarrow> raise (BadRequestException ''Unknown role'')
       | Some r \<Rightarrow> assign_role_to_user X user_id (ro_id r))"

definition list_role_names_for_user :: "uuid \<Rightarrow> ('r, string list) uprog" where
  "list_role_names_for_user uid = bindE (list_roles_for_user uid) (\<lambda>rs. ret (map ro_name rs))"

section \<open>UserService\<close>

record user_context =
  cx_user :: app_user
  cx_profile :: user_profile
  cx_roles :: "string list"
  cx_permissions :: "string set"

definition bootstrap_from_subject ::
  "'r extern \<Rightarrow> uuid \<Rightarrow> string option \<Rightarrow> string option \<Rightarrow> ('r, app_user) uprog" where
  "bootstrap_from_subject X subject ip ua =
     bindE (get_by_subject (str_uuid subject)) (\<lambda>existing.
       case existing of
         Some u \<Rightarrow> ret u
       | None \<Rightarrow>
           bindE (app_user_create X subject (str_uuid subject)) (\<lambda>u.
           thenE (ensure_default_user_role X (au_id u))
          (thenE (user_log_event X AUDIT_USER_BOOTSTRAPPED ''success'' (Some (au_id u)) (Some (au_id u)) ip ua None)
             (ret u))))"

definition context_for_subject ::
  "'r extern \<Rightarrow> uuid \<Rightarrow> string option \<Rightarrow> string option \<Rightarrow> ('r, user_context) uprog" where
  "context_for_subject X subject ip ua =
     bindE (bootstrap_from_subject X subject ip ua) (\<lambda>u.
     bindE (get_by_user_id (au_id u)) (\<lambda>found.
       case found of
         None \<Rightarrow> raise (NotFoundException ''User profile not found'')
       | Some p \<Rightarrow>
           bindE (list_role_names_for_user (au_id u)) (\<lambda>rs.
           bindE (list_permission_names_for_user (au_id u)) (\<lambda>ps.
             ret \<lparr>cx_user = u, cx_profile = p, cx_roles = rs, cx_permissions = set ps\<rparr>))))"

definition get_user_by_id :: "uuid \<Rightarrow> ('r, app_user) uprog" where
  "get_user_by_id uid =
     bindE (app_user_get_by_id uid) (\<lambda>found.
       case found of None \<Rightarrow> raise (NotFoundException ''User not found'') | Some u \<Rightarrow> ret u)"

definition update_own_profile ::
  "'r extern \<Rightarrow> uuid \<Rightarrow> uuid \<Rightarrow> string option \<Rightarrow> string \<Rightarrow> string \<Rightarrow> string option \<Rightarrow> string option \<Rightarrow> string option \<Rightarrow>
   ('r, user_profile) uprog" where
  "update_own_profile X user_id actor name loc tz avatar ip ua =
     bindE (get_by_user_id user_id) (\<lambda>found.
       case found of
         None \<Rightarrow> raise (NotFoundException ''User profile not found'')
       | Some p \<Rightarrow>
           bindE (profile_update p name loc tz avatar) (\<lambda>updated.
           thenE (user_log_event X AUDIT_PROFILE_UPDATED ''success'' (Some actor) (Some user_id) ip ua
                    (Some [(''locale'', JStr loc), (''timezone'', JStr tz), (''has_avatar'', JBool (\<not> falsy avatar))]))
             (ret updated)))"

section \<open>The authenticated context\<close>

definition ensure_permission :: "string set \<Rightarrow> string \<Rightarrow> ('r, unit) uprog" where
  "ensure_permission ps required =
     (if required \<notin> ps then raise (ForbiddenException ''Insufficient permissions'') else ret ())"

definition get_current_context ::
  "'r extern \<Rightarrow> user_settings \<Rightarrow> http_request \<Rightarrow> ('r, user_context) uprog" where
  "get_current_context X cfg rq =
     bindE (extract_bearer_token rq) (\<lambda>token.
     bindE (decode_access_token X cfg token) (\<lambda>claims.
     thenE (ensure_access_session_active X (at_sid claims))
    (bindE (context_for_subject X (at_sub claims) (client_of X cfg rq) (agent_of rq)) (\<lambda>context.
       if \<not> au_is_active (cx_user context) then raise (UnauthorizedException ''Inactive user'')
       else
         bindE session_new_or_dirty (\<lambda>changed.
         thenE (whenE changed ucommit) (ret context))))))"

section \<open>Schemas and responses\<close>

definition def_str_field :: "(string \<times> json) list \<Rightarrow> string \<Rightarrow> string \<Rightarrow> nat \<Rightarrow> nat \<Rightarrow> string option" where
  "def_str_field d k dflt lo hi =
     (case map_of d k of None \<Rightarrow> Some dflt | Some (JStr s) \<Rightarrow> bounded lo hi (strip s) | _ \<Rightarrow> None)"

definition parse_update_profile ::
  "json \<Rightarrow> (string option \<times> string \<times> string \<times> string option) option" where
  "parse_update_profile j =
     Option.bind (model_fields [''display_name'', ''locale'', ''timezone'', ''avatar_url''] j) (\<lambda>d.
     Option.bind (opt_str_field d ''display_name'' 1 100) (\<lambda>name.
     Option.bind (def_str_field d ''locale'' ''en-US'' 2 16) (\<lambda>loc.
     Option.bind (def_str_field d ''timezone'' ''UTC'' 2 64) (\<lambda>tz.
     Option.bind (opt_str_field d ''avatar_url'' 0 512) (\<lambda>avatar. Some (name, loc, tz, avatar))))))"

definition parse_assign_role :: "json \<Rightarrow> string option" where
  "parse_assign_role j =
     Option.bind (model_fields [''role_name''] j) (\<lambda>d.
     Option.bind (str_field strip d ''role_name'') (bounded 2 64))"

definition profile_response :: "uuid \<Rightarrow> user_profile \<Rightarrow> http_response" where
  "profile_response uid p =
     json_response 200 (JDict [(''user_id'', JStr (str_uuid uid)), (''display_name'', opt_str (display_name p)),
       (''locale'', JStr (up_locale p)), (''timezone'', JStr (up_timezone p)), (''avatar_url'', opt_str (avatar_url p))])"

definition str_list :: "string list \<Rightarrow> json" where
  "str_list xs = JList (map JStr xs)"

section \<open>Endpoints\<close>

definition me_endpoint :: "'r extern \<Rightarrow> user_settings \<Rightarrow> string \<Rightarrow> http_request \<Rightarrow> ('r, http_response) uprog" where
  "me_endpoint X cfg _ rq =
     bindE (get_current_context X cfg rq) (\<lambda>c.
       ret (json_response 200 (JDict
         [(''user_id'', JStr (str_uuid (au_id (cx_user c)))), (''external_subject'', JStr (external_subject (cx_user c))),
          (''roles'', str_list (cx_roles c)), (''permissions'', str_list (sorted_list_of_set (cx_permissions c)))])))"

definition get_user_endpoint :: "'r extern \<Rightarrow> user_settings \<Rightarrow> string \<Rightarrow> http_request \<Rightarrow> ('r, http_response) uprog" where
  "get_user_endpoint X cfg param rq =
     bindE (get_current_context X cfg rq) (\<lambda>c.
     bindE (validated (path_uuid X param)) (\<lambda>user_id.
     thenE (ensure_permission (cx_permissions c) PERMISSION_USERS_READ)
    (bindE (get_user_by_id user_id) (\<lambda>u.
       ret (json_response 200 (JDict
         [(''user_id'', JStr (str_uuid (au_id u))), (''external_subject'', JStr (external_subject u)),
          (''is_active'', JBool (au_is_active u))]))))))"

definition my_profile_endpoint :: "'r extern \<Rightarrow> user_settings \<Rightarrow> string \<Rightarrow> http_request \<Rightarrow> ('r, http_response) uprog" where
  "my_profile_endpoint X cfg _ rq =
     bindE (get_current_context X cfg rq) (\<lambda>c.
     thenE (ensure_permission (cx_permissions c) PERMISSION_PROFILE_READ_SELF)
       (ret (profile_response (au_id (cx_user c)) (cx_profile c))))"

definition update_profile_endpoint :: "'r extern \<Rightarrow> user_settings \<Rightarrow> string \<Rightarrow> http_request \<Rightarrow> ('r, http_response) uprog" where
  "update_profile_endpoint X cfg _ rq =
     bindE (request_json X rq) (\<lambda>j.
     thenE (rate_limit_dependency X cfg ''profile_write'' (rate_limit_profile_write_per_minute cfg) rq)
    (bindE (get_current_context X cfg rq) (\<lambda>c.
     bindE (validated (parse_update_profile j)) (\<lambda>(name, loc, tz, avatar).
     thenE (ensure_permission (cx_permissions c) PERMISSION_PROFILE_WRITE_SELF)
    (bindE (update_own_profile X (au_id (cx_user c)) (au_id (cx_user c)) name loc tz avatar
              (client_of X cfg rq) (agent_of rq)) (\<lambda>updated.
     thenE ucommit (ret (profile_response (up_user_id updated) updated))))))))"

definition my_roles_endpoint :: "'r extern \<Rightarrow> user_settings \<Rightarrow> string \<Rightarrow> http_request \<Rightarrow> ('r, http_response) uprog" where
  "my_roles_endpoint X cfg _ rq =
     bindE (get_current_context X cfg rq) (\<lambda>c.
       ret (json_response 200 (JDict [(''roles'', str_list (cx_roles c))])))"

definition assign_role_endpoint :: "'r extern \<Rightarrow> user_settings \<Rightarrow> string \<Rightarrow> http_request \<Rightarrow> ('r, http_response) uprog" where
  "assign_role_endpoint X cfg param rq =
     bindE (request_json X rq) (\<lambda>j.
     thenE (rate_limit_dependency X cfg ''roles_write'' (rate_limit_roles_write_per_minute cfg) rq)
    (bindE (get_current_context X cfg rq) (\<lambda>c.
     bindE (validated (path_uuid X param)) (\<lambda>user_id.
     bindE (validated (parse_assign_role j)) (\<lambda>role_name.
     thenE (ensure_permission (cx_permissions c) PERMISSION_ROLES_ASSIGN)
    (bindE (get_user_by_id user_id) (\<lambda>_.
     thenE (assign_role_by_name X user_id role_name)
    (thenE (user_log_event X AUDIT_ROLE_ASSIGNED ''success'' (Some (au_id (cx_user c))) (Some user_id)
              (client_of X cfg rq) (agent_of rq) (Some [(''role_name'', JStr role_name)]))
    (thenE ucommit
       (ret (json_response 200 (JDict [(''message'', JStr ''Role assigned'')]))))))))))))"

definition my_permissions_endpoint :: "'r extern \<Rightarrow> user_settings \<Rightarrow> string \<Rightarrow> http_request \<Rightarrow> ('r, http_response) uprog" where
  "my_permissions_endpoint X cfg _ rq =
     bindE (get_current_context X cfg rq) (\<lambda>c.
       ret (json_response 200 (JDict [(''permissions'', str_list (sorted_list_of_set (cx_permissions c)))])))"

definition user_liveness_endpoint :: "string \<Rightarrow> http_request \<Rightarrow> ('r, http_response) uprog" where
  "user_liveness_endpoint _ _ = ret (json_response 200 (JDict [(''status'', JStr ''ok'')]))"

section \<open>Routes and start-up\<close>

definition user_routes ::
  "'r extern \<Rightarrow> user_settings \<Rightarrow> (string \<times> (string \<Rightarrow> string option) \<times> (string \<Rightarrow> http_request \<Rightarrow> ('r, http_response) uprog)) list" where
  "user_routes X cfg =
     [(''GET'', exact_path ''/v1/health/live'', user_liveness_endpoint),
      (''GET'', exact_path ''/v1/users/me'', me_endpoint X cfg),
      (''GET'', path_param ''/v1/users/'', get_user_endpoint X cfg),
      (''GET'', exact_path ''/v1/profiles/me'', my_profile_endpoint X cfg),
      (''PATCH'', exact_path ''/v1/profiles/me'', update_profile_endpoint X cfg),
      (''GET'', exact_path ''/v1/roles/me'', my_roles_endpoint X cfg),
      (''POST'', path_param ''/v1/roles/users/'', assign_role_endpoint X cfg),
      (''GET'', exact_path ''/v1/permissions/me'', my_permissions_endpoint X cfg)]"

definition user_app :: "'r extern \<Rightarrow> user_settings \<Rightarrow> http_request \<Rightarrow> ('r, http_response) uprog" where
  "user_app X cfg rq = with_usession (dispatch_param (user_routes X cfg) rq)"

definition serve_user :: "'r extern \<Rightarrow> user_settings \<Rightarrow> http_request \<Rightarrow> ('r, http_response) uprog" where
  "serve_user X cfg rq = serve X service_csp (user_app X cfg) rq"

definition user_startup :: "'r extern \<Rightarrow> ('r, unit) uprog" where
  "user_startup X = with_usession (thenE (ensure_seed_data X) ucommit)"

end
