(* ===== verification/User_Rbac.thy ===== *)
theory User_Rbac
  imports User_Service
begin

text \<open>
  Roles and permissions of the user-service: what a bootstrapped user gets, what the context of a request
  holds, and the invariant of the tables. \<open>wf_udb\<close> is their well-formedness, foreign keys included;
  \<open>no_admin\<close> says that the right to assign roles belongs to the role \<open>admin\<close> only and that nobody has that role.
\<close>

section \<open>Invariants of the tables\<close>

definition wf_udb :: "user_db \<Rightarrow> bool" where
  "wf_udb d \<longleftrightarrow>
     distinct (map au_id (app_users d)) \<and> distinct (map external_subject (app_users d)) \<and>
     (\<forall>u \<in> set (app_users d). external_subject u = str_uuid (au_id u)) \<and>
     distinct (map up_id (user_profiles d)) \<and> distinct (map up_user_id (user_profiles d)) \<and>
     up_user_id ` set (user_profiles d) = au_id ` set (app_users d) \<and>
     distinct (map ro_id (roles d)) \<and> distinct (map ro_name (roles d)) \<and>
     distinct (map pe_id (permissions d)) \<and> distinct (map pe_name (permissions d)) \<and>
     distinct (map (\<lambda>x. (rp_role_id x, rp_permission_id x)) (role_permissions d)) \<and>
     (\<forall>x \<in> set (role_permissions d). rp_role_id x \<in> ro_id ` set (roles d) \<and> rp_permission_id x \<in> pe_id ` set (permissions d)) \<and>
     distinct (map (\<lambda>x. (ur_user_id x, ur_role_id x)) (user_roles d)) \<and>
     (\<forall>x \<in> set (user_roles d). ur_user_id x \<in> au_id ` set (app_users d) \<and> ur_role_id x \<in> ro_id ` set (roles d))"

definition no_admin :: "user_db \<Rightarrow> bool" where
  "no_admin d \<longleftrightarrow>
     (\<forall>x \<in> set (role_permissions d). \<forall>r \<in> set (roles d). \<forall>p \<in> set (permissions d).
        rp_role_id x = ro_id r \<and> rp_permission_id x = pe_id p \<and> pe_name p = PERMISSION_ROLES_ASSIGN \<longrightarrow> ro_name r = ROLE_ADMIN) \<and>
     (\<forall>x \<in> set (user_roles d). \<forall>r \<in> set (roles d). ur_role_id x = ro_id r \<longrightarrow> ro_name r \<noteq> ROLE_ADMIN)"

lemma wf_udbD:
  assumes "wf_udb d"
  shows "distinct (map au_id (app_users d))" "distinct (map external_subject (app_users d))"
    "distinct (map up_user_id (user_profiles d))" "distinct (map ro_id (roles d))" "distinct (map ro_name (roles d))"
    "distinct (map pe_id (permissions d))" "distinct (map pe_name (permissions d))"
    "u \<in> set (app_users d) \<Longrightarrow> external_subject u = str_uuid (au_id u)"
    "up_user_id ` set (user_profiles d) = au_id ` set (app_users d)"
  using assms by (auto simp: wf_udb_def)

lemma no_admin_permissions:
  assumes "no_admin d"
  shows "PERMISSION_ROLES_ASSIGN \<notin> set (permission_names_of uid d)"
  using assms unfolding no_admin_def set_permission_names_of grants_iff by fastforce

section \<open>Bootstrapping a user\<close>

text \<open>The rows a new subject gets, given the draws from \<open>n\<close> on.\<close>

definition new_app_user :: "int \<Rightarrow> uuid \<Rightarrow> app_user" where
  "new_app_user now sub =
     \<lparr>au_id = sub, external_subject = str_uuid sub, au_email = None, au_is_active = True, au_created_at = now\<rparr>"

definition new_profile :: "uuid \<Rightarrow> uuid \<Rightarrow> user_profile" where
  "new_profile pid sub =
     \<lparr>up_id = pid, up_user_id = sub, display_name = None, up_locale = ''en-US'', up_timezone = ''UTC'', avatar_url = None\<rparr>"

definition boot_db :: "int \<Rightarrow> uuid \<Rightarrow> uuid \<Rightarrow> user_role \<Rightarrow> audit_event \<Rightarrow> user_db \<Rightarrow> user_db" where
  "boot_db now sub pid x e d =
     d\<lparr>app_users := app_users d @ [new_app_user now sub], user_profiles := user_profiles d @ [new_profile pid sub],
       user_roles := user_roles d @ [x], user_audit_events := user_audit_events d @ [e]\<rparr>"

definition bootstrapped :: "uuid \<Rightarrow> user_db \<Rightarrow> int \<Rightarrow> user_db \<Rightarrow> bool" where
  "bootstrapped sub d now d' \<longleftrightarrow>
     (\<exists>pid x e r. d' = boot_db now sub pid x e d \<and> r \<in> set (roles d) \<and> ro_name r = ROLE_USER \<and>
        ur_user_id x = sub \<and> ur_role_id x = ro_id r \<and> sub \<notin> au_id ` set (app_users d) \<and>
        str_uuid sub \<notin> external_subject ` set (app_users d) \<and> sub \<notin> up_user_id ` set (user_profiles d) \<and>
        pid \<notin> up_id ` set (user_profiles d) \<and>
        (\<forall>y \<in> set (user_roles d). \<not> (ur_user_id y = sub \<and> ur_role_id y = ro_id r)) \<and>
        event_type e = AUDIT_USER_BOOTSTRAPPED \<and> target_user_id e = Some sub)"

lemma run_get_role_by_name:
  "get_role_by_name n s = scalar_one_or_none (filter (\<lambda>r. ro_name r = n) (roles (udb s))) s"
  by (simp add: get_role_by_name_def)

lemma run_get_by_subject:
  "get_by_subject n s = scalar_one_or_none (filter (\<lambda>u. external_subject u = n) (app_users (udb s))) s"
  by (simp add: get_by_subject_def)

lemma run_get_by_user_id:
  "get_by_user_id n s = scalar_one_or_none (filter (\<lambda>p. up_user_id p = n) (user_profiles (udb s))) s"
  by (simp add: get_by_user_id_def)

lemma run_app_user_create:
  "app_user_create X sub (str_uuid sub) s =
     (let s1 = s\<lparr>draws := Suc (draws s)\<rparr>; pid = uuid4 X (draws s); d = udb s in
      if \<not> fits 64 (str_uuid sub) then (Inl DataError, s1\<lparr>unflushed := True\<rparr>)
      else if sub \<in> au_id ` set (app_users d) \<or> str_uuid sub \<in> external_subject ` set (app_users d) \<or>
          pid \<in> up_id ` set (user_profiles d) \<or> sub \<in> up_user_id ` set (user_profiles d)
      then (Inl IntegrityError, s1\<lparr>unflushed := True\<rparr>)
      else (Inr (new_app_user (clock s) sub),
        s1\<lparr>udb := d\<lparr>app_users := app_users d @ [new_app_user (clock s) sub],
                    user_profiles := user_profiles d @ [new_profile pid sub]\<rparr>, unflushed := False\<rparr>))"
  by (simp add: app_user_create_def Let_def run_add_and_flush new_app_user_def new_profile_def thenE_def bindE_def)

lemma assign_role_to_user_Inr:
  assumes "assign_role_to_user X uid rid s = (Inr a, t)"
  obtains (old) y where "t = s" "y \<in> set (user_roles (udb s))" "ur_user_id y = uid" "ur_role_id y = rid"
  | (new) x where "\<forall>y \<in> set (user_roles (udb s)). \<not> (ur_user_id y = uid \<and> ur_role_id y = rid)"
      "uid \<in> au_id ` set (app_users (udb s))" "rid \<in> ro_id ` set (roles (udb s))"
      "ur_user_id x = uid" "ur_role_id x = rid"
      "t = s\<lparr>draws := Suc (draws s), udb := (udb s)\<lparr>user_roles := user_roles (udb s) @ [x]\<rparr>, unflushed := False\<rparr>"
proof -
  let ?rows = "filter (\<lambda>x. ur_user_id x = uid \<and> ur_role_id x = rid) (user_roles (udb s))"
  obtain v where v: "scalar_one_or_none ?rows s = (Inr v, s)"
    using assms by (cases ?rows rule: list.exhaust; cases "tl ?rows")
      (auto simp: assign_role_to_user_def bindE_def run_scalar_one_or_none split: list.splits)
  show thesis
  proof (cases v)
    case (Some y)
    note y = scalar_Some [OF v [unfolded Some]]
    have "t = s" using assms v Some by (simp add: assign_role_to_user_def)
    then show thesis using old y by blast
  next
    case None
    note n = scalar_None [OF v [unfolded None]]
    show thesis
    proof (rule new)
      show "\<forall>y \<in> set (user_roles (udb s)). \<not> (ur_user_id y = uid \<and> ur_role_id y = rid)" using n by blast
      show "uid \<in> au_id ` set (app_users (udb s))" "rid \<in> ro_id ` set (roles (udb s))"
        using assms v None by (auto simp: assign_role_to_user_def run_add_and_flush split: if_splits)
      show "t = s\<lparr>draws := Suc (draws s), udb := (udb s)\<lparr>user_roles := user_roles (udb s) @
          [\<lparr>ur_id = uuid4 X (draws s), ur_user_id = uid, ur_role_id = rid\<rparr>]\<rparr>, unflushed := False\<rparr>"
        using assms v None by (auto simp: assign_role_to_user_def run_add_and_flush split: if_splits)
    qed simp_all
  qed
qed


lemma run_user_log_event:
  "user_log_event X ev oc ac tg ip ua pl s =
     (let aid = uuid4 X (draws s); s1 = s\<lparr>draws := Suc (draws s)\<rparr> in
      if \<not> (fits 128 ev \<and> fits 16 oc \<and> client_fits ip ua) then (Inl DataError, s1\<lparr>unflushed := True\<rparr>)
      else if aid \<in> ae_id ` set (user_audit_events (udb s)) then (Inl IntegrityError, s1\<lparr>unflushed := True\<rparr>)
      else (Inr (), s1\<lparr>udb := (udb s)\<lparr>user_audit_events := user_audit_events (udb s) @
        [\<lparr>ae_id = aid, event_type = ev, outcome = oc, actor_user_id = ac, target_user_id = tg, ae_ip_address = ip,
          ae_user_agent = ua, payload = user_sanitize_payload pl, ae_created_at = clock s\<rparr>]\<rparr>, unflushed := False\<rparr>))"
  by (simp add: user_log_event_def user_audit_create_def run_add_and_flush Let_def)

lemma user_log_event_Inr:
  assumes "user_log_event X ev oc ac tg ip ua pl s = (Inr a, t)"
  obtains e where "event_type e = ev" "target_user_id e = tg" "actor_user_id e = ac" "payload e = user_sanitize_payload pl"
    "t = s\<lparr>draws := Suc (draws s), udb := (udb s)\<lparr>user_audit_events := user_audit_events (udb s) @ [e]\<rparr>, unflushed := False\<rparr>"
  by (rule that [of "\<lparr>ae_id = uuid4 X (draws s), event_type = ev, outcome = oc, actor_user_id = ac, target_user_id = tg,
       ae_ip_address = ip, ae_user_agent = ua, payload = user_sanitize_payload pl, ae_created_at = clock s\<rparr>"])
     (use assms in \<open>auto simp: run_user_log_event Let_def split: if_splits\<close>)

text \<open>A lookup by a name that is there.\<close>

lemma scalar_Inr:
  "scalar_one_or_none (filter P rows) s = (Inr v, t) \<Longrightarrow>
   t = s \<and> (case v of None \<Rightarrow> \<forall>x \<in> set rows. \<not> P x | Some x \<Rightarrow> x \<in> set rows \<and> P x)"
  by (cases v) (auto dest: scalar_Some scalar_None)

lemma get_role_by_name_Inr:
  "get_role_by_name n s = (Inr v, t) \<Longrightarrow>
   t = s \<and> (case v of None \<Rightarrow> \<forall>x \<in> set (roles (udb s)). ro_name x \<noteq> n | Some x \<Rightarrow> x \<in> set (roles (udb s)) \<and> ro_name x = n)"
  unfolding run_get_role_by_name by (rule scalar_Inr)

lemma get_by_subject_Inr:
  "get_by_subject n s = (Inr v, t) \<Longrightarrow>
   t = s \<and> (case v of None \<Rightarrow> \<forall>x \<in> set (app_users (udb s)). external_subject x \<noteq> n | Some x \<Rightarrow> x \<in> set (app_users (udb s)) \<and> external_subject x = n)"
  unfolding run_get_by_subject by (rule scalar_Inr)

lemma get_by_user_id_Inr:
  "get_by_user_id n s = (Inr v, t) \<Longrightarrow>
   t = s \<and> (case v of None \<Rightarrow> \<forall>x \<in> set (user_profiles (udb s)). up_user_id x \<noteq> n | Some x \<Rightarrow> x \<in> set (user_profiles (udb s)) \<and> up_user_id x = n)"
  unfolding run_get_by_user_id by (rule scalar_Inr)

lemma ensure_default_user_role_Inr:
  assumes "ensure_default_user_role X uid s = (Inr a, t)"
  obtains r where "r \<in> set (roles (udb s))" "ro_name r = ROLE_USER" "assign_role_to_user X uid (ro_id r) s = (Inr a, t)"
proof -
  obtain v u where v: "get_role_by_name ROLE_USER s = (Inr v, u)"
    and rest: "(case v of None \<Rightarrow> raise (RuntimeError ''RBAC seed is not initialized'')
       | Some r \<Rightarrow> assign_role_to_user X uid (ro_id r)) u = (Inr a, t)"
    using assms unfolding ensure_default_user_role_def by (rule bindE_InrE)
  show thesis
    using rest get_role_by_name_Inr [OF v] that by (cases v) auto
qed

lemma new_user_Inr:
  assumes wf: "wf_udb (udb s)"
    and run: "bindE (app_user_create X sub (str_uuid sub)) (\<lambda>u.
      thenE (ensure_default_user_role X (au_id u))
     (thenE (user_log_event X AUDIT_USER_BOOTSTRAPPED ''success'' (Some (au_id u)) (Some (au_id u)) ip ua None) (ret u))) s
    = (Inr u, t)"
  shows "u = new_app_user (clock s) sub \<and> bootstrapped sub (udb s) (clock s) (udb t) \<and>
    t = s\<lparr>draws := draws t, udb := udb t, unflushed := False\<rparr>"
proof -
  let ?u = "new_app_user (clock s) sub" and ?pid = "uuid4 X (draws s)"
  let ?d = "(udb s)\<lparr>app_users := app_users (udb s) @ [?u], user_profiles := user_profiles (udb s) @ [new_profile ?pid sub]\<rparr>"
  let ?s = "s\<lparr>draws := Suc (draws s), udb := ?d, unflushed := False\<rparr>"
  have au: "au_id ?u = sub" by (simp add: new_app_user_def)
  obtain v s1 where cr: "app_user_create X sub (str_uuid sub) s = (Inr v, s1)"
    and rest: "thenE (ensure_default_user_role X (au_id v))
     (thenE (user_log_event X AUDIT_USER_BOOTSTRAPPED ''success'' (Some (au_id v)) (Some (au_id v)) ip ua None) (ret v)) s1 = (Inr u, t)"
    using run by (rule bindE_InrE)
  have c: "sub \<notin> au_id ` set (app_users (udb s))" "str_uuid sub \<notin> external_subject ` set (app_users (udb s))"
      "?pid \<notin> up_id ` set (user_profiles (udb s))" "sub \<notin> up_user_id ` set (user_profiles (udb s))"
    and v: "v = ?u" "s1 = ?s"
    using cr by (auto simp: run_app_user_create Let_def split: if_splits)
  obtain x1 s2 where role: "ensure_default_user_role X sub ?s = (Inr x1, s2)"
    and rest2: "thenE (user_log_event X AUDIT_USER_BOOTSTRAPPED ''success'' (Some sub) (Some sub) ip ua None) (ret v) s2 = (Inr u, t)"
    using rest unfolding v au by (rule thenE_InrE)
  obtain x2 where ev: "user_log_event X AUDIT_USER_BOOTSTRAPPED ''success'' (Some sub) (Some sub) ip ua None s2 = (Inr x2, t)"
    and u: "u = ?u"
    using rest2 v by (auto elim!: thenE_InrE)
  obtain r where r: "r \<in> set (roles (udb s))" "ro_name r = ROLE_USER" and as: "assign_role_to_user X sub (ro_id r) ?s = (Inr x1, s2)"
    using role by (rule ensure_default_user_role_Inr) simp
  obtain e where e: "event_type e = AUDIT_USER_BOOTSTRAPPED" "target_user_id e = Some sub"
    "t = s2\<lparr>draws := Suc (draws s2), udb := (udb s2)\<lparr>user_audit_events := user_audit_events (udb s2) @ [e]\<rparr>, unflushed := False\<rparr>"
    using ev by (rule user_log_event_Inr)
  from as show ?thesis
  proof (cases rule: assign_role_to_user_Inr)
    case (old y)
    then have "sub \<in> au_id ` set (app_users (udb s))" using wf by (auto simp: wf_udb_def)
    with c(1) show ?thesis by simp
  next
    case (new x)
    have d: "udb t = boot_db (clock s) sub ?pid x e (udb s)"
      using e new by (simp add: boot_db_def)
    have "bootstrapped sub (udb s) (clock s) (udb t)"
      unfolding bootstrapped_def
      by (intro exI [of _ ?pid] exI [of _ x] exI [of _ e] exI [of _ r] conjI) (use d new c r e in simp_all)
    then show ?thesis using u e new by simp
  qed
qed


lemma uframe:
  assumes "t = s\<lparr>draws := n, udb := d, unflushed := b\<rparr>"
  shows "ucommitted t = ucommitted s" "unflushed t = b" "redis t = redis s" "clock t = clock s"
  by (simp_all add: assms)

lemma bootstrap_Inr:
  assumes wf: "wf_udb (udb s)" and run: "bootstrap_from_subject X sub ip ua s = (Inr u, t)"
  obtains (known) "t = s" "u \<in> set (app_users (udb s))" "external_subject u = str_uuid sub"
  | (fresh) "u = new_app_user (clock s) sub" "bootstrapped sub (udb s) (clock s) (udb t)"
      "t = s\<lparr>draws := draws t, udb := udb t, unflushed := False\<rparr>"
proof -
  obtain v s1 where v: "get_by_subject (str_uuid sub) s = (Inr v, s1)"
    and rest: "(case v of Some u \<Rightarrow> ret u | None \<Rightarrow> bindE (app_user_create X sub (str_uuid sub)) (\<lambda>u.
           thenE (ensure_default_user_role X (au_id u))
          (thenE (user_log_event X AUDIT_USER_BOOTSTRAPPED ''success'' (Some (au_id u)) (Some (au_id u)) ip ua None)
             (ret u)))) s1 = (Inr u, t)"
    using run unfolding bootstrap_from_subject_def by (rule bindE_InrE)
  show thesis
  proof (cases v)
    case (Some w)
    then show thesis using known get_by_subject_Inr [OF v] rest by simp
  next
    case None
    have "s1 = s" using get_by_subject_Inr [OF v] by simp
    then show thesis using fresh new_user_Inr [OF wf, of X sub ip ua u t] rest None by simp
  qed
qed

section \<open>The context of a request\<close>

definition context_in :: "user_context \<Rightarrow> uuid \<Rightarrow> user_db \<Rightarrow> bool" where
  "context_in c sub d \<longleftrightarrow>
     cx_user c \<in> set (app_users d) \<and> external_subject (cx_user c) = str_uuid sub \<and>
     cx_profile c \<in> set (user_profiles d) \<and> up_user_id (cx_profile c) = au_id (cx_user c) \<and>
     cx_roles c = map ro_name (sort_key ro_name (roles_of (au_id (cx_user c)) d)) \<and>
     cx_permissions c = set (permission_names_of (au_id (cx_user c)) d)"

lemma context_for_subject_Inr:
  assumes wf: "wf_udb (udb s)" and run: "context_for_subject X sub ip ua s = (Inr c, t)"
  shows "context_in c sub (udb t) \<and> ucommitted t = ucommitted s \<and> (unflushed t \<longrightarrow> unflushed s) \<and> redis t = redis s \<and>
    clock t = clock s \<and> (udb t = udb s \<or> bootstrapped sub (udb s) (clock s) (udb t))"
proof -
  obtain u s1 where b: "bootstrap_from_subject X sub ip ua s = (Inr u, s1)"
    and rest: "bindE (get_by_user_id (au_id u)) (\<lambda>found. case found of
         None \<Rightarrow> raise (NotFoundException ''User profile not found'')
       | Some p \<Rightarrow> bindE (list_role_names_for_user (au_id u)) (\<lambda>rs. bindE (list_permission_names_for_user (au_id u)) (\<lambda>ps.
             ret \<lparr>cx_user = u, cx_profile = p, cx_roles = rs, cx_permissions = set ps\<rparr>))) s1 = (Inr c, t)"
    using run unfolding context_for_subject_def by (rule bindE_InrE)
  obtain v s2 where v: "get_by_user_id (au_id u) s1 = (Inr v, s2)"
    and rest2: "(case v of None \<Rightarrow> raise (NotFoundException ''User profile not found'')
       | Some p \<Rightarrow> bindE (list_role_names_for_user (au_id u)) (\<lambda>rs. bindE (list_permission_names_for_user (au_id u)) (\<lambda>ps.
             ret \<lparr>cx_user = u, cx_profile = p, cx_roles = rs, cx_permissions = set ps\<rparr>))) s2 = (Inr c, t)"
    using rest by (rule bindE_InrE)
  note pv = get_by_user_id_Inr [OF v]
  then obtain p where p: "v = Some p" "s2 = s1" "p \<in> set (user_profiles (udb s1))" "up_user_id p = au_id u"
    using rest2 by (cases v) auto
  then have c: "t = s1" "cx_user c = u" "cx_profile c = p"
      "cx_roles c = map ro_name (sort_key ro_name (roles_of (au_id u) (udb s1)))"
      "cx_permissions c = set (permission_names_of (au_id u) (udb s1))"
    using rest2 by (auto simp: list_role_names_for_user_def list_roles_for_user_def list_permission_names_for_user_def)
  from wf b show ?thesis
  proof (cases rule: bootstrap_Inr)
    case known
    then show ?thesis using c p by (simp add: context_in_def)
  next
    case fresh
    note f = uframe [OF fresh(3)]
    moreover have "u \<in> set (app_users (udb s1))" "external_subject u = str_uuid sub"
      using fresh(1,2) by (auto simp: bootstrapped_def boot_db_def new_app_user_def)
    ultimately show ?thesis using c p fresh(2) by (simp add: context_in_def)
  qed
qed

lemma bootstrapped_wf:
  assumes "wf_udb d" "bootstrapped sub d now d'"
  shows "wf_udb d'"
proof -
  obtain pid x e r where b: "d' = boot_db now sub pid x e d" "r \<in> set (roles d)" "ur_user_id x = sub" "ur_role_id x = ro_id r"
      "sub \<notin> au_id ` set (app_users d)" "str_uuid sub \<notin> external_subject ` set (app_users d)"
      "sub \<notin> up_user_id ` set (user_profiles d)" "pid \<notin> up_id ` set (user_profiles d)"
      "\<forall>y \<in> set (user_roles d). \<not> (ur_user_id y = sub \<and> ur_role_id y = ro_id r)"
    using assms(2) unfolding bootstrapped_def by blast
  have "(ur_user_id x, ur_role_id x) \<notin> (\<lambda>x. (ur_user_id x, ur_role_id x)) ` set (user_roles d)"
    using b by auto
  then show ?thesis
    using assms(1) b unfolding wf_udb_def boot_db_def new_app_user_def new_profile_def
    by (simp add: image_Un)
qed

lemma bootstrapped_no_admin:
  assumes "wf_udb d" "no_admin d" "bootstrapped sub d now d'"
  shows "no_admin d'"
proof -
  obtain pid x e r where b: "d' = boot_db now sub pid x e d" "r \<in> set (roles d)" "ro_name r = ROLE_USER" "ur_role_id x = ro_id r"
    using assms(3) unfolding bootstrapped_def by blast
  have "ro_name q \<noteq> ROLE_ADMIN" if "q \<in> set (roles d)" "ro_id q = ro_id r" for q
    using distinct_key_eq [OF wf_udbD(4) [OF assms(1)] that(1) b(2)] that(2) b(3) by (simp add: rbac_constants)
  then show ?thesis using assms(2) b unfolding no_admin_def boot_db_def by auto
qed

section \<open>Nothing is committed before an endpoint commits\<close>

definition same_committed :: "'r user_node \<Rightarrow> 'r user_node \<Rightarrow> bool" where
  "same_committed s t \<longleftrightarrow> ucommitted t = ucommitted s"

interpretation uncommitted: effect same_committed
  by unfold_locales (simp_all add: same_committed_def)

lemma within_same_primitives:
  "within same_committed time_now" "within same_committed (draw f)" "within same_committed (redis_read c)"
  "within same_committed (redis_write w)" "within same_committed (redis_incr ops k)"
  by (rule within_time_now within_draw within_redis_read within_redis_write within_redis_incr; simp add: same_committed_def)+

lemma within_same_session:
  "within same_committed (uselect g)" "within same_committed (add_and_flush w k f)"
  "within same_committed (scalar_one_or_none rows)" "within same_committed session_new_or_dirty"
  by (simp_all add: within_def same_committed_def run_add_and_flush scalar_state)

lemmas same_rules = uncommitted.within_rules within_same_primitives within_same_session

lemma within_same_repositories:
  "within same_committed (app_user_get_by_id uid)" "within same_committed (get_by_subject n)"
  "within same_committed (app_user_create X uid n)" "within same_committed (get_by_user_id uid)"
  "within same_committed (profile_update p name loc tz avatar)" "within same_committed (get_role_by_name n)"
  "within same_committed (get_permission_by_name n)" "within same_committed (create_role X n desc)"
  "within same_committed (create_permission X n desc)" "within same_committed (ensure_role_permission X rid pid)"
  "within same_committed (assign_role_to_user X uid rid)" "within same_committed (list_roles_for_user uid)"
  "within same_committed (list_permission_names_for_user uid)"
  "within same_committed (user_audit_create X ev oc ac tg ip ua pl)"
  unfolding app_user_get_by_id_def get_by_subject_def app_user_create_def get_by_user_id_def profile_update_def
    get_role_by_name_def get_permission_by_name_def create_role_def create_permission_def ensure_role_permission_def
    assign_role_to_user_def list_roles_for_user_def list_permission_names_for_user_def user_audit_create_def
  by (intro same_rules)+

lemma within_same_services:
  "within same_committed (user_log_event X ev oc ac tg ip ua pl')" "within same_committed (ensure_default_user_role X uid)"
  "within same_committed (assign_role_by_name X uid n)" "within same_committed (get_user_by_id uid)"
  "within same_committed (update_own_profile X uid ac' name loc tz avatar ip ua)"
  "within same_committed (bootstrap_from_subject X sub ip ua)" "within same_committed (context_for_subject X sub ip ua)"
  "within same_committed (ensure_permission ps n)" "within same_committed (validated v)" "within same_committed (request_json X rq)"
  "within same_committed (extract_bearer_token rq)" "within same_committed (ensure_access_session_active X sid)"
  "within same_committed (rate_limit_dependency X cfg sc lim rq)" "within same_committed (decode_access_token X cfg tok)"
  unfolding user_log_event_def ensure_default_user_role_def assign_role_by_name_def get_user_by_id_def update_own_profile_def
    bootstrap_from_subject_def context_for_subject_def list_role_names_for_user_def ensure_permission_def validated_def
    request_json_def extract_bearer_token_def ensure_access_session_active_def rate_limit_dependency_def apply_rate_limit_def
    decode_access_token_def Let_def
  by (intro same_rules within_same_repositories)+


text \<open>Reading the token changes nothing.\<close>

lemma token_parts_state:
  "extract_bearer_token rq s = (r, t) \<Longrightarrow> t = s" "decode_access_token X cfg tok s = (r2, t2) \<Longrightarrow> t2 = s"
  "ensure_access_session_active X sid s = (r3, t3) \<Longrightarrow> t3 = s"
proof -
  show "extract_bearer_token rq s = (r, t) \<Longrightarrow> t = s"
    by (auto simp: extract_bearer_token_def Let_def split: if_splits)
  show "decode_access_token X cfg tok s = (r2, t2) \<Longrightarrow> t2 = s"
    by (auto simp: decode_access_token_def split: option.splits if_splits)
  show "ensure_access_session_active X sid s = (r3, t3) \<Longrightarrow> t3 = s"
    by (auto simp: ensure_access_session_active_def run_redis_read bindE_def split: option.splits if_splits)
qed

text \<open>The request carries a valid access token of a session that was not revoked.\<close>

definition token_for :: "'r extern \<Rightarrow> user_settings \<Rightarrow> http_request \<Rightarrow> 'r user_node \<Rightarrow> uuid \<Rightarrow> bool" where
  "token_for X cfg rq s sub \<longleftrightarrow>
     (\<exists>raw claims. extract_bearer_token rq s = (Inr raw, s) \<and> decode_access_token X cfg raw s = (Inr claims, s) \<and>
        at_sub claims = sub \<and> ensure_access_session_active X (at_sid claims) s = (Inr (), s))"

lemma get_current_context_Inr:
  assumes wf: "wf_udb (udb s)" and clean: "\<not> unflushed s" and run: "get_current_context X cfg rq s = (Inr c, t)"
  obtains sub where "token_for X cfg rq s sub" "context_in c sub (udb t)" "au_is_active (cx_user c)"
    "ucommitted t = ucommitted s" "\<not> unflushed t" "redis t = redis s" "clock t = clock s"
    "udb t = udb s \<or> bootstrapped sub (udb s) (clock s) (udb t)"
proof -
  obtain raw s1 where e: "extract_bearer_token rq s = (Inr raw, s1)"
    and r1: "bindE (decode_access_token X cfg raw) (\<lambda>claims. thenE (ensure_access_session_active X (at_sid claims))
      (bindE (context_for_subject X (at_sub claims) (client_of X cfg rq) (agent_of rq)) (\<lambda>context.
       if \<not> au_is_active (cx_user context) then raise (UnauthorizedException ''Inactive user'')
       else bindE session_new_or_dirty (\<lambda>changed. thenE (whenE changed ucommit) (ret context))))) s1 = (Inr c, t)"
    using run unfolding get_current_context_def by (rule bindE_InrE)
  obtain claims s2 where d: "decode_access_token X cfg raw s1 = (Inr claims, s2)"
    and r2: "thenE (ensure_access_session_active X (at_sid claims))
      (bindE (context_for_subject X (at_sub claims) (client_of X cfg rq) (agent_of rq)) (\<lambda>context.
       if \<not> au_is_active (cx_user context) then raise (UnauthorizedException ''Inactive user'')
       else bindE session_new_or_dirty (\<lambda>changed. thenE (whenE changed ucommit) (ret context)))) s2 = (Inr c, t)"
    using r1 by (rule bindE_InrE)
  obtain x s3 where a: "ensure_access_session_active X (at_sid claims) s2 = (Inr x, s3)"
    and r3: "bindE (context_for_subject X (at_sub claims) (client_of X cfg rq) (agent_of rq)) (\<lambda>context.
       if \<not> au_is_active (cx_user context) then raise (UnauthorizedException ''Inactive user'')
       else bindE session_new_or_dirty (\<lambda>changed. thenE (whenE changed ucommit) (ret context))) s3 = (Inr c, t)"
    using r2 by (rule thenE_InrE)
  have ss: "s1 = s" "s2 = s" "s3 = s"
    using token_parts_state(1) [OF e] token_parts_state(2) [OF d] token_parts_state(3) [OF a] by simp_all
  obtain c' s4 where cx: "context_for_subject X (at_sub claims) (client_of X cfg rq) (agent_of rq) s = (Inr c', s4)"
    and r4: "(if \<not> au_is_active (cx_user c') then raise (UnauthorizedException ''Inactive user'')
       else bindE session_new_or_dirty (\<lambda>changed. thenE (whenE changed ucommit) (ret c'))) s4 = (Inr c, t)"
    using r3 unfolding ss by (rule bindE_InrE)
  note C = context_for_subject_Inr [OF wf cx]
  have act: "au_is_active (cx_user c')" using r4 by (auto split: if_splits)
  have "unflushed s4 = False" using C clean by simp
  then have "c = c'" "t = s4" using r4 act by auto
  moreover have "token_for X cfg rq s (at_sub claims)"
    unfolding token_for_def using e d a by (intro exI [of _ raw] exI [of _ claims]) (simp add: ss)
  ultimately show thesis using that [of "at_sub claims"] C act clean by simp
qed

lemma bindE_assoc:
  "bindE (bindE p f) g = bindE p (\<lambda>a. bindE (f a) g)" "bindE (thenE p q) g = thenE p (bindE q g)"
  by (simp_all add: bindE_def thenE_def fun_eq_iff split: prod.split sum.split)

lemma bindE_Inl_same:
  assumes "within same_committed p" "\<And>a u. fst (f a u) = Inl e \<Longrightarrow> same_committed u (snd (f a u))" "bindE p f s = (Inl e, t)"
  shows "same_committed s t"
  using assms(3)
proof (cases rule: bindE_InlE)
  case left
  then show ?thesis using within_run [OF assms(1)] by blast
next
  case (right a u)
  then show ?thesis using within_run [OF assms(1)] assms(2) [of a u] by (auto simp: same_committed_def)
qed

text \<open>However it ends, the context is built without a commit.\<close>

lemma get_current_context_same:
  assumes wf: "wf_udb (udb s)" and clean: "\<not> unflushed s"
  shows "ucommitted (snd (get_current_context X cfg rq s)) = ucommitted s"
proof (cases "get_current_context X cfg rq s")
  case (Pair r t)
  show ?thesis
  proof (cases r)
    case (Inr c)
    then show ?thesis using get_current_context_Inr [OF wf clean, of X cfg rq c t] Pair by fastforce
  next
    case (Inl e)
    let ?tail = "\<lambda>context. if \<not> au_is_active (cx_user context) then raise (UnauthorizedException ''Inactive user'')
       else bindE session_new_or_dirty (\<lambda>changed. thenE (whenE changed ucommit) (ret context))"
    have tail: "same_committed u (snd (?tail c u))" if "fst (?tail c u) = Inl e" for c u
      using that by (cases "unflushed u") (auto simp: same_committed_def thenE_def bindE_def split: if_splits)
    let ?head = "bindE (extract_bearer_token rq) (\<lambda>token. bindE (decode_access_token X cfg token) (\<lambda>claims.
        thenE (ensure_access_session_active X (at_sid claims))
          (context_for_subject X (at_sub claims) (client_of X cfg rq) (agent_of rq))))"
    have w: "within same_committed ?head"
      by (intro same_rules within_same_services)
    have run: "bindE ?head ?tail s = (Inl e, t)"
      using Pair Inl unfolding get_current_context_def by (simp only: bindE_assoc)
    have "same_committed s t"
      by (rule bindE_Inl_same [OF w _ run], rule tail)
    then show ?thesis using Pair by (simp add: same_committed_def)
  qed
qed

end
