(* ===== verification/User_Runs.thy ===== *)
theory User_Runs
  imports User_Rbac
begin

text \<open>
  Whole requests of the user-service: what each endpoint commits, and the runs of the service (requests,
  restarts with their seeding, time and cache changing). The properties say who can
  change what: profiles only by their owners, roles only by holders of \<open>roles:assign\<close>, and that the right to
  assign roles never appears where nobody has it.
\<close>

section \<open>The common beginning of the writing endpoints\<close>

definition cache_only :: "'r user_node \<Rightarrow> 'r user_node \<Rightarrow> bool" where
  "cache_only s t \<longleftrightarrow>
     udb t = udb s \<and> ucommitted t = ucommitted s \<and> unflushed t = unflushed s \<and> clock t = clock s \<and> draws t = draws s"

interpretation cache_effect: effect cache_only
  by unfold_locales (simp_all add: cache_only_def)

lemma within_cache_primitives:
  "within cache_only time_now" "within cache_only (redis_read c)" "within cache_only (redis_write w)"
  "within cache_only (redis_incr ops k)"
  by (rule within_time_now within_redis_read within_redis_write within_redis_incr; simp add: cache_only_def)+

lemma within_cache_parts:
  "within cache_only (rate_limit_dependency X cfg sc lim rq)" "within cache_only (request_json X rq)"
  unfolding rate_limit_dependency_def apply_rate_limit_def request_json_def Let_def
  by (intro cache_effect.within_rules within_cache_primitives)+

text \<open>
  Either nothing is committed, or the rest of the endpoint runs for the context of a valid token, on tables that
  differ from the committed ones at most by the bootstrap of that very user.
\<close>

definition entered ::
  "'r extern \<Rightarrow> user_settings \<Rightarrow> http_request \<Rightarrow> 'r user_node \<Rightarrow> uuid \<Rightarrow> user_context \<Rightarrow> 'r user_node \<Rightarrow> bool" where
  "entered X cfg rq s sub c s' \<longleftrightarrow>
     (\<exists>s0. cache_only s s0 \<and> token_for X cfg rq s0 sub) \<and> context_in c sub (udb s') \<and> au_is_active (cx_user c) \<and>
     ucommitted s' = ucommitted s \<and> clock s' = clock s \<and>
     (udb s' = udb s \<or> bootstrapped sub (udb s) (clock s) (udb s'))"

lemma write_endpoint_cases:
  assumes wf: "wf_udb (udb s)" and clean: "\<not> unflushed s"
    and run: "bindE (request_json X rq) (\<lambda>j. thenE (rate_limit_dependency X cfg sc lim rq)
      (bindE (get_current_context X cfg rq) (f j))) s = (r, t)"
  obtains (stopped) e where "r = Inl e" "ucommitted t = ucommitted s"
  | (entered) j c s' sub where "request_json X rq s = (Inr j, s)" "entered X cfg rq s sub c s'" "f j c s' = (r, t)"
proof -
  have same: "ucommitted u = ucommitted s" if "cache_only s u" for u using that by (simp add: cache_only_def)
  obtain r1 s1 where j: "request_json X rq s = (r1, s1)" by fastforce
  have s1: "s1 = s" using j by (auto simp: request_json_def split: if_splits option.splits)
  obtain r2 s2 where rl: "rate_limit_dependency X cfg sc lim rq s = (r2, s2)" by fastforce
  have co: "cache_only s s2" using within_run [OF within_cache_parts(1) rl] .
  obtain r3 s3 where cx: "get_current_context X cfg rq s2 = (r3, s3)" by fastforce
  have wf2: "wf_udb (udb s2)" "\<not> unflushed s2" using co wf clean by (simp_all add: cache_only_def)
  show thesis
  proof (cases "\<exists>jj x c. r1 = Inr jj \<and> r2 = Inr x \<and> r3 = Inr c")
    case False
    have "ucommitted s3 = ucommitted s" using get_current_context_same [OF wf2, of X cfg rq] cx same [OF co] by (simp add: cache_only_def)
    then show thesis using False run j s1 rl cx same [OF co] stopped
      by (cases r1; cases r2; cases r3) auto
  next
    case True
    then obtain jj x c where r: "r1 = Inr jj" "r2 = Inr x" "r3 = Inr c" by blast
    have "f jj c s3 = (r, t)" using run j s1 rl cx r by simp
    moreover obtain sub where "token_for X cfg rq s2 sub" "context_in c sub (udb s3)" "au_is_active (cx_user c)"
      "ucommitted s3 = ucommitted s2" "clock s3 = clock s2" "udb s3 = udb s2 \<or> bootstrapped sub (udb s2) (clock s2) (udb s3)"
      using wf2 cx [unfolded r] by (rule get_current_context_Inr)
    then have "entered X cfg rq s sub c s3"
      unfolding entered_def using co by (auto simp: cache_only_def)
    ultimately show thesis using entered j s1 r by blast
  qed
qed

lemma enteredD:
  assumes "entered X cfg rq s sub c s'" "wf_udb (udb s)"
  shows "wf_udb (udb s')" "no_admin (udb s) \<Longrightarrow> no_admin (udb s')"
    "cx_user c \<in> set (app_users (udb s'))" "au_id (cx_user c) = sub"
    "cx_permissions c = set (permission_names_of sub (udb s'))" "ucommitted s' = ucommitted s"
proof -
  show wf: "wf_udb (udb s')" and "no_admin (udb s) \<Longrightarrow> no_admin (udb s')"
    using assms bootstrapped_wf bootstrapped_no_admin by (auto simp: entered_def)
  have c: "context_in c sub (udb s')" using assms(1) by (simp add: entered_def)
  then show "cx_user c \<in> set (app_users (udb s'))" by (simp add: context_in_def)
  then have "external_subject (cx_user c) = str_uuid (au_id (cx_user c))" by (rule wf_udbD(8) [OF wf])
  then show "au_id (cx_user c) = sub" using c by (auto simp: context_in_def str_uuid_inject)
  then show "cx_permissions c = set (permission_names_of sub (udb s'))" using c by (simp add: context_in_def)
  show "ucommitted s' = ucommitted s" using assms(1) by (simp add: entered_def)
qed

section \<open>Updating a profile\<close>

lemma update_own_profile_Inr:
  assumes "update_own_profile X uid ac name loc tz avatar ip ua s = (Inr p', t)"
  obtains p e where "p \<in> set (user_profiles (udb s))" "up_user_id p = uid" "p' = set_profile name loc tz avatar p"
    "udb t = (udb s)\<lparr>user_profiles := update_where (\<lambda>x. up_id x = up_id p) (set_profile name loc tz avatar) (user_profiles (udb s)),
       user_audit_events := user_audit_events (udb s) @ [e]\<rparr>" "event_type e = AUDIT_PROFILE_UPDATED" "actor_user_id e = Some ac"
proof -
  let ?pl = "Some [(''locale'', JStr loc), (''timezone'', JStr tz), (''has_avatar'', JBool (\<not> falsy avatar))]"
  obtain v s1 where v: "get_by_user_id uid s = (Inr v, s1)"
    and rest: "(case v of None \<Rightarrow> raise (NotFoundException ''User profile not found'')
       | Some p \<Rightarrow> bindE (profile_update p name loc tz avatar) (\<lambda>updated.
           thenE (user_log_event X AUDIT_PROFILE_UPDATED ''success'' (Some ac) (Some uid) ip ua ?pl) (ret updated))) s1 = (Inr p', t)"
    using assms unfolding update_own_profile_def by (rule bindE_InrE)
  obtain p where p: "v = Some p" "s1 = s" "p \<in> set (user_profiles (udb s))" "up_user_id p = uid"
    using get_by_user_id_Inr [OF v] rest by (cases v) auto
  obtain q s2 where q: "profile_update p name loc tz avatar s = (Inr q, s2)"
    and rest2: "thenE (user_log_event X AUDIT_PROFILE_UPDATED ''success'' (Some ac) (Some uid) ip ua ?pl) (ret q) s2 = (Inr p', t)"
    using rest p by (auto elim: bindE_InrE)
  obtain x where ev: "user_log_event X AUDIT_PROFILE_UPDATED ''success'' (Some ac) (Some uid) ip ua ?pl s2 = (Inr x, t)" and "p' = q"
    using rest2 by (auto elim!: thenE_InrE)
  obtain e where "event_type e = AUDIT_PROFILE_UPDATED" "actor_user_id e = Some ac"
    "t = s2\<lparr>draws := Suc (draws s2), udb := (udb s2)\<lparr>user_audit_events := user_audit_events (udb s2) @ [e]\<rparr>, unflushed := False\<rparr>"
    using ev by (rule user_log_event_Inr)
  moreover have "q = set_profile name loc tz avatar p"
    "s2 = s\<lparr>udb := (udb s)\<lparr>user_profiles := update_where (\<lambda>x. up_id x = up_id p) (set_profile name loc tz avatar) (user_profiles (udb s))\<rparr>,
       unflushed := False\<rparr>"
    using q by (auto simp: profile_update_def run_add_and_flush thenE_def bindE_def split: if_splits)
  ultimately show thesis using that [of p e] p \<open>p' = q\<close> by simp
qed

text \<open>The tables after a profile update for \<open>uid\<close>.\<close>

definition profile_written ::
  "uuid \<Rightarrow> string option \<Rightarrow> string \<Rightarrow> string \<Rightarrow> string option \<Rightarrow> user_db \<Rightarrow> user_db \<Rightarrow> bool" where
  "profile_written uid name loc tz avatar d d' \<longleftrightarrow>
     (\<exists>p e. p \<in> set (user_profiles d) \<and> up_user_id p = uid \<and> event_type e = AUDIT_PROFILE_UPDATED \<and> actor_user_id e = Some uid \<and>
        d' = d\<lparr>user_profiles := update_where (\<lambda>x. up_id x = up_id p) (set_profile name loc tz avatar) (user_profiles d),
               user_audit_events := user_audit_events d @ [e]\<rparr>)"

lemma set_profile_keys [simp]: "up_id (set_profile a b c f p) = up_id p" "up_user_id (set_profile a b c f p) = up_user_id p"
  by (simp_all add: set_profile_def)

lemma profile_written_wf:
  assumes "profile_written uid name loc tz avatar d d'"
  shows "wf_udb d \<Longrightarrow> wf_udb d'" "no_admin d \<Longrightarrow> no_admin d'"
proof -
  obtain p :: user_profile and e where d: "d' = d\<lparr>user_profiles := update_where (\<lambda>x. up_id x = up_id p) (set_profile name loc tz avatar) (user_profiles d),
      user_audit_events := user_audit_events d @ [e]\<rparr>"
    using assms unfolding profile_written_def by blast
  show "wf_udb d \<Longrightarrow> wf_udb d'" "no_admin d \<Longrightarrow> no_admin d'"
    by (simp_all add: d wf_udb_def no_admin_def map_update_where_same image_update_where_same)
qed

lemma update_profile_cases:
  assumes wf: "wf_udb (udb s)" and clean: "\<not> unflushed s" and run: "update_profile_endpoint X cfg a rq s = (r, t)"
  obtains (stopped) e where "r = Inl e" "ucommitted t = ucommitted s"
  | (written) j c s' sub name loc tz avatar where "request_json X rq s = (Inr j, s)"
      "parse_update_profile j = Some (name, loc, tz, avatar)" "entered X cfg rq s sub c s'"
      "PERMISSION_PROFILE_WRITE_SELF \<in> set (permission_names_of sub (udb s'))"
      "profile_written sub name loc tz avatar (udb s') (ucommitted t)"
  using wf clean run [unfolded update_profile_endpoint_def]
proof (cases rule: write_endpoint_cases)
  case (stopped e)
  then show thesis using that(1) by blast
next
  case (entered j c s' sub)
  note D = enteredD [OF entered(2) wf]
  show thesis
  proof (cases "parse_update_profile j")
    case None
    then show thesis using entered(3) D(6) that(1) by (auto simp: validated_def)
  next
    case (Some v)
    obtain name loc tz avatar where v: "v = (name, loc, tz, avatar)" by (cases v) auto
    show thesis
    proof (cases "PERMISSION_PROFILE_WRITE_SELF \<in> cx_permissions c")
      case False
      then show thesis using entered(3) D(6) that(1) Some v by (auto simp: validated_def ensure_permission_def)
    next
      case True
      obtain r1 s1 where u: "update_own_profile X sub sub name loc tz avatar (client_of X cfg rq) (agent_of rq) s' = (r1, s1)"
        by fastforce
      have same: "ucommitted s1 = ucommitted s'"
        using within_run [OF within_same_services(5) u] by (simp add: same_committed_def)
      show thesis
      proof (cases r1)
        case (Inl e)
        then show thesis using entered(3) D same that(1) Some v u True by (auto simp: validated_def ensure_permission_def)
      next
        case (Inr p')
        then have "ucommitted t = udb s1"
          using entered(3) D Some v u True by (auto simp: validated_def ensure_permission_def)
        moreover have "profile_written sub name loc tz avatar (udb s') (udb s1)"
          using u [unfolded Inr] by (rule update_own_profile_Inr) (auto simp: profile_written_def)
        ultimately show thesis
          using that(2) [OF entered(1) _ entered(2)] Some v True D(5) by simp
      qed
    qed
  qed
qed

section \<open>Assigning a role\<close>

definition holds_role :: "user_db \<Rightarrow> uuid \<Rightarrow> uuid \<Rightarrow> bool" where
  "holds_role d uid rid \<longleftrightarrow> (\<exists>x \<in> set (user_roles d). ur_user_id x = uid \<and> ur_role_id x = rid)"

text \<open>The tables after \<open>actor\<close> gave \<open>uid\<close> the role \<open>q\<close>.\<close>

definition role_given :: "uuid \<Rightarrow> uuid \<Rightarrow> role \<Rightarrow> user_db \<Rightarrow> user_db \<Rightarrow> bool" where
  "role_given actor uid q d d' \<longleftrightarrow>
     q \<in> set (roles d) \<and> uid \<in> au_id ` set (app_users d) \<and>
     (\<exists>new e. d' = d\<lparr>user_roles := user_roles d @ new, user_audit_events := user_audit_events d @ [e]\<rparr> \<and>
        event_type e = AUDIT_ROLE_ASSIGNED \<and> actor_user_id e = Some actor \<and> target_user_id e = Some uid \<and>
        (if holds_role d uid (ro_id q) then new = [] else \<exists>x. new = [x] \<and> ur_user_id x = uid \<and> ur_role_id x = ro_id q))"

lemma run_app_user_get_by_id:
  "app_user_get_by_id n s = scalar_one_or_none (filter (\<lambda>u. au_id u = n) (app_users (udb s))) s"
  by (simp add: app_user_get_by_id_def)

lemma get_user_by_id_Inr:
  assumes "get_user_by_id uid s = (Inr u, t)"
  shows "t = s \<and> uid \<in> au_id ` set (app_users (udb s))"
proof -
  obtain v s1 where v: "app_user_get_by_id uid s = (Inr v, s1)"
    and rest: "(case v of None \<Rightarrow> raise (NotFoundException ''User not found'') | Some u \<Rightarrow> ret u) s1 = (Inr u, t)"
    using assms unfolding get_user_by_id_def by (rule bindE_InrE)
  show ?thesis
    using rest scalar_Inr [OF v [unfolded run_app_user_get_by_id]] by (cases v) auto
qed

lemma assign_role_by_name_Inr:
  assumes "assign_role_by_name X uid n s = (Inr a, t)"
  obtains q where "q \<in> set (roles (udb s))" "ro_name q = n" "assign_role_to_user X uid (ro_id q) s = (Inr a, t)"
proof -
  obtain v u where v: "get_role_by_name n s = (Inr v, u)"
    and rest: "(case v of None \<Rightarrow> raise (BadRequestException ''Unknown role'')
       | Some r \<Rightarrow> assign_role_to_user X uid (ro_id r)) u = (Inr a, t)"
    using assms unfolding assign_role_by_name_def by (rule bindE_InrE)
  show thesis using rest get_role_by_name_Inr [OF v] that by (cases v) auto
qed

lemma give_role_Inr:
  assumes "bindE (get_user_by_id uid) (\<lambda>_. thenE (assign_role_by_name X uid n)
      (user_log_event X AUDIT_ROLE_ASSIGNED ''success'' (Some actor) (Some uid) ip ua pl)) s = (Inr a, t)"
  obtains q where "ro_name q = n" "role_given actor uid q (udb s) (udb t)"
proof -
  obtain u s1 where u: "get_user_by_id uid s = (Inr u, s1)"
    and r1: "thenE (assign_role_by_name X uid n)
      (user_log_event X AUDIT_ROLE_ASSIGNED ''success'' (Some actor) (Some uid) ip ua pl) s1 = (Inr a, t)"
    using assms by (rule bindE_InrE)
  note U = get_user_by_id_Inr [OF u]
  obtain b s2 where b: "assign_role_by_name X uid n s = (Inr b, s2)"
    and r2: "user_log_event X AUDIT_ROLE_ASSIGNED ''success'' (Some actor) (Some uid) ip ua pl s2 = (Inr a, t)"
    using r1 U by (auto elim: thenE_InrE)
  obtain e where e: "event_type e = AUDIT_ROLE_ASSIGNED" "target_user_id e = Some uid" "actor_user_id e = Some actor"
    and t: "t = s2\<lparr>draws := Suc (draws s2), udb := (udb s2)\<lparr>user_audit_events := user_audit_events (udb s2) @ [e]\<rparr>, unflushed := False\<rparr>"
    using r2 by (rule user_log_event_Inr)
  obtain q where q: "q \<in> set (roles (udb s))" "ro_name q = n" and as: "assign_role_to_user X uid (ro_id q) s = (Inr b, s2)"
    using b by (rule assign_role_by_name_Inr)
  from as have "role_given actor uid q (udb s) (udb t)"
  proof (cases rule: assign_role_to_user_Inr)
    case (old y)
    then have "holds_role (udb s) uid (ro_id q)" by (auto simp: holds_role_def)
    then show ?thesis unfolding role_given_def using U q e t old
      by (auto intro!: exI [of _ "[]"] exI [of _ e])
  next
    case (new x)
    then have "\<not> holds_role (udb s) uid (ro_id q)" by (auto simp: holds_role_def)
    then show ?thesis unfolding role_given_def using U q e t new
      by (auto intro!: exI [of _ "[x]"] exI [of _ e])
  qed
  with q show thesis using that by blast
qed

lemma role_given_wf:
  assumes "role_given actor uid q d d'" "wf_udb d"
  shows "wf_udb d'"
proof -
  obtain new and e :: audit_event where d: "d' = d\<lparr>user_roles := user_roles d @ new, user_audit_events := user_audit_events d @ [e]\<rparr>"
    and new: "if holds_role d uid (ro_id q) then new = [] else \<exists>x. new = [x] \<and> ur_user_id x = uid \<and> ur_role_id x = ro_id q"
    and q: "q \<in> set (roles d)" "uid \<in> au_id ` set (app_users d)"
    using assms(1) unfolding role_given_def by auto
  show ?thesis
  proof (cases "holds_role d uid (ro_id q)")
    case True
    then show ?thesis using new assms(2) by (simp add: d wf_udb_def)
  next
    case False
    then obtain x where x: "new = [x]" "ur_user_id x = uid" "ur_role_id x = ro_id q" using new by auto
    have "(uid, ro_id q) \<notin> (\<lambda>x. (ur_user_id x, ur_role_id x)) ` set (user_roles d)"
      using False by (auto simp: holds_role_def)
    then show ?thesis using assms(2) x q by (simp add: d wf_udb_def)
  qed
qed

text \<open>The writing part of the endpoint, as one program before its commit.\<close>

lemma assign_role_cases:
  assumes wf: "wf_udb (udb s)" and clean: "\<not> unflushed s" and run: "assign_role_endpoint X cfg param rq s = (r, t)"
  obtains (stopped) e where "r = Inl e" "ucommitted t = ucommitted s"
  | (given) j c s' sub uid q where "request_json X rq s = (Inr j, s)" "path_uuid X param = Some uid"
      "parse_assign_role j = Some (ro_name q)" "entered X cfg rq s sub c s'"
      "PERMISSION_ROLES_ASSIGN \<in> set (permission_names_of sub (udb s'))"
      "role_given sub uid q (udb s') (ucommitted t)"
  using wf clean run [unfolded assign_role_endpoint_def]
proof (cases rule: write_endpoint_cases)
  case (stopped e)
  then show thesis using that(1) by blast
next
  case (entered j c s' sub)
  note D = enteredD [OF entered(2) wf]
  show thesis
  proof (cases "\<exists>uid n. path_uuid X param = Some uid \<and> parse_assign_role j = Some n \<and> PERMISSION_ROLES_ASSIGN \<in> cx_permissions c")
    case False
    then show thesis using entered(3) D(6) that(1)
      by (cases "path_uuid X param"; cases "parse_assign_role j") (auto simp: validated_def ensure_permission_def)
  next
    case True
    then obtain uid n where v: "path_uuid X param = Some uid" "parse_assign_role j = Some n" "PERMISSION_ROLES_ASSIGN \<in> cx_permissions c"
      by blast
    let ?give = "bindE (get_user_by_id uid) (\<lambda>_. thenE (assign_role_by_name X uid n)
      (user_log_event X AUDIT_ROLE_ASSIGNED ''success'' (Some sub) (Some uid) (client_of X cfg rq) (agent_of rq)
        (Some [(''role_name'', JStr n)])))"
    obtain r1 s1 where g: "?give s' = (r1, s1)" by fastforce
    have w: "within same_committed ?give" by (intro same_rules within_same_services)
    have same: "ucommitted s1 = ucommitted s'" using within_run [OF w g] by (simp add: same_committed_def)
    have run: "thenE ?give (thenE ucommit (ret (json_response 200 (JDict [(''message'', JStr ''Role assigned'')])))) s' = (r, t)"
      using entered(3) v D(4) by (simp add: validated_def ensure_permission_def thenE_def bindE_assoc)
    show thesis
    proof (cases r1)
      case (Inl e)
      then show thesis using run g same D(6) that(1) by auto
    next
      case (Inr a)
      obtain q where q: "ro_name q = n" "role_given sub uid q (udb s') (udb s1)"
        using g [unfolded Inr] by (rule give_role_Inr)
      moreover have "ucommitted t = udb s1" using run g Inr by auto
      ultimately show thesis using that(2) [OF entered(1) v(1) _ entered(2), of q] v D(5) by simp
    qed
  qed
qed


section \<open>Seeding\<close>

definition granted :: "user_db \<Rightarrow> uuid \<Rightarrow> uuid \<Rightarrow> bool" where
  "granted d rid pid \<longleftrightarrow> (\<exists>x \<in> set (role_permissions d). rp_role_id x = rid \<and> rp_permission_id x = pid)"

text \<open>Only roles, permissions and grants were added, well-formedness and the absence of admins kept.\<close>

definition seed_grown :: "user_db \<Rightarrow> user_db \<Rightarrow> bool" where
  "seed_grown d d' \<longleftrightarrow>
     set (roles d) \<subseteq> set (roles d') \<and> set (permissions d) \<subseteq> set (permissions d') \<and>
     (\<forall>rid pid. granted d rid pid \<longrightarrow> granted d' rid pid) \<and> app_users d' = app_users d \<and>
     user_profiles d' = user_profiles d \<and> user_roles d' = user_roles d \<and> user_audit_events d' = user_audit_events d \<and>
     (wf_udb d \<longrightarrow> wf_udb d') \<and> (wf_udb d \<and> no_admin d \<longrightarrow> no_admin d')"

lemma seed_grown_refl: "seed_grown d d"
  by (simp add: seed_grown_def)

lemma seed_grown_trans: "seed_grown a b \<Longrightarrow> seed_grown b c \<Longrightarrow> seed_grown a c"
  unfolding seed_grown_def by (auto simp: subset_iff)

lemma seed_grownD:
  assumes "seed_grown d d'"
  shows "r \<in> set (roles d) \<Longrightarrow> r \<in> set (roles d')" "p \<in> set (permissions d) \<Longrightarrow> p \<in> set (permissions d')"
  using assms by (auto simp: seed_grown_def)

lemma new_role_grown:
  assumes "rid \<notin> ro_id ` set (roles d)" "n \<notin> ro_name ` set (roles d)"
  shows "seed_grown d (d\<lparr>roles := roles d @ [\<lparr>ro_id = rid, ro_name = n, ro_description = desc\<rparr>]\<rparr>)"
proof -
  have "no_admin (d\<lparr>roles := roles d @ [\<lparr>ro_id = rid, ro_name = n, ro_description = desc\<rparr>]\<rparr>)" if "wf_udb d" "no_admin d"
    using that assms(1) unfolding wf_udb_def no_admin_def by auto
  then show ?thesis using assms by (auto simp: seed_grown_def granted_def wf_udb_def)
qed

lemma new_permission_grown:
  assumes "pid \<notin> pe_id ` set (permissions d)" "n \<notin> pe_name ` set (permissions d)"
  shows "seed_grown d (d\<lparr>permissions := permissions d @ [\<lparr>pe_id = pid, pe_name = n, pe_description = desc\<rparr>]\<rparr>)"
proof -
  have "no_admin (d\<lparr>permissions := permissions d @ [\<lparr>pe_id = pid, pe_name = n, pe_description = desc\<rparr>]\<rparr>)" if "wf_udb d" "no_admin d"
    using that assms(1) unfolding wf_udb_def no_admin_def by auto
  then show ?thesis using assms by (auto simp: seed_grown_def granted_def wf_udb_def)
qed

lemma role_step:
  assumes "bindE (get_or_create_role X n desc) f s = (Inr a, t)"
  obtains r s' where "f r s' = (Inr a, t)" "seed_grown (udb s) (udb s')" "r \<in> set (roles (udb s'))" "ro_name r = n"
proof -
  obtain r s' where g: "get_or_create_role X n desc s = (Inr r, s')" and f: "f r s' = (Inr a, t)"
    using assms by (rule bindE_InrE)
  obtain v s1 where v: "get_role_by_name n s = (Inr v, s1)"
    and rest: "(case v of Some r \<Rightarrow> ret r | None \<Rightarrow> create_role X n (Some desc)) s1 = (Inr r, s')"
    using g unfolding get_or_create_role_def by (rule bindE_InrE)
  note V = get_role_by_name_Inr [OF v]
  show thesis
  proof (cases v)
    case (Some q)
    then show thesis using that [OF f] V rest by (simp add: seed_grown_refl)
  next
    case None
    then show thesis using that [OF f] V rest new_role_grown [of "uuid4 X (draws s)" "udb s" n "Some desc"]
      by (auto simp: create_role_def run_add_and_flush Let_def thenE_def bindE_def split: if_splits)
  qed
qed

lemma permission_step:
  assumes "bindE (get_or_create_permission X n desc) f s = (Inr a, t)"
  obtains p s' where "f p s' = (Inr a, t)" "seed_grown (udb s) (udb s')" "p \<in> set (permissions (udb s'))" "pe_name p = n"
proof -
  obtain p s' where g: "get_or_create_permission X n desc s = (Inr p, s')" and f: "f p s' = (Inr a, t)"
    using assms by (rule bindE_InrE)
  obtain v s1 where v: "get_permission_by_name n s = (Inr v, s1)"
    and rest: "(case v of Some r \<Rightarrow> ret r | None \<Rightarrow> create_permission X n (Some desc)) s1 = (Inr p, s')"
    using g unfolding get_or_create_permission_def by (rule bindE_InrE)
  have "get_permission_by_name n s = scalar_one_or_none (filter (\<lambda>p. pe_name p = n) (permissions (udb s))) s"
    by (simp add: get_permission_by_name_def)
  note V = scalar_Inr [OF v [unfolded this]]
  show thesis
  proof (cases v)
    case (Some q)
    then show thesis using that [OF f] V rest by (simp add: seed_grown_refl)
  next
    case None
    then show thesis using that [OF f] V rest new_permission_grown [of "uuid4 X (draws s)" "udb s" n "Some desc"]
      by (auto simp: create_permission_def run_add_and_flush Let_def thenE_def bindE_def split: if_splits)
  qed
qed


text \<open>One grant: it is there afterwards. It may only concern the right to assign roles for the role \<open>admin\<close>.\<close>

lemma grant_step:
  assumes run: "ensure_role_permission X (ro_id r) (pe_id p) s = (Inr a, t)" and r: "r \<in> set (roles (udb s))"
    and p: "p \<in> set (permissions (udb s))" and ok: "pe_name p = PERMISSION_ROLES_ASSIGN \<longrightarrow> ro_name r = ROLE_ADMIN"
  shows "seed_grown (udb s) (udb t) \<and> granted (udb t) (ro_id r) (pe_id p)"
proof -
  let ?P = "\<lambda>x. rp_role_id x = ro_id r \<and> rp_permission_id x = pe_id p"
  obtain v s1 where v: "scalar_one_or_none (filter ?P (role_permissions (udb s))) s = (Inr v, s1)"
    and rest: "(if v \<noteq> None then ret () else bindE (draw (uuid4 X)) (\<lambda>xid. bindE (uselect (\<lambda>d. d)) (\<lambda>d0.
           add_and_flush True (xid \<notin> rp_id ` set (role_permissions d0) \<and> ro_id r \<in> ro_id ` set (roles d0) \<and>
              pe_id p \<in> pe_id ` set (permissions d0))
             (\<lambda>d. d\<lparr>role_permissions := role_permissions d @
                [\<lparr>rp_id = xid, rp_role_id = ro_id r, rp_permission_id = pe_id p\<rparr>]\<rparr>)))) s1 = (Inr a, t)"
    using run by (auto simp: ensure_role_permission_def elim!: bindE_InrE)
  note V = scalar_Inr [OF v]
  show ?thesis
  proof (cases v)
    case (Some x)
    then show ?thesis using V rest by (auto simp: seed_grown_refl granted_def)
  next
    case None
    let ?x = "\<lparr>rp_id = uuid4 X (draws s), rp_role_id = ro_id r, rp_permission_id = pe_id p\<rparr>"
    let ?d = "(udb s)\<lparr>role_permissions := role_permissions (udb s) @ [?x]\<rparr>"
    have t: "udb t = ?d" using rest None V by (auto simp: run_add_and_flush split: if_splits)
    have fresh: "(ro_id r, pe_id p) \<notin> (\<lambda>x. (rp_role_id x, rp_permission_id x)) ` set (role_permissions (udb s))"
      using V None by auto
    then have wf: "wf_udb ?d" if "wf_udb (udb s)"
      using that r p by (simp add: wf_udb_def)
    have "ro_name r' = ROLE_ADMIN" if "wf_udb (udb s)" "r' \<in> set (roles (udb s))" "p' \<in> set (permissions (udb s))"
        "ro_id r = ro_id r'" "pe_id p = pe_id p'" "pe_name p' = PERMISSION_ROLES_ASSIGN" for r' p'
      using distinct_key_eq [OF wf_udbD(4) [OF that(1)] that(2) r] distinct_key_eq [OF wf_udbD(6) [OF that(1)] that(3) p] that ok
      by auto
    then have "no_admin ?d" if "wf_udb (udb s)" "no_admin (udb s)"
      using that unfolding no_admin_def by auto
    with wf show ?thesis unfolding t by (auto simp: seed_grown_def granted_def)
  qed
qed

lemma grants_steps:
  assumes "forE ps (\<lambda>p. ensure_role_permission X (ro_id r) (pe_id p)) s = (Inr a, t)"
    and "r \<in> set (roles (udb s))" "set ps \<subseteq> set (permissions (udb s))"
    and "\<forall>p \<in> set ps. pe_name p = PERMISSION_ROLES_ASSIGN \<longrightarrow> ro_name r = ROLE_ADMIN"
  shows "seed_grown (udb s) (udb t) \<and> (\<forall>p \<in> set ps. granted (udb t) (ro_id r) (pe_id p))"
  using assms
proof (induction ps arbitrary: s)
  case Nil
  then show ?case by (simp add: seed_grown_refl)
next
  case (Cons p ps)
  obtain b s1 where b: "ensure_role_permission X (ro_id r) (pe_id p) s = (Inr b, s1)"
    and rest: "forE ps (\<lambda>p. ensure_role_permission X (ro_id r) (pe_id p)) s1 = (Inr a, t)"
    using Cons.prems(1) by (auto elim: thenE_InrE)
  have 1: "seed_grown (udb s) (udb s1) \<and> granted (udb s1) (ro_id r) (pe_id p)"
    by (rule grant_step [OF b]) (use Cons.prems in auto)
  have 2: "seed_grown (udb s1) (udb t) \<and> (\<forall>p \<in> set ps. granted (udb t) (ro_id r) (pe_id p))"
    by (rule Cons.IH [OF rest]) (use Cons.prems 1 in \<open>auto simp: seed_grown_def\<close>)
  have "seed_grown (udb s) (udb t)" by (rule seed_grown_trans [OF conjunct1 [OF 1] conjunct1 [OF 2]])
  moreover have "granted (udb t) (ro_id r) (pe_id p)" using 1 2 unfolding seed_grown_def by blast
  ultimately show ?case using 2 by simp
qed

text \<open>The two roles, the five permissions and who has which.\<close>

definition SEED_USER :: "string list" where
  "SEED_USER = [PERMISSION_PROFILE_READ_SELF, PERMISSION_PROFILE_WRITE_SELF]"

definition SEED_ADMIN :: "string list" where
  "SEED_ADMIN = [PERMISSION_PROFILE_READ_SELF, PERMISSION_PROFILE_WRITE_SELF, PERMISSION_USERS_READ,
     PERMISSION_USERS_WRITE, PERMISSION_ROLES_ASSIGN]"

definition role_grants :: "user_db \<Rightarrow> string \<Rightarrow> string \<Rightarrow> bool" where
  "role_grants d rn pn \<longleftrightarrow> (\<exists>r \<in> set (roles d). \<exists>p \<in> set (permissions d).
     ro_name r = rn \<and> pe_name p = pn \<and> granted d (ro_id r) (pe_id p))"

definition seeded :: "user_db \<Rightarrow> bool" where
  "seeded d \<longleftrightarrow> (\<forall>pn \<in> set SEED_USER. role_grants d ROLE_USER pn) \<and> (\<forall>pn \<in> set SEED_ADMIN. role_grants d ROLE_ADMIN pn)"

lemma ensure_seed_data_Inr:
  fixes X :: "'r extern"
  assumes "ensure_seed_data X s = (Inr a, t)"
  shows "seed_grown (udb s) (udb t) \<and> seeded (udb t)"
proof -
  obtain ur ar p1 p2 p3 p4 p5 and s1 s2 s3 s4 s5 s6 s7 :: "'r user_node" where g: "seed_grown (udb s) (udb s1)" "seed_grown (udb s1) (udb s2)"
      "seed_grown (udb s2) (udb s3)" "seed_grown (udb s3) (udb s4)" "seed_grown (udb s4) (udb s5)" "seed_grown (udb s5) (udb s6)"
      "seed_grown (udb s6) (udb s7)"
    and m: "ur \<in> set (roles (udb s1))" "ar \<in> set (roles (udb s2))" "p1 \<in> set (permissions (udb s3))"
      "p2 \<in> set (permissions (udb s4))" "p3 \<in> set (permissions (udb s5))" "p4 \<in> set (permissions (udb s6))" "p5 \<in> set (permissions (udb s7))"
    and n: "ro_name ur = ROLE_USER" "ro_name ar = ROLE_ADMIN" "pe_name p1 = PERMISSION_PROFILE_READ_SELF"
      "pe_name p2 = PERMISSION_PROFILE_WRITE_SELF" "pe_name p3 = PERMISSION_USERS_READ" "pe_name p4 = PERMISSION_USERS_WRITE"
      "pe_name p5 = PERMISSION_ROLES_ASSIGN"
    and rest: "thenE (ensure_role_permission X (ro_id ur) (pe_id p1)) (thenE (ensure_role_permission X (ro_id ur) (pe_id p2))
       (forE [p1, p2, p3, p4, p5] (\<lambda>p. ensure_role_permission X (ro_id ar) (pe_id p)))) s7 = (Inr a, t)"
    using assms unfolding ensure_seed_data_def
    by (elim role_step permission_step) (rule that; assumption)
  note T = seed_grown_trans
  have g6: "seed_grown (udb s5) (udb s7)" by (rule T [OF g(6) g(7)])
  have g5: "seed_grown (udb s4) (udb s7)" by (rule T [OF g(5) g6])
  have g4: "seed_grown (udb s3) (udb s7)" by (rule T [OF g(4) g5])
  have g3: "seed_grown (udb s2) (udb s7)" by (rule T [OF g(3) g4])
  have g2: "seed_grown (udb s1) (udb s7)" by (rule T [OF g(2) g3])
  have g7: "seed_grown (udb s) (udb s7)" by (rule T [OF g(1) g2])
  have m7: "ur \<in> set (roles (udb s7))" "ar \<in> set (roles (udb s7))" "{p1, p2, p3, p4, p5} \<subseteq> set (permissions (udb s7))"
    using m seed_grownD(1) [OF g2] seed_grownD(1) [OF g3] seed_grownD(2) [OF g4] seed_grownD(2) [OF g5] seed_grownD(2) [OF g6]
      seed_grownD(2) [OF g(7)] by simp_all
  obtain s8 where r1: "forE [p1, p2] (\<lambda>p. ensure_role_permission X (ro_id ur) (pe_id p)) s7 = (Inr (), s8)"
    and r2: "forE [p1, p2, p3, p4, p5] (\<lambda>p. ensure_role_permission X (ro_id ar) (pe_id p)) s8 = (Inr a, t)"
    using rest by (auto elim!: thenE_InrE)
  have 1: "seed_grown (udb s7) (udb s8) \<and> (\<forall>p \<in> set [p1, p2]. granted (udb s8) (ro_id ur) (pe_id p))"
    by (rule grants_steps [OF r1]) (use m7 n in \<open>auto simp: rbac_constants\<close>)
  have 2: "seed_grown (udb s8) (udb t) \<and> (\<forall>p \<in> set [p1, p2, p3, p4, p5]. granted (udb t) (ro_id ar) (pe_id p))"
    by (rule grants_steps [OF r2]) (use m7 n 1 in \<open>auto simp: seed_grown_def\<close>)
  have g8: "seed_grown (udb s7) (udb t)" by (rule T [OF conjunct1 [OF 1] conjunct1 [OF 2]])
  have f: "ur \<in> set (roles (udb t))" "ar \<in> set (roles (udb t))" "{p1, p2, p3, p4, p5} \<subseteq> set (permissions (udb t))"
    using m7 seed_grownD [OF g8] by auto
  have gr: "granted (udb t) (ro_id ur) (pe_id p1)" "granted (udb t) (ro_id ur) (pe_id p2)"
    using 1 2 by (simp_all add: seed_grown_def)
  have "role_grants (udb t) ROLE_USER pn" if "pn \<in> set SEED_USER" for pn
    unfolding role_grants_def using that f gr n by (fastforce simp: SEED_USER_def)
  moreover have "role_grants (udb t) ROLE_ADMIN pn" if "pn \<in> set SEED_ADMIN" for pn
    unfolding role_grants_def using that f 2 n by (fastforce simp: SEED_ADMIN_def)
  moreover have "seed_grown (udb s) (udb t)" by (rule T [OF g7 g8])
  ultimately show ?thesis by (simp add: seeded_def)
qed

end
