(* ===== verification/User_Properties.thy ===== *)
theory User_Properties
  imports User_Runs
begin

text \<open>
  The user-service as a whole: every request, whatever it is, leaves the committed tables alone, writes the caller's own
  profile, or gives a role on behalf of a caller who may. From this follow the invariants of its runs.
\<close>

section \<open>The effect of any request\<close>

definition user_effect ::
  "'r extern \<Rightarrow> user_settings \<Rightarrow> http_request \<Rightarrow> 'r user_node \<Rightarrow> 'r user_node \<Rightarrow> bool" where
  "user_effect X cfg rq s t \<longleftrightarrow>
     ucommitted t = ucommitted s \<or>
     (\<exists>c s' sub. entered X cfg rq s sub c s' \<and>
        ((\<exists>name loc tz av. PERMISSION_PROFILE_WRITE_SELF \<in> set (permission_names_of sub (udb s')) \<and>
            profile_written sub name loc tz av (udb s') (ucommitted t)) \<or>
         (\<exists>uid q. PERMISSION_ROLES_ASSIGN \<in> set (permission_names_of sub (udb s')) \<and>
            role_given sub uid q (udb s') (ucommitted t))))"

lemma reading_endpoint:
  assumes "wf_udb (udb s)" "\<not> unflushed s" "\<And>c. within same_committed (f c)"
  shows "ucommitted (snd (bindE (get_current_context X cfg rq) f s)) = ucommitted s"
proof (cases "get_current_context X cfg rq s")
  case (Pair r t)
  then have "ucommitted t = ucommitted s" using get_current_context_same [OF assms(1,2), of X cfg rq] by simp
  then show ?thesis using Pair withinD [OF assms(3)] by (cases r) (auto simp: same_committed_def)
qed

lemma reading_endpoints:
  assumes "wf_udb (udb s)" "\<not> unflushed s"
  shows "ucommitted (snd (me_endpoint X cfg a rq s)) = ucommitted s"
    "ucommitted (snd (get_user_endpoint X cfg a rq s)) = ucommitted s"
    "ucommitted (snd (my_profile_endpoint X cfg a rq s)) = ucommitted s"
    "ucommitted (snd (my_roles_endpoint X cfg a rq s)) = ucommitted s"
    "ucommitted (snd (my_permissions_endpoint X cfg a rq s)) = ucommitted s"
    "ucommitted (snd (user_liveness_endpoint a rq s)) = ucommitted s"
  unfolding me_endpoint_def get_user_endpoint_def my_profile_endpoint_def my_roles_endpoint_def my_permissions_endpoint_def
  by (rule reading_endpoint [OF assms], intro same_rules within_same_services)+ (simp add: user_liveness_endpoint_def)

lemma writing_endpoints:
  assumes wf: "wf_udb (udb s)" "\<not> unflushed s"
  shows "user_effect X cfg rq s (snd (update_profile_endpoint X cfg a rq s))"
    "user_effect X cfg rq s (snd (assign_role_endpoint X cfg a rq s))"
proof -
  obtain r t where u: "update_profile_endpoint X cfg a rq s = (r, t)" by fastforce
  from wf u show "user_effect X cfg rq s (snd (update_profile_endpoint X cfg a rq s))"
  proof (cases rule: update_profile_cases)
    case (stopped e)
    then show ?thesis by (simp add: user_effect_def u)
  next
    case (written j c s' sub name loc tz av)
    then show ?thesis unfolding user_effect_def u by auto
  qed
  obtain r t where u: "assign_role_endpoint X cfg a rq s = (r, t)" by fastforce
  from wf u show "user_effect X cfg rq s (snd (assign_role_endpoint X cfg a rq s))"
  proof (cases rule: assign_role_cases)
    case (stopped e)
    then show ?thesis by (simp add: user_effect_def u)
  next
    case (given j c s' sub uid q)
    then show ?thesis unfolding user_effect_def u by auto
  qed
qed

lemma find_routes:
  assumes "find P xs = Some x" "\<And>y. y \<in> set xs \<Longrightarrow> Q y"
  shows "Q x"
  using find_SomeD [OF assms(1)] assms(2) by simp

lemma user_dispatch_effect:
  assumes wf: "wf_udb (udb s)" "\<not> unflushed s"
  shows "user_effect X cfg rq s (snd (dispatch_param (user_routes X cfg) rq s))"
proof (cases "find (\<lambda>(m, p, _). m = rq_method rq \<and> p (rq_path rq) \<noteq> None) (user_routes X cfg)")
  case None
  then show ?thesis by (simp add: dispatch_param_def user_effect_def)
next
  case (Some x)
  have same: "user_effect X cfg rq s u" if "ucommitted u = ucommitted s" for u
    using that by (simp add: user_effect_def)
  have "(\<lambda>(m, p, h). \<forall>a. user_effect X cfg rq s (snd (h a rq s))) x"
  proof (rule find_routes [OF Some])
    fix y
    assume "y \<in> set (user_routes X cfg)"
    then show "(\<lambda>(m, p, h). \<forall>a. user_effect X cfg rq s (snd (h a rq s))) y"
      unfolding user_routes_def list.set insert_iff empty_iff
      by (elim disjE FalseE) (simp_all add: writing_endpoints [OF wf] same reading_endpoints [OF wf])
  qed
  then show ?thesis using Some by (cases x) (simp add: dispatch_param_def)
qed

definition opened :: "'r user_node \<Rightarrow> 'r user_node" where
  "opened s = s\<lparr>udb := ucommitted s, unflushed := False\<rparr>"

lemma opened_simps [simp]: "udb (opened s) = ucommitted s" "ucommitted (opened s) = ucommitted s" "\<not> unflushed (opened s)"
  "clock (opened s) = clock s" "redis (opened s) = redis s"
  by (simp_all add: opened_def)

lemma user_app_effect:
  assumes "wf_udb (ucommitted s)" "user_app X cfg rq s = (r, t)"
  shows "user_effect X cfg rq (opened s) t" "udb t = ucommitted t"
proof -
  obtain r' t' where d: "dispatch_param (user_routes X cfg) rq (opened s) = (r', t')" by fastforce
  then have t: "t = t'\<lparr>udb := ucommitted t', unflushed := False\<rparr>"
    using assms(2) by (simp add: user_app_def with_usession_def opened_def)
  have "user_effect X cfg rq (opened s) t'"
    using user_dispatch_effect [of "opened s" X cfg rq] assms(1) d by simp
  then show "user_effect X cfg rq (opened s) t" "udb t = ucommitted t"
    by (simp_all add: t user_effect_def)
qed

lemma user_effect_wf:
  assumes "user_effect X cfg rq s t" "wf_udb (ucommitted s)" "udb s = ucommitted s"
  shows "wf_udb (ucommitted t)" "no_admin (ucommitted s) \<Longrightarrow> no_admin (ucommitted t)"
proof -
  have wf: "wf_udb (udb s)" using assms(2,3) by simp
  show "wf_udb (ucommitted t)"
    using assms enteredD(1) [OF _ wf] profile_written_wf(1) role_given_wf
    by (auto simp: user_effect_def)
  show "no_admin (ucommitted t)" if "no_admin (ucommitted s)"
  proof -
    have no: "no_admin (udb s')" if "entered X cfg rq s sub c s'" for sub c s'
      using enteredD(2) [OF that wf] \<open>no_admin (ucommitted s)\<close> assms(3) by simp
    then show ?thesis
      using assms(1) that no no_admin_permissions profile_written_wf(2) by (auto simp: user_effect_def)
  qed
qed

section \<open>Runs\<close>

text \<open>
  The service is started (and restarted), answers requests, and meanwhile time passes and the shared cache
  changes in any way.
\<close>

inductive user_step :: "'r extern \<Rightarrow> user_settings \<Rightarrow> 'r user_node \<Rightarrow> 'r user_node \<Rightarrow> bool"
  for X :: "'r extern" and cfg :: user_settings where
  request: "serve_user X cfg rq s = (r, t) \<Longrightarrow> user_step X cfg s t"
| restart: "user_startup X s = (r, t) \<Longrightarrow> user_step X cfg s t"
| world: "clock s \<le> now \<Longrightarrow> draws s \<le> n \<Longrightarrow> user_step X cfg s (s\<lparr>clock := now, draws := n, redis := c\<rparr>)"

abbreviation user_run :: "'r extern \<Rightarrow> user_settings \<Rightarrow> 'r user_node \<Rightarrow> 'r user_node \<Rightarrow> bool" where
  "user_run X cfg \<equiv> (user_step X cfg)\<^sup>*\<^sup>*"

lemma serve_user_run:
  assumes "serve_user X cfg rq s = (r, t)"
  obtains n rs where "user_app X cfg rq (s\<lparr>draws := n\<rparr>) = (rs, t)"
proof -
  obtain n rid where q: "request_id_from_header X (header_get rq ''x-request-id'') s = (Inr rid, s\<lparr>draws := n\<rparr>)"
    using request_id_run by blast
  obtain rs u where u: "user_app X cfg rq (s\<lparr>draws := n\<rparr>) = (rs, u)" by fastforce
  then have "t = u" using assms by (simp add: serve_user_def serve_def q)
  then show thesis using that u by blast
qed

lemma user_startup_cases:
  assumes "user_startup X s = (r, t)"
  obtains (failed) e where "r = Inl e" "ucommitted t = ucommitted s"
  | (started) "r = Inr ()" "seed_grown (ucommitted s) (ucommitted t)" "seeded (ucommitted t)" "udb t = ucommitted t"
proof -
  have w: "within same_committed (ensure_seed_data X)"
    unfolding ensure_seed_data_def get_or_create_role_def get_or_create_permission_def
    by (intro same_rules within_same_repositories)
  obtain r1 s1 where e: "ensure_seed_data X (opened s) = (r1, s1)" by fastforce
  have same: "ucommitted s1 = ucommitted s" using within_run [OF w e] by (simp add: same_committed_def)
  show thesis
  proof (cases r1)
    case (Inl x)
    then show thesis using assms e same failed by (auto simp: user_startup_def with_usession_def opened_def)
  next
    case (Inr u)
    then have "seed_grown (ucommitted s) (udb s1) \<and> seeded (udb s1)" using ensure_seed_data_Inr [of X "opened s" u s1] e by simp
    moreover have "t = s1\<lparr>ucommitted := udb s1, unflushed := False\<rparr>" "r = Inr ()"
      using assms e Inr by (auto simp: user_startup_def with_usession_def opened_def)
    ultimately show thesis using started by simp
  qed
qed

lemma user_step_wf:
  assumes "user_step X cfg s t" "wf_udb (ucommitted s)"
  shows "wf_udb (ucommitted t) \<and> (no_admin (ucommitted s) \<longrightarrow> no_admin (ucommitted t))"
  using assms(1)
proof (cases rule: user_step.cases)
  case (request rq r)
  obtain n rs where app: "user_app X cfg rq (s\<lparr>draws := n\<rparr>) = (rs, t)" using request by (rule serve_user_run)
  show ?thesis
    using user_effect_wf [OF user_app_effect(1) [OF _ app]] assms(2) by simp
next
  case (restart r)
  then show ?thesis
    by (cases rule: user_startup_cases) (use assms(2) in \<open>auto simp: seed_grown_def\<close>)
qed (use assms(2) in simp)

lemma user_run_wf:
  assumes "user_run X cfg s t" "wf_udb (ucommitted s)"
  shows "wf_udb (ucommitted t) \<and> (no_admin (ucommitted s) \<longrightarrow> no_admin (ucommitted t))"
  using assms
proof (induction rule: rtranclp_induct)
  case (step u t)
  then show ?case using user_step_wf [OF step.hyps(2)] by blast
qed simp

lemma empty_user_db_wf: "wf_udb empty_user_db" "no_admin empty_user_db"
  by (simp_all add: wf_udb_def no_admin_def empty_user_db_def)

lemma no_admin_role:
  assumes "no_admin d"
  shows "ROLE_ADMIN \<notin> ro_name ` set (roles_of uid d)"
proof
  assume "ROLE_ADMIN \<in> ro_name ` set (roles_of uid d)"
  then obtain r x where "r \<in> set (roles d)" "x \<in> set (user_roles d)" "ur_role_id x = ro_id r" "ro_name r = ROLE_ADMIN"
    by (auto simp: set_roles_of)
  then show False using assms by (simp add: no_admin_def)
qed

lemma wf_udb_facts:
  assumes "wf_udb d"
  shows "u \<in> set (app_users d) \<Longrightarrow> \<exists>p. filter (\<lambda>p. up_user_id p = au_id u) (user_profiles d) = [p]"
    "x \<in> set (user_roles d) \<Longrightarrow> \<exists>u \<in> set (app_users d). \<exists>r \<in> set (roles d). ur_user_id x = au_id u \<and> ur_role_id x = ro_id r"
    "x' \<in> set (role_permissions d) \<Longrightarrow> \<exists>r \<in> set (roles d). \<exists>p \<in> set (permissions d). rp_role_id x' = ro_id r \<and> rp_permission_id x' = pe_id p"
proof -
  show "\<exists>p. filter (\<lambda>p. up_user_id p = au_id u) (user_profiles d) = [p]" if "u \<in> set (app_users d)"
  proof -
    have "au_id u \<in> up_user_id ` set (user_profiles d)" using that wf_udbD(9) [OF assms] by simp
    then obtain p where "p \<in> set (user_profiles d)" "up_user_id p = au_id u" by auto
    with filter_key_distinct [OF wf_udbD(3) [OF assms] this(1)] show ?thesis by auto
  qed
  show "\<exists>u \<in> set (app_users d). \<exists>r \<in> set (roles d). ur_user_id x = au_id u \<and> ur_role_id x = ro_id r" if "x \<in> set (user_roles d)"
    using that assms unfolding wf_udb_def by blast
  show "\<exists>r \<in> set (roles d). \<exists>p \<in> set (permissions d). rp_role_id x' = ro_id r \<and> rp_permission_id x' = pe_id p"
    if "x' \<in> set (role_permissions d)"
    using that assms unfolding wf_udb_def by blast
qed

text \<open>
  C23: the tables of the user-service keep their integrity. In every state that an empty database reaches by
  starts, requests of any kind and the passing of time: every user has exactly one profile, every role
  of a user and every permission of a role refers to rows that exist, and no two users have the same id
  or the same subject, no two roles or permissions the same name.
\<close>

theorem user_tables_integrity:
  assumes "ucommitted s = empty_user_db" "user_run X cfg s t"
  shows "(\<forall>u \<in> set (app_users (ucommitted t)). external_subject u = str_uuid (au_id u) \<and>
      (\<exists>p. filter (\<lambda>p. up_user_id p = au_id u) (user_profiles (ucommitted t)) = [p])) \<and>
    (\<forall>x \<in> set (user_roles (ucommitted t)). \<exists>u \<in> set (app_users (ucommitted t)). \<exists>r \<in> set (roles (ucommitted t)).
       ur_user_id x = au_id u \<and> ur_role_id x = ro_id r) \<and>
    (\<forall>x \<in> set (role_permissions (ucommitted t)). \<exists>r \<in> set (roles (ucommitted t)). \<exists>p \<in> set (permissions (ucommitted t)).
       rp_role_id x = ro_id r \<and> rp_permission_id x = pe_id p) \<and>
    distinct (map au_id (app_users (ucommitted t))) \<and> distinct (map external_subject (app_users (ucommitted t))) \<and>
    distinct (map ro_name (roles (ucommitted t))) \<and> distinct (map pe_name (permissions (ucommitted t)))"
proof -
  have wf: "wf_udb (ucommitted t)"
    using user_run_wf [OF assms(2)] assms(1) empty_user_db_wf by simp
  show ?thesis
    using wf_udb_facts [OF wf] wf_udbD [OF wf] by simp
qed

text \<open>
  C28: the right to assign roles does not appear from nothing. Starting from an empty database, whatever requests are
  made and however often the service is restarted, no user ever holds \<open>roles:assign\<close> or the role \<open>admin\<close>: the
  first administrator has to be made outside the service.
\<close>

theorem nobody_becomes_admin:
  assumes "ucommitted s = empty_user_db" "user_run X cfg s t"
  shows "PERMISSION_ROLES_ASSIGN \<notin> set (permission_names_of uid (ucommitted t)) \<and>
    ROLE_ADMIN \<notin> ro_name ` set (roles_of uid (ucommitted t))"
proof -
  have na: "no_admin (ucommitted t)"
    using user_run_wf [OF assms(2)] assms(1) empty_user_db_wf by simp
  show ?thesis
    using no_admin_permissions [OF na] no_admin_role [OF na] by simp
qed


section \<open>Who can change what\<close>

lemma user_effect_authorised:
  assumes "user_effect X cfg rq s t" "wf_udb (udb s)"
  shows "ucommitted t = ucommitted s \<or>
    (\<exists>s0 sub d1. cache_only s s0 \<and> token_for X cfg rq s0 sub \<and>
       (d1 = udb s \<or> bootstrapped sub (udb s) (clock s) d1) \<and>
       (PERMISSION_PROFILE_WRITE_SELF \<in> set (permission_names_of sub d1) \<and>
          (\<exists>name loc tz av. profile_written sub name loc tz av d1 (ucommitted t)) \<or>
        PERMISSION_ROLES_ASSIGN \<in> set (permission_names_of sub d1) \<and>
          (\<exists>uid q. role_given sub uid q d1 (ucommitted t))))"
proof (cases "ucommitted t = ucommitted s")
  case False
  then obtain c s' sub where e: "entered X cfg rq s sub c s'"
    and eff: "(\<exists>name loc tz av. PERMISSION_PROFILE_WRITE_SELF \<in> set (permission_names_of sub (udb s')) \<and>
            profile_written sub name loc tz av (udb s') (ucommitted t)) \<or>
         (\<exists>uid q. PERMISSION_ROLES_ASSIGN \<in> set (permission_names_of sub (udb s')) \<and>
            role_given sub uid q (udb s') (ucommitted t))"
    using assms(1) unfolding user_effect_def by blast
  obtain s0 where "cache_only s s0" "token_for X cfg rq s0 sub" "udb s' = udb s \<or> bootstrapped sub (udb s) (clock s) (udb s')"
    using e unfolding entered_def by auto
  then show ?thesis using eff by (intro disjI2 exI [of _ s0] exI [of _ sub] exI [of _ "udb s'"]) auto
qed simp

lemma profile_written_others:
  assumes "profile_written sub name loc tz av d d'" "wf_udb d"
  shows "filter (\<lambda>p. up_user_id p \<noteq> sub) (user_profiles d') = filter (\<lambda>p. up_user_id p \<noteq> sub) (user_profiles d)"
    "user_roles d' = user_roles d" "app_users d' = app_users d"
proof -
  obtain p :: user_profile and e :: audit_event where p: "p \<in> set (user_profiles d)" "up_user_id p = sub"
    and d': "d' = d\<lparr>user_profiles := update_where (\<lambda>x. up_id x = up_id p) (set_profile name loc tz av) (user_profiles d),
               user_audit_events := user_audit_events d @ [e]\<rparr>"
    using assms(1) unfolding profile_written_def by auto
  have "x = p" if "x \<in> set (user_profiles d)" "up_id x = up_id p" for x
    by (rule distinct_key_eq [of up_id "user_profiles d"]) (use that p assms(2) in \<open>simp_all add: wf_udb_def\<close>)
  then have "filter (\<lambda>p. up_user_id p \<noteq> sub) (update_where (\<lambda>x. up_id x = up_id p) (set_profile name loc tz av) (user_profiles d)) =
      filter (\<lambda>p. up_user_id p \<noteq> sub) (user_profiles d)"
    by (intro filter_update_where_out) (use p(2) in auto)
  then show "filter (\<lambda>p. up_user_id p \<noteq> sub) (user_profiles d') = filter (\<lambda>p. up_user_id p \<noteq> sub) (user_profiles d)"
    "user_roles d' = user_roles d" "app_users d' = app_users d"
    by (simp_all add: d')
qed

text \<open>
  C24: every change is authorised. Whatever request is served, either the committed tables stay as they
  are, or the request carried a valid access token of some subject, of a session that was not revoked, and (up to
  the bootstrap of that same subject) one of two things happened: the subject holds \<open>profile:write:self\<close> and its
  own profile, no other row, was rewritten; or the subject holds \<open>roles:assign\<close> and one existing user got one existing
  role, with an audit event naming both.
\<close>

theorem user_changes_authorised:
  assumes "wf_udb (ucommitted s)" "user_app X cfg rq s = (r, t)"
  shows "ucommitted t = ucommitted s \<or>
    (\<exists>s0 sub d1. cache_only (opened s) s0 \<and> token_for X cfg rq s0 sub \<and>
       (d1 = ucommitted s \<or> bootstrapped sub (ucommitted s) (clock s) d1) \<and>
       (PERMISSION_PROFILE_WRITE_SELF \<in> set (permission_names_of sub d1) \<and>
          filter (\<lambda>p. up_user_id p \<noteq> sub) (user_profiles (ucommitted t)) = filter (\<lambda>p. up_user_id p \<noteq> sub) (user_profiles d1) \<and>
          user_roles (ucommitted t) = user_roles d1 \<and> app_users (ucommitted t) = app_users d1 \<or>
        PERMISSION_ROLES_ASSIGN \<in> set (permission_names_of sub d1) \<and>
          (\<exists>uid q. role_given sub uid q d1 (ucommitted t))))"
proof (cases "ucommitted t = ucommitted s")
  case False
  have wf: "wf_udb d1" if "d1 = ucommitted s \<or> bootstrapped sub (ucommitted s) (clock s) d1" for d1 sub
    using that assms(1) bootstrapped_wf by auto
  obtain s0 sub d1 where s0: "cache_only (opened s) s0" "token_for X cfg rq s0 sub"
    and d1: "d1 = ucommitted s \<or> bootstrapped sub (ucommitted s) (clock s) d1"
    and eff: "PERMISSION_PROFILE_WRITE_SELF \<in> set (permission_names_of sub d1) \<and>
          (\<exists>name loc tz av. profile_written sub name loc tz av d1 (ucommitted t)) \<or>
        PERMISSION_ROLES_ASSIGN \<in> set (permission_names_of sub d1) \<and> (\<exists>uid q. role_given sub uid q d1 (ucommitted t))"
    using user_effect_authorised [OF user_app_effect(1) [OF assms], unfolded opened_simps, OF assms(1)] False by blast
  have "PERMISSION_PROFILE_WRITE_SELF \<in> set (permission_names_of sub d1) \<and>
          filter (\<lambda>p. up_user_id p \<noteq> sub) (user_profiles (ucommitted t)) = filter (\<lambda>p. up_user_id p \<noteq> sub) (user_profiles d1) \<and>
          user_roles (ucommitted t) = user_roles d1 \<and> app_users (ucommitted t) = app_users d1 \<or>
        PERMISSION_ROLES_ASSIGN \<in> set (permission_names_of sub d1) \<and> (\<exists>uid q. role_given sub uid q d1 (ucommitted t))"
    using eff profile_written_others [OF _ wf [OF d1]] by auto
  with s0 d1 show ?thesis by blast
qed simp

text \<open>
  A GET request never commits anything. In particular the first request of a new subject, which creates
  the user, its profile and its role in the session, is forgotten when it is a GET request: \<open>get_current_context\<close>
  commits only if the session has unflushed objects, and after the flushes of the repositories it has none.
\<close>

theorem get_requests_commit_nothing:
  assumes "wf_udb (ucommitted s)" "rq_method rq = ''GET''" "user_app X cfg rq s = (r, t)"
  shows "ucommitted t = ucommitted s"
proof -
  obtain r' t' where d: "dispatch_param (user_routes X cfg) rq (opened s) = (r', t')" by fastforce
  have wf: "wf_udb (udb (opened s))" "\<not> unflushed (opened s)" using assms(1) by simp_all
  have "ucommitted (snd (dispatch_param (user_routes X cfg) rq (opened s))) = ucommitted (opened s)"
    using assms(2) by (auto simp: dispatch_param_def user_routes_def reading_endpoints [OF wf] simp del: opened_simps)
  then show ?thesis
    using assms(3) d by (simp add: user_app_def with_usession_def opened_def) (auto simp: opened_def)
qed

section \<open>New subjects and restarts\<close>

lemma roles_of_new:
  assumes "wf_udb d" "bootstrapped sub d now d'"
  shows "map ro_name (sort_key ro_name (roles_of sub d')) = [ROLE_USER]"
    "set (permission_names_of sub d') = {pn. role_grants d ROLE_USER pn}"
proof -
  obtain pid x e r where b: "d' = boot_db now sub pid x e d" "r \<in> set (roles d)" "ro_name r = ROLE_USER" "ur_user_id x = sub"
      "ur_role_id x = ro_id r" "sub \<notin> au_id ` set (app_users d)"
    using assms(2) unfolding bootstrapped_def by blast
  have none: "ur_user_id y \<noteq> sub" if "y \<in> set (user_roles d)" for y
    using that b(6) assms(1) by (auto simp: wf_udb_def)
  have eq1: "q = r" if "q \<in> set (roles d)" "ro_id q = ro_id r" for q
    by (rule distinct_key_eq [OF wf_udbD(4) [OF assms(1)] that(1) b(2) that(2)])
  have eq2: "q = r" if "q \<in> set (roles d)" "ro_name q = ROLE_USER" for q
    by (rule distinct_key_eq [OF wf_udbD(5) [OF assms(1)] that(1) b(2)]) (simp add: that b(3))
  have old: "filter (\<lambda>y. ur_role_id y = z \<and> ur_user_id y = sub) (user_roles d) = []" for z
    using none by (auto simp: filter_empty_conv)
  have "filter (\<lambda>y. ur_role_id y = ro_id q \<and> ur_user_id y = sub) (user_roles d') = (if q = r then [x] else [])" if "q \<in> set (roles d)" for q
  proof (cases "q = r")
    case False
    then have "ro_id r \<noteq> ro_id q" using eq1 [OF that] by auto
    then show ?thesis using False by (simp add: b(1) boot_db_def old b(5))
  qed (simp add: b(1) boot_db_def old b(4,5))
  note member = this
  have same: "roles d' = roles d" by (simp add: b(1) boot_db_def)
  have "roles_of sub d' = concat (map (\<lambda>q. if q = r then [q] else []) (roles d))"
    unfolding roles_of_def same by (rule arg_cong [where f = concat], rule map_cong) (simp_all add: member)
  also have "\<dots> = filter (\<lambda>q. ro_id q = ro_id r) (roles d)"
  proof -
    have "concat (map (\<lambda>q. if q = r then [q] else []) rs) = filter (\<lambda>q. ro_id q = ro_id r) rs"
      if "set rs \<subseteq> set (roles d)" for rs
      using that by (induction rs) (auto dest: eq1)
    then show ?thesis by simp
  qed
  also have "\<dots> = [r]"
    using filter_key_distinct [OF wf_udbD(4) [OF assms(1)] b(2)] .
  finally show "map ro_name (sort_key ro_name (roles_of sub d')) = [ROLE_USER]" using b(3) by simp
  have "grants d' sub p \<longleftrightarrow> granted d (ro_id r) (pe_id p)" if "p \<in> set (permissions d)" for p
  proof -
    have gx: "(\<exists>y \<in> set (user_roles d'). ur_role_id y = z \<and> ur_user_id y = sub) \<longleftrightarrow> z = ro_id r" for z
      using none by (auto simp: b(1) boot_db_def b(4,5))
    have rp: "role_permissions d' = role_permissions d" by (simp add: b(1) boot_db_def)
    have "(\<exists>q \<in> set (roles d). ro_id q = z \<and> ro_id q = ro_id r) \<longleftrightarrow> z = ro_id r" for z
      using b(2) by auto
    then show ?thesis unfolding grants_iff granted_def gx same rp by auto
  qed
  moreover have "permissions d' = permissions d" using b(1) by (simp add: boot_db_def)
  moreover have "role_grants d ROLE_USER pn \<longleftrightarrow> (\<exists>p \<in> set (permissions d). pe_name p = pn \<and> granted d (ro_id r) (pe_id p))" for pn
    using eq2 b(2,3) unfolding role_grants_def by blast
  ultimately show "set (permission_names_of sub d') = {pn. role_grants d ROLE_USER pn}"
    unfolding set_permission_names_of by auto
qed

text \<open>
  What a new subject may do. When the token of a subject that the service does not know is accepted, the
  context holds the role \<open>user\<close> alone and exactly the permissions granted to it; the profile has its
  default values; the user is active and carries the id of the subject.
\<close>

theorem new_subject_context:
  assumes "wf_udb (udb s)" "str_uuid sub \<notin> external_subject ` set (app_users (udb s))"
    and "context_for_subject X sub ip ua s = (Inr c, t)"
  shows "cx_roles c = [ROLE_USER] \<and> cx_permissions c = {pn. role_grants (udb s) ROLE_USER pn} \<and>
    au_id (cx_user c) = sub \<and> au_is_active (cx_user c) \<and> up_user_id (cx_profile c) = sub \<and>
    display_name (cx_profile c) = None \<and> up_locale (cx_profile c) = ''en-US'' \<and> up_timezone (cx_profile c) = ''UTC''"
proof -
  note C = context_for_subject_Inr [OF assms(1,3)]
  have c: "context_in c sub (udb t)" and d: "udb t = udb s \<or> bootstrapped sub (udb s) (clock s) (udb t)" using C by simp_all
  have "udb t \<noteq> udb s" using c assms(2) unfolding context_in_def by (metis image_eqI)
  with d have b: "bootstrapped sub (udb s) (clock s) (udb t)" by simp
  note wf = bootstrapped_wf [OF assms(1) b]
  obtain pid x e where t: "udb t = boot_db (clock s) sub pid x e (udb s)" and new: "sub \<notin> au_id ` set (app_users (udb s))"
      "sub \<notin> up_user_id ` set (user_profiles (udb s))"
    using b unfolding bootstrapped_def by blast
  have u: "cx_user c \<in> set (app_users (udb t))" "external_subject (cx_user c) = str_uuid sub" using c by (simp_all add: context_in_def)
  moreover have "cx_user c \<notin> set (app_users (udb s))" using u(2) assms(2) by (metis image_eqI)
  ultimately have "cx_user c = new_app_user (clock s) sub"
    by (simp add: t boot_db_def)
  moreover have "cx_profile c = new_profile pid sub"
    using c new calculation by (auto simp: t boot_db_def context_in_def new_app_user_def)
  ultimately show ?thesis
    using c roles_of_new [OF assms(1) b] by (simp add: context_in_def new_app_user_def new_profile_def)
qed

lemma known_role:
  assumes "wf_udb (udb s)" "r \<in> set (roles (udb s))"
  shows "get_or_create_role X (ro_name r) desc s = (Inr r, s)"
  using filter_key_distinct [OF wf_udbD(5) [OF assms(1)] assms(2)]
  by (simp add: get_or_create_role_def run_get_role_by_name)

lemma known_permission:
  assumes "wf_udb (udb s)" "p \<in> set (permissions (udb s))"
  shows "get_or_create_permission X (pe_name p) desc s = (Inr p, s)"
  using filter_key_distinct [OF wf_udbD(7) [OF assms(1)] assms(2)]
  by (simp add: get_or_create_permission_def get_permission_by_name_def)

lemma known_grant:
  assumes "wf_udb (udb s)" "granted (udb s) rid pid"
  shows "ensure_role_permission X rid pid s = (Inr (), s)"
proof -
  let ?key = "\<lambda>x. (rp_role_id x, rp_permission_id x)"
  obtain x where x: "x \<in> set (role_permissions (udb s))" "?key x = (rid, pid)"
    using assms(2) by (auto simp: granted_def)
  have "distinct (map ?key (role_permissions (udb s)))" using assms(1) by (simp add: wf_udb_def)
  from filter_key_distinct [OF this x(1)] x(2)
  have "filter (\<lambda>x. rp_role_id x = rid \<and> rp_permission_id x = pid) (role_permissions (udb s)) = [x]" by simp
  then show ?thesis by (simp add: ensure_role_permission_def)
qed

lemma seeded_again:
  assumes wf: "wf_udb (udb s)" and sd: "seeded (udb s)"
  shows "ensure_seed_data X s = (Inr (), s)"
proof -
  have ug: "role_grants (udb s) ROLE_USER n" if "n \<in> set SEED_USER" for n using sd that by (simp add: seeded_def)
  have ag: "role_grants (udb s) ROLE_ADMIN n" if "n \<in> set SEED_ADMIN" for n using sd that by (simp add: seeded_def)
  obtain ur where ur: "ur \<in> set (roles (udb s))" "ro_name ur = ROLE_USER"
    using ug [of PERMISSION_PROFILE_READ_SELF] by (auto simp: SEED_USER_def role_grants_def)
  obtain ar where ar: "ar \<in> set (roles (udb s))" "ro_name ar = ROLE_ADMIN"
    using ag [of PERMISSION_PROFILE_READ_SELF] by (auto simp: SEED_ADMIN_def role_grants_def)
  have one: "granted (udb s) (ro_id r) (pe_id p)"
    if "role_grants (udb s) (ro_name r) (pe_name p)" "r \<in> set (roles (udb s))" "p \<in> set (permissions (udb s))" for r p
    using that distinct_key_eq [OF wf_udbD(5) [OF wf]] distinct_key_eq [OF wf_udbD(7) [OF wf]]
    unfolding role_grants_def by metis
  have ex: "\<exists>p \<in> set (permissions (udb s)). pe_name p = n" if "n \<in> set SEED_ADMIN" for n
    using ag [OF that] by (auto simp: role_grants_def)
  obtain p1 p2 p3 p4 p5 where p: "p1 \<in> set (permissions (udb s))" "pe_name p1 = PERMISSION_PROFILE_READ_SELF"
      "p2 \<in> set (permissions (udb s))" "pe_name p2 = PERMISSION_PROFILE_WRITE_SELF"
      "p3 \<in> set (permissions (udb s))" "pe_name p3 = PERMISSION_USERS_READ"
      "p4 \<in> set (permissions (udb s))" "pe_name p4 = PERMISSION_USERS_WRITE"
      "p5 \<in> set (permissions (udb s))" "pe_name p5 = PERMISSION_ROLES_ASSIGN"
    using ex unfolding SEED_ADMIN_def by (metis list.set_intros)
  have u: "granted (udb s) (ro_id ur) (pe_id q)" if "q \<in> {p1, p2}" for q
    by (rule one) (use that p ur ug in \<open>auto simp: SEED_USER_def\<close>)
  have a: "granted (udb s) (ro_id ar) (pe_id q)" if "q \<in> {p1, p2, p3, p4, p5}" for q
    by (rule one) (use that p ar ag in \<open>auto simp: SEED_ADMIN_def\<close>)
  note gets = known_role [OF wf ur(1), unfolded ur(2)] known_role [OF wf ar(1), unfolded ar(2)]
    known_permission [OF wf p(1), unfolded p(2)] known_permission [OF wf p(3), unfolded p(4)] known_permission [OF wf p(5), unfolded p(6)]
    known_permission [OF wf p(7), unfolded p(8)] known_permission [OF wf p(9), unfolded p(10)]
  show ?thesis
    by (simp add: ensure_seed_data_def gets known_grant [OF wf u] known_grant [OF wf a])
qed

text \<open>
  C29: starting the service seeds the rights, and starting it again changes nothing. After a start that returned, the role \<open>user\<close>
  has the two profile permissions and the role \<open>admin\<close> all five, and no user, profile or user's role
  was touched; every further start returns and leaves the tables as they are.
\<close>

theorem seeding_is_idempotent:
  assumes "wf_udb (ucommitted s)" "user_startup X s = (Inr (), t)"
  shows "seeded (ucommitted t) \<and> app_users (ucommitted t) = app_users (ucommitted s) \<and>
    user_roles (ucommitted t) = user_roles (ucommitted s) \<and> user_profiles (ucommitted t) = user_profiles (ucommitted s) \<and>
    (\<exists>t'. user_startup X t = (Inr (), t') \<and> ucommitted t' = ucommitted t)"
  using assms(2)
proof (cases rule: user_startup_cases)
  case started
  have wf: "wf_udb (udb (opened t))" using started(2) assms(1) by (simp add: seed_grown_def)
  have "seeded (udb (opened t))" using started by simp
  from seeded_again [OF wf this, of X] started show ?thesis
    by (simp add: user_startup_def with_usession_def opened_def seed_grown_def)
qed simp

end
