(* ===== verification/User_Reference.thy ===== *)
theory User_Reference
  imports User_Properties Login_Properties
begin

text \<open>
  The user-service in the reference environment: settings, a fresh process, and the seeding of its empty tables,
  computed.
\<close>

definition ref_user_node :: "keyspace user_node" where
  "ref_user_node =
     \<lparr>redis = (\<lambda>_. None), clock = 1000, draws = 1, udb = empty_user_db, ucommitted = empty_user_db, unflushed = False\<rparr>"

lemma ref_seeding: "fst (ensure_seed_data ref_extern ref_user_node) = Inr ()"
  by code_simp

definition ref_started :: "keyspace user_node" where
  "ref_started = snd (user_startup ref_extern ref_user_node)"

lemma ref_startup: "user_startup ref_extern ref_user_node = (Inr (), ref_started)"
  using ref_seeding
  by (cases "ensure_seed_data ref_extern (opened ref_user_node)")
     (simp add: ref_started_def user_startup_def with_usession_def opened_def ref_user_node_def)

text \<open>A request that carries the token of the subject 7, and new settings for its profile.\<close>

definition ref_patch_request :: http_request where
  "ref_patch_request =
     \<lparr>rq_method = ''PATCH'', rq_path = ''/v1/profiles/me'', rq_scheme = ''http'', rq_client = Some ''7'',
      rq_headers = [(''authorization'', ''Bearer '' @
        ref_jwt_encode (access_payload ref_cfg 500 7 4 5) (signing_key ref_cfg) (jwt_algorithm ref_cfg))],
      rq_cookies = [], rq_query = [], rq_body = ref_json_dumps (JDict [(''locale'', JStr ''fr'')])\<rparr>"

definition ref_me_request :: http_request where
  "ref_me_request = ref_patch_request\<lparr>rq_method := ''GET'', rq_path := ''/v1/users/me''\<rparr>"

lemma ref_started_run: "user_run ref_extern ref_edge_cfg ref_user_node ref_started"
  by (rule r_into_rtranclp) (rule user_step.restart [OF ref_startup])

lemma ref_started_wf: "wf_udb (ucommitted ref_started)"
  using user_run_wf [OF ref_started_run] empty_user_db_wf by (simp add: ref_user_node_def)

lemma ref_served_run:
  "user_run ref_extern ref_edge_cfg ref_user_node (snd (serve_user ref_extern ref_edge_cfg ref_patch_request ref_started))"
  using ref_started_run
  by (rule rtranclp.rtrancl_into_rtrancl)
     (rule user_step.request [of _ _ ref_patch_request _ "fst (serve_user ref_extern ref_edge_cfg ref_patch_request ref_started)"], simp)

theorem user_tables_integrity_witness:
  "\<exists>t. user_run ref_extern ref_edge_cfg ref_user_node t \<and>
     t = snd (serve_user ref_extern ref_edge_cfg ref_patch_request ref_started) \<and>
     list_all (\<lambda>u. external_subject u = str_uuid (au_id u)) (app_users (ucommitted t)) \<and>
     distinct (map ro_name (roles (ucommitted t)))"
  using user_tables_integrity [OF _ ref_served_run] ref_served_run by (simp add: ref_user_node_def list_all_iff)

theorem nobody_becomes_admin_witness:
  "PERMISSION_ROLES_ASSIGN \<notin>
     set (permission_names_of 7 (ucommitted (snd (serve_user ref_extern ref_edge_cfg ref_patch_request ref_started))))"
  using nobody_becomes_admin [OF _ ref_served_run, of 7] by (simp add: ref_user_node_def)

theorem user_changes_authorised_witness:
  "\<exists>r t. user_app ref_extern ref_edge_cfg ref_patch_request ref_started = (r, t) \<and>
     (ucommitted t = ucommitted ref_started \<or>
      (\<exists>s0 sub d1. token_for ref_extern ref_edge_cfg ref_patch_request s0 sub \<and>
         (d1 = ucommitted ref_started \<or> bootstrapped sub (ucommitted ref_started) (clock ref_started) d1) \<and>
         (PERMISSION_PROFILE_WRITE_SELF \<in> set (permission_names_of sub d1) \<or>
          PERMISSION_ROLES_ASSIGN \<in> set (permission_names_of sub d1))))"
proof -
  obtain r t where u: "user_app ref_extern ref_edge_cfg ref_patch_request ref_started = (r, t)" by fastforce
  from user_changes_authorised [OF ref_started_wf u] show ?thesis using u by blast
qed

theorem get_requests_commit_nothing_witness:
  "ucommitted (snd (user_app ref_extern ref_edge_cfg ref_me_request ref_started)) = ucommitted ref_started"
  by (rule get_requests_commit_nothing [OF ref_started_wf])
     (auto simp: ref_me_request_def ref_patch_request_def intro: surjective_pairing)

theorem seeding_is_idempotent_witness:
  "\<exists>t. user_startup ref_extern ref_started = (Inr (), t) \<and> ucommitted t = ucommitted ref_started"
  using seeding_is_idempotent [OF _ ref_startup] empty_user_db_wf by (auto simp: ref_user_node_def)

definition ref_role_db :: user_db where
  "ref_role_db = empty_user_db
     \<lparr>roles := [\<lparr>ro_id = 1, ro_name = ROLE_USER, ro_description = None\<rparr>],
      permissions := [\<lparr>pe_id = 2, pe_name = PERMISSION_PROFILE_READ_SELF, pe_description = None\<rparr>],
      role_permissions := [\<lparr>rp_id = 3, rp_role_id = 1, rp_permission_id = 2\<rparr>]\<rparr>"

lemma ref_new_context:
  "fst (context_for_subject ref_extern 7 None None (ref_user_node\<lparr>udb := ref_role_db, draws := 10\<rparr>)) =
     Inr \<lparr>cx_user = new_app_user 1000 7, cx_profile = new_profile 10 7, cx_roles = [''user''],
          cx_permissions = {''profile:read:self''}\<rparr>"
  by code_simp

theorem new_subject_context_witness:
  "\<exists>c t. context_for_subject ref_extern 7 None None (ref_user_node\<lparr>udb := ref_role_db, draws := 10\<rparr>) = (Inr c, t) \<and>
     cx_roles c = [''user''] \<and> up_locale (cx_profile c) = ''en-US'' \<and>
     cx_permissions c = {pn. role_grants ref_role_db ROLE_USER pn}"
proof -
  let ?s = "ref_user_node\<lparr>udb := ref_role_db, draws := 10\<rparr>"
  obtain r t where run: "context_for_subject ref_extern 7 None None ?s = (r, t)" by fastforce
  then obtain c where r: "r = Inr c" using ref_new_context by simp
  have wf: "wf_udb (udb ?s)" by (simp add: wf_udb_def ref_role_db_def empty_user_db_def)
  have new: "str_uuid 7 \<notin> external_subject ` set (app_users (udb ?s))"
    by (simp add: ref_role_db_def empty_user_db_def)
  from new_subject_context [OF wf new run [unfolded r]] run r show ?thesis
    by (auto simp: ROLE_USER_def)
qed

end
