(* ===== verification/Gateway.thy ===== *)
theory Gateway
  imports Http_Schema
begin

text \<open>
  The api-gateway: the clients of \<open>clients/\<close>, \<open>services/routing_service.py\<close>, the policies of
  \<open>core/security.py\<close> that only the gateway has, the proxy (\<open>api/v1/proxy.py\<close>), the endpoints for browsers
  (\<open>api/v1/browser_auth.py\<close>), the health endpoints and the routes. The services behind it are a
  parameter: what they answer is a function of all requests sent so far.
\<close>

section \<open>Upstream services\<close>

record upstream_request =
  uq_method :: string
  uq_url :: string
  uq_params :: "(string \<times> string) list"
  uq_headers :: "(string \<times> string) list"
  uq_content :: string

text \<open>An answer with its headers as \<open>httpx.Headers.items()\<close> gives them: lower-case names, each once.\<close>

record upstream_response =
  an_status :: int
  an_headers :: "(string \<times> string) list"
  an_content :: string

text \<open>\<open>httpx.TimeoutException\<close>, another \<open>httpx.HTTPError\<close>, and any other exception of the client.\<close>

datatype upstream_outcome = Answer upstream_response | TimedOut | HttpError | Raised exn

text \<open>\<open>json.loads(body.decode("utf-8"))\<close>: the bytes may not be UTF-8, or not JSON.\<close>

datatype body_json = NotUtf8 | NotJson | Parsed json

record 'r net =
  redis_ping :: "int \<Rightarrow> 'r \<Rightarrow> bool"
  http_answer :: "upstream_request list \<Rightarrow> upstream_outcome"
  load_body :: "string \<Rightarrow> body_json"

record 'r gateway_node = "'r node" +
  sent :: "upstream_request list"

type_synonym ('r, 'a) gprog = "('r gateway_node, exn, 'a) prog"

definition http_client_request :: "'r net \<Rightarrow> upstream_request \<Rightarrow> ('r, upstream_outcome) gprog" where
  "http_client_request N q = (\<lambda>s. let h = sent s @ [q] in (Inr (http_answer N h), s\<lparr>sent := h\<rparr>))"

section \<open>Clients and routing\<close>

datatype service_client = AuthClient string | UserClient string | NotificationClient string

definition client_base_url :: "string \<Rightarrow> string" where
  "client_base_url url = rstrip_of (\<lambda>c. c = CHR ''/'') url"

definition auth_client :: "gateway_settings \<Rightarrow> service_client" where
  "auth_client cfg = AuthClient (client_base_url (auth_service_url cfg))"

definition user_client :: "gateway_settings \<Rightarrow> service_client" where
  "user_client cfg = UserClient (client_base_url (user_service_url cfg))"

definition notification_client :: "gateway_settings \<Rightarrow> service_client" where
  "notification_client cfg =
     NotificationClient (client_base_url (case notification_service_url cfg of None \<Rightarrow> '''' | Some u \<Rightarrow> u))"

fun is_configured :: "service_client \<Rightarrow> bool" where
  "is_configured (NotificationClient base) = (base \<noteq> '''')"
| "is_configured _ = True"

fun client_base :: "service_client \<Rightarrow> string" where
  "client_base (AuthClient base) = base"
| "client_base (UserClient base) = base"
| "client_base (NotificationClient base) = base"

definition client_request ::
  "'r net \<Rightarrow> service_client \<Rightarrow> string \<Rightarrow> string \<Rightarrow> (string \<times> string) list \<Rightarrow> (string \<times> string) list \<Rightarrow> string \<Rightarrow>
   ('r, upstream_outcome) gprog" where
  "client_request N client meth path params headers content =
     (if \<not> is_configured client then raise (RuntimeError ''Notification service is not configured'')
      else http_client_request N
        \<lparr>uq_method = meth, uq_url = client_base client @ path, uq_params = params, uq_headers = headers,
         uq_content = content\<rparr>)"

definition HOP_BY_HOP_HEADERS :: "string list" where
  "HOP_BY_HOP_HEADERS =
     [''connection'', ''keep-alive'', ''proxy-authenticate'', ''proxy-authorization'', ''te'', ''trailers'',
      ''transfer-encoding'', ''upgrade'']"

definition FORWARDED_HEADERS :: "string list" where
  "FORWARDED_HEADERS = [''forwarded'', ''x-forwarded-for'', ''x-real-ip'']"

definition BLOCKED_RESPONSE_HEADERS :: "string list" where
  "BLOCKED_RESPONSE_HEADERS = [''server'', ''set-cookie'', ''x-powered-by'']"

definition resolve_service :: "gateway_settings \<Rightarrow> string \<Rightarrow> exn + service_client" where
  "resolve_service cfg path =
     (if startswith path ''/v1/auth'' \<or> startswith path ''/v1/tokens'' then Inr (auth_client cfg)
      else if startswith path ''/v1/two-factor'' \<or> startswith path ''/v1/sessions'' then Inr (auth_client cfg)
      else if startswith path ''/v1/users'' \<or> startswith path ''/v1/profiles'' then Inr (user_client cfg)
      else if startswith path ''/v1/roles'' \<or> startswith path ''/v1/permissions'' then Inr (user_client cfg)
      else if startswith path ''/v1/notify'' \<and> is_configured (notification_client cfg)
      then Inr (notification_client cfg)
      else Inl (RouteNotFoundException ''Route not found''))"

definition sanitize_request_headers :: "(string \<times> string) list \<Rightarrow> (string \<times> string) list" where
  "sanitize_request_headers hs =
     filter (\<lambda>(k, _). \<not> (lower k \<in> set HOP_BY_HOP_HEADERS \<or> lower k \<in> set FORWARDED_HEADERS \<or>
       lower k = ''host'' \<or> lower k = ''content-length'')) hs"

definition sanitize_response_headers :: "(string \<times> string) list \<Rightarrow> (string \<times> string) list" where
  "sanitize_response_headers hs =
     filter (\<lambda>(k, _). \<not> (lower k \<in> set HOP_BY_HOP_HEADERS \<or> lower k \<in> set BLOCKED_RESPONSE_HEADERS \<or>
       lower k = ''content-length'')) hs"

text \<open>\<open>d[k] = v\<close> and \<open>d.pop(k, None)\<close> for a dictionary as a list of its items.\<close>

definition dict_put :: "string \<Rightarrow> 'v \<Rightarrow> (string \<times> 'v) list \<Rightarrow> (string \<times> 'v) list" where
  "dict_put k v d =
     (if k \<in> fst ` set d then map (\<lambda>(n, w). if n = k then (n, v) else (n, w)) d else d @ [(k, v)])"

definition dict_pop :: "string \<Rightarrow> (string \<times> 'v) list \<Rightarrow> (string \<times> 'v) list" where
  "dict_pop k d = filter (\<lambda>(n, _). n \<noteq> k) d"

record proxied_response =
  px_status :: int
  px_body :: string
  px_headers :: "(string \<times> string) list"

definition forward ::
  "'r net \<Rightarrow> gateway_settings \<Rightarrow> string \<Rightarrow> string \<Rightarrow> (string \<times> string) list \<Rightarrow> (string \<times> string) list \<Rightarrow> string \<Rightarrow>
   string option \<Rightarrow> ('r, proxied_response) gprog" where
  "forward N cfg meth path params headers body client_ip =
     (case resolve_service cfg path of
        Inl e \<Rightarrow> raise e
      | Inr target_client \<Rightarrow>
          (let cleaned = sanitize_request_headers headers;
               safe_headers = (case client_ip of
                   None \<Rightarrow> cleaned
                 | Some ip \<Rightarrow> if ip = '''' then cleaned else dict_put ''X-Forwarded-For'' ip cleaned) in
           bindE (client_request N target_client meth path params safe_headers body) (\<lambda>outcome.
             case outcome of
               TimedOut \<Rightarrow> raise (UpstreamServiceException ''Upstream timeout'')
             | HttpError \<Rightarrow> raise (UpstreamServiceException ''Upstream request failed'')
             | Raised e \<Rightarrow> raise e
             | Answer response \<Rightarrow>
                 ret \<lparr>px_status = an_status response, px_body = an_content response,
                      px_headers = sanitize_response_headers (an_headers response)\<rparr>)))"

section \<open>Policies\<close>

definition PUBLIC_ENDPOINTS :: "(string \<times> string) list" where
  "PUBLIC_ENDPOINTS =
     [(''POST'', ''/v1/auth/register''), (''POST'', ''/v1/auth/login''), (''POST'', ''/v1/auth/login/2fa''),
      (''POST'', ''/v1/auth/password/forgot''), (''POST'', ''/v1/auth/password/reset''),
      (''POST'', ''/v1/tokens/refresh''), (''POST'', ''/v1/tokens/revoke''),
      (''POST'', ''/v1/browser-auth/register''), (''POST'', ''/v1/browser-auth/login''),
      (''POST'', ''/v1/browser-auth/login/2fa''), (''POST'', ''/v1/browser-auth/refresh''),
      (''POST'', ''/v1/browser-auth/revoke''), (''GET'', ''/v1/health/live''), (''GET'', ''/v1/health/ready'')]"

definition is_public_endpoint :: "string \<Rightarrow> string \<Rightarrow> bool" where
  "is_public_endpoint meth path =
     (let stripped = rstrip_of (\<lambda>c. c = CHR ''/'') path;
          normalized = (if stripped = '''' then ''/'' else stripped) in
      (upper meth, normalized) \<in> set PUBLIC_ENDPOINTS)"

definition ensure_authenticated_endpoint :: "string \<Rightarrow> string \<Rightarrow> exn option" where
  "ensure_authenticated_endpoint meth path =
     (if is_public_endpoint meth path then None
      else if startswith path ''/v1/health'' then None
      else if startswith path ''/v1/auth'' \<and> upper meth = ''POST'' then
        (if \<not> is_public_endpoint meth path then Some (ForbiddenException ''Endpoint requires stronger policy'')
         else None)
      else None)"

definition effective_refresh_cookie_secure :: "'r extern \<Rightarrow> gateway_settings \<Rightarrow> http_request \<Rightarrow> bool" where
  "effective_refresh_cookie_secure X cfg rq =
     (case refresh_cookie_secure cfg of
        Some b \<Rightarrow> b
      | None \<Rightarrow>
          if lower (rq_scheme rq) = ''https'' then True
          else if \<not> is_trusted_proxy X (client_host_of rq) (trusted_proxy_ips cfg) then False
          else
            (let xff = strip (case header_get rq ''x-forwarded-for'' of None \<Rightarrow> '''' | Some v \<Rightarrow> v);
                 proto_raw = strip (case header_get rq ''x-forwarded-proto'' of None \<Rightarrow> '''' | Some v \<Rightarrow> v) in
             if xff = '''' then False
             else if proto_raw = '''' then False
             else lower (strip (split_first CHR '','' proto_raw)) = ''https''))"

section \<open>Responses\<close>

text \<open>
  The body of a gateway's response is a JSON document of its own or the bytes it passes on; cookies are set
  one header each.
\<close>

datatype content = Document json | Bytes string

record set_cookie =
  sc_key :: string
  sc_value :: string
  sc_max_age :: int
  sc_path :: string
  sc_httponly :: bool
  sc_secure :: bool
  sc_samesite :: string

record gateway_response = "content response" +
  rs_cookies :: "set_cookie list"

definition json_document :: "int \<Rightarrow> json \<Rightarrow> gateway_response" where
  "json_document st j = \<lparr>rs_status = st, rs_headers = [], rs_body = Document j, rs_cookies = []\<rparr>"

definition bytes_response :: "int \<Rightarrow> (string \<times> string) list \<Rightarrow> string \<Rightarrow> gateway_response" where
  "bytes_response st hs b = \<lparr>rs_status = st, rs_headers = hs, rs_body = Bytes b, rs_cookies = []\<rparr>"

definition pass_on :: "proxied_response \<Rightarrow> gateway_response" where
  "pass_on p = bytes_response (px_status p) (px_headers p) (px_body p)"

section \<open>The proxy\<close>

definition proxy_path :: "string \<Rightarrow> string" where
  "proxy_path full_path =
     (let path = ''/'' @ lstrip_of (\<lambda>c. c = CHR ''/'') full_path in
      if \<not> startswith path ''/v1/'' then ''/v1/'' @ lstrip_of (\<lambda>c. c = CHR ''/'') path else path)"

text \<open>\<open>dict(request.headers)\<close>: of a repeated header the first value.\<close>

fun header_dict :: "(string \<times> string) list \<Rightarrow> (string \<times> string) list" where
  "header_dict [] = []"
| "header_dict ((k, v) # hs) = (k, v) # dict_pop k (header_dict hs)"

definition proxy_request ::
  "'r extern \<Rightarrow> 'r net \<Rightarrow> gateway_settings \<Rightarrow> string \<Rightarrow> http_request \<Rightarrow> ('r, gateway_response) gprog" where
  "proxy_request X N cfg full_path rq =
     (let path = proxy_path full_path;
          meth = upper (rq_method rq);
          headers = header_dict (rq_headers rq);
          client_ip = get_client_ip X rq (trusted_proxy_ips cfg) in
      thenE
        (if is_public_endpoint meth path
         then rate_limiter_check X cfg rq ''public_auth'' (rate_limit_public_auth_per_minute cfg)
         else
           thenE (rate_limiter_check X cfg rq ''protected'' (rate_limit_protected_per_minute cfg))
             (bindE (extract_bearer_token rq) (\<lambda>token.
              bindE (decode_access_token X cfg token) (\<lambda>claims.
                ensure_access_session_active X (at_sid claims)))))
        (bindE (forward N cfg meth path (rq_query rq) headers (rq_body rq) (Some client_ip)) (\<lambda>proxied.
           ret (pass_on proxied))))"

section \<open>The endpoints for browsers\<close>

definition strip_refresh_from_json :: "(string \<times> json) list \<Rightarrow> (string \<times> json) list \<times> string option" where
  "strip_refresh_from_json data =
     (let (out, refresh) =
            (case map_of data ''tokens'' of
               Some (JDict nested) \<Rightarrow>
                 (case map_of nested ''refresh_token'' of
                    Some (JStr rt) \<Rightarrow> (dict_put ''tokens'' (JDict (dict_pop ''refresh_token'' nested)) data, Some rt)
                  | _ \<Rightarrow> (data, None))
             | _ \<Rightarrow> (data, None)) in
      case map_of out ''refresh_token'' of
        Some (JStr rt) \<Rightarrow> (dict_pop ''refresh_token'' out, Some rt)
      | _ \<Rightarrow> (out, refresh))"

definition refresh_cookie :: "'r extern \<Rightarrow> gateway_settings \<Rightarrow> http_request \<Rightarrow> string \<Rightarrow> set_cookie" where
  "refresh_cookie X cfg rq refresh_token =
     \<lparr>sc_key = refresh_cookie_name cfg, sc_value = refresh_token, sc_max_age = refresh_cookie_max_age_seconds cfg,
      sc_path = ''/'', sc_httponly = True, sc_secure = effective_refresh_cookie_secure X cfg rq,
      sc_samesite = ''lax''\<rparr>"

text \<open>\<open>delete_cookie\<close> sets an empty value that has expired; it is not marked \<open>HttpOnly\<close>.\<close>

definition cleared_cookie :: "'r extern \<Rightarrow> gateway_settings \<Rightarrow> http_request \<Rightarrow> set_cookie" where
  "cleared_cookie X cfg rq =
     \<lparr>sc_key = refresh_cookie_name cfg, sc_value = '''', sc_max_age = 0, sc_path = ''/'', sc_httponly = False,
      sc_secure = effective_refresh_cookie_secure X cfg rq, sc_samesite = ''lax''\<rparr>"

definition browser_response ::
  "'r extern \<Rightarrow> 'r net \<Rightarrow> gateway_settings \<Rightarrow> http_request \<Rightarrow> bool \<Rightarrow> bool \<Rightarrow> proxied_response \<Rightarrow> gateway_response" where
  "browser_response X N cfg rq set_cookie_on_ok clear_cookie_on_ok p =
     (let ct = lower (case map_of (px_headers p) ''content-type'' of None \<Rightarrow> '''' | Some v \<Rightarrow> v) in
      if px_status p < 400 \<and> contains_sub ''application/json'' ct then
        (case load_body N (px_body p) of
           Parsed (JDict parsed) \<Rightarrow>
             (let (out_json, refresh_val) =
                    (if set_cookie_on_ok then strip_refresh_from_json parsed else (parsed, None));
                  response = bytes_response (px_status p) [(''content-type'', ''application/json'')]
                    (json_dumps X (JDict out_json));
                  setting = (case refresh_val of
                      None \<Rightarrow> []
                    | Some rt \<Rightarrow> if set_cookie_on_ok \<and> rt \<noteq> '''' then [refresh_cookie X cfg rq rt] else []);
                  clearing = (if clear_cookie_on_ok \<and> px_status p < 400 then [cleared_cookie X cfg rq] else []) in
              response\<lparr>rs_cookies := setting @ clearing\<rparr>)
         | _ \<Rightarrow> pass_on p)
      else pass_on p)"

definition forward_json ::
  "'r extern \<Rightarrow> 'r net \<Rightarrow> gateway_settings \<Rightarrow> http_request \<Rightarrow> string \<Rightarrow> string \<Rightarrow> bool \<Rightarrow> bool \<Rightarrow>
   ('r, gateway_response) gprog" where
  "forward_json X N cfg rq upstream_path body set_cookie_on_ok clear_cookie_on_ok =
     thenE (rate_limiter_check X cfg rq ''public_auth'' (rate_limit_public_auth_per_minute cfg))
       (bindE (forward N cfg ''POST'' upstream_path [] (header_dict (rq_headers rq)) body
                 (Some (get_client_ip X rq (trusted_proxy_ips cfg)))) (\<lambda>proxied.
          ret (browser_response X N cfg rq set_cookie_on_ok clear_cookie_on_ok proxied)))"

definition missing_refresh_cookie :: "string \<Rightarrow> gateway_response" where
  "missing_refresh_cookie rid =
     json_document 401 (JDict [(''error_code'', JStr ''HTTP_ERROR''), (''message'', JStr ''Missing refresh cookie''),
       (''request_id'', JStr rid)])"

definition refresh_cookie_of :: "gateway_settings \<Rightarrow> http_request \<Rightarrow> string option" where
  "refresh_cookie_of cfg rq =
     (case map_of (rq_cookies rq) (refresh_cookie_name cfg) of
        None \<Rightarrow> None
      | Some c \<Rightarrow> if c = '''' then None else Some c)"

definition browser_register ::
  "'r extern \<Rightarrow> 'r net \<Rightarrow> gateway_settings \<Rightarrow> string \<Rightarrow> http_request \<Rightarrow> ('r, gateway_response) gprog" where
  "browser_register X N cfg rid rq = forward_json X N cfg rq ''/v1/auth/register'' (rq_body rq) False False"

definition browser_login ::
  "'r extern \<Rightarrow> 'r net \<Rightarrow> gateway_settings \<Rightarrow> string \<Rightarrow> http_request \<Rightarrow> ('r, gateway_response) gprog" where
  "browser_login X N cfg rid rq = forward_json X N cfg rq ''/v1/auth/login'' (rq_body rq) True False"

definition browser_login_2fa ::
  "'r extern \<Rightarrow> 'r net \<Rightarrow> gateway_settings \<Rightarrow> string \<Rightarrow> http_request \<Rightarrow> ('r, gateway_response) gprog" where
  "browser_login_2fa X N cfg rid rq = forward_json X N cfg rq ''/v1/auth/login/2fa'' (rq_body rq) True False"

definition browser_refresh ::
  "'r extern \<Rightarrow> 'r net \<Rightarrow> gateway_settings \<Rightarrow> string \<Rightarrow> http_request \<Rightarrow> ('r, gateway_response) gprog" where
  "browser_refresh X N cfg rid rq =
     (case refresh_cookie_of cfg rq of
        None \<Rightarrow> ret (missing_refresh_cookie rid)
      | Some c \<Rightarrow>
          forward_json X N cfg rq ''/v1/tokens/refresh'' (json_dumps X (JDict [(''refresh_token'', JStr c)])) True False)"

text \<open>A body that is not UTF-8 raises \<open>UnicodeDecodeError\<close>, a \<open>ValueError\<close> that is not caught here.\<close>

definition revoke_family_of :: "'r net \<Rightarrow> string \<Rightarrow> exn + bool" where
  "revoke_family_of N raw_body =
     (if raw_body = '''' then Inr True
      else
        (case load_body N raw_body of
           NotUtf8 \<Rightarrow> Inl (ValueError ''UnicodeDecodeError'')
         | NotJson \<Rightarrow> Inr True
         | Parsed (JDict extra) \<Rightarrow>
             (case map_of extra ''revoke_family'' of None \<Rightarrow> Inr True | Some v \<Rightarrow> Inr (json_truthy v))
         | Parsed _ \<Rightarrow> Inr True))"

definition browser_revoke ::
  "'r extern \<Rightarrow> 'r net \<Rightarrow> gateway_settings \<Rightarrow> string \<Rightarrow> http_request \<Rightarrow> ('r, gateway_response) gprog" where
  "browser_revoke X N cfg rid rq =
     (case refresh_cookie_of cfg rq of
        None \<Rightarrow> ret (missing_refresh_cookie rid)
      | Some c \<Rightarrow>
          (case revoke_family_of N (rq_body rq) of
             Inl e \<Rightarrow> raise e
           | Inr revoke_family \<Rightarrow>
               forward_json X N cfg rq ''/v1/tokens/revoke''
                 (json_dumps X (JDict [(''refresh_token'', JStr c), (''revoke_family'', JBool revoke_family)]))
                 False True))"

section \<open>Health\<close>

definition gateway_liveness :: "('r, gateway_response) gprog" where
  "gateway_liveness = ret (json_document 200 (JDict [(''status'', JStr ''ok'')]))"

definition upstream_live :: "'r net \<Rightarrow> string \<Rightarrow> ('r, unit) gprog" where
  "upstream_live N url =
     (let unavailable = HTTPException 503 (''Upstream '' @ url @ '' unavailable'') in
      bindE (http_client_request N
          \<lparr>uq_method = ''GET'', uq_url = client_base_url url @ ''/v1/health/live'', uq_params = [],
           uq_headers = [], uq_content = ''''\<rparr>) (\<lambda>outcome.
        case outcome of
          TimedOut \<Rightarrow> raise unavailable
        | HttpError \<Rightarrow> raise unavailable
        | Raised e \<Rightarrow> raise e
        | Answer response \<Rightarrow> if an_status response \<ge> 500 then raise unavailable else ret ()))"

definition gateway_readiness :: "'r net \<Rightarrow> gateway_settings \<Rightarrow> ('r, gateway_response) gprog" where
  "gateway_readiness N cfg =
     bindE (reads (\<lambda>s. redis_ping N (clock s) (redis s))) (\<lambda>pong.
       if \<not> pong then raise RedisError
       else
         thenE (forE [auth_service_url cfg, user_service_url cfg] (upstream_live N))
           (ret (json_document 200 (JDict [(''status'', JStr ''ok'')]))))"

section \<open>Routes\<close>

text \<open>
  The API under \<open>/v1\<close>, in the order the routers are included; the first route whose path and method
  fit is taken. The static user interface, its redirection and the generated documentation pages are left out.
\<close>

definition PROXY_METHODS :: "string list" where
  "PROXY_METHODS = [''GET'', ''POST'', ''PUT'', ''PATCH'', ''DELETE'', ''OPTIONS'']"

definition gateway_app ::
  "'r extern \<Rightarrow> 'r net \<Rightarrow> gateway_settings \<Rightarrow> string \<Rightarrow> http_request \<Rightarrow> ('r, gateway_response) gprog" where
  "gateway_app X N cfg rid rq =
     (let path = rq_path rq; meth = rq_method rq in
      if meth = ''GET'' \<and> path = ''/v1/health/live'' then gateway_liveness
      else if meth = ''GET'' \<and> path = ''/v1/health/ready'' then gateway_readiness N cfg
      else if meth = ''POST'' \<and> path = ''/v1/browser-auth/register'' then browser_register X N cfg rid rq
      else if meth = ''POST'' \<and> path = ''/v1/browser-auth/login'' then browser_login X N cfg rid rq
      else if meth = ''POST'' \<and> path = ''/v1/browser-auth/login/2fa'' then browser_login_2fa X N cfg rid rq
      else if meth = ''POST'' \<and> path = ''/v1/browser-auth/refresh'' then browser_refresh X N cfg rid rq
      else if meth = ''POST'' \<and> path = ''/v1/browser-auth/revoke'' then browser_revoke X N cfg rid rq
      else if startswith path ''/v1/'' then
        (if meth \<in> set PROXY_METHODS then proxy_request X N cfg (drop 4 path) rq
         else ret (json_document 405 (JDict [(''detail'', JStr ''Method Not Allowed'')])))
      else ret (json_document 404 (JDict [(''detail'', JStr ''Not Found'')])))"

definition gateway_finish :: "http_request \<Rightarrow> string \<Rightarrow> exn + gateway_response \<Rightarrow> gateway_response" where
  "gateway_finish rq rid r =
     (case r of
        Inr rs \<Rightarrow> with_middlewares gateway_csp rq rid rs
      | Inl e \<Rightarrow>
          (let er = error_json (exception_handler (Some rid) e);
               rs = json_document (rs_status er) (rs_body er) in
           if unexpected e then rs else with_middlewares gateway_csp rq rid rs))"

definition serve_gateway ::
  "'r extern \<Rightarrow> 'r net \<Rightarrow> gateway_settings \<Rightarrow> http_request \<Rightarrow> ('r, gateway_response) gprog" where
  "serve_gateway X N cfg rq =
     bindE (request_id_from_header X (header_get rq ''x-request-id'')) (\<lambda>rid.
     bindE (attempt (gateway_app X N cfg rid rq)) (\<lambda>r.
       ret (gateway_finish rq rid r)))"

end
