(* ===== verification/Gateway_Effects.thy ===== *)
theory Gateway_Effects
  imports Gateway
begin

text \<open>
  What the parts of the gateway do: the guards send nothing and leave foreign cache keys alone, and
  \<open>forward\<close> sends at most one request, cleaned, to the service its path belongs to.
\<close>

section \<open>Guards\<close>

definition silent :: "'r gateway_node \<Rightarrow> 'r gateway_node \<Rightarrow> bool" where
  "silent s t \<longleftrightarrow> sent t = sent s \<and> clock t = clock s"

interpretation silent_effect: effect silent
  by unfold_locales (simp_all add: silent_def)

lemma within_silent_primitives:
  "within silent time_now" "within silent (redis_read c)" "within silent (redis_write w)" "within silent (redis_incr ops k)"
  by (rule within_time_now within_redis_read within_redis_write within_redis_incr; simp add: silent_def)+

lemma within_silent_limiter: "within silent (rate_limiter_check X cfg rq scope limit)"
  unfolding rate_limiter_check_def Let_def
  by (intro silent_effect.within_rules within_silent_primitives)+

lemma rate_limit_key_not_revoked: "rate_limit_key scope h b \<noteq> access_session_revoked_key sid"
  by (simp add: rate_limit_key_def access_session_revoked_key_def)

lemma limiter_keeps_key:
  assumes R: "redis_store (redis_cmds X) look" and run: "rate_limiter_check X cfg rq scope limit s = (r, t)"
    and k: "\<And>h b. rate_limit_key scope h b \<noteq> k"
  shows "look (redis t) (clock s) k = look (redis s) (clock s) k"
proof -
  have i: "look r' (clock s) k = look (redis s) (clock s) k"
    if "r_incr (redis_cmds X) (clock s) (rate_limit_key scope h b) (redis s) = Some (n, r')" for h b n r'
    using redis_store.incr_new [OF R that] redis_store.incr_old [OF R that] k [of h b]
    by (cases "look (redis s) (clock s) (rate_limit_key scope h b)") auto
  have e: "look r' (clock s) k = look r'' (clock s) k"
    if "r_expire (redis_cmds X) (clock s) (rate_limit_key scope h b) w r'' = Some r'" for h b w r' r''
    using redis_store.expire_law [OF R that] k [of h b] by (auto split: option.splits prod.splits)
  show ?thesis
    using run i e
    by (auto simp: rate_limiter_check_def Let_def bindE_def tryE_def thenE_def whenE_def run_redis_incr run_redis_write
        split: option.splits prod.splits if_splits sum.splits)
qed

section \<open>Forwarding\<close>

definition forwarded_headers :: "(string \<times> string) list \<Rightarrow> string \<Rightarrow> (string \<times> string) list" where
  "forwarded_headers hs ip = dict_put ''X-Forwarded-For'' ip (sanitize_request_headers hs)"

definition answered :: "upstream_outcome \<Rightarrow> exn + proxied_response" where
  "answered oc =
     (case oc of
        TimedOut \<Rightarrow> Inl (UpstreamServiceException ''Upstream timeout'')
      | HttpError \<Rightarrow> Inl (UpstreamServiceException ''Upstream request failed'')
      | Raised e \<Rightarrow> Inl e
      | Answer a \<Rightarrow>
          Inr \<lparr>px_status = an_status a, px_body = an_content a, px_headers = sanitize_response_headers (an_headers a)\<rparr>)"

lemma resolved_configured: "resolve_service cfg path = Inr c \<Longrightarrow> is_configured c"
  by (auto simp: resolve_service_def auth_client_def user_client_def notification_client_def split: if_splits)

definition forwarded_query :: "string \<Rightarrow> string \<Rightarrow> (string \<times> string) list \<Rightarrow> http_request \<Rightarrow> string \<Rightarrow> string \<Rightarrow> upstream_request" where
  "forwarded_query meth url params rq ip body =
     \<lparr>uq_method = meth, uq_url = url, uq_params = params,
      uq_headers = forwarded_headers (header_dict (rq_headers rq)) ip, uq_content = body\<rparr>"

lemma forward_run:
  assumes "ip \<noteq> ''''"
  shows "forward N cfg meth path params (header_dict (rq_headers rq)) body (Some ip) s =
     (case resolve_service cfg path of
        Inl e \<Rightarrow> (Inl e, s)
      | Inr c \<Rightarrow>
          (answered (http_answer N (sent s @ [forwarded_query meth (client_base c @ path) params rq ip body])),
           s\<lparr>sent := sent s @ [forwarded_query meth (client_base c @ path) params rq ip body]\<rparr>))"
  using assms
  by (auto simp: forward_def client_request_def http_client_request_def forwarded_headers_def forwarded_query_def answered_def
      Let_def resolved_configured bindE_def split: sum.split upstream_outcome.split)

text \<open>The headers a request is forwarded with.\<close>

lemma map_of_dict_pop: "map_of (dict_pop k d) n = (if n = k then None else map_of d n)"
  by (induction d) (auto simp: dict_pop_def)

lemma header_dict_mem: "(k, v) \<in> set (header_dict hs) \<Longrightarrow> map_of hs k = Some v"
  by (induction hs rule: header_dict.induct) (auto simp: dict_pop_def)

lemma sanitized_names:
  "(k, v) \<in> set (sanitize_request_headers hs) \<longleftrightarrow> (k, v) \<in> set hs \<and> lower k \<notin> set HOP_BY_HOP_HEADERS \<and>
     lower k \<notin> set FORWARDED_HEADERS \<and> lower k \<noteq> ''host'' \<and> lower k \<noteq> ''content-length''"
  by (auto simp: sanitize_request_headers_def)

lemma lower_xff: "lower ''X-Forwarded-For'' = ''x-forwarded-for''"
  by code_simp

lemma xff_absent: "''X-Forwarded-For'' \<notin> fst ` set (sanitize_request_headers hs)"
  using lower_xff by (force simp: sanitized_names FORWARDED_HEADERS_def)

definition clean_headers :: "http_request \<Rightarrow> string \<Rightarrow> (string \<times> string) list \<Rightarrow> bool" where
  "clean_headers rq ip hs \<longleftrightarrow>
     filter (\<lambda>(k, _). lower k = ''x-forwarded-for'') hs = [(''X-Forwarded-For'', ip)] \<and>
     (\<forall>(k, v) \<in> set hs. k = ''X-Forwarded-For'' \<or>
        header_get rq k = Some v \<and> lower k \<notin> set HOP_BY_HOP_HEADERS \<and> lower k \<notin> set FORWARDED_HEADERS \<and>
        lower k \<noteq> ''host'' \<and> lower k \<noteq> ''content-length'')"

lemma forwarded_clean: "clean_headers rq ip (forwarded_headers (header_dict (rq_headers rq)) ip)"
proof -
  let ?c = "sanitize_request_headers (header_dict (rq_headers rq))"
  have f: "forwarded_headers (header_dict (rq_headers rq)) ip = ?c @ [(''X-Forwarded-For'', ip)]"
    using xff_absent by (simp add: forwarded_headers_def dict_put_def)
  have "filter (\<lambda>(k, _). lower k = ''x-forwarded-for'') ?c = []"
    by (auto simp: filter_empty_conv sanitized_names FORWARDED_HEADERS_def)
  then show ?thesis
    by (auto simp: clean_headers_def f sanitized_names header_get_def lower_xff dest: header_dict_mem)
qed

lemma client_ip_nonempty: "get_client_ip X rq ips \<noteq> ''''"
  by (auto simp: get_client_ip_def client_host_of_def Let_def split: option.split if_splits)

section \<open>The proxy and the browser endpoints\<close>

text \<open>
  The request carries an access token that is valid now, of a session that is not marked as revoked.
\<close>

definition bearer_ok ::
  "'r extern \<Rightarrow> gateway_settings \<Rightarrow> ('r \<Rightarrow> int \<Rightarrow> string \<Rightarrow> entry option) \<Rightarrow> http_request \<Rightarrow> 'r gateway_node \<Rightarrow> bool" where
  "bearer_ok X cfg look rq s \<longleftrightarrow>
     (\<exists>raw claims. extract_bearer_token rq s = (Inr raw, s) \<and> decode_access_token X cfg raw s = (Inr claims, s) \<and>
        look (redis s) (clock s) (access_session_revoked_key (str_uuid (at_sid claims))) = None)"

lemma guard_cases:
  assumes R: "redis_store (redis_cmds X) look"
    and run: "thenE (rate_limiter_check X cfg rq scope limit)
      (bindE (extract_bearer_token rq) (\<lambda>token. bindE (decode_access_token X cfg token) (\<lambda>claims.
         ensure_access_session_active X (at_sid claims)))) s = (r, s')"
  shows "silent s s' \<and> (r = Inr () \<longrightarrow> bearer_ok X cfg look rq s)"
proof -
  obtain r1 s1 where l: "rate_limiter_check X cfg rq scope limit s = (r1, s1)" by fastforce
  have sil: "silent s s1" using within_run [OF within_silent_limiter l] .
  obtain r2 where b: "extract_bearer_token rq s1 = (r2, s1)" using bearer_cases by metis
  have bs: "extract_bearer_token rq s = (r2, s)"
    using b by (auto simp: extract_bearer_token_def Let_def split: if_splits)
  show ?thesis
  proof (cases "\<exists>x raw. r1 = Inr x \<and> r2 = Inr raw")
    case False
    then show ?thesis using run l b sil by (cases r1; cases r2) auto
  next
    case True
    then obtain raw where r: "r1 = Inr ()" "r2 = Inr raw" by auto
    obtain r3 where d: "decode_access_token X cfg raw s1 = (r3, s1)" using run_decode_access_token by blast
    have ds: "decode_access_token X cfg raw s = (r3, s)"
      using d sil by (auto simp: decode_access_token_def silent_def split: option.splits if_splits)
    show ?thesis
    proof (cases r3)
      case (Inl e)
      then show ?thesis using run l b d r sil by auto
    next
      case (Inr claims)
      have "ensure_access_session_active X (at_sid claims) s1 = (r, s')" using run l b d r Inr by simp
      then consider e where "r = Inl e" "s' = s1"
        | "r = Inr ()" "s' = s1" "look (redis s1) (clock s1) (access_session_revoked_key (str_uuid (at_sid claims))) = None"
        using ensure_active_cases [OF R, of "at_sid claims" s1] by auto
      then show ?thesis
      proof cases
        case 2
        have "look (redis s) (clock s) (access_session_revoked_key (str_uuid (at_sid claims))) = None"
          using limiter_keeps_key [OF R l rate_limit_key_not_revoked] 2(3) sil by (simp add: silent_def)
        then show ?thesis using bs [unfolded r] ds [unfolded Inr] sil 2 unfolding bearer_ok_def by blast
      qed (use sil in simp)
    qed
  qed
qed

lemma proxy_request_cases:
  assumes R: "redis_store (redis_cmds X) look" and run: "proxy_request X N cfg fp rq s = (r, t)"
  obtains (stopped) e where "r = Inl e" "sent t = sent s"
  | (forwarded) c where "is_public_endpoint (upper (rq_method rq)) (proxy_path fp) \<or> bearer_ok X cfg look rq s"
      "resolve_service cfg (proxy_path fp) = Inr c"
      "sent t = sent s @ [forwarded_query (upper (rq_method rq)) (client_base c @ proxy_path fp) (rq_query rq) rq
         (get_client_ip X rq (trusted_proxy_ips cfg)) (rq_body rq)]"
      "r = map_sum id pass_on (answered (http_answer N (sent t)))"
proof -
  let ?pub = "is_public_endpoint (upper (rq_method rq)) (proxy_path fp)"
  let ?guard = "if ?pub then rate_limiter_check X cfg rq ''public_auth'' (rate_limit_public_auth_per_minute cfg)
     else thenE (rate_limiter_check X cfg rq ''protected'' (rate_limit_protected_per_minute cfg))
       (bindE (extract_bearer_token rq) (\<lambda>token. bindE (decode_access_token X cfg token) (\<lambda>claims.
          ensure_access_session_active X (at_sid claims))))"
  obtain r1 s1 where g: "?guard s = (r1, s1)" by fastforce
  have ok: "silent s s1 \<and> (r1 = Inr () \<longrightarrow> ?pub \<or> bearer_ok X cfg look rq s)"
  proof (cases ?pub)
    case True
    then show ?thesis using g within_run [OF within_silent_limiter] by simp
  next
    case False
    then show ?thesis using g guard_cases [OF R] by simp
  qed
  let ?ip = "get_client_ip X rq (trusted_proxy_ips cfg)"
  have whole: "proxy_request X N cfg fp rq s = thenE ?guard
      (bindE (forward N cfg (upper (rq_method rq)) (proxy_path fp) (rq_query rq) (header_dict (rq_headers rq)) (rq_body rq)
         (Some ?ip)) (\<lambda>p. ret (pass_on p))) s"
    by (simp add: proxy_request_def Let_def)
  note F = forward_run [OF client_ip_nonempty, of N cfg "upper (rq_method rq)" "proxy_path fp" "rq_query rq" rq "rq_body rq"
      X rq "trusted_proxy_ips cfg" s1]
  show thesis
  proof (cases "\<exists>c. r1 = Inr () \<and> resolve_service cfg (proxy_path fp) = Inr c")
    case False
    then have "\<exists>e. r = Inl e" "t = s1"
      using run g F unfolding whole by (cases r1; cases "resolve_service cfg (proxy_path fp)"; auto)+
    then show thesis using stopped ok by (auto simp: silent_def)
  next
    case True
    then obtain c where c: "r1 = Inr ()" "resolve_service cfg (proxy_path fp) = Inr c" by blast
    let ?q = "forwarded_query (upper (rq_method rq)) (client_base c @ proxy_path fp) (rq_query rq) rq ?ip (rq_body rq)"
    have "r = map_sum id pass_on (answered (http_answer N (sent s1 @ [?q])))" "t = s1\<lparr>sent := sent s1 @ [?q]\<rparr>"
      using run g F c unfolding whole by (auto simp: bindE_def split: sum.splits)
    then show thesis using forwarded [OF _ c(2)] ok c(1) by (simp add: silent_def)
  qed
qed

lemma forward_json_cases:
  assumes run: "forward_json X N cfg rq path body set_on clear_on s = (r, t)"
  obtains (stopped) e where "r = Inl e" "sent t = sent s"
  | (forwarded) c where "resolve_service cfg path = Inr c"
      "sent t = sent s @ [forwarded_query ''POST'' (client_base c @ path) [] rq
         (get_client_ip X rq (trusted_proxy_ips cfg)) body]"
      "r = map_sum id (browser_response X N cfg rq set_on clear_on) (answered (http_answer N (sent t)))"
proof -
  obtain r1 s1 where g: "rate_limiter_check X cfg rq ''public_auth'' (rate_limit_public_auth_per_minute cfg) s = (r1, s1)"
    by fastforce
  have ok: "silent s s1" using within_run [OF within_silent_limiter g] .
  let ?ip = "get_client_ip X rq (trusted_proxy_ips cfg)"
  note F = forward_run [OF client_ip_nonempty, of N cfg "''POST''" path "[]" rq body X rq "trusted_proxy_ips cfg" s1]
  show thesis
  proof (cases "\<exists>c. r1 = Inr () \<and> resolve_service cfg path = Inr c")
    case False
    then have "\<exists>e. r = Inl e" "t = s1"
      using run g F by (cases r1; cases "resolve_service cfg path"; auto simp: forward_json_def)+
    then show thesis using stopped ok by (auto simp: silent_def)
  next
    case True
    then obtain c where c: "r1 = Inr ()" "resolve_service cfg path = Inr c" by blast
    let ?q = "forwarded_query ''POST'' (client_base c @ path) [] rq ?ip body"
    have "r = map_sum id (browser_response X N cfg rq set_on clear_on) (answered (http_answer N (sent s1 @ [?q])))"
      "t = s1\<lparr>sent := sent s1 @ [?q]\<rparr>"
      using run g F c by (auto simp: forward_json_def bindE_def split: sum.splits)
    then show thesis using forwarded [OF c(2)] ok by (simp add: silent_def)
  qed
qed

end
