(* ===== verification/Gateway_Properties.thy ===== *)
theory Gateway_Properties
  imports Gateway_Effects Auth_Access
begin

text \<open>
  The gateway as a whole: what it lets through to the services, what it answers, where the refresh token of a
  browser goes, and how its requests arrive at the auth-service.
\<close>

section \<open>What is let through\<close>

lemma startswith_append [simp]: "startswith (p @ s) p"
  by (simp add: startswith_def)

lemma proxy_path_v1: "startswith (proxy_path fp) ''/v1/''"
  using startswith_append [of "''/v1/''" "lstrip_of (\<lambda>c. c = CHR ''/'') (''/'' @ lstrip_of (\<lambda>c. c = CHR ''/'') fp)"]
  by (simp add: proxy_path_def Let_def)

lemma upstream_paths:
  assumes "path \<in> {''/v1/auth/register'', ''/v1/auth/login'', ''/v1/auth/login/2fa'', ''/v1/tokens/refresh'', ''/v1/tokens/revoke''}"
  shows "is_public_endpoint ''POST'' path" "startswith path ''/v1/''" "resolve_service cfg path = Inr (auth_client cfg)"
proof -
  have up: "upper ''POST'' = ''POST''" by code_simp
  show "is_public_endpoint ''POST'' path"
    using assms unfolding insert_iff empty_iff
    by (elim disjE FalseE) (simp_all add: is_public_endpoint_def rstrip_of_def PUBLIC_ENDPOINTS_def up)
  show "startswith path ''/v1/''"
    using assms unfolding insert_iff empty_iff by (elim disjE FalseE) (simp_all add: startswith_def)
  show "resolve_service cfg path = Inr (auth_client cfg)"
    using assms unfolding insert_iff empty_iff by (elim disjE FalseE) (simp_all add: startswith_def resolve_service_def)
qed

text \<open>What a browser endpoint sends, if anything.\<close>

definition browser_target :: "http_request \<Rightarrow> string" where
  "browser_target rq =
     (if rq_path rq = ''/v1/browser-auth/register'' then ''/v1/auth/register''
      else if rq_path rq = ''/v1/browser-auth/login'' then ''/v1/auth/login''
      else if rq_path rq = ''/v1/browser-auth/login/2fa'' then ''/v1/auth/login/2fa''
      else if rq_path rq = ''/v1/browser-auth/refresh'' then ''/v1/tokens/refresh'' else ''/v1/tokens/revoke'')"

definition browser_paths :: "string list" where
  "browser_paths =
     [''/v1/browser-auth/register'', ''/v1/browser-auth/login'', ''/v1/browser-auth/login/2fa'',
      ''/v1/browser-auth/refresh'', ''/v1/browser-auth/revoke'']"

lemma gateway_app_cases:
  assumes "gateway_app X N cfg rid rq s = (r, t)" "rq_path rq \<noteq> ''/v1/health/ready''"
  obtains (own) "sent t = sent s"
  | (proxied) "proxy_request X N cfg (drop 4 (rq_path rq)) rq s = (r, t)"
  | (browser) body set_on clear_on where "rq_method rq = ''POST''" "rq_path rq \<in> set browser_paths"
      "forward_json X N cfg rq (browser_target rq) body set_on clear_on s = (r, t)"
  using assms
  by (auto simp: gateway_app_def Let_def browser_register_def browser_login_def browser_login_2fa_def browser_refresh_def
      browser_revoke_def browser_target_def browser_paths_def gateway_liveness_def
      split: if_splits option.splits sum.splits)

lemma browser_target_public:
  "is_public_endpoint ''POST'' (browser_target rq)" "startswith (browser_target rq) ''/v1/''"
  "resolve_service cfg (browser_target rq) = Inr (auth_client cfg)"
  by (rule upstream_paths, simp add: browser_target_def)+

lemma gateway_sends:
  assumes "redis_store (redis_cmds X) look" "gateway_app X N cfg rid rq s = (r, t)" "rq_path rq \<noteq> ''/v1/health/ready''"
  shows "sent t = sent s \<or>
    (\<exists>c path q. sent t = sent s @ [q] \<and> resolve_service cfg path = Inr c \<and> startswith path ''/v1/'' \<and>
       uq_url q = client_base c @ path \<and>
       (is_public_endpoint (uq_method q) path \<or> bearer_ok X cfg look rq s) \<and>
       clean_headers rq (get_client_ip X rq (trusted_proxy_ips cfg)) (uq_headers q))"
  using assms(2,3)
proof (cases rule: gateway_app_cases)
  case proxied
  from assms(1) proxied show ?thesis
  proof (cases rule: proxy_request_cases)
    case (forwarded c)
    then show ?thesis
      by (intro disjI2 exI [of _ c] exI [of _ "proxy_path (drop 4 (rq_path rq))"])
         (simp add: forwarded_query_def proxy_path_v1 forwarded_clean)
  qed simp
next
  case (browser body set_on clear_on)
  from browser(3) show ?thesis
  proof (cases rule: forward_json_cases)
    case (forwarded c)
    then show ?thesis
      by (intro disjI2 exI [of _ c] exI [of _ "browser_target rq"])
         (simp add: forwarded_query_def browser_target_public forwarded_clean)
  qed simp
qed simp

text \<open>
  C30: the gateway guards the services. A request makes the gateway send nothing or exactly one request upstream (the readiness
  probe apart). That one goes to the service that its path is listed for; its endpoint is public or the client presented an access token
  that is valid at that moment and whose session is not revoked; and its headers are the client's without
  hop-by-hop headers, with exactly one \<open>X-Forwarded-For\<close>, the client's address as the gateway sees it.
\<close>

theorem gateway_guards_upstream:
  assumes "redis_store (redis_cmds X) look" "gateway_app X N cfg rid rq s = (r, t)" "rq_path rq \<noteq> ''/v1/health/ready''"
  shows "sent t = sent s \<or>
    (\<exists>c path q. sent t = sent s @ [q] \<and> resolve_service cfg path = Inr c \<and> startswith path ''/v1/'' \<and>
       uq_url q = client_base c @ path \<and>
       (is_public_endpoint (uq_method q) path \<or> bearer_ok X cfg look rq s) \<and>
       clean_headers rq (get_client_ip X rq (trusted_proxy_ips cfg)) (uq_headers q))"
  using assms by (rule gateway_sends)

section \<open>What is answered\<close>

definition clean_response_headers :: "(string \<times> string) list \<Rightarrow> bool" where
  "clean_response_headers hs \<longleftrightarrow>
     (\<forall>(k, v) \<in> set hs. lower k \<notin> set HOP_BY_HOP_HEADERS \<and> lower k \<notin> set BLOCKED_RESPONSE_HEADERS \<and>
        lower k \<noteq> ''content-length'')"

lemma sanitized_response: "clean_response_headers (sanitize_response_headers hs)"
  by (auto simp: clean_response_headers_def sanitize_response_headers_def)

lemma serve_gateway_run:
  obtains rid n where "serve_gateway X N cfg rq s =
    (Inr (gateway_finish rq rid (fst (gateway_app X N cfg rid rq (s\<lparr>draws := n\<rparr>)))), snd (gateway_app X N cfg rid rq (s\<lparr>draws := n\<rparr>)))"
proof -
  obtain rid n where "request_id_from_header X (header_get rq ''x-request-id'') s = (Inr rid, s\<lparr>draws := n\<rparr>)"
    using request_id_run by blast
  then show thesis using that by (simp add: serve_gateway_def)
qed

lemma finish_status:
  "rs_status (gateway_finish rq rid r) =
     (case r of Inr rs \<Rightarrow> rs_status rs | Inl e \<Rightarrow> er_status (exception_handler (Some rid) e))"
  by (simp add: gateway_finish_def with_middlewares_secured Let_def json_document_def error_json_def json_response_def
      split: sum.split)

lemma with_middlewares_cookies [simp]: "rs_cookies (with_middlewares csp rq rid rs) = rs_cookies rs"
  by (simp add: with_middlewares_def security_headers_def put_header_def)

lemma put_header_clean:
  "clean_response_headers (rs_headers rs) \<Longrightarrow> lower n = n \<Longrightarrow> n \<notin> set HOP_BY_HOP_HEADERS \<Longrightarrow>
   n \<notin> set BLOCKED_RESPONSE_HEADERS \<Longrightarrow> n \<noteq> ''content-length'' \<Longrightarrow>
   clean_response_headers (rs_headers (put_header n v rs))"
  by (auto simp: clean_response_headers_def put_header_def)

lemma shell_names:
  "list_all (\<lambda>n. lower n = n \<and> n \<notin> set HOP_BY_HOP_HEADERS \<and> n \<notin> set BLOCKED_RESPONSE_HEADERS \<and> n \<noteq> ''content-length'')
     [''content-security-policy'', ''permissions-policy'', ''referrer-policy'', ''x-frame-options'',
      ''x-content-type-options'', ''x-request-id'']"
  by code_simp

lemma with_middlewares_clean:
  assumes "clean_response_headers (rs_headers rs)"
  shows "clean_response_headers (rs_headers (with_middlewares csp rq rid rs))"
  unfolding with_middlewares_def security_headers_def using shell_names assms
  by (intro put_header_clean) auto

definition relayed :: "upstream_outcome \<Rightarrow> gateway_response \<Rightarrow> bool" where
  "relayed oc rs \<longleftrightarrow>
     (case oc of
        Answer a \<Rightarrow> rs_status rs = an_status a \<and> rs_body rs = Bytes (an_content a)
      | TimedOut \<Rightarrow> rs_status rs = 502
      | HttpError \<Rightarrow> rs_status rs = 502
      | Raised e \<Rightarrow> True)"

text \<open>
  C31: the gateway relays. When a request outside the browser endpoints was sent upstream, the client gets the status and the
  bytes of the service's answer, and status 502 when the service did not answer. No hop-by-hop header, no
  \<open>Server\<close>, \<open>X-Powered-By\<close> or \<open>Set-Cookie\<close> of a service reaches the client, no cookie is set, and unless
  the HTTP client fails in an unforeseen way the answer carries the gateway's own security headers.
\<close>

theorem gateway_relays:
  assumes "redis_store (redis_cmds X) look" "rq_path rq \<notin> set browser_paths" "rq_path rq \<noteq> ''/v1/health/ready''"
    and "serve_gateway X N cfg rq s = (Inr rs, t)" "sent t \<noteq> sent s"
  shows "relayed (http_answer N (sent t)) rs \<and> clean_response_headers (rs_headers rs) \<and> rs_cookies rs = [] \<and>
    ((\<forall>e. http_answer N (sent t) \<noteq> Raised e) \<longrightarrow> secured gateway_csp rq rs)"
proof -
  obtain rid n where "serve_gateway X N cfg rq s =
      (Inr (gateway_finish rq rid (fst (gateway_app X N cfg rid rq (s\<lparr>draws := n\<rparr>)))), snd (gateway_app X N cfg rid rq (s\<lparr>draws := n\<rparr>)))"
    by (rule serve_gateway_run)
  moreover obtain r t' where app: "gateway_app X N cfg rid rq (s\<lparr>draws := n\<rparr>) = (r, t')" by fastforce
  ultimately have t: "rs = gateway_finish rq rid r" "t' = t" using assms(4) by simp_all
  from app assms(3) show ?thesis
  proof (cases rule: gateway_app_cases)
    case proxied
    from assms(1) proxied show ?thesis
    proof (cases rule: proxy_request_cases)
      case (forwarded c)
      have r: "r = map_sum id pass_on (answered (http_answer N (sent t)))" using forwarded(4) t by simp
      show ?thesis
      proof (cases "http_answer N (sent t)")
        case (Answer a)
        then show ?thesis
          by (simp add: t(1) r answered_def gateway_finish_def pass_on_def bytes_response_def relayed_def
              with_middlewares_secured with_middlewares_clean sanitized_response)
      qed (auto simp: t(1) r answered_def relayed_def finish_status exception_handler_def gateway_finish_def Let_def
          json_document_def error_json_def json_response_def clean_response_headers_def unexpected_def
          with_middlewares_secured
          intro!: with_middlewares_clean [unfolded clean_response_headers_def])
    qed (use assms(5) t in simp)
  qed (use assms t in simp_all)
qed

section \<open>The refresh token of a browser\<close>

text \<open>
  The token an answer of the auth-service carries: at its top level, or else under \<open>tokens\<close>; and what it means
  that a document carries none.
\<close>

definition refresh_in :: "(string \<times> json) list \<Rightarrow> string option" where
  "refresh_in d = (case map_of d ''refresh_token'' of Some (JStr rt) \<Rightarrow> Some rt | _ \<Rightarrow> None)"

definition tokens_of :: "(string \<times> json) list \<Rightarrow> (string \<times> json) list" where
  "tokens_of d = (case map_of d ''tokens'' of Some (JDict n) \<Rightarrow> n | _ \<Rightarrow> [])"

definition delivered_refresh :: "(string \<times> json) list \<Rightarrow> string option" where
  "delivered_refresh d = (case refresh_in d of Some rt \<Rightarrow> Some rt | None \<Rightarrow> refresh_in (tokens_of d))"

definition bare :: "(string \<times> json) list \<Rightarrow> bool" where
  "bare d \<longleftrightarrow> refresh_in d = None \<and> refresh_in (tokens_of d) = None"

lemma map_of_dict_put: "map_of (dict_put k v d) n = (if n = k then Some v else map_of d n)"
proof -
  have "map_of (map (\<lambda>(m, w). if m = k then (m, v) else (m, w)) d) n = (if n = k then map_option (\<lambda>_. v) (map_of d k) else map_of d n)"
    by (induction d) auto
  moreover have "k \<in> fst ` set d \<longleftrightarrow> map_of d k \<noteq> None" by (simp add: map_of_eq_None_iff)
  ultimately show ?thesis by (auto simp: dict_put_def map_add_def split: option.split)
qed

lemma refresh_in_pop: "refresh_in (dict_pop ''refresh_token'' d) = None"
  by (simp add: refresh_in_def map_of_dict_pop)

definition without_nested :: "(string \<times> json) list \<Rightarrow> (string \<times> json) list" where
  "without_nested d =
     (if refresh_in (tokens_of d) = None then d else dict_put ''tokens'' (JDict (dict_pop ''refresh_token'' (tokens_of d))) d)"

lemma without_nested_spec:
  "refresh_in (without_nested d) = refresh_in d" "refresh_in (tokens_of (without_nested d)) = None"
  "k \<noteq> ''tokens'' \<Longrightarrow> map_of (without_nested d) k = map_of d k"
  "k \<noteq> ''refresh_token'' \<Longrightarrow> map_of (tokens_of (without_nested d)) k = map_of (tokens_of d) k"
  by (simp_all add: without_nested_def refresh_in_pop refresh_in_def map_of_dict_put)
     (simp_all add: tokens_of_def map_of_dict_put map_of_dict_pop)

lemma strip_refresh_eq:
  "strip_refresh_from_json d =
     (case refresh_in d of
        Some rt \<Rightarrow> (dict_pop ''refresh_token'' (without_nested d), Some rt)
      | None \<Rightarrow> (without_nested d, refresh_in (tokens_of d)))"
proof (cases "map_of d ''tokens''")
  case None
  then show ?thesis
    by (simp add: strip_refresh_from_json_def without_nested_def tokens_of_def refresh_in_def split: option.split json.split)
next
  case (Some v)
  show ?thesis
  proof (cases v)
    case (JDict n)
    show ?thesis
    proof (cases "map_of n ''refresh_token''")
      case None
      then show ?thesis using Some JDict
        by (simp add: strip_refresh_from_json_def without_nested_def tokens_of_def refresh_in_def split: option.split json.split)
    next
      case (Some w)
      then show ?thesis using \<open>map_of d ''tokens'' = Some v\<close> JDict
        by (cases w) (simp_all add: strip_refresh_from_json_def without_nested_def tokens_of_def refresh_in_def map_of_dict_put
            split: option.split json.split)
    qed
  qed (use Some in \<open>simp_all add: strip_refresh_from_json_def without_nested_def tokens_of_def refresh_in_def
      split: option.split json.split\<close>)
qed

lemma strip_refresh_spec:
  assumes "strip_refresh_from_json d = (out, rt)"
  shows "rt = delivered_refresh d" "bare out"
    "k \<noteq> ''refresh_token'' \<Longrightarrow> k \<noteq> ''tokens'' \<Longrightarrow> map_of out k = map_of d k"
    "k \<noteq> ''refresh_token'' \<Longrightarrow> map_of (tokens_of out) k = map_of (tokens_of d) k"
proof -
  have pop: "tokens_of (dict_pop ''refresh_token'' e) = tokens_of e" for e
    by (simp add: tokens_of_def map_of_dict_pop)
  show "rt = delivered_refresh d" "bare out"
    "k \<noteq> ''refresh_token'' \<Longrightarrow> k \<noteq> ''tokens'' \<Longrightarrow> map_of out k = map_of d k"
    "k \<noteq> ''refresh_token'' \<Longrightarrow> map_of (tokens_of out) k = map_of (tokens_of d) k"
    using assms
    by (auto simp: strip_refresh_eq delivered_refresh_def bare_def refresh_in_pop without_nested_spec pop map_of_dict_pop
        split: option.splits)
qed

definition token_paths :: "string list" where
  "token_paths = [''/v1/browser-auth/login'', ''/v1/browser-auth/login/2fa'', ''/v1/browser-auth/refresh'']"

lemma token_endpoint:
  assumes "gateway_app X N cfg rid rq s = (r, t)" "rq_method rq = ''POST''" "rq_path rq \<in> set token_paths" "sent t \<noteq> sent s"
  obtains body where "forward_json X N cfg rq (browser_target rq) body True False s = (r, t)"
  using assms unfolding token_paths_def list.set insert_iff empty_iff
  by (elim disjE FalseE)
     (auto simp: gateway_app_def browser_login_def browser_login_2fa_def browser_refresh_def browser_target_def
       split: option.splits)

lemma map_of_filter_key: "map_of (filter (\<lambda>(k, _). P k) d) k = (if P k then map_of d k else None)"
  by (induction d) auto

lemma content_type_kept: "map_of (sanitize_response_headers hs) ''content-type'' = map_of hs ''content-type''"
proof -
  have "lower ''content-type'' = ''content-type''" by code_simp
  then show ?thesis
    unfolding sanitize_response_headers_def
    by (subst map_of_filter_key) (simp add: HOP_BY_HOP_HEADERS_def BLOCKED_RESPONSE_HEADERS_def)
qed

definition json_content :: "upstream_response \<Rightarrow> bool" where
  "json_content a \<longleftrightarrow>
     contains_sub ''application/json'' (lower (case map_of (an_headers a) ''content-type'' of None \<Rightarrow> '''' | Some v \<Rightarrow> v))"

text \<open>
  C32: scripts in the browser never see a refresh token. When the auth-service answers a login, a second login step or a
  refresh through the browser endpoints with a JSON object, the body handed to the browser has no refresh
  token, neither at its top nor among its \<open>tokens\<close>, and every other field unchanged. The token that was
  delivered, if any, goes into exactly one cookie of the configured name: \<open>HttpOnly\<close>, \<open>SameSite=Lax\<close>, for the whole site, and
  \<open>Secure\<close> as the settings or the connection demand.
\<close>

theorem refresh_token_stays_in_cookie:
  assumes "gateway_app X N cfg rid rq s = (Inr rs, t)" "rq_method rq = ''POST''" "rq_path rq \<in> set token_paths" "sent t \<noteq> sent s"
    and "http_answer N (sent t) = Answer a" "an_status a < 400" "json_content a" "load_body N (an_content a) = Parsed (JDict d)"
  shows "\<exists>out. rs_status rs = an_status a \<and> rs_body rs = Bytes (json_dumps X (JDict out)) \<and> bare out \<and>
    (\<forall>k. k \<noteq> ''refresh_token'' \<and> k \<noteq> ''tokens'' \<longrightarrow> map_of out k = map_of d k) \<and>
    (\<forall>k. k \<noteq> ''refresh_token'' \<longrightarrow> map_of (tokens_of out) k = map_of (tokens_of d) k) \<and>
    rs_cookies rs =
      (case delivered_refresh d of
         None \<Rightarrow> []
       | Some rt \<Rightarrow> if rt = '''' then [] else
           [\<lparr>sc_key = refresh_cookie_name cfg, sc_value = rt, sc_max_age = refresh_cookie_max_age_seconds cfg, sc_path = ''/'',
             sc_httponly = True, sc_secure = effective_refresh_cookie_secure X cfg rq, sc_samesite = ''lax''\<rparr>])"
proof -
  obtain body where "forward_json X N cfg rq (browser_target rq) body True False s = (Inr rs, t)"
    using assms(1-4) by (rule token_endpoint)
  then show ?thesis
  proof (cases rule: forward_json_cases)
    case (forwarded c)
    obtain out rt where st: "strip_refresh_from_json d = (out, rt)" by fastforce
    have "rs = browser_response X N cfg rq True False \<lparr>px_status = an_status a, px_body = an_content a,
        px_headers = sanitize_response_headers (an_headers a)\<rparr>"
      using forwarded(3) assms(5) by (simp add: answered_def)
    then have "rs = (bytes_response (an_status a) [(''content-type'', ''application/json'')] (json_dumps X (JDict out)))
        \<lparr>rs_cookies := (case rt of None \<Rightarrow> [] | Some v \<Rightarrow> if v \<noteq> '''' then [refresh_cookie X cfg rq v] else [])\<rparr>"
      using assms(6-8) by (simp add: browser_response_def Let_def content_type_kept json_content_def st split: option.split)
    then show ?thesis
      using strip_refresh_spec [OF st]
      by (intro exI [of _ out]) (auto simp: bytes_response_def refresh_cookie_def split: option.split)
  qed (use assms(4) in simp)
qed

section \<open>Arriving at the auth-service\<close>

lemma map_of_lowered:
  "map_of (map (\<lambda>(k, v). (lower k, v)) hs) n = (case filter (\<lambda>(k, _). lower k = n) hs of [] \<Rightarrow> None | kv # _ \<Rightarrow> Some (snd kv))"
  by (induction hs) auto

lemma client_ip_plain:
  assumes "\<And>h. rq_client rq = Some h \<Longrightarrow> CHR '','' \<notin> set h \<and> strip h = h"
  shows "strip (split_first CHR '','' (get_client_ip X rq ips)) = get_client_ip X rq ips"
proof -
  let ?ip = "get_client_ip X rq ips"
  have split: "split_first CHR '','' s = s" if "CHR '','' \<notin> set s" for s
    using that by (auto simp: split_first_def takeWhile_eq_all_conv)
  have first: "CHR '','' \<notin> set (strip (split_first CHR '','' s))" for s
    using set_strip [of "split_first CHR '','' s"] by (auto simp: split_first_def dest!: set_takeWhileD)
  have unknown: "strip ''unknown'' = ''unknown''" by code_simp
  have "CHR '','' \<notin> set ?ip \<and> strip ?ip = ?ip"
    using assms first unknown
    by (auto simp: get_client_ip_def client_host_of_def Let_def split: option.splits if_splits)
  then show ?thesis using split by simp
qed

text \<open>
  C33: the client's address survives the hop. When the service behind the gateway trusts the gateway as a proxy, it computes
  from the forwarded request the very address the gateway computed from the client's request, so limits, locks,
  login challenges and audit events are for the client and not for the gateway. (Header names arrive in lower
  case; the address of a peer has no comma and no surrounding white space.)
\<close>

theorem address_survives_hop:
  assumes "redis_store (redis_cmds X) look" "gateway_app X N cfg rid rq s = (r, t)" "rq_path rq \<noteq> ''/v1/health/ready''"
    and "sent t = sent s @ [q]" "rq_headers rq2 = map (\<lambda>(k, v). (lower k, v)) (uq_headers q)"
    and "is_trusted_proxy X (client_host_of rq2) ips"
    and "\<And>h. rq_client rq = Some h \<Longrightarrow> CHR '','' \<notin> set h \<and> strip h = h"
  shows "get_client_ip X rq2 ips = get_client_ip X rq (trusted_proxy_ips cfg)"
proof -
  let ?ip = "get_client_ip X rq (trusted_proxy_ips cfg)"
  have "clean_headers rq ?ip (uq_headers q)"
    using gateway_sends [OF assms(1-3)] assms(4) by auto
  then have "header_get rq2 ''x-forwarded-for'' = Some ?ip"
    by (simp add: header_get_def assms(5) map_of_lowered clean_headers_def)
  then show ?thesis
    using assms(6) client_ip_plain [of rq X "trusted_proxy_ips cfg", OF assms(7)] client_ip_nonempty [of X rq "trusted_proxy_ips cfg"]
    by (simp add: get_client_ip_def [of X rq2] Let_def)
qed

text \<open>
  C34: the auth-service reads back what the gateway wrote for a browser. The bodies the gateway makes of the refresh cookie
  for a refresh and for a logout are, after the way through JSON, accepted by the schemas of the auth-service's endpoints
  and give exactly the token of the cookie and, for a logout, the choice of the browser whether the whole family is
  revoked; and they are sent to those endpoints.
\<close>

theorem browser_bodies_read_back:
  assumes "json_codec (json_dumps X) (json_loads X)" "rq_method rq = ''POST''" "gateway_app X N cfg rid rq s = (r, t)"
    and "sent t = sent s @ [q]" "refresh_cookie_of cfg rq = Some c" "32 \<le> length c" "rq_body rq2 = uq_content q"
  shows "(rq_path rq = ''/v1/browser-auth/refresh'' \<longrightarrow>
      uq_url q = client_base (auth_client cfg) @ ''/v1/tokens/refresh'' \<and>
      (\<exists>j. request_json X rq2 s2 = (Inr j, s2) \<and> parse_refresh_request j = Some c)) \<and>
    (rq_path rq = ''/v1/browser-auth/revoke'' \<longrightarrow>
      uq_url q = client_base (auth_client cfg) @ ''/v1/tokens/revoke'' \<and>
      (\<exists>j whole. revoke_family_of N (rq_body rq) = Inr whole \<and> request_json X rq2 s2 = (Inr j, s2) \<and>
         parse_revoke_request j = Some (c, whole)))"
proof -
  have read: "request_json X rq2 s2 = (Inr (JDict d), s2)" if "uq_content q = json_dumps X (JDict d)" "flat_claims d" "d \<noteq> []" for d
    using that assms(7) json_codec.loads_dumps [OF assms(1) that(2)] json_codec.dumps_text [OF assms(1) that(3)]
    by (simp add: request_json_def)
  have sends: "uq_url q = client_base (auth_client cfg) @ path \<and> uq_content q = body"
    if "forward_json X N cfg rq path body on clr s = (r, t)" "resolve_service cfg path = Inr (auth_client cfg)" for path body on clr
    using that(1)
  proof (cases rule: forward_json_cases)
    case (forwarded c')
    then show ?thesis using that(2) assms(4) by (simp add: forwarded_query_def)
  qed (use assms(4) in simp)
  have refresh: "parse_refresh_request (JDict [(''refresh_token'', JStr c)]) = Some c"
    using assms(6) by (simp add: parse_refresh_request_def model_fields_def str_field_def)
  have revoke: "parse_revoke_request (JDict [(''refresh_token'', JStr c), (''revoke_family'', JBool b)]) = Some (c, b)" for b
    using assms(6) by (simp add: parse_revoke_request_def model_fields_def str_field_def lax_bool_def)
  show ?thesis
  proof (intro conjI impI)
    assume p: "rq_path rq = ''/v1/browser-auth/refresh''"
    let ?d = "[(''refresh_token'', JStr c)]"
    have "forward_json X N cfg rq ''/v1/tokens/refresh'' (json_dumps X (JDict ?d)) True False s = (r, t)"
      using assms(2,3,5) p by (simp add: gateway_app_def browser_refresh_def)
    from sends [OF this upstream_paths(3)] have "uq_url q = client_base (auth_client cfg) @ ''/v1/tokens/refresh''"
      "uq_content q = json_dumps X (JDict ?d)" by simp_all
    moreover have "flat_claims ?d" by (simp add: flat_claims_def flat_json_def)
    ultimately show "uq_url q = client_base (auth_client cfg) @ ''/v1/tokens/refresh''"
      "\<exists>j. request_json X rq2 s2 = (Inr j, s2) \<and> parse_refresh_request j = Some c"
      using read [of ?d] refresh by auto
  next
    assume p: "rq_path rq = ''/v1/browser-auth/revoke''"
    obtain b where b: "revoke_family_of N (rq_body rq) = Inr b"
      using assms(2-5) p by (cases "revoke_family_of N (rq_body rq)") (auto simp: gateway_app_def browser_revoke_def)
    let ?d = "[(''refresh_token'', JStr c), (''revoke_family'', JBool b)]"
    have "forward_json X N cfg rq ''/v1/tokens/revoke'' (json_dumps X (JDict ?d)) False True s = (r, t)"
      using assms(2,3,5) p b by (simp add: gateway_app_def browser_revoke_def)
    from sends [OF this upstream_paths(3)] have "uq_url q = client_base (auth_client cfg) @ ''/v1/tokens/revoke''"
      "uq_content q = json_dumps X (JDict ?d)" by simp_all
    moreover have "flat_claims ?d" by (simp add: flat_claims_def flat_json_def)
    ultimately show "uq_url q = client_base (auth_client cfg) @ ''/v1/tokens/revoke''"
      "\<exists>j whole. revoke_family_of N (rq_body rq) = Inr whole \<and> request_json X rq2 s2 = (Inr j, s2) \<and>
         parse_revoke_request j = Some (c, whole)"
      using read [of ?d] revoke b by auto
  qed
qed

end
