(* ===== verification/Gateway_Reference.thy ===== *)
theory Gateway_Reference
  imports Gateway_Properties
begin

text \<open>
  The gateway in the reference environment, with an auth-service that answers every request with a token pair, and the
  properties applied there.
\<close>

definition ref_tokens :: "(string \<times> json) list" where
  "ref_tokens = [(''token_type'', JStr ''B''), (''refresh_token'', JStr ''rt'')]"

definition ref_net :: "keyspace net" where
  "ref_net =
     \<lparr>redis_ping = (\<lambda>_ _. True),
      http_answer = (\<lambda>_. Answer \<lparr>an_status = 200,
        an_headers = [(''content-type'', ''application/json''), (''server'', ''s''), (''set-cookie'', ''x'')],
        an_content = ref_json_dumps (JDict ref_tokens)\<rparr>),
      load_body = (\<lambda>b. case ref_json_loads b of None \<Rightarrow> NotJson | Some j \<Rightarrow> Parsed j)\<rparr>"

definition ref_gateway_cfg :: gateway_settings where
  "ref_gateway_cfg =
     \<lparr>service_env = ''development'', cors_allowed_origins = [], trusted_proxy_ips = [],
      redis_url = '''', jwt_algorithm = ''HS256'', jwt_issuer = ''i'', jwt_audience = ''a'',
      jwt_public_key = ''k'', privacy_key_pepper = ''q'',
      auth_service_url = ''http://auth/'', user_service_url = ''http://user'', notification_service_url = None,
      rate_limit_public_auth_per_minute = 30, rate_limit_protected_per_minute = 120,
      refresh_cookie_name = ''bp_rt'', refresh_cookie_max_age_seconds = 2592000, refresh_cookie_secure = None\<rparr>"

definition ref_gateway_node :: "keyspace gateway_node" where
  "ref_gateway_node = \<lparr>redis = (\<lambda>_. None), clock = 1000, draws = 1, sent = []\<rparr>"

definition ref_browser_request :: "string \<Rightarrow> http_request" where
  "ref_browser_request path =
     \<lparr>rq_method = ''POST'', rq_path = path, rq_scheme = ''https'', rq_client = Some ''7'',
      rq_headers = [(''host'', ''h''), (''x-forwarded-for'', ''9''), (''accept'', ''a''), (''x-request-id'', ''1'')],
      rq_cookies = [(''bp_rt'', replicate 32 CHR ''c'')], rq_query = [], rq_body = ''''\<rparr>"

definition ref_query :: "string \<Rightarrow> string \<Rightarrow> upstream_request" where
  "ref_query url body =
     \<lparr>uq_method = ''POST'', uq_url = url, uq_params = [],
      uq_headers = [(''accept'', ''a''), (''x-request-id'', ''1''), (''X-Forwarded-For'', ''7'')], uq_content = body\<rparr>"

lemma ref_login_sent:
  "sent (snd (gateway_app ref_extern ref_net ref_gateway_cfg ''1'' (ref_browser_request ''/v1/browser-auth/login'') ref_gateway_node)) =
     [ref_query ''http://auth/v1/auth/login'' '''']"
  by code_simp

lemma ref_proxied_sent:
  "sent (snd (gateway_app ref_extern ref_net ref_gateway_cfg ''1'' (ref_browser_request ''/v1/auth/login'') ref_gateway_node)) =
     [ref_query ''http://auth/v1/auth/login'' '''']"
  by code_simp

lemma ref_serve_sent:
  "sent (snd (serve_gateway ref_extern ref_net ref_gateway_cfg (ref_browser_request ''/v1/auth/login'') ref_gateway_node)) =
     [ref_query ''http://auth/v1/auth/login'' '''']"
proof -
  let ?rq = "ref_browser_request ''/v1/auth/login''"
  have "header_get ?rq ''x-request-id'' = Some ''1''" by (simp add: header_get_def ref_browser_request_def)
  moreover have "strip ''1'' = ''1''" by code_simp
  ultimately show ?thesis
    using ref_proxied_sent by (simp add: serve_gateway_def request_id_from_header_def MAX_REQUEST_ID_LENGTH_def)
qed

lemma ref_login_answered:
  "case fst (gateway_app ref_extern ref_net ref_gateway_cfg ''1'' (ref_browser_request ''/v1/browser-auth/login'') ref_gateway_node) of
     Inl e \<Rightarrow> False | Inr rs \<Rightarrow> rs_status rs = 200"
  by code_simp

lemma ref_refresh_sent:
  "sent (snd (gateway_app ref_extern ref_net ref_gateway_cfg ''1'' (ref_browser_request ''/v1/browser-auth/refresh'') ref_gateway_node)) =
     [ref_query ''http://auth/v1/tokens/refresh'' (ref_json_dumps (JDict [(''refresh_token'', JStr (replicate 32 CHR ''c''))]))]"
  by code_simp

lemma ref_gateway_sent [simp]: "sent ref_gateway_node = []"
  by (simp add: ref_gateway_node_def)

lemma ref_net_answers:
  "http_answer ref_net h = Answer \<lparr>an_status = 200,
     an_headers = [(''content-type'', ''application/json''), (''server'', ''s''), (''set-cookie'', ''x'')],
     an_content = ref_json_dumps (JDict ref_tokens)\<rparr>"
  by (simp add: ref_net_def)

lemma ref_paths [simp]: "rq_path (ref_browser_request p) = p" "rq_method (ref_browser_request p) = ''POST''"
  by (simp_all add: ref_browser_request_def)

theorem gateway_guards_upstream_witness:
  "\<exists>r t q c path. gateway_app ref_extern ref_net ref_gateway_cfg ''1'' (ref_browser_request ''/v1/auth/login'') ref_gateway_node = (r, t) \<and>
     sent t = [q] \<and> resolve_service ref_gateway_cfg path = Inr c \<and> uq_url q = client_base c @ path \<and>
     clean_headers (ref_browser_request ''/v1/auth/login'') ''7'' (uq_headers q)"
proof -
  obtain r t where run: "gateway_app ref_extern ref_net ref_gateway_cfg ''1'' (ref_browser_request ''/v1/auth/login'') ref_gateway_node = (r, t)"
    by fastforce
  then have "sent t \<noteq> sent ref_gateway_node" using ref_proxied_sent by simp
  moreover have "get_client_ip ref_extern (ref_browser_request ''/v1/auth/login'') (trusted_proxy_ips ref_gateway_cfg) = ''7''"
    by code_simp
  ultimately show ?thesis
    using gateway_guards_upstream [OF ref_store run] run by auto
qed

theorem gateway_relays_witness:
  "\<exists>rs t. serve_gateway ref_extern ref_net ref_gateway_cfg (ref_browser_request ''/v1/auth/login'') ref_gateway_node = (Inr rs, t) \<and>
     rs_status rs = 200 \<and> rs_body rs = Bytes (ref_json_dumps (JDict ref_tokens)) \<and> clean_response_headers (rs_headers rs) \<and>
     rs_cookies rs = []"
proof -
  let ?rq = "ref_browser_request ''/v1/auth/login''"
  obtain rs t where run: "serve_gateway ref_extern ref_net ref_gateway_cfg ?rq ref_gateway_node = (Inr rs, t)"
    using serve_gateway_run [of ref_extern ref_net ref_gateway_cfg ?rq ref_gateway_node] by metis
  have "sent t \<noteq> sent ref_gateway_node" using run ref_serve_sent by simp
  from gateway_relays [OF ref_store _ _ run this] run show ?thesis
    by (auto simp: browser_paths_def relayed_def ref_net_answers)
qed

theorem refresh_token_stays_in_cookie_witness:
  "\<exists>rs t out. gateway_app ref_extern ref_net ref_gateway_cfg ''1'' (ref_browser_request ''/v1/browser-auth/login'') ref_gateway_node =
       (Inr rs, t) \<and>
     rs_body rs = Bytes (ref_json_dumps (JDict out)) \<and> bare out \<and> map sc_value (rs_cookies rs) = [''rt''] \<and>
     map sc_httponly (rs_cookies rs) = [True]"
proof -
  let ?rq = "ref_browser_request ''/v1/browser-auth/login''"
  obtain r t where run: "gateway_app ref_extern ref_net ref_gateway_cfg ''1'' ?rq ref_gateway_node = (r, t)" by fastforce
  then obtain rs where r: "r = Inr rs" using ref_login_answered by (auto split: sum.splits)
  have "sent t \<noteq> sent ref_gateway_node" using run ref_login_sent by simp
  note C = refresh_token_stays_in_cookie [OF run [unfolded r] _ _ this ref_net_answers]
  have "json_content \<lparr>an_status = 200, an_headers = [(''content-type'', ''application/json''), (''server'', ''s''), (''set-cookie'', ''x'')],
     an_content = ref_json_dumps (JDict ref_tokens)\<rparr>" by code_simp
  moreover have "load_body ref_net (ref_json_dumps (JDict ref_tokens)) = Parsed (JDict ref_tokens)"
    using ref_json.loads_dumps [of ref_tokens] by (simp add: ref_net_def ref_tokens_def flat_claims_def flat_json_def)
  moreover have "delivered_refresh ref_tokens = Some ''rt''" by (simp add: delivered_refresh_def refresh_in_def ref_tokens_def)
  ultimately obtain out where "rs_body rs = Bytes (ref_json_dumps (JDict out))" "bare out"
      "rs_cookies rs = [\<lparr>sc_key = refresh_cookie_name ref_gateway_cfg, sc_value = ''rt'',
         sc_max_age = refresh_cookie_max_age_seconds ref_gateway_cfg, sc_path = ''/'', sc_httponly = True,
         sc_secure = effective_refresh_cookie_secure ref_extern ref_gateway_cfg ?rq, sc_samesite = ''lax''\<rparr>]"
    using C by (auto simp: token_paths_def)
  then show ?thesis using run r by auto
qed

theorem address_survives_hop_witness:
  "\<exists>t q. snd (gateway_app ref_extern ref_net ref_gateway_cfg ''1'' (ref_browser_request ''/v1/auth/login'') ref_gateway_node) = t \<and>
     sent t = [q] \<and>
     get_client_ip ref_extern
       (ref_request\<lparr>rq_client := Some ''10'', rq_headers := map (\<lambda>(k, v). (lower k, v)) (uq_headers q)\<rparr>) [''10''] =
     get_client_ip ref_extern (ref_browser_request ''/v1/auth/login'') (trusted_proxy_ips ref_gateway_cfg)"
proof -
  let ?rq = "ref_browser_request ''/v1/auth/login''"
  obtain r t where run: "gateway_app ref_extern ref_net ref_gateway_cfg ''1'' ?rq ref_gateway_node = (r, t)" by fastforce
  then obtain q where q: "sent t = [q]" using ref_proxied_sent by simp
  let ?rq2 = "ref_request\<lparr>rq_client := Some ''10'', rq_headers := map (\<lambda>(k, v). (lower k, v)) (uq_headers q)\<rparr>"
  have host: "client_host_of ?rq2 = Some ''10''" by (simp add: client_host_of_def)
  have "is_trusted_proxy ref_extern (Some ''10'') [''10'']" by code_simp
  then have tr: "is_trusted_proxy ref_extern (client_host_of ?rq2) [''10'']" by (simp only: host)
  have "strip ''7'' = ''7''" by code_simp
  then have h: "CHR '','' \<notin> set h \<and> strip h = h" if "rq_client ?rq = Some h" for h
    using that by (auto simp: ref_browser_request_def)
  have "get_client_ip ref_extern ?rq2 [''10''] = get_client_ip ref_extern ?rq (trusted_proxy_ips ref_gateway_cfg)"
    by (rule address_survives_hop [OF ref_store run _ _ _ tr h, where q = q]) (simp_all add: q)
  then show ?thesis using run q by auto
qed

theorem browser_bodies_read_back_witness:
  "\<exists>q j. sent (snd (gateway_app ref_extern ref_net ref_gateway_cfg ''1'' (ref_browser_request ''/v1/browser-auth/refresh'')
       ref_gateway_node)) = [q] \<and>
     request_json ref_extern (ref_request\<lparr>rq_body := uq_content q\<rparr>) ref_node = (Inr j, ref_node) \<and>
     parse_refresh_request j = Some (replicate 32 CHR ''c'')"
proof -
  let ?rq = "ref_browser_request ''/v1/browser-auth/refresh''" and ?c = "replicate 32 CHR ''c''"
  obtain r t where run: "gateway_app ref_extern ref_net ref_gateway_cfg ''1'' ?rq ref_gateway_node = (r, t)" by fastforce
  then obtain q where q: "sent t = sent ref_gateway_node @ [q]" using ref_refresh_sent by simp
  have codec: "json_codec (json_dumps ref_extern) (json_loads ref_extern)" using ref_json.json_codec_axioms by simp
  have c: "refresh_cookie_of ref_gateway_cfg ?rq = Some ?c"
    by (simp add: refresh_cookie_of_def ref_browser_request_def ref_gateway_cfg_def)
  have "\<exists>j. request_json ref_extern (ref_request\<lparr>rq_body := uq_content q\<rparr>) ref_node = (Inr j, ref_node) \<and>
      parse_refresh_request j = Some ?c"
    using browser_bodies_read_back [OF codec _ run q c, of "ref_request\<lparr>rq_body := uq_content q\<rparr>" ref_node] by simp
  then show ?thesis using run q by auto
qed

end
