(* ===== verification/Edge_Revocation.thy ===== *)
theory Edge_Revocation
  imports Gateway_Properties User_Properties
begin

text \<open>
  The three services together: a logout at the auth-service ends the use of the session's access tokens at the gateway, at the
  user-service and at the auth-service itself. Until the tokens expire the mark in the shared cache refuses them; the mark
  is kept for as long as a token can live, so that afterwards their own expiry does.
\<close>

text \<open>The logout left the mark of the session in the cache.\<close>

lemma logout_marks:
  assumes live: "redis_live (redis_cmds X) look" and pr: "presents X cfg raw s tok sid"
    and run: "revoke_refresh_token X cfg raw whole ip ua s = (Inr (), t)"
  shows "access_revoked_until look (redis t) (clock s) sid (clock s + access_revoked_ttl cfg)"
proof -
  obtain d where rev: "revoke X cfg raw whole ''logout'' s = (Inr (Some (family_id tok, sid)), s\<lparr>db := d\<rparr>)"
    using revoke_presented [OF pr, of whole "''logout''"] by metis
  obtain r where mark: "mark_access_session_revoked X cfg sid (s\<lparr>db := d\<rparr>) = (Inr (), s\<lparr>db := d, redis := r\<rparr>)"
    and until: "access_revoked_until look r (clock s) sid (clock s + access_revoked_ttl cfg)"
    using mark_access_session_revoked_ok [OF live, of cfg sid "s\<lparr>db := d\<rparr>"] by auto
  have "thenE (log_event X AUDIT_REFRESH_REVOKED ''success'' None None ip ua
      (Some [(''family_id'', JStr (str_uuid (family_id tok)))])) session_commit (s\<lparr>db := d, redis := r\<rparr>) = (Inr (), t)"
    using run rev mark by (simp add: revoke_refresh_token_def)
  then have "redis t = r"
    by (cases rule: log_event_cases [of X AUDIT_REFRESH_REVOKED "''success''" None None ip ua
        "Some [(''family_id'', JStr (str_uuid (family_id tok)))]" "s\<lparr>db := d, redis := r\<rparr>"]) auto
  with until show ?thesis by simp
qed

text \<open>An access token of the session, and the cache entry of the session as the logout left it.\<close>

definition access_token_of :: "'r extern \<Rightarrow> auth_settings \<Rightarrow> int \<Rightarrow> uuid \<Rightarrow> string \<Rightarrow> bool" where
  "access_token_of X cfg logout sid a \<longleftrightarrow>
     (\<exists>tb uid j. tb \<le> logout \<and> a = jwt_encode X (access_payload cfg tb uid j sid) (signing_key cfg) (jwt_algorithm cfg))"

definition sees_mark ::
  "('r \<Rightarrow> int \<Rightarrow> string \<Rightarrow> entry option) \<Rightarrow> uuid \<Rightarrow> ('r, 'm) node_scheme \<Rightarrow> ('r, 'n) node_scheme \<Rightarrow> bool" where
  "sees_mark look sid t g \<longleftrightarrow>
     look (redis g) (clock g) (access_session_revoked_key (str_uuid sid)) =
     look (redis t) (clock g) (access_session_revoked_key (str_uuid sid))"

text \<open>A request whose token is of no use: it does not decode, or its session is marked.\<close>

definition barred ::
  "'r extern \<Rightarrow> ('c) base_settings_scheme \<Rightarrow> ('r \<Rightarrow> int \<Rightarrow> string \<Rightarrow> entry option) \<Rightarrow> http_request \<Rightarrow> ('r, 'm) node_scheme \<Rightarrow> bool" where
  "barred X cfg look rq s \<longleftrightarrow>
     (\<exists>raw. extract_bearer_token rq s = (Inr raw, s) \<and>
       (\<forall>claims. decode_access_token X cfg raw s = (Inr claims, s) \<longrightarrow>
          look (redis s) (clock s) (access_session_revoked_key (str_uuid (at_sid claims))) \<noteq> None))"

lemma marked_or_expired:
  assumes "redis_live (redis_cmds X) look"
    and "access_revoked_until look (redis t) logout sid (logout + access_revoked_ttl cfg)"
    and "sees_mark look sid t g" "logout \<le> clock g" "clock g < logout + jwt_access_ttl_seconds cfg"
  shows "look (redis g) (clock g) (access_session_revoked_key (str_uuid sid)) \<noteq> None"
  using access_revoked_untilD [OF assms(1,2,4)] assms(3,5) by (simp add: sees_mark_def access_revoked_ttl_def)

lemma logged_out_barred:
  assumes ready: "jwt_ready X cfg paired" "edge_of paired cfg ecfg"
    and live: "redis_live (redis_cmds X) look"
    and until: "access_revoked_until look (redis t) logout sid (logout + access_revoked_ttl cfg)"
    and g: "sees_mark look sid t g" "logout \<le> clock g" "access_token_of X cfg logout sid a" "extract_bearer_token rq g = (Inr a, g)"
  shows "barred X ecfg look rq g"
proof -
  obtain tb uid j where a: "tb \<le> logout" "a = jwt_encode X (access_payload cfg tb uid j sid) (signing_key cfg) (jwt_algorithm cfg)"
    using g(3) unfolding access_token_of_def by blast
  have "look (redis g) (clock g) (access_session_revoked_key (str_uuid (at_sid claims))) \<noteq> None"
    if "decode_access_token X ecfg a g = (Inr claims, g)" for claims
  proof -
    from that a have "at_sid claims = sid" "clock g < tb + jwt_access_ttl_seconds cfg"
      using edge_access_token [OF ready, of tb uid j sid g] by (auto split: if_splits)
    then show ?thesis using marked_or_expired [OF live until g(1,2)] a(1) by simp
  qed
  with g(4) show ?thesis unfolding barred_def by blast
qed

text \<open>What the services do with it.\<close>

lemma barred_not_bearer_ok: "barred X cfg look rq s \<Longrightarrow> \<not> bearer_ok X cfg look rq s"
  unfolding barred_def bearer_ok_def by auto

lemma barred_context:
  assumes "redis_store (redis_cmds X) look" "barred X cfg look rq s"
  shows "\<exists>e. get_current_context X cfg rq s = (Inl e, s)"
proof -
  obtain raw where raw: "extract_bearer_token rq s = (Inr raw, s)"
    and bar: "\<And>claims. decode_access_token X cfg raw s = (Inr claims, s) \<Longrightarrow>
      look (redis s) (clock s) (access_session_revoked_key (str_uuid (at_sid claims))) \<noteq> None"
    using assms(2) unfolding barred_def by blast
  obtain r where d: "decode_access_token X cfg raw s = (r, s)" using run_decode_access_token by blast
  show ?thesis
  proof (cases r)
    case (Inl e)
    then show ?thesis using raw d by (simp add: get_current_context_def)
  next
    case (Inr claims)
    then obtain e where "ensure_access_session_active X (at_sid claims) s = (Inl e, s)"
      using ensure_active_cases [OF assms(1), of "at_sid claims" s] bar d by blast
    then show ?thesis using raw d Inr by (simp add: get_current_context_def)
  qed
qed

lemma barred_after_limiter:
  assumes R: "redis_store (redis_cmds X) look" and b: "barred X cfg look rq s"
    and run: "rate_limit_dependency X cfg' sc lim rq s = (r, t)" and c: "clock t = clock s"
  shows "barred X cfg look rq t"
proof -
  obtain raw where raw: "extract_bearer_token rq s = (Inr raw, s)"
    and bar: "\<And>claims. decode_access_token X cfg raw s = (Inr claims, s) \<Longrightarrow>
      look (redis s) (clock s) (access_session_revoked_key (str_uuid (at_sid claims))) \<noteq> None"
    using b unfolding barred_def by blast
  have "extract_bearer_token rq t = (Inr raw, t)"
    using raw by (auto simp: extract_bearer_token_def Let_def split: if_splits)
  moreover have "look (redis t) (clock t) (access_session_revoked_key (str_uuid (at_sid claims))) \<noteq> None"
    if "decode_access_token X cfg raw t = (Inr claims, t)" for claims
  proof -
    have "decode_access_token X cfg raw s = (Inr claims, s)"
      using that c by (auto simp: decode_access_token_def split: option.splits if_splits)
    from bar [OF this] show ?thesis
      using limiter_keeps_key [OF R run [folded rate_limiter_check_eq] rate_limit_key_not_revoked] c by simp
  qed
  ultimately show ?thesis unfolding barred_def by blast
qed

text \<open>No endpoint of the user-service does anything for such a request, except telling that the service lives.\<close>

definition refused :: "'r user_node \<Rightarrow> (exn + http_response) \<times> 'r user_node \<Rightarrow> bool" where
  "refused s p \<longleftrightarrow> ucommitted (snd p) = ucommitted s \<and> (\<exists>e. fst p = Inl e)"

lemma barred_reading:
  assumes "redis_store (redis_cmds X) look" "barred X cfg look rq s"
  shows "refused s (bindE (get_current_context X cfg rq) f s)"
  using barred_context [OF assms] by (auto simp: refused_def)

lemma barred_writing:
  assumes "redis_store (redis_cmds X) look" "barred X cfg look rq s"
  shows "refused s (bindE (request_json X rq) (\<lambda>j. thenE (rate_limit_dependency X cfg sc lim rq)
      (bindE (get_current_context X cfg rq) (f j))) s)"
proof -
  have "snd (request_json X rq s) = s" by (simp add: request_json_def split: option.split)
  then obtain r1 where j: "request_json X rq s = (r1, s)" by (metis prod.collapse)
  obtain r2 t where rl: "rate_limit_dependency X cfg sc lim rq s = (r2, t)" by fastforce
  have co: "cache_only s t" using within_run [OF within_cache_parts(1) rl] .
  then have "barred X cfg look rq t" using barred_after_limiter [OF assms rl] by (simp add: cache_only_def)
  then obtain e where "get_current_context X cfg rq t = (Inl e, t)" using barred_context [OF assms(1)] by blast
  then show ?thesis using j rl co by (cases r1; cases r2) (auto simp: refused_def cache_only_def)
qed

lemma barred_user_app:
  assumes R: "redis_store (redis_cmds X) look" and b: "barred X cfg look rq s"
    and run: "user_app X cfg rq s = (r, t)"
  shows "ucommitted t = ucommitted s \<and>
    (rq_path rq = ''/v1/health/live'' \<or> (\<forall>rs. r = Inr rs \<longrightarrow> rs_status rs \<in> {404, 405}))"
proof -
  let ?s = "opened s"
  have bs: "barred X cfg look rq ?s"
    using b by (auto simp: barred_def opened_def extract_bearer_token_def decode_access_token_def Let_def
        split: if_splits option.splits)
  obtain r' t' where d: "dispatch_param (user_routes X cfg) rq ?s = (r', t')" by fastforce
  then have t: "r = r'" "ucommitted t = ucommitted t'"
    using run by (auto simp: user_app_def with_usession_def opened_def)
  have "ucommitted t' = ucommitted ?s \<and>
    (rq_path rq = ''/v1/health/live'' \<or> (\<forall>rs. r' = Inr rs \<longrightarrow> rs_status rs \<in> {404, 405}))"
  proof (cases "find (\<lambda>(m, p, _). m = rq_method rq \<and> p (rq_path rq) \<noteq> None) (user_routes X cfg)")
    case None
    then show ?thesis using d by (auto simp: dispatch_param_def json_response_def split: if_splits)
  next
    case (Some x)
    obtain m p h where x: "x = (m, p, h)" by (cases x)
    have hit: "x \<in> set (user_routes X cfg)" "p (rq_path rq) \<noteq> None" using find_SomeD [OF Some] x by auto
    have "(p = exact_path ''/v1/health/live'' \<and> h = user_liveness_endpoint) \<or> refused ?s (h a rq ?s)" for a
      using hit(1) barred_reading [OF R bs] barred_writing [OF R bs]
      unfolding x user_routes_def list.set insert_iff empty_iff me_endpoint_def [abs_def] get_user_endpoint_def [abs_def]
        my_profile_endpoint_def [abs_def] my_roles_endpoint_def [abs_def] my_permissions_endpoint_def [abs_def]
        update_profile_endpoint_def [abs_def] assign_role_endpoint_def [abs_def]
      by (elim disjE FalseE) simp_all
    moreover have run': "h (the (p (rq_path rq))) rq ?s = (r', t')"
      using d unfolding dispatch_param_def Some x option.case prod.case .
    ultimately have "(p = exact_path ''/v1/health/live'' \<and> h = user_liveness_endpoint) \<or> refused ?s (r', t')"
      by metis
    then show ?thesis
    proof
      assume live: "p = exact_path ''/v1/health/live'' \<and> h = user_liveness_endpoint"
      then have "(r', t') = user_liveness_endpoint (the (p (rq_path rq))) rq ?s"
        using run' by simp
      moreover have "rq_path rq = ''/v1/health/live''"
        using live hit(2) by (simp add: exact_path_def split: if_splits)
      ultimately show ?thesis by (simp add: user_liveness_endpoint_def)
    qed (auto simp: refused_def)
  qed
  then show ?thesis using t by (simp add: opened_def)
qed

text \<open>The auth-service refuses such a token as well.\<close>

lemma logged_out_at_auth:
  assumes ready: "jwt_ready X cfg paired" and live: "redis_live (redis_cmds X) look"
    and until: "access_revoked_until look (redis t) logout sid (logout + access_revoked_ttl cfg)"
    and g: "sees_mark look sid t g" "logout \<le> clock g" "access_token_of X cfg logout sid a" "extract_bearer_token rq g = (Inr a, g)"
  shows "\<exists>e. get_current_user X cfg rq g = (Inl e, g)"
proof -
  obtain tb uid j where a: "tb \<le> logout" "a = jwt_encode X (access_payload cfg tb uid j sid) (signing_key cfg) (jwt_algorithm cfg)"
    using g(3) unfolding access_token_of_def by blast
  note dec = validate_issued_access [OF ready, of tb uid j sid g, folded a(2)]
  show ?thesis
  proof (cases "tb \<le> clock g \<and> clock g < tb + jwt_access_ttl_seconds cfg")
    case True
    then have "look (redis g) (clock g) (access_session_revoked_key (str_uuid sid)) \<noteq> None"
      using marked_or_expired [OF live until g(1,2)] a(1) by simp
    then obtain e where "ensure_access_session_active X sid g = (Inl e, g)"
      using ensure_active_cases [OF redis_live.axioms(1) [OF live], of sid g] by auto
    then show ?thesis using g(4) dec True by (simp add: get_current_user_def)
  next
    case False
    then show ?thesis using g(4) dec by (auto simp: get_current_user_def)
  qed
qed

text \<open>
  C13: a logout ends the session everywhere. Once a logout with a genuine refresh token has returned, an access token
  of that session issued until then opens nothing at any later time: the gateway sends nothing but requests for public
  endpoints, the user-service changes nothing and answers no endpoint but its liveness, and the auth-service knows no current user.
  The services need the keys and names of the auth-service, and the cache entry of the session as the logout left it (that is, one cache database for all).
\<close>

theorem logout_ends_the_session_everywhere:
  assumes "redis_live (redis_cmds X) look" "jwt_ready X cfg paired" "edge_of paired cfg gcfg" "edge_of paired cfg ucfg"
    and logout: "presents X cfg raw s tok sid" "revoke_refresh_token X cfg raw whole ip ua s = (Inr (), t)"
    and token: "access_token_of X cfg (clock s) sid access"
    and gateway: "sees_mark look sid t g" "clock s \<le> clock g" "extract_bearer_token rq g = (Inr access, g)"
      "gateway_app X N gcfg rid rq g = (r, g')" "rq_path rq \<noteq> ''/v1/health/ready''"
    and users: "sees_mark look sid t u" "clock s \<le> clock u" "extract_bearer_token rq' u = (Inr access, u)"
      "user_app X ucfg rq' u = (r', u')"
    and auth: "sees_mark look sid t a" "clock s \<le> clock a" "extract_bearer_token rq'' a = (Inr access, a)"
  shows "(sent g' = sent g \<or> (\<exists>q c path. sent g' = sent g @ [q] \<and> uq_url q = client_base c @ path \<and> is_public_endpoint (uq_method q) path)) \<and>
    ucommitted u' = ucommitted u \<and> (rq_path rq' = ''/v1/health/live'' \<or> (\<forall>rs. r' = Inr rs \<longrightarrow> rs_status rs \<in> {404, 405})) \<and>
    (\<exists>e. get_current_user X cfg rq'' a = (Inl e, a))"
proof (intro conjI)
  note R = redis_live.axioms(1) [OF assms(1)]
  note until = logout_marks [OF assms(1) logout]
  have "\<not> bearer_ok X gcfg look rq g"
    by (rule barred_not_bearer_ok, rule logged_out_barred [OF assms(2,3,1) until gateway(1,2) token gateway(3)])
  then show "sent g' = sent g \<or> (\<exists>q c path. sent g' = sent g @ [q] \<and> uq_url q = client_base c @ path \<and> is_public_endpoint (uq_method q) path)"
    using gateway_sends [OF R gateway(4,5)] by blast
  have "barred X ucfg look rq' u" by (rule logged_out_barred [OF assms(2,4,1) until users(1,2) token users(3)])
  from barred_user_app [OF R this users(4)]
  show "ucommitted u' = ucommitted u" "rq_path rq' = ''/v1/health/live'' \<or> (\<forall>rs. r' = Inr rs \<longrightarrow> rs_status rs \<in> {404, 405})"
    by blast+
  show "\<exists>e. get_current_user X cfg rq'' a = (Inl e, a)"
    by (rule logged_out_at_auth [OF assms(2,1) until auth(1,2) token auth(3)])
qed

end
