(* ===== verification/Edge_Reference.thy ===== *)
theory Edge_Reference
  imports Edge_Revocation Gateway_Reference User_Reference
begin

text \<open>A logout in the reference environment, and requests to the three services a hundred seconds later.\<close>

definition ref_bearer_request :: "string \<Rightarrow> http_request" where
  "ref_bearer_request a = ref_me_request\<lparr>rq_headers := [(''authorization'', ''Bearer '' @ a)]\<rparr>"

lemma put_text_ends: "hd (put_text t @ r) \<in> {CHR ''.'', CHR '':''}" "last (put_text t) = CHR ''.''" "put_text t \<noteq> []"
  by (induction t) auto

lemma ref_access_token_ends:
  assumes "a = ref_jwt_encode (access_payload cfg tb uid j sid) k alg"
  shows "hd a \<in> {CHR ''.'', CHR '':''}" "last a = CHR ''.''" "a \<noteq> []"
  using assms put_text_ends by (auto simp: ref_jwt_encode_def access_payload_def put_value_def)

lemma ref_bearer:
  assumes "a = ref_jwt_encode (access_payload cfg tb uid j sid) k alg"
  shows "extract_bearer_token (ref_bearer_request a) s = (Inr a, s)"
proof -
  have "strip a = a"
    unfolding strip_def using ref_access_token_ends [OF assms] by (intro strip_of_ends) (auto simp: py_isspace_def)
  then show ?thesis
    using ref_access_token_ends(3) [OF assms]
    by (simp add: extract_bearer_token_def ref_bearer_request_def header_get_def startswith_def removeprefix_def Let_def)
qed

lemma logout_returns:
  assumes "redis_live (redis_cmds X) look" "presents X cfg raw s tok sid" "client_fits ip ua"
    and "uuid4 X (draws s) \<notin> ae_id ` set (audit_events (db s))"
  shows "\<exists>t. revoke_refresh_token X cfg raw whole ip ua s = (Inr (), t)"
proof -
  obtain d where rev: "revoke X cfg raw whole ''logout'' s = (Inr (Some (family_id tok, sid)), s\<lparr>db := d\<rparr>)"
    and a: "audit_events d = audit_events (db s)"
    using revoke_presented [OF assms(2), of whole "''logout''"] by (auto simp: kill_family_def split: if_splits)
  obtain r where mark: "mark_access_session_revoked X cfg sid (s\<lparr>db := d\<rparr>) = (Inr (), s\<lparr>db := d, redis := r\<rparr>)"
    using mark_access_session_revoked_ok [OF assms(1), of cfg sid "s\<lparr>db := d\<rparr>"] by auto
  let ?p = "Some [(''family_id'', JStr (str_uuid (family_id tok)))]"
  obtain e where "log_event X AUDIT_REFRESH_REVOKED ''success'' None None ip ua ?p (s\<lparr>db := d, redis := r\<rparr>) =
     (Inr (), s\<lparr>draws := Suc (draws s), redis := r, db := d\<lparr>audit_events := audit_events (db s) @ [e]\<rparr>\<rparr>)"
    using log_event_ok [of AUDIT_REFRESH_REVOKED "''success''" ip ua X "s\<lparr>db := d, redis := r\<rparr>" None None ?p] assms(3,4) a
    by auto
  then show ?thesis using rev mark by (simp add: revoke_refresh_token_def)
qed

theorem logout_ends_the_session_everywhere_witness:
  "\<exists>raw s tok sid t a e. presents ref_extern ref_cfg raw s tok sid \<and>
     revoke_refresh_token ref_extern ref_cfg raw True None None s = (Inr (), t) \<and>
     access_token_of ref_extern ref_cfg (clock s) sid a \<and>
     ucommitted (snd (user_app ref_extern ref_edge_cfg (ref_bearer_request a) (ref_started\<lparr>redis := redis t, clock := 1300\<rparr>))) =
       ucommitted ref_started \<and>
     get_current_user ref_extern ref_cfg (ref_bearer_request a) (t\<lparr>clock := 1300\<rparr>) = (Inl e, t\<lparr>clock := 1300\<rparr>)"
proof -
  obtain p1 s1 p2 s2 s3 where "issue_for_user ref_extern ref_cfg 7 None None ref_node = (Inr p1, s1)"
    and "service_refresh_tokens ref_extern ref_cfg (tp_refresh_token p1) None None (s1\<lparr>clock := 1100\<rparr>) = (Inr p2, s2)"
    and reuse: "service_refresh_tokens ref_extern ref_cfg (tp_refresh_token p1) None None (s2\<lparr>clock := 1200\<rparr>) =
       (Inl (TokenReuseDetectedException (Some (tp_session_id p1)) (Some (tp_family_id p1))), s3)"
    by (rule ref_life [of 1100 1200 7]) (use ref_ids_unused in \<open>simp_all add: client_fits_def opt_fits_def ref_cfg_def\<close>)
  obtain tok sid where pr: "presents ref_extern ref_cfg (tp_refresh_token p1) (s2\<lparr>clock := 1200\<rparr>) tok sid"
    and ok: "client_fits None None"
      "uuid4 ref_extern (draws (s2\<lparr>clock := 1200\<rparr>)) \<notin> ae_id ` set (audit_events (db (s2\<lparr>clock := 1200\<rparr>)))"
    using reuse by (rule service_refresh_reuse_inv)
  let ?s = "s2\<lparr>clock := 1200\<rparr>" and ?a = "ref_jwt_encode (access_payload ref_cfg 1200 7 5 sid) (signing_key ref_cfg) (jwt_algorithm ref_cfg)"
  obtain t where t: "revoke_refresh_token ref_extern ref_cfg (tp_refresh_token p1) True None None ?s = (Inr (), t)"
    using logout_returns [OF ref_live pr ok] by blast
  have a: "access_token_of ref_extern ref_cfg (clock ?s) sid ?a"
    unfolding access_token_of_def by (intro exI [of _ 1200] exI [of _ 7] exI [of _ 5]) simp
  let ?g = "ref_gateway_node\<lparr>redis := redis t, clock := 1300\<rparr>" and ?u = "ref_started\<lparr>redis := redis t, clock := 1300\<rparr>"
    and ?rq = "ref_bearer_request ?a" and ?n = "t\<lparr>clock := 1300\<rparr>"
  have edges: "edge_of (\<lambda>alg sk vk. sk = vk) ref_cfg ref_gateway_cfg"
    by (simp add: edge_of_def ref_cfg_def ref_gateway_cfg_def signing_key_def startswith_def)
  obtain r g' where g: "gateway_app ref_extern ref_net ref_gateway_cfg ''1'' ?rq ?g = (r, g')" by fastforce
  obtain r' u' where u: "user_app ref_extern ref_edge_cfg ?rq ?u = (r', u')" by fastforce
  have path: "rq_path ?rq \<noteq> ''/v1/health/ready''" by (simp add: ref_bearer_request_def ref_me_request_def)
  have marks: "sees_mark ks_look sid t ?g" "sees_mark ks_look sid t ?u" "sees_mark ks_look sid t ?n" by (simp_all add: sees_mark_def)
  have later: "clock ?s \<le> clock ?g" "clock ?s \<le> clock ?u" "clock ?s \<le> clock ?n" by simp_all
  have users: "ucommitted u' = ucommitted ?u" and "\<exists>e. get_current_user ref_extern ref_cfg ?rq ?n = (Inl e, ?n)"
    using logout_ends_the_session_everywhere [OF ref_live ref_jwt_ready edges ref_edge_of pr t a marks(1) later(1) ref_bearer [OF refl] g path
        marks(2) later(2) ref_bearer [OF refl] u marks(3) later(3) ref_bearer [OF refl]] by blast+
  then obtain e where "get_current_user ref_extern ref_cfg ?rq ?n = (Inl e, ?n)" by blast
  moreover have "ucommitted (snd (user_app ref_extern ref_edge_cfg ?rq ?u)) = ucommitted ref_started" using users u by simp
  ultimately show ?thesis using pr t a by blast
qed

end
