(* ===== verification/Schema_Language.thy ===== *)
theory Schema_Language
  imports Prelude
begin

text \<open>
  The data definition language the migrations of the services are written in: alembic's operations on a schema of
  tables, constraints and indexes, with the refusals of the database (a name that is taken or missing, a reference to a table
  that does not exist, a table that is still referenced). The main result is that a downgrade
  that undoes an upgrade's operations in reverse order restores the schema.
\<close>

section \<open>Schemas\<close>

datatype sql_type = SqlUuid | SqlString nat | SqlText | SqlBoolean | SqlInteger | SqlTimestamp | SqlJsonb

datatype sql_default = SqlTrue | SqlFalse | SqlNow | SqlLiteral string | SqlExpression string

record column =
  co_name :: string
  co_type :: sql_type
  co_nullable :: bool
  co_default :: "sql_default option"

datatype table_constraint =
    PrimaryKeyConstraint "string list" string
  | UniqueConstraint "string list" string
  | ForeignKeyConstraint "string list" string "string list" string string

record table =
  ta_name :: string
  ta_columns :: "column list"
  ta_constraints :: "table_constraint list"

record index =
  ix_name :: string
  ix_table :: string
  ix_columns :: "string list"
  ix_unique :: bool

record schema =
  sc_tables :: "table list"
  sc_indexes :: "index list"

definition empty_schema :: schema where
  "empty_schema = \<lparr>sc_tables = [], sc_indexes = []\<rparr>"

definition column_names :: "table \<Rightarrow> string list" where
  "column_names t = map co_name (ta_columns t)"

text \<open>The columns a table refers to, each with its table, and the names that its primary key and unique constraints take.\<close>

definition references_of :: "table \<Rightarrow> (string \<times> string) list" where
  "references_of t =
     concat (map (\<lambda>c. case c of ForeignKeyConstraint _ r cs _ _ \<Rightarrow> map (Pair r) cs | _ \<Rightarrow> []) (ta_constraints t))"

definition key_names :: "table \<Rightarrow> string list" where
  "key_names t = concat (map (\<lambda>c. case c of PrimaryKeyConstraint _ n \<Rightarrow> [n] | UniqueConstraint _ n \<Rightarrow> [n]
     | ForeignKeyConstraint _ _ _ _ _ \<Rightarrow> []) (ta_constraints t))"

fun constraint_columns :: "table_constraint \<Rightarrow> string list" where
  "constraint_columns (PrimaryKeyConstraint cs _) = cs"
| "constraint_columns (UniqueConstraint cs _) = cs"
| "constraint_columns (ForeignKeyConstraint cs _ _ _ _) = cs"

section \<open>Operations\<close>

datatype operation =
    CreateTable table
  | CreateIndex index
  | DropIndex string string
  | DropTable string
  | AddColumn string column
  | DropColumn string string
  | AlterDefault string string "sql_default option"

definition has_table :: "schema \<Rightarrow> string \<Rightarrow> bool" where
  "has_table s n \<longleftrightarrow> n \<in> ta_name ` set (sc_tables s)"

definition has_column :: "schema \<Rightarrow> string \<Rightarrow> string \<Rightarrow> bool" where
  "has_column s n c \<longleftrightarrow> list_ex (\<lambda>t. ta_name t = n \<and> c \<in> set (column_names t)) (sc_tables s)"

text \<open>Tables, keys and indexes share one name space.\<close>

definition relation_names :: "schema \<Rightarrow> string list" where
  "relation_names s = concat (map (\<lambda>t. ta_name t # key_names t) (sc_tables s)) @ map ix_name (sc_indexes s)"

definition on_table :: "string \<Rightarrow> (table \<Rightarrow> table) \<Rightarrow> schema \<Rightarrow> schema" where
  "on_table n f s = s\<lparr>sc_tables := update_where (\<lambda>t. ta_name t = n) f (sc_tables s)\<rparr>"

text \<open>Dropping a column drops the constraints it takes part in.\<close>

definition drop_from :: "string \<Rightarrow> table \<Rightarrow> table" where
  "drop_from c t = t\<lparr>ta_columns := filter (\<lambda>x. co_name x \<noteq> c) (ta_columns t),
     ta_constraints := filter (\<lambda>k. c \<notin> set (constraint_columns k)) (ta_constraints t)\<rparr>"

fun run_operation :: "operation \<Rightarrow> schema \<Rightarrow> schema option" where
  "run_operation (CreateTable t) s =
     (if distinct (ta_name t # key_names t @ relation_names s) \<and> distinct (column_names t) \<and>
         list_all (\<lambda>(r, c). has_column (s\<lparr>sc_tables := sc_tables s @ [t]\<rparr>) r c) (references_of t) \<and>
         list_all (\<lambda>c. list_all (\<lambda>n. n \<in> set (column_names t)) (constraint_columns c)) (ta_constraints t)
      then Some (s\<lparr>sc_tables := sc_tables s @ [t]\<rparr>) else None)"
| "run_operation (CreateIndex i) s =
     (if ix_name i \<notin> set (relation_names s) \<and> has_table s (ix_table i) \<and>
         list_all (has_column s (ix_table i)) (ix_columns i)
      then Some (s\<lparr>sc_indexes := sc_indexes s @ [i]\<rparr>) else None)"
| "run_operation (DropIndex n tn) s =
     (if list_ex (\<lambda>i. ix_name i = n \<and> ix_table i = tn) (sc_indexes s)
      then Some (s\<lparr>sc_indexes := filter (\<lambda>i. ix_name i \<noteq> n) (sc_indexes s)\<rparr>) else None)"
| "run_operation (DropTable n) s =
     (if has_table s n \<and> list_all (\<lambda>t. ta_name t = n \<or> n \<notin> fst ` set (references_of t)) (sc_tables s)
      then Some \<lparr>sc_tables = filter (\<lambda>t. ta_name t \<noteq> n) (sc_tables s),
                 sc_indexes = filter (\<lambda>i. ix_table i \<noteq> n) (sc_indexes s)\<rparr>
      else None)"
| "run_operation (AddColumn n c) s =
     (if has_table s n \<and> \<not> has_column s n (co_name c)
      then Some (on_table n (\<lambda>t. t\<lparr>ta_columns := ta_columns t @ [c]\<rparr>) s) else None)"
| "run_operation (DropColumn n c) s =
     (if has_column s n c \<and> list_all (\<lambda>t. ta_name t = n \<or> (n, c) \<notin> set (references_of t)) (sc_tables s)
      then Some ((on_table n (drop_from c) s)
        \<lparr>sc_indexes := filter (\<lambda>i. \<not> (ix_table i = n \<and> c \<in> set (ix_columns i))) (sc_indexes s)\<rparr>)
      else None)"
| "run_operation (AlterDefault n c d) s =
     (if has_column s n c
      then Some (on_table n (\<lambda>t. t\<lparr>ta_columns :=
        update_where (\<lambda>x. co_name x = c) (\<lambda>x. x\<lparr>co_default := d\<rparr>) (ta_columns t)\<rparr>) s)
      else None)"

fun run_operations :: "operation list \<Rightarrow> schema \<Rightarrow> schema option" where
  "run_operations [] s = Some s"
| "run_operations (p # ps) s = Option.bind (run_operation p s) (run_operations ps)"

section \<open>Undoing\<close>

text \<open>
  Names are unique; every constraint, every reference and every index is on columns that exist.
\<close>

definition wf_schema :: "schema \<Rightarrow> bool" where
  "wf_schema s \<longleftrightarrow>
     distinct (map ta_name (sc_tables s)) \<and> distinct (map ix_name (sc_indexes s)) \<and>
     (\<forall>t \<in> set (sc_tables s). \<forall>k \<in> set (ta_constraints t). set (constraint_columns k) \<subseteq> set (column_names t)) \<and>
     (\<forall>t \<in> set (sc_tables s). \<forall>(r, c) \<in> set (references_of t). has_column s r c) \<and>
     (\<forall>i \<in> set (sc_indexes s). has_table s (ix_table i) \<and> (\<forall>c \<in> set (ix_columns i). has_column s (ix_table i) c))"

lemma wf_empty_schema: "wf_schema empty_schema"
  by (simp add: wf_schema_def empty_schema_def)

lemma run_operations_append:
  "run_operations (ps @ qs) s = Option.bind (run_operations ps s) (run_operations qs)"
  by (induction ps arbitrary: s) (auto split: bind_split)

lemma run_appendE:
  assumes "run_operations (ps @ qs) s = Some t"
  obtains u where "run_operations ps s = Some u" "run_operations qs u = Some t"
  using assms by (auto simp: run_operations_append bind_eq_Some_conv)

lemma filter_fresh: "n \<notin> f ` set xs \<Longrightarrow> filter (\<lambda>x. f x \<noteq> n) xs = xs"
  by (auto simp: filter_id_conv)

lemma has_column_table: "has_column s n c \<Longrightarrow> has_table s n"
  by (auto simp: has_column_def has_table_def list_ex_iff)

lemma in_relation_names:
  "t \<in> set (sc_tables s) \<Longrightarrow> ta_name t \<in> set (relation_names s)"
  "i \<in> set (sc_indexes s) \<Longrightarrow> ix_name i \<in> set (relation_names s)"
  by (auto simp: relation_names_def)

lemma undo_create_table:
  assumes "wf_schema s" "run_operation (CreateTable t) s = Some u"
  shows "run_operation (DropTable (ta_name t)) u = Some s" "wf_schema u"
proof -
  from assms(2) have new: "ta_name t \<notin> set (relation_names s)" and u: "u = s\<lparr>sc_tables := sc_tables s @ [t]\<rparr>"
    and r: "\<forall>(r, c) \<in> set (references_of t). has_column u r c"
    and k: "\<forall>k \<in> set (ta_constraints t). set (constraint_columns k) \<subseteq> set (column_names t)"
    by (auto split: if_splits simp: list_all_iff)
  have n: "\<not> has_table s (ta_name t)" using new in_relation_names(1) by (fastforce simp: has_table_def)
  have "\<forall>x \<in> set (sc_tables s). ta_name t \<notin> fst ` set (references_of x)"
    using n assms(1) has_column_table by (fastforce simp: wf_schema_def)
  moreover have "filter (\<lambda>i. ix_table i \<noteq> ta_name t) (sc_indexes s) = sc_indexes s"
    using n assms(1) by (intro filter_fresh) (auto simp: wf_schema_def)
  moreover have "filter (\<lambda>x. ta_name x \<noteq> ta_name t) (sc_tables s) = sc_tables s"
    using n by (intro filter_fresh) (simp add: has_table_def)
  ultimately show "run_operation (DropTable (ta_name t)) u = Some s"
    by (simp add: u has_table_def list_all_iff)
  have more: "has_column s m c \<Longrightarrow> has_column u m c" "has_table s m \<Longrightarrow> has_table u m" for m c
    by (auto simp: u has_column_def has_table_def)
  have "\<forall>x \<in> set (sc_tables u). \<forall>(r, c) \<in> set (references_of x). has_column u r c"
    using r more assms(1) by (fastforce simp: u wf_schema_def)
  moreover have "\<forall>i \<in> set (sc_indexes u). has_table u (ix_table i) \<and> (\<forall>c \<in> set (ix_columns i). has_column u (ix_table i) c)"
    using more assms(1) by (simp add: u wf_schema_def)
  moreover have "distinct (map ta_name (sc_tables u))"
    using assms(1) n by (auto simp: u wf_schema_def has_table_def)
  moreover have "\<forall>x \<in> set (sc_tables u). \<forall>k \<in> set (ta_constraints x). set (constraint_columns k) \<subseteq> set (column_names x)"
    using assms(1) k by (auto simp: u wf_schema_def)
  ultimately show "wf_schema u" using assms(1) by (simp add: wf_schema_def u)
qed

lemma undo_create_index:
  assumes "wf_schema s" "run_operation (CreateIndex i) s = Some u"
  shows "run_operation (DropIndex (ix_name i) (ix_table i)) u = Some s" "wf_schema u"
proof -
  from assms(2) have "ix_name i \<notin> set (relation_names s)" and u: "u = s\<lparr>sc_indexes := sc_indexes s @ [i]\<rparr>"
    and t: "has_table s (ix_table i)" "\<forall>c \<in> set (ix_columns i). has_column s (ix_table i) c"
    by (auto split: if_splits simp: list_all_iff)
  then have n: "ix_name i \<notin> ix_name ` set (sc_indexes s)" using in_relation_names(2) by fastforce
  show "run_operation (DropIndex (ix_name i) (ix_table i)) u = Some s"
    using filter_fresh [OF n] by (simp add: u)
  have "has_table u = has_table s" "has_column u = has_column s"
    by (simp_all add: u has_table_def has_column_def fun_eq_iff)
  then show "wf_schema u" using assms(1) n t by (auto simp: wf_schema_def u)
qed

lemma has_table_on_table [simp]: "(\<And>t. ta_name (f t) = ta_name t) \<Longrightarrow> has_table (on_table n f s) m = has_table s m"
  by (simp add: has_table_def on_table_def image_update_where_same)

lemma has_column_on_table_mono:
  assumes "\<And>t. ta_name (f t) = ta_name t" "\<And>t. set (column_names t) \<subseteq> set (column_names (f t))"
    and "has_column s m c"
  shows "has_column (on_table n f s) m c"
proof -
  from assms(3) obtain t where t: "t \<in> set (sc_tables s)" "ta_name t = m" "c \<in> set (column_names t)"
    by (auto simp: has_column_def list_ex_iff)
  let ?t = "if ta_name t = n then f t else t"
  have "?t \<in> set (sc_tables (on_table n f s))" using t(1) by (simp add: on_table_def set_update_where)
  moreover have "ta_name ?t = m" using t(2) assms(1) by simp
  moreover have "c \<in> set (column_names ?t)" using t(3) assms(2) [of t] by auto
  ultimately show ?thesis unfolding has_column_def list_ex_iff by blast
qed

lemma wf_on_table:
  assumes "wf_schema s" "\<And>t. ta_name (f t) = ta_name t" "\<And>t. ta_constraints (f t) = ta_constraints t"
    "\<And>t. set (column_names t) \<subseteq> set (column_names (f t))"
  shows "wf_schema (on_table n f s)"
proof -
  let ?u = "on_table n f s"
  have tables: "sc_tables ?u = update_where (\<lambda>t. ta_name t = n) f (sc_tables s)" "sc_indexes ?u = sc_indexes s"
    by (simp_all add: on_table_def)
  have refs: "references_of (f t) = references_of t" for t by (simp add: references_of_def assms(3))
  note column = has_column_on_table_mono [OF assms(2,4)]
  have "\<forall>t \<in> set (sc_tables ?u). \<forall>(r, c) \<in> set (references_of t). has_column ?u r c"
  proof -
    have "\<forall>t \<in> set (sc_tables s). \<forall>(r, c) \<in> set (references_of t). has_column ?u r c"
      using assms(1) column by (fastforce simp: wf_schema_def)
    then show ?thesis unfolding tables ball_update_where by (simp add: refs)
  qed
  moreover have "\<forall>t \<in> set (sc_tables ?u). \<forall>k \<in> set (ta_constraints t). set (constraint_columns k) \<subseteq> set (column_names t)"
  proof -
    have "\<forall>k \<in> set (ta_constraints t). set (constraint_columns k) \<subseteq> set (column_names t) \<and>
        set (constraint_columns k) \<subseteq> set (column_names (f t))" if "t \<in> set (sc_tables s)" for t
      using that assms(1) assms(4) [of t] by (auto simp: wf_schema_def)
    then show ?thesis unfolding tables ball_update_where by (simp add: assms(3))
  qed
  moreover have "map ta_name (sc_tables ?u) = map ta_name (sc_tables s)"
    unfolding tables by (rule map_update_where_same) (rule assms(2))
  moreover have "has_table ?u r = has_table s r" for r by (rule has_table_on_table) (rule assms(2))
  ultimately show ?thesis
    using assms(1) column unfolding wf_schema_def by (simp add: tables)
qed

lemma on_table_same: "(\<And>t. t \<in> set (sc_tables s) \<Longrightarrow> ta_name t = n \<Longrightarrow> f t = t) \<Longrightarrow> on_table n f s = s"
  unfolding on_table_def by (cases s) (simp add: update_where_def map_idI)

lemma on_table_twice:
  assumes "\<And>t. ta_name (g t) = ta_name t"
  shows "on_table n f (on_table n g s) = on_table n (\<lambda>t. f (g t)) s"
  using assms by (simp add: on_table_def update_where_def comp_def cong: if_cong)

lemma has_column_on_table:
  assumes "\<And>t. ta_name (f t) = ta_name t"
  shows "has_column (on_table n f s) n c \<longleftrightarrow> list_ex (\<lambda>t. ta_name t = n \<and> c \<in> set (column_names (f t))) (sc_tables s)"
  using assms by (auto simp: has_column_def on_table_def update_where_def list_ex_iff)

lemma sc_indexes_on_table [simp]: "sc_indexes (on_table n f s) = sc_indexes s"
  by (simp add: on_table_def)

lemma sc_tables_on_table: "sc_tables (on_table n f s) = update_where (\<lambda>t. ta_name t = n) f (sc_tables s)"
  by (simp add: on_table_def)

lemma undo_add_column:
  assumes "wf_schema s" "run_operation (AddColumn n c) s = Some u"
  shows "run_operation (DropColumn n (co_name c)) u = Some s" "wf_schema u"
proof -
  let ?add = "\<lambda>t. t\<lparr>ta_columns := ta_columns t @ [c]\<rparr>"
  from assms(2) have new: "\<not> has_column s n (co_name c)" and ex: "has_table s n" and u: "u = on_table n ?add s"
    by (auto split: if_splits)
  have "has_column u n (co_name c)"
    using ex by (auto simp: u has_column_on_table list_ex_iff has_table_def column_names_def)
  moreover have "list_all (\<lambda>t. ta_name t = n \<or> (n, co_name c) \<notin> set (references_of t)) (sc_tables u)"
    using new assms(1) by (fastforce simp: u sc_tables_on_table list_all_iff update_where_def wf_schema_def)
  moreover have "filter (\<lambda>i. \<not> (ix_table i = n \<and> co_name c \<in> set (ix_columns i))) (sc_indexes s) = sc_indexes s"
    using new assms(1) by (auto simp: filter_id_conv wf_schema_def)
  moreover have "on_table n (drop_from (co_name c)) u = s"
    unfolding u
  proof (subst on_table_twice, simp, rule on_table_same)
    fix t
    assume t: "t \<in> set (sc_tables s)" "ta_name t = n"
    then have fresh: "co_name c \<notin> set (column_names t)" using new by (auto simp: has_column_def list_ex_iff)
    then have "filter (\<lambda>k. co_name c \<notin> set (constraint_columns k)) (ta_constraints t) = ta_constraints t"
      using t assms(1) by (fastforce simp: filter_id_conv wf_schema_def)
    moreover have "filter (\<lambda>x. co_name x \<noteq> co_name c) (ta_columns t) = ta_columns t"
      using fresh by (intro filter_fresh) (simp add: column_names_def)
    ultimately show "drop_from (co_name c) (?add t) = t" by (simp add: drop_from_def)
  qed
  ultimately show "run_operation (DropColumn n (co_name c)) u = Some s" by (simp add: u)
  show "wf_schema u" unfolding u by (rule wf_on_table [OF assms(1)]) (auto simp: column_names_def)
qed

text \<open>Changing the default of a column that is then dropped, and of another one.\<close>

definition set_default :: "string \<Rightarrow> sql_default option \<Rightarrow> table \<Rightarrow> table" where
  "set_default c d t = t\<lparr>ta_columns := update_where (\<lambda>x. co_name x = c) (\<lambda>x. x\<lparr>co_default := d\<rparr>) (ta_columns t)\<rparr>"

lemma set_default_simps [simp]:
  "ta_name (set_default c d t) = ta_name t" "references_of (set_default c d t) = references_of t"
  "column_names (set_default c d t) = column_names t" "ta_constraints (set_default c d t) = ta_constraints t"
  by (simp_all add: set_default_def references_of_def column_names_def map_update_where_same)

lemma run_alter_default:
  "run_operation (AlterDefault n c d) s = (if has_column s n c then Some (on_table n (set_default c d) s) else None)"
  by (simp add: set_default_def [abs_def])

lemma has_column_default [simp]: "has_column (on_table n (set_default c d) s) n c' = has_column s n c'"
  by (simp add: has_column_on_table) (simp add: has_column_def)

lemma run_two_defaults:
  assumes "run_operations [AlterDefault n a d, AlterDefault n b e] s = Some t"
  shows "t = on_table n (set_default b e) (on_table n (set_default a d) s)"
proof -
  have "run_operations [AlterDefault n a d, AlterDefault n b e] s =
      (if has_column s n a \<and> has_column s n b then Some (on_table n (set_default b e) (on_table n (set_default a d) s)) else None)"
    by (simp add: run_alter_default del: run_operation.simps)
  then show ?thesis using assms by (simp split: if_splits del: run_operations.simps)
qed

lemma wf_set_default [simp]: "wf_schema s \<Longrightarrow> wf_schema (on_table n (set_default c d) s)"
  by (simp add: wf_on_table)

lemma drop_guard_default [simp]:
  "list_all (\<lambda>t. ta_name t = m \<or> p \<notin> set (references_of t)) (sc_tables (on_table n (set_default c d) s)) =
   list_all (\<lambda>t. ta_name t = m \<or> p \<notin> set (references_of t)) (sc_tables s)"
  by (auto simp: sc_tables_on_table list_all_iff ball_update_where)

lemma drop_after_default:
  "run_operation (DropColumn n c) (on_table n (set_default c d) s) = run_operation (DropColumn n c) s"
proof -
  have "filter (\<lambda>x. co_name x \<noteq> c) (update_where (\<lambda>x. co_name x = c) (\<lambda>x. x\<lparr>co_default := d\<rparr>) cs) =
      filter (\<lambda>x. co_name x \<noteq> c) cs" for cs :: "column list"
    by (induction cs) auto
  then have "drop_from c (set_default c d t) = drop_from c t" for t by (simp add: drop_from_def set_default_def)
  then show ?thesis by (simp add: on_table_twice)
qed

lemma drop_other_default:
  assumes "c \<noteq> c'"
  shows "run_operation (DropColumn n c) (on_table n (set_default c' d) s) =
    map_option (on_table n (set_default c' d)) (run_operation (DropColumn n c) s)"
proof -
  have "filter (\<lambda>x. co_name x \<noteq> c) (update_where (\<lambda>x. co_name x = c') (\<lambda>x. x\<lparr>co_default := d\<rparr>) cs) =
      update_where (\<lambda>x. co_name x = c') (\<lambda>x. x\<lparr>co_default := d\<rparr>) (filter (\<lambda>x. co_name x \<noteq> c) cs)" for cs :: "column list"
    using assms by (induction cs) auto
  then have "drop_from c (set_default c' d t) = set_default c' d (drop_from c t)" for t
    by (simp add: drop_from_def set_default_def)
  moreover have "ta_name (drop_from c t) = ta_name t" for t by (simp add: drop_from_def)
  moreover have "(on_table n f s)\<lparr>sc_indexes := ixs\<rparr> = on_table n f (s\<lparr>sc_indexes := ixs\<rparr>)" for f ixs and s :: schema
    by (cases s) (simp add: on_table_def)
  ultimately show ?thesis by (simp add: on_table_twice)
qed

definition undoes :: "operation list \<Rightarrow> operation list \<Rightarrow> bool" where
  "undoes downs ups \<longleftrightarrow>
     (\<forall>s t. wf_schema s \<longrightarrow> run_operations ups s = Some t \<longrightarrow> run_operations downs t = Some s \<and> wf_schema t)"

lemma undoesD:
  assumes "undoes downs ups" "wf_schema s" "run_operations ups s = Some t"
  shows "run_operations downs t = Some s" "wf_schema t"
  using assms by (auto simp: undoes_def)

lemma undoes_append:
  assumes "undoes downs ups" "undoes downs' ups'"
  shows "undoes (downs' @ downs) (ups @ ups')"
  unfolding undoes_def
proof (intro allI impI)
  fix s t
  assume "wf_schema s" and run: "run_operations (ups @ ups') s = Some t"
  then obtain u where u: "run_operations ups s = Some u" "run_operations ups' u = Some t"
    by (auto elim: run_appendE)
  note 1 = undoesD [OF assms(1) \<open>wf_schema s\<close> u(1)]
  note 2 = undoesD [OF assms(2) 1(2) u(2)]
  show "run_operations (downs' @ downs) t = Some s \<and> wf_schema t"
    by (simp add: run_operations_append 1 2)
qed

text \<open>The operations that create something, and what undoes each.\<close>

fun inverse_operation :: "operation \<Rightarrow> operation option" where
  "inverse_operation (CreateTable t) = Some (DropTable (ta_name t))"
| "inverse_operation (CreateIndex i) = Some (DropIndex (ix_name i) (ix_table i))"
| "inverse_operation (AddColumn n c) = Some (DropColumn n (co_name c))"
| "inverse_operation _ = None"

lemma undoes_inverse: "inverse_operation p = Some q \<Longrightarrow> undoes [q] [p]"
  unfolding undoes_def
  by (cases p) (auto simp: bind_eq_Some_conv simp del: run_operation.simps
      dest: undo_create_table undo_create_index undo_add_column)

lemma undoes_reverse:
  assumes "map inverse_operation ups = map Some qs"
  shows "undoes (rev qs) ups"
  using assms
proof (induction ups arbitrary: qs)
  case Nil
  then show ?case by (simp add: undoes_def)
next
  case (Cons p ups)
  then obtain q qs' where q: "qs = q # qs'" "inverse_operation p = Some q" "map inverse_operation ups = map Some qs'"
    by (cases qs) auto
  from undoes_append [OF undoes_inverse [OF q(2)] Cons.IH [OF q(3)]] show ?case by (simp add: q(1))
qed

end
