(* ===== verification/Migrations.thy ===== *)
theory Migrations
  imports Schema_Language
begin

text \<open>
  The migrations of the two databases, operation by operation in the order of the files under
  \<^verbatim>\<open>migrations/versions\<close> of auth-service and user-service, with the chain of revisions alembic runs
  them in. The results: every downgrade restores the schema its upgrade was applied to, and each chain runs on an
  empty database and back.
\<close>

section \<open>Revisions\<close>

record migration =
  mi_revision :: string
  mi_down_revision :: "string option"
  mi_upgrade :: "operation list"
  mi_downgrade :: "operation list"

definition col :: "string \<Rightarrow> sql_type \<Rightarrow> bool \<Rightarrow> sql_default option \<Rightarrow> column" where
  "col n t nullable d = \<lparr>co_name = n, co_type = t, co_nullable = nullable, co_default = d\<rparr>"

text \<open>The expression \<^verbatim>\<open>'{}'::jsonb\<close>.\<close>

definition json_object_expression :: string where
  "json_object_expression = CHR 0x27 # ''{}'' @ CHR 0x27 # ''::jsonb''"

text \<open>
  Alembic orders revisions by their \<^verbatim>\<open>down_revision\<close>; a list of migrations is a chain when each names the
  one before it.
\<close>

fun chained :: "string option \<Rightarrow> migration list \<Rightarrow> bool" where
  "chained _ [] \<longleftrightarrow> True"
| "chained r (m # ms) \<longleftrightarrow> mi_down_revision m = r \<and> chained (Some (mi_revision m)) ms"

definition upgrade_head :: "migration list \<Rightarrow> operation list" where
  "upgrade_head ms = concat (map mi_upgrade ms)"

definition downgrade_base :: "migration list \<Rightarrow> operation list" where
  "downgrade_base ms = concat (map mi_downgrade (rev ms))"

section \<open>auth-service\<close>

definition initial_auth_schema_upgrade :: "operation list" where
  "initial_auth_schema_upgrade =
    [CreateTable \<lparr>ta_name = ''users'',
       ta_columns = [col ''id'' SqlUuid False None,
         col ''email'' (SqlString 320) False None,
         col ''password_hash'' (SqlString 512) False None,
         col ''is_active'' SqlBoolean False (Some SqlTrue),
         col ''is_superuser'' SqlBoolean False (Some SqlFalse),
         col ''two_factor_enabled'' SqlBoolean False (Some SqlFalse),
         col ''created_at'' SqlTimestamp False (Some SqlNow),
         col ''updated_at'' SqlTimestamp False (Some SqlNow)],
       ta_constraints = [PrimaryKeyConstraint [''id''] ''pk_users'',
         UniqueConstraint [''email''] ''uq_users_email'']\<rparr>,
     CreateIndex \<lparr>ix_name = ''ix_users_email'', ix_table = ''users'', ix_columns = [''email''], ix_unique = True\<rparr>,
     CreateTable \<lparr>ta_name = ''two_factor_secrets'',
       ta_columns = [col ''id'' SqlUuid False None,
         col ''user_id'' SqlUuid False None,
         col ''encrypted_secret'' SqlText False None,
         col ''confirmed_at'' SqlTimestamp True None,
         col ''last_used_timecode'' SqlInteger True None,
         col ''created_at'' SqlTimestamp False (Some SqlNow),
         col ''updated_at'' SqlTimestamp False (Some SqlNow)],
       ta_constraints = [ForeignKeyConstraint [''user_id''] ''users'' [''id''] ''fk_two_factor_secrets_user_id_users'' ''CASCADE'',
         PrimaryKeyConstraint [''id''] ''pk_two_factor_secrets'',
         UniqueConstraint [''user_id''] ''uq_two_factor_secrets_user_id'']\<rparr>,
     CreateTable \<lparr>ta_name = ''backup_codes'',
       ta_columns = [col ''id'' SqlUuid False None,
         col ''user_id'' SqlUuid False None,
         col ''code_hash'' (SqlString 512) False None,
         col ''used_at'' SqlTimestamp True None,
         col ''created_at'' SqlTimestamp False (Some SqlNow)],
       ta_constraints = [ForeignKeyConstraint [''user_id''] ''users'' [''id''] ''fk_backup_codes_user_id_users'' ''CASCADE'',
         PrimaryKeyConstraint [''id''] ''pk_backup_codes'']\<rparr>,
     CreateIndex \<lparr>ix_name = ''ix_backup_codes_user_id'', ix_table = ''backup_codes'', ix_columns = [''user_id''], ix_unique = False\<rparr>,
     CreateTable \<lparr>ta_name = ''user_sessions'',
       ta_columns = [col ''id'' SqlUuid False None,
         col ''user_id'' SqlUuid False None,
         col ''refresh_family_id'' SqlUuid False None,
         col ''ip_address'' (SqlString 64) True None,
         col ''user_agent'' (SqlString 512) True None,
         col ''created_at'' SqlTimestamp False (Some SqlNow),
         col ''last_seen_at'' SqlTimestamp False (Some SqlNow),
         col ''revoked_at'' SqlTimestamp True None],
       ta_constraints = [ForeignKeyConstraint [''user_id''] ''users'' [''id''] ''fk_user_sessions_user_id_users'' ''CASCADE'',
         PrimaryKeyConstraint [''id''] ''pk_user_sessions'']\<rparr>,
     CreateIndex \<lparr>ix_name = ''ix_user_sessions_user_id'', ix_table = ''user_sessions'', ix_columns = [''user_id''], ix_unique = False\<rparr>,
     CreateIndex \<lparr>ix_name = ''ix_user_sessions_refresh_family_id'', ix_table = ''user_sessions'', ix_columns = [''refresh_family_id''], ix_unique = False\<rparr>,
     CreateTable \<lparr>ta_name = ''refresh_tokens'',
       ta_columns = [col ''id'' SqlUuid False None,
         col ''user_id'' SqlUuid False None,
         col ''jti'' SqlUuid False None,
         col ''family_id'' SqlUuid False None,
         col ''parent_jti'' SqlUuid True None,
         col ''token_hash'' SqlText False None,
         col ''issued_at'' SqlTimestamp False (Some SqlNow),
         col ''expires_at'' SqlTimestamp False None,
         col ''rotated_at'' SqlTimestamp True None,
         col ''revoked_at'' SqlTimestamp True None,
         col ''replaced_by_jti'' SqlUuid True None,
         col ''revocation_reason'' (SqlString 128) True None,
         col ''ip_address'' (SqlString 64) True None,
         col ''user_agent'' (SqlString 512) True None],
       ta_constraints = [ForeignKeyConstraint [''user_id''] ''users'' [''id''] ''fk_refresh_tokens_user_id_users'' ''CASCADE'',
         PrimaryKeyConstraint [''id''] ''pk_refresh_tokens'',
         UniqueConstraint [''jti''] ''uq_refresh_tokens_jti'']\<rparr>,
     CreateIndex \<lparr>ix_name = ''ix_refresh_tokens_jti'', ix_table = ''refresh_tokens'', ix_columns = [''jti''], ix_unique = True\<rparr>,
     CreateIndex \<lparr>ix_name = ''ix_refresh_tokens_user_id'', ix_table = ''refresh_tokens'', ix_columns = [''user_id''], ix_unique = False\<rparr>,
     CreateIndex \<lparr>ix_name = ''ix_refresh_tokens_family_id'', ix_table = ''refresh_tokens'', ix_columns = [''family_id''], ix_unique = False\<rparr>,
     CreateTable \<lparr>ta_name = ''audit_events'',
       ta_columns = [col ''id'' SqlUuid False None,
         col ''event_type'' (SqlString 128) False None,
         col ''outcome'' (SqlString 16) False None,
         col ''actor_user_id'' SqlUuid True None,
         col ''target_user_id'' SqlUuid True None,
         col ''ip_address'' (SqlString 64) True None,
         col ''user_agent'' (SqlString 512) True None,
         col ''payload'' SqlJsonb False (Some (SqlExpression json_object_expression)),
         col ''created_at'' SqlTimestamp False (Some SqlNow)],
       ta_constraints = [PrimaryKeyConstraint [''id''] ''pk_audit_events'']\<rparr>,
     CreateIndex \<lparr>ix_name = ''ix_audit_events_event_type'', ix_table = ''audit_events'', ix_columns = [''event_type''], ix_unique = False\<rparr>]"

definition initial_auth_schema_downgrade :: "operation list" where
  "initial_auth_schema_downgrade =
    [DropIndex ''ix_audit_events_event_type'' ''audit_events'',
     DropTable ''audit_events'',
     DropIndex ''ix_refresh_tokens_family_id'' ''refresh_tokens'',
     DropIndex ''ix_refresh_tokens_user_id'' ''refresh_tokens'',
     DropIndex ''ix_refresh_tokens_jti'' ''refresh_tokens'',
     DropTable ''refresh_tokens'',
     DropIndex ''ix_user_sessions_refresh_family_id'' ''user_sessions'',
     DropIndex ''ix_user_sessions_user_id'' ''user_sessions'',
     DropTable ''user_sessions'',
     DropIndex ''ix_backup_codes_user_id'' ''backup_codes'',
     DropTable ''backup_codes'',
     DropTable ''two_factor_secrets'',
     DropIndex ''ix_users_email'' ''users'',
     DropTable ''users'']"

definition initial_auth_schema_migration :: migration where
  "initial_auth_schema_migration = \<lparr>mi_revision = ''20260411_0001'', mi_down_revision = None,
     mi_upgrade = initial_auth_schema_upgrade, mi_downgrade = initial_auth_schema_downgrade\<rparr>"

definition password_reset_tokens_upgrade :: "operation list" where
  "password_reset_tokens_upgrade =
    [CreateTable \<lparr>ta_name = ''password_reset_tokens'',
       ta_columns = [col ''id'' SqlUuid False None,
         col ''user_id'' SqlUuid False None,
         col ''token_hash'' (SqlString 128) False None,
         col ''requested_ip'' (SqlString 64) True None,
         col ''requested_user_agent'' (SqlString 512) True None,
         col ''created_at'' SqlTimestamp False (Some SqlNow),
         col ''expires_at'' SqlTimestamp False None,
         col ''used_at'' SqlTimestamp True None],
       ta_constraints = [ForeignKeyConstraint [''user_id''] ''users'' [''id''] ''fk_password_reset_tokens_user_id_users'' ''CASCADE'',
         PrimaryKeyConstraint [''id''] ''pk_password_reset_tokens'',
         UniqueConstraint [''token_hash''] ''uq_password_reset_tokens_token_hash'']\<rparr>,
     CreateIndex \<lparr>ix_name = ''ix_password_reset_tokens_user_id'', ix_table = ''password_reset_tokens'', ix_columns = [''user_id''], ix_unique = False\<rparr>]"

definition password_reset_tokens_downgrade :: "operation list" where
  "password_reset_tokens_downgrade =
    [DropIndex ''ix_password_reset_tokens_user_id'' ''password_reset_tokens'',
     DropTable ''password_reset_tokens'']"

definition password_reset_tokens_migration :: migration where
  "password_reset_tokens_migration = \<lparr>mi_revision = ''20260413_0002'', mi_down_revision = Some ''20260411_0001'',
     mi_upgrade = password_reset_tokens_upgrade, mi_downgrade = password_reset_tokens_downgrade\<rparr>"

definition user_security_lock_flags_upgrade :: "operation list" where
  "user_security_lock_flags_upgrade =
    [AddColumn ''users'' (col ''login_blocked'' SqlBoolean False (Some SqlFalse)),
     AddColumn ''users'' (col ''password_reset_blocked'' SqlBoolean False (Some SqlFalse)),
     AlterDefault ''users'' ''login_blocked'' None,
     AlterDefault ''users'' ''password_reset_blocked'' None]"

definition user_security_lock_flags_downgrade :: "operation list" where
  "user_security_lock_flags_downgrade =
    [DropColumn ''users'' ''password_reset_blocked'',
     DropColumn ''users'' ''login_blocked'']"

definition user_security_lock_flags_migration :: migration where
  "user_security_lock_flags_migration = \<lparr>mi_revision = ''20260421_0003'', mi_down_revision = Some ''20260413_0002'',
     mi_upgrade = user_security_lock_flags_upgrade, mi_downgrade = user_security_lock_flags_downgrade\<rparr>"

definition auth_migrations :: "migration list" where
  "auth_migrations = [initial_auth_schema_migration, password_reset_tokens_migration, user_security_lock_flags_migration]"

section \<open>user-service\<close>

definition initial_user_schema_upgrade :: "operation list" where
  "initial_user_schema_upgrade =
    [CreateTable \<lparr>ta_name = ''app_users'',
       ta_columns = [col ''id'' SqlUuid False None,
         col ''external_subject'' (SqlString 64) False None,
         col ''email'' (SqlString 320) True None,
         col ''is_active'' SqlBoolean False (Some SqlTrue),
         col ''created_at'' SqlTimestamp False (Some SqlNow),
         col ''updated_at'' SqlTimestamp False (Some SqlNow)],
       ta_constraints = [PrimaryKeyConstraint [''id''] ''pk_app_users'',
         UniqueConstraint [''external_subject''] ''uq_app_users_external_subject'']\<rparr>,
     CreateIndex \<lparr>ix_name = ''ix_app_users_external_subject'', ix_table = ''app_users'', ix_columns = [''external_subject''], ix_unique = True\<rparr>,
     CreateTable \<lparr>ta_name = ''user_profiles'',
       ta_columns = [col ''id'' SqlUuid False None,
         col ''user_id'' SqlUuid False None,
         col ''display_name'' (SqlString 100) True None,
         col ''locale'' (SqlString 16) False (Some (SqlLiteral ''en-US'')),
         col ''timezone'' (SqlString 64) False (Some (SqlLiteral ''UTC'')),
         col ''avatar_url'' (SqlString 512) True None,
         col ''created_at'' SqlTimestamp False (Some SqlNow),
         col ''updated_at'' SqlTimestamp False (Some SqlNow)],
       ta_constraints = [ForeignKeyConstraint [''user_id''] ''app_users'' [''id''] ''fk_user_profiles_user_id_app_users'' ''CASCADE'',
         PrimaryKeyConstraint [''id''] ''pk_user_profiles'',
         UniqueConstraint [''user_id''] ''uq_user_profiles_user_id'']\<rparr>,
     CreateTable \<lparr>ta_name = ''roles'',
       ta_columns = [col ''id'' SqlUuid False None,
         col ''name'' (SqlString 64) False None,
         col ''description'' (SqlString 255) True None,
         col ''created_at'' SqlTimestamp False (Some SqlNow)],
       ta_constraints = [PrimaryKeyConstraint [''id''] ''pk_roles'',
         UniqueConstraint [''name''] ''uq_roles_name'']\<rparr>,
     CreateIndex \<lparr>ix_name = ''ix_roles_name'', ix_table = ''roles'', ix_columns = [''name''], ix_unique = True\<rparr>,
     CreateTable \<lparr>ta_name = ''permissions'',
       ta_columns = [col ''id'' SqlUuid False None,
         col ''name'' (SqlString 128) False None,
         col ''description'' (SqlString 255) True None,
         col ''created_at'' SqlTimestamp False (Some SqlNow)],
       ta_constraints = [PrimaryKeyConstraint [''id''] ''pk_permissions'',
         UniqueConstraint [''name''] ''uq_permissions_name'']\<rparr>,
     CreateIndex \<lparr>ix_name = ''ix_permissions_name'', ix_table = ''permissions'', ix_columns = [''name''], ix_unique = True\<rparr>,
     CreateTable \<lparr>ta_name = ''user_roles'',
       ta_columns = [col ''id'' SqlUuid False None,
         col ''user_id'' SqlUuid False None,
         col ''role_id'' SqlUuid False None,
         col ''created_at'' SqlTimestamp False (Some SqlNow)],
       ta_constraints = [ForeignKeyConstraint [''role_id''] ''roles'' [''id''] ''fk_user_roles_role_id_roles'' ''CASCADE'',
         ForeignKeyConstraint [''user_id''] ''app_users'' [''id''] ''fk_user_roles_user_id_app_users'' ''CASCADE'',
         PrimaryKeyConstraint [''id''] ''pk_user_roles'',
         UniqueConstraint [''user_id'', ''role_id''] ''uq_user_roles_user_id_role_id'']\<rparr>,
     CreateIndex \<lparr>ix_name = ''ix_user_roles_user_id'', ix_table = ''user_roles'', ix_columns = [''user_id''], ix_unique = False\<rparr>,
     CreateIndex \<lparr>ix_name = ''ix_user_roles_role_id'', ix_table = ''user_roles'', ix_columns = [''role_id''], ix_unique = False\<rparr>,
     CreateTable \<lparr>ta_name = ''role_permissions'',
       ta_columns = [col ''id'' SqlUuid False None,
         col ''role_id'' SqlUuid False None,
         col ''permission_id'' SqlUuid False None,
         col ''created_at'' SqlTimestamp False (Some SqlNow)],
       ta_constraints = [ForeignKeyConstraint [''permission_id''] ''permissions'' [''id''] ''fk_role_permissions_permission_id_permissions'' ''CASCADE'',
         ForeignKeyConstraint [''role_id''] ''roles'' [''id''] ''fk_role_permissions_role_id_roles'' ''CASCADE'',
         PrimaryKeyConstraint [''id''] ''pk_role_permissions'',
         UniqueConstraint [''role_id'', ''permission_id''] ''uq_role_permissions_role_id_permission_id'']\<rparr>,
     CreateIndex \<lparr>ix_name = ''ix_role_permissions_role_id'', ix_table = ''role_permissions'', ix_columns = [''role_id''], ix_unique = False\<rparr>,
     CreateIndex \<lparr>ix_name = ''ix_role_permissions_permission_id'', ix_table = ''role_permissions'', ix_columns = [''permission_id''], ix_unique = False\<rparr>,
     CreateTable \<lparr>ta_name = ''audit_events'',
       ta_columns = [col ''id'' SqlUuid False None,
         col ''event_type'' (SqlString 128) False None,
         col ''outcome'' (SqlString 16) False None,
         col ''actor_user_id'' SqlUuid True None,
         col ''target_user_id'' SqlUuid True None,
         col ''ip_address'' (SqlString 64) True None,
         col ''user_agent'' (SqlString 512) True None,
         col ''payload'' SqlJsonb False (Some (SqlExpression json_object_expression)),
         col ''created_at'' SqlTimestamp False (Some SqlNow)],
       ta_constraints = [PrimaryKeyConstraint [''id''] ''pk_audit_events'']\<rparr>,
     CreateIndex \<lparr>ix_name = ''ix_audit_events_event_type'', ix_table = ''audit_events'', ix_columns = [''event_type''], ix_unique = False\<rparr>]"

definition initial_user_schema_downgrade :: "operation list" where
  "initial_user_schema_downgrade =
    [DropIndex ''ix_audit_events_event_type'' ''audit_events'',
     DropTable ''audit_events'',
     DropIndex ''ix_role_permissions_permission_id'' ''role_permissions'',
     DropIndex ''ix_role_permissions_role_id'' ''role_permissions'',
     DropTable ''role_permissions'',
     DropIndex ''ix_user_roles_role_id'' ''user_roles'',
     DropIndex ''ix_user_roles_user_id'' ''user_roles'',
     DropTable ''user_roles'',
     DropIndex ''ix_permissions_name'' ''permissions'',
     DropTable ''permissions'',
     DropIndex ''ix_roles_name'' ''roles'',
     DropTable ''roles'',
     DropTable ''user_profiles'',
     DropIndex ''ix_app_users_external_subject'' ''app_users'',
     DropTable ''app_users'']"

definition initial_user_schema_migration :: migration where
  "initial_user_schema_migration = \<lparr>mi_revision = ''20260411_0001'', mi_down_revision = None,
     mi_upgrade = initial_user_schema_upgrade, mi_downgrade = initial_user_schema_downgrade\<rparr>"

definition user_migrations :: "migration list" where
  "user_migrations = [initial_user_schema_migration]"

section \<open>Downgrades undo upgrades\<close>

lemma initial_auth_schema_undone: "undoes initial_auth_schema_downgrade initial_auth_schema_upgrade"
  using undoes_reverse [of initial_auth_schema_upgrade "rev initial_auth_schema_downgrade"]
  by (simp add: initial_auth_schema_upgrade_def initial_auth_schema_downgrade_def)

lemma password_reset_tokens_undone: "undoes password_reset_tokens_downgrade password_reset_tokens_upgrade"
  using undoes_reverse [of password_reset_tokens_upgrade "rev password_reset_tokens_downgrade"]
  by (simp add: password_reset_tokens_upgrade_def password_reset_tokens_downgrade_def)

lemma initial_user_schema_undone: "undoes initial_user_schema_downgrade initial_user_schema_upgrade"
  using undoes_reverse [of initial_user_schema_upgrade "rev initial_user_schema_downgrade"]
  by (simp add: initial_user_schema_upgrade_def initial_user_schema_downgrade_def)

text \<open>
  The two flags lose their server default after they were added, which dropping them does not notice.
\<close>

lemma user_security_lock_flags_undone: "undoes user_security_lock_flags_downgrade user_security_lock_flags_upgrade"
  unfolding undoes_def
proof (intro allI impI)
  let ?flag = "\<lambda>n. col n SqlBoolean False (Some SqlFalse)"
  let ?a = "''login_blocked''" and ?b = "''password_reset_blocked''"
  fix s t
  assume wf: "wf_schema s" and run: "run_operations user_security_lock_flags_upgrade s = Some t"
  let ?adds = "[AddColumn ''users'' (?flag ?a), AddColumn ''users'' (?flag ?b)]"
  have "user_security_lock_flags_upgrade = ?adds @ [AlterDefault ''users'' ?a None, AlterDefault ''users'' ?b None]"
    by (simp add: user_security_lock_flags_upgrade_def)
  from run [unfolded this] obtain u where u: "run_operations ?adds s = Some u"
    and t: "run_operations [AlterDefault ''users'' ?a None, AlterDefault ''users'' ?b None] u = Some t"
    by (rule run_appendE)
  have "undoes [DropColumn ''users'' ?b, DropColumn ''users'' ?a] ?adds"
    using undoes_reverse [of ?adds "[DropColumn ''users'' ?a, DropColumn ''users'' ?b]"] by (simp add: col_def)
  note undone = undoesD [OF this wf u]
  then obtain v where v: "run_operation (DropColumn ''users'' ?b) u = Some v"
    "run_operation (DropColumn ''users'' ?a) v = Some s"
    by (auto simp: bind_eq_Some_conv simp del: run_operation.simps)
  have "t = on_table ''users'' (set_default ?b None) (on_table ''users'' (set_default ?a None) u)"
    using t by (rule run_two_defaults)
  then show "run_operations user_security_lock_flags_downgrade t = Some s \<and> wf_schema t"
    using undone(2) by (simp add: user_security_lock_flags_downgrade_def drop_after_default drop_other_default v
        del: run_operation.simps)
qed

lemma each_undone: "m \<in> set (auth_migrations @ user_migrations) \<Longrightarrow> undoes (mi_downgrade m) (mi_upgrade m)"
  using initial_auth_schema_undone password_reset_tokens_undone user_security_lock_flags_undone initial_user_schema_undone
  by (auto simp: auth_migrations_def user_migrations_def initial_auth_schema_migration_def
      password_reset_tokens_migration_def user_security_lock_flags_migration_def initial_user_schema_migration_def)

lemma chain_undone:
  "(\<And>m. m \<in> set ms \<Longrightarrow> undoes (mi_downgrade m) (mi_upgrade m)) \<Longrightarrow> undoes (downgrade_base ms) (upgrade_head ms)"
proof (induction ms)
  case Nil
  then show ?case by (simp add: downgrade_base_def upgrade_head_def undoes_def)
next
  case (Cons m ms)
  then have "undoes (downgrade_base ms @ mi_downgrade m) (mi_upgrade m @ upgrade_head ms)"
    by (intro undoes_append) simp_all
  then show ?case by (simp add: downgrade_base_def upgrade_head_def)
qed

lemma chain_split: "upgrade_head ms = upgrade_head (take k ms) @ upgrade_head (drop k ms)"
  by (simp add: upgrade_head_def flip: concat_append map_append)

definition auth_schema :: schema where
  "auth_schema = the (run_operations (upgrade_head auth_migrations) empty_schema)"

definition user_schema :: schema where
  "user_schema = the (run_operations (upgrade_head user_migrations) empty_schema)"

lemma auth_upgrade_runs: "run_operations (upgrade_head auth_migrations) empty_schema = Some auth_schema"
  unfolding auth_schema_def by code_simp

lemma user_upgrade_runs: "run_operations (upgrade_head user_migrations) empty_schema = Some user_schema"
  unfolding user_schema_def by code_simp

lemma chains_linked: "chained None auth_migrations" "chained None user_migrations"
  by (simp_all add: auth_migrations_def user_migrations_def initial_auth_schema_migration_def
      password_reset_tokens_migration_def user_security_lock_flags_migration_def initial_user_schema_migration_def)

text \<open>
  C36: The migrations of a service can be taken back to any revision: when the whole chain of upgrades ran on a
  schema, running the downgrades of the revisions after the \<^term>\<open>k\<close>th, newest first, gives exactly
  the schema of the first \<^term>\<open>k\<close> upgrades, names, defaults and constraints included (with
  \<^term>\<open>k = 0\<close> the schema before the first).
\<close>

theorem downgrade_restores_revision:
  assumes "ms \<in> {auth_migrations, user_migrations}" "wf_schema s"
    and "run_operations (upgrade_head ms) s = Some t"
  shows "run_operations (downgrade_base (drop k ms)) t = run_operations (upgrade_head (take k ms)) s \<and>
    run_operations (downgrade_base ms) t = Some s"
proof -
  have each: "undoes (mi_downgrade m) (mi_upgrade m)" if "m \<in> set ms" for m
    using that assms(1) by (intro each_undone) auto
  from assms(3) obtain u where u: "run_operations (upgrade_head (take k ms)) s = Some u"
    "run_operations (upgrade_head (drop k ms)) u = Some t"
    unfolding chain_split [of ms k] by (rule run_appendE)
  have "undoes (downgrade_base (take k ms)) (upgrade_head (take k ms))"
    "undoes (downgrade_base (drop k ms)) (upgrade_head (drop k ms))"
    using each by (auto intro!: chain_undone dest: in_set_takeD in_set_dropD)
  with u assms(2) have "run_operations (downgrade_base (drop k ms)) t = Some u" using undoesD by blast
  moreover have "run_operations (downgrade_base ms) t = Some s"
    using undoesD(1) [OF chain_undone [OF each] assms(2,3)] by simp
  ultimately show ?thesis using u(1) by simp
qed

text \<open>On an empty database: the auth-service chain up, then back to its second revision.\<close>

theorem downgrade_restores_revision_witness:
  "run_operations (downgrade_base (drop 2 auth_migrations)) auth_schema =
     run_operations (upgrade_head (take 2 auth_migrations)) empty_schema \<and>
   run_operations (downgrade_base auth_migrations) auth_schema = Some empty_schema"
  by (rule downgrade_restores_revision [OF _ wf_empty_schema auth_upgrade_runs]) simp

end
