(* ===== verification/Orm_Metadata.thy ===== *)
theory Orm_Metadata
  imports Migrations
begin

text \<open>
  The tables the SQLAlchemy models of the two services declare (\<^verbatim>\<open>app/models\<close>, \<^verbatim>\<open>app/db/base.py\<close>)
  and their comparison with the schema the migrations build: which is the schema the repositories of the services
  really run on.
\<close>

section \<open>Declarations\<close>

text \<open>
  A \<^verbatim>\<open>mapped_column\<close> with its keyword arguments, and whether its \<^verbatim>\<open>Mapped[...]\<close> annotation is
  optional, from which SQLAlchemy takes \<^verbatim>\<open>nullable\<close> where it is not given.
\<close>

datatype python_default = PyUuid4 | PyDict | PyTrue | PyFalse | PyStr string

record mapped_column =
  mc_name :: string
  mc_type :: sql_type
  mc_optional :: bool
  mc_foreign_key :: "(string \<times> string \<times> string) option"
  mc_primary_key :: bool
  mc_unique :: bool
  mc_index :: bool
  mc_nullable :: "bool option"
  mc_server_default :: "sql_default option"
  mc_default :: "python_default option"

definition mapped :: "string \<Rightarrow> sql_type \<Rightarrow> bool \<Rightarrow> mapped_column" where
  "mapped n ty optional = \<lparr>mc_name = n, mc_type = ty, mc_optional = optional, mc_foreign_key = None,
     mc_primary_key = False, mc_unique = False, mc_index = False, mc_nullable = None,
     mc_server_default = None, mc_default = None\<rparr>"

record mapped_class =
  cl_tablename :: string
  cl_columns :: "mapped_column list"
  cl_table_args :: "table_constraint list"

text \<open>\<^verbatim>\<open>NAMING_CONVENTION\<close>: the names of the constraints and indexes that are not named where they are declared.\<close>

definition ix_convention :: "string \<Rightarrow> string \<Rightarrow> string" where
  "ix_convention table_name column_0 = ''ix_'' @ table_name @ ''_'' @ column_0"

definition uq_convention :: "string \<Rightarrow> string \<Rightarrow> string" where
  "uq_convention table_name column_0 = ''uq_'' @ table_name @ ''_'' @ column_0"

definition fk_convention :: "string \<Rightarrow> string \<Rightarrow> string \<Rightarrow> string" where
  "fk_convention table_name column_0 referred = ''fk_'' @ table_name @ ''_'' @ column_0 @ ''_'' @ referred"

definition pk_convention :: "string \<Rightarrow> string" where
  "pk_convention table_name = ''pk_'' @ table_name"

section \<open>The declared tables\<close>

text \<open>
  What SQLAlchemy makes of a class: a column that is unique and indexed has one unique index, a column that is only unique
  a constraint.
\<close>

definition declared_nullable :: "mapped_column \<Rightarrow> bool" where
  "declared_nullable m \<longleftrightarrow>
     (case mc_nullable m of Some b \<Rightarrow> b | None \<Rightarrow> mc_optional m \<and> \<not> mc_primary_key m)"

definition declared_column :: "mapped_column \<Rightarrow> column" where
  "declared_column m = col (mc_name m) (mc_type m) (declared_nullable m) (mc_server_default m)"

definition declared_constraints :: "mapped_class \<Rightarrow> table_constraint list" where
  "declared_constraints c =
     PrimaryKeyConstraint (map mc_name (filter mc_primary_key (cl_columns c))) (pk_convention (cl_tablename c)) #
     map (\<lambda>m. UniqueConstraint [mc_name m] (uq_convention (cl_tablename c) (mc_name m)))
       (filter (\<lambda>m. mc_unique m \<and> \<not> mc_index m) (cl_columns c)) @
     concat (map (\<lambda>m. case mc_foreign_key m of None \<Rightarrow> []
       | Some (r, rc, ondelete) \<Rightarrow>
           [ForeignKeyConstraint [mc_name m] r [rc] (fk_convention (cl_tablename c) (mc_name m) r) ondelete])
       (cl_columns c)) @
     cl_table_args c"

definition declared_indexes :: "mapped_class \<Rightarrow> index list" where
  "declared_indexes c =
     map (\<lambda>m. \<lparr>ix_name = ix_convention (cl_tablename c) (mc_name m), ix_table = cl_tablename c,
       ix_columns = [mc_name m], ix_unique = mc_unique m\<rparr>) (filter mc_index (cl_columns c))"

section \<open>auth-service\<close>

definition audit_event_class :: mapped_class where
  "audit_event_class = \<lparr>cl_tablename = ''audit_events'',
     cl_columns = [(mapped ''id'' SqlUuid False)\<lparr>mc_primary_key := True, mc_default := Some PyUuid4\<rparr>,
       (mapped ''event_type'' (SqlString 128) False)\<lparr>mc_index := True, mc_nullable := Some False\<rparr>,
       (mapped ''outcome'' (SqlString 16) False)\<lparr>mc_nullable := Some False\<rparr>,
       (mapped ''actor_user_id'' SqlUuid True)\<lparr>mc_nullable := Some True\<rparr>,
       (mapped ''target_user_id'' SqlUuid True)\<lparr>mc_nullable := Some True\<rparr>,
       (mapped ''ip_address'' (SqlString 64) True)\<lparr>mc_nullable := Some True\<rparr>,
       (mapped ''user_agent'' (SqlString 512) True)\<lparr>mc_nullable := Some True\<rparr>,
       (mapped ''payload'' SqlJsonb False)\<lparr>mc_default := Some PyDict\<rparr>,
       (mapped ''created_at'' SqlTimestamp False)\<lparr>mc_server_default := Some SqlNow\<rparr>],
     cl_table_args = []\<rparr>"

definition backup_code_class :: mapped_class where
  "backup_code_class = \<lparr>cl_tablename = ''backup_codes'',
     cl_columns = [(mapped ''id'' SqlUuid False)\<lparr>mc_primary_key := True, mc_default := Some PyUuid4\<rparr>,
       (mapped ''user_id'' SqlUuid False)\<lparr>mc_foreign_key := Some (''users'', ''id'', ''CASCADE''), mc_index := True, mc_nullable := Some False\<rparr>,
       (mapped ''code_hash'' (SqlString 512) False)\<lparr>mc_nullable := Some False\<rparr>,
       (mapped ''used_at'' SqlTimestamp True)\<lparr>mc_nullable := Some True\<rparr>,
       (mapped ''created_at'' SqlTimestamp False)\<lparr>mc_server_default := Some SqlNow\<rparr>],
     cl_table_args = []\<rparr>"

definition password_reset_token_class :: mapped_class where
  "password_reset_token_class = \<lparr>cl_tablename = ''password_reset_tokens'',
     cl_columns = [(mapped ''id'' SqlUuid False)\<lparr>mc_primary_key := True, mc_default := Some PyUuid4\<rparr>,
       (mapped ''user_id'' SqlUuid False)\<lparr>mc_foreign_key := Some (''users'', ''id'', ''CASCADE'')\<rparr>,
       (mapped ''token_hash'' (SqlString 128) False)\<lparr>mc_unique := True, mc_nullable := Some False\<rparr>,
       (mapped ''requested_ip'' (SqlString 64) True)\<lparr>mc_nullable := Some True\<rparr>,
       (mapped ''requested_user_agent'' (SqlString 512) True)\<lparr>mc_nullable := Some True\<rparr>,
       (mapped ''created_at'' SqlTimestamp False)\<lparr>mc_server_default := Some SqlNow\<rparr>,
       (mapped ''expires_at'' SqlTimestamp False)\<lparr>mc_nullable := Some False\<rparr>,
       (mapped ''used_at'' SqlTimestamp True)\<lparr>mc_nullable := Some True\<rparr>],
     cl_table_args = []\<rparr>"

definition refresh_token_class :: mapped_class where
  "refresh_token_class = \<lparr>cl_tablename = ''refresh_tokens'',
     cl_columns = [(mapped ''id'' SqlUuid False)\<lparr>mc_primary_key := True, mc_default := Some PyUuid4\<rparr>,
       (mapped ''user_id'' SqlUuid False)\<lparr>mc_foreign_key := Some (''users'', ''id'', ''CASCADE''), mc_index := True, mc_nullable := Some False\<rparr>,
       (mapped ''jti'' SqlUuid False)\<lparr>mc_unique := True, mc_index := True, mc_nullable := Some False\<rparr>,
       (mapped ''family_id'' SqlUuid False)\<lparr>mc_index := True, mc_nullable := Some False\<rparr>,
       (mapped ''parent_jti'' SqlUuid True)\<lparr>mc_nullable := Some True\<rparr>,
       (mapped ''token_hash'' SqlText False)\<lparr>mc_nullable := Some False\<rparr>,
       (mapped ''issued_at'' SqlTimestamp False)\<lparr>mc_server_default := Some SqlNow\<rparr>,
       (mapped ''expires_at'' SqlTimestamp False)\<lparr>mc_nullable := Some False\<rparr>,
       (mapped ''rotated_at'' SqlTimestamp True)\<lparr>mc_nullable := Some True\<rparr>,
       (mapped ''revoked_at'' SqlTimestamp True)\<lparr>mc_nullable := Some True\<rparr>,
       (mapped ''replaced_by_jti'' SqlUuid True)\<lparr>mc_nullable := Some True\<rparr>,
       (mapped ''revocation_reason'' (SqlString 128) True)\<lparr>mc_nullable := Some True\<rparr>,
       (mapped ''ip_address'' (SqlString 64) True)\<lparr>mc_nullable := Some True\<rparr>,
       (mapped ''user_agent'' (SqlString 512) True)\<lparr>mc_nullable := Some True\<rparr>],
     cl_table_args = []\<rparr>"

definition two_factor_secret_class :: mapped_class where
  "two_factor_secret_class = \<lparr>cl_tablename = ''two_factor_secrets'',
     cl_columns = [(mapped ''id'' SqlUuid False)\<lparr>mc_primary_key := True, mc_default := Some PyUuid4\<rparr>,
       (mapped ''user_id'' SqlUuid False)\<lparr>mc_foreign_key := Some (''users'', ''id'', ''CASCADE''), mc_unique := True, mc_nullable := Some False\<rparr>,
       (mapped ''encrypted_secret'' SqlText False)\<lparr>mc_nullable := Some False\<rparr>,
       (mapped ''confirmed_at'' SqlTimestamp True)\<lparr>mc_nullable := Some True\<rparr>,
       (mapped ''last_used_timecode'' SqlInteger True)\<lparr>mc_nullable := Some True\<rparr>,
       (mapped ''created_at'' SqlTimestamp False)\<lparr>mc_server_default := Some SqlNow\<rparr>,
       (mapped ''updated_at'' SqlTimestamp False)\<lparr>mc_server_default := Some SqlNow\<rparr>],
     cl_table_args = []\<rparr>"

definition user_class :: mapped_class where
  "user_class = \<lparr>cl_tablename = ''users'',
     cl_columns = [(mapped ''id'' SqlUuid False)\<lparr>mc_primary_key := True, mc_default := Some PyUuid4\<rparr>,
       (mapped ''email'' (SqlString 320) False)\<lparr>mc_unique := True, mc_index := True, mc_nullable := Some False\<rparr>,
       (mapped ''password_hash'' (SqlString 512) False)\<lparr>mc_nullable := Some False\<rparr>,
       (mapped ''is_active'' SqlBoolean False)\<lparr>mc_nullable := Some False, mc_default := Some PyTrue\<rparr>,
       (mapped ''is_superuser'' SqlBoolean False)\<lparr>mc_nullable := Some False, mc_default := Some PyFalse\<rparr>,
       (mapped ''two_factor_enabled'' SqlBoolean False)\<lparr>mc_nullable := Some False, mc_default := Some PyFalse\<rparr>,
       (mapped ''login_blocked'' SqlBoolean False)\<lparr>mc_nullable := Some False, mc_default := Some PyFalse\<rparr>,
       (mapped ''password_reset_blocked'' SqlBoolean False)\<lparr>mc_nullable := Some False, mc_default := Some PyFalse\<rparr>,
       (mapped ''created_at'' SqlTimestamp False)\<lparr>mc_server_default := Some SqlNow\<rparr>,
       (mapped ''updated_at'' SqlTimestamp False)\<lparr>mc_server_default := Some SqlNow\<rparr>],
     cl_table_args = []\<rparr>"

definition user_session_class :: mapped_class where
  "user_session_class = \<lparr>cl_tablename = ''user_sessions'',
     cl_columns = [(mapped ''id'' SqlUuid False)\<lparr>mc_primary_key := True, mc_default := Some PyUuid4\<rparr>,
       (mapped ''user_id'' SqlUuid False)\<lparr>mc_foreign_key := Some (''users'', ''id'', ''CASCADE''), mc_index := True, mc_nullable := Some False\<rparr>,
       (mapped ''refresh_family_id'' SqlUuid False)\<lparr>mc_index := True, mc_nullable := Some False\<rparr>,
       (mapped ''ip_address'' (SqlString 64) True)\<lparr>mc_nullable := Some True\<rparr>,
       (mapped ''user_agent'' (SqlString 512) True)\<lparr>mc_nullable := Some True\<rparr>,
       (mapped ''created_at'' SqlTimestamp False)\<lparr>mc_server_default := Some SqlNow\<rparr>,
       (mapped ''last_seen_at'' SqlTimestamp False)\<lparr>mc_server_default := Some SqlNow\<rparr>,
       (mapped ''revoked_at'' SqlTimestamp True)\<lparr>mc_nullable := Some True\<rparr>],
     cl_table_args = []\<rparr>"

definition auth_classes :: "mapped_class list" where
  "auth_classes = [user_class, refresh_token_class, user_session_class, two_factor_secret_class, backup_code_class,
     password_reset_token_class, audit_event_class]"

section \<open>user-service\<close>

definition app_user_class :: mapped_class where
  "app_user_class = \<lparr>cl_tablename = ''app_users'',
     cl_columns = [(mapped ''id'' SqlUuid False)\<lparr>mc_primary_key := True, mc_default := Some PyUuid4\<rparr>,
       (mapped ''external_subject'' (SqlString 64) False)\<lparr>mc_unique := True, mc_index := True, mc_nullable := Some False\<rparr>,
       (mapped ''email'' (SqlString 320) True)\<lparr>mc_nullable := Some True\<rparr>,
       (mapped ''is_active'' SqlBoolean False)\<lparr>mc_nullable := Some False, mc_default := Some PyTrue\<rparr>,
       (mapped ''created_at'' SqlTimestamp False)\<lparr>mc_server_default := Some SqlNow\<rparr>,
       (mapped ''updated_at'' SqlTimestamp False)\<lparr>mc_server_default := Some SqlNow\<rparr>],
     cl_table_args = []\<rparr>"

definition user_audit_event_class :: mapped_class where
  "user_audit_event_class = \<lparr>cl_tablename = ''audit_events'',
     cl_columns = [(mapped ''id'' SqlUuid False)\<lparr>mc_primary_key := True, mc_default := Some PyUuid4\<rparr>,
       (mapped ''event_type'' (SqlString 128) False)\<lparr>mc_index := True, mc_nullable := Some False\<rparr>,
       (mapped ''outcome'' (SqlString 16) False)\<lparr>mc_nullable := Some False\<rparr>,
       (mapped ''actor_user_id'' SqlUuid True)\<lparr>mc_nullable := Some True\<rparr>,
       (mapped ''target_user_id'' SqlUuid True)\<lparr>mc_nullable := Some True\<rparr>,
       (mapped ''ip_address'' (SqlString 64) True)\<lparr>mc_nullable := Some True\<rparr>,
       (mapped ''user_agent'' (SqlString 512) True)\<lparr>mc_nullable := Some True\<rparr>,
       (mapped ''payload'' SqlJsonb False)\<lparr>mc_default := Some PyDict\<rparr>,
       (mapped ''created_at'' SqlTimestamp False)\<lparr>mc_server_default := Some SqlNow\<rparr>],
     cl_table_args = []\<rparr>"

definition permission_class :: mapped_class where
  "permission_class = \<lparr>cl_tablename = ''permissions'',
     cl_columns = [(mapped ''id'' SqlUuid False)\<lparr>mc_primary_key := True, mc_default := Some PyUuid4\<rparr>,
       (mapped ''name'' (SqlString 128) False)\<lparr>mc_unique := True, mc_index := True, mc_nullable := Some False\<rparr>,
       (mapped ''description'' (SqlString 255) True)\<lparr>mc_nullable := Some True\<rparr>,
       (mapped ''created_at'' SqlTimestamp False)\<lparr>mc_server_default := Some SqlNow\<rparr>],
     cl_table_args = []\<rparr>"

definition role_class :: mapped_class where
  "role_class = \<lparr>cl_tablename = ''roles'',
     cl_columns = [(mapped ''id'' SqlUuid False)\<lparr>mc_primary_key := True, mc_default := Some PyUuid4\<rparr>,
       (mapped ''name'' (SqlString 64) False)\<lparr>mc_unique := True, mc_index := True, mc_nullable := Some False\<rparr>,
       (mapped ''description'' (SqlString 255) True)\<lparr>mc_nullable := Some True\<rparr>,
       (mapped ''created_at'' SqlTimestamp False)\<lparr>mc_server_default := Some SqlNow\<rparr>],
     cl_table_args = []\<rparr>"

definition role_permission_class :: mapped_class where
  "role_permission_class = \<lparr>cl_tablename = ''role_permissions'',
     cl_columns = [(mapped ''id'' SqlUuid False)\<lparr>mc_primary_key := True, mc_default := Some PyUuid4\<rparr>,
       (mapped ''role_id'' SqlUuid False)\<lparr>mc_foreign_key := Some (''roles'', ''id'', ''CASCADE''), mc_index := True, mc_nullable := Some False\<rparr>,
       (mapped ''permission_id'' SqlUuid False)\<lparr>mc_foreign_key := Some (''permissions'', ''id'', ''CASCADE''), mc_index := True, mc_nullable := Some False\<rparr>,
       (mapped ''created_at'' SqlTimestamp False)\<lparr>mc_server_default := Some SqlNow\<rparr>],
     cl_table_args = [UniqueConstraint [''role_id'', ''permission_id''] ''uq_role_permissions_role_id_permission_id'']\<rparr>"

definition user_profile_class :: mapped_class where
  "user_profile_class = \<lparr>cl_tablename = ''user_profiles'',
     cl_columns = [(mapped ''id'' SqlUuid False)\<lparr>mc_primary_key := True, mc_default := Some PyUuid4\<rparr>,
       (mapped ''user_id'' SqlUuid False)\<lparr>mc_foreign_key := Some (''app_users'', ''id'', ''CASCADE''), mc_unique := True, mc_nullable := Some False\<rparr>,
       (mapped ''display_name'' (SqlString 100) True)\<lparr>mc_nullable := Some True\<rparr>,
       (mapped ''locale'' (SqlString 16) False)\<lparr>mc_nullable := Some False, mc_default := Some (PyStr ''en-US'')\<rparr>,
       (mapped ''timezone'' (SqlString 64) False)\<lparr>mc_nullable := Some False, mc_default := Some (PyStr ''UTC'')\<rparr>,
       (mapped ''avatar_url'' (SqlString 512) True)\<lparr>mc_nullable := Some True\<rparr>,
       (mapped ''created_at'' SqlTimestamp False)\<lparr>mc_server_default := Some SqlNow\<rparr>,
       (mapped ''updated_at'' SqlTimestamp False)\<lparr>mc_server_default := Some SqlNow\<rparr>],
     cl_table_args = []\<rparr>"

definition user_role_class :: mapped_class where
  "user_role_class = \<lparr>cl_tablename = ''user_roles'',
     cl_columns = [(mapped ''id'' SqlUuid False)\<lparr>mc_primary_key := True, mc_default := Some PyUuid4\<rparr>,
       (mapped ''user_id'' SqlUuid False)\<lparr>mc_foreign_key := Some (''app_users'', ''id'', ''CASCADE''), mc_index := True, mc_nullable := Some False\<rparr>,
       (mapped ''role_id'' SqlUuid False)\<lparr>mc_foreign_key := Some (''roles'', ''id'', ''CASCADE''), mc_index := True, mc_nullable := Some False\<rparr>,
       (mapped ''created_at'' SqlTimestamp False)\<lparr>mc_server_default := Some SqlNow\<rparr>],
     cl_table_args = [UniqueConstraint [''user_id'', ''role_id''] ''uq_user_roles_user_id_role_id'']\<rparr>"

definition user_classes :: "mapped_class list" where
  "user_classes = [app_user_class, user_profile_class, role_class, permission_class, user_role_class,
     role_permission_class, user_audit_event_class]"

section \<open>Declared and migrated\<close>

text \<open>The Python default of a model as the default of a column.\<close>

fun sql_of_default :: "python_default \<Rightarrow> sql_default option" where
  "sql_of_default PyTrue = Some SqlTrue"
| "sql_of_default PyFalse = Some SqlFalse"
| "sql_of_default (PyStr s) = Some (SqlLiteral s)"
| "sql_of_default PyDict = Some (SqlExpression json_object_expression)"
| "sql_of_default PyUuid4 = None"

text \<open>
  A column matches a declaration in name, type, width and nullability. Its default is the declared server default, or, for
  the columns listed in \<^term>\<open>added\<close>, the listed one: then the class declares no server default, and a Python default that means
  the same.
\<close>

definition column_matches :: "(string \<times> sql_default) list \<Rightarrow> mapped_column \<Rightarrow> column \<Rightarrow> bool" where
  "column_matches added m c \<longleftrightarrow>
     c\<lparr>co_default := None\<rparr> = (declared_column m)\<lparr>co_default := None\<rparr> \<and>
     (case map_of added (mc_name m) of
        None \<Rightarrow> co_default c = mc_server_default m
      | Some d \<Rightarrow> co_default c = Some d \<and> mc_server_default m = None \<and> Option.bind (mc_default m) sql_of_default = Some d)"

text \<open>
  A table matches a class when their columns match one to one, and its constraints are the declared ones and unique constraints
  on the columns \<^term>\<open>extra\<close>, which the class declares unique with an index. The columns of \<^term>\<open>added\<close> are columns of the class.
\<close>

definition table_matches :: "string list \<Rightarrow> (string \<times> sql_default) list \<Rightarrow> mapped_class \<Rightarrow> table \<Rightarrow> bool" where
  "table_matches extra added c t \<longleftrightarrow>
     ta_name t = cl_tablename c \<and>
     length (ta_columns t) = length (cl_columns c) \<and>
     list_all (\<lambda>x. list_ex (\<lambda>m. column_matches added m x) (cl_columns c)) (ta_columns t) \<and>
     list_all (\<lambda>m. list_ex (column_matches added m) (ta_columns t)) (cl_columns c) \<and>
     set (ta_constraints t) = set (declared_constraints c) \<union>
       set (map (\<lambda>n. UniqueConstraint [n] (uq_convention (ta_name t) n)) extra) \<and>
     list_all (\<lambda>n. list_ex (\<lambda>m. mc_name m = n \<and> mc_unique m \<and> mc_index m) (cl_columns c)) extra \<and>
     list_all (\<lambda>(n, _). list_ex (\<lambda>m. mc_name m = n) (cl_columns c)) added"

definition listed :: "(string \<times> 'a list) list \<Rightarrow> mapped_class \<Rightarrow> 'a list" where
  "listed xs c = (case map_of xs (cl_tablename c) of None \<Rightarrow> [] | Some ys \<Rightarrow> ys)"

definition schema_matches ::
  "(string \<times> string list) list \<Rightarrow> (string \<times> (string \<times> sql_default) list) list \<Rightarrow> index list \<Rightarrow> mapped_class list \<Rightarrow> schema \<Rightarrow> bool" where
  "schema_matches extra added ixs cs s \<longleftrightarrow>
     length (sc_tables s) = length cs \<and>
     list_all (\<lambda>c. list_ex (table_matches (listed extra c) (listed added c) c) (sc_tables s)) cs \<and>
     set (sc_indexes s) = set (concat (map declared_indexes cs)) \<union> set ixs"

text \<open>
  C35: the migrations build the schema the models declare. Both chains of migrations run on an empty database, and the
  schema they end with has exactly the tables of the models, each with exactly the declared columns (type, width,
  nullability and server default) and the declared primary keys, foreign keys and unique constraints. The only differences, all
  listed in the statement: the server defaults of eight columns for which the models have the same default in
  Python, an index on \<open>password_reset_tokens.user_id\<close> that no model declares, and a unique constraint beside the
  unique index on each column declared unique and indexed.
\<close>

theorem models_match_migrations:
  "(\<exists>s. run_operations (upgrade_head auth_migrations) empty_schema = Some s \<and>
     schema_matches
       [(''users'', [''email'']), (''refresh_tokens'', [''jti''])]
       [(''users'', [(''is_active'', SqlTrue), (''is_superuser'', SqlFalse), (''two_factor_enabled'', SqlFalse)]),
        (''audit_events'', [(''payload'', SqlExpression json_object_expression)])]
       [\<lparr>ix_name = ''ix_password_reset_tokens_user_id'', ix_table = ''password_reset_tokens'',
         ix_columns = [''user_id''], ix_unique = False\<rparr>]
       auth_classes s) \<and>
   (\<exists>s. run_operations (upgrade_head user_migrations) empty_schema = Some s \<and>
     schema_matches
       [(''app_users'', [''external_subject'']), (''roles'', [''name'']), (''permissions'', [''name''])]
       [(''app_users'', [(''is_active'', SqlTrue)]),
        (''user_profiles'', [(''locale'', SqlLiteral ''en-US''), (''timezone'', SqlLiteral ''UTC'')]),
        (''audit_events'', [(''payload'', SqlExpression json_object_expression)])]
       [] user_classes s)"
proof (intro conjI exI)
  show "run_operations (upgrade_head auth_migrations) empty_schema = Some auth_schema" by (rule auth_upgrade_runs)
  show "run_operations (upgrade_head user_migrations) empty_schema = Some user_schema" by (rule user_upgrade_runs)
qed code_simp+

end
