(* ===== verification/Schema_Conformance.thy ===== *)
theory Schema_Conformance
  imports Orm_Metadata User_Properties
begin

text \<open>
  The tables of the user-service against the schema its migrations build: in every reachable state each row
  has values of the declared types and widths, NULL only where the schema allows it, and the
  primary keys, unique constraints, unique indexes and foreign keys of the schema hold.
\<close>

section \<open>Values and rows\<close>

datatype sql_value = VNull | VUuid uuid | VText string | VBool bool | VInteger int | VTimestamp int | VJson json

fun has_type :: "sql_type \<Rightarrow> sql_value \<Rightarrow> bool" where
  "has_type SqlUuid (VUuid _) \<longleftrightarrow> True"
| "has_type (SqlString n) (VText s) \<longleftrightarrow> length s \<le> n"
| "has_type SqlText (VText _) \<longleftrightarrow> True"
| "has_type SqlBoolean (VBool _) \<longleftrightarrow> True"
| "has_type SqlInteger (VInteger i) \<longleftrightarrow> - (2 ^ 31) \<le> i \<and> i < 2 ^ 31"
| "has_type SqlTimestamp (VTimestamp _) \<longleftrightarrow> True"
| "has_type SqlJsonb (VJson _) \<longleftrightarrow> True"
| "has_type _ _ \<longleftrightarrow> False"

type_synonym row = "(string \<times> sql_value) list"
type_synonym database = "string \<Rightarrow> row list"

text \<open>A column a row does not mention (the timestamps the model leaves out) has a default in the database or may be NULL.\<close>

definition row_typed :: "column list \<Rightarrow> row \<Rightarrow> bool" where
  "row_typed cs r \<longleftrightarrow>
     fst ` set r \<subseteq> co_name ` set cs \<and>
     (\<forall>c \<in> set cs. case map_of r (co_name c) of
        None \<Rightarrow> co_default c \<noteq> None \<or> co_nullable c
      | Some v \<Rightarrow> has_type (co_type c) v \<or> v = VNull \<and> co_nullable c)"

definition project :: "string list \<Rightarrow> row \<Rightarrow> sql_value option list" where
  "project cs r = map (map_of r) cs"

fun constraint_holds :: "database \<Rightarrow> string \<Rightarrow> table_constraint \<Rightarrow> bool" where
  "constraint_holds D n (PrimaryKeyConstraint cs _) \<longleftrightarrow> distinct (map (project cs) (D n))"
| "constraint_holds D n (UniqueConstraint cs _) \<longleftrightarrow> distinct (map (project cs) (D n))"
| "constraint_holds D n (ForeignKeyConstraint cs r rcs _ _) \<longleftrightarrow> project cs ` set (D n) \<subseteq> project rcs ` set (D r)"

definition table_conforms :: "database \<Rightarrow> table \<Rightarrow> bool" where
  "table_conforms D t \<longleftrightarrow>
     (\<forall>r \<in> set (D (ta_name t)). row_typed (ta_columns t) r) \<and>
     (\<forall>k \<in> set (ta_constraints t). constraint_holds D (ta_name t) k)"

definition conforms :: "schema \<Rightarrow> database \<Rightarrow> bool" where
  "conforms S D \<longleftrightarrow>
     (\<forall>t \<in> set (sc_tables S). table_conforms D t) \<and>
     (\<forall>i \<in> set (sc_indexes S). ix_unique i \<longrightarrow> distinct (map (project (ix_columns i)) (D (ix_table i))))"

section \<open>The rows of the user-service\<close>

definition opt_text :: "string option \<Rightarrow> sql_value" where
  "opt_text v = (case v of None \<Rightarrow> VNull | Some s \<Rightarrow> VText s)"

definition opt_uuid :: "uuid option \<Rightarrow> sql_value" where
  "opt_uuid v = (case v of None \<Rightarrow> VNull | Some u \<Rightarrow> VUuid u)"

definition app_user_row :: "app_user \<Rightarrow> row" where
  "app_user_row u = [(''id'', VUuid (au_id u)), (''external_subject'', VText (external_subject u)),
     (''email'', opt_text (au_email u)), (''is_active'', VBool (au_is_active u)), (''created_at'', VTimestamp (au_created_at u))]"

definition user_profile_row :: "user_profile \<Rightarrow> row" where
  "user_profile_row p = [(''id'', VUuid (up_id p)), (''user_id'', VUuid (up_user_id p)),
     (''display_name'', opt_text (display_name p)), (''locale'', VText (up_locale p)),
     (''timezone'', VText (up_timezone p)), (''avatar_url'', opt_text (avatar_url p))]"

definition role_row :: "role \<Rightarrow> row" where
  "role_row r = [(''id'', VUuid (ro_id r)), (''name'', VText (ro_name r)), (''description'', opt_text (ro_description r))]"

definition permission_row :: "permission \<Rightarrow> row" where
  "permission_row p =
     [(''id'', VUuid (pe_id p)), (''name'', VText (pe_name p)), (''description'', opt_text (pe_description p))]"

definition role_permission_row :: "role_permission \<Rightarrow> row" where
  "role_permission_row x = [(''id'', VUuid (rp_id x)), (''role_id'', VUuid (rp_role_id x)),
     (''permission_id'', VUuid (rp_permission_id x))]"

definition user_role_row :: "user_role \<Rightarrow> row" where
  "user_role_row x = [(''id'', VUuid (ur_id x)), (''user_id'', VUuid (ur_user_id x)), (''role_id'', VUuid (ur_role_id x))]"

definition audit_event_row :: "audit_event \<Rightarrow> row" where
  "audit_event_row e = [(''id'', VUuid (ae_id e)), (''event_type'', VText (event_type e)), (''outcome'', VText (outcome e)),
     (''actor_user_id'', opt_uuid (actor_user_id e)), (''target_user_id'', opt_uuid (target_user_id e)),
     (''ip_address'', opt_text (ae_ip_address e)), (''user_agent'', opt_text (ae_user_agent e)),
     (''payload'', VJson (JDict (payload e))), (''created_at'', VTimestamp (ae_created_at e))]"

definition user_database :: "user_db \<Rightarrow> database" where
  "user_database d n =
     (if n = ''app_users'' then map app_user_row (app_users d)
      else if n = ''user_profiles'' then map user_profile_row (user_profiles d)
      else if n = ''roles'' then map role_row (roles d)
      else if n = ''permissions'' then map permission_row (permissions d)
      else if n = ''user_roles'' then map user_role_row (user_roles d)
      else if n = ''role_permissions'' then map role_permission_row (role_permissions d)
      else if n = ''audit_events'' then map audit_event_row (user_audit_events d)
      else [])"

section \<open>Widths and keys are kept\<close>

text \<open>What the well-formedness of the tables does not say: the widths of the texts, and the keys of the link tables.\<close>

definition declared :: "user_db \<Rightarrow> bool" where
  "declared d \<longleftrightarrow>
     (\<forall>u \<in> set (app_users d). fits 64 (external_subject u) \<and> opt_fits 320 (au_email u)) \<and>
     (\<forall>p \<in> set (user_profiles d). opt_fits 100 (display_name p) \<and> fits 16 (up_locale p) \<and> fits 64 (up_timezone p) \<and>
        opt_fits 512 (avatar_url p)) \<and>
     (\<forall>r \<in> set (roles d). fits 64 (ro_name r) \<and> opt_fits 255 (ro_description r)) \<and>
     (\<forall>p \<in> set (permissions d). fits 128 (pe_name p) \<and> opt_fits 255 (pe_description p)) \<and>
     (\<forall>e \<in> set (user_audit_events d). fits 128 (event_type e) \<and> fits 16 (outcome e) \<and>
        client_fits (ae_ip_address e) (ae_user_agent e)) \<and>
     distinct (map rp_id (role_permissions d)) \<and> distinct (map ur_id (user_roles d)) \<and>
     distinct (map ae_id (user_audit_events d))"

definition keeps_declared :: "'r user_node \<Rightarrow> 'r user_node \<Rightarrow> bool" where
  "keeps_declared s t \<longleftrightarrow>
     (declared (udb s) \<and> declared (ucommitted s) \<longrightarrow> declared (udb t) \<and> declared (ucommitted t))"

interpretation declared_effect: effect keeps_declared
  by unfold_locales (simp_all add: keeps_declared_def)

lemma within_declared_primitives:
  "within keeps_declared time_now" "within keeps_declared (draw f)" "within keeps_declared (redis_read c)"
  "within keeps_declared (redis_write w)" "within keeps_declared (redis_incr ops k)"
  by (rule within_time_now within_draw within_redis_read within_redis_write within_redis_incr; simp add: keeps_declared_def)+

lemma within_declared_session:
  "within keeps_declared (uselect g)" "within keeps_declared (scalar_one_or_none rows)"
  "within keeps_declared session_new_or_dirty" "within keeps_declared ucommit"
  by (simp_all add: within_def keeps_declared_def scalar_state)

lemmas declared_rules = declared_effect.within_rules within_declared_primitives within_declared_session

lemma declared_flush:
  assumes "\<And>d. declared d \<Longrightarrow> w \<Longrightarrow> k (g d) \<Longrightarrow> declared (f (g d) d)"
  shows "keeps_declared s (snd (add_and_flush w (k (g (udb s))) (f (g (udb s))) s))"
  using assms by (simp add: keeps_declared_def run_add_and_flush)

lemma within_declared_insert:
  assumes "\<And>d. declared d \<Longrightarrow> w \<Longrightarrow> k (g d) \<Longrightarrow> declared (f (g d) d)"
  shows "within keeps_declared (bindE (uselect g) (\<lambda>x. add_and_flush w (k x) (f x)))"
proof (rule withinI)
  show "keeps_declared s (snd (bindE (uselect g) (\<lambda>x. add_and_flush w (k x) (f x)) s))" for s
    using declared_flush [of w k g f s] assms by simp
qed

lemma within_declared_insert_then:
  assumes "\<And>d. declared d \<Longrightarrow> w \<Longrightarrow> k (g d) \<Longrightarrow> declared (f (g d) d)" and q: "\<And>x. within keeps_declared (q x)"
  shows "within keeps_declared (bindE (uselect g) (\<lambda>x. thenE (add_and_flush w (k x) (f x)) (q x)))"
proof (rule withinI)
  show "keeps_declared s (snd (bindE (uselect g) (\<lambda>x. thenE (add_and_flush w (k x) (f x)) (q x)) s))" for s
  proof (cases "add_and_flush w (k (g (udb s))) (f (g (udb s))) s")
    case (Pair r u)
    then have "keeps_declared s u" using declared_flush [of w k g f s] assms(1) by simp
    then show ?thesis using Pair withinD [OF q] declared_effect.trans by (cases r) fastforce+
  qed
qed

lemma declared_inserts:
  "declared d \<Longrightarrow> fits 64 (external_subject u) \<Longrightarrow> opt_fits 320 (au_email u) \<Longrightarrow>
     opt_fits 100 (display_name p) \<Longrightarrow> fits 16 (up_locale p) \<Longrightarrow> fits 64 (up_timezone p) \<Longrightarrow> opt_fits 512 (avatar_url p) \<Longrightarrow>
     declared (d\<lparr>app_users := app_users d @ [u], user_profiles := user_profiles d @ [p]\<rparr>)"
  "declared d \<Longrightarrow> fits 64 (ro_name r) \<Longrightarrow> opt_fits 255 (ro_description r) \<Longrightarrow> declared (d\<lparr>roles := roles d @ [r]\<rparr>)"
  "declared d \<Longrightarrow> fits 128 (pe_name q) \<Longrightarrow> opt_fits 255 (pe_description q) \<Longrightarrow>
     declared (d\<lparr>permissions := permissions d @ [q]\<rparr>)"
  "declared d \<Longrightarrow> rp_id x \<notin> rp_id ` set (role_permissions d) \<Longrightarrow>
     declared (d\<lparr>role_permissions := role_permissions d @ [x]\<rparr>)"
  "declared d \<Longrightarrow> ur_id y \<notin> ur_id ` set (user_roles d) \<Longrightarrow> declared (d\<lparr>user_roles := user_roles d @ [y]\<rparr>)"
  "declared d \<Longrightarrow> fits 128 (event_type e) \<Longrightarrow> fits 16 (outcome e) \<Longrightarrow> client_fits (ae_ip_address e) (ae_user_agent e) \<Longrightarrow>
     ae_id e \<notin> ae_id ` set (user_audit_events d) \<Longrightarrow> declared (d\<lparr>user_audit_events := user_audit_events d @ [e]\<rparr>)"
  "declared d \<Longrightarrow> opt_fits 100 name \<Longrightarrow> fits 16 loc \<Longrightarrow> fits 64 tz \<Longrightarrow> opt_fits 512 av \<Longrightarrow>
     declared (d\<lparr>user_profiles := update_where P (set_profile name loc tz av) (user_profiles d)\<rparr>)"
  by (simp_all add: declared_def ball_update_where) (auto simp: set_profile_def)

lemma within_declared_updates:
  assumes "\<And>d. declared d \<Longrightarrow> w \<Longrightarrow> k \<Longrightarrow> declared (f d)"
  shows "within keeps_declared (add_and_flush w k f)"
  using assms by (simp add: within_def keeps_declared_def run_add_and_flush)

lemma within_declared_inserts:
  "within keeps_declared (app_user_create X uid n)" "within keeps_declared (profile_update p name loc tz av)"
  "within keeps_declared (create_role X n desc)" "within keeps_declared (create_permission X n desc)"
  "within keeps_declared (ensure_role_permission X rid pid)" "within keeps_declared (assign_role_to_user X uid rid)"
  "within keeps_declared (user_audit_create X ev oc ac tg ip ua pl)"
  unfolding app_user_create_def profile_update_def create_role_def create_permission_def ensure_role_permission_def
    assign_role_to_user_def user_audit_create_def Let_def
  subgoal
    by (rule declared_effect.within_bindE, rule within_declared_primitives)+
      (rule within_declared_insert_then; (rule declared_effect.within_ret)?; auto intro!: declared_inserts simp: fits_def opt_fits_def)
  subgoal
    by (intro declared_effect.within_thenE within_declared_updates declared_effect.within_ret) (simp add: declared_inserts)
  subgoal
    by (rule declared_effect.within_bindE, rule within_declared_primitives)
      (rule within_declared_insert_then; (rule declared_effect.within_ret)?; simp add: declared_inserts)
  subgoal
    by (rule declared_effect.within_bindE, rule within_declared_primitives)
      (rule within_declared_insert_then; (rule declared_effect.within_ret)?; simp add: declared_inserts)
  subgoal
    by (rule declared_effect.within_bindE, rule within_declared_session)+
      (rule declared_effect.within_if, rule declared_effect.within_ret,
       rule declared_effect.within_bindE, rule within_declared_primitives, rule within_declared_insert, simp add: declared_inserts)
  subgoal
    by (rule declared_effect.within_bindE, rule within_declared_session)+
      (rule declared_effect.within_if, rule declared_effect.within_ret,
       rule declared_effect.within_bindE, rule within_declared_primitives, rule within_declared_insert, simp add: declared_inserts)
  subgoal
    by (rule declared_effect.within_bindE, rule within_declared_primitives)+
      (rule within_declared_insert, simp add: declared_inserts)
  done

lemma within_declared_services:
  "within keeps_declared (user_log_event X ev oc ac tg ip ua pl')" "within keeps_declared (ensure_default_user_role X uid)"
  "within keeps_declared (assign_role_by_name X uid n)" "within keeps_declared (get_user_by_id uid)"
  "within keeps_declared (update_own_profile X uid ac' name loc tz avatar ip ua)"
  "within keeps_declared (bootstrap_from_subject X sub ip ua)" "within keeps_declared (context_for_subject X sub ip ua)"
  "within keeps_declared (ensure_permission ps n)" "within keeps_declared (validated v)" "within keeps_declared (request_json X rq)"
  "within keeps_declared (extract_bearer_token rq)" "within keeps_declared (ensure_access_session_active X sid)"
  "within keeps_declared (rate_limit_dependency X cfg sc lim rq)" "within keeps_declared (decode_access_token X cfg tok)"
  "within keeps_declared (ensure_seed_data X)"
  unfolding user_log_event_def ensure_default_user_role_def assign_role_by_name_def get_user_by_id_def update_own_profile_def
    bootstrap_from_subject_def context_for_subject_def list_role_names_for_user_def ensure_permission_def validated_def
    request_json_def extract_bearer_token_def ensure_access_session_active_def rate_limit_dependency_def apply_rate_limit_def
    decode_access_token_def get_role_by_name_def app_user_get_by_id_def get_by_subject_def get_by_user_id_def
    list_roles_for_user_def list_permission_names_for_user_def ensure_seed_data_def get_or_create_role_def
    get_or_create_permission_def get_permission_by_name_def Let_def
  by (intro declared_rules within_declared_inserts)+

lemma within_declared_endpoints:
  "within keeps_declared (get_current_context X cfg rq)"
  "within keeps_declared (me_endpoint X cfg a rq)" "within keeps_declared (get_user_endpoint X cfg a rq)"
  "within keeps_declared (my_profile_endpoint X cfg a rq)" "within keeps_declared (update_profile_endpoint X cfg a rq)"
  "within keeps_declared (my_roles_endpoint X cfg a rq)" "within keeps_declared (assign_role_endpoint X cfg a rq)"
  "within keeps_declared (my_permissions_endpoint X cfg a rq)" "within keeps_declared (user_liveness_endpoint a rq)"
  unfolding me_endpoint_def get_user_endpoint_def my_profile_endpoint_def update_profile_endpoint_def my_roles_endpoint_def
    assign_role_endpoint_def my_permissions_endpoint_def user_liveness_endpoint_def get_current_context_def
  by (intro declared_rules within_declared_services)+

lemma within_declared_routes: "within keeps_declared (dispatch_param (user_routes X cfg) rq)"
proof (cases "find (\<lambda>(m, p, _). m = rq_method rq \<and> p (rq_path rq) \<noteq> None) (user_routes X cfg)")
  case None
  then show ?thesis by (simp add: dispatch_param_def declared_rules)
next
  case (Some x)
  have "(\<lambda>(m, p, h). \<forall>a. within keeps_declared (h a rq)) x"
    by (rule find_routes [OF Some]) (auto simp: user_routes_def within_declared_endpoints)
  then show ?thesis using Some by (cases x) (simp add: dispatch_param_def)
qed

lemma declared_session:
  assumes "within keeps_declared p" "declared (ucommitted s)" "with_usession p s = (r, t)"
  shows "declared (ucommitted t)"
  using withinD [OF assms(1), of "s\<lparr>udb := ucommitted s, unflushed := False\<rparr>"] assms(2,3)
  by (auto simp: with_usession_def keeps_declared_def split: prod.splits)

lemma declared_run:
  assumes "user_run X cfg s t" "declared (ucommitted s)"
  shows "declared (ucommitted t)"
  using assms
proof (induction rule: rtranclp_induct)
  case (step u t)
  from step.hyps(2) show ?case
  proof (cases rule: user_step.cases)
    case (request rq r)
    then obtain n rs where app: "user_app X cfg rq (u\<lparr>draws := n\<rparr>) = (rs, t)" by (rule serve_user_run)
    show ?thesis using declared_session [OF within_declared_routes _ app [unfolded user_app_def]] step by simp
  next
    case (restart r)
    have "within keeps_declared (thenE (ensure_seed_data X) ucommit)"
      by (intro declared_effect.within_thenE within_declared_services within_declared_session)
    from declared_session [OF this _ restart [unfolded user_startup_def]] step show ?thesis by blast
  qed (use step in simp)
qed simp

section \<open>Every reachable state conforms\<close>

fun created_tables :: "operation list \<Rightarrow> table list" where
  "created_tables (CreateTable t # ps) = t # created_tables ps"
| "created_tables (_ # ps) = created_tables ps"
| "created_tables [] = []"

fun created_indexes :: "operation list \<Rightarrow> index list" where
  "created_indexes (CreateIndex i # ps) = i # created_indexes ps"
| "created_indexes (_ # ps) = created_indexes ps"
| "created_indexes [] = []"

lemma user_schema_parts:
  "sc_tables user_schema = created_tables initial_user_schema_upgrade"
  "sc_indexes user_schema = created_indexes initial_user_schema_upgrade"
  by code_simp+

lemma project_simps [simp]: "project [] r = []" "project (c # cs) r = map_of r c # project cs r"
  by (simp_all add: project_def)

lemma opt_values:
  "has_type (SqlString n) (opt_text v) \<or> opt_text v = VNull \<longleftrightarrow> opt_fits n v"
  "has_type SqlUuid (opt_uuid w) \<or> opt_uuid w = VNull"
  by (simp_all add: opt_text_def opt_uuid_def opt_fits_def fits_def split: option.split)

lemma key_values:
  "distinct (map (\<lambda>x. [Some (VUuid (f x))]) xs) \<longleftrightarrow> distinct (map f xs)"
  "distinct (map (\<lambda>x. [Some (VText (g x))]) xs) \<longleftrightarrow> distinct (map g xs)"
  "distinct (map (\<lambda>x. [Some (VUuid (f x)), Some (VUuid (h x))]) xs) \<longleftrightarrow> distinct (map (\<lambda>x. (f x, h x)) xs)"
  "(\<lambda>x. [Some (VUuid (f x))]) ` A \<subseteq> (\<lambda>y. [Some (VUuid (k y))]) ` B \<longleftrightarrow> f ` A \<subseteq> k ` B"
  by (auto simp: distinct_map inj_on_def image_iff)

lemma user_database_tables:
  "user_database d ''app_users'' = map app_user_row (app_users d)"
  "user_database d ''user_profiles'' = map user_profile_row (user_profiles d)"
  "user_database d ''roles'' = map role_row (roles d)"
  "user_database d ''permissions'' = map permission_row (permissions d)"
  "user_database d ''user_roles'' = map user_role_row (user_roles d)"
  "user_database d ''role_permissions'' = map role_permission_row (role_permissions d)"
  "user_database d ''audit_events'' = map audit_event_row (user_audit_events d)"
  by (simp_all add: user_database_def)

lemma tables_conform:
  assumes "declared d"
  shows "\<forall>t \<in> set (created_tables initial_user_schema_upgrade). \<forall>r \<in> set (user_database d (ta_name t)). row_typed (ta_columns t) r"
  using assms
  by (simp add: initial_user_schema_upgrade_def user_database_tables row_typed_def col_def opt_values declared_def
      app_user_row_def user_profile_row_def role_row_def permission_row_def user_role_row_def role_permission_row_def audit_event_row_def
      client_fits_def fits_def)

lemma keys_conform:
  assumes "wf_udb d" "declared d"
  shows "\<forall>t \<in> set (created_tables initial_user_schema_upgrade). \<forall>k \<in> set (ta_constraints t).
      constraint_holds (user_database d) (ta_name t) k"
    "\<forall>i \<in> set (created_indexes initial_user_schema_upgrade). ix_unique i \<longrightarrow>
      distinct (map (project (ix_columns i)) (user_database d (ix_table i)))"
proof -
  have links: "ur_role_id ` set (user_roles d) \<subseteq> ro_id ` set (roles d)" "ur_user_id ` set (user_roles d) \<subseteq> au_id ` set (app_users d)"
    "rp_permission_id ` set (role_permissions d) \<subseteq> pe_id ` set (permissions d)"
    "rp_role_id ` set (role_permissions d) \<subseteq> ro_id ` set (roles d)"
    using assms(1) by (auto simp: wf_udb_def)
  note rows = app_user_row_def user_profile_row_def role_row_def permission_row_def user_role_row_def role_permission_row_def audit_event_row_def
  show "\<forall>t \<in> set (created_tables initial_user_schema_upgrade). \<forall>k \<in> set (ta_constraints t).
      constraint_holds (user_database d) (ta_name t) k"
    using assms links
    by (simp add: initial_user_schema_upgrade_def user_database_tables comp_def image_image rows key_values wf_udb_def declared_def)
  show "\<forall>i \<in> set (created_indexes initial_user_schema_upgrade). ix_unique i \<longrightarrow>
      distinct (map (project (ix_columns i)) (user_database d (ix_table i)))"
    using assms
    by (simp add: initial_user_schema_upgrade_def user_database_tables comp_def rows key_values wf_udb_def)
qed

lemma user_database_conforms: "wf_udb d \<Longrightarrow> declared d \<Longrightarrow> conforms user_schema (user_database d)"
  unfolding conforms_def table_conforms_def user_schema_parts using tables_conform keys_conform by blast

text \<open>
  C37: the user-service keeps its data within the schema of its migrations. In every state that an empty database reaches by
  starts, requests of any kind and the passing of time, the committed rows conform to the migrated schema: every
  value has the type of its column and fits its width, NULL stands only in nullable columns, the primary keys,
  unique constraints and unique indexes have no duplicates, and every foreign key refers to a row
  that exists.
\<close>

theorem user_rows_conform:
  assumes "ucommitted s = empty_user_db" "user_run X cfg s t"
  shows "conforms user_schema (user_database (ucommitted t))"
proof (rule user_database_conforms)
  show "wf_udb (ucommitted t)" using user_run_wf [OF assms(2)] assms(1) empty_user_db_wf by simp
  show "declared (ucommitted t)"
    by (rule declared_run [OF assms(2)]) (simp add: assms(1) declared_def empty_user_db_def)
qed

end
