(* ===== verification/Schema_Reference.thy ===== *)
theory Schema_Reference
  imports Schema_Conformance User_Reference
begin

text \<open>The conformance of the user-service's rows on the reference run of the service.\<close>

theorem user_rows_conform_witness:
  "\<exists>t. user_run ref_extern ref_edge_cfg ref_user_node t \<and>
     t = snd (serve_user ref_extern ref_edge_cfg ref_patch_request ref_started) \<and>
     conforms user_schema (user_database (ucommitted t))"
  using user_rows_conform [OF _ ref_served_run] ref_served_run by (simp add: ref_user_node_def)

end
