(* ===== verification/Env_Text.thy ===== *)
theory Env_Text
  imports Py_String
begin

text \<open>
  What the scripts that write the environment files of the services (\<^verbatim>\<open>infra/scripts\<close>) do with text: Python's line
  splitting and reading of files, the dotenv readers, the quoting of values, percent-encoding and base64. Files are the
  texts they decode to.
\<close>

section \<open>Lines\<close>

abbreviation LF :: char where "LF \<equiv> CHR 0x0A"
abbreviation CR :: char where "CR \<equiv> CHR 0x0D"
abbreviation QUOTE :: char where "QUOTE \<equiv> CHR 0x22"
abbreviation APOSTROPHE :: char where "APOSTROPHE \<equiv> CHR 0x27"
abbreviation BACKSLASH :: char where "BACKSLASH \<equiv> CHR 0x5C"

fun splitlines :: "string \<Rightarrow> string list" where
  "splitlines [] = []"
| "splitlines (c # cs) =
     (if c = CR \<and> cs \<noteq> [] \<and> hd cs = LF then [] # splitlines (tl cs)
      else if is_linebreak c then [] # splitlines cs
      else case splitlines cs of [] \<Rightarrow> [[c]] | l # ls \<Rightarrow> (c # l) # ls)"

text \<open>\<open>open(...).read()\<close> in text mode turns every line end into a line feed.\<close>

fun universal_newlines :: "string \<Rightarrow> string" where
  "universal_newlines [] = []"
| "universal_newlines (c # cs) =
     (if c = CR \<and> cs \<noteq> [] \<and> hd cs = LF then LF # universal_newlines (tl cs)
      else (if c = CR then LF else c) # universal_newlines cs)"

fun join_with :: "string \<Rightarrow> string list \<Rightarrow> string" where
  "join_with sep [] = []"
| "join_with sep [l] = l"
| "join_with sep (l # ls) = l @ sep @ join_with sep ls"

text \<open>\<open>s.partition('=')\<close> without the separator.\<close>

definition before_eq :: "string \<Rightarrow> string" where
  "before_eq s = takeWhile (\<lambda>c. c \<noteq> CHR ''='') s"

definition after_eq :: "string \<Rightarrow> string" where
  "after_eq s = tl (dropWhile (\<lambda>c. c \<noteq> CHR ''='') s)"

section \<open>The dotenv readers\<close>

text \<open>\<open>v.strip().strip('"').strip("'")\<close>\<close>

definition unquoted :: "string \<Rightarrow> string" where
  "unquoted v = strip_of (\<lambda>c. c = APOSTROPHE) (strip_of (\<lambda>c. c = QUOTE) (strip v))"

definition dotenv_entry :: "string \<Rightarrow> (string \<times> string) option" where
  "dotenv_entry raw =
     (let line = strip raw
      in if line = [] \<or> startswith line ''#'' \<or> CHR ''='' \<notin> set line then None
         else Some (strip (before_eq line), unquoted (after_eq line)))"

definition smtp_entry :: "string \<Rightarrow> (string \<times> string) option" where
  "smtp_entry raw =
     (let line = strip raw
      in if line = [] \<or> startswith line ''#'' \<or> \<not> startswith line ''SMTP_'' \<or> CHR ''='' \<notin> set line then None
         else if unquoted (after_eq line) = [] then None
         else Some (strip (before_eq line), unquoted (after_eq line)))"

text \<open>A later entry of the same key wins.\<close>

definition collect :: "(string \<Rightarrow> (string \<times> string) option) \<Rightarrow> string list \<Rightarrow> (string \<rightharpoonup> string)" where
  "collect entry ls = foldl (\<lambda>m l. case entry l of None \<Rightarrow> m | Some (k, v) \<Rightarrow> m(k \<mapsto> v)) Map.empty ls"

definition parse_dotenv :: "string \<Rightarrow> (string \<rightharpoonup> string)" where
  "parse_dotenv t = collect dotenv_entry (splitlines t)"

definition smtp_key_values_from_env_text :: "string \<Rightarrow> (string \<rightharpoonup> string)" where
  "smtp_key_values_from_env_text t = collect smtp_entry (splitlines t)"

section \<open>Values\<close>

definition escape_multiline :: "string \<Rightarrow> string" where
  "escape_multiline v = replace_sub [LF] [BACKSLASH, CHR ''n''] v"

definition quote_env_value :: "string \<Rightarrow> string" where
  "quote_env_value v =
     (if v = [] then []
      else if list_ex (\<lambda>c. c \<in> {CHR '' '', QUOTE, LF, BACKSLASH, CHR ''#''}) v
      then QUOTE # replace_sub [QUOTE] [BACKSLASH, QUOTE] (replace_sub [BACKSLASH] [BACKSLASH, BACKSLASH] v) @ [QUOTE]
      else v)"

text \<open>\<open>urllib.parse.quote_plus(s, safe="")\<close>: the bytes of the UTF-8 encoding that are not unreserved become \<open>%XX\<close>.\<close>

definition utf8 :: "char \<Rightarrow> nat list" where
  "utf8 c = (if ordc c < 128 then [ordc c] else [192 + ordc c div 64, 128 + ordc c mod 64])"

definition unreserved :: "char \<Rightarrow> bool" where
  "unreserved c \<longleftrightarrow> is_ascii_letter c \<or> is_digit c \<or> c \<in> set ''_.-~''"

definition quote_plus :: "string \<Rightarrow> string" where
  "quote_plus s = concat (map (\<lambda>c.
     if c = CHR '' '' then ''+''
     else if unreserved c then [c]
     else concat (map (\<lambda>b. CHR ''%'' # upper (to_hex 2 b)) (utf8 c))) s)"

text \<open>\<open>base64.urlsafe_b64encode\<close> of a list of bytes.\<close>

definition b64_char :: "nat \<Rightarrow> char" where
  "b64_char n =
     (if n < 26 then char_of (65 + n) else if n < 52 then char_of (71 + n) else if n < 62 then char_of (n - 4)
      else if n = 62 then CHR ''-'' else CHR ''_'')"

fun b64 :: "nat list \<Rightarrow> string" where
  "b64 [] = []"
| "b64 [a] = [b64_char (a div 4), b64_char (a mod 4 * 16), CHR ''='', CHR ''='']"
| "b64 [a, b] =
     [b64_char (a div 4), b64_char (a mod 4 * 16 + b div 16), b64_char (b mod 16 * 4), CHR ''='']"
| "b64 (a # b # c # bs) =
     [b64_char (a div 4), b64_char (a mod 4 * 16 + b div 16), b64_char (b mod 16 * 4 + c div 64), b64_char (c mod 64)] @ b64 bs"

definition gen_secret :: "nat list \<Rightarrow> string" where
  "gen_secret bytes = b64 bytes"

definition gen_password :: "nat list \<Rightarrow> string" where
  "gen_password bytes = rstrip_of (\<lambda>c. c = CHR ''='') (b64 bytes)"

section \<open>Lines come back\<close>

definition one_line :: "string \<Rightarrow> bool" where
  "one_line l \<longleftrightarrow> list_all (\<lambda>c. \<not> is_linebreak c) l"

lemma linebreaks [simp]: "is_linebreak LF" "is_linebreak CR"
  by (simp_all add: is_linebreak_def)

lemma splitlines_line: "one_line l \<Longrightarrow> l \<noteq> [] \<Longrightarrow> splitlines l = [l]"
proof (induction l)
  case (Cons c l)
  then show ?case by (cases l) (auto simp: one_line_def)
qed simp

lemma splitlines_step: "one_line l \<Longrightarrow> splitlines (l @ LF # s) = l # splitlines s"
proof (induction l)
  case (Cons c l)
  then have "c \<noteq> CR" by (auto simp: one_line_def)
  with Cons show ?case by (simp add: one_line_def)
qed simp

lemma splitlines_join:
  "list_all one_line ls \<Longrightarrow> splitlines (join_with [LF] (ls @ [[]])) = ls"
proof (induction ls)
  case (Cons l ls)
  then show ?case by (cases "ls @ [[]]") (auto simp: splitlines_step)
qed simp

lemma splitlines_join_newline:
  "list_all one_line ls \<Longrightarrow> ls \<noteq> [] \<Longrightarrow> splitlines (join_with [LF] ls @ [LF]) = ls"
proof (induction ls rule: induct_list012)
  case (2 l)
  then show ?case using splitlines_step [of l "[]"] by simp
next
  case (3 l m ls)
  then show ?case by (simp add: splitlines_step)
qed simp

end
