(* ===== verification/Env_Scripts.thy ===== *)
theory Env_Scripts
  imports Env_Text
begin

text \<open>
  The two scripts that write the \<^verbatim>\<open>.env\<close> files of the services: \<^verbatim>\<open>generate_dev_env.py\<close> makes fresh
  secrets for a development stack, \<^verbatim>\<open>render_prod_env_from_secrets.py\<close> renders the files of a deployed one from the
  compose file and the directory of secrets. Files are a map from paths (relative to the root of the repository) to texts; keys and random
  bytes are arguments.
\<close>

section \<open>Files\<close>

type_synonym files = "string \<rightharpoonup> string"

definition AUTH_ENV :: string where "AUTH_ENV = ''services/auth-service/.env''"
definition USER_ENV :: string where "USER_ENV = ''services/user-service/.env''"
definition GATEWAY_ENV :: string where "GATEWAY_ENV = ''services/api-gateway/.env''"
definition COMPOSE_ENV :: string where "COMPOSE_ENV = ''infra/compose/.env.compose''"

lemmas env_paths = AUTH_ENV_def USER_ENV_def GATEWAY_ENV_def COMPOSE_ENV_def

definition is_file :: "files \<Rightarrow> string \<Rightarrow> bool" where
  "is_file fs p \<longleftrightarrow> fs p \<noteq> None"

text \<open>The scripts read only files they have found to exist.\<close>

definition read_file :: "files \<Rightarrow> string \<Rightarrow> string" where
  "read_file fs p = (case fs p of None \<Rightarrow> [] | Some t \<Rightarrow> universal_newlines t)"

definition write_if_allowed :: "string \<Rightarrow> string \<Rightarrow> bool \<Rightarrow> files \<Rightarrow> files" where
  "write_if_allowed path content force fs =
     (case fs path of
        Some t \<Rightarrow> if t \<noteq> [] \<and> \<not> force then fs else fs(path \<mapsto> content)
      | None \<Rightarrow> fs(path \<mapsto> content))"

section \<open>generate_dev_env.py\<close>

record dev_secrets =
  private_pem :: string
  public_pem :: string
  fernet_key :: string
  refresh_pepper :: string
  auth_privacy_pepper :: string
  user_privacy_pepper :: string
  gateway_privacy_pepper :: string
  reset_pepper :: string
  auth_db_password :: string
  user_db_password :: string
  redis_password :: string

text \<open>The draws, in the order of the script: a pair of keys, a Fernet key, and eight runs of random bytes.\<close>

definition draw_secrets :: "string \<times> string \<Rightarrow> string \<Rightarrow> (nat \<Rightarrow> nat list) \<Rightarrow> dev_secrets" where
  "draw_secrets pem fernet bytes =
     \<lparr>private_pem = fst pem, public_pem = snd pem, fernet_key = fernet,
      refresh_pepper = gen_secret (bytes 0), auth_privacy_pepper = gen_secret (bytes 1),
      user_privacy_pepper = gen_secret (bytes 2), gateway_privacy_pepper = gen_secret (bytes 3),
      reset_pepper = gen_secret (bytes 4), auth_db_password = gen_password (bytes 5),
      user_db_password = gen_password (bytes 6), redis_password = gen_password (bytes 7)\<rparr>"

definition dev_auth_env_lines :: "dev_secrets \<Rightarrow> string list" where
  "dev_auth_env_lines d =
    [''SERVICE_NAME=auth-service'', ''SERVICE_ENV=development'', ''SERVICE_PORT=8001'',
     ''CORS_ALLOWED_ORIGINS=http://localhost:3000,http://localhost:8000'', ''TRUSTED_PROXY_IPS=172.16.0.0/12'',
     [],
     ''DATABASE_URL=postgresql+asyncpg://auth_service:'' @ auth_db_password d @ ''@postgres-auth:5432/auth_service'',
     ''REDIS_URL=redis://:'' @ redis_password d @ ''@redis:6379/0'', [], ''JWT_ALGORITHM=RS256'',
     ''JWT_ISSUER=backend-platform'', ''JWT_AUDIENCE=backend-clients'', ''JWT_ACCESS_TTL_SECONDS=900'',
     ''JWT_REFRESH_TTL_SECONDS=2592000'',
     ''JWT_PRIVATE_KEY='' @ [QUOTE] @ escape_multiline (private_pem d) @ [QUOTE],
     ''JWT_PUBLIC_KEY='' @ [QUOTE] @ escape_multiline (public_pem d) @ [QUOTE], [],
     ''REFRESH_TOKEN_HASH_PEPPER='' @ refresh_pepper d, ''PRIVACY_KEY_PEPPER='' @ auth_privacy_pepper d,
     ''PASSWORD_RESET_TOKEN_PEPPER='' @ reset_pepper d, [], ''TOTP_ISSUER=Backend Platform'',
     ''TOTP_ENCRYPTION_KEY='' @ fernet_key d, ''TOTP_CODE_DIGITS=6'', ''TOTP_INTERVAL_SECONDS=30'', [],
     ''LOGIN_CHALLENGE_TTL_SECONDS=300'', ''PASSWORD_RESET_TOKEN_TTL_SECONDS=900'', ''SMTP_HOST='',
     ''SMTP_PORT=587'', ''SMTP_USERNAME='', ''SMTP_PASSWORD='', ''SMTP_USE_TLS=true'', ''SMTP_FROM_EMAIL='',
     [], ''RATE_LIMIT_LOGIN_PER_MINUTE=10'', ''RATE_LIMIT_2FA_PER_MINUTE=10'',
     ''RATE_LIMIT_REFRESH_PER_MINUTE=30'', ''RATE_LIMIT_REGISTER_PER_MINUTE=5'',
     ''RATE_LIMIT_PASSWORD_RESET_PER_MINUTE=5'', [], ''BRUTE_FORCE_LOGIN_MAX_ATTEMPTS=5'',
     ''BRUTE_FORCE_LOGIN_WINDOW_SECONDS=300'', ''BRUTE_FORCE_LOGIN_LOCK_SECONDS=900'',
     ''BRUTE_FORCE_2FA_MAX_ATTEMPTS=5'', ''BRUTE_FORCE_2FA_WINDOW_SECONDS=300'',
     ''BRUTE_FORCE_2FA_LOCK_SECONDS=900'', ''BRUTE_FORCE_PASSWORD_RESET_MAX_ATTEMPTS=5'',
     ''BRUTE_FORCE_PASSWORD_RESET_WINDOW_SECONDS=300'', ''BRUTE_FORCE_PASSWORD_RESET_LOCK_SECONDS=900'', [],
     ''ARGON2_TIME_COST=3'', ''ARGON2_MEMORY_COST=65536'', ''ARGON2_PARALLELISM=4'', ''ARGON2_HASH_LENGTH=32'',
     ''ARGON2_SALT_LENGTH=16'', []]"

definition dev_user_env_lines :: "dev_secrets \<Rightarrow> string list" where
  "dev_user_env_lines d =
    [''SERVICE_NAME=user-service'', ''SERVICE_ENV=development'', ''SERVICE_PORT=8002'',
     ''CORS_ALLOWED_ORIGINS=http://localhost:3000,http://localhost:8000'', ''TRUSTED_PROXY_IPS=172.16.0.0/12'',
     [],
     ''DATABASE_URL=postgresql+asyncpg://user_service:'' @ user_db_password d @ ''@postgres-user:5432/user_service'',
     ''REDIS_URL=redis://:'' @ redis_password d @ ''@redis:6379/1'', [], ''JWT_ALGORITHM=RS256'',
     ''JWT_ISSUER=backend-platform'', ''JWT_AUDIENCE=backend-clients'',
     ''JWT_PUBLIC_KEY='' @ [QUOTE] @ escape_multiline (public_pem d) @ [QUOTE],
     ''PRIVACY_KEY_PEPPER='' @ user_privacy_pepper d, [], ''RATE_LIMIT_PROFILE_WRITE_PER_MINUTE=30'',
     ''RATE_LIMIT_ROLES_WRITE_PER_MINUTE=10'', []]"

definition dev_gateway_env_lines :: "dev_secrets \<Rightarrow> string list" where
  "dev_gateway_env_lines d =
    [''SERVICE_NAME=api-gateway'', ''SERVICE_ENV=development'', ''SERVICE_PORT=8000'',
     ''CORS_ALLOWED_ORIGINS=http://localhost:3000,http://localhost:8000'', [],
     ''REDIS_URL=redis://:'' @ redis_password d @ ''@redis:6379/2'',
     ''AUTH_SERVICE_URL=http://auth-service:8001'', ''USER_SERVICE_URL=http://user-service:8002'',
     ''NOTIFICATION_SERVICE_URL='', [], ''JWT_ALGORITHM=RS256'', ''JWT_ISSUER=backend-platform'',
     ''JWT_AUDIENCE=backend-clients'',
     ''JWT_PUBLIC_KEY='' @ [QUOTE] @ escape_multiline (public_pem d) @ [QUOTE],
     ''PRIVACY_KEY_PEPPER='' @ gateway_privacy_pepper d, [], ''UPSTREAM_TIMEOUT_SECONDS=10'',
     ''TRUSTED_PROXY_IPS='', ''RATE_LIMIT_PUBLIC_AUTH_PER_MINUTE=30'', ''RATE_LIMIT_PROTECTED_PER_MINUTE=120'',
     []]"

definition dev_compose_env_lines :: "dev_secrets \<Rightarrow> string list" where
  "dev_compose_env_lines d =
    [''COMPOSE_PROJECT_NAME=backend-platform'', ''AUTH_DB_PASSWORD='' @ auth_db_password d,
     ''USER_DB_PASSWORD='' @ user_db_password d, ''REDIS_PASSWORD='' @ redis_password d, ''GATEWAY_PORT=8080'',
     []]"

definition env_text :: "string list \<Rightarrow> string" where
  "env_text ls = join_with [LF] ls"

definition merge_smtp_line :: "(string \<rightharpoonup> string) \<Rightarrow> string \<Rightarrow> string" where
  "merge_smtp_line smtp line =
     (if CHR ''='' \<in> set line
      then case smtp (strip (before_eq line)) of
             Some v \<Rightarrow> strip (before_eq line) @ ''='' @ v
           | None \<Rightarrow> line
      else line)"

definition merge_smtp_into_auth_env :: "string \<Rightarrow> (string \<rightharpoonup> string) \<Rightarrow> string" where
  "merge_smtp_into_auth_env content smtp =
     (if smtp = Map.empty then content
      else join_with [LF] (map (merge_smtp_line smtp) (splitlines content)) @ [LF])"

definition dev_auth_env :: "bool \<Rightarrow> dev_secrets \<Rightarrow> files \<Rightarrow> string" where
  "dev_auth_env force d fs =
     (if force \<and> is_file fs AUTH_ENV
      then merge_smtp_into_auth_env (env_text (dev_auth_env_lines d))
             (smtp_key_values_from_env_text (read_file fs AUTH_ENV))
      else env_text (dev_auth_env_lines d))"

definition generate_dev_env :: "bool \<Rightarrow> dev_secrets \<Rightarrow> files \<Rightarrow> files" where
  "generate_dev_env force d fs =
     write_if_allowed COMPOSE_ENV (env_text (dev_compose_env_lines d)) force
    (write_if_allowed GATEWAY_ENV (env_text (dev_gateway_env_lines d)) force
    (write_if_allowed USER_ENV (env_text (dev_user_env_lines d)) force
    (write_if_allowed AUTH_ENV (dev_auth_env force d fs) force fs)))"

section \<open>render_prod_env_from_secrets.py\<close>

definition read_stripped :: "files \<Rightarrow> string \<Rightarrow> string" where
  "read_stripped fs p = strip (read_file fs p)"

definition read_optional_one_line :: "files \<Rightarrow> string \<Rightarrow> string" where
  "read_optional_one_line fs p =
     (if \<not> is_file fs p then []
      else case find (\<lambda>s. s \<noteq> [] \<and> \<not> startswith s ''#'') (map strip (splitlines (read_file fs p))) of
             None \<Rightarrow> [] | Some s \<Rightarrow> s)"

definition compose_get :: "(string \<rightharpoonup> string) \<Rightarrow> string \<Rightarrow> string" where
  "compose_get compose key = strip (case compose key of None \<Rightarrow> [] | Some v \<Rightarrow> v)"

definition py_or :: "string \<Rightarrow> string \<Rightarrow> string" where
  "py_or a b = (if a \<noteq> [] then a else b)"

record smtp_lines =
  sl_smtp_host :: string
  sl_smtp_port :: string
  sl_smtp_username :: string
  sl_smtp_password :: string
  sl_smtp_use_tls :: string
  sl_smtp_from_email :: string
  sl_smtp_from_name :: string
  sl_smtp_require_delivery :: string
  sl_auth_allow_missing_smtp :: string

definition resolve_smtp_password :: "(string \<rightharpoonup> string) \<Rightarrow> files \<Rightarrow> string" where
  "resolve_smtp_password compose fs =
     (let p1 = if is_file fs ''secrets/smtp_app_password.txt'' then read_stripped fs ''secrets/smtp_app_password.txt'' else [];
          p2 = if p1 = [] \<and> is_file fs ''secrets/smtp_password.txt'' then read_stripped fs ''secrets/smtp_password.txt'' else p1
      in if p2 = [] then compose_get compose ''SMTP_PASSWORD'' else p2)"

definition resolve_smtp_for_auth_env :: "(string \<rightharpoonup> string) \<Rightarrow> files \<Rightarrow> smtp_lines" where
  "resolve_smtp_for_auth_env compose fs =
     (let smtp_password = resolve_smtp_password compose fs;
          host0 = py_or (read_optional_one_line fs ''secrets/smtp_host.txt'') (compose_get compose ''SMTP_HOST'');
          username0 = py_or (read_optional_one_line fs ''secrets/smtp_username.txt'') (compose_get compose ''SMTP_USERNAME'');
          from0 = py_or (py_or (read_optional_one_line fs ''secrets/smtp_from_email.txt'')
                    (compose_get compose ''SMTP_FROM_EMAIL'')) username0;
          from_name = py_or (py_or (read_optional_one_line fs ''secrets/smtp_from_name.txt'')
                    (compose_get compose ''SMTP_FROM_NAME'')) ''Backend Platform'';
          identity = read_optional_one_line fs ''secrets/smtp_identity_email.txt'';
          username = if username0 = [] \<and> identity \<noteq> [] then identity else username0;
          from_email = if from0 = [] \<and> identity \<noteq> [] then identity else from0;
          host = if smtp_password \<noteq> [] \<and> host0 = [] then ''smtp.gmail.com'' else host0;
          port = py_or (compose_get compose ''SMTP_PORT'') ''587'';
          use_tls = if lower (compose_get compose ''SMTP_USE_TLS'') \<in> {''false'', ''0'', ''no''} then ''false'' else ''true'';
          require = py_or (compose_get compose ''SMTP_REQUIRE_DELIVERY'') ''true'';
          allow_raw = lower (compose_get compose ''AUTH_ALLOW_MISSING_SMTP'');
          allow = if allow_raw \<in> {''true'', ''1'', ''yes''} then ''true''
                  else if allow_raw \<in> {''false'', ''0'', ''no''} then ''false''
                  else if host \<noteq> [] \<and> (from_email \<noteq> [] \<or> username \<noteq> []) \<and> smtp_password \<noteq> [] then ''false'' else ''true''
      in \<lparr>sl_smtp_host = quote_env_value host, sl_smtp_port = port, sl_smtp_username = quote_env_value username,
          sl_smtp_password = quote_env_value smtp_password, sl_smtp_use_tls = use_tls,
          sl_smtp_from_email = quote_env_value from_email, sl_smtp_from_name = quote_env_value from_name,
          sl_smtp_require_delivery = require, sl_auth_allow_missing_smtp = allow\<rparr>)"

record prod_values =
  rv_cors :: string
  rv_auth_db :: string
  rv_user_db :: string
  rv_redis_pw :: string
  rv_priv_pem :: string
  rv_pub_pem :: string
  rv_refresh_pepper :: string
  rv_privacy_pepper :: string
  rv_reset_pepper :: string
  rv_totp_key :: string
  rv_smtp :: smtp_lines
  rv_login_max :: string
  rv_reset_max :: string
  rv_support_email :: string
  rv_refresh_secure :: string

definition prod_auth_env_lines :: "prod_values \<Rightarrow> string list" where
  "prod_auth_env_lines r =
    [''SERVICE_NAME=auth-service'', ''SERVICE_ENV=production'', ''SERVICE_PORT=8001'',
     ''CORS_ALLOWED_ORIGINS='' @ rv_cors r, ''TRUSTED_PROXY_IPS=172.16.0.0/12'', [],
     ''DATABASE_URL=postgresql+asyncpg://auth_service:'' @ quote_plus (rv_auth_db r) @ ''@postgres-auth:5432/auth_service'',
     ''REDIS_URL=redis://:'' @ quote_plus (rv_redis_pw r) @ ''@redis:6379/0'', [], ''JWT_ALGORITHM=RS256'',
     ''JWT_ISSUER=backend-platform'', ''JWT_AUDIENCE=backend-clients'', ''JWT_ACCESS_TTL_SECONDS=900'',
     ''JWT_REFRESH_TTL_SECONDS=2592000'',
     ''JWT_PRIVATE_KEY='' @ [QUOTE] @ escape_multiline (rv_priv_pem r) @ [QUOTE],
     ''JWT_PUBLIC_KEY='' @ [QUOTE] @ escape_multiline (rv_pub_pem r) @ [QUOTE], [],
     ''REFRESH_TOKEN_HASH_PEPPER='' @ rv_refresh_pepper r, ''PRIVACY_KEY_PEPPER='' @ rv_privacy_pepper r,
     ''PASSWORD_RESET_TOKEN_PEPPER='' @ rv_reset_pepper r, [], ''TOTP_ISSUER=Backend Platform'',
     ''TOTP_ENCRYPTION_KEY='' @ rv_totp_key r, ''TOTP_CODE_DIGITS=6'', ''TOTP_INTERVAL_SECONDS=30'', [],
     ''LOGIN_CHALLENGE_TTL_SECONDS=300'', ''PASSWORD_RESET_TOKEN_TTL_SECONDS=900'',
     ''SMTP_HOST='' @ sl_smtp_host (rv_smtp r), ''SMTP_PORT='' @ sl_smtp_port (rv_smtp r),
     ''SMTP_USERNAME='' @ sl_smtp_username (rv_smtp r), ''SMTP_PASSWORD='' @ sl_smtp_password (rv_smtp r),
     ''SMTP_USE_TLS='' @ sl_smtp_use_tls (rv_smtp r), ''SMTP_FROM_EMAIL='' @ sl_smtp_from_email (rv_smtp r),
     ''SMTP_FROM_NAME='' @ sl_smtp_from_name (rv_smtp r),
     ''SMTP_REQUIRE_DELIVERY='' @ sl_smtp_require_delivery (rv_smtp r),
     ''AUTH_ALLOW_MISSING_SMTP='' @ sl_auth_allow_missing_smtp (rv_smtp r), ''SUPPORT_EMAIL='' @ rv_support_email r, [],
     ''RATE_LIMIT_LOGIN_PER_MINUTE=10'', ''RATE_LIMIT_2FA_PER_MINUTE=10'',
     ''RATE_LIMIT_REFRESH_PER_MINUTE=30'', ''RATE_LIMIT_REGISTER_PER_MINUTE=5'',
     ''RATE_LIMIT_PASSWORD_RESET_PER_MINUTE=5'', [], ''BRUTE_FORCE_LOGIN_MAX_ATTEMPTS='' @ rv_login_max r,
     ''BRUTE_FORCE_LOGIN_WINDOW_SECONDS=300'', ''BRUTE_FORCE_LOGIN_LOCK_SECONDS=900'',
     ''BRUTE_FORCE_2FA_MAX_ATTEMPTS=5'', ''BRUTE_FORCE_2FA_WINDOW_SECONDS=300'',
     ''BRUTE_FORCE_2FA_LOCK_SECONDS=900'', ''BRUTE_FORCE_PASSWORD_RESET_MAX_ATTEMPTS='' @ rv_reset_max r,
     ''BRUTE_FORCE_PASSWORD_RESET_WINDOW_SECONDS=300'', ''BRUTE_FORCE_PASSWORD_RESET_LOCK_SECONDS=900'', [],
     ''ARGON2_TIME_COST=3'', ''ARGON2_MEMORY_COST=65536'', ''ARGON2_PARALLELISM=4'', ''ARGON2_HASH_LENGTH=32'',
     ''ARGON2_SALT_LENGTH=16'', []]"

definition prod_user_env_lines :: "prod_values \<Rightarrow> string list" where
  "prod_user_env_lines r =
    [''SERVICE_NAME=user-service'', ''SERVICE_ENV=production'', ''SERVICE_PORT=8002'',
     ''CORS_ALLOWED_ORIGINS='' @ rv_cors r, ''TRUSTED_PROXY_IPS=172.16.0.0/12'', [],
     ''DATABASE_URL=postgresql+asyncpg://user_service:'' @ quote_plus (rv_user_db r) @ ''@postgres-user:5432/user_service'',
     ''REDIS_URL=redis://:'' @ quote_plus (rv_redis_pw r) @ ''@redis:6379/1'', [], ''JWT_ALGORITHM=RS256'',
     ''JWT_ISSUER=backend-platform'', ''JWT_AUDIENCE=backend-clients'',
     ''JWT_PUBLIC_KEY='' @ [QUOTE] @ escape_multiline (rv_pub_pem r) @ [QUOTE],
     ''PRIVACY_KEY_PEPPER='' @ rv_privacy_pepper r, [], ''RATE_LIMIT_PROFILE_WRITE_PER_MINUTE=30'',
     ''RATE_LIMIT_ROLES_WRITE_PER_MINUTE=10'', []]"

definition prod_gateway_env_lines :: "prod_values \<Rightarrow> string list" where
  "prod_gateway_env_lines r =
    [''SERVICE_NAME=api-gateway'', ''SERVICE_ENV=production'', ''SERVICE_PORT=8000'',
     ''CORS_ALLOWED_ORIGINS='' @ rv_cors r, [],
     ''REDIS_URL=redis://:'' @ quote_plus (rv_redis_pw r) @ ''@redis:6379/2'',
     ''AUTH_SERVICE_URL=http://auth-service:8001'', ''USER_SERVICE_URL=http://user-service:8002'',
     ''NOTIFICATION_SERVICE_URL='', [], ''JWT_ALGORITHM=RS256'', ''JWT_ISSUER=backend-platform'',
     ''JWT_AUDIENCE=backend-clients'',
     ''JWT_PUBLIC_KEY='' @ [QUOTE] @ escape_multiline (rv_pub_pem r) @ [QUOTE],
     ''PRIVACY_KEY_PEPPER='' @ rv_privacy_pepper r, [], ''UPSTREAM_TIMEOUT_SECONDS=10'',
     ''TRUSTED_PROXY_IPS=172.16.0.0/12'', ''RATE_LIMIT_PUBLIC_AUTH_PER_MINUTE=30'',
     ''RATE_LIMIT_PROTECTED_PER_MINUTE=120'', []]"

definition prod_gateway_env_all :: "prod_values \<Rightarrow> string list" where
  "prod_gateway_env_all r = prod_gateway_env_lines r @
     (if rv_refresh_secure r \<noteq> [] then [''REFRESH_COOKIE_SECURE='' @ rv_refresh_secure r, []] else [])"

definition SECRET_FILES :: "string list" where
  "SECRET_FILES = [''jwt_private.pem'', ''jwt_public.pem'', ''refresh_token_pepper.txt'', ''privacy_key_pepper.txt'',
     ''password_reset_pepper.txt'', ''totp_fernet.key'']"

definition join_origins :: "string \<Rightarrow> string" where
  "join_origins s = join_with '','' (filter (\<lambda>p. p \<noteq> []) (map strip (split_on (CHR '','') s)))"

definition prod_values_of :: "string \<Rightarrow> (string \<rightharpoonup> string) \<Rightarrow> string \<Rightarrow> string \<Rightarrow> string \<Rightarrow> files \<Rightarrow> prod_values" where
  "prod_values_of cors_origins compose auth_db user_db redis_pw fs =
     \<lparr>rv_cors = join_origins cors_origins, rv_auth_db = auth_db, rv_user_db = user_db, rv_redis_pw = redis_pw,
      rv_priv_pem = read_stripped fs ''secrets/jwt_private.pem'', rv_pub_pem = read_stripped fs ''secrets/jwt_public.pem'',
      rv_refresh_pepper = read_stripped fs ''secrets/refresh_token_pepper.txt'',
      rv_privacy_pepper = read_stripped fs ''secrets/privacy_key_pepper.txt'',
      rv_reset_pepper = read_stripped fs ''secrets/password_reset_pepper.txt'',
      rv_totp_key = read_stripped fs ''secrets/totp_fernet.key'',
      rv_smtp = resolve_smtp_for_auth_env compose fs,
      rv_login_max = py_or (py_or (compose_get compose ''LOGIN_MAX_FAILED_ATTEMPTS'')
        (compose_get compose ''BRUTE_FORCE_LOGIN_MAX_ATTEMPTS'')) ''3'',
      rv_reset_max = py_or (py_or (compose_get compose ''RESET_CODE_MAX_FAILED_ATTEMPTS'')
        (compose_get compose ''BRUTE_FORCE_PASSWORD_RESET_MAX_ATTEMPTS'')) ''3'',
      rv_support_email = (let e = compose_get compose ''SUPPORT_EMAIL'' in if e \<noteq> [] then quote_env_value e else []),
      rv_refresh_secure = compose_get compose ''REFRESH_COOKIE_SECURE''\<rparr>"

text \<open>The message of \<open>SystemExit\<close>, or the files afterwards.\<close>

definition render_prod_env :: "string option \<Rightarrow> string \<Rightarrow> files \<Rightarrow> string + files" where
  "render_prod_env compose_env cors_origins fs =
     (let compose_path = (case compose_env of None \<Rightarrow> COMPOSE_ENV | Some p \<Rightarrow> p)
      in if \<not> is_file fs compose_path then Inl (''Missing '' @ compose_path)
         else case find (\<lambda>n. \<not> is_file fs (''secrets/'' @ n)) SECRET_FILES of
           Some n \<Rightarrow> Inl (''Missing secret file: secrets/'' @ n)
         | None \<Rightarrow>
             let compose = parse_dotenv (read_file fs compose_path)
             in case find (\<lambda>k. compose k = None) [''AUTH_DB_PASSWORD'', ''USER_DB_PASSWORD'', ''REDIS_PASSWORD''] of
               Some k \<Rightarrow> Inl (''.env.compose missing key: '' @ [APOSTROPHE] @ k @ [APOSTROPHE])
             | None \<Rightarrow>
                 let r = prod_values_of cors_origins compose (the (compose ''AUTH_DB_PASSWORD''))
                           (the (compose ''USER_DB_PASSWORD'')) (the (compose ''REDIS_PASSWORD'')) fs
                 in Inr (fs(AUTH_ENV \<mapsto> env_text (prod_auth_env_lines r), USER_ENV \<mapsto> env_text (prod_user_env_lines r),
                            GATEWAY_ENV \<mapsto> env_text (prod_gateway_env_all r))))"

end
