(* ===== verification/Env_Properties.thy ===== *)
theory Env_Properties
  imports Env_Scripts
begin

text \<open>
  The environment files the scripts write, read back: a text of lines \<open>KEY=value\<close> means the map from its
  keys to its values. Then the lines of the generated and of the rendered files, and what merging the SMTP settings of an
  old file does to the lines.
\<close>

section \<open>Texts of settings\<close>

definition key_char :: "char \<Rightarrow> bool" where
  "key_char c \<longleftrightarrow> (65 \<le> ordc c \<and> ordc c \<le> 90) \<or> is_digit c \<or> c = CHR ''_''"

definition env_key :: "string \<Rightarrow> bool" where
  "env_key k \<longleftrightarrow> k \<noteq> [] \<and> list_all key_char k"

definition env_line :: "string \<Rightarrow> bool" where
  "env_line l \<longleftrightarrow> l = [] \<or> CHR ''='' \<in> set l \<and> env_key (before_eq l)"

definition pairs :: "string list \<Rightarrow> (string \<times> string) list" where
  "pairs ls = map (\<lambda>l. (before_eq l, after_eq l)) (filter (\<lambda>l. l \<noteq> []) ls)"

lemma key_char_facts: "key_char c \<Longrightarrow> \<not> py_isspace c \<and> c \<noteq> CHR ''='' \<and> c \<noteq> CHR ''#''"
  by (auto simp: key_char_def py_isspace_def is_digit_def)

lemma before_after: "CHR ''='' \<in> set l \<Longrightarrow> l = before_eq l @ CHR ''='' # after_eq l"
  unfolding before_eq_def after_eq_def by (induction l) auto

lemma before_eq_key: "env_key k \<Longrightarrow> before_eq (k @ CHR ''='' # v) = k \<and> after_eq (k @ CHR ''='' # v) = v"
proof -
  assume "env_key k"
  then have "c \<noteq> CHR ''=''" if "c \<in> set k" for c
    using that key_char_facts by (auto simp: env_key_def list_all_iff)
  then show ?thesis by (simp add: before_eq_def after_eq_def takeWhile_append2 dropWhile_append2)
qed

lemma strip_key: "env_key k \<Longrightarrow> strip k = k"
  unfolding strip_def by (rule strip_of_id) (use key_char_facts in \<open>auto simp: env_key_def list_all_iff\<close>)

lemma rstrip_after:
  assumes "\<not> P c"
  shows "rstrip_of P (k @ c # v) = k @ c # rstrip_of P v"
  using assms by (simp add: rstrip_of_def dropWhile_append)

lemma strip_line:
  assumes "env_key k"
  shows "strip (k @ CHR ''='' # v) = k @ CHR ''='' # rstrip_of py_isspace v"
proof -
  obtain c cs where k: "k = c # cs" using assms by (cases k) (auto simp: env_key_def)
  then have "\<not> py_isspace c" using assms key_char_facts by (auto simp: env_key_def)
  moreover have "\<not> py_isspace (CHR ''='')" by (simp add: py_isspace_def)
  ultimately show ?thesis by (simp add: strip_def strip_of_def lstrip_of_def k rstrip_after [where k = "c # cs", simplified])
qed

lemma strip_rstrip: "strip (rstrip_of py_isspace v) = strip v"
proof -
  have "rstrip_of P (lstrip_of P (rstrip_of P v)) = rstrip_of P (lstrip_of P v)" for P :: "char \<Rightarrow> bool"
  proof (cases "\<forall>c \<in> set v. P c")
    case True
    then have e: "dropWhile P v = []" "dropWhile P (rev v) = []" by simp_all
    show ?thesis by (simp only: rstrip_of_def lstrip_of_def e rev.simps dropWhile.simps)
  next
    case False
    then have "lstrip_of P (rstrip_of P v) = rstrip_of P (lstrip_of P v)"
    proof (induction v)
      case (Cons c v)
      show ?case
      proof (cases "P c")
        case True
        with Cons have "\<exists>x \<in> set v. \<not> P x" by auto
        then have "rstrip_of P (c # v) = c # rstrip_of P v"
          by (auto simp: rstrip_of_def dropWhile_append1)
        then show ?thesis using Cons True by (auto simp: lstrip_of_def)
      next
        case False
        then show ?thesis using rstrip_after [of P c "[]" v] by (simp add: lstrip_of_def)
      qed
    qed simp
    then show ?thesis by (simp add: rstrip_of_idem)
  qed
  then show ?thesis by (simp add: strip_def strip_of_def)
qed

lemma unquoted_rstrip: "unquoted (rstrip_of py_isspace v) = unquoted v"
  by (simp add: unquoted_def strip_rstrip)

lemma entry_of_line:
  assumes "env_key k"
  shows "dotenv_entry (k @ CHR ''='' # v) = Some (k, unquoted v)"
    "smtp_entry (k @ CHR ''='' # v) =
      (if startswith k ''SMTP_'' \<and> unquoted v \<noteq> [] then Some (k, unquoted v) else None)"
proof -
  note b = before_eq_key [OF assms]
  obtain c cs where k: "k = c # cs" using assms by (cases k) (auto simp: env_key_def)
  then have hash: "\<not> startswith (k @ w) ''#''" for w
    using assms key_char_facts by (auto simp: env_key_def startswith_def)
  have start: "startswith s ''SMTP_'' \<longleftrightarrow> take 5 s = ''SMTP_''" for s by (simp add: startswith_def numeral_eq_Suc)
  have smtp: "startswith (k @ CHR ''='' # w) ''SMTP_'' \<longleftrightarrow> startswith k ''SMTP_''" for w
  proof (cases "length k < 5")
    case True
    then have "CHR ''='' \<in> set (take 5 (k @ CHR ''='' # w))"
      by (cases "5 - length k") auto
    then have "take 5 (k @ CHR ''='' # w) \<noteq> ''SMTP_''" by (rule contrapos_pn) (erule ssubst, simp)
    moreover have "take 5 k \<noteq> ''SMTP_''" using True by (auto dest: arg_cong [where f = length])
    ultimately show ?thesis by (simp only: start)
  qed (simp add: start)
  show "dotenv_entry (k @ CHR ''='' # v) = Some (k, unquoted v)"
    using hash by (simp add: dotenv_entry_def Let_def strip_line [OF assms] b strip_key [OF assms] unquoted_rstrip)
  show "smtp_entry (k @ CHR ''='' # v) =
      (if startswith k ''SMTP_'' \<and> unquoted v \<noteq> [] then Some (k, unquoted v) else None)"
    using hash by (simp add: smtp_entry_def Let_def strip_line [OF assms] b strip_key [OF assms] unquoted_rstrip smtp)
qed

lemma collect_snoc:
  "collect e (ls @ [l]) = (case e l of None \<Rightarrow> collect e ls | Some (k, v) \<Rightarrow> (collect e ls)(k \<mapsto> v))"
  unfolding collect_def by simp

lemma map_of_overridden:
  "map_of (map (\<lambda>(k, v). (k, case m k of Some w \<Rightarrow> w | None \<Rightarrow> v)) ps) k =
   map_option (\<lambda>v. case m k of Some w \<Rightarrow> w | None \<Rightarrow> v) (map_of ps k)"
  by (induction ps) (auto split: option.split)

lemma collect_pairs:
  assumes "list_all env_line ls" "distinct (map fst (pairs ls))"
    and "\<And>k v. env_key k \<Longrightarrow> e (k @ CHR ''='' # v) = (if Q k v then Some (k, g v) else None)" "e [] = None"
  shows "collect e ls k = (case map_of (pairs ls) k of None \<Rightarrow> None | Some v \<Rightarrow> if Q k v then Some (g v) else None)"
  using assms(1,2)
proof (induction ls rule: rev_induct)
  case Nil
  then show ?case by (simp add: collect_def pairs_def)
next
  case (snoc l ls)
  let ?m = "collect e ls"
  note step = collect_snoc [of e ls l]
  show ?case
  proof (cases "l = []")
    case True
    then show ?thesis using snoc assms(4) by (simp add: step [unfolded True] pairs_def)
  next
    case False
    let ?k = "before_eq l" and ?v = "after_eq l"
    have l: "env_key ?k" "l = ?k @ CHR ''='' # ?v" using snoc.prems(1) False before_after by (auto simp: env_line_def)
    have e: "e l = (if Q ?k ?v then Some (?k, g ?v) else None)" using assms(3) [OF l(1), of ?v] l(2) by simp
    have p: "pairs (ls @ [l]) = pairs ls @ [(?k, ?v)]" using False by (simp add: pairs_def)
    have new: "?k \<notin> fst ` set (pairs ls)" and d: "distinct (map fst (pairs ls))" using snoc.prems(2) by (auto simp: p)
    then have "map_of (pairs ls) ?k = None" by (simp add: map_of_eq_None_iff)
    then show ?thesis using snoc.IH snoc.prems(1) d by (auto simp: step e p map_add_def split: option.split)
  qed
qed

lemma empty_entries: "dotenv_entry [] = None" "smtp_entry [] = None"
  by (simp_all add: dotenv_entry_def smtp_entry_def strip_def strip_of_def lstrip_of_def rstrip_of_def)

lemma read_back:
  assumes "list_all env_line ls" "distinct (map fst (pairs ls))" "splitlines t = ls"
  shows "parse_dotenv t k = map_option unquoted (map_of (pairs ls) k)"
    "smtp_key_values_from_env_text t k = (case map_of (pairs ls) k of None \<Rightarrow> None
      | Some v \<Rightarrow> if startswith k ''SMTP_'' \<and> unquoted v \<noteq> [] then Some (unquoted v) else None)"
proof -
  have "collect dotenv_entry ls k = (case map_of (pairs ls) k of None \<Rightarrow> None | Some v \<Rightarrow> if True then Some (unquoted v) else None)"
    by (rule collect_pairs [OF assms(1,2), where Q = "\<lambda>_ _. True"]) (simp_all add: entry_of_line empty_entries)
  then show "parse_dotenv t k = map_option unquoted (map_of (pairs ls) k)"
    by (simp add: parse_dotenv_def assms(3) split: option.split)
  show "smtp_key_values_from_env_text t k = (case map_of (pairs ls) k of None \<Rightarrow> None
      | Some v \<Rightarrow> if startswith k ''SMTP_'' \<and> unquoted v \<noteq> [] then Some (unquoted v) else None)"
    unfolding smtp_key_values_from_env_text_def assms(3)
    by (rule collect_pairs [OF assms(1,2), where Q = "\<lambda>k v. startswith k ''SMTP_'' \<and> unquoted v \<noteq> []"])
      (simp_all add: entry_of_line empty_entries)
qed

section \<open>Regenerating the files\<close>

lemma splitlines_one_line: "l \<in> set (splitlines s) \<Longrightarrow> one_line l"
proof (induction s arbitrary: l rule: splitlines.induct)
  case (2 c cs)
  show ?case
  proof (cases "c = CR \<and> cs \<noteq> [] \<and> hd cs = LF")
    case True
    then show ?thesis using 2 by (auto simp: one_line_def)
  next
    case False
    then show ?thesis using 2 by (auto simp: one_line_def split: if_splits list.splits)
  qed
qed simp

lemma merged_pairs:
  assumes "list_all env_line ls"
  shows "pairs (map (merge_smtp_line smtp) ls) = map (\<lambda>(k, v). (k, case smtp k of Some w \<Rightarrow> w | None \<Rightarrow> v)) (pairs ls) \<and>
    list_all env_line (map (merge_smtp_line smtp) ls)"
  using assms
proof (induction ls)
  case (Cons l ls)
  show ?case
  proof (cases "l = []")
    case True
    then show ?thesis using Cons by (simp add: pairs_def merge_smtp_line_def)
  next
    case False
    let ?k = "before_eq l" and ?v = "after_eq l"
    have l: "env_key ?k" "l = ?k @ CHR ''='' # ?v" "CHR ''='' \<in> set l"
      using Cons.prems False before_after by (auto simp: env_line_def)
    have m: "merge_smtp_line smtp l = ?k @ CHR ''='' # (case smtp ?k of Some w \<Rightarrow> w | None \<Rightarrow> ?v)"
      using l by (simp add: merge_smtp_line_def strip_key split: option.split)
    then have "env_line (merge_smtp_line smtp l)" "merge_smtp_line smtp l \<noteq> []"
      using l(1) by (simp_all add: env_line_def before_eq_key)
    then show ?thesis using Cons False l(1) m by (simp add: pairs_def before_eq_key)
  qed
qed (simp add: pairs_def)

lemma one_line_simps [simp]: "one_line []" "one_line (c # l) \<longleftrightarrow> \<not> is_linebreak c \<and> one_line l" "one_line (l @ m) \<longleftrightarrow> one_line l \<and> one_line m"
  by (auto simp: one_line_def)

lemma env_line_simp: "env_key k \<Longrightarrow> env_line (k @ CHR ''='' # v)"
  by (simp add: env_line_def before_eq_key)

lemma dev_auth_env_lines:
  "list_all env_line (butlast (dev_auth_env_lines d))"
  by (simp add: dev_auth_env_lines_def env_line_def env_key_def before_eq_def key_char_def is_digit_def)

lemma dev_auth_keys:
  "map fst (pairs (butlast (dev_auth_env_lines d))) =
     [''SERVICE_NAME'', ''SERVICE_ENV'', ''SERVICE_PORT'', ''CORS_ALLOWED_ORIGINS'', ''TRUSTED_PROXY_IPS'',
      ''DATABASE_URL'', ''REDIS_URL'', ''JWT_ALGORITHM'', ''JWT_ISSUER'', ''JWT_AUDIENCE'',
      ''JWT_ACCESS_TTL_SECONDS'', ''JWT_REFRESH_TTL_SECONDS'', ''JWT_PRIVATE_KEY'', ''JWT_PUBLIC_KEY'',
      ''REFRESH_TOKEN_HASH_PEPPER'', ''PRIVACY_KEY_PEPPER'', ''PASSWORD_RESET_TOKEN_PEPPER'', ''TOTP_ISSUER'',
      ''TOTP_ENCRYPTION_KEY'', ''TOTP_CODE_DIGITS'', ''TOTP_INTERVAL_SECONDS'',
      ''LOGIN_CHALLENGE_TTL_SECONDS'', ''PASSWORD_RESET_TOKEN_TTL_SECONDS'', ''SMTP_HOST'', ''SMTP_PORT'',
      ''SMTP_USERNAME'', ''SMTP_PASSWORD'', ''SMTP_USE_TLS'', ''SMTP_FROM_EMAIL'',
      ''RATE_LIMIT_LOGIN_PER_MINUTE'', ''RATE_LIMIT_2FA_PER_MINUTE'', ''RATE_LIMIT_REFRESH_PER_MINUTE'',
      ''RATE_LIMIT_REGISTER_PER_MINUTE'', ''RATE_LIMIT_PASSWORD_RESET_PER_MINUTE'',
      ''BRUTE_FORCE_LOGIN_MAX_ATTEMPTS'', ''BRUTE_FORCE_LOGIN_WINDOW_SECONDS'',
      ''BRUTE_FORCE_LOGIN_LOCK_SECONDS'', ''BRUTE_FORCE_2FA_MAX_ATTEMPTS'', ''BRUTE_FORCE_2FA_WINDOW_SECONDS'',
      ''BRUTE_FORCE_2FA_LOCK_SECONDS'', ''BRUTE_FORCE_PASSWORD_RESET_MAX_ATTEMPTS'',
      ''BRUTE_FORCE_PASSWORD_RESET_WINDOW_SECONDS'', ''BRUTE_FORCE_PASSWORD_RESET_LOCK_SECONDS'',
      ''ARGON2_TIME_COST'', ''ARGON2_MEMORY_COST'', ''ARGON2_PARALLELISM'', ''ARGON2_HASH_LENGTH'',
      ''ARGON2_SALT_LENGTH'']"
  by (simp add: dev_auth_env_lines_def pairs_def before_eq_def)

lemma dev_auth_pairs: "distinct (map fst (pairs (butlast (dev_auth_env_lines d))))"
  unfolding dev_auth_keys by code_simp

lemma map_of_key: "map_of ps k \<noteq> None \<longleftrightarrow> k \<in> set (map fst ps)"
  by (auto simp: map_of_eq_None_iff)

lemma env_text_lines:
  assumes "list_all one_line (butlast ls)" "ls \<noteq> []" "last ls = []"
  shows "splitlines (env_text ls) = butlast ls"
  using splitlines_join [OF assms(1)] assms(2,3) append_butlast_last_id [OF assms(2)] by (simp add: env_text_def)

lemma write_forced: "write_if_allowed p c True fs = fs(p \<mapsto> c)"
  by (simp add: write_if_allowed_def split: option.split)

lemma generated_auth_env: "generate_dev_env True d fs AUTH_ENV = Some (dev_auth_env True d fs)"
  by (simp add: generate_dev_env_def write_forced env_paths)

text \<open>Without \<open>--force\<close> a file that is not empty stays as it is; no other file is touched in any case.\<close>

lemma write_kept: "fs p = Some t \<Longrightarrow> t \<noteq> [] \<Longrightarrow> write_if_allowed q c False fs p = Some t"
  by (cases "p = q") (auto simp: write_if_allowed_def split: option.split)

lemma existing_files_kept:
  "fs p = Some t \<Longrightarrow> t \<noteq> [] \<Longrightarrow> generate_dev_env False d fs p = Some t"
  "p \<notin> {AUTH_ENV, USER_ENV, GATEWAY_ENV, COMPOSE_ENV} \<Longrightarrow> generate_dev_env force d fs p = fs p"
  by (simp add: generate_dev_env_def write_kept) (simp add: generate_dev_env_def write_if_allowed_def split: option.split)

section \<open>Rendering the files of a deployed stack\<close>

definition one_line_values :: "prod_values \<Rightarrow> bool" where
  "one_line_values r \<longleftrightarrow>
     one_line (rv_cors r) \<and> one_line (escape_multiline (rv_priv_pem r)) \<and> one_line (escape_multiline (rv_pub_pem r)) \<and>
     one_line (rv_refresh_pepper r) \<and> one_line (rv_privacy_pepper r) \<and> one_line (rv_reset_pepper r) \<and>
     one_line (rv_totp_key r) \<and> one_line (rv_login_max r) \<and> one_line (rv_reset_max r) \<and> one_line (rv_support_email r) \<and>
     one_line (rv_refresh_secure r) \<and>
     one_line (sl_smtp_host (rv_smtp r)) \<and> one_line (sl_smtp_port (rv_smtp r)) \<and> one_line (sl_smtp_username (rv_smtp r)) \<and>
     one_line (sl_smtp_password (rv_smtp r)) \<and> one_line (sl_smtp_use_tls (rv_smtp r)) \<and>
     one_line (sl_smtp_from_email (rv_smtp r)) \<and> one_line (sl_smtp_from_name (rv_smtp r)) \<and>
     one_line (sl_smtp_require_delivery (rv_smtp r)) \<and> one_line (sl_auth_allow_missing_smtp (rv_smtp r))"

lemma one_line_subset: "one_line s \<Longrightarrow> set t \<subseteq> set s \<Longrightarrow> one_line t"
  by (auto simp: one_line_def list_all_iff)

lemma hex_not_linebreak: "is_lower_hex c \<Longrightarrow> \<not> is_linebreak (upper_char c)"
  by (auto simp: is_lower_hex_def is_linebreak_def upper_char_def is_digit_def)

lemma one_line_quote_plus: "one_line (quote_plus s)"
proof -
  have "one_line (upper (to_hex 2 b))" for b
    using set_to_hex [of _ 2 b] hex_not_linebreak unfolding one_line_def upper_def list_all_iff by auto
  moreover have "\<not> is_linebreak (CHR ''%'')" by (simp add: is_linebreak_def)
  ultimately have "one_line (concat (map (\<lambda>b. CHR ''%'' # upper (to_hex 2 b)) bs))" for bs
    by (induction bs) simp_all
  moreover have "\<not> is_linebreak c" if "unreserved c" for c
    using that by (auto simp: unreserved_def is_linebreak_def is_ascii_letter_def is_digit_def)
  moreover have "\<not> is_linebreak (CHR ''+'')" by (simp add: is_linebreak_def)
  ultimately show ?thesis unfolding quote_plus_def by (induction s) auto
qed

lemma prod_auth_lines:
  "one_line_values r \<Longrightarrow> list_all one_line (butlast (prod_auth_env_lines r))"
  by (simp add: prod_auth_env_lines_def one_line_values_def one_line_quote_plus is_linebreak_def)

lemma prod_user_lines:
  "one_line_values r \<Longrightarrow> list_all one_line (butlast (prod_user_env_lines r))"
  by (simp add: prod_user_env_lines_def one_line_values_def one_line_quote_plus is_linebreak_def)

lemma prod_gateway_lines:
  "one_line_values r \<Longrightarrow> list_all one_line (butlast (prod_gateway_env_all r))"
  by (simp add: prod_gateway_env_lines_def prod_gateway_env_all_def one_line_values_def one_line_quote_plus is_linebreak_def)

lemma prod_env_lines:
  "list_all env_line (butlast (prod_auth_env_lines r))" "list_all env_line (butlast (prod_user_env_lines r))"
  "list_all env_line (butlast (prod_gateway_env_all r))"
  by (simp_all add: prod_auth_env_lines_def prod_user_env_lines_def prod_gateway_env_lines_def prod_gateway_env_all_def
      env_line_def env_key_def before_eq_def key_char_def is_digit_def)

lemma prod_auth_pairs:
  "pairs (butlast (prod_auth_env_lines r)) =
     [(''SERVICE_NAME'', ''auth-service''), (''SERVICE_ENV'', ''production''), (''SERVICE_PORT'', ''8001''),
      (''CORS_ALLOWED_ORIGINS'', rv_cors r), (''TRUSTED_PROXY_IPS'', ''172.16.0.0/12''),
      (''DATABASE_URL'', ''postgresql+asyncpg://auth_service:'' @ quote_plus (rv_auth_db r) @ ''@postgres-auth:5432/auth_service''),
      (''REDIS_URL'', ''redis://:'' @ quote_plus (rv_redis_pw r) @ ''@redis:6379/0''),
      (''JWT_ALGORITHM'', ''RS256''), (''JWT_ISSUER'', ''backend-platform''),
      (''JWT_AUDIENCE'', ''backend-clients''), (''JWT_ACCESS_TTL_SECONDS'', ''900''),
      (''JWT_REFRESH_TTL_SECONDS'', ''2592000''),
      (''JWT_PRIVATE_KEY'', [QUOTE] @ escape_multiline (rv_priv_pem r) @ [QUOTE]),
      (''JWT_PUBLIC_KEY'', [QUOTE] @ escape_multiline (rv_pub_pem r) @ [QUOTE]),
      (''REFRESH_TOKEN_HASH_PEPPER'', rv_refresh_pepper r), (''PRIVACY_KEY_PEPPER'', rv_privacy_pepper r),
      (''PASSWORD_RESET_TOKEN_PEPPER'', rv_reset_pepper r), (''TOTP_ISSUER'', ''Backend Platform''),
      (''TOTP_ENCRYPTION_KEY'', rv_totp_key r), (''TOTP_CODE_DIGITS'', ''6''),
      (''TOTP_INTERVAL_SECONDS'', ''30''), (''LOGIN_CHALLENGE_TTL_SECONDS'', ''300''),
      (''PASSWORD_RESET_TOKEN_TTL_SECONDS'', ''900''), (''SMTP_HOST'', sl_smtp_host (rv_smtp r)),
      (''SMTP_PORT'', sl_smtp_port (rv_smtp r)), (''SMTP_USERNAME'', sl_smtp_username (rv_smtp r)),
      (''SMTP_PASSWORD'', sl_smtp_password (rv_smtp r)), (''SMTP_USE_TLS'', sl_smtp_use_tls (rv_smtp r)),
      (''SMTP_FROM_EMAIL'', sl_smtp_from_email (rv_smtp r)), (''SMTP_FROM_NAME'', sl_smtp_from_name (rv_smtp r)),
      (''SMTP_REQUIRE_DELIVERY'', sl_smtp_require_delivery (rv_smtp r)),
      (''AUTH_ALLOW_MISSING_SMTP'', sl_auth_allow_missing_smtp (rv_smtp r)),
      (''SUPPORT_EMAIL'', rv_support_email r), (''RATE_LIMIT_LOGIN_PER_MINUTE'', ''10''),
      (''RATE_LIMIT_2FA_PER_MINUTE'', ''10''), (''RATE_LIMIT_REFRESH_PER_MINUTE'', ''30''),
      (''RATE_LIMIT_REGISTER_PER_MINUTE'', ''5''), (''RATE_LIMIT_PASSWORD_RESET_PER_MINUTE'', ''5''),
      (''BRUTE_FORCE_LOGIN_MAX_ATTEMPTS'', rv_login_max r), (''BRUTE_FORCE_LOGIN_WINDOW_SECONDS'', ''300''),
      (''BRUTE_FORCE_LOGIN_LOCK_SECONDS'', ''900''), (''BRUTE_FORCE_2FA_MAX_ATTEMPTS'', ''5''),
      (''BRUTE_FORCE_2FA_WINDOW_SECONDS'', ''300''), (''BRUTE_FORCE_2FA_LOCK_SECONDS'', ''900''),
      (''BRUTE_FORCE_PASSWORD_RESET_MAX_ATTEMPTS'', rv_reset_max r),
      (''BRUTE_FORCE_PASSWORD_RESET_WINDOW_SECONDS'', ''300''),
      (''BRUTE_FORCE_PASSWORD_RESET_LOCK_SECONDS'', ''900''), (''ARGON2_TIME_COST'', ''3''),
      (''ARGON2_MEMORY_COST'', ''65536''), (''ARGON2_PARALLELISM'', ''4''), (''ARGON2_HASH_LENGTH'', ''32''),
      (''ARGON2_SALT_LENGTH'', ''16'')]"
  by (simp add: prod_auth_env_lines_def pairs_def before_eq_def after_eq_def)

lemma prod_user_pairs:
  "pairs (butlast (prod_user_env_lines r)) =
     [(''SERVICE_NAME'', ''user-service''), (''SERVICE_ENV'', ''production''), (''SERVICE_PORT'', ''8002''),
      (''CORS_ALLOWED_ORIGINS'', rv_cors r), (''TRUSTED_PROXY_IPS'', ''172.16.0.0/12''),
      (''DATABASE_URL'', ''postgresql+asyncpg://user_service:'' @ quote_plus (rv_user_db r) @ ''@postgres-user:5432/user_service''),
      (''REDIS_URL'', ''redis://:'' @ quote_plus (rv_redis_pw r) @ ''@redis:6379/1''),
      (''JWT_ALGORITHM'', ''RS256''), (''JWT_ISSUER'', ''backend-platform''),
      (''JWT_AUDIENCE'', ''backend-clients''),
      (''JWT_PUBLIC_KEY'', [QUOTE] @ escape_multiline (rv_pub_pem r) @ [QUOTE]),
      (''PRIVACY_KEY_PEPPER'', rv_privacy_pepper r), (''RATE_LIMIT_PROFILE_WRITE_PER_MINUTE'', ''30''),
      (''RATE_LIMIT_ROLES_WRITE_PER_MINUTE'', ''10'')]"
  by (simp add: prod_user_env_lines_def pairs_def before_eq_def after_eq_def)

lemma prod_gateway_pairs:
  "pairs (butlast (prod_gateway_env_all r)) =
     [(''SERVICE_NAME'', ''api-gateway''), (''SERVICE_ENV'', ''production''), (''SERVICE_PORT'', ''8000''),
      (''CORS_ALLOWED_ORIGINS'', rv_cors r),
      (''REDIS_URL'', ''redis://:'' @ quote_plus (rv_redis_pw r) @ ''@redis:6379/2''),
      (''AUTH_SERVICE_URL'', ''http://auth-service:8001''), (''USER_SERVICE_URL'', ''http://user-service:8002''),
      (''NOTIFICATION_SERVICE_URL'', []), (''JWT_ALGORITHM'', ''RS256''), (''JWT_ISSUER'', ''backend-platform''),
      (''JWT_AUDIENCE'', ''backend-clients''),
      (''JWT_PUBLIC_KEY'', [QUOTE] @ escape_multiline (rv_pub_pem r) @ [QUOTE]),
      (''PRIVACY_KEY_PEPPER'', rv_privacy_pepper r), (''UPSTREAM_TIMEOUT_SECONDS'', ''10''),
      (''TRUSTED_PROXY_IPS'', ''172.16.0.0/12''), (''RATE_LIMIT_PUBLIC_AUTH_PER_MINUTE'', ''30''),
      (''RATE_LIMIT_PROTECTED_PER_MINUTE'', ''120'')] @
     (if rv_refresh_secure r \<noteq> [] then [(''REFRESH_COOKIE_SECURE'', rv_refresh_secure r)] else [])"
  by (simp add: prod_gateway_env_lines_def prod_gateway_env_all_def pairs_def before_eq_def after_eq_def)

lemma prod_pairs:
  "distinct (map fst (pairs (butlast (prod_auth_env_lines r))))" "distinct (map fst (pairs (butlast (prod_user_env_lines r))))"
  "distinct (map fst (pairs (butlast (prod_gateway_env_all r))))"
  unfolding prod_auth_pairs prod_user_pairs prod_gateway_pairs list.map fst_conv
  subgoal by code_simp
  subgoal by code_simp
  subgoal by (cases "rv_refresh_secure r = []"; simp only: if_True if_False not_True_eq_False not_False_eq_True map_append list.map fst_conv; code_simp)
  done

lemma prod_read_back:
  assumes "one_line_values r"
  shows "parse_dotenv (env_text (prod_auth_env_lines r)) k = map_option unquoted (map_of (pairs (butlast (prod_auth_env_lines r))) k)"
    "parse_dotenv (env_text (prod_user_env_lines r)) k = map_option unquoted (map_of (pairs (butlast (prod_user_env_lines r))) k)"
    "parse_dotenv (env_text (prod_gateway_env_all r)) k = map_option unquoted (map_of (pairs (butlast (prod_gateway_env_all r))) k)"
proof -
  show "parse_dotenv (env_text (prod_auth_env_lines r)) k = map_option unquoted (map_of (pairs (butlast (prod_auth_env_lines r))) k)"
    by (intro read_back prod_env_lines prod_pairs env_text_lines prod_auth_lines [OF assms]) (simp_all add: prod_auth_env_lines_def)
  show "parse_dotenv (env_text (prod_user_env_lines r)) k = map_option unquoted (map_of (pairs (butlast (prod_user_env_lines r))) k)"
    by (intro read_back prod_env_lines prod_pairs env_text_lines prod_user_lines [OF assms]) (simp_all add: prod_user_env_lines_def)
  show "parse_dotenv (env_text (prod_gateway_env_all r)) k = map_option unquoted (map_of (pairs (butlast (prod_gateway_env_all r))) k)"
    by (intro read_back prod_env_lines prod_pairs env_text_lines prod_gateway_lines [OF assms])
      (simp_all add: prod_gateway_env_lines_def prod_gateway_env_all_def)
qed

end
