(* ===== verification/Env_Rendering.thy ===== *)
theory Env_Rendering
  imports Env_Properties
begin

text \<open>
  The files of a deployed stack as \<^verbatim>\<open>render_prod_env_from_secrets.py\<close> renders them: the three services agree on
  what they have to agree on, and the addresses rendered from a generated compose file are the generated ones.
\<close>

section \<open>Rendered values stay on their lines\<close>

lemma set_strip_of: "set (strip_of P s) \<subseteq> set s"
  unfolding strip_of_def rstrip_of_def lstrip_of_def by (auto dest!: set_dropWhileD)

lemma one_line_strip: "one_line s \<Longrightarrow> one_line (strip s)"
  by (erule one_line_subset) (rule set_strip)

lemma set_replace_sub: "set (replace_sub p r s) \<subseteq> set r \<union> set s"
proof (induction p r s rule: replace_sub.induct)
  case (1 p r s)
  show ?case
  proof (cases "p = [] \<or> s = []")
    case False
    have "set (drop (length p) s) \<subseteq> set s" "set (tl s) \<subseteq> set s" by (auto dest: in_set_dropD) (cases s, auto)
    then show ?thesis using 1 False by (subst replace_sub.simps) (cases s, auto)
  next
    case True
    then show ?thesis by (subst replace_sub.simps) auto
  qed
qed

lemma one_line_quote: "one_line v \<Longrightarrow> one_line (quote_env_value v)"
proof -
  assume v: "one_line v"
  have "one_line (replace_sub p [BACKSLASH, c] w)" if "one_line w" "\<not> is_linebreak c" for p c w
    using that set_replace_sub [of p "[BACKSLASH, c]" w] by (auto simp: one_line_def list_all_iff is_linebreak_def)
  note esc = this
  have "one_line (replace_sub [QUOTE] [BACKSLASH, QUOTE] (replace_sub [BACKSLASH] [BACKSLASH, BACKSLASH] v))"
    by (intro esc v) (simp_all add: is_linebreak_def)
  then show ?thesis using v by (simp add: quote_env_value_def is_linebreak_def)
qed

lemma parse_dotenv_one_line:
  assumes "parse_dotenv t k = Some v"
  shows "one_line v"
proof -
  have "set (after_eq s) \<subseteq> set s" for s
    unfolding after_eq_def by (metis dropWhile_eq_Nil_conv list.sel(2) list.set_sel(2) set_dropWhileD subsetI)
  then have sub: "set (unquoted (after_eq (strip l))) \<subseteq> set l" for l
    using set_strip_of set_strip unfolding unquoted_def by (meson order_trans)
  have "one_line v" if "collect dotenv_entry ls k = Some v" "\<forall>l \<in> set ls. one_line l" for ls
    using that
  proof (induction ls rule: rev_induct)
    case (snoc l ls)
    have "one_line w" if "dotenv_entry l = Some (x, w)" for x w
      using that one_line_subset [OF _ sub [of l]] snoc.prems(2) by (auto simp: dotenv_entry_def Let_def split: if_splits)
    with snoc show ?case by (auto simp: collect_snoc split: option.splits if_splits)
  qed (simp add: collect_def)
  then show ?thesis using assms splitlines_one_line by (auto simp: parse_dotenv_def)
qed

lemma one_line_compose_get:
  assumes "compose = parse_dotenv t"
  shows "one_line (compose_get compose k)"
  using parse_dotenv_one_line assms by (auto simp: compose_get_def intro!: one_line_strip split: option.split)

lemma one_line_optional: "one_line (read_optional_one_line fs p)"
proof -
  have "one_line s" if "find P (map strip (splitlines t)) = Some s" for P s t
    using that splitlines_one_line [OF nth_mem] one_line_strip by (auto simp: find_Some_iff)
  then show ?thesis by (auto simp: read_optional_one_line_def split: option.split)
qed

lemma one_line_or: "one_line a \<Longrightarrow> one_line b \<Longrightarrow> one_line (py_or a b)"
  by (simp add: py_or_def)

lemma one_line_join: "one_line sep \<Longrightarrow> list_all one_line ls \<Longrightarrow> one_line (join_with sep ls)"
  by (induction ls rule: induct_list012) simp_all

lemma one_line_origins:
  assumes "one_line s"
  shows "one_line (join_origins s)"
proof -
  have "list_all one_line (split_on c s)" for c
    using assms by (induction s) (auto split: list.split)
  then have "list_all one_line (filter (\<lambda>p. p \<noteq> []) (map strip (split_on (CHR '','') s)))"
    using one_line_strip by (auto simp: list_all_iff)
  then show ?thesis unfolding join_origins_def by (rule one_line_join [rotated]) (simp add: is_linebreak_def)
qed

text \<open>What the script takes over as it is has to be on one line, the line feeds of the keys apart.\<close>

definition one_line_inputs :: "string \<Rightarrow> files \<Rightarrow> bool" where
  "one_line_inputs cors_origins fs \<longleftrightarrow>
     one_line cors_origins \<and>
     list_all (\<lambda>n. one_line (escape_multiline (read_stripped fs n))) [''secrets/jwt_private.pem'', ''secrets/jwt_public.pem''] \<and>
     list_all (\<lambda>n. one_line (read_stripped fs n))
       [''secrets/refresh_token_pepper.txt'', ''secrets/privacy_key_pepper.txt'', ''secrets/password_reset_pepper.txt'',
        ''secrets/totp_fernet.key'', ''secrets/smtp_app_password.txt'', ''secrets/smtp_password.txt'']"

lemma one_line_smtp:
  assumes "one_line_inputs cors fs" "compose = parse_dotenv t" "r = resolve_smtp_for_auth_env compose fs"
  shows "one_line (sl_smtp_host r)" "one_line (sl_smtp_port r)" "one_line (sl_smtp_username r)" "one_line (sl_smtp_password r)"
    "one_line (sl_smtp_use_tls r)" "one_line (sl_smtp_from_email r)" "one_line (sl_smtp_from_name r)"
    "one_line (sl_smtp_require_delivery r)" "one_line (sl_auth_allow_missing_smtp r)"
proof -
  note get = one_line_compose_get [OF assms(2)]
  have "one_line (resolve_smtp_password compose fs)"
    using assms(1) get by (simp add: resolve_smtp_password_def one_line_inputs_def Let_def)
  then show "one_line (sl_smtp_host r)" "one_line (sl_smtp_port r)" "one_line (sl_smtp_username r)" "one_line (sl_smtp_password r)"
    "one_line (sl_smtp_use_tls r)" "one_line (sl_smtp_from_email r)" "one_line (sl_smtp_from_name r)"
    "one_line (sl_smtp_require_delivery r)" "one_line (sl_auth_allow_missing_smtp r)"
    unfolding assms(3) resolve_smtp_for_auth_env_def Let_def smtp_lines.simps
    by (auto intro!: one_line_quote one_line_or get one_line_optional simp: is_linebreak_def)
qed

lemma one_line_prod_values:
  assumes "one_line_inputs cors fs" "compose = parse_dotenv t"
  shows "one_line_values (prod_values_of cors compose a u p fs)"
  using assms(1) one_line_smtp [OF assms refl] one_line_compose_get [OF assms(2)]
  unfolding one_line_values_def prod_values_of_def Let_def prod_values.simps
  by (auto simp: one_line_inputs_def is_linebreak_def intro!: one_line_origins one_line_or one_line_quote)

section \<open>What the services are told\<close>

lemma render_cases:
  assumes "render_prod_env ce cors fs = Inr fs'"
  obtains t compose a u p r where "t = read_file fs (case ce of None \<Rightarrow> COMPOSE_ENV | Some p \<Rightarrow> p)" "compose = parse_dotenv t" "compose ''AUTH_DB_PASSWORD'' = Some a"
    "compose ''USER_DB_PASSWORD'' = Some u" "compose ''REDIS_PASSWORD'' = Some p" "r = prod_values_of cors compose a u p fs"
    "fs' = fs(AUTH_ENV \<mapsto> env_text (prod_auth_env_lines r), USER_ENV \<mapsto> env_text (prod_user_env_lines r),
      GATEWAY_ENV \<mapsto> env_text (prod_gateway_env_all r))"
proof -
  let ?t = "read_file fs (case ce of None \<Rightarrow> COMPOSE_ENV | Some p \<Rightarrow> p)"
  have n: "find (\<lambda>k. parse_dotenv ?t k = None) [''AUTH_DB_PASSWORD'', ''USER_DB_PASSWORD'', ''REDIS_PASSWORD''] = None"
    using assms by (auto simp: render_prod_env_def Let_def simp del: find.simps split: if_splits option.splits)
  then have some: "parse_dotenv ?t ''AUTH_DB_PASSWORD'' \<noteq> None" "parse_dotenv ?t ''USER_DB_PASSWORD'' \<noteq> None"
    "parse_dotenv ?t ''REDIS_PASSWORD'' \<noteq> None"
    unfolding find_None_iff by auto
  obtain a u p where v: "parse_dotenv ?t ''AUTH_DB_PASSWORD'' = Some a" "parse_dotenv ?t ''USER_DB_PASSWORD'' = Some u"
    "parse_dotenv ?t ''REDIS_PASSWORD'' = Some p"
    using some by blast
  let ?r = "prod_values_of cors (parse_dotenv ?t) a u p fs"
  have "fs' = fs(AUTH_ENV \<mapsto> env_text (prod_auth_env_lines ?r), USER_ENV \<mapsto> env_text (prod_user_env_lines ?r),
      GATEWAY_ENV \<mapsto> env_text (prod_gateway_env_all ?r))"
    using assms n v by (auto simp: render_prod_env_def Let_def simp del: find.simps split: if_splits option.splits)
  from that [OF refl refl v refl this] show thesis .
qed

lemma unquoted_ends:
  assumes "v \<noteq> []" "\<not> py_isspace (hd v)" "\<not> py_isspace (last v)" "{hd v, last v} \<inter> {QUOTE, APOSTROPHE} = {}"
  shows "unquoted v = v"
proof -
  have "strip_of P v = v" if "\<not> P (hd v)" "\<not> P (last v)" for P
    by (rule strip_of_ends) (use that assms(1) in auto)
  note ends = this
  show ?thesis using assms by (simp add: unquoted_def strip_def) (auto simp: ends)
qed

lemma address_unquoted:
  "unquoted (''redis://:'' @ q @ ''@redis:6379/'' @ [c]) = ''redis://:'' @ q @ ''@redis:6379/'' @ [c]" if "is_digit c"
  using that by (intro unquoted_ends) (auto simp: is_digit_def py_isspace_def)

lemmas prod_lines = prod_auth_pairs prod_user_pairs prod_gateway_pairs

definition SHARED_KEYS :: "string list" where
  "SHARED_KEYS = [''JWT_ALGORITHM'', ''JWT_ISSUER'', ''JWT_AUDIENCE'', ''JWT_PUBLIC_KEY'', ''PRIVACY_KEY_PEPPER'',
     ''CORS_ALLOWED_ORIGINS'', ''SERVICE_ENV'']"

lemma shared_lookups:
  "list_all (\<lambda>k. map_of (pairs (butlast (prod_user_env_lines r))) k = map_of (pairs (butlast (prod_auth_env_lines r))) k \<and>
     map_of (pairs (butlast (prod_gateway_env_all r))) k = map_of (pairs (butlast (prod_auth_env_lines r))) k \<and>
     map_of (pairs (butlast (prod_auth_env_lines r))) k \<noteq> None) SHARED_KEYS"
  by (simp add: SHARED_KEYS_def prod_lines)

lemma redis_lookups:
  "map_of (pairs (butlast (prod_auth_env_lines r))) ''REDIS_URL'' = Some (''redis://:'' @ quote_plus (rv_redis_pw r) @ ''@redis:6379/0'')"
  "map_of (pairs (butlast (prod_user_env_lines r))) ''REDIS_URL'' = Some (''redis://:'' @ quote_plus (rv_redis_pw r) @ ''@redis:6379/1'')"
  "map_of (pairs (butlast (prod_gateway_env_all r))) ''REDIS_URL'' = Some (''redis://:'' @ quote_plus (rv_redis_pw r) @ ''@redis:6379/2'')"
  by (simp_all add: prod_lines)

lemma database_lookups:
  "map_of (pairs (butlast (prod_auth_env_lines r))) ''DATABASE_URL'' =
     Some (''postgresql+asyncpg://auth_service:'' @ quote_plus (rv_auth_db r) @ ''@postgres-auth:5432/auth_service'')"
  "map_of (pairs (butlast (prod_user_env_lines r))) ''DATABASE_URL'' =
     Some (''postgresql+asyncpg://user_service:'' @ quote_plus (rv_user_db r) @ ''@postgres-user:5432/user_service'')"
  by (simp_all add: prod_lines)

lemma redis_unquoted:
  "unquoted (''redis://:'' @ q @ ''@redis:6379/0'') = ''redis://:'' @ q @ ''@redis:6379/0''"
  "unquoted (''redis://:'' @ q @ ''@redis:6379/1'') = ''redis://:'' @ q @ ''@redis:6379/1''"
  "unquoted (''redis://:'' @ q @ ''@redis:6379/2'') = ''redis://:'' @ q @ ''@redis:6379/2''"
  "unquoted (''postgresql+asyncpg://auth_service:'' @ q @ ''@postgres-auth:5432/auth_service'') =
     ''postgresql+asyncpg://auth_service:'' @ q @ ''@postgres-auth:5432/auth_service''"
  "unquoted (''postgresql+asyncpg://user_service:'' @ q @ ''@postgres-user:5432/user_service'') =
     ''postgresql+asyncpg://user_service:'' @ q @ ''@postgres-user:5432/user_service''"
  by (rule unquoted_ends; simp add: py_isspace_def)+

text \<open>
  The rendered services agree. When the script returns, it has written the three files and no other; reading them
  back, the services have the same token algorithm, issuer, audience, public key, privacy pepper, allowed origins and
  environment, and each has a cache address: the same server and password, but three different databases.
\<close>

theorem rendered_services_agree:
  assumes "render_prod_env ce cors fs = Inr fs'" "one_line_inputs cors fs"
  shows "\<exists>a u g q. fs' = fs(AUTH_ENV \<mapsto> a, USER_ENV \<mapsto> u, GATEWAY_ENV \<mapsto> g) \<and>
    list_all (\<lambda>k. parse_dotenv a k \<noteq> None \<and> parse_dotenv u k = parse_dotenv a k \<and> parse_dotenv g k = parse_dotenv a k) SHARED_KEYS \<and>
    parse_dotenv a ''REDIS_URL'' = Some (''redis://:'' @ q @ ''@redis:6379/0'') \<and>
    parse_dotenv u ''REDIS_URL'' = Some (''redis://:'' @ q @ ''@redis:6379/1'') \<and>
    parse_dotenv g ''REDIS_URL'' = Some (''redis://:'' @ q @ ''@redis:6379/2'')"
  using assms(1)
proof (rule render_cases)
  fix t compose a u p r
  assume r: "compose = parse_dotenv t" "r = prod_values_of cors compose a u p fs"
    and fs': "fs' = fs(AUTH_ENV \<mapsto> env_text (prod_auth_env_lines r), USER_ENV \<mapsto> env_text (prod_user_env_lines r),
      GATEWAY_ENV \<mapsto> env_text (prod_gateway_env_all r))"
  have "one_line_values r" using one_line_prod_values [OF assms(2) r(1)] r(2) by simp
  note reads = prod_read_back [OF this]
  have "parse_dotenv (env_text (prod_auth_env_lines r)) ''REDIS_URL'' = Some (''redis://:'' @ quote_plus (rv_redis_pw r) @ ''@redis:6379/0'')"
    "parse_dotenv (env_text (prod_user_env_lines r)) ''REDIS_URL'' = Some (''redis://:'' @ quote_plus (rv_redis_pw r) @ ''@redis:6379/1'')"
    "parse_dotenv (env_text (prod_gateway_env_all r)) ''REDIS_URL'' = Some (''redis://:'' @ quote_plus (rv_redis_pw r) @ ''@redis:6379/2'')"
    by (simp_all only: reads redis_lookups option.map redis_unquoted)
  moreover have "list_all (\<lambda>k. parse_dotenv (env_text (prod_auth_env_lines r)) k \<noteq> None \<and>
      parse_dotenv (env_text (prod_user_env_lines r)) k = parse_dotenv (env_text (prod_auth_env_lines r)) k \<and>
      parse_dotenv (env_text (prod_gateway_env_all r)) k = parse_dotenv (env_text (prod_auth_env_lines r)) k) SHARED_KEYS"
    using shared_lookups [of r] unfolding list_all_iff reads by simp
  ultimately show ?thesis using fs' by blast
qed

section \<open>The addresses of a generated compose file\<close>

lemma b64_char_unreserved: "n < 64 \<Longrightarrow> unreserved (b64_char n)"
  by (auto simp: b64_char_def unreserved_def is_ascii_letter_def is_digit_def)

lemma unreserved_not: "unreserved c \<Longrightarrow> c \<notin> {CHR '' '', QUOTE, APOSTROPHE, CHR ''=''} \<and> \<not> py_isspace c \<and> \<not> is_linebreak c"
  by (auto simp: unreserved_def is_linebreak_def is_ascii_letter_def is_digit_def py_isspace_def)

text \<open>Four characters stand for three bytes, and the padding is at the end.\<close>

lemma b64_indices:
  fixes a b c :: nat
  assumes "a < 256" "b < 256" "c < 256"
  shows "a div 4 < 64" "a mod 4 * 16 + b div 16 < 64" "b mod 16 * 4 + c div 64 < 64" "c mod 64 < 64" "a mod 4 * 16 < 64" "b mod 16 * 4 < 64"
proof -
  have "a mod 4 < 4" "b mod 16 < 16" "b div 16 < 16" "c div 64 < 4" using assms by auto
  then show "a div 4 < 64" "a mod 4 * 16 + b div 16 < 64" "b mod 16 * 4 + c div 64 < 64" "c mod 64 < 64" "a mod 4 * 16 < 64" "b mod 16 * 4 < 64"
    using assms by linarith+
qed

lemma b64_chars:
  fixes a b c :: nat
  assumes "a < 256" "b < 256" "c < 256"
  shows "unreserved (b64_char (a div 4))" "unreserved (b64_char (a mod 4 * 16 + b div 16))"
    "unreserved (b64_char (b mod 16 * 4 + c div 64))" "unreserved (b64_char (c mod 64))"
    "unreserved (b64_char (a mod 4 * 16))" "unreserved (b64_char (b mod 16 * 4))"
  by (rule b64_char_unreserved, rule b64_indices [OF assms])+

lemma b64_shape:
  assumes "\<forall>b \<in> set bs. b < 256"
  shows "\<exists>core k. b64 bs = core @ replicate k (CHR ''='') \<and> list_all unreserved core"
  using assms
proof (induction bs rule: b64.induct)
  case 1
  show ?case by (intro exI [of _ "[]"] exI [of _ 0]) simp
next
  case (2 a)
  then have "list_all unreserved [b64_char (a div 4), b64_char (a mod 4 * 16)]"
    by (simp add: b64_chars [of a 0 0])
  moreover have "b64 [a] = [b64_char (a div 4), b64_char (a mod 4 * 16)] @ replicate 2 (CHR ''='')" by (simp add: numeral_2_eq_2)
  ultimately show ?case by blast
next
  case (3 a b)
  then have "list_all unreserved [b64_char (a div 4), b64_char (a mod 4 * 16 + b div 16), b64_char (b mod 16 * 4)]"
    by (simp add: b64_chars [of a b 0])
  moreover have "b64 [a, b] = [b64_char (a div 4), b64_char (a mod 4 * 16 + b div 16), b64_char (b mod 16 * 4)] @ replicate 1 (CHR ''='')"
    by simp
  ultimately show ?case by blast
next
  case (4 a b c bs)
  let ?four = "[b64_char (a div 4), b64_char (a mod 4 * 16 + b div 16), b64_char (b mod 16 * 4 + c div 64), b64_char (c mod 64)]"
  have "list_all unreserved ?four" using 4 by (simp add: b64_chars [of a b c])
  moreover obtain core k where "b64 bs = core @ replicate k (CHR ''='')" "list_all unreserved core" using 4 by auto
  ultimately have "b64 (a # b # c # bs) = (?four @ core) @ replicate k (CHR ''='')" "list_all unreserved (?four @ core)" by simp_all
  then show ?case by blast
qed

lemma gen_password_chars:
  assumes "\<forall>b \<in> set bs. b < 256"
  shows "list_all unreserved (gen_password bs)"
proof -
  obtain core k where core: "b64 bs = core @ replicate k (CHR ''='')" "list_all unreserved core"
    using b64_shape [OF assms] by blast
  have "dropWhile (\<lambda>c. c = CHR ''='') (rev core) = rev core"
    using core(2) unreserved_not by (cases core rule: rev_cases) auto
  then have "gen_password bs = core" by (simp add: gen_password_def rstrip_of_def core(1) dropWhile_append)
  then show ?thesis using core(2) by simp
qed

lemma quote_plus_id: "list_all unreserved s \<Longrightarrow> quote_plus s = s"
proof (induction s)
  case (Cons c s)
  then show ?case using unreserved_not [of c] by (simp add: quote_plus_def)
qed (simp add: quote_plus_def)

lemma gen_password_facts:
  assumes "\<forall>b \<in> set bs. b < 256"
  shows "quote_plus (gen_password bs) = gen_password bs" "unquoted (gen_password bs) = gen_password bs" "one_line (gen_password bs)"
proof -
  note chars = gen_password_chars [OF assms]
  show "quote_plus (gen_password bs) = gen_password bs" using chars by (rule quote_plus_id)
  show "one_line (gen_password bs)" using chars unreserved_not by (auto simp: one_line_def list_all_iff)
  have none: "strip_of P (gen_password bs) = gen_password bs" if "\<And>c. unreserved c \<Longrightarrow> \<not> P c" for P
    using that chars by (intro strip_of_id) (auto simp: list_all_iff)
  have "strip_of py_isspace (gen_password bs) = gen_password bs" "strip_of (\<lambda>c. c = QUOTE) (gen_password bs) = gen_password bs"
    "strip_of (\<lambda>c. c = APOSTROPHE) (gen_password bs) = gen_password bs"
    using unreserved_not by (intro none; blast)+
  then show "unquoted (gen_password bs) = gen_password bs" by (simp add: unquoted_def strip_def)
qed

lemma generated_password_texts:
  assumes "d = draw_secrets pem fernet bytes" "\<forall>i. \<forall>b \<in> set (bytes i). b < 256"
  shows "one_line (auth_db_password d)" "one_line (user_db_password d)" "one_line (redis_password d)"
    "unquoted (auth_db_password d) = auth_db_password d" "unquoted (user_db_password d) = user_db_password d"
    "unquoted (redis_password d) = redis_password d"
  using gen_password_facts assms(2) by (auto simp: assms(1) draw_secrets_def)

lemma compose_map:
  assumes "d = draw_secrets pem fernet bytes" "\<forall>i. \<forall>b \<in> set (bytes i). b < 256"
  shows "parse_dotenv (env_text (dev_compose_env_lines d)) k = map_option unquoted (map_of
    [(''COMPOSE_PROJECT_NAME'', ''backend-platform''), (''AUTH_DB_PASSWORD'', auth_db_password d),
     (''USER_DB_PASSWORD'', user_db_password d), (''REDIS_PASSWORD'', redis_password d), (''GATEWAY_PORT'', ''8080'')] k)"
proof -
  let ?ls = "butlast (dev_compose_env_lines d)"
  have ls: "list_all one_line ?ls" by (simp add: dev_compose_env_lines_def generated_password_texts [OF assms] is_linebreak_def)
  have env: "list_all env_line ?ls"
    by (simp add: dev_compose_env_lines_def env_line_def env_key_def before_eq_def key_char_def is_digit_def)
  have ps: "pairs ?ls = [(''COMPOSE_PROJECT_NAME'', ''backend-platform''), (''AUTH_DB_PASSWORD'', auth_db_password d),
     (''USER_DB_PASSWORD'', user_db_password d), (''REDIS_PASSWORD'', redis_password d), (''GATEWAY_PORT'', ''8080'')]"
    by (simp add: dev_compose_env_lines_def pairs_def before_eq_def after_eq_def)
  have "distinct (map fst (pairs ?ls))" by (simp add: ps)
  moreover have ends: "dev_compose_env_lines d \<noteq> []" "last (dev_compose_env_lines d) = []"
    by (simp_all add: dev_compose_env_lines_def)
  ultimately show ?thesis using read_back(1) [OF env _ env_text_lines [OF ls ends]] by (simp add: ps)
qed

lemma compose_read_back:
  assumes "d = draw_secrets pem fernet bytes" "\<forall>i. \<forall>b \<in> set (bytes i). b < 256"
  shows "parse_dotenv (env_text (dev_compose_env_lines d)) ''AUTH_DB_PASSWORD'' = Some (auth_db_password d)"
    "parse_dotenv (env_text (dev_compose_env_lines d)) ''USER_DB_PASSWORD'' = Some (user_db_password d)"
    "parse_dotenv (env_text (dev_compose_env_lines d)) ''REDIS_PASSWORD'' = Some (redis_password d)"
  by (simp_all add: compose_map [OF assms] generated_password_texts [OF assms])

lemma universal_newlines_id: "CR \<notin> set s \<Longrightarrow> universal_newlines s = s"
  by (induction s) auto

lemma one_line_no_CR: "one_line s \<Longrightarrow> CR \<notin> set s"
  by (auto simp: one_line_def list_all_iff)

lemma rendered_from_generated:
  assumes "d = draw_secrets pem fernet bytes" "\<forall>i. \<forall>b \<in> set (bytes i). b < 256"
    and "fs COMPOSE_ENV = Some (env_text (dev_compose_env_lines d))" "\<forall>n \<in> set SECRET_FILES. is_file fs (''secrets/'' @ n)"
  shows "\<exists>t r. r = prod_values_of cors (parse_dotenv t) (auth_db_password d) (user_db_password d) (redis_password d) fs \<and>
    render_prod_env None cors fs = Inr (fs(AUTH_ENV \<mapsto> env_text (prod_auth_env_lines r),
      USER_ENV \<mapsto> env_text (prod_user_env_lines r), GATEWAY_ENV \<mapsto> env_text (prod_gateway_env_all r)))"
proof -
  have "one_line (gen_password (bytes i))" for i using gen_password_facts assms(2) by auto
  then have "CR \<notin> set (env_text (dev_compose_env_lines d))"
    using one_line_no_CR by (simp add: env_text_def dev_compose_env_lines_def assms(1) draw_secrets_def)
  then have read: "read_file fs COMPOSE_ENV = env_text (dev_compose_env_lines d)"
    using assms(3) by (simp add: read_file_def universal_newlines_id)
  note compose = compose_read_back [OF assms(1,2)]
  let ?r = "prod_values_of cors (parse_dotenv (read_file fs COMPOSE_ENV)) (auth_db_password d) (user_db_password d) (redis_password d) fs"
  let ?fs = "fs(AUTH_ENV \<mapsto> env_text (prod_auth_env_lines ?r), USER_ENV \<mapsto> env_text (prod_user_env_lines ?r),
      GATEWAY_ENV \<mapsto> env_text (prod_gateway_env_all ?r))"
  have missing: "find (\<lambda>n. \<not> is_file fs (''secrets/'' @ n)) SECRET_FILES = None"
    using assms(4) by (simp only: find_None_iff) blast
  have run: "render_prod_env None cors fs = Inr ?fs"
    using assms(3) by (simp add: render_prod_env_def Let_def is_file_def [of fs COMPOSE_ENV] missing [unfolded append.simps] compose read)
  then show ?thesis by blast
qed

text \<open>
  The addresses come through. When the compose file is one that \<open>generate_dev_env.py\<close> generated and all the secret files are
  there, the rendering script returns, and the database and cache addresses it writes carry exactly the
  generated passwords: the same lines the generator wrote into the files of the services.
\<close>

theorem generated_passwords_come_through:
  assumes "d = draw_secrets pem fernet bytes" "\<forall>i. \<forall>b \<in> set (bytes i). b < 256"
    and "fs COMPOSE_ENV = Some (env_text (dev_compose_env_lines d))"
    and "\<forall>n \<in> set SECRET_FILES. is_file fs (''secrets/'' @ n)" "one_line_inputs cors fs"
  shows "\<exists>fs' a u g. render_prod_env None cors fs = Inr fs' \<and>
    fs' AUTH_ENV = Some a \<and> fs' USER_ENV = Some u \<and> fs' GATEWAY_ENV = Some g \<and>
    (\<exists>v. parse_dotenv a ''DATABASE_URL'' = Some v \<and> ''DATABASE_URL='' @ v \<in> set (dev_auth_env_lines d)) \<and>
    (\<exists>v. parse_dotenv u ''DATABASE_URL'' = Some v \<and> ''DATABASE_URL='' @ v \<in> set (dev_user_env_lines d)) \<and>
    (\<exists>v. parse_dotenv a ''REDIS_URL'' = Some v \<and> ''REDIS_URL='' @ v \<in> set (dev_auth_env_lines d)) \<and>
    (\<exists>v. parse_dotenv u ''REDIS_URL'' = Some v \<and> ''REDIS_URL='' @ v \<in> set (dev_user_env_lines d)) \<and>
    (\<exists>v. parse_dotenv g ''REDIS_URL'' = Some v \<and> ''REDIS_URL='' @ v \<in> set (dev_gateway_env_lines d))"
proof -
  obtain t r where r: "r = prod_values_of cors (parse_dotenv t) (auth_db_password d) (user_db_password d) (redis_password d) fs"
    and run: "render_prod_env None cors fs = Inr (fs(AUTH_ENV \<mapsto> env_text (prod_auth_env_lines r),
      USER_ENV \<mapsto> env_text (prod_user_env_lines r), GATEWAY_ENV \<mapsto> env_text (prod_gateway_env_all r)))"
    using rendered_from_generated [OF assms(1-4)] by blast
  let ?fs = "fs(AUTH_ENV \<mapsto> env_text (prod_auth_env_lines r), USER_ENV \<mapsto> env_text (prod_user_env_lines r),
      GATEWAY_ENV \<mapsto> env_text (prod_gateway_env_all r))"
  have "one_line_values r" unfolding r by (rule one_line_prod_values [OF assms(5) refl])
  note reads = prod_read_back [OF this]
  have q: "quote_plus (auth_db_password d) = auth_db_password d" "quote_plus (user_db_password d) = user_db_password d"
    "quote_plus (redis_password d) = redis_password d"
    using gen_password_facts assms(2) by (auto simp: assms(1) draw_secrets_def)
  have v: "rv_auth_db r = auth_db_password d" "rv_user_db r = user_db_password d" "rv_redis_pw r = redis_password d"
    by (simp_all add: r prod_values_of_def)
  note found = reads redis_lookups database_lookups option.map redis_unquoted v q
  have "?fs AUTH_ENV = Some (env_text (prod_auth_env_lines r))" "?fs USER_ENV = Some (env_text (prod_user_env_lines r))"
    "?fs GATEWAY_ENV = Some (env_text (prod_gateway_env_all r))"
    by (simp_all add: env_paths)
  moreover have "''DATABASE_URL='' @ ''postgresql+asyncpg://auth_service:'' @ auth_db_password d @ ''@postgres-auth:5432/auth_service''
      \<in> set (dev_auth_env_lines d)"
    "''REDIS_URL='' @ ''redis://:'' @ redis_password d @ ''@redis:6379/0'' \<in> set (dev_auth_env_lines d)"
    by (simp_all add: dev_auth_env_lines_def)
  moreover have "''DATABASE_URL='' @ ''postgresql+asyncpg://user_service:'' @ user_db_password d @ ''@postgres-user:5432/user_service''
      \<in> set (dev_user_env_lines d)"
    "''REDIS_URL='' @ ''redis://:'' @ redis_password d @ ''@redis:6379/1'' \<in> set (dev_user_env_lines d)"
    by (simp_all add: dev_user_env_lines_def)
  moreover have "''REDIS_URL='' @ ''redis://:'' @ redis_password d @ ''@redis:6379/2'' \<in> set (dev_gateway_env_lines d)"
    by (simp add: dev_gateway_env_lines_def)
  moreover have "parse_dotenv (env_text (prod_auth_env_lines r)) ''DATABASE_URL'' =
      Some (''postgresql+asyncpg://auth_service:'' @ auth_db_password d @ ''@postgres-auth:5432/auth_service'')"
    "parse_dotenv (env_text (prod_auth_env_lines r)) ''REDIS_URL'' = Some (''redis://:'' @ redis_password d @ ''@redis:6379/0'')"
    "parse_dotenv (env_text (prod_user_env_lines r)) ''DATABASE_URL'' =
      Some (''postgresql+asyncpg://user_service:'' @ user_db_password d @ ''@postgres-user:5432/user_service'')"
    "parse_dotenv (env_text (prod_user_env_lines r)) ''REDIS_URL'' = Some (''redis://:'' @ redis_password d @ ''@redis:6379/1'')"
    "parse_dotenv (env_text (prod_gateway_env_all r)) ''REDIS_URL'' = Some (''redis://:'' @ redis_password d @ ''@redis:6379/2'')"
    by (simp_all only: found)
  ultimately show ?thesis using run by blast
qed

end
