(* ===== verification/Settings_Sources.thy ===== *)
theory Settings_Sources
  imports Settings
begin

text \<open>
  Where the settings come from: the \<open>Settings\<close> class of each service (\<open>core/config.py\<close>) as the list of its fields,
  with the environment variables that name them and their defaults, and \<open>Settings()\<close> as the function from the
  environment to validated settings or an error. The environment is a map from upper-case names to texts (names are
  compared without case, \<open>case_sensitive=False\<close>; \<open>extra="ignore"\<close> leaves every other name aside).
\<close>

section \<open>Fields\<close>

text \<open>
  How texts become numbers and flags is pydantic's, a parameter: \<open>read_int\<close> and \<open>read_bool\<close> fail on texts that are none.
\<close>

record text_readers =
  read_int :: "string \<Rightarrow> int option"
  read_bool :: "string \<Rightarrow> bool option"
  is_float :: "string \<Rightarrow> bool"

datatype field =
    TextField string
  | RequiredField string
  | IntField "string list"
  | BoolField string
  | FloatField string

text \<open>\<open>AliasChoices\<close>: the first name that is set (the lower-case one the classes add is the first without case).\<close>

fun env_lookup :: "(string \<rightharpoonup> string) \<Rightarrow> string list \<Rightarrow> string option" where
  "env_lookup env [] = None"
| "env_lookup env (k # ks) = (case env k of None \<Rightarrow> env_lookup env ks | Some v \<Rightarrow> Some v)"

fun field_error :: "text_readers \<Rightarrow> (string \<rightharpoonup> string) \<Rightarrow> field \<Rightarrow> string option" where
  "field_error rd env (TextField k) = None"
| "field_error rd env (RequiredField k) = (if env k = None then Some (k @ '': Field required'') else None)"
| "field_error rd env (IntField ks) =
     (case env_lookup env ks of None \<Rightarrow> None
      | Some v \<Rightarrow> if read_int rd v = None then Some (hd ks @ '': Input should be a valid integer'') else None)"
| "field_error rd env (BoolField k) =
     (case env k of None \<Rightarrow> None
      | Some v \<Rightarrow> if read_bool rd v = None then Some (k @ '': Input should be a valid boolean'') else None)"
| "field_error rd env (FloatField k) =
     (case env k of None \<Rightarrow> None
      | Some v \<Rightarrow> if is_float rd v then None else Some (k @ '': Input should be a valid number''))"

definition text_or :: "(string \<rightharpoonup> string) \<Rightarrow> string \<Rightarrow> string \<Rightarrow> string" where
  "text_or env k d = (case env k of None \<Rightarrow> d | Some v \<Rightarrow> v)"

definition csv_or_empty :: "(string \<rightharpoonup> string) \<Rightarrow> string \<Rightarrow> string list" where
  "csv_or_empty env k = (case env k of None \<Rightarrow> [] | Some v \<Rightarrow> parse_csv_env (CsvText v))"

definition int_or :: "text_readers \<Rightarrow> (string \<rightharpoonup> string) \<Rightarrow> string list \<Rightarrow> int \<Rightarrow> int" where
  "int_or rd env ks d = (case env_lookup env ks of None \<Rightarrow> d | Some v \<Rightarrow> the (read_int rd v))"

definition bool_opt :: "text_readers \<Rightarrow> (string \<rightharpoonup> string) \<Rightarrow> string \<Rightarrow> bool option" where
  "bool_opt rd env k = (case env k of None \<Rightarrow> None | Some v \<Rightarrow> read_bool rd v)"

definition bool_or :: "text_readers \<Rightarrow> (string \<rightharpoonup> string) \<Rightarrow> string \<Rightarrow> bool \<Rightarrow> bool" where
  "bool_or rd env k d = (case bool_opt rd env k of None \<Rightarrow> d | Some b \<Rightarrow> b)"

text \<open>The first field whose text is missing or malformed decides; the texts are converted only if there is none.\<close>

fun first_error :: "text_readers \<Rightarrow> (string \<rightharpoonup> string) \<Rightarrow> field list \<Rightarrow> string option" where
  "first_error rd env [] = None"
| "first_error rd env (f # fs) = (case field_error rd env f of Some e \<Rightarrow> Some e | None \<Rightarrow> first_error rd env fs)"

definition read_fields ::
  "text_readers \<Rightarrow> field list \<Rightarrow> (text_readers \<Rightarrow> (string \<rightharpoonup> string) \<Rightarrow> 'a) \<Rightarrow> (string \<rightharpoonup> string) \<Rightarrow> string + 'a" where
  "read_fields rd decl mk env = (case first_error rd env decl of Some e \<Rightarrow> Inl e | None \<Rightarrow> Inr (mk rd env))"

section \<open>The three classes\<close>

definition AUTH_FIELDS :: "field list" where
  "AUTH_FIELDS =
    [TextField ''SERVICE_NAME'', TextField ''SERVICE_ENV'', IntField [''SERVICE_PORT''],
     TextField ''CORS_ALLOWED_ORIGINS'', TextField ''TRUSTED_PROXY_IPS'', RequiredField ''DATABASE_URL'',
     RequiredField ''REDIS_URL'', TextField ''JWT_ALGORITHM'', TextField ''JWT_ISSUER'', TextField ''JWT_AUDIENCE'',
     IntField [''JWT_ACCESS_TTL_SECONDS''], IntField [''JWT_REFRESH_TTL_SECONDS''], RequiredField ''JWT_PRIVATE_KEY'',
     RequiredField ''JWT_PUBLIC_KEY'', RequiredField ''REFRESH_TOKEN_HASH_PEPPER'', RequiredField ''PRIVACY_KEY_PEPPER'',
     RequiredField ''PASSWORD_RESET_TOKEN_PEPPER'', TextField ''TOTP_ISSUER'', RequiredField ''TOTP_ENCRYPTION_KEY'',
     IntField [''TOTP_CODE_DIGITS''], IntField [''TOTP_INTERVAL_SECONDS''], IntField [''LOGIN_CHALLENGE_TTL_SECONDS''],
     IntField [''PASSWORD_RESET_TOKEN_TTL_SECONDS''], IntField [''RATE_LIMIT_LOGIN_PER_MINUTE''],
     IntField [''RATE_LIMIT_2FA_PER_MINUTE''], IntField [''RATE_LIMIT_2FA_SETUP_PER_MINUTE''],
     IntField [''RATE_LIMIT_REFRESH_PER_MINUTE''], IntField [''RATE_LIMIT_REVOKE_PER_MINUTE''],
     IntField [''RATE_LIMIT_REGISTER_PER_MINUTE''], IntField [''RATE_LIMIT_PASSWORD_RESET_PER_MINUTE''],
     IntField [''BRUTE_FORCE_LOGIN_MAX_ATTEMPTS'', ''LOGIN_MAX_FAILED_ATTEMPTS''],
     IntField [''BRUTE_FORCE_LOGIN_WINDOW_SECONDS''], IntField [''BRUTE_FORCE_LOGIN_LOCK_SECONDS''],
     IntField [''BRUTE_FORCE_2FA_MAX_ATTEMPTS''], IntField [''BRUTE_FORCE_2FA_WINDOW_SECONDS''],
     IntField [''BRUTE_FORCE_2FA_LOCK_SECONDS''],
     IntField [''BRUTE_FORCE_PASSWORD_RESET_MAX_ATTEMPTS'', ''RESET_CODE_MAX_FAILED_ATTEMPTS''],
     IntField [''BRUTE_FORCE_PASSWORD_RESET_WINDOW_SECONDS''], IntField [''BRUTE_FORCE_PASSWORD_RESET_LOCK_SECONDS''],
     TextField ''SMTP_HOST'', IntField [''SMTP_PORT''], TextField ''SMTP_USERNAME'', TextField ''SMTP_PASSWORD'',
     TextField ''SMTP_PASSWORD_FILE'', BoolField ''SMTP_REQUIRE_DELIVERY'', BoolField ''SMTP_USE_TLS'',
     TextField ''SMTP_FROM_EMAIL'', TextField ''SMTP_FROM_NAME'', BoolField ''AUTH_ALLOW_MISSING_SMTP'',
     TextField ''SUPPORT_EMAIL'', IntField [''ARGON2_TIME_COST''], IntField [''ARGON2_MEMORY_COST''],
     IntField [''ARGON2_PARALLELISM''], IntField [''ARGON2_HASH_LENGTH''], IntField [''ARGON2_SALT_LENGTH''],
     IntField [''HEALTH_TIMEOUT_SECONDS'']]"

definition auth_settings_of ::
  "text_readers \<Rightarrow> (string \<rightharpoonup> string) \<Rightarrow> auth_settings" where
  "auth_settings_of rd env =
     \<lparr>service_env = text_or env ''SERVICE_ENV'' ''development'',
      cors_allowed_origins = csv_or_empty env ''CORS_ALLOWED_ORIGINS'',
      trusted_proxy_ips = csv_or_empty env ''TRUSTED_PROXY_IPS'', redis_url = the (env ''REDIS_URL''),
      jwt_algorithm = text_or env ''JWT_ALGORITHM'' ''RS256'',
      jwt_issuer = text_or env ''JWT_ISSUER'' ''backend-platform'',
      jwt_audience = text_or env ''JWT_AUDIENCE'' ''backend-clients'', jwt_public_key = the (env ''JWT_PUBLIC_KEY''),
      privacy_key_pepper = the (env ''PRIVACY_KEY_PEPPER''), database_url = the (env ''DATABASE_URL''),
      jwt_access_ttl_seconds = int_or rd env [''JWT_ACCESS_TTL_SECONDS''] 900,
      jwt_refresh_ttl_seconds = int_or rd env [''JWT_REFRESH_TTL_SECONDS''] (60 * 60 * 24 * 30),
      jwt_private_key = the (env ''JWT_PRIVATE_KEY''),
      refresh_token_hash_pepper = the (env ''REFRESH_TOKEN_HASH_PEPPER''),
      password_reset_token_pepper = the (env ''PASSWORD_RESET_TOKEN_PEPPER''),
      totp_issuer = text_or env ''TOTP_ISSUER'' ''Backend Platform'',
      totp_encryption_key = the (env ''TOTP_ENCRYPTION_KEY''),
      totp_interval_seconds = int_or rd env [''TOTP_INTERVAL_SECONDS''] 30,
      login_challenge_ttl_seconds = int_or rd env [''LOGIN_CHALLENGE_TTL_SECONDS''] 300,
      password_reset_token_ttl_seconds = int_or rd env [''PASSWORD_RESET_TOKEN_TTL_SECONDS''] 900,
      rate_limit_login_per_minute = int_or rd env [''RATE_LIMIT_LOGIN_PER_MINUTE''] 10,
      rate_limit_2fa_per_minute = int_or rd env [''RATE_LIMIT_2FA_PER_MINUTE''] 10,
      rate_limit_2fa_setup_per_minute = int_or rd env [''RATE_LIMIT_2FA_SETUP_PER_MINUTE''] 5,
      rate_limit_refresh_per_minute = int_or rd env [''RATE_LIMIT_REFRESH_PER_MINUTE''] 30,
      rate_limit_revoke_per_minute = int_or rd env [''RATE_LIMIT_REVOKE_PER_MINUTE''] 30,
      rate_limit_register_per_minute = int_or rd env [''RATE_LIMIT_REGISTER_PER_MINUTE''] 5,
      rate_limit_password_reset_per_minute = int_or rd env [''RATE_LIMIT_PASSWORD_RESET_PER_MINUTE''] 5,
      brute_force_login_max_attempts = int_or rd env [''BRUTE_FORCE_LOGIN_MAX_ATTEMPTS'', ''LOGIN_MAX_FAILED_ATTEMPTS''] 3,
      brute_force_login_window_seconds = int_or rd env [''BRUTE_FORCE_LOGIN_WINDOW_SECONDS''] 300,
      brute_force_login_lock_seconds = int_or rd env [''BRUTE_FORCE_LOGIN_LOCK_SECONDS''] 900,
      brute_force_2fa_max_attempts = int_or rd env [''BRUTE_FORCE_2FA_MAX_ATTEMPTS''] 5,
      brute_force_2fa_window_seconds = int_or rd env [''BRUTE_FORCE_2FA_WINDOW_SECONDS''] 300,
      brute_force_2fa_lock_seconds = int_or rd env [''BRUTE_FORCE_2FA_LOCK_SECONDS''] 900,
      brute_force_password_reset_max_attempts = int_or rd env [''BRUTE_FORCE_PASSWORD_RESET_MAX_ATTEMPTS'', ''RESET_CODE_MAX_FAILED_ATTEMPTS''] 3,
      brute_force_password_reset_window_seconds = int_or rd env [''BRUTE_FORCE_PASSWORD_RESET_WINDOW_SECONDS''] 300,
      brute_force_password_reset_lock_seconds = int_or rd env [''BRUTE_FORCE_PASSWORD_RESET_LOCK_SECONDS''] 900,
      smtp_host = env ''SMTP_HOST'', smtp_port = int_or rd env [''SMTP_PORT''] 587,
      smtp_username = env ''SMTP_USERNAME'', smtp_password = env ''SMTP_PASSWORD'',
      smtp_password_file = env ''SMTP_PASSWORD_FILE'', smtp_require_delivery = bool_opt rd env ''SMTP_REQUIRE_DELIVERY'',
      smtp_use_tls = bool_or rd env ''SMTP_USE_TLS'' True, smtp_from_email = env ''SMTP_FROM_EMAIL'',
      smtp_from_name = env ''SMTP_FROM_NAME'',
      auth_allow_missing_smtp = bool_or rd env ''AUTH_ALLOW_MISSING_SMTP'' False, support_email = env ''SUPPORT_EMAIL''\<rparr>"

definition USER_FIELDS :: "field list" where
  "USER_FIELDS =
    [TextField ''SERVICE_NAME'', TextField ''SERVICE_ENV'', IntField [''SERVICE_PORT''],
     TextField ''CORS_ALLOWED_ORIGINS'', TextField ''TRUSTED_PROXY_IPS'', RequiredField ''DATABASE_URL'',
     RequiredField ''REDIS_URL'', TextField ''JWT_ALGORITHM'', TextField ''JWT_ISSUER'', TextField ''JWT_AUDIENCE'',
     RequiredField ''JWT_PUBLIC_KEY'', RequiredField ''PRIVACY_KEY_PEPPER'',
     IntField [''RATE_LIMIT_PROFILE_WRITE_PER_MINUTE''], IntField [''RATE_LIMIT_ROLES_WRITE_PER_MINUTE''],
     IntField [''HEALTH_TIMEOUT_SECONDS'']]"

definition user_settings_of ::
  "text_readers \<Rightarrow> (string \<rightharpoonup> string) \<Rightarrow> user_settings" where
  "user_settings_of rd env =
     \<lparr>service_env = text_or env ''SERVICE_ENV'' ''development'',
      cors_allowed_origins = csv_or_empty env ''CORS_ALLOWED_ORIGINS'',
      trusted_proxy_ips = csv_or_empty env ''TRUSTED_PROXY_IPS'', redis_url = the (env ''REDIS_URL''),
      jwt_algorithm = text_or env ''JWT_ALGORITHM'' ''RS256'',
      jwt_issuer = text_or env ''JWT_ISSUER'' ''backend-platform'',
      jwt_audience = text_or env ''JWT_AUDIENCE'' ''backend-clients'', jwt_public_key = the (env ''JWT_PUBLIC_KEY''),
      privacy_key_pepper = the (env ''PRIVACY_KEY_PEPPER''), user_database_url = the (env ''DATABASE_URL''),
      rate_limit_profile_write_per_minute = int_or rd env [''RATE_LIMIT_PROFILE_WRITE_PER_MINUTE''] 30,
      rate_limit_roles_write_per_minute = int_or rd env [''RATE_LIMIT_ROLES_WRITE_PER_MINUTE''] 10\<rparr>"

definition GATEWAY_FIELDS :: "field list" where
  "GATEWAY_FIELDS =
    [TextField ''SERVICE_NAME'', TextField ''SERVICE_ENV'', IntField [''SERVICE_PORT''],
     TextField ''CORS_ALLOWED_ORIGINS'', RequiredField ''REDIS_URL'', RequiredField ''AUTH_SERVICE_URL'',
     RequiredField ''USER_SERVICE_URL'', TextField ''NOTIFICATION_SERVICE_URL'', TextField ''JWT_ALGORITHM'',
     TextField ''JWT_ISSUER'', TextField ''JWT_AUDIENCE'', RequiredField ''JWT_PUBLIC_KEY'',
     RequiredField ''PRIVACY_KEY_PEPPER'', FloatField ''UPSTREAM_TIMEOUT_SECONDS'', TextField ''TRUSTED_PROXY_IPS'',
     IntField [''RATE_LIMIT_PUBLIC_AUTH_PER_MINUTE''], IntField [''RATE_LIMIT_PROTECTED_PER_MINUTE''],
     TextField ''REFRESH_COOKIE_NAME'', IntField [''REFRESH_COOKIE_MAX_AGE_SECONDS''],
     BoolField ''REFRESH_COOKIE_SECURE'']"

definition gateway_settings_of ::
  "text_readers \<Rightarrow> (string \<rightharpoonup> string) \<Rightarrow> gateway_settings" where
  "gateway_settings_of rd env =
     \<lparr>service_env = text_or env ''SERVICE_ENV'' ''development'',
      cors_allowed_origins = csv_or_empty env ''CORS_ALLOWED_ORIGINS'',
      trusted_proxy_ips = csv_or_empty env ''TRUSTED_PROXY_IPS'', redis_url = the (env ''REDIS_URL''),
      jwt_algorithm = text_or env ''JWT_ALGORITHM'' ''RS256'',
      jwt_issuer = text_or env ''JWT_ISSUER'' ''backend-platform'',
      jwt_audience = text_or env ''JWT_AUDIENCE'' ''backend-clients'', jwt_public_key = the (env ''JWT_PUBLIC_KEY''),
      privacy_key_pepper = the (env ''PRIVACY_KEY_PEPPER''), auth_service_url = the (env ''AUTH_SERVICE_URL''),
      user_service_url = the (env ''USER_SERVICE_URL''), notification_service_url = env ''NOTIFICATION_SERVICE_URL'',
      rate_limit_public_auth_per_minute = int_or rd env [''RATE_LIMIT_PUBLIC_AUTH_PER_MINUTE''] 30,
      rate_limit_protected_per_minute = int_or rd env [''RATE_LIMIT_PROTECTED_PER_MINUTE''] 120,
      refresh_cookie_name = text_or env ''REFRESH_COOKIE_NAME'' ''bp_rt'',
      refresh_cookie_max_age_seconds = int_or rd env [''REFRESH_COOKIE_MAX_AGE_SECONDS''] 2592000,
      refresh_cookie_secure = bool_opt rd env ''REFRESH_COOKIE_SECURE''\<rparr>"

section \<open>\<open>Settings()\<close>\<close>

definition auth_settings_from_env ::
  "text_readers \<Rightarrow> (string \<Rightarrow> bool) \<Rightarrow> (string \<Rightarrow> string option) \<Rightarrow> (string \<Rightarrow> string) \<Rightarrow> string \<Rightarrow>
   (string \<rightharpoonup> string) \<Rightarrow> string + auth_settings" where
  "auth_settings_from_env rd fernet_ok read_file resolve repo_root env =
     bind_sum (read_fields rd AUTH_FIELDS auth_settings_of env) (load_auth_settings fernet_ok read_file resolve repo_root)"

definition user_settings_from_env :: "text_readers \<Rightarrow> (string \<rightharpoonup> string) \<Rightarrow> string + user_settings" where
  "user_settings_from_env rd env = bind_sum (read_fields rd USER_FIELDS user_settings_of env) load_edge_settings"

definition gateway_settings_from_env :: "text_readers \<Rightarrow> (string \<rightharpoonup> string) \<Rightarrow> string + gateway_settings" where
  "gateway_settings_from_env rd env = bind_sum (read_fields rd GATEWAY_FIELDS gateway_settings_of env) load_edge_settings"

lemma first_error_None: "first_error rd env fs = None \<longleftrightarrow> list_all (\<lambda>f. field_error rd env f = None) fs"
  by (induction fs) (auto split: option.splits)

end
