(* ===== verification/Env_Settings.thy ===== *)
theory Env_Settings
  imports Env_Rendering Settings_Sources
begin

text \<open>
  The scripts and the settings together: the environment files \<^verbatim>\<open>generate_dev_env.py\<close> and
  \<^verbatim>\<open>render_prod_env_from_secrets.py\<close> write, read by the \<open>Settings\<close> classes of the services they are for. The reader of
  the files (python-dotenv) and pydantic's conversion of texts are parameters; what is relied on of them is stated first.
\<close>

section \<open>What the readers promise\<close>

text \<open>
  A value written as it is, when it needs no quotes, or between double quotes with its line feeds escaped. Texts with
  \<^verbatim>\<open>$\<close> (which the reader expands) and quotes or backslashes inside quotes are left out.
\<close>

definition plain_value :: "string \<Rightarrow> bool" where
  "plain_value v \<longleftrightarrow> one_line v \<and> strip v = v \<and> list_all (\<lambda>c. c \<notin> {CHR ''#'', CHR ''$''}) v \<and>
     (v \<noteq> [] \<longrightarrow> hd v \<notin> {QUOTE, APOSTROPHE})"

definition quoted_value :: "string \<Rightarrow> bool" where
  "quoted_value v \<longleftrightarrow> one_line (escape_multiline v) \<and> list_all (\<lambda>c. c \<notin> {QUOTE, BACKSLASH, CHR ''$''}) v"

inductive denotes :: "string \<Rightarrow> string \<Rightarrow> bool" where
  plain: "plain_value v \<Longrightarrow> denotes v v"
| quoted: "quoted_value v \<Longrightarrow> denotes (QUOTE # escape_multiline v @ [QUOTE]) v"

text \<open>A text of settings means the map from its keys to what their values denote.\<close>

definition dotenv_reader :: "(string \<Rightarrow> (string \<rightharpoonup> string)) \<Rightarrow> bool" where
  "dotenv_reader rd \<longleftrightarrow>
     (\<forall>ls. list_all env_line ls \<and> distinct (map fst (pairs ls)) \<and> (\<forall>(k, w) \<in> set (pairs ls). \<exists>v. denotes w v) \<longrightarrow>
       (\<forall>k. case map_of (pairs ls) k of
              None \<Rightarrow> rd (env_text (ls @ [[]])) k = None
            | Some w \<Rightarrow> \<forall>v. denotes w v \<longrightarrow> rd (env_text (ls @ [[]])) k = Some v))"

definition pydantic_texts :: "text_readers \<Rightarrow> bool" where
  "pydantic_texts rd \<longleftrightarrow>
     (\<forall>n. read_int rd (str_nat n) = Some (int n) \<and> is_float rd (str_nat n)) \<and>
     read_bool rd ''true'' = Some True \<and> read_bool rd ''false'' = Some False"

lemma dotenv_readerD:
  assumes "dotenv_reader rd" "list_all env_line ls" "distinct (map fst (pairs ls))"
    and "list_all (\<lambda>(k, w). \<exists>v. denotes w v) (pairs ls)"
  shows "map_of (pairs ls) k = Some w \<Longrightarrow> denotes w v \<Longrightarrow> rd (env_text (ls @ [[]])) k = Some v"
    and "map_of (pairs ls) k = None \<Longrightarrow> rd (env_text (ls @ [[]])) k = None"
proof -
  have "case map_of (pairs ls) k of None \<Rightarrow> rd (env_text (ls @ [[]])) k = None
      | Some w \<Rightarrow> \<forall>v. denotes w v \<longrightarrow> rd (env_text (ls @ [[]])) k = Some v"
    using assms unfolding dotenv_reader_def list_all_iff by blast
  then show "map_of (pairs ls) k = Some w \<Longrightarrow> denotes w v \<Longrightarrow> rd (env_text (ls @ [[]])) k = Some v"
    "map_of (pairs ls) k = None \<Longrightarrow> rd (env_text (ls @ [[]])) k = None"
    by (auto split: option.splits)
qed

section \<open>The values the scripts write\<close>

lemma plain_ends:
  assumes "v \<noteq> []" "one_line v" "list_all (\<lambda>c. c \<notin> {CHR ''#'', CHR ''$''}) v" "\<not> py_isspace (hd v)" "\<not> py_isspace (last v)"
    and "hd v \<notin> {QUOTE, APOSTROPHE}"
  shows "plain_value v"
  using assms by (simp add: plain_value_def strip_def strip_of_ends)

definition quotable :: "string \<Rightarrow> bool" where
  "quotable v \<longleftrightarrow> one_line v \<and> strip v = v \<and> list_all (\<lambda>c. c \<notin> {QUOTE, APOSTROPHE, BACKSLASH, CHR ''$''}) v"

lemma escape_one_line: "one_line v \<Longrightarrow> escape_multiline v = v"
  by (auto simp: escape_multiline_def one_line_def list_all_iff intro!: replace_sub_absent)

lemma quote_denotes:
  assumes "quotable v"
  shows "denotes (quote_env_value v) v"
proof -
  have v: "one_line v" "strip v = v" "QUOTE \<notin> set v" "APOSTROPHE \<notin> set v" "BACKSLASH \<notin> set v" "CHR ''$'' \<notin> set v"
    using assms by (auto simp: quotable_def list_all_iff)
  show ?thesis
  proof (cases "v \<noteq> [] \<and> list_ex (\<lambda>c. c \<in> {CHR '' '', QUOTE, LF, BACKSLASH, CHR ''#''}) v")
    case True
    then have "quote_env_value v = QUOTE # escape_multiline v @ [QUOTE]"
      using v by (simp add: quote_env_value_def replace_sub_absent escape_one_line)
    moreover have "quoted_value v" using v by (auto simp: quoted_value_def escape_one_line list_all_iff)
    ultimately show ?thesis by (simp add: denotes.quoted)
  next
    case False
    then have "quote_env_value v = v" by (auto simp: quote_env_value_def)
    moreover have "plain_value v"
    proof (cases v)
      case (Cons c cs)
      then have "CHR ''#'' \<notin> set v" using False by (auto simp: list_ex_iff)
      then show ?thesis unfolding plain_value_def using v(1,2,6) v(3,4)
        by (intro conjI impI) (auto simp: list_all_iff Cons)
    qed (simp add: plain_value_def strip_def strip_of_def lstrip_of_def rstrip_of_def)
    ultimately show ?thesis by (simp add: denotes.plain)
  qed
qed

lemma plain_consts [simp]: "plain_value []" "quotable []"
  by (simp_all add: plain_value_def quotable_def strip_def strip_of_def lstrip_of_def rstrip_of_def)

text \<open>The mail settings: whatever the sources, each value is one of these texts or a constant.\<close>

definition mail_texts :: "(string \<rightharpoonup> string) \<Rightarrow> files \<Rightarrow> string list" where
  "mail_texts compose fs = resolve_smtp_password compose fs #
     map (read_optional_one_line fs) [''secrets/smtp_host.txt'', ''secrets/smtp_username.txt'', ''secrets/smtp_from_email.txt'',
       ''secrets/smtp_from_name.txt'', ''secrets/smtp_identity_email.txt''] @
     map (compose_get compose) [''SMTP_HOST'', ''SMTP_USERNAME'', ''SMTP_FROM_EMAIL'', ''SMTP_FROM_NAME'', ''SUPPORT_EMAIL'']"

definition switched_off :: "string \<Rightarrow> bool" where
  "switched_off s \<longleftrightarrow> lower s \<in> {''false'', ''0'', ''no''}"

lemma quotable_const: "quotable ''smtp.gmail.com''" "quotable ''Backend Platform''"
  by (simp_all add: quotable_def is_linebreak_def strip_def strip_of_ends py_isspace_def)

definition quoted_mail :: "smtp_lines \<Rightarrow> smtp_lines" where
  "quoted_mail m = m\<lparr>sl_smtp_host := quote_env_value (sl_smtp_host m), sl_smtp_username := quote_env_value (sl_smtp_username m),
     sl_smtp_password := quote_env_value (sl_smtp_password m), sl_smtp_from_email := quote_env_value (sl_smtp_from_email m),
     sl_smtp_from_name := quote_env_value (sl_smtp_from_name m)\<rparr>"

definition resolved_mail :: "(string \<rightharpoonup> string) \<Rightarrow> files \<Rightarrow> smtp_lines \<Rightarrow> bool" where
  "resolved_mail compose fs m \<longleftrightarrow>
     list_all quotable [sl_smtp_host m, sl_smtp_username m, sl_smtp_password m, sl_smtp_from_email m, sl_smtp_from_name m] \<and>
     sl_smtp_password m = resolve_smtp_password compose fs \<and>
     sl_smtp_port m = py_or (compose_get compose ''SMTP_PORT'') ''587'' \<and>
     sl_smtp_require_delivery m = py_or (compose_get compose ''SMTP_REQUIRE_DELIVERY'') ''true'' \<and>
     (sl_smtp_use_tls m = ''true'' \<or> sl_smtp_use_tls m = ''false'') \<and>
     (sl_auth_allow_missing_smtp m = ''true'' \<or>
      sl_auth_allow_missing_smtp m = ''false'' \<and> sl_smtp_host m \<noteq> [] \<and>
        (sl_smtp_from_email m \<noteq> [] \<or> sl_smtp_username m \<noteq> []) \<and> sl_smtp_password m \<noteq> [])"

lemma smtp_resolved:
  assumes "list_all quotable (mail_texts compose fs)" "\<not> switched_off (compose_get compose ''AUTH_ALLOW_MISSING_SMTP'')"
  obtains m where "resolve_smtp_for_auth_env compose fs = quoted_mail m" "resolved_mail compose fs m"
proof -
  obtain host user sender name tls allow where m:
    "resolve_smtp_for_auth_env compose fs =
       \<lparr>sl_smtp_host = quote_env_value host, sl_smtp_port = py_or (compose_get compose ''SMTP_PORT'') ''587'',
        sl_smtp_username = quote_env_value user, sl_smtp_password = quote_env_value (resolve_smtp_password compose fs),
        sl_smtp_use_tls = tls, sl_smtp_from_email = quote_env_value sender, sl_smtp_from_name = quote_env_value name,
        sl_smtp_require_delivery = py_or (compose_get compose ''SMTP_REQUIRE_DELIVERY'') ''true'',
        sl_auth_allow_missing_smtp = allow\<rparr>"
    "list_all quotable [host, user, resolve_smtp_password compose fs, sender, name]" "tls \<in> {''true'', ''false''}"
    "allow = ''true'' \<or>
     allow = ''false'' \<and> host \<noteq> [] \<and> (sender \<noteq> [] \<or> user \<noteq> []) \<and> resolve_smtp_password compose fs \<noteq> []"
  proof (atomize_elim, unfold resolve_smtp_for_auth_env_def Let_def, intro exI conjI, rule refl, goal_cases)
    case 1
    then show ?case using assms(1) by (simp add: mail_texts_def py_or_def quotable_const)
  next
    case 2
    then show ?case by simp
  next
    case 3
    then show ?case using assms(2) by (simp add: switched_off_def)
  qed
  show thesis
  proof (rule that)
    let ?m = "\<lparr>sl_smtp_host = host, sl_smtp_port = py_or (compose_get compose ''SMTP_PORT'') ''587'', sl_smtp_username = user,
        sl_smtp_password = resolve_smtp_password compose fs, sl_smtp_use_tls = tls, sl_smtp_from_email = sender,
        sl_smtp_from_name = name, sl_smtp_require_delivery = py_or (compose_get compose ''SMTP_REQUIRE_DELIVERY'') ''true'',
        sl_auth_allow_missing_smtp = allow\<rparr>"
    show "resolve_smtp_for_auth_env compose fs = quoted_mail ?m" by (simp add: m(1) quoted_mail_def)
    show "resolved_mail compose fs ?m" using m(2-4) by (simp add: resolved_mail_def)
  qed
qed

section \<open>Reading the files back\<close>

text \<open>The one text a written value denotes.\<close>

fun unescape :: "string \<Rightarrow> string" where
  "unescape (a # b # s) = (if a = BACKSLASH \<and> b = CHR ''n'' then LF # unescape s else a # unescape (b # s))"
| "unescape s = s"

definition written_value :: "string \<Rightarrow> string" where
  "written_value w = (if w \<noteq> [] \<and> hd w = QUOTE then unescape (butlast (tl w)) else w)"

lemma escape_Cons: "escape_multiline (c # v) = (if c = LF then [BACKSLASH, CHR ''n''] else [c]) @ escape_multiline v"
  unfolding escape_multiline_def by (subst replace_sub.simps) (simp add: startswith_def)

lemma escape_Nil [simp]: "escape_multiline [] = []"
  unfolding escape_multiline_def by (subst replace_sub.simps) simp

lemma unescape_escape: "BACKSLASH \<notin> set v \<Longrightarrow> unescape (escape_multiline v) = v"
proof (induction v)
  case (Cons c v)
  show ?case
  proof (cases "c = LF")
    case False
    then show ?thesis using Cons by (cases "escape_multiline v") (auto simp: escape_Cons)
  qed (use Cons in \<open>simp add: escape_Cons\<close>)
qed simp

lemma written_value:
  "plain_value v \<Longrightarrow> written_value v = v" "quoted_value v \<Longrightarrow> written_value (QUOTE # escape_multiline v @ [QUOTE]) = v"
  "denotes w v \<Longrightarrow> written_value w = v"
proof -
  show "plain_value v \<Longrightarrow> written_value v = v" for v by (auto simp: written_value_def plain_value_def)
  moreover show "quoted_value v \<Longrightarrow> written_value (QUOTE # escape_multiline v @ [QUOTE]) = v" for v
    by (auto simp: written_value_def quoted_value_def list_all_iff intro!: unescape_escape)
  ultimately show "denotes w v \<Longrightarrow> written_value w = v" by (auto elim: denotes.cases)
qed

lemma env_lookups:
  assumes "dotenv_reader rd" "list_all env_line (butlast ls)" "distinct (map fst (pairs (butlast ls)))"
    and "list_all (\<lambda>(k, w). \<exists>v. denotes w v) (pairs (butlast ls))" "ls \<noteq> []" "last ls = []"
  shows "rd (env_text ls) = (\<lambda>k. map_option written_value (map_of (pairs (butlast ls)) k))"
proof
  fix k
  have ls: "butlast ls @ [[]] = ls" using append_butlast_last_id [OF assms(5)] assms(6) by simp
  note read = dotenv_readerD [OF assms(1-4), unfolded ls]
  show "rd (env_text ls) k = map_option written_value (map_of (pairs (butlast ls)) k)"
  proof (cases "map_of (pairs (butlast ls)) k")
    case (Some w)
    then obtain v where "denotes w v" using assms(4) map_of_SomeD by (fastforce simp: list_all_iff)
    then show ?thesis using read(1) Some written_value(3) by auto
  qed (simp add: read(2))
qed

lemma read_lines:
  assumes "dotenv_reader rd" "list_all env_line ls" "distinct (map fst (pairs ls))"
    and "list_all (\<lambda>(k, w). \<exists>v. denotes w v) (pairs ls)"
  shows "rd (env_text (ls @ [[]])) k = map_option written_value (map_of (pairs ls) k)"
  using env_lookups [of rd "ls @ [[]]"] assms by simp

lemma denotes_one_line: "denotes w v \<Longrightarrow> one_line w"
  by (cases rule: denotes.cases) (auto simp: plain_value_def quoted_value_def is_linebreak_def)

lemma readable_lines:
  assumes "list_all env_line ls" "list_all (\<lambda>(k, w). \<exists>v. denotes w v) (pairs ls)"
  shows "splitlines (env_text (ls @ [[]])) = ls" "list_all one_line ls"
proof -
  have "one_line l" if l: "l \<in> set ls" for l
  proof (cases "l = []")
    case False
    then have k: "env_key (before_eq l)" "l = before_eq l @ CHR ''='' # after_eq l"
      using assms(1) l before_after by (auto simp: list_all_iff env_line_def)
    have "(before_eq l, after_eq l) \<in> set (pairs ls)" using l False by (auto simp: pairs_def)
    then have "one_line (after_eq l)" using assms(2) denotes_one_line by (fastforce simp: list_all_iff)
    moreover have "one_line (before_eq l)" using k(1)
      by (auto simp: env_key_def one_line_def list_all_iff key_char_def is_linebreak_def is_digit_def)
    ultimately show ?thesis by (subst k(2)) (simp add: is_linebreak_def)
  qed simp
  then show one: "list_all one_line ls" by (simp add: list_all_iff)
  then show "splitlines (env_text (ls @ [[]])) = ls" using env_text_lines [of "ls @ [[]]"] by simp
qed

lemma quote_plus_chars: "c \<in> set (quote_plus s) \<Longrightarrow> unreserved c \<or> c \<in> {CHR ''+'', CHR ''%''}"
proof -
  have "unreserved c" if "c \<in> set (upper (to_hex 2 b))" for b
  proof -
    obtain d where "d \<in> set (to_hex 2 b)" "c = upper_char d" using \<open>c \<in> set (upper (to_hex 2 b))\<close> by (auto simp: upper_def)
    moreover from this(1) have "is_lower_hex d" by (rule set_to_hex)
    ultimately show ?thesis
      by (auto simp: unreserved_def is_lower_hex_def upper_char_def is_digit_def is_ascii_letter_def)
  qed
  then show "c \<in> set (quote_plus s) \<Longrightarrow> ?thesis" unfolding quote_plus_def by (auto split: if_splits)
qed

lemma plain_address:
  assumes "x \<noteq> []" "y \<noteq> []" "plain_value x" "plain_value y"
    and "\<not> py_isspace (hd x)" "\<not> py_isspace (last y)"
  shows "plain_value (x @ quote_plus q @ y)"
proof (rule plain_ends)
  have "\<not> (unreserved c \<or> c \<in> {CHR ''+'', CHR ''%''})" if "c \<in> {CHR ''#'', CHR ''$''}" for c
    using that by (auto simp: unreserved_def is_digit_def is_ascii_letter_def)
  then have "c \<notin> {CHR ''#'', CHR ''$''}" if "c \<in> set (quote_plus q)" for c
    using quote_plus_chars [OF that] by metis
  then have "list_all (\<lambda>c. c \<notin> {CHR ''#'', CHR ''$''}) (quote_plus q)"
    unfolding list_all_iff by simp
  then show "list_all (\<lambda>c. c \<notin> {CHR ''#'', CHR ''$''}) (x @ quote_plus q @ y)" using assms by (simp add: plain_value_def)
qed (use assms one_line_quote_plus in \<open>simp_all add: plain_value_def\<close>)

text \<open>The lines of the three rendered files, when the values in them can be read back.\<close>

lemma denotes_ex: "plain_value w \<Longrightarrow> \<exists>v. denotes w v" "quoted_value v \<Longrightarrow> \<exists>u. denotes (QUOTE # escape_multiline v @ [QUOTE]) u"
  by (auto intro: denotes.intros)

lemma plain_word: "v \<noteq> [] \<Longrightarrow> list_all (\<lambda>c. 33 \<le> ordc c \<and> ordc c < 127 \<and> c \<notin> {QUOTE, APOSTROPHE, CHR ''#'', CHR ''$''}) v \<Longrightarrow> plain_value v"
proof (rule plain_ends)
  assume v: "v \<noteq> []" and cs: "list_all (\<lambda>c. 33 \<le> ordc c \<and> ordc c < 127 \<and> c \<notin> {QUOTE, APOSTROPHE, CHR ''#'', CHR ''$''}) v"
  have c: "\<not> is_linebreak c \<and> \<not> py_isspace c" if "33 \<le> ordc c" "ordc c < 127" for c
    using that by (simp add: is_linebreak_def py_isspace_def)
  show "one_line v" using cs c by (simp add: one_line_def list_all_iff)
  show "\<not> py_isspace (hd v)" "\<not> py_isspace (last v)" "hd v \<notin> {QUOTE, APOSTROPHE}"
    using cs c v by (simp_all add: list_all_iff)
qed (simp_all add: list_all_iff)

definition readable_values :: "prod_values \<Rightarrow> bool" where
  "readable_values r \<longleftrightarrow>
     list_all plain_value [rv_cors r, rv_refresh_pepper r, rv_privacy_pepper r, rv_reset_pepper r, rv_totp_key r, rv_login_max r,
       rv_reset_max r, rv_refresh_secure r, sl_smtp_port (rv_smtp r), sl_smtp_use_tls (rv_smtp r),
       sl_smtp_require_delivery (rv_smtp r), sl_auth_allow_missing_smtp (rv_smtp r)] \<and>
     quoted_value (rv_priv_pem r) \<and> quoted_value (rv_pub_pem r) \<and>
     list_all (\<lambda>w. \<exists>v. denotes w v) [rv_support_email r, sl_smtp_host (rv_smtp r), sl_smtp_username (rv_smtp r),
       sl_smtp_password (rv_smtp r), sl_smtp_from_email (rv_smtp r), sl_smtp_from_name (rv_smtp r)]"

lemma prod_readable:
  assumes "readable_values r"
  shows "list_all (\<lambda>(k, w). \<exists>v. denotes w v) (pairs (butlast (prod_auth_env_lines r)))"
    "list_all (\<lambda>(k, w). \<exists>v. denotes w v) (pairs (butlast (prod_user_env_lines r)))"
    "list_all (\<lambda>(k, w). \<exists>v. denotes w v) (pairs (butlast (prod_gateway_env_all r)))"
proof -
  have "plain_value (''postgresql+asyncpg://auth_service:'' @ quote_plus q @ ''@postgres-auth:5432/auth_service'')"
    "plain_value (''postgresql+asyncpg://user_service:'' @ quote_plus q @ ''@postgres-user:5432/user_service'')"
    "plain_value (''redis://:'' @ quote_plus q @ ''@redis:6379/0'')" "plain_value (''redis://:'' @ quote_plus q @ ''@redis:6379/1'')"
    "plain_value (''redis://:'' @ quote_plus q @ ''@redis:6379/2'')" for q
    by (rule plain_address; simp add: plain_word py_isspace_def)+
  note urls = this [simplified]
  have "plain_value ''Backend Platform''"
    by (rule plain_ends) (simp_all add: is_linebreak_def py_isspace_def)
  note facts = denotes_ex urls this plain_word
  show "list_all (\<lambda>(k, w). \<exists>v. denotes w v) (pairs (butlast (prod_auth_env_lines r)))"
    using assms by (simp add: prod_auth_pairs readable_values_def facts)
  show "list_all (\<lambda>(k, w). \<exists>v. denotes w v) (pairs (butlast (prod_user_env_lines r)))"
    using assms by (simp add: prod_user_pairs readable_values_def facts)
  show "list_all (\<lambda>(k, w). \<exists>v. denotes w v) (pairs (butlast (prod_gateway_env_all r)))"
    using assms by (simp add: prod_gateway_pairs readable_values_def facts)
qed

lemma prod_env_maps:
  assumes "dotenv_reader rd" "readable_values r"
  shows "rd (env_text (prod_auth_env_lines r)) = (\<lambda>k. map_option written_value (map_of (pairs (butlast (prod_auth_env_lines r))) k))"
    "rd (env_text (prod_user_env_lines r)) = (\<lambda>k. map_option written_value (map_of (pairs (butlast (prod_user_env_lines r))) k))"
    "rd (env_text (prod_gateway_env_all r)) = (\<lambda>k. map_option written_value (map_of (pairs (butlast (prod_gateway_env_all r))) k))"
proof -
  have "prod_auth_env_lines r \<noteq> []" "last (prod_auth_env_lines r) = []" "prod_user_env_lines r \<noteq> []" "last (prod_user_env_lines r) = []"
    "prod_gateway_env_all r \<noteq> []" "last (prod_gateway_env_all r) = []"
    by (simp_all add: prod_auth_env_lines_def prod_user_env_lines_def prod_gateway_env_all_def prod_gateway_env_lines_def)
  note env = env_lookups [OF assms(1)] and ok = this prod_env_lines [of r] prod_pairs [of r] prod_readable [OF assms(2)]
  show "rd (env_text (prod_auth_env_lines r)) = (\<lambda>k. map_option written_value (map_of (pairs (butlast (prod_auth_env_lines r))) k))"
    by (rule env) (rule ok)+
  show "rd (env_text (prod_user_env_lines r)) = (\<lambda>k. map_option written_value (map_of (pairs (butlast (prod_user_env_lines r))) k))"
    by (rule env) (rule ok)+
  show "rd (env_text (prod_gateway_env_all r)) = (\<lambda>k. map_option written_value (map_of (pairs (butlast (prod_gateway_env_all r))) k))"
    by (rule env) (rule ok)+
qed

section \<open>Settings the services accept\<close>

lemma split_on_word: "c \<notin> set w \<Longrightarrow> split_on c w = [w]"
  by (induction w) auto

lemma split_on_append: "c \<notin> set w \<Longrightarrow> split_on c (w @ c # s) = w # split_on c s"
  by (induction w) auto

lemma split_on_join: "list_all (\<lambda>w. c \<notin> set w) ws \<Longrightarrow> ws \<noteq> [] \<Longrightarrow> split_on c (join_with [c] ws) = ws"
  by (induction ws rule: induct_list012) (auto simp: split_on_word split_on_append)

lemma split_on_parts: "w \<in> set (split_on c s) \<Longrightarrow> c \<notin> set w"
  by (induction s arbitrary: w) (auto split: if_splits list.splits)

text \<open>The list of origins survives the joining by the script and the parsing by the service.\<close>

lemma origins_survive: "parse_csv_env (CsvText (join_origins s)) = parse_csv_env (CsvText s)"
proof -
  let ?ws = "filter (\<lambda>p. p \<noteq> []) (map strip (split_on (CHR '','') s))"
  have ws: "list_all (\<lambda>w. CHR '','' \<notin> set w) ?ws"
    using split_on_parts set_strip by (fastforce simp: list_all_iff)
  have "map strip ?ws = ?ws" by (rule map_idI) auto
  then have same: "filter (\<lambda>p. p \<noteq> []) (map strip ?ws) = ?ws" by (simp only: filter_filter) simp
  have empty: "strip [] = []" by (simp add: strip_def strip_of_def lstrip_of_def rstrip_of_def)
  show ?thesis
  proof (cases "?ws = []")
    case True
    then show ?thesis by (simp add: join_origins_def empty)
  next
    case False
    then show ?thesis using split_on_join [OF ws False] same by (simp add: join_origins_def)
  qed
qed

lemma stripped_not_blank: "strip v = v \<Longrightarrow> v \<noteq> [] \<Longrightarrow> normalize_smtp_secret v \<noteq> []"
proof -
  assume v: "strip v = v" "v \<noteq> []"
  have "strip v = []" if "\<forall>c \<in> set v. py_isspace c"
  proof -
    have "dropWhile py_isspace v = []" using that by simp
    then show ?thesis by (simp add: strip_def strip_of_def lstrip_of_def rstrip_of_def del: dropWhile_eq_Nil_conv)
  qed
  then show ?thesis using v by (auto simp: normalize_smtp_secret_def filter_empty_conv)
qed

lemma mail_validators_frame:
  "base_settings.truncate (load_smtp_password_from_file rf rs root st) = base_settings.truncate st"
  "base_settings.truncate (apply_smtp_ec2_defaults rf root st) = base_settings.truncate st"
  by (simp_all add: load_smtp_password_from_file_def apply_smtp_ec2_defaults_def Let_def base_settings.defs split: option.split)

lemma mail_validators_keep:
  "jwt_private_key (load_smtp_password_from_file rf rs root st) = jwt_private_key st"
  "auth_allow_missing_smtp (load_smtp_password_from_file rf rs root st) = auth_allow_missing_smtp st"
  "database_url (load_smtp_password_from_file rf rs root st) = database_url st"
  "jwt_access_ttl_seconds (load_smtp_password_from_file rf rs root st) = jwt_access_ttl_seconds st"
  "jwt_private_key (apply_smtp_ec2_defaults rf root st) = jwt_private_key st"
  "auth_allow_missing_smtp (apply_smtp_ec2_defaults rf root st) = auth_allow_missing_smtp st"
  "database_url (apply_smtp_ec2_defaults rf root st) = database_url st"
  "jwt_access_ttl_seconds (apply_smtp_ec2_defaults rf root st) = jwt_access_ttl_seconds st"
  by (simp_all add: load_smtp_password_from_file_def apply_smtp_ec2_defaults_def Let_def split: option.split)

definition mail_ready :: "auth_settings \<Rightarrow> bool" where
  "mail_ready st \<longleftrightarrow>
     (\<exists>h. smtp_host st = Some h \<and> strip h \<noteq> []) \<and>
     (\<exists>m. (smtp_from_email st = Some m \<or> smtp_username st = Some m) \<and> strip m \<noteq> []) \<and>
     (\<exists>pw. smtp_password st = Some pw \<and> normalize_smtp_secret pw \<noteq> [] \<and>
       upper (normalize_smtp_secret pw) \<notin> set (map upper SMTP_PASSWORD_PLACEHOLDERS))"

lemma complete_mail_settings_kept:
  "\<not> falsy (smtp_host st) \<Longrightarrow> \<not> falsy (smtp_username st) \<or> \<not> falsy (smtp_from_email st) \<Longrightarrow> apply_smtp_ec2_defaults rf root st = st"
  unfolding apply_smtp_ec2_defaults_def Let_def
  by (cases "falsy (smtp_username st)"; cases "falsy (smtp_from_email st)"; simp only: simp_thms if_False)

lemma mail_ready_configured:
  assumes "mail_ready st"
  shows "smtp_is_configured (apply_smtp_ec2_defaults rf root (load_smtp_password_from_file rf rs root (normalize_auth_fields alg st)))"
proof -
  obtain h m pw where h: "smtp_host st = Some h" "strip h \<noteq> []" and m: "smtp_from_email st = Some m \<or> smtp_username st = Some m" "strip m \<noteq> []"
    and pw: "smtp_password st = Some pw" "normalize_smtp_secret pw \<noteq> []"
      "upper (normalize_smtp_secret pw) \<notin> set (map upper SMTP_PASSWORD_PLACEHOLDERS)"
    using assms unfolding mail_ready_def by blast
  have "strip [] = []" by (simp add: strip_def strip_of_def lstrip_of_def rstrip_of_def)
  then have ne: "h \<noteq> []" "m \<noteq> []" using h(2) m(2) by auto
  let ?st = "normalize_auth_fields alg st"
  have st: "smtp_host ?st = Some h" "smtp_password ?st = Some pw" "smtp_from_email ?st = Some m \<or> smtp_username ?st = Some m"
    using h m pw by (auto simp: normalize_auth_fields_def blank_smtp_strings_to_none_def)
  have loaded: "load_smtp_password_from_file rf rs root ?st = ?st"
    using st(2) pw(2) by (simp add: load_smtp_password_from_file_def)
  have kept: "apply_smtp_ec2_defaults rf root ?st = ?st"
    by (rule complete_mail_settings_kept) (use st ne in \<open>auto simp: falsy_def or_empty_def\<close>)
  have "smtp_password_value ?st = Some (normalize_smtp_secret pw)"
    using st(2) pw by (simp add: smtp_password_value_def Let_def)
  moreover have "\<not> falsy (smtp_from_email_value ?st)"
    using st(3) ne(2) by (auto simp: smtp_from_email_value_def falsy_def or_empty_def split: option.split)
  ultimately show ?thesis unfolding loaded kept smtp_is_configured_def
    using st(1) ne(1) pw(2) by (simp add: falsy_def or_empty_def)
qed

lemma auth_accepted:
  assumes "service_env st \<in> {''development'', ''production''}" "jwt_algorithm st = ''RS256''"
    and "list_all (\<lambda>p. 32 \<le> length p) [refresh_token_hash_pepper st, privacy_key_pepper st, password_reset_token_pepper st]"
    and "fernet_ok (totp_encryption_key st)"
    and "service_env st = ''production'' \<Longrightarrow> cors_allowed_origins st \<noteq> [] \<and> ''*'' \<notin> set (cors_allowed_origins st) \<and>
      contains_sub ''BEGIN'' (jwt_private_key st) \<and> contains_sub ''BEGIN'' (jwt_public_key st) \<and>
      (auth_allow_missing_smtp st \<or> mail_ready st)"
  obtains st' where "load_auth_settings fernet_ok rf rs root st = Inr st'" "base_settings.truncate st' = base_settings.truncate st"
    "jwt_private_key st' = jwt_private_key st" "jwt_access_ttl_seconds st' = jwt_access_ttl_seconds st" "database_url st' = database_url st"
proof -
  let ?n = "normalize_auth_fields ''RS256'' st"
  let ?st = "apply_smtp_ec2_defaults rf root (load_smtp_password_from_file rf rs root ?n)"
  have n: "base_settings.truncate ?n = base_settings.truncate st" "jwt_private_key ?n = jwt_private_key st"
    "auth_allow_missing_smtp ?n = auth_allow_missing_smtp st" "jwt_access_ttl_seconds ?n = jwt_access_ttl_seconds st"
    "database_url ?n = database_url st"
    using assms(2) by (simp_all add: normalize_auth_fields_def base_settings.defs)
  have t: "base_settings.truncate ?st = base_settings.truncate st" by (simp add: mail_validators_frame n)
  then have b: "service_env ?st = service_env st" "jwt_algorithm ?st = ''RS256''" "cors_allowed_origins ?st = cors_allowed_origins st"
    "jwt_public_key ?st = jwt_public_key st"
    using assms(2) by (simp_all add: base_settings.defs)
  have alg: "validate_jwt_algorithm ''RS256'' = Inr ''RS256''" by code_simp
  have "smtp_is_configured ?st" if "mail_ready st" by (rule mail_ready_configured [OF that])
  then have "validate_deployed_security_auth ?st = Inr ?st"
    using assms(1,5) unfolding validate_deployed_security_auth_Inr
    by (auto simp: deployed_def b mail_validators_keep n startswith_def)
  then have "load_auth_settings fernet_ok rf rs root st = Inr ?st"
    using assms(1-4) alg
    by (auto simp: load_auth_settings_def bind_sum_def validate_service_env_def validate_pepper_length_def validate_totp_key_def MIN_SECRET_LENGTH_def)
  then show thesis by (rule that) (simp_all only: t mail_validators_keep n)
qed

lemma edge_accepted:
  assumes "service_env st \<in> {''development'', ''production''}" "jwt_algorithm st = ''RS256''" "32 \<le> length (privacy_key_pepper st)"
    and "service_env st = ''production'' \<Longrightarrow> cors_allowed_origins st \<noteq> [] \<and> ''*'' \<notin> set (cors_allowed_origins st) \<and>
      contains_sub ''BEGIN'' (jwt_public_key st)"
  shows "load_edge_settings st = Inr st"
proof -
  have alg: "validate_jwt_algorithm ''RS256'' = Inr ''RS256''" by code_simp
  have same: "st\<lparr>jwt_algorithm := ''RS256''\<rparr> = st" using assms(2) by (cases st) simp
  have "load_edge_settings st = validate_deployed_security_edge (st\<lparr>jwt_algorithm := ''RS256''\<rparr>)"
    using assms(1-3) alg
    by (auto simp: load_edge_settings_def bind_sum_def validate_service_env_def validate_privacy_pepper_length_def MIN_SECRET_LENGTH_def)
  also have "\<dots> = Inr st"
    unfolding same using assms unfolding validate_deployed_security_edge_Inr by (auto simp: deployed_def startswith_def)
  finally show ?thesis .
qed

section \<open>A rendered stack starts\<close>

text \<open>
  What the operator has to provide: origins without a wildcard, PEM keys, peppers of at least 32 characters, a valid Fernet key,
  numbers and flags that are ones, no placeholder for the mail password, and no texts the quoting does not carry.
\<close>

definition compose_values :: "string option \<Rightarrow> files \<Rightarrow> (string \<rightharpoonup> string)" where
  "compose_values ce fs = parse_dotenv (read_file fs (case ce of None \<Rightarrow> COMPOSE_ENV | Some p \<Rightarrow> p))"

definition deployable_inputs :: "text_readers \<Rightarrow> (string \<Rightarrow> bool) \<Rightarrow> string option \<Rightarrow> string \<Rightarrow> files \<Rightarrow> bool" where
  "deployable_inputs rd fernet_ok ce cors fs \<longleftrightarrow>
     (let compose = compose_values ce fs; secret = (\<lambda>n. read_stripped fs (''secrets/'' @ n)) in
      plain_value (join_origins cors) \<and> parse_csv_env (CsvText cors) \<noteq> [] \<and> ''*'' \<notin> set (parse_csv_env (CsvText cors)) \<and>
      list_all (\<lambda>n. quoted_value (secret n) \<and> contains_sub ''BEGIN'' (secret n)) [''jwt_private.pem'', ''jwt_public.pem''] \<and>
      list_all (\<lambda>n. plain_value (secret n) \<and> 32 \<le> length (secret n))
        [''refresh_token_pepper.txt'', ''privacy_key_pepper.txt'', ''password_reset_pepper.txt''] \<and>
      plain_value (secret ''totp_fernet.key'') \<and> fernet_ok (secret ''totp_fernet.key'') \<and>
      list_all quotable (mail_texts compose fs) \<and>
      upper (normalize_smtp_secret (resolve_smtp_password compose fs)) \<notin> set (map upper SMTP_PASSWORD_PLACEHOLDERS) \<and>
      \<not> switched_off (compose_get compose ''AUTH_ALLOW_MISSING_SMTP'') \<and>
      list_all (\<lambda>k. compose_get compose k \<noteq> [] \<longrightarrow> plain_value (compose_get compose k) \<and> read_int rd (compose_get compose k) \<noteq> None)
        [''SMTP_PORT'', ''LOGIN_MAX_FAILED_ATTEMPTS'', ''BRUTE_FORCE_LOGIN_MAX_ATTEMPTS'', ''RESET_CODE_MAX_FAILED_ATTEMPTS'',
         ''BRUTE_FORCE_PASSWORD_RESET_MAX_ATTEMPTS''] \<and>
      list_all (\<lambda>k. compose_get compose k \<noteq> [] \<longrightarrow> plain_value (compose_get compose k) \<and> read_bool rd (compose_get compose k) \<noteq> None)
        [''SMTP_REQUIRE_DELIVERY'', ''REFRESH_COOKIE_SECURE''])"

lemma number_texts:
  assumes "pydantic_texts rd"
  shows "read_int rd ''8000'' = Some 8000" "read_int rd ''8001'' = Some 8001" "read_int rd ''8002'' = Some 8002"
    "read_int rd ''900'' = Some 900" "read_int rd ''2592000'' = Some 2592000" "read_int rd ''6'' = Some 6" "read_int rd ''30'' = Some 30"
    "read_int rd ''300'' = Some 300" "read_int rd ''587'' = Some 587" "read_int rd ''10'' = Some 10" "read_int rd ''5'' = Some 5"
    "read_int rd ''3'' = Some 3" "read_int rd ''65536'' = Some 65536" "read_int rd ''4'' = Some 4" "read_int rd ''32'' = Some 32"
    "read_int rd ''16'' = Some 16" "read_int rd ''120'' = Some 120" "is_float rd ''10''" "read_bool rd ''true'' = Some True"
    "read_bool rd ''false'' = Some False"
proof -
  have n: "read_int rd s = Some (int m) \<and> is_float rd s" if "str_nat m = s" for m s
    using assms that by (auto simp: pydantic_texts_def)
  have s: "str_nat 8000 = ''8000''" "str_nat 8001 = ''8001''" "str_nat 8002 = ''8002''" "str_nat 900 = ''900''"
    "str_nat 2592000 = ''2592000''" "str_nat 6 = ''6''" "str_nat 30 = ''30''" "str_nat 300 = ''300''" "str_nat 587 = ''587''"
    "str_nat 10 = ''10''" "str_nat 5 = ''5''" "str_nat 3 = ''3''" "str_nat 65536 = ''65536''" "str_nat 4 = ''4''"
    "str_nat 32 = ''32''" "str_nat 16 = ''16''" "str_nat 120 = ''120''"
    by (simp_all add: str_nat.simps char_of_def bit_iff_odd)
  show "read_int rd ''8000'' = Some 8000" "read_int rd ''8001'' = Some 8001" "read_int rd ''8002'' = Some 8002"
    "read_int rd ''900'' = Some 900" "read_int rd ''2592000'' = Some 2592000" "read_int rd ''6'' = Some 6" "read_int rd ''30'' = Some 30"
    "read_int rd ''300'' = Some 300" "read_int rd ''587'' = Some 587" "read_int rd ''10'' = Some 10" "read_int rd ''5'' = Some 5"
    "read_int rd ''3'' = Some 3" "read_int rd ''65536'' = Some 65536" "read_int rd ''4'' = Some 4" "read_int rd ''32'' = Some 32"
    "read_int rd ''16'' = Some 16" "read_int rd ''120'' = Some 120" "is_float rd ''10''"
    using s [THEN n] by simp_all
  show "read_bool rd ''true'' = Some True" "read_bool rd ''false'' = Some False" using assms by (simp_all add: pydantic_texts_def)
qed

lemma plain_or: "(v \<noteq> [] \<longrightarrow> plain_value v) \<Longrightarrow> plain_value d \<Longrightarrow> plain_value (py_or v d)"
  by (simp add: py_or_def)

lemma prod_inputs_readable:
  assumes "deployable_inputs rd fernet_ok ce cors fs" "r = prod_values_of cors (compose_values ce fs) a u p fs"
  shows "readable_values r"
proof -
  let ?c = "compose_values ce fs"
  note inputs = assms(1) [unfolded deployable_inputs_def Let_def]
  obtain m where smtp: "resolve_smtp_for_auth_env ?c fs = quoted_mail m" "resolved_mail ?c fs m"
    by (rule smtp_resolved [of ?c fs]) (use inputs in simp_all)
  have words: "plain_value ''true''" "plain_value ''false''" "plain_value ''587''" "plain_value ''3''"
    by (rule plain_word; simp)+
  have "quotable (compose_get ?c ''SUPPORT_EMAIL'')" using inputs by (simp add: mail_texts_def)
  then have "\<exists>v. denotes (rv_support_email r) v"
    using quote_denotes by (fastforce simp: assms(2) prod_values_of_def Let_def intro: denotes.plain)
  moreover have "\<exists>v. denotes (quote_env_value w) v" if "quotable w" for w using quote_denotes [OF that] by blast
  moreover have "quotable (resolve_smtp_password ?c fs)" using inputs by (simp add: mail_texts_def)
  moreover have "plain_value (sl_auth_allow_missing_smtp m)" "plain_value (sl_smtp_use_tls m)"
    using smtp(2) words by (auto simp: resolved_mail_def)
  moreover have "plain_value (py_or (py_or (compose_get ?c k) (compose_get ?c k')) ''3'')"
    if "compose_get ?c k \<noteq> [] \<longrightarrow> plain_value (compose_get ?c k)" "compose_get ?c k' \<noteq> [] \<longrightarrow> plain_value (compose_get ?c k')" for k k'
    using that words by (simp add: py_or_def)
  moreover have "plain_value (compose_get ?c ''REFRESH_COOKIE_SECURE'')"
    using inputs by (cases "compose_get ?c ''REFRESH_COOKIE_SECURE'' = []") simp_all
  ultimately show ?thesis
    using inputs smtp(2) words unfolding readable_values_def assms(2) prod_values_of_def prod_values.simps smtp(1)
    by (simp add: plain_or quoted_mail_def resolved_mail_def)
qed

lemma written_mail:
  "plain_value v \<Longrightarrow> written_value v = v" "quotable v \<Longrightarrow> written_value (quote_env_value v) = v"
  using written_value quote_denotes by auto

lemma written_word: "v \<noteq> [] \<Longrightarrow> hd v \<noteq> QUOTE \<Longrightarrow> written_value v = v" "written_value [] = []"
  by (simp_all add: written_value_def)

text \<open>The map a text means, entry by entry.\<close>

lemma env_entries:
  assumes "env = (\<lambda>k. map_option written_value (map_of ps k))" "distinct (map fst ps)"
  shows "list_all (\<lambda>(k, w). env k = Some (written_value w)) ps"
  using map_of_is_SomeI [OF assms(2)] by (auto simp: assms(1) list_all_iff)

lemma rendered_texts:
  assumes "pydantic_texts rd" "deployable_inputs rd fernet_ok ce cors fs" "r = prod_values_of cors (compose_values ce fs) a u p fs"
    and "rv_smtp r = quoted_mail m" "resolved_mail (compose_values ce fs) fs m"
  shows "read_int rd (written_value (rv_login_max r)) \<noteq> None" "read_int rd (written_value (rv_reset_max r)) \<noteq> None"
    "read_int rd (written_value (sl_smtp_port (rv_smtp r))) \<noteq> None"
    "read_bool rd (written_value (sl_smtp_require_delivery (rv_smtp r))) \<noteq> None"
    "read_bool rd (written_value (sl_smtp_use_tls (rv_smtp r))) \<noteq> None"
    "read_bool rd (written_value (sl_auth_allow_missing_smtp (rv_smtp r))) \<noteq> None"
    "rv_refresh_secure r \<noteq> [] \<longrightarrow> read_bool rd (written_value (rv_refresh_secure r)) \<noteq> None"
proof -
  let ?c = "compose_values ce fs"
  note inputs = assms(2) [unfolded deployable_inputs_def Let_def] and numbers = number_texts [OF assms(1)]
  have int: "read_int rd (written_value (py_or (py_or (compose_get ?c k) (compose_get ?c k')) d)) \<noteq> None"
    if "list_all (\<lambda>k. compose_get ?c k \<noteq> [] \<longrightarrow> plain_value (compose_get ?c k) \<and> read_int rd (compose_get ?c k) \<noteq> None) [k, k']"
      "d \<in> {''3'', ''587''}"
    for k k' d using that by (auto simp: py_or_def written_mail written_word numbers)
  have "py_or v v = v" for v by (simp add: py_or_def)
  note port = int [of "''SMTP_PORT''" "''SMTP_PORT''" "''587''", unfolded this]
  have flag: "read_bool rd (written_value w) \<noteq> None" if "w = ''true'' \<or> w = ''false''" for w
    using that by (auto simp: written_word numbers)
  have given: "read_bool rd (written_value (py_or (compose_get ?c k) ''true'')) \<noteq> None"
    if "compose_get ?c k \<noteq> [] \<longrightarrow> plain_value (compose_get ?c k) \<and> read_bool rd (compose_get ?c k) \<noteq> None" for k
    using that flag [of "''true''"] by (auto simp: py_or_def written_mail)
  note m = assms(5) [unfolded resolved_mail_def]
  show "read_int rd (written_value (rv_login_max r)) \<noteq> None" "read_int rd (written_value (rv_reset_max r)) \<noteq> None"
    unfolding assms(3) prod_values_of_def prod_values.simps by (rule int; use inputs in simp)+
  have q: "sl_smtp_port (quoted_mail m) = sl_smtp_port m" "sl_smtp_require_delivery (quoted_mail m) = sl_smtp_require_delivery m"
    "sl_smtp_use_tls (quoted_mail m) = sl_smtp_use_tls m" "sl_auth_allow_missing_smtp (quoted_mail m) = sl_auth_allow_missing_smtp m"
    by (simp_all add: quoted_mail_def)
  show "read_int rd (written_value (sl_smtp_port (rv_smtp r))) \<noteq> None"
    "read_bool rd (written_value (sl_smtp_require_delivery (rv_smtp r))) \<noteq> None"
    unfolding assms(4) q m [THEN conjunct2, THEN conjunct2, THEN conjunct1] m [THEN conjunct2, THEN conjunct2, THEN conjunct2, THEN conjunct1]
    by (rule port given; use inputs in simp)+
  show "read_bool rd (written_value (sl_smtp_use_tls (rv_smtp r))) \<noteq> None"
    "read_bool rd (written_value (sl_auth_allow_missing_smtp (rv_smtp r))) \<noteq> None"
    unfolding assms(4) q by (rule flag; use m in blast)+
  show "rv_refresh_secure r \<noteq> [] \<longrightarrow> read_bool rd (written_value (rv_refresh_secure r)) \<noteq> None"
    unfolding assms(3) prod_values_of_def prod_values.simps using inputs by (auto simp: written_mail)
qed

lemma rendered_auth_fields:
  assumes "pydantic_texts rd" "deployable_inputs rd fernet_ok ce cors fs" "r = prod_values_of cors (compose_values ce fs) a u p fs"
    and "env = (\<lambda>k. map_option written_value (map_of (pairs (butlast (prod_auth_env_lines r))) k))"
  shows "first_error rd env AUTH_FIELDS = None" "auth_allow_missing_smtp (auth_settings_of rd env) \<or> mail_ready (auth_settings_of rd env)"
proof -
  let ?c = "compose_values ce fs"
  note inputs = assms(2) [unfolded deployable_inputs_def Let_def]
  obtain m where smtp: "resolve_smtp_for_auth_env ?c fs = quoted_mail m" and m: "resolved_mail ?c fs m"
    by (rule smtp_resolved [of ?c fs]) (use inputs in simp_all)
  have r: "rv_smtp r = quoted_mail m" by (simp add: assms(3) prod_values_of_def smtp)
  note texts = rendered_texts [OF assms(1-3) r m] and numbers = number_texts [OF assms(1)]
  note entries = env_entries [OF assms(4) prod_pairs(1), unfolded prod_auth_pairs list.pred_inject prod.case]
  have "map_of (pairs (butlast (prod_auth_env_lines r))) k = None"
    if "k \<in> {''RATE_LIMIT_2FA_SETUP_PER_MINUTE'', ''RATE_LIMIT_REVOKE_PER_MINUTE'', ''HEALTH_TIMEOUT_SECONDS''}" for k
    using that unfolding prod_auth_pairs by (elim insertE emptyE; simp)
  then have absent: "env ''RATE_LIMIT_2FA_SETUP_PER_MINUTE'' = None" "env ''RATE_LIMIT_REVOKE_PER_MINUTE'' = None"
    "env ''HEALTH_TIMEOUT_SECONDS'' = None"
    by (simp_all add: assms(4))
  show "first_error rd env AUTH_FIELDS = None"
    unfolding first_error_None AUTH_FIELDS_def
    by (simp add: entries absent written_word numbers texts [simplified])
  have mail: "env ''AUTH_ALLOW_MISSING_SMTP'' = Some (sl_auth_allow_missing_smtp m)" "env ''SMTP_HOST'' = Some (sl_smtp_host m)"
    "env ''SMTP_USERNAME'' = Some (sl_smtp_username m)" "env ''SMTP_PASSWORD'' = Some (sl_smtp_password m)"
    "env ''SMTP_FROM_EMAIL'' = Some (sl_smtp_from_email m)"
    using m by (auto simp: entries r quoted_mail_def resolved_mail_def written_mail written_word)
  have strips: "strip v = v" if "v \<in> {sl_smtp_host m, sl_smtp_username m, sl_smtp_password m, sl_smtp_from_email m}" for v
    using m that by (auto simp: resolved_mail_def quotable_def)
  show "auth_allow_missing_smtp (auth_settings_of rd env) \<or> mail_ready (auth_settings_of rd env)"
  proof (cases "sl_auth_allow_missing_smtp m = ''true''")
    case True
    then show ?thesis using mail(1) numbers by (simp add: auth_settings_of_def bool_or_def bool_opt_def)
  next
    case False
    then have ready: "sl_smtp_host m \<noteq> []" "sl_smtp_from_email m \<noteq> [] \<or> sl_smtp_username m \<noteq> []" "sl_smtp_password m \<noteq> []"
      and pw: "sl_smtp_password m = resolve_smtp_password ?c fs" using m by (auto simp: resolved_mail_def)
    have "normalize_smtp_secret (sl_smtp_password m) \<noteq> []" by (rule stripped_not_blank [OF strips ready(3)]) simp
    moreover have "upper (normalize_smtp_secret (sl_smtp_password m)) \<notin> set (map upper SMTP_PASSWORD_PLACEHOLDERS)"
      using inputs pw by simp
    ultimately have "mail_ready (auth_settings_of rd env)"
      using ready strips unfolding mail_ready_def auth_settings_of_def auth_settings.simps mail by (metis insertCI)
    then show ?thesis ..
  qed
qed

lemma rendered_edge_fields:
  assumes "pydantic_texts rd" "rv_refresh_secure r \<noteq> [] \<longrightarrow> read_bool rd (written_value (rv_refresh_secure r)) \<noteq> None"
  shows "env = (\<lambda>k. map_option written_value (map_of (pairs (butlast (prod_user_env_lines r))) k)) \<Longrightarrow> first_error rd env USER_FIELDS = None"
    "env = (\<lambda>k. map_option written_value (map_of (pairs (butlast (prod_gateway_env_all r))) k)) \<Longrightarrow> first_error rd env GATEWAY_FIELDS = None"
proof -
  note numbers = number_texts [OF assms(1)]
  show "first_error rd env USER_FIELDS = None"
    if e: "env = (\<lambda>k. map_option written_value (map_of (pairs (butlast (prod_user_env_lines r))) k))"
  proof -
    have "env ''HEALTH_TIMEOUT_SECONDS'' = None" by (simp add: e prod_user_pairs)
    then show ?thesis using env_entries [OF e prod_pairs(2)]
      unfolding first_error_None USER_FIELDS_def by (simp add: prod_user_pairs written_word numbers)
  qed
  show "first_error rd env GATEWAY_FIELDS = None"
    if e: "env = (\<lambda>k. map_option written_value (map_of (pairs (butlast (prod_gateway_env_all r))) k))"
  proof -
    have "env ''REFRESH_COOKIE_MAX_AGE_SECONDS'' = None"
      "env ''REFRESH_COOKIE_SECURE'' = (if rv_refresh_secure r \<noteq> [] then Some (written_value (rv_refresh_secure r)) else None)"
      by (simp_all add: e prod_gateway_pairs)
    then show ?thesis using env_entries [OF e prod_pairs(3)] assms(2)
      unfolding first_error_None GATEWAY_FIELDS_def
      by (cases "rv_refresh_secure r = []"; force simp: prod_gateway_pairs written_word numbers)
  qed
qed

lemma render_result:
  assumes "render_prod_env ce cors fs = Inr fs'"
  obtains a u p r where "r = prod_values_of cors (compose_values ce fs) a u p fs"
    "fs' = fs(AUTH_ENV \<mapsto> env_text (prod_auth_env_lines r), USER_ENV \<mapsto> env_text (prod_user_env_lines r),
      GATEWAY_ENV \<mapsto> env_text (prod_gateway_env_all r))"
  using assms by (rule render_cases) (auto simp: compose_values_def intro: that)

text \<open>The values every service of the stack gets.\<close>

lemma rendered_common:
  assumes "deployable_inputs rd fernet_ok ce cors fs" "r = prod_values_of cors (compose_values ce fs) a u p fs"
  shows "written_value (rv_cors r) = join_origins cors"
    "written_value (QUOTE # escape_multiline (rv_pub_pem r) @ [QUOTE]) = read_stripped fs ''secrets/jwt_public.pem''"
    "written_value (QUOTE # escape_multiline (rv_priv_pem r) @ [QUOTE]) = read_stripped fs ''secrets/jwt_private.pem''"
    "written_value (rv_privacy_pepper r) = read_stripped fs ''secrets/privacy_key_pepper.txt''"
    "written_value (rv_refresh_pepper r) = read_stripped fs ''secrets/refresh_token_pepper.txt''"
    "written_value (rv_reset_pepper r) = read_stripped fs ''secrets/password_reset_pepper.txt''"
    "written_value (rv_totp_key r) = read_stripped fs ''secrets/totp_fernet.key''"
  using assms(1) unfolding deployable_inputs_def Let_def by (simp_all add: assms(2) prod_values_of_def written_value)

text \<open>What each class makes of its file.\<close>

definition rendered_base :: "string \<Rightarrow> files \<Rightarrow> 'a base_settings_scheme \<Rightarrow> bool" where
  "rendered_base cors fs st \<longleftrightarrow>
     base_settings.truncate st =
       \<lparr>service_env = ''production'', cors_allowed_origins = parse_csv_env (CsvText cors), trusted_proxy_ips = [''172.16.0.0/12''],
        redis_url = redis_url st, jwt_algorithm = ''RS256'', jwt_issuer = ''backend-platform'', jwt_audience = ''backend-clients'',
        jwt_public_key = read_stripped fs ''secrets/jwt_public.pem'',
        privacy_key_pepper = read_stripped fs ''secrets/privacy_key_pepper.txt''\<rparr>"

lemma proxy_range: "parse_csv_env (CsvText ''172.16.0.0/12'') = [''172.16.0.0/12'']"
  by (simp add: strip_def strip_of_ends py_isspace_def)

lemma rendered_settings:
  assumes "deployable_inputs rd fernet_ok ce cors fs" "r = prod_values_of cors (compose_values ce fs) a u p fs"
  shows "env = (\<lambda>k. map_option written_value (map_of (pairs (butlast (prod_auth_env_lines r))) k)) \<Longrightarrow>
      rendered_base cors fs (auth_settings_of rd env) \<and>
      redis_url (auth_settings_of rd env) = ''redis://:'' @ quote_plus (rv_redis_pw r) @ ''@redis:6379/0'' \<and>
      jwt_private_key (auth_settings_of rd env) = read_stripped fs ''secrets/jwt_private.pem'' \<and>
      refresh_token_hash_pepper (auth_settings_of rd env) = read_stripped fs ''secrets/refresh_token_pepper.txt'' \<and>
      password_reset_token_pepper (auth_settings_of rd env) = read_stripped fs ''secrets/password_reset_pepper.txt'' \<and>
      totp_encryption_key (auth_settings_of rd env) = read_stripped fs ''secrets/totp_fernet.key'' \<and>
      jwt_access_ttl_seconds (auth_settings_of rd env) = the (read_int rd ''900'')"
    and "env = (\<lambda>k. map_option written_value (map_of (pairs (butlast (prod_user_env_lines r))) k)) \<Longrightarrow>
      rendered_base cors fs (user_settings_of rd env) \<and>
      redis_url (user_settings_of rd env) = ''redis://:'' @ quote_plus (rv_redis_pw r) @ ''@redis:6379/1''"
    and "env = (\<lambda>k. map_option written_value (map_of (pairs (butlast (prod_gateway_env_all r))) k)) \<Longrightarrow>
      rendered_base cors fs (gateway_settings_of rd env) \<and>
      redis_url (gateway_settings_of rd env) = ''redis://:'' @ quote_plus (rv_redis_pw r) @ ''@redis:6379/2''"
proof -
  note common = rendered_common [OF assms] and words = written_word(1) [of "x # xs" for x xs, simplified]
  show "rendered_base cors fs (auth_settings_of rd env) \<and>
      redis_url (auth_settings_of rd env) = ''redis://:'' @ quote_plus (rv_redis_pw r) @ ''@redis:6379/0'' \<and>
      jwt_private_key (auth_settings_of rd env) = read_stripped fs ''secrets/jwt_private.pem'' \<and>
      refresh_token_hash_pepper (auth_settings_of rd env) = read_stripped fs ''secrets/refresh_token_pepper.txt'' \<and>
      password_reset_token_pepper (auth_settings_of rd env) = read_stripped fs ''secrets/password_reset_pepper.txt'' \<and>
      totp_encryption_key (auth_settings_of rd env) = read_stripped fs ''secrets/totp_fernet.key'' \<and>
      jwt_access_ttl_seconds (auth_settings_of rd env) = the (read_int rd ''900'')"
    if e: "env = (\<lambda>k. map_option written_value (map_of (pairs (butlast (prod_auth_env_lines r))) k))"
    using env_entries [OF e prod_pairs(1), unfolded prod_auth_pairs list.pred_inject prod.case]
    by (simp add: rendered_base_def base_settings.defs auth_settings_of_def text_or_def csv_or_empty_def int_or_def words common
        origins_survive proxy_range del: parse_csv_env.simps)
  show "rendered_base cors fs (user_settings_of rd env) \<and>
      redis_url (user_settings_of rd env) = ''redis://:'' @ quote_plus (rv_redis_pw r) @ ''@redis:6379/1''"
    if e: "env = (\<lambda>k. map_option written_value (map_of (pairs (butlast (prod_user_env_lines r))) k))"
    using env_entries [OF e prod_pairs(2), unfolded prod_user_pairs list.pred_inject prod.case]
    by (simp add: rendered_base_def base_settings.defs user_settings_of_def text_or_def csv_or_empty_def words common
        origins_survive proxy_range del: parse_csv_env.simps)
  show "rendered_base cors fs (gateway_settings_of rd env) \<and>
      redis_url (gateway_settings_of rd env) = ''redis://:'' @ quote_plus (rv_redis_pw r) @ ''@redis:6379/2''"
    if e: "env = (\<lambda>k. map_option written_value (map_of (pairs (butlast (prod_gateway_env_all r))) k))"
    using env_entries [OF e prod_pairs(3)]
    by (simp add: prod_gateway_pairs rendered_base_def base_settings.defs gateway_settings_of_def text_or_def csv_or_empty_def words common
        origins_survive proxy_range del: parse_csv_env.simps)
qed

lemma rendered_base_facts:
  assumes "rendered_base cors fs st"
  shows "service_env st = ''production''" "jwt_algorithm st = ''RS256''" "cors_allowed_origins st = parse_csv_env (CsvText cors)"
    "jwt_public_key st = read_stripped fs ''secrets/jwt_public.pem''"
    "privacy_key_pepper st = read_stripped fs ''secrets/privacy_key_pepper.txt''"
  using assms by (simp_all add: rendered_base_def base_settings.defs)

text \<open>
  C38: a rendered stack starts. When the operator's inputs are in order, the three files \<open>render_prod_env_from_secrets.py\<close> writes are
  read by the three services without an error, as production settings. The services then agree on the token algorithm, issuer, audience
  and public key, the privacy pepper, the allowed origins (the ones given on the command line) and the trusted proxies, the auth-service
  signs with the private key of the secrets, and the caches are three different databases of one server.
\<close>

theorem rendered_stack_starts:
  assumes "render_prod_env ce cors fs = Inr fs'" "deployable_inputs rd fernet_ok ce cors fs"
    and "dotenv_reader rd_env" "pydantic_texts rd"
  shows "\<exists>a u g sa su sg q.
    fs' = fs(AUTH_ENV \<mapsto> a, USER_ENV \<mapsto> u, GATEWAY_ENV \<mapsto> g) \<and>
    auth_settings_from_env rd fernet_ok rf resolve root (rd_env a) = Inr sa \<and>
    user_settings_from_env rd (rd_env u) = Inr su \<and> gateway_settings_from_env rd (rd_env g) = Inr sg \<and>
    rendered_base cors fs sa \<and> rendered_base cors fs su \<and> rendered_base cors fs sg \<and>
    jwt_private_key sa = read_stripped fs ''secrets/jwt_private.pem'' \<and> jwt_access_ttl_seconds sa = 900 \<and>
    [redis_url sa, redis_url su, redis_url sg] = map (\<lambda>n. ''redis://:'' @ q @ ''@redis:6379/'' @ n) [''0'', ''1'', ''2'']"
proof -
  obtain a u p r where r: "r = prod_values_of cors (compose_values ce fs) a u p fs"
    and fs': "fs' = fs(AUTH_ENV \<mapsto> env_text (prod_auth_env_lines r), USER_ENV \<mapsto> env_text (prod_user_env_lines r),
      GATEWAY_ENV \<mapsto> env_text (prod_gateway_env_all r))"
    using assms(1) by (rule render_result)
  note inputs = assms(2) [unfolded deployable_inputs_def Let_def list.pred_inject]
  note maps = prod_env_maps [OF assms(3) prod_inputs_readable [OF assms(2) r]]
  let ?sa = "auth_settings_of rd (rd_env (env_text (prod_auth_env_lines r)))"
    and ?su = "user_settings_of rd (rd_env (env_text (prod_user_env_lines r)))"
    and ?sg = "gateway_settings_of rd (rd_env (env_text (prod_gateway_env_all r)))"
  note auth = rendered_settings(1) [OF assms(2) r maps(1)] and user = rendered_settings(2) [OF assms(2) r maps(2)]
    and gate = rendered_settings(3) [OF assms(2) r maps(3)]
  note sa = rendered_base_facts [OF auth [THEN conjunct1]]
    and su = rendered_base_facts [OF user [THEN conjunct1]] and sg = rendered_base_facts [OF gate [THEN conjunct1]]
  note auth_read = rendered_auth_fields [OF assms(4,2) r maps(1)]
  obtain st where st: "load_auth_settings fernet_ok rf resolve root ?sa = Inr st" "base_settings.truncate st = base_settings.truncate ?sa"
    "jwt_private_key st = jwt_private_key ?sa" "jwt_access_ttl_seconds st = jwt_access_ttl_seconds ?sa"
    by (rule auth_accepted [where st = ?sa and fernet_ok = fernet_ok and rf = rf and rs = resolve and root = root]) (use auth auth_read(2) inputs in \<open>simp_all add: sa\<close>)
  have secure: "rv_refresh_secure r \<noteq> [] \<longrightarrow> read_bool rd (written_value (rv_refresh_secure r)) \<noteq> None"
    using inputs by (simp add: r prod_values_of_def written_mail)
  note edge = rendered_edge_fields [OF assms(4) secure]
  have "load_edge_settings ?su = Inr ?su" "load_edge_settings ?sg = Inr ?sg"
    by (rule edge_accepted; use inputs in \<open>simp add: su sg\<close>)+
  then have loaded: "auth_settings_from_env rd fernet_ok rf resolve root (rd_env (env_text (prod_auth_env_lines r))) = Inr st"
    "user_settings_from_env rd (rd_env (env_text (prod_user_env_lines r))) = Inr ?su"
    "gateway_settings_from_env rd (rd_env (env_text (prod_gateway_env_all r))) = Inr ?sg"
    using st(1) auth_read(1) edge(1) [OF maps(2)] edge(2) [OF maps(3)]
    by (simp_all add: auth_settings_from_env_def user_settings_from_env_def gateway_settings_from_env_def read_fields_def bind_sum_def)
  have "redis_url st = redis_url ?sa" using st(2) by (simp add: base_settings.defs)
  moreover from this have "rendered_base cors fs st" using auth st(2) by (simp add: rendered_base_def)
  moreover have "jwt_access_ttl_seconds st = 900" using st(4) auth by (simp add: number_texts [OF assms(4)])
  ultimately show ?thesis using fs' loaded st(3) auth user gate
    by (intro exI [where x = "env_text (prod_auth_env_lines r)"] exI [where x = "env_text (prod_user_env_lines r)"]
        exI [where x = "env_text (prod_gateway_env_all r)"] exI [where x = st] exI [where x = ?su] exI [where x = ?sg]
        exI [where x = "quote_plus (rv_redis_pw r)"]) simp
qed

end
