(* ===== verification/Generated_Settings.thy ===== *)
theory Generated_Settings
  imports Env_Settings
begin

text \<open>
  A development stack: the files \<^verbatim>\<open>generate_dev_env.py\<close> writes on a first run, read by the \<open>Settings\<close> classes of the three
  services; and a mail password that is still the placeholder of the example file, which the rendering script takes for one
  and the auth-service does not.
\<close>

section \<open>Generated secrets\<close>

lemma length_b64: "3 dvd length bs \<Longrightarrow> 3 * length (b64 bs) = 4 * length bs"
proof (induction bs rule: b64.induct)
  case (4 a b c bs)
  have "length (a # b # c # bs) = length bs + 3" by simp
  then have "3 dvd length bs" using 4(2) by presburger
  then show ?case using 4(1) by simp
qed (auto dest: dvd_imp_le)

lemma plain_unreserved: "v \<noteq> [] \<Longrightarrow> list_all (\<lambda>c. unreserved c \<or> c = CHR ''='') v \<Longrightarrow> plain_value v"
proof (rule plain_word)
  assume v: "list_all (\<lambda>c. unreserved c \<or> c = CHR ''='') v"
  have "33 \<le> ordc c \<and> ordc c < 127 \<and> c \<notin> {QUOTE, APOSTROPHE, CHR ''#'', CHR ''$''}" if "unreserved c \<or> c = CHR ''=''" for c
    using that by (auto simp: unreserved_def is_ascii_letter_def is_digit_def)
  then show "list_all (\<lambda>c. 33 \<le> ordc c \<and> ordc c < 127 \<and> c \<notin> {QUOTE, APOSTROPHE, CHR ''#'', CHR ''$''}) v"
    using v by (simp add: list_all_iff)
qed simp

lemma generated_secret:
  assumes "length bs = 48" "\<forall>b \<in> set bs. b < 256"
  shows "plain_value (gen_secret bs)" "32 \<le> length (gen_secret bs)"
proof -
  have n: "length (gen_secret bs) = 64" using length_b64 [of bs] assms(1) by (simp add: gen_secret_def)
  then show "32 \<le> length (gen_secret bs)" by simp
  obtain core k where "b64 bs = core @ replicate k (CHR ''='')" "list_all unreserved core" using b64_shape [OF assms(2)] by blast
  then have "list_all (\<lambda>c. unreserved c \<or> c = CHR ''='') (gen_secret bs)" by (auto simp: gen_secret_def list_all_iff)
  then show "plain_value (gen_secret bs)" using n by (intro plain_unreserved) auto
qed

section \<open>The generated files\<close>

lemma dev_auth_texts:
  "pairs (butlast (dev_auth_env_lines d)) =
     [(''SERVICE_NAME'', ''auth-service''), (''SERVICE_ENV'', ''development''), (''SERVICE_PORT'', ''8001''),
      (''CORS_ALLOWED_ORIGINS'', ''http://localhost:3000,http://localhost:8000''),
      (''TRUSTED_PROXY_IPS'', ''172.16.0.0/12''),
      (''DATABASE_URL'', ''postgresql+asyncpg://auth_service:'' @ auth_db_password d @ ''@postgres-auth:5432/auth_service''),
      (''REDIS_URL'', ''redis://:'' @ redis_password d @ ''@redis:6379/0''), (''JWT_ALGORITHM'', ''RS256''),
      (''JWT_ISSUER'', ''backend-platform''), (''JWT_AUDIENCE'', ''backend-clients''),
      (''JWT_ACCESS_TTL_SECONDS'', ''900''), (''JWT_REFRESH_TTL_SECONDS'', ''2592000''),
      (''JWT_PRIVATE_KEY'', [QUOTE] @ escape_multiline (private_pem d) @ [QUOTE]),
      (''JWT_PUBLIC_KEY'', [QUOTE] @ escape_multiline (public_pem d) @ [QUOTE]),
      (''REFRESH_TOKEN_HASH_PEPPER'', refresh_pepper d), (''PRIVACY_KEY_PEPPER'', auth_privacy_pepper d),
      (''PASSWORD_RESET_TOKEN_PEPPER'', reset_pepper d), (''TOTP_ISSUER'', ''Backend Platform''),
      (''TOTP_ENCRYPTION_KEY'', fernet_key d), (''TOTP_CODE_DIGITS'', ''6''), (''TOTP_INTERVAL_SECONDS'', ''30''),
      (''LOGIN_CHALLENGE_TTL_SECONDS'', ''300''), (''PASSWORD_RESET_TOKEN_TTL_SECONDS'', ''900''), (''SMTP_HOST'', []),
      (''SMTP_PORT'', ''587''), (''SMTP_USERNAME'', []), (''SMTP_PASSWORD'', []), (''SMTP_USE_TLS'', ''true''),
      (''SMTP_FROM_EMAIL'', []), (''RATE_LIMIT_LOGIN_PER_MINUTE'', ''10''), (''RATE_LIMIT_2FA_PER_MINUTE'', ''10''),
      (''RATE_LIMIT_REFRESH_PER_MINUTE'', ''30''), (''RATE_LIMIT_REGISTER_PER_MINUTE'', ''5''),
      (''RATE_LIMIT_PASSWORD_RESET_PER_MINUTE'', ''5''), (''BRUTE_FORCE_LOGIN_MAX_ATTEMPTS'', ''5''),
      (''BRUTE_FORCE_LOGIN_WINDOW_SECONDS'', ''300''), (''BRUTE_FORCE_LOGIN_LOCK_SECONDS'', ''900''),
      (''BRUTE_FORCE_2FA_MAX_ATTEMPTS'', ''5''), (''BRUTE_FORCE_2FA_WINDOW_SECONDS'', ''300''),
      (''BRUTE_FORCE_2FA_LOCK_SECONDS'', ''900''), (''BRUTE_FORCE_PASSWORD_RESET_MAX_ATTEMPTS'', ''5''),
      (''BRUTE_FORCE_PASSWORD_RESET_WINDOW_SECONDS'', ''300''), (''BRUTE_FORCE_PASSWORD_RESET_LOCK_SECONDS'', ''900''),
      (''ARGON2_TIME_COST'', ''3''), (''ARGON2_MEMORY_COST'', ''65536''), (''ARGON2_PARALLELISM'', ''4''),
      (''ARGON2_HASH_LENGTH'', ''32''), (''ARGON2_SALT_LENGTH'', ''16'')]"
  by (simp add: dev_auth_env_lines_def pairs_def before_eq_def after_eq_def)

lemma dev_user_pairs:
  "pairs (butlast (dev_user_env_lines d)) =
     [(''SERVICE_NAME'', ''user-service''), (''SERVICE_ENV'', ''development''), (''SERVICE_PORT'', ''8002''),
      (''CORS_ALLOWED_ORIGINS'', ''http://localhost:3000,http://localhost:8000''),
      (''TRUSTED_PROXY_IPS'', ''172.16.0.0/12''),
      (''DATABASE_URL'', ''postgresql+asyncpg://user_service:'' @ user_db_password d @ ''@postgres-user:5432/user_service''),
      (''REDIS_URL'', ''redis://:'' @ redis_password d @ ''@redis:6379/1''), (''JWT_ALGORITHM'', ''RS256''),
      (''JWT_ISSUER'', ''backend-platform''), (''JWT_AUDIENCE'', ''backend-clients''),
      (''JWT_PUBLIC_KEY'', [QUOTE] @ escape_multiline (public_pem d) @ [QUOTE]),
      (''PRIVACY_KEY_PEPPER'', user_privacy_pepper d), (''RATE_LIMIT_PROFILE_WRITE_PER_MINUTE'', ''30''),
      (''RATE_LIMIT_ROLES_WRITE_PER_MINUTE'', ''10'')]"
  by (simp add: dev_user_env_lines_def pairs_def before_eq_def after_eq_def)

lemma dev_gateway_pairs:
  "pairs (butlast (dev_gateway_env_lines d)) =
     [(''SERVICE_NAME'', ''api-gateway''), (''SERVICE_ENV'', ''development''), (''SERVICE_PORT'', ''8000''),
      (''CORS_ALLOWED_ORIGINS'', ''http://localhost:3000,http://localhost:8000''),
      (''REDIS_URL'', ''redis://:'' @ redis_password d @ ''@redis:6379/2''),
      (''AUTH_SERVICE_URL'', ''http://auth-service:8001''), (''USER_SERVICE_URL'', ''http://user-service:8002''),
      (''NOTIFICATION_SERVICE_URL'', []), (''JWT_ALGORITHM'', ''RS256''), (''JWT_ISSUER'', ''backend-platform''),
      (''JWT_AUDIENCE'', ''backend-clients''), (''JWT_PUBLIC_KEY'', [QUOTE] @ escape_multiline (public_pem d) @ [QUOTE]),
      (''PRIVACY_KEY_PEPPER'', gateway_privacy_pepper d), (''UPSTREAM_TIMEOUT_SECONDS'', ''10''),
      (''TRUSTED_PROXY_IPS'', []), (''RATE_LIMIT_PUBLIC_AUTH_PER_MINUTE'', ''30''),
      (''RATE_LIMIT_PROTECTED_PER_MINUTE'', ''120'')]"
  by (simp add: dev_gateway_env_lines_def pairs_def before_eq_def after_eq_def)

lemma dev_lines:
  "list_all env_line (butlast (dev_user_env_lines d))" "list_all env_line (butlast (dev_gateway_env_lines d))"
  "distinct (map fst (pairs (butlast (dev_user_env_lines d))))" "distinct (map fst (pairs (butlast (dev_gateway_env_lines d))))"
proof -
  show "list_all env_line (butlast (dev_user_env_lines d))" "list_all env_line (butlast (dev_gateway_env_lines d))"
    by (simp_all add: dev_user_env_lines_def dev_gateway_env_lines_def env_line_def env_key_def before_eq_def key_char_def is_digit_def)
  show "distinct (map fst (pairs (butlast (dev_user_env_lines d))))" "distinct (map fst (pairs (butlast (dev_gateway_env_lines d))))"
    unfolding dev_user_pairs dev_gateway_pairs list.map fst_conv by code_simp+
qed

definition usable_secrets :: "dev_secrets \<Rightarrow> bool" where
  "usable_secrets d \<longleftrightarrow>
     quoted_value (private_pem d) \<and> quoted_value (public_pem d) \<and> plain_value (fernet_key d) \<and>
     list_all (\<lambda>p. plain_value p \<and> 32 \<le> length p)
       [refresh_pepper d, auth_privacy_pepper d, user_privacy_pepper d, gateway_privacy_pepper d, reset_pepper d] \<and>
     list_all (list_all unreserved) [auth_db_password d, user_db_password d, redis_password d]"

lemma drawn_usable:
  assumes "d = draw_secrets pem fernet bytes" "\<forall>i. \<forall>b \<in> set (bytes i). b < 256" "\<forall>i < 5. length (bytes i) = 48"
    and "quoted_value (fst pem)" "quoted_value (snd pem)" "plain_value fernet"
  shows "usable_secrets d"
  using assms(2-) generated_secret gen_password_chars
  by (simp add: usable_secrets_def assms(1) draw_secrets_def)

lemma plain_password_address:
  assumes "x \<noteq> []" "y \<noteq> []" "plain_value x" "plain_value y" "\<not> py_isspace (hd x)" "\<not> py_isspace (last y)" "list_all unreserved q"
  shows "plain_value (x @ q @ y)"
  using plain_address [OF assms(1-6), of q] by (simp add: quote_plus_id [OF assms(7)])

lemma dev_readable:
  assumes "usable_secrets d"
  shows "list_all (\<lambda>(k, w). \<exists>v. denotes w v) (pairs (butlast (dev_auth_env_lines d)))"
    "list_all (\<lambda>(k, w). \<exists>v. denotes w v) (pairs (butlast (dev_user_env_lines d)))"
    "list_all (\<lambda>(k, w). \<exists>v. denotes w v) (pairs (butlast (dev_gateway_env_lines d)))"
proof -
  have "plain_value (''postgresql+asyncpg://auth_service:'' @ q @ ''@postgres-auth:5432/auth_service'')"
    "plain_value (''postgresql+asyncpg://user_service:'' @ q @ ''@postgres-user:5432/user_service'')"
    "plain_value (''redis://:'' @ q @ ''@redis:6379/0'')" "plain_value (''redis://:'' @ q @ ''@redis:6379/1'')"
    "plain_value (''redis://:'' @ q @ ''@redis:6379/2'')" if "list_all unreserved q" for q
    by (rule plain_password_address; simp add: plain_word py_isspace_def that)+
  note urls = this [simplified]
  have "plain_value ''Backend Platform''"
    by (rule plain_ends) (simp_all add: is_linebreak_def py_isspace_def)
  note facts = denotes_ex urls this plain_word
  show "list_all (\<lambda>(k, w). \<exists>v. denotes w v) (pairs (butlast (dev_auth_env_lines d)))"
    using assms by (simp add: dev_auth_texts usable_secrets_def facts)
  show "list_all (\<lambda>(k, w). \<exists>v. denotes w v) (pairs (butlast (dev_user_env_lines d)))"
    using assms by (simp add: dev_user_pairs usable_secrets_def facts)
  show "list_all (\<lambda>(k, w). \<exists>v. denotes w v) (pairs (butlast (dev_gateway_env_lines d)))"
    using assms by (simp add: dev_gateway_pairs usable_secrets_def facts)
qed

lemma dev_env_maps:
  assumes "dotenv_reader rd" "usable_secrets d"
  shows "rd (env_text (dev_auth_env_lines d)) = (\<lambda>k. map_option written_value (map_of (pairs (butlast (dev_auth_env_lines d))) k))"
    "rd (env_text (dev_user_env_lines d)) = (\<lambda>k. map_option written_value (map_of (pairs (butlast (dev_user_env_lines d))) k))"
    "rd (env_text (dev_gateway_env_lines d)) = (\<lambda>k. map_option written_value (map_of (pairs (butlast (dev_gateway_env_lines d))) k))"
proof -
  have "dev_auth_env_lines d \<noteq> []" "last (dev_auth_env_lines d) = []" "dev_user_env_lines d \<noteq> []" "last (dev_user_env_lines d) = []"
    "dev_gateway_env_lines d \<noteq> []" "last (dev_gateway_env_lines d) = []"
    by (simp_all add: dev_auth_env_lines_def dev_user_env_lines_def dev_gateway_env_lines_def)
  note env = env_lookups [OF assms(1)] and ok = this dev_auth_env_lines [of d] dev_auth_pairs [of d] dev_lines [of d] dev_readable [OF assms(2)]
  show "rd (env_text (dev_auth_env_lines d)) = (\<lambda>k. map_option written_value (map_of (pairs (butlast (dev_auth_env_lines d))) k))"
    by (rule env) (rule ok)+
  show "rd (env_text (dev_user_env_lines d)) = (\<lambda>k. map_option written_value (map_of (pairs (butlast (dev_user_env_lines d))) k))"
    by (rule env) (rule ok)+
  show "rd (env_text (dev_gateway_env_lines d)) = (\<lambda>k. map_option written_value (map_of (pairs (butlast (dev_gateway_env_lines d))) k))"
    by (rule env) (rule ok)+
qed

section \<open>A generated stack starts\<close>

definition generated_base :: "dev_secrets \<Rightarrow> string \<Rightarrow> string list \<Rightarrow> string \<Rightarrow> 'a base_settings_scheme \<Rightarrow> bool" where
  "generated_base d pepper proxies db st \<longleftrightarrow>
     base_settings.truncate st =
       \<lparr>service_env = ''development'', cors_allowed_origins = [''http://localhost:3000'', ''http://localhost:8000''],
        trusted_proxy_ips = proxies, redis_url = ''redis://:'' @ redis_password d @ ''@redis:6379/'' @ db, jwt_algorithm = ''RS256'',
        jwt_issuer = ''backend-platform'', jwt_audience = ''backend-clients'', jwt_public_key = public_pem d, privacy_key_pepper = pepper\<rparr>"

lemma local_origins:
  "parse_csv_env (CsvText ''http://localhost:3000,http://localhost:8000'') = [''http://localhost:3000'', ''http://localhost:8000'']"
  "parse_csv_env (CsvText []) = []"
  by (simp_all add: strip_def strip_of_ends py_isspace_def) (simp add: strip_of_def lstrip_of_def rstrip_of_def)

lemma dev_auth_absent:
  "k \<in> {''RATE_LIMIT_2FA_SETUP_PER_MINUTE'', ''RATE_LIMIT_REVOKE_PER_MINUTE'', ''HEALTH_TIMEOUT_SECONDS'', ''SMTP_REQUIRE_DELIVERY'',
     ''AUTH_ALLOW_MISSING_SMTP''} \<Longrightarrow> map_of (pairs (butlast (dev_auth_env_lines d))) k = None"
  unfolding dev_auth_texts by (elim insertE emptyE; simp)

lemma dev_auth_read:
  assumes "pydantic_texts rd" "usable_secrets d"
    and e: "env = (\<lambda>k. map_option written_value (map_of (pairs (butlast (dev_auth_env_lines d))) k))"
  shows "first_error rd env AUTH_FIELDS = None" "generated_base d (auth_privacy_pepper d) [''172.16.0.0/12''] ''0'' (auth_settings_of rd env)"
    "jwt_private_key (auth_settings_of rd env) = private_pem d" "totp_encryption_key (auth_settings_of rd env) = fernet_key d"
    "refresh_token_hash_pepper (auth_settings_of rd env) = refresh_pepper d"
    "password_reset_token_pepper (auth_settings_of rd env) = reset_pepper d"
    "database_url (auth_settings_of rd env) =
       ''postgresql+asyncpg://auth_service:'' @ auth_db_password d @ ''@postgres-auth:5432/auth_service''"
proof -
  note entries = env_entries [OF e dev_auth_pairs, unfolded dev_auth_texts list.pred_inject prod.case]
  have absent: "env ''RATE_LIMIT_2FA_SETUP_PER_MINUTE'' = None" "env ''RATE_LIMIT_REVOKE_PER_MINUTE'' = None"
    "env ''HEALTH_TIMEOUT_SECONDS'' = None" "env ''SMTP_REQUIRE_DELIVERY'' = None" "env ''AUTH_ALLOW_MISSING_SMTP'' = None"
    by (simp_all add: e dev_auth_absent)
  note usable = assms(2) [unfolded usable_secrets_def]
  show "first_error rd env AUTH_FIELDS = None"
    unfolding first_error_None AUTH_FIELDS_def by (simp add: entries absent written_word number_texts [OF assms(1)])
  have secrets: "written_value (QUOTE # escape_multiline (private_pem d) @ [QUOTE]) = private_pem d"
    "written_value (QUOTE # escape_multiline (public_pem d) @ [QUOTE]) = public_pem d" "written_value (fernet_key d) = fernet_key d"
    "written_value (refresh_pepper d) = refresh_pepper d" "written_value (reset_pepper d) = reset_pepper d"
    "written_value (auth_privacy_pepper d) = auth_privacy_pepper d"
    using usable by (simp_all add: written_value)
  note read = auth_settings_of_def text_or_def csv_or_empty_def entries secrets written_word
  show "generated_base d (auth_privacy_pepper d) [''172.16.0.0/12''] ''0'' (auth_settings_of rd env)"
    by (simp add: generated_base_def base_settings.defs read local_origins proxy_range del: parse_csv_env.simps)
  show "jwt_private_key (auth_settings_of rd env) = private_pem d" "totp_encryption_key (auth_settings_of rd env) = fernet_key d"
    "refresh_token_hash_pepper (auth_settings_of rd env) = refresh_pepper d"
    "password_reset_token_pepper (auth_settings_of rd env) = reset_pepper d"
    "database_url (auth_settings_of rd env) =
       ''postgresql+asyncpg://auth_service:'' @ auth_db_password d @ ''@postgres-auth:5432/auth_service''"
    by (simp_all add: read)
qed

lemma dev_user_read:
  assumes "pydantic_texts rd" "usable_secrets d"
    and e: "env = (\<lambda>k. map_option written_value (map_of (pairs (butlast (dev_user_env_lines d))) k))"
  shows "first_error rd env USER_FIELDS = None" "generated_base d (user_privacy_pepper d) [''172.16.0.0/12''] ''1'' (user_settings_of rd env)"
    "user_database_url (user_settings_of rd env) =
       ''postgresql+asyncpg://user_service:'' @ user_db_password d @ ''@postgres-user:5432/user_service''"
proof -
  note entries = env_entries [OF e dev_lines(3), unfolded dev_user_pairs list.pred_inject prod.case]
  have "env ''HEALTH_TIMEOUT_SECONDS'' = None" by (simp add: e dev_user_pairs)
  then show "first_error rd env USER_FIELDS = None"
    unfolding first_error_None USER_FIELDS_def by (simp add: entries written_word number_texts [OF assms(1)])
  have "written_value (QUOTE # escape_multiline (public_pem d) @ [QUOTE]) = public_pem d"
    "written_value (user_privacy_pepper d) = user_privacy_pepper d"
    using assms(2) by (simp_all add: usable_secrets_def written_value)
  then show "generated_base d (user_privacy_pepper d) [''172.16.0.0/12''] ''1'' (user_settings_of rd env)"
    by (simp add: generated_base_def base_settings.defs user_settings_of_def text_or_def csv_or_empty_def entries written_word
        local_origins proxy_range del: parse_csv_env.simps)
  show "user_database_url (user_settings_of rd env) =
       ''postgresql+asyncpg://user_service:'' @ user_db_password d @ ''@postgres-user:5432/user_service''"
    by (simp add: user_settings_of_def text_or_def entries written_word)
qed

lemma dev_gateway_read:
  assumes "pydantic_texts rd" "usable_secrets d"
    and e: "env = (\<lambda>k. map_option written_value (map_of (pairs (butlast (dev_gateway_env_lines d))) k))"
  shows "first_error rd env GATEWAY_FIELDS = None" "generated_base d (gateway_privacy_pepper d) [] ''2'' (gateway_settings_of rd env)"
proof -
  note entries = env_entries [OF e dev_lines(4), unfolded dev_gateway_pairs list.pred_inject prod.case]
  have "env ''REFRESH_COOKIE_MAX_AGE_SECONDS'' = None" "env ''REFRESH_COOKIE_SECURE'' = None" by (simp_all add: e dev_gateway_pairs)
  then show "first_error rd env GATEWAY_FIELDS = None"
    unfolding first_error_None GATEWAY_FIELDS_def by (simp add: entries written_word number_texts [OF assms(1)])
  have "written_value (QUOTE # escape_multiline (public_pem d) @ [QUOTE]) = public_pem d"
    "written_value (gateway_privacy_pepper d) = gateway_privacy_pepper d"
    using assms(2) by (simp_all add: usable_secrets_def written_value)
  then show "generated_base d (gateway_privacy_pepper d) [] ''2'' (gateway_settings_of rd env)"
    by (simp add: generated_base_def base_settings.defs gateway_settings_of_def text_or_def csv_or_empty_def entries written_word
        local_origins del: parse_csv_env.simps)
qed

lemma generated_base_facts:
  assumes "generated_base d pepper proxies db st"
  shows "service_env st = ''development''" "jwt_algorithm st = ''RS256''" "privacy_key_pepper st = pepper"
  using assms by (simp_all add: generated_base_def base_settings.defs)

lemma first_run_files:
  assumes "\<forall>p \<in> {AUTH_ENV, USER_ENV, GATEWAY_ENV, COMPOSE_ENV}. fs p = None"
  shows "generate_dev_env force d fs AUTH_ENV = Some (env_text (dev_auth_env_lines d))"
    "generate_dev_env force d fs USER_ENV = Some (env_text (dev_user_env_lines d))"
    "generate_dev_env force d fs GATEWAY_ENV = Some (env_text (dev_gateway_env_lines d))"
    "generate_dev_env force d fs COMPOSE_ENV = Some (env_text (dev_compose_env_lines d))"
  using assms by (simp_all add: generate_dev_env_def write_if_allowed_def dev_auth_env_def is_file_def env_paths)

text \<open>
  C39: a freshly generated stack starts. On a first run (none of the four files is there) with the random bytes the script asks
  for, the files \<open>generate_dev_env.py\<close> writes are read by the three services without an error, as development settings: same
  algorithm, issuer, audience, public key and origins, the private key of that public key at the auth-service, three databases of
  one cache. The passwords in the addresses of the cache and of the two databases are the ones the compose file gives the
  containers. The privacy peppers of the
  services are three different draws, and the gateway trusts no proxy.
\<close>

theorem generated_stack_starts:
  assumes "d = draw_secrets pem fernet bytes" "\<forall>i. \<forall>b \<in> set (bytes i). b < 256" "\<forall>i < 5. length (bytes i) = 48"
    and "quoted_value (fst pem)" "quoted_value (snd pem)" "plain_value fernet" "fernet_ok fernet"
    and "\<forall>p \<in> {AUTH_ENV, USER_ENV, GATEWAY_ENV, COMPOSE_ENV}. fs p = None" "fs' = generate_dev_env force d fs"
    and "dotenv_reader rd_env" "pydantic_texts rd"
  shows "\<exists>a u g c sa su sg.
    fs' AUTH_ENV = Some a \<and> fs' USER_ENV = Some u \<and> fs' GATEWAY_ENV = Some g \<and> fs' COMPOSE_ENV = Some c \<and>
    auth_settings_from_env rd fernet_ok rf resolve root (rd_env a) = Inr sa \<and>
    user_settings_from_env rd (rd_env u) = Inr su \<and> gateway_settings_from_env rd (rd_env g) = Inr sg \<and>
    generated_base d (auth_privacy_pepper d) [''172.16.0.0/12''] ''0'' sa \<and>
    generated_base d (user_privacy_pepper d) [''172.16.0.0/12''] ''1'' su \<and>
    generated_base d (gateway_privacy_pepper d) [] ''2'' sg \<and>
    jwt_private_key sa = fst pem \<and> jwt_public_key sa = snd pem \<and>
    parse_dotenv c ''REDIS_PASSWORD'' = Some (redis_password d) \<and>
    (\<exists>pw. parse_dotenv c ''AUTH_DB_PASSWORD'' = Some pw \<and>
       database_url sa = ''postgresql+asyncpg://auth_service:'' @ pw @ ''@postgres-auth:5432/auth_service'') \<and>
    (\<exists>pw. parse_dotenv c ''USER_DB_PASSWORD'' = Some pw \<and>
       user_database_url su = ''postgresql+asyncpg://user_service:'' @ pw @ ''@postgres-user:5432/user_service'')"
proof -
  have usable: "usable_secrets d" using assms(1-6) by (rule drawn_usable)
  note maps = dev_env_maps [OF assms(10) usable] and files = first_run_files [OF assms(8), where force = force and d = d]
  note auth = dev_auth_read [OF assms(11) usable maps(1)] and user = dev_user_read [OF assms(11) usable maps(2)]
    and gate = dev_gateway_read [OF assms(11) usable maps(3)]
  note sa = generated_base_facts [OF auth(2)] and su = generated_base_facts [OF user(2)] and sg = generated_base_facts [OF gate(2)]
  let ?sa = "auth_settings_of rd (rd_env (env_text (dev_auth_env_lines d)))"
    and ?su = "user_settings_of rd (rd_env (env_text (dev_user_env_lines d)))"
    and ?sg = "gateway_settings_of rd (rd_env (env_text (dev_gateway_env_lines d)))"
  have pem: "private_pem d = fst pem" "public_pem d = snd pem" "fernet_key d = fernet" by (simp_all add: assms(1) draw_secrets_def)
  note peppers = usable [unfolded usable_secrets_def]
  obtain st where st: "load_auth_settings fernet_ok rf resolve root ?sa = Inr st" "base_settings.truncate st = base_settings.truncate ?sa"
    "jwt_private_key st = jwt_private_key ?sa" "database_url st = database_url ?sa"
    by (rule auth_accepted [where st = ?sa and fernet_ok = fernet_ok and rf = rf and rs = resolve and root = root])
      (use peppers assms(7) in \<open>simp_all add: sa auth pem\<close>)
  have "load_edge_settings ?su = Inr ?su" "load_edge_settings ?sg = Inr ?sg"
    by (rule edge_accepted; use peppers in \<open>simp add: su sg\<close>)+
  then have loaded: "auth_settings_from_env rd fernet_ok rf resolve root (rd_env (env_text (dev_auth_env_lines d))) = Inr st"
    "user_settings_from_env rd (rd_env (env_text (dev_user_env_lines d))) = Inr ?su"
    "gateway_settings_from_env rd (rd_env (env_text (dev_gateway_env_lines d))) = Inr ?sg"
    using st(1) auth(1) user(1) gate(1)
    by (simp_all add: auth_settings_from_env_def user_settings_from_env_def gateway_settings_from_env_def read_fields_def bind_sum_def)
  have base: "generated_base d (auth_privacy_pepper d) [''172.16.0.0/12''] ''0'' st" using auth(2) st(2) by (simp add: generated_base_def)
  then have "jwt_public_key st = snd pem" by (simp add: generated_base_def base_settings.defs pem)
  then show ?thesis
    using files loaded base user(2,3) gate(2) st(3,4) auth(3,7) compose_read_back [OF assms(1,2)] unfolding assms(9) pem
    by (intro exI [where x = "env_text (dev_auth_env_lines d)"] exI [where x = "env_text (dev_user_env_lines d)"]
        exI [where x = "env_text (dev_gateway_env_lines d)"] exI [where x = "env_text (dev_compose_env_lines d)"]
        exI [where x = st] exI [where x = ?su] exI [where x = ?sg]) simp
qed

section \<open>A second run\<close>

lemma strip_of_wrapped:
  assumes "c \<notin> set v"
  shows "strip_of (\<lambda>x. x = c) (c # v @ [c]) = v"
proof (cases v)
  case (Cons x xs)
  then have "x \<noteq> c" "hd (rev v) \<in> set v" using assms hd_in_set [of "rev v"] by auto
  then have "x \<noteq> c" "dropWhile (\<lambda>x. x = c) (rev v) = rev v" using assms by (auto simp: dropWhile_eq_self_iff)
  then show ?thesis using Cons by (simp add: strip_of_def lstrip_of_def rstrip_of_def)
qed (simp add: strip_of_def lstrip_of_def rstrip_of_def)

text \<open>A value that needs no quotes is what the script takes it for, with and without them.\<close>

lemma unquoted_denoted:
  assumes "denotes w v" "plain_value v" "unquoted v = v"
  shows "unquoted w = v"
  using assms(1)
proof cases
  case quoted
  have "QUOTE \<notin> set v" using quoted by (auto simp: quoted_value_def list_all_iff)
  moreover have "escape_multiline v = v" using assms(2) by (simp add: escape_one_line plain_value_def)
  moreover have "strip (QUOTE # v @ [QUOTE]) = QUOTE # v @ [QUOTE]" by (simp add: strip_def strip_of_ends py_isspace_def)
  ultimately have "unquoted w = strip_of (\<lambda>c. c = APOSTROPHE) v"
    using quoted by (simp add: unquoted_def strip_of_wrapped)
  moreover have "strip_of (\<lambda>c. c = QUOTE) v = v" by (rule strip_of_id) (use \<open>QUOTE \<notin> set v\<close> in auto)
  ultimately show ?thesis using assms(2,3) by (simp add: unquoted_def plain_value_def)
qed (use assms in simp)

lemma template_mail_keys:
  assumes "k \<in> set (map fst (pairs (butlast (dev_auth_env_lines d))))" "startswith k ''SMTP_''"
  shows "k \<in> {''SMTP_HOST'', ''SMTP_PORT'', ''SMTP_USERNAME'', ''SMTP_PASSWORD'', ''SMTP_USE_TLS'', ''SMTP_FROM_EMAIL''}"
proof -
  have "list_all (\<lambda>k. startswith k ''SMTP_'' \<longrightarrow>
      k \<in> set [''SMTP_HOST'', ''SMTP_PORT'', ''SMTP_USERNAME'', ''SMTP_PASSWORD'', ''SMTP_USE_TLS'', ''SMTP_FROM_EMAIL''])
    (map fst (pairs (butlast (dev_auth_env_lines d))))"
    unfolding dev_auth_keys by code_simp
  then show ?thesis using assms by (auto simp: list_all_iff)
qed

lemma settings_text_newlines:
  assumes "list_all one_line ls"
  shows "universal_newlines (env_text (ls @ [[]])) = env_text (ls @ [[]])"
proof -
  have "CR \<notin> set (join_with [LF] ms)" if "list_all one_line ms" for ms
    using that by (induction ms rule: induct_list012) (auto simp: one_line_no_CR)
  then show ?thesis using assms by (simp add: env_text_def universal_newlines_id)
qed

text \<open>What the script collects from an old file, against what the service reads there.\<close>

lemma collected_mail:
  assumes "dotenv_reader rd" "list_all env_line ls" "distinct (map fst (pairs ls))"
    and "list_all (\<lambda>(k, w). \<exists>v. denotes w v) (pairs ls)"
    and "\<forall>v. rd (env_text (ls @ [[]])) k = Some v \<longrightarrow> plain_value v \<and> unquoted v = v"
  shows "smtp_key_values_from_env_text (universal_newlines (env_text (ls @ [[]]))) k =
    (if startswith k ''SMTP_'' \<and> rd (env_text (ls @ [[]])) k \<noteq> Some [] then rd (env_text (ls @ [[]])) k else None)"
proof -
  note lines = readable_lines [OF assms(2,4)]
  have c: "smtp_key_values_from_env_text (universal_newlines (env_text (ls @ [[]]))) k =
      (case map_of (pairs ls) k of None \<Rightarrow> None
       | Some w \<Rightarrow> if startswith k ''SMTP_'' \<and> unquoted w \<noteq> [] then Some (unquoted w) else None)"
    unfolding settings_text_newlines [OF lines(2)] by (rule read_back(2) [OF assms(2,3) lines(1)])
  show ?thesis
  proof (cases "map_of (pairs ls) k")
    case (Some w)
    then obtain v where v: "denotes w v" using assms(4) map_of_SomeD by (fastforce simp: list_all_iff)
    then have "rd (env_text (ls @ [[]])) k = Some v"
      using Some read_lines [OF assms(1-4)] written_value(3) by simp
    moreover from this have "unquoted w = v" using assms(5) v unquoted_denoted by blast
    ultimately show ?thesis using c Some by simp
  qed (use c read_lines [OF assms(1-4)] in simp)
qed

lemma merged_reads:
  assumes "dotenv_reader rd" "usable_secrets d" "new = merge_smtp_into_auth_env (env_text (dev_auth_env_lines d)) smtp"
    and "\<And>k v. k \<in> set (map fst (pairs (butlast (dev_auth_env_lines d)))) \<Longrightarrow> smtp k = Some v \<Longrightarrow> plain_value v"
  shows "rd new k = (case smtp k of Some v \<Rightarrow> if k \<in> set (map fst (pairs (butlast (dev_auth_env_lines d)))) then Some v else None
    | None \<Rightarrow> rd (env_text (dev_auth_env_lines d)) k)"
proof -
  let ?ls = "butlast (dev_auth_env_lines d)" and ?f = "\<lambda>(k, v). (k, case smtp k of Some w \<Rightarrow> w | None \<Rightarrow> v)"
  let ?ms = "map (merge_smtp_line smtp) ?ls"
  note base = dev_auth_env_lines [of d] dev_readable(1) [OF assms(2)] dev_auth_pairs [of d]
  have full: "dev_auth_env_lines d = ?ls @ [[]]" by (simp add: dev_auth_env_lines_def)
  have p: "pairs ?ms = map ?f (pairs ?ls)" "list_all env_line ?ms" using merged_pairs [OF base(1)] by simp_all
  have "map fst (pairs ?ms) = map fst (pairs ?ls)" by (simp add: p(1) comp_def case_prod_beta)
  then have d: "distinct (map fst (pairs ?ms))" using base(3) by simp
  have "\<exists>v. denotes w v" if m: "(k, w) \<in> set (pairs ?ms)" for k w
  proof -
    obtain v where v: "(k, v) \<in> set (pairs ?ls)" "w = (case smtp k of Some w \<Rightarrow> w | None \<Rightarrow> v)" using m p(1) by auto
    then have "k \<in> set (map fst (pairs ?ls))" by force
    then show ?thesis using v base(2) assms(4) by (fastforce simp: list_all_iff split: option.splits intro: denotes.plain)
  qed
  then have r: "list_all (\<lambda>(k, w). \<exists>v. denotes w v) (pairs ?ms)" by (auto simp: list_all_iff)
  have new: "new = env_text (?ms @ [[]])"
  proof (cases "smtp = Map.empty")
    case True
    then show ?thesis using assms(3) full
      by (simp add: merge_smtp_into_auth_env_def merge_smtp_line_def [abs_def] cong: if_cong)
  next
    case False
    have snoc: "join_with [LF] (ms @ [[]]) = join_with [LF] ms @ [LF]" if "ms \<noteq> []" for ms
      using that by (induction ms rule: induct_list012) simp_all
    have "splitlines (env_text (dev_auth_env_lines d)) = ?ls" using readable_lines(1) [OF base(1,2)] full by simp
    moreover have "?ms \<noteq> []" by (simp add: dev_auth_env_lines_def)
    ultimately show ?thesis using False assms(3) by (simp add: merge_smtp_into_auth_env_def env_text_def snoc)
  qed
  have look: "rd new k = map_option written_value (map_option (\<lambda>v. case smtp k of Some w \<Rightarrow> w | None \<Rightarrow> v) (map_of (pairs ?ls) k))"
    unfolding new read_lines [OF assms(1) p(2) d r] p(1) map_of_overridden ..
  have fresh: "rd (env_text (dev_auth_env_lines d)) k = map_option written_value (map_of (pairs ?ls) k)"
    by (simp add: dev_env_maps(1) [OF assms(1,2)])
  show ?thesis
  proof (cases "smtp k")
    case None
    then show ?thesis using look fresh by (simp add: option.map_ident)
  next
    case (Some v)
    show ?thesis
    proof (cases "map_of (pairs ?ls) k")
      case None
      then have "k \<notin> set (map fst (pairs ?ls))" by (simp add: map_of_eq_None_iff)
      then show ?thesis using Some None look by simp
    next
      case (Some u)
      then have k: "k \<in> set (map fst (pairs ?ls))" using map_of_key [of "pairs ?ls" k] by simp
      then have "written_value v = v" using assms(4) \<open>smtp k = Some v\<close> by (simp add: written_value(1))
      then show ?thesis using Some \<open>smtp k = Some v\<close> look k by simp
    qed
  qed
qed

text \<open>
  C40: regenerating the development files with \<open>--force\<close> keeps the mail settings, as the service reads them. The old file of
  the auth-service is a text of settings the reader of the service understands; its six mail settings the template has may be
  quoted, but need no quotes (no \<open>#\<close>, no blanks or quotes at the ends; a value that does is written without them, and the service
  may then read another one). Each of the six that the old file sets to a text that is not empty is read
  from the new file with the same value; every other setting is read as from a freshly generated file, so that a mail setting
  the template lacks, such as \<open>SMTP_FROM_NAME\<close>, is lost.
\<close>

theorem smtp_settings_survive_force:
  assumes "dotenv_reader rd" "usable_secrets d" "fs AUTH_ENV = Some (env_text (ls @ [[]]))"
    and "list_all env_line ls" "distinct (map fst (pairs ls))" "list_all (\<lambda>(k, w). \<exists>v. denotes w v) (pairs ls)"
    and "\<forall>k \<in> {''SMTP_HOST'', ''SMTP_PORT'', ''SMTP_USERNAME'', ''SMTP_PASSWORD'', ''SMTP_USE_TLS'', ''SMTP_FROM_EMAIL''}.
      \<forall>v. rd (env_text (ls @ [[]])) k = Some v \<longrightarrow> plain_value v \<and> unquoted v = v"
    and "generate_dev_env True d fs AUTH_ENV = Some new"
  shows "\<forall>k. rd new k =
    (if k \<in> {''SMTP_HOST'', ''SMTP_PORT'', ''SMTP_USERNAME'', ''SMTP_PASSWORD'', ''SMTP_USE_TLS'', ''SMTP_FROM_EMAIL''} \<and>
        rd (env_text (ls @ [[]])) k \<notin> {None, Some []}
     then rd (env_text (ls @ [[]])) k
     else rd (env_text (dev_auth_env_lines d)) k)"
proof
  fix k
  let ?old = "env_text (ls @ [[]])" and ?keys = "set (map fst (pairs (butlast (dev_auth_env_lines d))))"
  define mail where "mail = {''SMTP_HOST'', ''SMTP_PORT'', ''SMTP_USERNAME'', ''SMTP_PASSWORD'', ''SMTP_USE_TLS'', ''SMTP_FROM_EMAIL''}"
  note unquoted = assms(7) [folded mail_def]
  define smtp where "smtp = smtp_key_values_from_env_text (universal_newlines ?old)"
  have new: "new = merge_smtp_into_auth_env (env_text (dev_auth_env_lines d)) smtp"
    using assms(3,8) by (simp add: generated_auth_env dev_auth_env_def is_file_def read_file_def smtp_def)
  have mail_start: "startswith k ''SMTP_''" if "k \<in> mail" for k using that by (auto simp: mail_def startswith_def)
  have mail_keys: "mail \<subseteq> ?keys" unfolding dev_auth_keys mail_def by simp
  have other: "smtp k = None" if "\<not> startswith k ''SMTP_''" for k
    unfolding smtp_def settings_text_newlines [OF readable_lines(2) [OF assms(4,6)]]
    using read_back(2) [OF assms(4,5) readable_lines(1) [OF assms(4,6)]] that by (simp split: option.split)
  have kept: "smtp k = (if rd ?old k \<noteq> Some [] then rd ?old k else None)" if "k \<in> mail" for k
    unfolding smtp_def
    using collected_mail [OF assms(1,4,5,6) bspec [OF unquoted that]] mail_start [OF that] by (simp only: simp_thms)
  have inside: "smtp k = None \<or> k \<in> mail" if "k \<in> ?keys" for k
    using template_mail_keys [OF that, folded mail_def] other by blast
  have plain: "plain_value v" if "k \<in> ?keys" "smtp k = Some v" for k v
    using inside [OF that(1)] that(2) kept [of k] unquoted by (auto split: if_splits)
  have read: "rd new k = (case smtp k of Some v \<Rightarrow> if k \<in> ?keys then Some v else None
    | None \<Rightarrow> rd (env_text (dev_auth_env_lines d)) k)"
    using merged_reads [OF assms(1,2) new] plain by blast
  have "rd new k = (if k \<in> mail \<and> rd ?old k \<notin> {None, Some []} then rd ?old k else rd (env_text (dev_auth_env_lines d)) k)"
  proof (cases "k \<in> mail")
    case True
    then show ?thesis using read kept [OF True] mail_keys by (cases "rd ?old k") auto
  next
    case False
    have "rd (env_text (dev_auth_env_lines d)) k = None" if "k \<notin> ?keys"
      using that dev_env_maps(1) [OF assms(1,2)] by (simp add: map_of_eq_None_iff)
    then show ?thesis using False read inside [of k] by (auto split: option.splits)
  qed
  then show "rd new k =
    (if k \<in> {''SMTP_HOST'', ''SMTP_PORT'', ''SMTP_USERNAME'', ''SMTP_PASSWORD'', ''SMTP_USE_TLS'', ''SMTP_FROM_EMAIL''} \<and>
        rd ?old k \<notin> {None, Some []}
     then rd ?old k else rd (env_text (dev_auth_env_lines d)) k)"
    by (simp only: mail_def)
qed

text \<open>The quotes of a value that needs them are lost: here the service reads the rest of the line as a comment.\<close>

lemma smtp_quotes_lost:
  assumes "smtp ''SMTP_PASSWORD'' = Some ''ab #cd''"
  shows "merge_smtp_line smtp ''SMTP_PASSWORD='' = ''SMTP_PASSWORD=ab #cd''"
proof -
  have "strip ''SMTP_PASSWORD'' = ''SMTP_PASSWORD''" by (simp add: strip_def strip_of_ends py_isspace_def)
  then show ?thesis using assms by (simp add: merge_smtp_line_def before_eq_def)
qed

section \<open>The placeholder of the mail password\<close>

text \<open>
  With a placeholder for the password and a mailbox, the rendering script writes \<open>AUTH_ALLOW_MISSING_SMTP=false\<close>, as if mail were
  configured; the auth-service takes the placeholder for no password and refuses to start with these settings.
\<close>

lemma placeholder_written_as_ready:
  assumes "resolve_smtp_password compose fs \<in> set SMTP_PASSWORD_PLACEHOLDERS" "compose_get compose ''AUTH_ALLOW_MISSING_SMTP'' = []"
    and "read_optional_one_line fs ''secrets/smtp_identity_email.txt'' \<noteq> []"
  shows "sl_auth_allow_missing_smtp (resolve_smtp_for_auth_env compose fs) = ''false''"
  using assms by (auto simp: resolve_smtp_for_auth_env_def Let_def lower_def SMTP_PASSWORD_PLACEHOLDERS_def)

lemma placeholder_not_ready:
  assumes "smtp_password st = Some pw" "pw \<in> set SMTP_PASSWORD_PLACEHOLDERS" "deployed st" "\<not> auth_allow_missing_smtp st"
  shows "load_auth_settings fernet_ok rf resolve root st \<noteq> Inr st'"
proof -
  have pw: "normalize_smtp_secret pw \<noteq> []" "upper (normalize_smtp_secret pw) \<in> set (map upper SMTP_PASSWORD_PLACEHOLDERS)"
    using assms(2) unfolding SMTP_PASSWORD_PLACEHOLDERS_def
    by (auto simp: normalize_smtp_secret_def strip_def strip_of_ends py_isspace_def)
  let ?n = "\<lambda>alg. normalize_auth_fields alg st"
  have n: "load_smtp_password_from_file rf resolve root (?n alg) = ?n alg" for alg
    using assms(1) pw(1) by (simp add: load_smtp_password_from_file_def normalize_auth_fields_def)
  have "smtp_password (apply_smtp_ec2_defaults rf root (?n alg)) = Some pw" for alg
    using assms(1) by (simp add: apply_smtp_ec2_defaults_def Let_def normalize_auth_fields_def)
  then have "\<not> smtp_is_configured (apply_smtp_ec2_defaults rf root (?n alg))" for alg
    using pw by (simp add: smtp_is_configured_def smtp_password_value_def Let_def falsy_def or_empty_def)
  moreover have "deployed (apply_smtp_ec2_defaults rf root (?n alg)) \<and> \<not> auth_allow_missing_smtp (apply_smtp_ec2_defaults rf root (?n alg))" for alg
    using assms(3,4) by (simp add: deployed_def apply_smtp_ec2_defaults_def Let_def normalize_auth_fields_def)
  ultimately show ?thesis by (auto simp: load_auth_settings_def bind_sum_Inr n validate_deployed_security_auth_Inr)
qed

end
