(* ===== verification/Env_Reference.thy ===== *)
theory Env_Reference
  imports Env_Rendering
begin

text \<open>A small set of files and secrets on which the properties of the scripts are applied.\<close>

definition ref_secrets :: dev_secrets where
  "ref_secrets = draw_secrets (''private'', ''public'') ''fernet'' (\<lambda>_. [1, 2, 3])"

definition ref_files :: files where
  "ref_files = [COMPOSE_ENV \<mapsto> env_text (dev_compose_env_lines ref_secrets),
     ''secrets/jwt_private.pem'' \<mapsto> ''k'', ''secrets/jwt_public.pem'' \<mapsto> ''p'', ''secrets/refresh_token_pepper.txt'' \<mapsto> ''r'',
     ''secrets/privacy_key_pepper.txt'' \<mapsto> ''y'', ''secrets/password_reset_pepper.txt'' \<mapsto> ''w'', ''secrets/totp_fernet.key'' \<mapsto> ''t'']"

lemma ref_inputs: "one_line_inputs ''http://a'' ref_files"
  by (simp add: one_line_inputs_def read_stripped_def read_file_def ref_files_def env_paths escape_multiline_def strip_def
      strip_of_def lstrip_of_def rstrip_of_def py_isspace_def replace_sub_absent is_linebreak_def)

lemma ref_secret_files: "\<forall>n \<in> set SECRET_FILES. is_file ref_files (''secrets/'' @ n)"
  by (simp add: SECRET_FILES_def is_file_def ref_files_def env_paths)

lemma ref_compose: "ref_files COMPOSE_ENV = Some (env_text (dev_compose_env_lines ref_secrets))"
  by (simp add: ref_files_def env_paths)

theorem rendered_services_agree_witness:
  "\<exists>fs' a u. render_prod_env None ''http://a'' ref_files = Inr fs' \<and> fs' AUTH_ENV = Some a \<and> fs' USER_ENV = Some u \<and>
     parse_dotenv u ''JWT_PUBLIC_KEY'' = parse_dotenv a ''JWT_PUBLIC_KEY'' \<and> parse_dotenv a ''JWT_PUBLIC_KEY'' \<noteq> None"
proof -
  obtain fs' where run: "render_prod_env None ''http://a'' ref_files = Inr fs'"
    using rendered_from_generated [OF ref_secrets_def _ ref_compose ref_secret_files] by fastforce
  from rendered_services_agree [OF this ref_inputs] obtain a u g where "fs' = ref_files(AUTH_ENV \<mapsto> a, USER_ENV \<mapsto> u, GATEWAY_ENV \<mapsto> g)"
    "list_all (\<lambda>k. parse_dotenv a k \<noteq> None \<and> parse_dotenv u k = parse_dotenv a k \<and> parse_dotenv g k = parse_dotenv a k) SHARED_KEYS"
    by blast
  then show ?thesis using run by (auto simp: env_paths SHARED_KEYS_def)
qed

theorem generated_passwords_come_through_witness:
  "\<exists>fs' a v. render_prod_env None ''http://a'' ref_files = Inr fs' \<and> fs' AUTH_ENV = Some a \<and>
     parse_dotenv a ''DATABASE_URL'' = Some v \<and> ''DATABASE_URL='' @ v \<in> set (dev_auth_env_lines ref_secrets)"
  using generated_passwords_come_through [OF ref_secrets_def _ ref_compose ref_secret_files ref_inputs] by auto

end
