(* ===== verification/Settings_Reference.thy ===== *)
theory Settings_Reference
  imports Generated_Settings Env_Reference
begin

text \<open>
  A reference reader of environment files and reference conversions of texts, which have the properties the theorems on
  rendered and generated stacks rely on, and the inputs of a small deployment on which they are applied.
\<close>

definition ref_dotenv :: "string \<Rightarrow> (string \<rightharpoonup> string)" where
  "ref_dotenv t = (\<lambda>k. map_option written_value (map_of (pairs (splitlines t)) k))"

lemma ref_dotenv_reader: "dotenv_reader ref_dotenv"
  unfolding dotenv_reader_def
proof (intro allI impI)
  fix ls k
  assume ls: "list_all env_line ls \<and> distinct (map fst (pairs ls)) \<and> (\<forall>(k, w) \<in> set (pairs ls). \<exists>v. denotes w v)"
  then have "splitlines (env_text (ls @ [[]])) = ls" by (intro readable_lines) (auto simp: list_all_iff)
  then show "case map_of (pairs ls) k of None \<Rightarrow> ref_dotenv (env_text (ls @ [[]])) k = None
      | Some w \<Rightarrow> \<forall>v. denotes w v \<longrightarrow> ref_dotenv (env_text (ls @ [[]])) k = Some v"
    by (auto simp: ref_dotenv_def written_value(3) split: option.split)
qed

definition ref_texts :: text_readers where
  "ref_texts = \<lparr>read_int = (\<lambda>s. map_option int (dec_val 0 s)),
     read_bool = (\<lambda>s. if s = ''true'' then Some True else if s = ''false'' then Some False else None),
     is_float = (\<lambda>s. dec_val 0 s \<noteq> None)\<rparr>"

lemma ref_pydantic_texts: "pydantic_texts ref_texts"
  by (simp add: pydantic_texts_def ref_texts_def dec_val_str_nat)

definition ref_pem :: string where
  "ref_pem = ''-----BEGIN KEY-----'' @ [LF] @ ''AQAB'' @ [LF] @ ''-----END KEY-----''"

definition ref_pepper :: string where
  "ref_pepper = replicate 32 (CHR ''q'')"

definition deploy_files :: files where
  "deploy_files = [COMPOSE_ENV \<mapsto> env_text (dev_compose_env_lines ref_secrets),
     ''secrets/jwt_private.pem'' \<mapsto> ref_pem, ''secrets/jwt_public.pem'' \<mapsto> ref_pem, ''secrets/refresh_token_pepper.txt'' \<mapsto> ref_pepper,
     ''secrets/privacy_key_pepper.txt'' \<mapsto> ref_pepper, ''secrets/password_reset_pepper.txt'' \<mapsto> ref_pepper,
     ''secrets/totp_fernet.key'' \<mapsto> ''t'', ''secrets/smtp_app_password.txt'' \<mapsto> ''abcd efgh'',
     ''secrets/smtp_identity_email.txt'' \<mapsto> ''mail@example.org'']"

lemma deploy_texts:
  "read_stripped deploy_files ''secrets/jwt_private.pem'' = ref_pem" "read_stripped deploy_files ''secrets/jwt_public.pem'' = ref_pem"
  "read_stripped deploy_files ''secrets/refresh_token_pepper.txt'' = ref_pepper"
  "read_stripped deploy_files ''secrets/privacy_key_pepper.txt'' = ref_pepper"
  "read_stripped deploy_files ''secrets/password_reset_pepper.txt'' = ref_pepper"
  "read_stripped deploy_files ''secrets/totp_fernet.key'' = ''t''"
  "read_stripped deploy_files ''secrets/smtp_app_password.txt'' = ''abcd efgh''"
  "read_optional_one_line deploy_files ''secrets/smtp_identity_email.txt'' = ''mail@example.org''"
  "read_optional_one_line deploy_files ''secrets/smtp_host.txt'' = []" "read_optional_one_line deploy_files ''secrets/smtp_username.txt'' = []"
  "read_optional_one_line deploy_files ''secrets/smtp_from_email.txt'' = []" "read_optional_one_line deploy_files ''secrets/smtp_from_name.txt'' = []"
proof -
  have pem: "universal_newlines ref_pem = ref_pem" "strip ref_pem = ref_pem"
    by (simp_all add: ref_pem_def strip_def strip_of_ends py_isspace_def)
  have pepper: "universal_newlines ref_pepper = ref_pepper" "strip ref_pepper = ref_pepper"
    by (simp_all add: ref_pepper_def numeral_eq_Suc strip_def strip_of_ends py_isspace_def)
  have words: "strip ''t'' = ''t''" "strip ''abcd efgh'' = ''abcd efgh''" "strip ''mail@example.org'' = ''mail@example.org''"
    by (simp_all add: strip_def strip_of_ends py_isspace_def)
  note eval = read_stripped_def read_file_def read_optional_one_line_def is_file_def deploy_files_def env_paths pem pepper words startswith_def
  show "read_stripped deploy_files ''secrets/jwt_private.pem'' = ref_pem" "read_stripped deploy_files ''secrets/jwt_public.pem'' = ref_pem"
    "read_stripped deploy_files ''secrets/refresh_token_pepper.txt'' = ref_pepper"
    "read_stripped deploy_files ''secrets/privacy_key_pepper.txt'' = ref_pepper"
    "read_stripped deploy_files ''secrets/password_reset_pepper.txt'' = ref_pepper"
    "read_stripped deploy_files ''secrets/totp_fernet.key'' = ''t''"
    "read_stripped deploy_files ''secrets/smtp_app_password.txt'' = ''abcd efgh''"
    by (simp_all add: eval)
  have "splitlines ''mail@example.org'' = [''mail@example.org'']" by (rule splitlines_line) (simp_all add: is_linebreak_def)
  then show "read_optional_one_line deploy_files ''secrets/smtp_identity_email.txt'' = ''mail@example.org''"
    by (simp add: eval del: splitlines.simps)
  show "read_optional_one_line deploy_files ''secrets/smtp_host.txt'' = []" "read_optional_one_line deploy_files ''secrets/smtp_username.txt'' = []"
    "read_optional_one_line deploy_files ''secrets/smtp_from_email.txt'' = []" "read_optional_one_line deploy_files ''secrets/smtp_from_name.txt'' = []"
    by (simp_all add: eval)
qed

lemma deploy_compose:
  assumes "k \<notin> {''COMPOSE_PROJECT_NAME'', ''AUTH_DB_PASSWORD'', ''USER_DB_PASSWORD'', ''REDIS_PASSWORD'', ''GATEWAY_PORT''}"
  shows "compose_get (compose_values None deploy_files) k = []"
proof -
  have "read_file deploy_files COMPOSE_ENV = universal_newlines (env_text (dev_compose_env_lines ref_secrets))"
    by (simp add: read_file_def deploy_files_def env_paths)
  moreover have "CR \<notin> set (env_text (dev_compose_env_lines ref_secrets))"
    using one_line_no_CR generated_password_texts(1-3) [OF ref_secrets_def]
    by (simp add: env_text_def dev_compose_env_lines_def)
  ultimately have "compose_values None deploy_files = parse_dotenv (env_text (dev_compose_env_lines ref_secrets))"
    by (simp add: compose_values_def universal_newlines_id)
  then show ?thesis using assms compose_map [OF ref_secrets_def]
    by (simp add: compose_get_def strip_def strip_of_def lstrip_of_def rstrip_of_def)
qed

lemma deploy_smtp_password: "resolve_smtp_password (compose_values None deploy_files) deploy_files = ''abcd efgh''"
proof -
  have "is_file deploy_files ''secrets/smtp_app_password.txt''" by (simp add: is_file_def deploy_files_def env_paths)
  then show ?thesis by (simp add: resolve_smtp_password_def Let_def deploy_texts)
qed

lemma ref_quoted: "quoted_value ref_pem"
  by (simp add: quoted_value_def ref_pem_def escape_Cons is_linebreak_def)

lemma ref_plain: "plain_value ref_pepper" "plain_value ''t''" "plain_value ''http://a''"
  by (rule plain_word; simp add: ref_pepper_def numeral_eq_Suc)+

lemma ref_quotable: "quotable ''abcd efgh''" "quotable ''mail@example.org''"
  by (simp_all add: quotable_def is_linebreak_def strip_def strip_of_ends py_isspace_def)

lemma deploy_inputs: "deployable_inputs ref_texts (\<lambda>k. k = ''t'') None ''http://a'' deploy_files"
proof -
  have "strip ''http://a'' = ''http://a''" by (simp add: strip_def strip_of_ends py_isspace_def)
  then have origins: "parse_csv_env (CsvText ''http://a'') = [''http://a'']" "join_origins ''http://a'' = ''http://a''"
    by (simp_all add: join_origins_def)
  have marked: "contains_sub ''BEGIN'' ref_pem" by (simp add: ref_pem_def startswith_def)
  have "normalize_smtp_secret ''abcd efgh'' = ''abcdefgh''"
    by (simp add: normalize_smtp_secret_def strip_def strip_of_ends py_isspace_def)
  then have pw: "upper (normalize_smtp_secret ''abcd efgh'') \<notin> set (map upper SMTP_PASSWORD_PLACEHOLDERS)"
    by (simp add: SMTP_PASSWORD_PLACEHOLDERS_def upper_def)
  have "length ref_pepper = 32" by (simp add: ref_pepper_def)
  then show ?thesis
    unfolding deployable_inputs_def Let_def mail_texts_def
    using origins marked pw by (simp add: deploy_texts deploy_smtp_password deploy_compose ref_quoted ref_plain ref_quotable
        switched_off_def lower_def del: parse_csv_env.simps)
qed

theorem rendered_stack_starts_witness:
  "\<exists>fs' a sa. render_prod_env None ''http://a'' deploy_files = Inr fs' \<and> fs' AUTH_ENV = Some a \<and>
     auth_settings_from_env ref_texts (\<lambda>k. k = ''t'') (\<lambda>_. None) (\<lambda>p. p) '''' (ref_dotenv a) = Inr sa \<and>
     service_env sa = ''production'' \<and> cors_allowed_origins sa = [''http://a''] \<and> jwt_private_key sa = ref_pem"
proof -
  have "\<forall>n \<in> set SECRET_FILES. is_file deploy_files (''secrets/'' @ n)"
    by (simp add: SECRET_FILES_def is_file_def deploy_files_def env_paths)
  moreover have "deploy_files COMPOSE_ENV = Some (env_text (dev_compose_env_lines ref_secrets))" by (simp add: deploy_files_def env_paths)
  ultimately obtain fs' where run: "render_prod_env None ''http://a'' deploy_files = Inr fs'"
    using rendered_from_generated [OF ref_secrets_def] by fastforce
  obtain a sa where "fs' AUTH_ENV = Some a" "rendered_base ''http://a'' deploy_files sa"
    "auth_settings_from_env ref_texts (\<lambda>k. k = ''t'') (\<lambda>_. None) (\<lambda>p. p) '''' (ref_dotenv a) = Inr sa"
    "jwt_private_key sa = read_stripped deploy_files ''secrets/jwt_private.pem''"
    using rendered_stack_starts [OF run deploy_inputs ref_dotenv_reader ref_pydantic_texts] by (fastforce simp: env_paths)
  moreover have "strip ''http://a'' = ''http://a''" by (simp add: strip_def strip_of_ends py_isspace_def)
  ultimately show ?thesis using run rendered_base_facts(1,3) by (fastforce simp: deploy_texts)
qed

lemma ref_draw_usable: "usable_secrets (draw_secrets (ref_pem, ref_pem) ''t'' (\<lambda>_. replicate 48 0))"
  by (rule drawn_usable [OF refl]) (simp_all add: ref_quoted ref_plain)

text \<open>A mailbox set by hand survives a second run of the generator with \<open>--force\<close>, also where its password was quoted.\<close>

definition hand_written :: "string list" where
  "hand_written = [''SMTP_HOST=mail.example'', ''SMTP_PASSWORD='' @ [QUOTE] @ ''ab cd'' @ [QUOTE], ''SMTP_FROM_NAME=Shop'']"

lemma hand_written_pairs:
  "pairs hand_written = [(''SMTP_HOST'', ''mail.example''), (''SMTP_PASSWORD'', [QUOTE] @ ''ab cd'' @ [QUOTE]), (''SMTP_FROM_NAME'', ''Shop'')]"
  by (simp add: hand_written_def pairs_def before_eq_def after_eq_def)

lemma hand_written_values:
  "plain_value ''mail.example''" "plain_value ''Shop''" "plain_value ''ab cd''" "quoted_value ''ab cd''"
  "unquoted ''mail.example'' = ''mail.example''" "unquoted ''ab cd'' = ''ab cd''"
proof -
  show "plain_value ''mail.example''" "plain_value ''Shop''" by (rule plain_word; simp)+
  show "plain_value ''ab cd''" by (rule plain_ends) (simp_all add: is_linebreak_def py_isspace_def)
  show "quoted_value ''ab cd''" by (simp add: quoted_value_def escape_Cons is_linebreak_def)
  show "unquoted ''mail.example'' = ''mail.example''" "unquoted ''ab cd'' = ''ab cd''"
    by (rule unquoted_ends; simp add: py_isspace_def)+
qed

lemma hand_written_readable:
  "list_all env_line hand_written" "distinct (map fst (pairs hand_written))"
  "list_all (\<lambda>(k, w). \<exists>v. denotes w v) (pairs hand_written)"
proof -
  show "list_all env_line hand_written"
    by (simp add: hand_written_def env_line_def env_key_def before_eq_def key_char_def is_digit_def)
  show "distinct (map fst (pairs hand_written))" by (simp add: hand_written_pairs)
  have "denotes (QUOTE # escape_multiline ''ab cd'' @ [QUOTE]) ''ab cd''" by (rule denotes.quoted) (rule hand_written_values)
  moreover have "escape_multiline ''ab cd'' = ''ab cd''" by (rule escape_one_line) (simp add: is_linebreak_def)
  ultimately have "\<exists>v. denotes (QUOTE # ''ab cd'' @ [QUOTE]) v" by auto
  then show "list_all (\<lambda>(k, w). \<exists>v. denotes w v) (pairs hand_written)"
    using hand_written_values by (auto simp: hand_written_pairs intro: denotes.plain)
qed

lemma hand_written_read:
  assumes "dotenv_reader rd"
  shows "rd (env_text (hand_written @ [[]])) ''SMTP_HOST'' = Some ''mail.example''"
    "rd (env_text (hand_written @ [[]])) ''SMTP_PASSWORD'' = Some ''ab cd''"
    "\<And>k. k \<notin> {''SMTP_HOST'', ''SMTP_PASSWORD'', ''SMTP_FROM_NAME''} \<Longrightarrow> rd (env_text (hand_written @ [[]])) k = None"
proof -
  have "written_value ([QUOTE] @ ''ab cd'' @ [QUOTE]) = ''ab cd''" by (simp add: written_value_def)
  then show "rd (env_text (hand_written @ [[]])) ''SMTP_HOST'' = Some ''mail.example''"
    "rd (env_text (hand_written @ [[]])) ''SMTP_PASSWORD'' = Some ''ab cd''"
    "\<And>k. k \<notin> {''SMTP_HOST'', ''SMTP_PASSWORD'', ''SMTP_FROM_NAME''} \<Longrightarrow> rd (env_text (hand_written @ [[]])) k = None"
    by (simp_all add: read_lines [OF assms hand_written_readable] hand_written_pairs written_value_def)
qed

theorem smtp_settings_survive_force_witness:
  "\<exists>new. generate_dev_env True (draw_secrets (ref_pem, ref_pem) ''t'' (\<lambda>_. replicate 48 0))
        [AUTH_ENV \<mapsto> env_text (hand_written @ [[]])] AUTH_ENV = Some new \<and>
     ref_dotenv new ''SMTP_HOST'' = Some ''mail.example'' \<and> ref_dotenv new ''SMTP_PASSWORD'' = Some ''ab cd'' \<and>
     ref_dotenv new ''SMTP_FROM_NAME'' = None \<and> ref_dotenv new ''SMTP_PORT'' = Some ''587''"
proof -
  let ?d = "draw_secrets (ref_pem, ref_pem) ''t'' (\<lambda>_. replicate 48 0)" and ?fs = "[AUTH_ENV \<mapsto> env_text (hand_written @ [[]])]"
  obtain new where new: "generate_dev_env True ?d ?fs AUTH_ENV = Some new" by (simp add: generated_auth_env)
  note old = hand_written_read [OF ref_dotenv_reader]
  have mail: "\<forall>k \<in> {''SMTP_HOST'', ''SMTP_PORT'', ''SMTP_USERNAME'', ''SMTP_PASSWORD'', ''SMTP_USE_TLS'', ''SMTP_FROM_EMAIL''}.
      \<forall>v. ref_dotenv (env_text (hand_written @ [[]])) k = Some v \<longrightarrow> plain_value v \<and> unquoted v = v"
    using old hand_written_values by simp
  have fresh: "ref_dotenv (env_text (dev_auth_env_lines ?d)) ''SMTP_FROM_NAME'' = None"
    "ref_dotenv (env_text (dev_auth_env_lines ?d)) ''SMTP_PORT'' = Some ''587''"
    by (simp_all add: dev_env_maps(1) [OF ref_dotenv_reader ref_draw_usable] dev_auth_texts written_value_def)
  note keep = smtp_settings_survive_force [OF ref_dotenv_reader ref_draw_usable _ hand_written_readable mail new]
  have old_file: "?fs AUTH_ENV = Some (env_text (hand_written @ [[]]))" by simp
  show ?thesis
    using keep [OF old_file, rule_format] new old fresh by (intro exI [of _ new]) simp
qed

theorem generated_stack_starts_witness:
  "\<exists>a sa. generate_dev_env False (draw_secrets (ref_pem, ref_pem) ''t'' (\<lambda>_. replicate 48 0)) Map.empty AUTH_ENV = Some a \<and>
     auth_settings_from_env ref_texts (\<lambda>k. k = ''t'') (\<lambda>_. None) (\<lambda>p. p) '''' (ref_dotenv a) = Inr sa \<and>
     service_env sa = ''development'' \<and> jwt_private_key sa = ref_pem"
  using generated_stack_starts [OF refl _ _ _ _ _ _ _ refl ref_dotenv_reader ref_pydantic_texts,
      where pem = "(ref_pem, ref_pem)" and fernet = "''t''" and bytes = "\<lambda>_. replicate 48 0" and fernet_ok = "\<lambda>k. k = ''t''"
        and fs = Map.empty and force = False and rf = "\<lambda>_. None" and resolve = "\<lambda>p. p" and root = "''''"]
    ref_quoted ref_plain(2) generated_base_facts(1)
  by fastforce

end
