(* ===== verification/Spec2Isabelle.thy ===== *)
theory Spec2Isabelle
  imports Auth_Access Totp_Runs Refresh_Reference User_Reference Gateway_Reference Edge_Reference Schema_Reference Settings_Reference
begin

text \<open>
  \<^bold>\<open>The backend platform.\<close> Three HTTP services written in Python and the scripts around them. A browser or a
  client talks to the \<^verbatim>\<open>api-gateway\<close>, which checks access tokens, limits the rate of requests and passes them on;
  the \<^verbatim>\<open>auth-service\<close> registers users, logs them in (password, lock-outs, one-time passwords, backup codes), issues
  access and refresh tokens, rotates and revokes them, and resets passwords by mail; the \<^verbatim>\<open>user-service\<close> keeps
  profiles, roles and permissions. Each service has its own PostgreSQL database; the three share a Redis
  cache (counters, locks, login challenges, marks of revoked sessions). All paths below are under
  \<^verbatim>\<open>src/services/<service>/app/\<close> unless they say otherwise.

  \<^bold>\<open>How code becomes definitions.\<close> A method that touches the database, the cache, the clock or random numbers is a
  program (\<^verbatim>\<open>prog\<close> in \<^verbatim>\<open>Prelude\<close>): a function from the state of the process to a result and the new state,
  where the result is an exception (left) or a value (right). \<^verbatim>\<open>bindE\<close> and \<^verbatim>\<open>thenE\<close> are sequencing, \<^verbatim>\<open>tryE\<close> and
  \<^verbatim>\<open>attempt\<close> are exception handling, \<^verbatim>\<open>whenE\<close> is a guarded statement. A definition has the name of the
  function it models (prefixed where two services or a HOL constant would clash). Pure functions are HOL
  functions. A record field is the attribute of the class.

  \<^bold>\<open>Theories.\<close>

  Shared ground.
  \<^item> \<^verbatim>\<open>Prelude\<close>: programs, the calculus of effects (the locale \<^verbatim>\<open>effect\<close>: a reflexive and transitive relation between
    states, and \<^verbatim>\<open>within R p\<close>: every run of \<^verbatim>\<open>p\<close> stays inside it), updates of rows by key.
  \<^item> \<^verbatim>\<open>Py_String\<close>: the operations of \<^verbatim>\<open>str\<close>, \<^verbatim>\<open>int\<close> and \<^verbatim>\<open>uuid.UUID\<close> the code uses; UUIDs are 128-bit words with
    their text form and parser.
  \<^item> \<^verbatim>\<open>Redis_Store\<close>: the cache as a record of commands with the contracts \<^verbatim>\<open>redis_store\<close> (what a lookup returns
    after a write, expiry included) and \<^verbatim>\<open>redis_live\<close> (the server answers), and a keyspace that satisfies both.
  \<^item> \<^verbatim>\<open>Platform\<close>: exceptions and their HTTP answers (\<^verbatim>\<open>exceptions/\<close>), JSON values, the record \<^verbatim>\<open>extern\<close> of
    third-party functions, the state every process has.
  \<^item> \<^verbatim>\<open>Settings\<close>: \<^verbatim>\<open>core/config.py\<close> of the services: fields, validators in their order, derived properties;
    \<^verbatim>\<open>Settings_Sources\<close>: the classes as lists of fields with their variables and defaults, and \<^verbatim>\<open>Settings()\<close> from an environment.
  \<^item> \<^verbatim>\<open>Codec\<close>: the contracts of PyJWT and of the JSON codec, with a reference codec that satisfies them.
  \<^item> \<^verbatim>\<open>Jwt_Service\<close>, \<^verbatim>\<open>Http_Security\<close>, \<^verbatim>\<open>Http_Shell\<close>, \<^verbatim>\<open>Http_Schema\<close>: tokens; client addresses, bearer tokens, access-token
    checks at the edge and rate limits (one model of the code the three services share); the middlewares, request ids and error
    documents; request bodies.

  The auth-service.
  \<^item> \<^verbatim>\<open>Auth_State\<close>, \<^verbatim>\<open>Auth_Repositories\<close>: tables (\<^verbatim>\<open>models/\<close>) as lists of rows with the unique constraints and widths of
    the migrations; the session as a working copy (\<^verbatim>\<open>db\<close>) beside the \<^verbatim>\<open>committed\<close> tables; every query and statement
    of \<^verbatim>\<open>repositories/\<close>; cache keys.
  \<^item> \<^verbatim>\<open>Audit_Service\<close>, \<^verbatim>\<open>Password_Service\<close>, \<^verbatim>\<open>Brute_Force\<close>, \<^verbatim>\<open>Refresh_Service\<close>, \<^verbatim>\<open>Two_Factor\<close>, \<^verbatim>\<open>Auth_Service\<close>,
    \<^verbatim>\<open>Password_Reset\<close>: the modules of \<^verbatim>\<open>services/\<close> and \<^verbatim>\<open>integrations/\<close>, method by method.
  \<^item> \<^verbatim>\<open>Auth_Api\<close>: schemas, dependencies, endpoints and routes (\<^verbatim>\<open>api/\<close>, \<^verbatim>\<open>schemas/\<close>).
  \<^item> \<^verbatim>\<open>Session_Properties\<close>, \<^verbatim>\<open>Login_Properties\<close>, \<^verbatim>\<open>Guessing\<close>: what logins, refreshes, logouts and wrong guesses do.
  \<^item> \<^verbatim>\<open>Auth_Effects\<close>: the locale \<^verbatim>\<open>auth_effect\<close>: a relation respected by the statements of the repositories is
    respected by every service, endpoint and request. \<^verbatim>\<open>Auth_Invariants\<close> interprets it with the well-formedness and the
    monotonicity of the tables; \<^verbatim>\<open>Auth_Runs\<close> and \<^verbatim>\<open>Auth_Access\<close> conclude for all runs of the service: nothing is lost or
    rewritten, dead tokens and used reset codes stay dead.
  \<^item> \<^verbatim>\<open>Token_Families\<close>: the abstract specification of refresh-token rotation, a small machine of families and tokens;
    \<^verbatim>\<open>Refresh_Refinement\<close> interprets \<^verbatim>\<open>auth_effect\<close> a second time, with the simulation of that machine by the tables, and
    concludes that every run refines it; \<^verbatim>\<open>Refresh_Reference\<close> applies this to a refresh over HTTP.
  \<^item> \<^verbatim>\<open>Totp_Runs\<close>: a third interpretation, in which the recorded time step of an enrolment never goes back, so that no run makes
    a one-time password usable again.
  \<^item> \<^verbatim>\<open>Reference_World\<close>: a concrete instance of every parameter, on which the properties are applied.

  The user-service.
  \<^item> \<^verbatim>\<open>User_State\<close>, \<^verbatim>\<open>User_Service\<close>: tables with foreign keys, repositories, services, endpoints, seeding at start-up.
  \<^item> \<^verbatim>\<open>User_Rbac\<close>, \<^verbatim>\<open>User_Runs\<close>, \<^verbatim>\<open>User_Properties\<close>, \<^verbatim>\<open>User_Reference\<close>: the invariant of the tables, what each endpoint
    commits, the runs of the service and their invariants, a reference run.

  The gateway.
  \<^item> \<^verbatim>\<open>Gateway\<close>: clients, routing, header cleaning, the proxy, the browser endpoints, health and routes.
  \<^item> \<^verbatim>\<open>Gateway_Effects\<close>, \<^verbatim>\<open>Gateway_Properties\<close>, \<^verbatim>\<open>Gateway_Reference\<close>: what it sends upstream, what it relays,
    and how its requests are understood by the auth-service.
  \<^item> \<^verbatim>\<open>Edge_Revocation\<close>, \<^verbatim>\<open>Edge_Reference\<close>: the three services together, what a logout means at each of them.

  Databases and scripts.
  \<^item> \<^verbatim>\<open>Schema_Language\<close>, \<^verbatim>\<open>Migrations\<close>: alembic's operations on a schema, and every revision of
    \<^verbatim>\<open>src/services/*/migrations/versions/\<close> as a list of them.
  \<^item> \<^verbatim>\<open>Orm_Metadata\<close>: the tables the classes of \<^verbatim>\<open>models/\<close> declare, compared with what the migrations build.
  \<^item> \<^verbatim>\<open>Schema_Conformance\<close>, \<^verbatim>\<open>Schema_Reference\<close>: the rows of the user-service against its schema.
  \<^item> \<^verbatim>\<open>Env_Text\<close>, \<^verbatim>\<open>Env_Scripts\<close>: \<^verbatim>\<open>src/infra/scripts/generate_dev_env.py\<close> and
    \<^verbatim>\<open>src/infra/scripts/render_prod_env_from_secrets.py\<close> over a map from paths to texts; \<^verbatim>\<open>Env_Properties\<close>,
    \<^verbatim>\<open>Env_Rendering\<close>, \<^verbatim>\<open>Env_Reference\<close>: what is read back from the files they write.
  \<^item> \<^verbatim>\<open>Env_Settings\<close>, \<^verbatim>\<open>Generated_Settings\<close>, \<^verbatim>\<open>Settings_Reference\<close>: the scripts and the settings together: the files a script
    writes are accepted by the services they are for, and mean the same to all of them.

  \<^bold>\<open>What is shown.\<close> For refresh tokens: single use, rotation, detection of reuse and its containment, logout, and that a
  dead token or family stays dead in every run; all of it together as a refinement of the token families, with at most one
  usable token in each. For logins: what a granted login needed and
  created, lock-outs exactly at the limit, second factors and reset codes that cannot be replayed in any run, password resets. For HTTP: exact rate
  limits, separation of the token types, guarded endpoints, an answer to every request. For the tables of both services:
  integrity in every reachable state, growth, what the audit log stores, types and references as migrated, nobody becomes an administrator. For
  the gateway: what reaches the services and what comes back, refresh tokens that never reach the page, agreement with the
  auth-service over the wire, and the end of a session at all services at once. For the databases: migrations that undo and that build what the models declare. For the scripts: mail
  settings that survive a second run (values that need no quotes), and stacks, generated or rendered, whose services start and agree on tokens, origins and secrets.

  \<^bold>\<open>Runs, bounds and fuel.\<close> A request is an atomic step; the runs of a service (\<^verbatim>\<open>auth_run\<close>, \<^verbatim>\<open>user_run\<close>) are sequences of
  requests and of arbitrary changes of clock and cache between them, for the user-service also of restarts. The modelled code has no
  unbounded loop: recursion is structural, and no fuel is used.

  \<^bold>\<open>Modelling decisions.\<close> A request reads the clock once. UUIDs and random numbers are a stream indexed by the count of draws. SQL
  tables are lists in insertion order; \<^verbatim>\<open>updated_at\<close> columns are omitted; the tables of the auth-service
  carry no foreign keys, those of the user-service do; the migrations are modelled with all constraints. Strings are Latin-1,
  so that a character is a code point below 256; \<^verbatim>\<open>ORDER BY\<close> a name is by code points. HMAC, argon2, Fernet, pyotp, PyJWT, JSON,
  \<^verbatim>\<open>ipaddress\<close>, email validation, SMTP and UUID path converters are fields of \<^verbatim>\<open>extern\<close>, with what the code relies
  on as hypotheses that name it. Bodies are JSON; pydantic's strictness and stripping are modelled, of its errors only the first. FastAPI dependencies run in
  the order of the signature. The failure of the
  log call after a mail that could not be sent is part of the model (an expired attribute of an asynchronous session), other log calls are not. The claims \<^verbatim>\<open>exp\<close>, \<^verbatim>\<open>nbf\<close> and
  \<^verbatim>\<open>iat\<close> of a token are integers (PyJWT also converts numeric texts, which no service writes). A file with a mail password
  decodes as UTF-8. The flag \<^verbatim>\<open>unflushed\<close> of the user-service
  stands for \<^verbatim>\<open>session.new\<close> and \<^verbatim>\<open>session.dirty\<close>. What the services answer to the gateway is a function of all requests sent so far.
  Schema operations refuse what PostgreSQL refuses. The scripts get keys and random bytes as arguments. python-dotenv and
  pydantic's conversions of texts are parameters (\<^verbatim>\<open>dotenv_reader\<close>, \<^verbatim>\<open>pydantic_texts\<close>); the process environment holds nothing
  but the file, and \<^verbatim>\<open>Settings()\<close> reports the first error, malformed texts before failed validators.

  \<^bold>\<open>Not modelled.\<close> The notification-service (one constant endpoint); the package \<^verbatim>\<open>src/shared/python\<close>, which no service imports; readiness endpoints, which only ping the
  database and the cache; CORS, the process-time header, log records and their formatting; the static user interface, the web client and the documentation pages of the
  gateway; the creation of engines and clients at start-up and alembic's glue (\<^verbatim>\<open>lifecycle.py\<close>, \<^verbatim>\<open>migrations/env.py\<close>); what the
  scripts print. Concurrent requests inside one service are serialised.
\<close>

end
